(* ===== verification/Prelude.thy ===== *)
theory Prelude
  imports Main "HOL-Library.Word" "HOL-Library.Multiset"
begin

text \<open>
  Shared vocabulary of the development: the machine integers of the Rust code as words, instants,
  the list operations that the queues perform (\<open>VecDeque\<close> lookups by predicate, ordered insertion,
  in-place update of the first match) and the named collections the component proofs use.
\<close>

section \<open>Machine integers and instants\<close>

text \<open>
  Rust integers keep their width. Unsigned addition and multiplication are written with the word
  operations, which wrap: this is the release build (the workspace sets no overflow checks), and
  the lemmas that need absence of overflow say so through \<open>unat\<close>.
\<close>

type_synonym u8 = "8 word"
type_synonym u32 = "32 word"
type_synonym u64 = "64 word"
type_synonym u128 = "128 word"
type_synonym u160 = "160 word"
type_synonym u256 = "256 word"

text \<open>A \<open>DateTime<Utc>\<close> or \<open>SystemTime\<close>: nanoseconds since the epoch.\<close>

type_synonym instant = int

text \<open>
  \<open>(a - b).num_milliseconds() as u64\<close>: chrono truncates towards zero, and the cast of the \<open>i64\<close>
  to \<open>u64\<close> wraps, so a clock that went backwards gives a huge value.
\<close>

definition elapsed_ms :: "instant \<Rightarrow> instant \<Rightarrow> u64" where
  "elapsed_ms now past =
     (let d = now - past in
      word_of_int (if d < 0 then - ((- d) div 1000000) else d div 1000000))"

named_theorems queue_simps \<open>unfolding rules of the queue operations\<close>
named_theorems db_simps \<open>unfolding rules of the database statements\<close>
named_theorems evidence_intros \<open>preservation of the broadcast evidence\<close>
named_theorems frame_simps \<open>what an operation leaves unchanged\<close>

section \<open>Sums as Rust results\<close>

text \<open>\<open>Inl\<close> is \<open>Err\<close>, \<open>Inr\<close> is \<open>Ok\<close>.\<close>

definition is_ok :: "'e + 'a \<Rightarrow> bool" where
  "is_ok r = (case r of Inl _ \<Rightarrow> False | Inr _ \<Rightarrow> True)"

definition ok_or :: "'e \<Rightarrow> 'a option \<Rightarrow> 'e + 'a" where
  "ok_or e r = (case r of None \<Rightarrow> Inl e | Some x \<Rightarrow> Inr x)"

definition map_err :: "('e \<Rightarrow> 'f) \<Rightarrow> 'e + 'a \<Rightarrow> 'f + 'a" where
  "map_err f r = (case r of Inl e \<Rightarrow> Inl (f e) | Inr x \<Rightarrow> Inr x)"

definition and_then :: "'e + 'a \<Rightarrow> ('a \<Rightarrow> 'e + 'b) \<Rightarrow> 'e + 'b" where
  "and_then r k = (case r of Inl e \<Rightarrow> Inl e | Inr x \<Rightarrow> k x)"

lemma is_ok_simps [simp]: "\<not> is_ok (Inl e)" "is_ok (Inr x)"
  by (simp_all add: is_ok_def)

lemma ok_or_simps [simp]: "ok_or e None = Inl e" "ok_or e (Some x) = Inr x"
  by (simp_all add: ok_or_def)

lemma map_err_simps [simp]: "map_err f (Inl e) = Inl (f e)" "map_err f (Inr x) = Inr x"
  by (simp_all add: map_err_def)

lemma map_err_Inr [simp]: "(map_err f r = Inr x) = (r = Inr x)"
  by (cases r) simp_all

lemma and_then_simps [simp]: "and_then (Inl e) k = Inl e" "and_then (Inr x) k = k x"
  by (simp_all add: and_then_def)

lemma and_then_Inr: "(and_then r k = Inr y) = (\<exists>x. r = Inr x \<and> k x = Inr y)"
  by (cases r) simp_all

lemma Inr_and_then: "(Inr y = and_then r k) = (\<exists>x. r = Inr x \<and> k x = Inr y)"
  by (cases r) auto

section \<open>Queue operations on lists\<close>

text \<open>\<open>iter_mut().find(p)\<close> followed by an assignment: only the first match changes.\<close>

fun update_first :: "('a \<Rightarrow> bool) \<Rightarrow> ('a \<Rightarrow> 'a) \<Rightarrow> 'a list \<Rightarrow> 'a list" where
  "update_first P f [] = []"
| "update_first P f (x # xs) = (if P x then f x # xs else x # update_first P f xs)"

text \<open>\<open>iter().position(p)\<close> followed by \<open>remove\<close>.\<close>

fun remove_first :: "('a \<Rightarrow> bool) \<Rightarrow> 'a list \<Rightarrow> 'a list" where
  "remove_first P [] = []"
| "remove_first P (x # xs) = (if P x then xs else x # remove_first P xs)"

text \<open>\<open>position(p).unwrap_or(len)\<close> followed by \<open>insert\<close>.\<close>

fun insert_before :: "('a \<Rightarrow> bool) \<Rightarrow> 'a \<Rightarrow> 'a list \<Rightarrow> 'a list" where
  "insert_before P x [] = [x]"
| "insert_before P x (y # ys) = (if P y then x # y # ys else y # insert_before P x ys)"

lemma length_update_first [simp]: "length (update_first P f xs) = length xs"
  by (induction xs) auto

lemma update_first_map_id:
  "(\<And>x. x \<in> set xs \<Longrightarrow> P x \<Longrightarrow> g (f x) = g x) \<Longrightarrow> map g (update_first P f xs) = map g xs"
  by (induction xs) auto

lemma update_first_map_find:
  "find P xs = Some u \<Longrightarrow> g (f u) = g u \<Longrightarrow> map g (update_first P f xs) = map g xs"
  by (induction xs) (auto split: if_splits)

lemma update_first_id: "(\<forall>x \<in> set xs. \<not> P x) \<Longrightarrow> update_first P f xs = xs"
  by (induction xs) auto

lemma set_update_first_subset: "set (update_first P f xs) \<subseteq> set xs \<union> f ` {x \<in> set xs. P x}"
  by (induction xs) auto

lemma mset_insert_before [simp]: "mset (insert_before P x xs) = add_mset x (mset xs)"
  by (induction xs) auto

lemma set_insert_before [simp]: "set (insert_before P x xs) = insert x (set xs)"
  by (induction xs) auto

lemma length_insert_before [simp]: "length (insert_before P x xs) = Suc (length xs)"
  by (induction xs) auto

lemma sorted_insert_before:
  fixes key :: "'a \<Rightarrow> 'b::linorder"
  assumes "sorted (map key xs)"
  shows "sorted (map key (insert_before (\<lambda>y. key x < key y) x xs))"
  using assms by (induction xs) auto

lemma set_remove_first_subset: "set (remove_first P xs) \<subseteq> set xs"
  by (induction xs) auto

lemma sorted_remove_first:
  "sorted (map key xs) \<Longrightarrow> sorted (map key (remove_first P xs))"
  by (induction xs) (auto dest!: set_remove_first_subset [THEN subsetD])

lemma distinct_remove_first:
  "distinct (map g xs) \<Longrightarrow> distinct (map g (remove_first P xs))"
  by (induction xs) (auto dest!: set_remove_first_subset [THEN subsetD])

lemma find_None_append: "find P xs = None \<Longrightarrow> find P (xs @ ys) = find P ys"
  by (induction xs) (auto split: if_splits)

lemma find_SomeD: "find P xs = Some x \<Longrightarrow> x \<in> set xs \<and> P x"
  by (induction xs) (auto split: if_splits)

section \<open>Lower-case and substring tests\<close>

text \<open>
  \<open>str::to_lowercase\<close> on the ASCII letters, the only ones in the node messages the queue matches.
\<close>

definition to_lower :: "char \<Rightarrow> char" where
  "to_lower c = (let n = (of_char c :: nat) in if 65 \<le> n \<and> n \<le> 90 then char_of (n + 32) else c)"

definition to_lowercase :: "string \<Rightarrow> string" where
  "to_lowercase s = map to_lower s"

fun str_contains :: "string \<Rightarrow> string \<Rightarrow> bool" where
  "str_contains [] p = (p = [])"
| "str_contains (c # s) p = (take (length p) (c # s) = p \<or> str_contains s p)"

lemma str_contains_iff: "str_contains s p = (\<exists>a b. s = a @ p @ b)"
proof (induction s)
  case Nil
  then show ?case by simp
next
  case (Cons c s)
  have "(take (length p) (c # s) = p) = (\<exists>b. c # s = p @ b)"
    by (metis append_eq_conv_conj append_take_drop_id)
  moreover have "(\<exists>a b. c # s = a @ p @ b) = ((\<exists>b. c # s = p @ b) \<or> (\<exists>a b. s = a @ p @ b))"
    by (metis Cons_eq_append_conv append_Cons)
  ultimately show ?case using Cons.IH by simp
qed

lemma str_contains_appendI: "str_contains (a @ p @ b) p"
  by (auto simp: str_contains_iff)

section \<open>Big-endian bytes\<close>

text \<open>\<open>to_be_bytes\<close>: the \<open>n\<close> bytes of a word, the most significant first.\<close>

definition be_bytes :: "nat \<Rightarrow> 'a::len word \<Rightarrow> u8 list" where
  "be_bytes n w = map (\<lambda>i. ucast (drop_bit (8 * (n - 1 - i)) w)) [0..<n]"

lemma length_be_bytes [simp]: "length (be_bytes n w) = n"
  by (simp add: be_bytes_def)

lemma be_bytes_inject:
  fixes v w :: "'a::len word"
  assumes n: "LENGTH('a) = 8 * n" and eq: "be_bytes n v = be_bytes n w"
  shows "v = w"
proof (rule bit_word_eqI)
  fix k
  assume k: "k < LENGTH('a)"
  have split: "8 * (k div 8) + k mod 8 = k" by simp
  have d: "k div 8 < n" using k n by (simp add: less_mult_imp_div_less)
  define i where "i = n - 1 - k div 8"
  have i: "i < n" "n - 1 - i = k div 8" using d by (auto simp: i_def)
  have "be_bytes n v ! i = be_bytes n w ! i" using eq by simp
  then have "(ucast (drop_bit (8 * (k div 8)) v) :: u8) = ucast (drop_bit (8 * (k div 8)) w)"
    using i by (simp add: be_bytes_def)
  then have "bit (ucast (drop_bit (8 * (k div 8)) v) :: u8) (k mod 8) =
             bit (ucast (drop_bit (8 * (k div 8)) w) :: u8) (k mod 8)" by simp
  then show "bit v k = bit w k"
    using split by (simp add: bit_simps del: div_mult_mod_eq)
qed

end
