(* ===== verification/Tx_Types.thy ===== *)
theory Tx_Types
  imports Prelude
begin

text \<open>
  The data of the transaction core: statuses and speeds with their SQL encodings, identifiers,
  gas prices, the \<open>Transaction\<close> record (crates/core/src/transaction/types), the relayer, the
  competitive pair kept in the mempool queue, the bump configuration and the typed transactions
  that are signed.
\<close>

section \<open>Statuses and speeds\<close>

datatype transaction_status =
    PENDING | INMEMPOOL | MINED | CONFIRMED | FAILED | EXPIRED | CANCELLED | DROPPED | REPLACED

datatype transaction_speed = SLOW | MEDIUM | FAST | SUPER

fun next_speed :: "transaction_speed \<Rightarrow> transaction_speed option" where
  "next_speed SLOW = Some MEDIUM"
| "next_speed MEDIUM = Some FAST"
| "next_speed FAST = Some SUPER"
| "next_speed SUPER = None"

text \<open>Speeds in the order of escalation.\<close>

fun speed_rank :: "transaction_speed \<Rightarrow> nat" where
  "speed_rank SLOW = 0"
| "speed_rank MEDIUM = 1"
| "speed_rank FAST = 2"
| "speed_rank SUPER = 3"

instantiation transaction_speed :: linorder
begin

definition less_eq_transaction_speed :: "transaction_speed \<Rightarrow> transaction_speed \<Rightarrow> bool" where
  "less_eq_transaction_speed a b = (speed_rank a \<le> speed_rank b)"

definition less_transaction_speed :: "transaction_speed \<Rightarrow> transaction_speed \<Rightarrow> bool" where
  "less_transaction_speed a b = (speed_rank a < speed_rank b)"

instance
proof
  fix x y z :: transaction_speed
  show "(x < y) = (x \<le> y \<and> \<not> y \<le> x)"
    by (auto simp: less_transaction_speed_def less_eq_transaction_speed_def)
  show "x \<le> x" by (simp add: less_eq_transaction_speed_def)
  show "x \<le> y \<Longrightarrow> y \<le> z \<Longrightarrow> x \<le> z" by (simp add: less_eq_transaction_speed_def)
  show "x \<le> y \<Longrightarrow> y \<le> x \<Longrightarrow> x = y"
    by (cases x; cases y) (simp_all add: less_eq_transaction_speed_def)
  show "x \<le> y \<or> y \<le> x" by (auto simp: less_eq_transaction_speed_def)
qed

end

lemma next_speed_less: "next_speed s = Some s' \<Longrightarrow> s < s'"
  by (cases s) (auto simp: less_transaction_speed_def)

lemma le_SUPER [simp]: "s \<le> SUPER"
  by (cases s) (simp_all add: less_eq_transaction_speed_def)

lemma next_speed_None [simp]: "(next_speed s = None) = (s = SUPER)"
  by (cases s) simp_all

subsection \<open>SQL encoding\<close>

text \<open>
  The Postgres types the \<open>FromSql\<close> implementations distinguish, the errors they return and the
  decoder. The argument is the result of \<open>from_utf8\<close> on the raw column: \<open>None\<close> for invalid UTF-8.
\<close>

datatype pg_type = PgNamed string | PgText | PgChar | PgVarchar | PgBpchar

datatype sql_error = InvalidUtf8 | UnknownLabel string | UnexpectedType

fun pg_textual :: "pg_type \<Rightarrow> bool" where
  "pg_textual (PgNamed _) = False"
| "pg_textual _ = True"

fun status_label :: "transaction_status \<Rightarrow> string" where
  "status_label PENDING = ''PENDING''"
| "status_label INMEMPOOL = ''INMEMPOOL''"
| "status_label MINED = ''MINED''"
| "status_label CONFIRMED = ''CONFIRMED''"
| "status_label FAILED = ''FAILED''"
| "status_label EXPIRED = ''EXPIRED''"
| "status_label CANCELLED = ''CANCELLED''"
| "status_label DROPPED = ''DROPPED''"
| "status_label REPLACED = ''REPLACED''"

definition status_of_label :: "string \<Rightarrow> sql_error + transaction_status" where
  "status_of_label s =
     (if s = ''PENDING'' then Inr PENDING
      else if s = ''INMEMPOOL'' then Inr INMEMPOOL
      else if s = ''MINED'' then Inr MINED
      else if s = ''CONFIRMED'' then Inr CONFIRMED
      else if s = ''FAILED'' then Inr FAILED
      else if s = ''EXPIRED'' then Inr EXPIRED
      else if s = ''CANCELLED'' then Inr CANCELLED
      else if s = ''DROPPED'' then Inr DROPPED
      else if s = ''REPLACED'' then Inr REPLACED
      else Inl (UnknownLabel s))"

definition status_from_sql :: "pg_type \<Rightarrow> string option \<Rightarrow> sql_error + transaction_status" where
  "status_from_sql ty raw =
     (if ty = PgNamed ''tx_status'' \<or> pg_textual ty
      then (case raw of None \<Rightarrow> Inl InvalidUtf8 | Some s \<Rightarrow> status_of_label s)
      else Inl UnexpectedType)"

definition status_accepts :: "pg_type \<Rightarrow> bool" where
  "status_accepts ty = (pg_textual ty \<or> ty = PgNamed ''tx_status'')"

definition status_to_sql :: "pg_type \<Rightarrow> transaction_status \<Rightarrow> sql_error + string" where
  "status_to_sql ty s = (if \<not> status_accepts ty then Inl UnexpectedType else Inr (status_label s))"

fun speed_label :: "transaction_speed \<Rightarrow> string" where
  "speed_label SLOW = ''SLOW''"
| "speed_label MEDIUM = ''MEDIUM''"
| "speed_label FAST = ''FAST''"
| "speed_label SUPER = ''SUPER''"

definition speed_of_label :: "string \<Rightarrow> sql_error + transaction_speed" where
  "speed_of_label s =
     (if s = ''SLOW'' then Inr SLOW
      else if s = ''MEDIUM'' then Inr MEDIUM
      else if s = ''FAST'' then Inr FAST
      else if s = ''SUPER'' then Inr SUPER
      else Inl (UnknownLabel s))"

definition speed_from_sql :: "pg_type \<Rightarrow> string option \<Rightarrow> sql_error + transaction_speed" where
  "speed_from_sql ty raw =
     (if ty = PgNamed ''speed'' \<or> pg_textual ty
      then (case raw of None \<Rightarrow> Inl InvalidUtf8 | Some s \<Rightarrow> speed_of_label s)
      else Inl UnexpectedType)"

definition speed_accepts :: "pg_type \<Rightarrow> bool" where
  "speed_accepts ty = (pg_textual ty \<or> ty = PgNamed ''speed'')"

definition speed_to_sql :: "pg_type \<Rightarrow> transaction_speed \<Rightarrow> sql_error + string" where
  "speed_to_sql ty s = (if \<not> speed_accepts ty then Inl UnexpectedType else Inr (speed_label s))"

lemma status_of_label_label [simp]: "status_of_label (status_label s) = Inr s"
  by (cases s) (simp_all add: status_of_label_def)

lemma speed_of_label_label [simp]: "speed_of_label (speed_label s) = Inr s"
  by (cases s) (simp_all add: speed_of_label_def)

lemma status_label_of_label: "status_of_label l = Inr s \<Longrightarrow> status_label s = l"
  by (auto simp: status_of_label_def split: if_splits)

lemma speed_label_of_label: "speed_of_label l = Inr s \<Longrightarrow> speed_label s = l"
  by (auto simp: speed_of_label_def split: if_splits)

section \<open>Identifiers and payloads\<close>

text \<open>
  Uuids are 128 bits, addresses 160, hashes and values 256; a chain id and a nonce are \<open>u64\<close>. A
  blob is its bytes; a failed RPC call or signature is known to the queue by its displayed message.
\<close>

type_synonym transaction_id = u128
type_synonym relayer_id = u128
type_synonym evm_address = u160
type_synonym transaction_hash = u256
type_synonym transaction_nonce = u64
type_synonym chain_id = u64
type_synonym transaction_data = "u8 list"
type_synonym transaction_blob = "u8 list"
type_synonym rpc_error = string

section \<open>Gas prices\<close>

record gas_price_result =
  gp_max_priority_fee :: u128
  gp_max_fee :: u128
  gp_min_wait_time_estimate :: "int option"
  gp_max_wait_time_estimate :: "int option"

definition legacy_gas_price :: "gas_price_result \<Rightarrow> u128" where
  "legacy_gas_price g = gp_max_fee g"

record gas_estimator_result =
  ge_slow :: gas_price_result
  ge_medium :: gas_price_result
  ge_fast :: gas_price_result
  ge_super_fast :: gas_price_result

record blob_gas_price_result =
  bg_blob_gas_price :: u128
  bg_total_fee_for_blob :: u128

record blob_gas_estimator_result =
  be_super_fast :: blob_gas_price_result
  be_fast :: blob_gas_price_result
  be_medium :: blob_gas_price_result
  be_slow :: blob_gas_price_result
  be_base_fee_per_blob_gas :: u128
  be_timestamp :: u64

section \<open>Transactions\<close>

record transaction =
  tx_id :: transaction_id
  tx_relayer_id :: relayer_id
  tx_to :: evm_address
  tx_from :: evm_address
  tx_value :: u256
  tx_data :: transaction_data
  tx_nonce :: transaction_nonce
  tx_chain_id :: chain_id
  tx_gas_limit :: "u128 option"
  tx_status :: transaction_status
  tx_blobs :: "transaction_blob list option"
  tx_known_transaction_hash :: "transaction_hash option"
  tx_queued_at :: instant
  tx_expires_at :: instant
  tx_sent_at :: "instant option"
  tx_confirmed_at :: "instant option"
  tx_sent_with_gas :: "gas_price_result option"
  tx_sent_with_blob_gas :: "blob_gas_price_result option"
  tx_mined_at :: "instant option"
  tx_mined_at_block_number :: "u64 option"
  tx_speed :: transaction_speed
  tx_sent_with_max_priority_fee_per_gas :: "u128 option"
  tx_sent_with_max_fee_per_gas :: "u128 option"
  tx_is_noop :: bool
  tx_external_id :: "string option"
  tx_cancelled_by_transaction_id :: "transaction_id option"
  tx_failed_reason :: "string option"

definition has_been_sent_before :: "transaction \<Rightarrow> bool" where
  "has_been_sent_before tx = (tx_sent_at tx \<noteq> None)"

definition is_blob_transaction :: "transaction \<Rightarrow> bool" where
  "is_blob_transaction tx = (tx_blobs tx \<noteq> None)"

definition has_expired :: "instant \<Rightarrow> transaction \<Rightarrow> bool" where
  "has_expired now tx = (tx_expires_at tx < now)"

record transaction_sent_with_relayer =
  ts_id :: transaction_id
  ts_hash :: transaction_hash
  ts_sent_with_gas :: gas_price_result
  ts_sent_with_blob_gas :: "blob_gas_price_result option"

record transaction_to_send =
  tts_id :: transaction_id
  tts_speed :: transaction_speed
  tts_to :: evm_address
  tts_value :: u256
  tts_data :: transaction_data
  tts_blobs :: "transaction_blob list option"
  tts_external_id :: "string option"

text \<open>\<open>TransactionToSend::new\<close>; the fresh uuid is an argument.\<close>

definition new_transaction_to_send ::
  "transaction_id \<Rightarrow> evm_address \<Rightarrow> u256 \<Rightarrow> transaction_data \<Rightarrow> transaction_speed option \<Rightarrow>
   transaction_blob list option \<Rightarrow> string option \<Rightarrow> transaction_to_send" where
  "new_transaction_to_send fresh to v d sp blobs ext =
     \<lparr> tts_id = fresh,
       tts_speed = (case sp of None \<Rightarrow> FAST | Some s \<Rightarrow> s),
       tts_to = to, tts_value = v, tts_data = d, tts_blobs = blobs, tts_external_id = ext \<rparr>"

text \<open>The body of a relay request; the blobs are still hexadecimal strings.\<close>

record relay_request =
  rq_to :: evm_address
  rq_value :: u256
  rq_data :: transaction_data
  rq_speed :: "transaction_speed option"
  rq_external_id :: "string option"
  rq_blobs :: "string list option"

section \<open>Typed transactions\<close>

record typed_fields =
  tf_to :: evm_address
  tf_value :: u256
  tf_input :: transaction_data
  tf_gas_limit :: u64
  tf_nonce :: u64
  tf_chain_id :: u64

text \<open>
  \<open>TypedTransaction\<close>: the fee fields follow the common ones. A blob transaction carries the
  versioned hashes of its sidecar.
\<close>

datatype typed_transaction =
    Eip1559 typed_fields (eip_priority: u128) (eip_max_fee: u128)
  | Legacy typed_fields (legacy_price: u128)
  | Eip4844 typed_fields u128 u128 (blob_fee: u128) (versioned_hashes: "u256 list")

fun typed_fields_of :: "typed_transaction \<Rightarrow> typed_fields" where
  "typed_fields_of (Eip1559 f _ _) = f"
| "typed_fields_of (Legacy f _) = f"
| "typed_fields_of (Eip4844 f _ _ _ _) = f"

datatype conversion_error =
    NoGasPrice | NoBlobGasPrice | NoBlobs | BlobSidecarBuild string | NoGasLimit

definition common_fields :: "transaction \<Rightarrow> u128 \<Rightarrow> typed_fields" where
  "common_fields tx limit =
     \<lparr> tf_to = tx_to tx, tf_value = tx_value tx, tf_input = tx_data tx,
       tf_gas_limit = ucast limit, tf_nonce = tx_nonce tx, tf_chain_id = tx_chain_id tx \<rparr>"

definition override_or :: "'e \<Rightarrow> 'a option \<Rightarrow> 'a option \<Rightarrow> 'e + 'a" where
  "override_or e over own = (case over of Some x \<Rightarrow> Inr x | None \<Rightarrow> ok_or e own)"

definition to_eip1559_typed_transaction_with_gas_limit ::
  "transaction \<Rightarrow> gas_price_result option \<Rightarrow> u128 option \<Rightarrow> conversion_error + typed_transaction" where
  "to_eip1559_typed_transaction_with_gas_limit tx over_price over_limit =
     and_then (override_or NoGasPrice over_price (tx_sent_with_gas tx)) (\<lambda>g.
     and_then (override_or NoGasLimit over_limit (tx_gas_limit tx)) (\<lambda>limit.
       Inr (Eip1559 (common_fields tx limit) (gp_max_priority_fee g) (gp_max_fee g))))"

definition to_legacy_typed_transaction_with_gas_limit ::
  "transaction \<Rightarrow> gas_price_result option \<Rightarrow> u128 option \<Rightarrow> conversion_error + typed_transaction" where
  "to_legacy_typed_transaction_with_gas_limit tx over_price over_limit =
     and_then (override_or NoGasPrice over_price (tx_sent_with_gas tx)) (\<lambda>g.
     and_then (override_or NoGasLimit over_limit (tx_gas_limit tx)) (\<lambda>limit.
       Inr (Legacy (common_fields tx limit) (legacy_gas_price g))))"

text \<open>
  Building the blob sidecar is the KZG code of the alloy crate: a parameter, from the blobs to the
  versioned hashes or the displayed error.
\<close>

definition to_blob_typed_transaction_with_gas_limit ::
  "(transaction_blob list \<Rightarrow> string + u256 list) \<Rightarrow> transaction \<Rightarrow> gas_price_result option \<Rightarrow>
   blob_gas_price_result option \<Rightarrow> u128 option \<Rightarrow> conversion_error + typed_transaction" where
  "to_blob_typed_transaction_with_gas_limit sidecar tx over_price over_blob over_limit =
     and_then (override_or NoGasPrice over_price (tx_sent_with_gas tx)) (\<lambda>g.
     and_then (override_or NoBlobGasPrice over_blob (tx_sent_with_blob_gas tx)) (\<lambda>b.
     and_then (ok_or NoBlobs (tx_blobs tx)) (\<lambda>blobs.
     and_then (map_err BlobSidecarBuild (sidecar blobs)) (\<lambda>hashes.
     and_then (override_or NoGasLimit over_limit (tx_gas_limit tx)) (\<lambda>limit.
       Inr (Eip4844 (common_fields tx limit) (gp_max_priority_fee g) (gp_max_fee g)
              (bg_blob_gas_price b) hashes))))))"

definition to_eip1559_typed_transaction ::
  "transaction \<Rightarrow> gas_price_result option \<Rightarrow> conversion_error + typed_transaction" where
  "to_eip1559_typed_transaction tx over_price =
     to_eip1559_typed_transaction_with_gas_limit tx over_price None"

definition to_legacy_typed_transaction ::
  "transaction \<Rightarrow> gas_price_result option \<Rightarrow> conversion_error + typed_transaction" where
  "to_legacy_typed_transaction tx over_price =
     to_legacy_typed_transaction_with_gas_limit tx over_price None"

definition to_blob_typed_transaction ::
  "(transaction_blob list \<Rightarrow> string + u256 list) \<Rightarrow> transaction \<Rightarrow> gas_price_result option \<Rightarrow>
   blob_gas_price_result option \<Rightarrow> conversion_error + typed_transaction" where
  "to_blob_typed_transaction sidecar tx over_price over_blob =
     to_blob_typed_transaction_with_gas_limit sidecar tx over_price over_blob None"

lemma override_or_Some [simp]: "override_or e (Some x) own = Inr x"
  by (simp add: override_or_def)

lemma override_or_None [simp]: "override_or e None own = ok_or e own"
  by (simp add: override_or_def)

text \<open>Every conversion keeps the nonce, the recipient and the chain of the transaction.\<close>

lemma common_fields_simps [simp]:
  "tf_nonce (common_fields tx l) = tx_nonce tx"
  "tf_to (common_fields tx l) = tx_to tx"
  "tf_value (common_fields tx l) = tx_value tx"
  "tf_input (common_fields tx l) = tx_data tx"
  "tf_chain_id (common_fields tx l) = tx_chain_id tx"
  by (simp_all add: common_fields_def)

lemma eip1559_fields:
  "to_eip1559_typed_transaction_with_gas_limit tx p l = Inr t \<Longrightarrow>
     \<exists>limit. typed_fields_of t = common_fields tx limit"
  by (auto simp: to_eip1559_typed_transaction_with_gas_limit_def and_then_Inr)

lemma legacy_fields:
  "to_legacy_typed_transaction_with_gas_limit tx p l = Inr t \<Longrightarrow>
     \<exists>limit. typed_fields_of t = common_fields tx limit"
  by (auto simp: to_legacy_typed_transaction_with_gas_limit_def and_then_Inr)

lemma blob_fields:
  "to_blob_typed_transaction_with_gas_limit sc tx p b l = Inr t \<Longrightarrow>
     \<exists>limit. typed_fields_of t = common_fields tx limit"
  by (auto simp: to_blob_typed_transaction_with_gas_limit_def and_then_Inr)

lemmas typed_conversion_fields = eip1559_fields legacy_fields blob_fields

section \<open>Relayers and bump configuration\<close>

record relayer =
  rl_id :: relayer_id
  rl_name :: string
  rl_chain_id :: chain_id
  rl_cloned_from_chain_id :: "chain_id option"
  rl_address :: evm_address
  rl_wallet_index :: int
  rl_max_gas_price :: "u128 option"
  rl_paused :: bool
  rl_eip_1559_enabled :: bool
  rl_created_at :: instant
  rl_is_private_key :: bool

record gas_bump_block_config =
  gb_slow :: u64
  gb_medium :: u64
  gb_fast :: u64
  gb_super_fast :: u64

definition default_gas_bump_block_config :: gas_bump_block_config where
  "default_gas_bump_block_config =
     \<lparr> gb_slow = 10, gb_medium = 6, gb_fast = 4, gb_super_fast = 2 \<rparr>"

fun blocks_to_wait_before_bump :: "gas_bump_block_config \<Rightarrow> transaction_speed \<Rightarrow> u64" where
  "blocks_to_wait_before_bump c SLOW = gb_slow c"
| "blocks_to_wait_before_bump c MEDIUM = gb_medium c"
| "blocks_to_wait_before_bump c FAST = gb_fast c"
| "blocks_to_wait_before_bump c SUPER = gb_super_fast c"

end
