(* ===== verification/Send_Errors.thy ===== *)
theory Send_Errors
  imports Tx_Types
begin

text \<open>
  The classification of a node's send and estimation errors
  (\<open>classify_send_error\<close> in queue_system/transactions_queue.rs), the errors of a queue send, and the
  narrower nonce test that the cancel and replace handlers use instead.
\<close>

datatype send_error_class =
    InsufficientFunds | PermanentRejection | AlreadyKnown | NonceConflict | Underpriced | Transient

definition permanent_patterns :: "string list" where
  "permanent_patterns =
     [''execution reverted'', ''invalid opcode'', ''intrinsic gas too low'',
      ''exceeds block gas limit'', ''oversized data'', ''max initcode size exceeded'',
      ''maxtxsizeexceeded'']"

definition already_known_patterns :: "string list" where
  "already_known_patterns =
     [''already known'', ''alreadyknown'', ''known transaction'', ''already imported'']"

definition nonce_conflict_patterns :: "string list" where
  "nonce_conflict_patterns =
     [''nonce too low'', ''nonce is too low'', ''invalid nonce'',
      ''nonce has already been used'', ''oldnonce'']"

definition insufficient_funds_patterns :: "string list" where
  "insufficient_funds_patterns =
     [''insufficient funds'', ''insufficientfunds'', ''gas required exceeds allowance'',
      ''overshot'']"

definition underpriced_patterns :: "string list" where
  "underpriced_patterns = [''underpriced'', ''feetoolow'']"

definition mentions :: "string list \<Rightarrow> string \<Rightarrow> bool" where
  "mentions ps msg = list_ex (str_contains msg) ps"

definition classify_send_error :: "string \<Rightarrow> send_error_class" where
  "classify_send_error msg =
     (if mentions permanent_patterns msg then PermanentRejection
      else if mentions already_known_patterns msg then AlreadyKnown
      else if mentions nonce_conflict_patterns msg then NonceConflict
      else if mentions insufficient_funds_patterns msg then InsufficientFunds
      else if mentions underpriced_patterns msg then Underpriced
      else Transient)"

text \<open>The inline test of \<open>cancel_transaction\<close> and \<open>replace_transaction\<close>.\<close>

definition competitor_nonce_error :: "string \<Rightarrow> bool" where
  "competitor_nonce_error msg =
     mentions [''nonce too low'', ''nonce is too low'', ''invalid nonce'',
               ''nonce has already been used'', ''already known''] msg"

text \<open>The database errors a statement of this system can return.\<close>

datatype db_error =
    UniqueViolation string   \<comment> \<open>the constraint's name\<close>
  | ForeignKeyViolation string
  | DbUnavailable string

datatype gas_price_error = GasCalculationUnavailable | BlobGasCalculationUnavailable | NoLastSentGas

datatype send_error =
    GasPriceTooHigh
  | GasCalculationError
  | TransactionSendError string
  | CouldNotUpdateTransactionDb db_error
  | SendTransactionGasPriceError gas_price_error
  | TransactionEstimateGasError rpc_error
  | TransactionConversionError string
  | SafeProxyError string
  | NoTransactionInQueue

lemma mentions_iff: "mentions ps msg = (\<exists>p \<in> set ps. \<exists>a b. msg = a @ p @ b)"
  by (simp add: mentions_def list_ex_iff str_contains_iff)

lemma mentionsI: "p \<in> set ps \<Longrightarrow> mentions ps (a @ p @ b)"
  by (auto simp: mentions_iff)

lemma classify_permanent_iff [simp]:
  "(classify_send_error msg = PermanentRejection) = mentions permanent_patterns msg"
  by (simp add: classify_send_error_def)

lemma classify_nonce_conflict_iff:
  "(classify_send_error msg = NonceConflict) =
     (mentions nonce_conflict_patterns msg \<and> \<not> mentions permanent_patterns msg
      \<and> \<not> mentions already_known_patterns msg)"
  by (simp add: classify_send_error_def)

lemma classify_already_known_iff:
  "(classify_send_error msg = AlreadyKnown) =
     (mentions already_known_patterns msg \<and> \<not> mentions permanent_patterns msg)"
  by (simp add: classify_send_error_def)

end
