(* ===== verification/Nonce_Manager.thy ===== *)
theory Nonce_Manager
  imports Send_Errors
begin

text \<open>
  \<open>NonceManager\<close> (crates/core/src/transaction/nonce_manager.rs): one mutex-guarded counter, the
  next free nonce of a relayer. Each method takes the lock once, so each is one function on the
  counter. The addition is \<open>TransactionNonce + 1\<close> on \<open>u64\<close>.
\<close>

section \<open>Operations\<close>

record nonce_manager =
  nm_nonce :: transaction_nonce

definition new_nonce_manager :: "transaction_nonce \<Rightarrow> nonce_manager" where
  "new_nonce_manager n = \<lparr> nm_nonce = n \<rparr>"

definition get_and_increment :: "nonce_manager \<Rightarrow> nonce_manager \<times> transaction_nonce" where
  "get_and_increment m = (m\<lparr> nm_nonce := nm_nonce m + 1 \<rparr>, nm_nonce m)"

definition sync_with_onchain_nonce :: "transaction_nonce \<Rightarrow> nonce_manager \<Rightarrow> nonce_manager" where
  "sync_with_onchain_nonce onchain m =
     (if onchain > nm_nonce m then m\<lparr> nm_nonce := onchain \<rparr> else m)"

definition get_current_nonce :: "nonce_manager \<Rightarrow> transaction_nonce" where
  "get_current_nonce m = nm_nonce m"

definition release_unbroadcast_nonce :: "transaction_nonce \<Rightarrow> nonce_manager \<Rightarrow> nonce_manager" where
  "release_unbroadcast_nonce n m =
     (if nm_nonce m = n + 1 then m\<lparr> nm_nonce := n \<rparr> else m)"

definition advance_after_persisted_reservation ::
  "transaction_nonce \<Rightarrow> nonce_manager \<Rightarrow> nonce_manager" where
  "advance_after_persisted_reservation n m =
     (let next = n + 1 in if next > nm_nonce m then m\<lparr> nm_nonce := next \<rparr> else m)"

lemmas nonce_manager_defs =
  new_nonce_manager_def get_and_increment_def sync_with_onchain_nonce_def get_current_nonce_def
  release_unbroadcast_nonce_def advance_after_persisted_reservation_def

section \<open>Laws\<close>

lemma release_get_and_increment:
  "get_and_increment m = (m', n) \<Longrightarrow> release_unbroadcast_nonce n m' = m"
  by (auto simp: nonce_manager_defs)

lemma sync_max: "nm_nonce (sync_with_onchain_nonce n m) = max n (nm_nonce m)"
  by (auto simp: sync_with_onchain_nonce_def max_def)

lemma advance_max: "nm_nonce (advance_after_persisted_reservation n m) = max (n + 1) (nm_nonce m)"
  by (auto simp: advance_after_persisted_reservation_def Let_def max_def)

lemma sync_idem:
  "sync_with_onchain_nonce n (sync_with_onchain_nonce n m) = sync_with_onchain_nonce n m"
  by (simp add: sync_with_onchain_nonce_def)

section \<open>Reservations as an event sequence\<close>

text \<open>
  The calls that a relayer makes, in the order in which they take the lock, and the nonces handed
  out by a run.
\<close>

datatype nonce_event =
    Reserve
  | Sync transaction_nonce
  | Release transaction_nonce
  | Advance transaction_nonce

fun nonce_step :: "nonce_manager \<Rightarrow> nonce_event \<Rightarrow> nonce_manager" where
  "nonce_step m Reserve = fst (get_and_increment m)"
| "nonce_step m (Sync n) = sync_with_onchain_nonce n m"
| "nonce_step m (Release n) = release_unbroadcast_nonce n m"
| "nonce_step m (Advance n) = advance_after_persisted_reservation n m"

fun nonce_run :: "nonce_manager \<Rightarrow> nonce_event list \<Rightarrow> nonce_manager" where
  "nonce_run m [] = m"
| "nonce_run m (e # es) = nonce_run (nonce_step m e) es"

fun reserved :: "nonce_manager \<Rightarrow> nonce_event list \<Rightarrow> transaction_nonce list" where
  "reserved m [] = []"
| "reserved m (Reserve # es) = snd (get_and_increment m) # reserved (nonce_step m Reserve) es"
| "reserved m (e # es) = reserved (nonce_step m e) es"

fun is_release :: "nonce_event \<Rightarrow> bool" where
  "is_release (Release _) = True"
| "is_release _ = False"

section \<open>Refinement of a counter over the naturals\<close>

text \<open>
  The abstract counter: reserve the next number, never fall behind the chain or a persisted
  reservation, give back only the last reservation.
\<close>

fun counter_step :: "nat \<Rightarrow> nonce_event \<Rightarrow> nat" where
  "counter_step c Reserve = c + 1"
| "counter_step c (Sync n) = max (unat n) c"
| "counter_step c (Release n) = (if c = unat n + 1 then unat n else c)"
| "counter_step c (Advance n) = max (unat n + 1) c"

fun counter_run :: "nat \<Rightarrow> nonce_event list \<Rightarrow> nat" where
  "counter_run c [] = c"
| "counter_run c (e # es) = counter_run (counter_step c e) es"

text \<open>\<open>below_nonce N e\<close>: the event mentions no nonce from \<open>N\<close> on.\<close>

fun below_nonce :: "nat \<Rightarrow> nonce_event \<Rightarrow> bool" where
  "below_nonce N Reserve = True"
| "below_nonce N (Sync n) = (unat n < N)"
| "below_nonce N (Release n) = (unat n < N)"
| "below_nonce N (Advance n) = (unat n < N)"

lemma unat_Suc: "unat (w :: u64) + 1 < 2 ^ 64 \<Longrightarrow> unat (w + 1) = unat w + 1"
  by (simp add: unat_word_ariths)

lemma word_gt_unat: "((a :: u64) > b) = (unat a > unat b)"
  by (simp add: word_less_nat_alt)

lemma nonce_step_refines:
  assumes "unat (nm_nonce m) \<le> N" "below_nonce N e" "N + 1 < 2 ^ 64"
  shows "unat (nm_nonce (nonce_step m e)) = counter_step (unat (nm_nonce m)) e"
proof (cases e)
  case Reserve
  with assms show ?thesis by (simp add: get_and_increment_def unat_Suc)
next
  case (Sync n)
  then show ?thesis
    by (simp add: sync_with_onchain_nonce_def word_gt_unat max_def)
next
  case (Release n)
  with assms have "unat (n + 1) = unat n + 1" by (simp add: unat_Suc)
  then have "(nm_nonce m = n + 1) = (unat (nm_nonce m) = unat n + 1)"
    by (simp add: word_unat_eq_iff)
  then show ?thesis using Release by (simp add: release_unbroadcast_nonce_def)
next
  case (Advance n)
  with assms have "unat (n + 1) = unat n + 1" by (simp add: unat_Suc)
  then show ?thesis using Advance
    by (simp add: advance_after_persisted_reservation_def Let_def word_gt_unat max_def)
qed

lemma counter_step_le: "c \<le> N \<Longrightarrow> below_nonce N e \<Longrightarrow> counter_step c e \<le> Suc N"
  by (cases e) auto

lemma below_nonce_mono: "below_nonce N e \<Longrightarrow> N \<le> M \<Longrightarrow> below_nonce M e"
  by (cases e) auto

lemma nonce_run_refines_aux:
  assumes "unat (nm_nonce m) \<le> N" "list_all (below_nonce N) es" "N + length es < 2 ^ 64"
  shows "unat (nm_nonce (nonce_run m es)) = counter_run (unat (nm_nonce m)) es"
  using assms
proof (induction es arbitrary: m N)
  case Nil
  then show ?case by simp
next
  case (Cons e es)
  then have step: "unat (nm_nonce (nonce_step m e)) = counter_step (unat (nm_nonce m)) e"
    by (intro nonce_step_refines [of m N]) auto
  with Cons.prems have "unat (nm_nonce (nonce_step m e)) \<le> N + 1"
    by (simp add: counter_step_le)
  moreover have "list_all (below_nonce (N + 1)) es"
    using Cons.prems(2) by (auto simp: list_all_iff intro: below_nonce_mono)
  ultimately show ?case
    using Cons.IH [of "nonce_step m e" "N + 1"] Cons.prems(3) step by simp
qed

lemma counter_step_mono: "\<not> is_release e \<Longrightarrow> c \<le> counter_step c e"
  by (cases e) auto

section \<open>Reservations are distinct\<close>

lemma reserved_from:
  assumes "unat (nm_nonce m) \<le> N" "list_all (below_nonce N) es" "N + length es < 2 ^ 64"
    and "list_all (\<lambda>e. \<not> is_release e) es"
  shows "sorted_wrt (<) (map unat (reserved m es)) \<and>
         (\<forall>n \<in> set (reserved m es). unat (nm_nonce m) \<le> unat n)"
  using assms
proof (induction es arbitrary: m N)
  case Nil
  then show ?case by simp
next
  case (Cons e es)
  have step: "unat (nm_nonce (nonce_step m e)) = counter_step (unat (nm_nonce m)) e"
    using Cons.prems by (intro nonce_step_refines [of m N]) auto
  have IH: "sorted_wrt (<) (map unat (reserved (nonce_step m e) es)) \<and>
       (\<forall>n \<in> set (reserved (nonce_step m e) es). unat (nm_nonce (nonce_step m e)) \<le> unat n)"
    using Cons.prems step
    by (intro Cons.IH [of "nonce_step m e" "N + 1"])
       (auto simp: counter_step_le list_all_iff intro: below_nonce_mono)
  have up: "unat (nm_nonce m) \<le> unat (nm_nonce (nonce_step m e))"
    using Cons.prems step by (simp add: counter_step_mono)
  show ?case
  proof (cases "e = Reserve")
    case True
    with IH step show ?thesis by (fastforce simp: get_and_increment_def)
  next
    case False
    then have "reserved m (e # es) = reserved (nonce_step m e) es" by (cases e) auto
    with IH up show ?thesis by auto
  qed
qed

end
