(* ===== verification/Gas_Pricing.thy ===== *)
theory Gas_Pricing
  imports Nonce_Manager
begin

text \<open>
  Gas and blob prices: the oracle caches (crates/core/src/gas/gas_oracle.rs, blob_gas_oracle.rs),
  the price a queue computes for a first send and for a bump
  (\<open>compute_gas_price_for_transaction\<close> and its blob twin), the bump steps, the cap of a multiple of
  the SUPER price, the bounds check of the relayer and the gas-limit estimate.
\<close>

section \<open>Oracle caches\<close>

type_synonym gas_oracle_cache = "chain_id \<rightharpoonup> gas_estimator_result"
type_synonym blob_gas_oracle_cache = "chain_id \<rightharpoonup> blob_gas_estimator_result"

definition update_gas_price ::
  "chain_id \<Rightarrow> gas_estimator_result \<Rightarrow> gas_oracle_cache \<Rightarrow> gas_oracle_cache" where
  "update_gas_price chain g cache = cache(chain \<mapsto> g)"

definition get_gas_price_for_speed ::
  "gas_oracle_cache \<Rightarrow> chain_id \<Rightarrow> transaction_speed \<Rightarrow> gas_price_result option" where
  "get_gas_price_for_speed cache chain speed =
     (case cache chain of
        None \<Rightarrow> None
      | Some g \<Rightarrow>
          (case speed of
             SUPER \<Rightarrow> Some (ge_super_fast g)
           | FAST \<Rightarrow> Some (ge_fast g)
           | MEDIUM \<Rightarrow> Some (ge_medium g)
           | SLOW \<Rightarrow> Some (ge_slow g)))"

definition update_blob_gas_price ::
  "chain_id \<Rightarrow> blob_gas_estimator_result \<Rightarrow> blob_gas_oracle_cache \<Rightarrow> blob_gas_oracle_cache" where
  "update_blob_gas_price chain g cache = cache(chain \<mapsto> g)"

definition get_blob_gas_price_for_speed ::
  "blob_gas_oracle_cache \<Rightarrow> chain_id \<Rightarrow> transaction_speed \<Rightarrow> blob_gas_price_result option" where
  "get_blob_gas_price_for_speed cache chain speed =
     (case cache chain of
        None \<Rightarrow> None
      | Some g \<Rightarrow>
          (case speed of
             SUPER \<Rightarrow> Some (be_super_fast g)
           | FAST \<Rightarrow> Some (be_fast g)
           | MEDIUM \<Rightarrow> Some (be_medium g)
           | SLOW \<Rightarrow> Some (be_slow g)))"

definition estimate_multiple_blobs ::
  "blob_gas_oracle_cache \<Rightarrow> chain_id \<Rightarrow> transaction_speed \<Rightarrow> u32 \<Rightarrow> u128 option" where
  "estimate_multiple_blobs cache chain speed blob_count =
     map_option (\<lambda>p. bg_total_fee_for_blob p * ucast blob_count)
       (get_blob_gas_price_for_speed cache chain speed)"

definition BLOB_GAS_PER_BLOB :: u128 where
  "BLOB_GAS_PER_BLOB = 131072"

section \<open>Bump steps\<close>

definition bump_u128_by_at_least_one :: "u128 \<Rightarrow> u128" where
  "bump_u128_by_at_least_one v = v + max (v div 20) 1"

definition SAME_NONCE_BUMP_DIVISOR :: u128 where
  "SAME_NONCE_BUMP_DIVISOR = 5"

definition MIN_SAME_NONCE_GAS_BUMP_WEI :: u128 where
  "MIN_SAME_NONCE_GAS_BUMP_WEI = 1000000000"

definition saturating_add_u128 :: "u128 \<Rightarrow> u128 \<Rightarrow> u128" where
  "saturating_add_u128 a b = (if unat a + unat b < 2 ^ 128 then a + b else - 1)"

definition bump_u128_for_same_nonce_competitor :: "u128 \<Rightarrow> u128" where
  "bump_u128_for_same_nonce_competitor v =
     saturating_add_u128 v (max (v div SAME_NONCE_BUMP_DIVISOR) MIN_SAME_NONCE_GAS_BUMP_WEI)"

text \<open>The condition under which the 5\% bump does not leave the \<open>u128\<close> range.\<close>

definition bump_fits :: "u128 \<Rightarrow> bool" where
  "bump_fits v = (unat v + max (unat v div 20) 1 < 2 ^ 128)"

lemma unat_max: "unat (max (a :: 'a::len word) b) = max (unat a) (unat b)"
  by (simp add: max_def word_le_nat_alt)

lemma unat_bump: "bump_fits v \<Longrightarrow> unat (bump_u128_by_at_least_one v) = unat v + max (unat v div 20) 1"
  by (simp add: bump_u128_by_at_least_one_def bump_fits_def unat_word_ariths unat_max unat_div)

lemma bump_strict: "bump_fits v \<Longrightarrow> v < bump_u128_by_at_least_one v"
  by (simp add: word_less_nat_alt unat_bump max_def)

lemma bump_fits_small: "unat v < 2 ^ 127 \<Longrightarrow> bump_fits v"
proof -
  assume v: "unat v < 2 ^ 127"
  have "unat v div 20 \<le> unat v" by simp
  with v have "unat v + unat v div 20 < 2 ^ 127 + 2 ^ 127" by linarith
  with v show ?thesis by (auto simp: bump_fits_def max_def)
qed

lemma unat_max_u128: "unat (- 1 :: u128) = 2 ^ 128 - 1"
  by (simp add: unsigned_minus_1_eq_mask mask_eq_exp_minus_1)

lemma unat_saturating_add: "unat (saturating_add_u128 a b) = min (unat a + unat b) (2 ^ 128 - 1)"
proof (cases "unat a + unat b < 2 ^ 128")
  case True
  then show ?thesis by (simp add: saturating_add_u128_def unat_word_ariths)
next
  case False
  then show ?thesis
    by (simp add: saturating_add_u128_def unat_max_u128 min_def)
qed

lemma unat_competitor_bump:
  "unat (bump_u128_for_same_nonce_competitor v) =
     min (unat v + max (unat v div 5) 1000000000) (2 ^ 128 - 1)"
  by (simp add: bump_u128_for_same_nonce_competitor_def unat_saturating_add unat_max unat_div
        SAME_NONCE_BUMP_DIVISOR_def MIN_SAME_NONCE_GAS_BUMP_WEI_def)

section \<open>The price of a send\<close>

text \<open>
  The oracle cache is locked anew for each read, so the three reads of one computation may see
  three different caches: the base price, the price of the next speed and the SUPER price.
\<close>

record gas_reads =
  gr_base :: gas_oracle_cache
  gr_next :: gas_oracle_cache
  gr_super :: gas_oracle_cache

record blob_reads =
  br_base :: blob_gas_oracle_cache
  br_next :: blob_gas_oracle_cache
  br_super :: blob_gas_oracle_cache

definition bump_if_not_above :: "gas_price_result \<Rightarrow> gas_price_result \<Rightarrow> gas_price_result" where
  "bump_if_not_above sent g =
     (let g1 = (if gp_max_fee g \<le> gp_max_fee sent
                then g\<lparr> gp_max_fee := bump_u128_by_at_least_one (gp_max_fee sent) \<rparr> else g)
      in if gp_max_priority_fee g1 \<le> gp_max_priority_fee sent
         then g1\<lparr> gp_max_priority_fee := bump_u128_by_at_least_one (gp_max_priority_fee sent) \<rparr>
         else g1)"

definition escalate_gas_price ::
  "gas_reads \<Rightarrow> chain_id \<Rightarrow> transaction_speed \<Rightarrow> gas_price_result \<Rightarrow> gas_price_result \<Rightarrow>
   gas_price_result" where
  "escalate_gas_price reads chain speed sent g =
     (if speed \<noteq> SUPER
      then (case next_speed speed of
              None \<Rightarrow> g
            | Some ns \<Rightarrow>
                (case get_gas_price_for_speed (gr_next reads) chain ns of
                   None \<Rightarrow> g
                 | Some g' \<Rightarrow> g'))
      else bump_if_not_above sent g)"

definition cap_gas_price ::
  "gas_price_result option \<Rightarrow> u64 \<Rightarrow> gas_price_result \<Rightarrow> gas_price_result" where
  "cap_gas_price super multiplier g =
     (case super of
        None \<Rightarrow> g
      | Some s \<Rightarrow>
          (let cap_fee = gp_max_fee s * ucast multiplier;
               cap_priority = gp_max_priority_fee s * ucast multiplier;
               g1 = (if cap_fee > 0 \<and> gp_max_fee g > cap_fee then g\<lparr> gp_max_fee := cap_fee \<rparr> else g)
           in if cap_priority > 0 \<and> gp_max_priority_fee g1 > cap_priority
              then g1\<lparr> gp_max_priority_fee := cap_priority \<rparr> else g1))"

definition clamp_priority_fee :: "gas_price_result \<Rightarrow> gas_price_result" where
  "clamp_priority_fee g =
     (if gp_max_priority_fee g > gp_max_fee g
      then g\<lparr> gp_max_priority_fee := gp_max_fee g \<rparr> else g)"

definition compute_gas_price_for_transaction ::
  "gas_reads \<Rightarrow> chain_id \<Rightarrow> u64 \<Rightarrow> transaction_speed \<Rightarrow> gas_price_result option \<Rightarrow>
   gas_price_error + gas_price_result" where
  "compute_gas_price_for_transaction reads chain multiplier speed sent_last_with =
     (case get_gas_price_for_speed (gr_base reads) chain speed of
        None \<Rightarrow> Inl GasCalculationUnavailable
      | Some g \<Rightarrow>
          (case sent_last_with of
             None \<Rightarrow> Inr g
           | Some sent \<Rightarrow>
               Inr (clamp_priority_fee
                     (cap_gas_price (get_gas_price_for_speed (gr_super reads) chain SUPER) multiplier
                       (bump_if_not_above sent (escalate_gas_price reads chain speed sent g))))))"

definition set_blob_price :: "u128 \<Rightarrow> blob_gas_price_result \<Rightarrow> blob_gas_price_result" where
  "set_blob_price p b = b\<lparr> bg_blob_gas_price := p, bg_total_fee_for_blob := p * BLOB_GAS_PER_BLOB \<rparr>"

definition escalate_blob_gas_price ::
  "blob_reads \<Rightarrow> chain_id \<Rightarrow> transaction_speed \<Rightarrow> blob_gas_price_result \<Rightarrow> blob_gas_price_result \<Rightarrow>
   blob_gas_price_result" where
  "escalate_blob_gas_price reads chain speed sent b =
     (if speed \<noteq> SUPER
      then (case next_speed speed of
              None \<Rightarrow> b
            | Some ns \<Rightarrow>
                (case get_blob_gas_price_for_speed (br_next reads) chain ns of
                   None \<Rightarrow> b
                 | Some b' \<Rightarrow> b'))
      else if bg_blob_gas_price b < bg_blob_gas_price sent
      then set_blob_price (bump_u128_by_at_least_one (bg_blob_gas_price sent)) b else b)"

definition bump_blob_if_not_above ::
  "blob_gas_price_result \<Rightarrow> blob_gas_price_result \<Rightarrow> blob_gas_price_result" where
  "bump_blob_if_not_above sent b =
     (if bg_blob_gas_price b \<le> bg_blob_gas_price sent
      then set_blob_price (bump_u128_by_at_least_one (bg_blob_gas_price sent)) b else b)"

definition cap_blob_gas_price ::
  "blob_gas_price_result option \<Rightarrow> u64 \<Rightarrow> blob_gas_price_result \<Rightarrow> blob_gas_price_result" where
  "cap_blob_gas_price super multiplier b =
     (case super of
        None \<Rightarrow> b
      | Some s \<Rightarrow>
          (let cap = bg_blob_gas_price s * ucast multiplier
           in if cap > 0 \<and> bg_blob_gas_price b > cap then set_blob_price cap b else b))"

definition compute_blob_gas_price_for_transaction ::
  "blob_reads \<Rightarrow> chain_id \<Rightarrow> u64 \<Rightarrow> transaction_speed \<Rightarrow> blob_gas_price_result option \<Rightarrow>
   gas_price_error + blob_gas_price_result" where
  "compute_blob_gas_price_for_transaction reads chain multiplier speed sent_last_with =
     (case get_blob_gas_price_for_speed (br_base reads) chain speed of
        None \<Rightarrow> Inl BlobGasCalculationUnavailable
      | Some b \<Rightarrow>
          (case sent_last_with of
             None \<Rightarrow> Inr b
           | Some sent \<Rightarrow>
               Inr (cap_blob_gas_price
                     (get_blob_gas_price_for_speed (br_super reads) chain SUPER) multiplier
                     (bump_blob_if_not_above sent
                       (escalate_blob_gas_price reads chain speed sent b)))))"

section \<open>Caps and bounds\<close>

definition is_at_max_gas_price_cap ::
  "gas_oracle_cache \<Rightarrow> chain_id \<Rightarrow> u64 \<Rightarrow> gas_price_result \<Rightarrow> bool" where
  "is_at_max_gas_price_cap cache chain multiplier sent =
     (case get_gas_price_for_speed cache chain SUPER of
        None \<Rightarrow> False
      | Some s \<Rightarrow>
          (let cap_fee = gp_max_fee s * ucast multiplier;
               cap_priority = gp_max_priority_fee s * ucast multiplier
           in (cap_fee > 0 \<and> gp_max_fee sent \<ge> cap_fee)
              \<or> (cap_priority > 0 \<and> gp_max_priority_fee sent \<ge> cap_priority)))"

definition is_at_max_blob_gas_price_cap ::
  "blob_gas_oracle_cache \<Rightarrow> chain_id \<Rightarrow> u64 \<Rightarrow> blob_gas_price_result \<Rightarrow> bool" where
  "is_at_max_blob_gas_price_cap cache chain multiplier sent =
     (case get_blob_gas_price_for_speed cache chain SUPER of
        None \<Rightarrow> False
      | Some s \<Rightarrow>
          (let cap = bg_blob_gas_price s * ucast multiplier
           in cap > 0 \<and> bg_blob_gas_price sent \<ge> cap))"

definition within_gas_price_bounds :: "relayer \<Rightarrow> gas_price_result \<Rightarrow> bool" where
  "within_gas_price_bounds r g =
     (case rl_max_gas_price r of
        None \<Rightarrow> True
      | Some m \<Rightarrow> if rl_eip_1559_enabled r then m \<ge> gp_max_fee g else m \<ge> legacy_gas_price g)"

text \<open>
  \<open>estimate_gas\<close>: the node's estimate and the block gas limit are answers of the provider; the
  20\% buffer is \<open>u128\<close> arithmetic.
\<close>

definition estimate_gas ::
  "rpc_error + u128 \<Rightarrow> rpc_error + u128 \<Rightarrow> (u128 \<Rightarrow> u128 \<Rightarrow> string) \<Rightarrow> bool \<Rightarrow>
   rpc_error + u128" where
  "estimate_gas estimate block_limit over_msg noop =
     and_then estimate (\<lambda>est.
       if noop then Inr est
       else and_then block_limit (\<lambda>lim.
         if est > lim then Inl (over_msg est lim)
         else Inr (min (est * 12 div 10) lim)))"

section \<open>Lemmas\<close>

lemma bump_if_not_above_fee:
  "gp_max_fee (bump_if_not_above sent g) =
     (if gp_max_fee g \<le> gp_max_fee sent then bump_u128_by_at_least_one (gp_max_fee sent)
      else gp_max_fee g)"
  by (simp add: bump_if_not_above_def Let_def)

lemma bump_if_not_above_priority:
  "gp_max_priority_fee (bump_if_not_above sent g) =
     (if gp_max_priority_fee g \<le> gp_max_priority_fee sent
      then bump_u128_by_at_least_one (gp_max_priority_fee sent)
      else gp_max_priority_fee g)"
  by (simp add: bump_if_not_above_def Let_def)

lemma bump_if_not_above_strict:
  assumes "bump_fits (gp_max_fee sent)" "bump_fits (gp_max_priority_fee sent)"
  shows "gp_max_fee sent < gp_max_fee (bump_if_not_above sent g)"
    and "gp_max_priority_fee sent < gp_max_priority_fee (bump_if_not_above sent g)"
  using assms
  by (auto simp: bump_if_not_above_fee bump_if_not_above_priority bump_strict not_le)

lemma cap_gas_price_None [simp]: "cap_gas_price None multiplier g = g"
  by (simp add: cap_gas_price_def)

lemma cap_gas_price_fee:
  "gp_max_fee (cap_gas_price (Some s) multiplier g) =
     (let cap = gp_max_fee s * ucast multiplier in if cap > 0 then min cap (gp_max_fee g) else gp_max_fee g)"
  by (auto simp: cap_gas_price_def Let_def min_def)

lemma cap_gas_price_priority:
  "gp_max_priority_fee (cap_gas_price (Some s) multiplier g) =
     (let cap = gp_max_priority_fee s * ucast multiplier
      in if cap > 0 then min cap (gp_max_priority_fee g) else gp_max_priority_fee g)"
  by (auto simp: cap_gas_price_def Let_def min_def)

lemma clamp_priority_fee_fee [simp]: "gp_max_fee (clamp_priority_fee g) = gp_max_fee g"
  by (simp add: clamp_priority_fee_def)

lemma clamp_priority_fee_priority:
  "gp_max_priority_fee (clamp_priority_fee g) = min (gp_max_fee g) (gp_max_priority_fee g)"
  by (auto simp: clamp_priority_fee_def min_def)

lemmas price_simps =
  bump_if_not_above_fee bump_if_not_above_priority cap_gas_price_fee cap_gas_price_priority
  clamp_priority_fee_priority

lemma set_blob_price_simps [simp]:
  "bg_blob_gas_price (set_blob_price p b) = p"
  "bg_total_fee_for_blob (set_blob_price p b) = p * BLOB_GAS_PER_BLOB"
  by (simp_all add: set_blob_price_def)

lemma compute_gas_price_resend:
  assumes "compute_gas_price_for_transaction reads chain multiplier speed (Some sent) = Inr g"
  obtains g0 where
    "g = clamp_priority_fee
           (cap_gas_price (get_gas_price_for_speed (gr_super reads) chain SUPER) multiplier
             (bump_if_not_above sent g0))"
  using assms by (auto simp: compute_gas_price_for_transaction_def split: option.splits)

end
