(* ===== verification/Safe_Proxy.thy ===== *)
theory Safe_Proxy
  imports Gas_Pricing
begin

text \<open>
  Routing through a Safe contract (crates/core/src/safe_proxy.rs): which relayers are configured for
  which Safe, and the Safe transaction that wraps a payload. The ABI encoding, the EIP-712 hash and
  the signature are external code: parameters of the definitions that use them.
\<close>

record safe_proxy_config =
  sp_address :: evm_address
  sp_relayers :: "evm_address list"
  sp_chain_id :: chain_id

datatype safe_proxy_error =
    RelayerNotAuthorized evm_address evm_address
  | SafeProxyNotFound evm_address
  | InvalidTransactionData
  | EncodingFailed string
  | SafeContractError string
  | SignatureError string

record safe_transaction =
  st_to :: evm_address
  st_value :: u256
  st_data :: transaction_data
  st_operation :: u8
  st_safe_tx_gas :: u256
  st_base_gas :: u256
  st_gas_price :: u256
  st_gas_token :: evm_address
  st_refund_receiver :: evm_address
  st_nonce :: u256

definition new_safe_transaction ::
  "evm_address \<Rightarrow> u256 \<Rightarrow> transaction_data \<Rightarrow> u256 \<Rightarrow> safe_transaction" where
  "new_safe_transaction to v d n =
     \<lparr> st_to = to, st_value = v, st_data = d, st_operation = 0, st_safe_tx_gas = 0, st_base_gas = 0,
       st_gas_price = 0, st_gas_token = 0, st_refund_receiver = 0, st_nonce = n \<rparr>"

definition get_safe_proxy_for_relayer ::
  "safe_proxy_config list \<Rightarrow> evm_address \<Rightarrow> chain_id \<Rightarrow> evm_address option" where
  "get_safe_proxy_for_relayer configs addr chain =
     map_option sp_address (find (\<lambda>c. addr \<in> set (sp_relayers c) \<and> sp_chain_id c = chain) configs)"

definition is_relayer_authorized ::
  "safe_proxy_config list \<Rightarrow> evm_address \<Rightarrow> evm_address \<Rightarrow> bool" where
  "is_relayer_authorized configs addr safe =
     list_ex (\<lambda>c. sp_address c = safe \<and> addr \<in> set (sp_relayers c)) configs"

definition wrap_transaction_for_safe ::
  "safe_proxy_config list \<Rightarrow> evm_address \<Rightarrow> chain_id \<Rightarrow> evm_address \<Rightarrow> u256 \<Rightarrow> transaction_data \<Rightarrow>
   u256 \<Rightarrow> safe_proxy_error + (evm_address \<times> safe_transaction)" where
  "wrap_transaction_for_safe configs addr chain to v d n =
     and_then (ok_or (SafeProxyNotFound addr) (get_safe_proxy_for_relayer configs addr chain))
       (\<lambda>safe. Inr (safe, new_safe_transaction to v d n))"

text \<open>
  The signature bytes a Safe expects: \<open>r\<close> and \<open>s\<close> in big-endian order, then the recovery id plus 4.
\<close>

record ecdsa_signature =
  sg_r :: u256
  sg_s :: u256
  sg_v :: bool

definition safe_signature_bytes :: "ecdsa_signature \<Rightarrow> u8 list" where
  "safe_signature_bytes sg =
     be_bytes 32 (sg_r sg) @ be_bytes 32 (sg_s sg) @ [(if sg_v sg then 1 else 0) + 4]"

section \<open>Lemmas\<close>

lemma safe_proxy_authorized:
  "get_safe_proxy_for_relayer configs addr chain = Some safe \<Longrightarrow>
     is_relayer_authorized configs addr safe"
  by (auto simp: get_safe_proxy_for_relayer_def is_relayer_authorized_def list_ex_iff
      dest!: find_SomeD)

lemma wrap_transaction_for_safe_Some [simp]:
  "get_safe_proxy_for_relayer configs addr chain = Some safe \<Longrightarrow>
     wrap_transaction_for_safe configs addr chain to v d n = Inr (safe, new_safe_transaction to v d n)"
  by (simp add: wrap_transaction_for_safe_def)

lemma length_safe_signature_bytes: "length (safe_signature_bytes sg) = 65"
  by (simp add: safe_signature_bytes_def)

end
