(* ===== verification/Tx_Queue.thy ===== *)
theory Tx_Queue
  imports Safe_Proxy "HOL-Library.AList"
begin

text \<open>
  The in-memory queue of one relayer (queue_system/transactions_queue.rs) and the competitive pair
  of its mempool queue (queue_system/types/competitive_transaction.rs). Each method locks the
  queues it touches for its whole body, so each is one function on the record. Reads of the clock
  and the order in which the mined hash map iterates are arguments.
\<close>

section \<open>Competitive transactions\<close>

datatype competition_type = Cancel | Replace

record competitive_transaction =
  ct_original :: transaction
  ct_competitive :: "(transaction \<times> competition_type) option"

datatype competition_result =
    OriginalWon transaction_hash "transaction_id option"
  | CompetitorWon transaction_hash transaction_id
  | NoCompetition transaction_hash

definition new_competitive_transaction :: "transaction \<Rightarrow> competitive_transaction" where
  "new_competitive_transaction t = \<lparr> ct_original = t, ct_competitive = None \<rparr>"

definition add_competitor ::
  "transaction \<Rightarrow> competition_type \<Rightarrow> competitive_transaction \<Rightarrow> competitive_transaction" where
  "add_competitor c ty ct =
     ct\<lparr> ct_original := (ct_original ct)\<lparr> tx_cancelled_by_transaction_id := Some (tx_id c) \<rparr>,
         ct_competitive := Some (c, ty) \<rparr>"

definition has_competitor :: "competitive_transaction \<Rightarrow> bool" where
  "has_competitor ct = (ct_competitive ct \<noteq> None)"

definition get_active_transaction :: "competitive_transaction \<Rightarrow> transaction" where
  "get_active_transaction ct =
     (case ct_competitive ct of Some (c, _) \<Rightarrow> c | None \<Rightarrow> ct_original ct)"

definition get_competition_type :: "competitive_transaction \<Rightarrow> competition_type option" where
  "get_competition_type ct = map_option snd (ct_competitive ct)"

definition competitive_nonce :: "competitive_transaction \<Rightarrow> transaction_nonce" where
  "competitive_nonce ct = tx_nonce (ct_original ct)"

definition check_mined_hash :: "transaction_hash \<Rightarrow> competitive_transaction \<Rightarrow> competition_result" where
  "check_mined_hash h ct =
     (if tx_known_transaction_hash (ct_original ct) = Some h
      then OriginalWon h (map_option (\<lambda>(c, _). tx_id c) (ct_competitive ct))
      else (case ct_competitive ct of
              Some (c, _) \<Rightarrow>
                if tx_known_transaction_hash c = Some h
                then CompetitorWon h (tx_id (ct_original ct))
                else NoCompetition h
            | None \<Rightarrow> NoCompetition h))"

definition get_transaction_by_id ::
  "transaction_id \<Rightarrow> competitive_transaction \<Rightarrow> transaction option" where
  "get_transaction_by_id i ct =
     (if tx_id (ct_original ct) = i then Some (ct_original ct)
      else (case ct_competitive ct of
              Some (c, _) \<Rightarrow> if tx_id c = i then Some c else None
            | None \<Rightarrow> None))"

text \<open>An assignment through \<open>get_transaction_by_id_mut\<close>; nothing changes when it gives \<open>None\<close>.\<close>

definition modify_transaction_by_id ::
  "transaction_id \<Rightarrow> (transaction \<Rightarrow> transaction) \<Rightarrow> competitive_transaction \<Rightarrow>
   competitive_transaction" where
  "modify_transaction_by_id i f ct =
     (if tx_id (ct_original ct) = i then ct\<lparr> ct_original := f (ct_original ct) \<rparr>
      else (case ct_competitive ct of
              Some (c, ty) \<Rightarrow>
                if tx_id c = i then ct\<lparr> ct_competitive := Some (f c, ty) \<rparr> else ct
            | None \<Rightarrow> ct))"

text \<open>The same through \<open>get_active_transaction_mut\<close>.\<close>

definition modify_active_transaction ::
  "(transaction \<Rightarrow> transaction) \<Rightarrow> competitive_transaction \<Rightarrow> competitive_transaction" where
  "modify_active_transaction f ct =
     (case ct_competitive ct of
        Some (c, ty) \<Rightarrow> ct\<lparr> ct_competitive := Some (f c, ty) \<rparr>
      | None \<Rightarrow> ct\<lparr> ct_original := f (ct_original ct) \<rparr>)"

text \<open>The transactions an entry holds, the original first.\<close>

definition ct_members :: "competitive_transaction \<Rightarrow> transaction list" where
  "ct_members ct =
     ct_original ct # (case ct_competitive ct of Some (c, _) \<Rightarrow> [c] | None \<Rightarrow> [])"

section \<open>The queue\<close>

record evm_provider =
  ep_chain_id :: chain_id
  ep_blocks_every :: u64
  ep_confirmations :: u64
  ep_supports_blobs :: bool

record transactions_queue =
  q_pending :: "transaction list"
  q_inmempool :: "competitive_transaction list"
  q_mined :: "(transaction_id \<times> transaction) list"
  q_evm_provider :: evm_provider
  q_relayer :: relayer
  q_nonce_manager :: nonce_manager
  q_confirmations :: u64
  q_safe_proxy_manager :: "safe_proxy_config list"
  q_gas_bump_config :: gas_bump_block_config
  q_max_gas_price_multiplier :: u64

record transactions_queue_setup =
  qs_relayer :: relayer
  qs_evm_provider :: evm_provider
  qs_nonce_manager :: nonce_manager
  qs_pending :: "transaction list"
  qs_inmempool :: "competitive_transaction list"
  qs_mined :: "(transaction_id \<times> transaction) list"
  qs_safe_proxy_manager :: "safe_proxy_config list"
  qs_gas_bump_config :: gas_bump_block_config
  qs_max_gas_price_multiplier :: u64

text \<open>\<open>sort_by_key\<close> is a stable sort.\<close>

definition sort_pending_transactions :: "transaction list \<Rightarrow> transaction list" where
  "sort_pending_transactions ts = sort_key tx_nonce ts"

definition new_transactions_queue :: "transactions_queue_setup \<Rightarrow> transactions_queue" where
  "new_transactions_queue s =
     \<lparr> q_pending = sort_pending_transactions (qs_pending s),
       q_inmempool = qs_inmempool s,
       q_mined = qs_mined s,
       q_evm_provider = qs_evm_provider s,
       q_relayer = qs_relayer s,
       q_nonce_manager = qs_nonce_manager s,
       q_confirmations = ep_confirmations (qs_evm_provider s),
       q_safe_proxy_manager = qs_safe_proxy_manager s,
       q_gas_bump_config = qs_gas_bump_config s,
       q_max_gas_price_multiplier = qs_max_gas_price_multiplier s \<rparr>"

definition should_bump_gas :: "transactions_queue \<Rightarrow> u64 \<Rightarrow> transaction_speed \<Rightarrow> bool" where
  "should_bump_gas q ms speed =
     (ms > ep_blocks_every (q_evm_provider q) * blocks_to_wait_before_bump (q_gas_bump_config q) speed)"

subsection \<open>The pending queue\<close>

definition add_pending_transaction :: "transaction \<Rightarrow> transactions_queue \<Rightarrow> transactions_queue" where
  "add_pending_transaction t q =
     q\<lparr> q_pending := insert_before (\<lambda>queued. tx_nonce queued > tx_nonce t) t (q_pending q) \<rparr>"

definition get_next_pending_transaction :: "transactions_queue \<Rightarrow> transaction option" where
  "get_next_pending_transaction q = (case q_pending q of [] \<Rightarrow> None | t # _ \<Rightarrow> Some t)"

definition get_pending_transaction_count :: "transactions_queue \<Rightarrow> nat" where
  "get_pending_transaction_count q = length (q_pending q)"

datatype editable_transaction_type = EditPending | EditInmempool

definition get_editable_transaction_by_id ::
  "transactions_queue \<Rightarrow> transaction_id \<Rightarrow> (transaction \<times> editable_transaction_type) option" where
  "get_editable_transaction_by_id q i =
     (case find (\<lambda>t. tx_id t = i) (q_pending q) of
        Some t \<Rightarrow> Some (t, EditPending)
      | None \<Rightarrow>
          map_option (\<lambda>ct. (ct_original ct, EditInmempool))
            (find (\<lambda>ct. tx_id (ct_original ct) = i) (q_inmempool q)))"

datatype move_pending_error =
    PendingIdDoesNotMatch relayer_id evm_address transaction_sent_with_relayer transaction
  | PendingNotFound relayer_id evm_address transaction_sent_with_relayer

text \<open>The snapshot of a send that the queue copies into a transaction.\<close>

definition record_send :: "transaction_sent_with_relayer \<Rightarrow> instant \<Rightarrow> transaction \<Rightarrow> transaction" where
  "record_send sent now t =
     t\<lparr> tx_known_transaction_hash := Some (ts_hash sent),
        tx_sent_with_max_fee_per_gas := Some (gp_max_fee (ts_sent_with_gas sent)),
        tx_sent_with_max_priority_fee_per_gas := Some (gp_max_priority_fee (ts_sent_with_gas sent)),
        tx_sent_with_gas := Some (ts_sent_with_gas sent),
        tx_sent_with_blob_gas := ts_sent_with_blob_gas sent,
        tx_sent_at := Some now \<rparr>"

definition move_pending_to_inmempool ::
  "instant \<Rightarrow> transaction \<Rightarrow> transaction_sent_with_relayer \<Rightarrow> transactions_queue \<Rightarrow>
   move_pending_error + transactions_queue" where
  "move_pending_to_inmempool now t sent q =
     (case q_pending q of
        [] \<Rightarrow> Inl (PendingNotFound (rl_id (q_relayer q)) (rl_address (q_relayer q)) sent)
      | queued # rest \<Rightarrow>
          if tx_id queued = ts_id sent \<and> tx_id t = ts_id sent
          then Inr (q\<lparr> q_pending := rest,
                       q_inmempool := q_inmempool q @
                         [new_competitive_transaction
                            ((record_send sent now t)\<lparr> tx_status := INMEMPOOL \<rparr>)] \<rparr>)
          else Inl (PendingIdDoesNotMatch (rl_id (q_relayer q)) (rl_address (q_relayer q)) sent queued))"

definition remove_pending_transaction_by_id ::
  "transaction_id \<Rightarrow> transactions_queue \<Rightarrow> transactions_queue \<times> bool" where
  "remove_pending_transaction_by_id i q =
     (if list_ex (\<lambda>t. tx_id t = i) (q_pending q)
      then (q\<lparr> q_pending := remove_first (\<lambda>t. tx_id t = i) (q_pending q) \<rparr>, True)
      else (q, False))"

definition update_pending_transaction ::
  "transaction \<Rightarrow> transactions_queue \<Rightarrow> transactions_queue \<times> bool" where
  "update_pending_transaction t q =
     (if list_ex (\<lambda>u. tx_id u = tx_id t) (q_pending q)
      then (q\<lparr> q_pending := update_first (\<lambda>u. tx_id u = tx_id t) (\<lambda>_. t) (q_pending q) \<rparr>, True)
      else (q, False))"

definition update_pending_transaction_nonce ::
  "transaction_id \<Rightarrow> transaction_nonce \<Rightarrow> transactions_queue \<Rightarrow> transactions_queue" where
  "update_pending_transaction_nonce i n q =
     (if list_ex (\<lambda>t. tx_id t = i) (q_pending q)
      then q\<lparr> q_pending := sort_pending_transactions
                (update_first (\<lambda>t. tx_id t = i) (\<lambda>t. t\<lparr> tx_nonce := n \<rparr>) (q_pending q)) \<rparr>
      else q)"

subsection \<open>The mempool queue\<close>

text \<open>\<open>front_mut\<close> followed by an assignment.\<close>

fun modify_front :: "('a \<Rightarrow> 'a) \<Rightarrow> 'a list \<Rightarrow> 'a list" where
  "modify_front f [] = []"
| "modify_front f (x # xs) = f x # xs"

definition add_competitor_to_inmempool_transaction ::
  "transaction_id \<Rightarrow> transaction \<Rightarrow> competition_type \<Rightarrow> transactions_queue \<Rightarrow>
   send_error + transactions_queue" where
  "add_competitor_to_inmempool_transaction i c ty q =
     (case q_inmempool q of
        [] \<Rightarrow> Inl NoTransactionInQueue
      | ct # rest \<Rightarrow>
          if tx_id (ct_original ct) = i
          then Inr (q\<lparr> q_inmempool := add_competitor c ty ct # rest \<rparr>)
          else Inl NoTransactionInQueue)"

definition get_next_inmempool_transaction :: "transactions_queue \<Rightarrow> transaction option" where
  "get_next_inmempool_transaction q =
     (case q_inmempool q of [] \<Rightarrow> None | ct # _ \<Rightarrow> Some (get_active_transaction ct))"

definition get_inmempool_transaction_count :: "transactions_queue \<Rightarrow> nat" where
  "get_inmempool_transaction_count q = length (q_inmempool q)"

definition record_send_on_pair ::
  "transaction_sent_with_relayer \<Rightarrow> instant \<Rightarrow> competitive_transaction \<Rightarrow>
   competitive_transaction" where
  "record_send_on_pair sent now ct =
     (if tx_id (ct_original ct) = ts_id sent
      then ct\<lparr> ct_original := record_send sent now (ct_original ct) \<rparr>
      else (case ct_competitive ct of
              Some (c, ty) \<Rightarrow>
                if tx_id c = ts_id sent
                then ct\<lparr> ct_competitive := Some (record_send sent now c, ty) \<rparr> else ct
            | None \<Rightarrow> ct))"

definition update_inmempool_transaction_gas ::
  "transaction_sent_with_relayer \<Rightarrow> instant \<Rightarrow> transactions_queue \<Rightarrow> transactions_queue" where
  "update_inmempool_transaction_gas sent now q =
     q\<lparr> q_inmempool := modify_front (record_send_on_pair sent now) (q_inmempool q) \<rparr>"

text \<open>The no-op payload: a self-send of nothing with a fixed gas limit.\<close>

definition noop_payload :: "evm_address \<Rightarrow> transaction \<Rightarrow> transaction" where
  "noop_payload self t =
     t\<lparr> tx_to := self, tx_value := 0, tx_data := [], tx_blobs := None,
        tx_gas_limit := Some 21000, tx_is_noop := True, tx_speed := FAST,
        tx_sent_with_blob_gas := None \<rparr>"

definition transaction_to_noop :: "transactions_queue \<Rightarrow> transaction \<Rightarrow> transaction" where
  "transaction_to_noop q t = noop_payload (rl_address (q_relayer q)) t"

definition update_inmempool_transaction_noop ::
  "transaction_id \<Rightarrow> transaction_sent_with_relayer \<Rightarrow> instant \<Rightarrow> transactions_queue \<Rightarrow>
   transactions_queue" where
  "update_inmempool_transaction_noop i sent now q =
     q\<lparr> q_inmempool := modify_front (modify_transaction_by_id i
          (\<lambda>t. (noop_payload (rl_address (q_relayer q)) t)
                 \<lparr> tx_known_transaction_hash := Some (ts_hash sent), tx_sent_at := Some now \<rparr>))
          (q_inmempool q) \<rparr>"

definition update_inmempool_transaction_replaced ::
  "transaction_id \<Rightarrow> transaction_sent_with_relayer \<Rightarrow> transaction \<Rightarrow> transactions_queue \<Rightarrow>
   transactions_queue" where
  "update_inmempool_transaction_replaced i sent r q =
     q\<lparr> q_inmempool := modify_front (modify_transaction_by_id i
          (\<lambda>t. t\<lparr> tx_to := tx_to r, tx_from := tx_from r, tx_value := tx_value r,
                  tx_data := tx_data r, tx_nonce := tx_nonce r, tx_speed := tx_speed r,
                  tx_gas_limit := tx_gas_limit r, tx_status := tx_status r, tx_blobs := tx_blobs r,
                  tx_known_transaction_hash := Some (ts_hash sent),
                  tx_queued_at := tx_queued_at r, tx_expires_at := tx_expires_at r,
                  tx_sent_at := tx_sent_at r,
                  tx_sent_with_gas := Some (ts_sent_with_gas sent),
                  tx_sent_with_blob_gas := ts_sent_with_blob_gas sent,
                  tx_sent_with_max_fee_per_gas := tx_sent_with_max_fee_per_gas r,
                  tx_sent_with_max_priority_fee_per_gas := tx_sent_with_max_priority_fee_per_gas r,
                  tx_is_noop := tx_is_noop r, tx_external_id := tx_external_id r \<rparr>))
          (q_inmempool q) \<rparr>"

definition update_inmempool_transaction_nonce ::
  "transaction_id \<Rightarrow> transaction_nonce \<Rightarrow> transactions_queue \<Rightarrow> transactions_queue" where
  "update_inmempool_transaction_nonce i n q =
     q\<lparr> q_inmempool := update_first (\<lambda>ct. get_transaction_by_id i ct \<noteq> None)
          (modify_transaction_by_id i (\<lambda>t. t\<lparr> tx_nonce := n \<rparr>)) (q_inmempool q) \<rparr>"

end
