(* ===== verification/Mining.thy ===== *)
theory Mining
  imports Tx_Queue
begin

text \<open>
  The rest of the relayer's queue (queue_system/transactions_queue.rs): the resolution of a mempool
  entry by a receipt, the mined map, and the settings the API changes on a live queue.
\<close>

section \<open>Receipts\<close>

text \<open>What the code reads of an RPC receipt.\<close>

record receipt =
  rc_status :: bool
  rc_transaction_hash :: transaction_hash
  rc_gas_used :: u64
  rc_block_hash :: "u256 option"
  rc_block_number :: "u64 option"

section \<open>Resolution of a competition\<close>

record competition_resolution =
  cr_winner :: transaction
  cr_winner_status :: transaction_status
  cr_loser :: "transaction option"

datatype move_inmempool_error =
    InmempoolIdDoesNotMatch relayer_id evm_address transaction_id transaction
  | InmempoolNotFound relayer_id evm_address transaction_id

definition receipt_transaction_status :: "receipt \<Rightarrow> transaction_status" where
  "receipt_transaction_status r = (if rc_status r then MINED else FAILED)"

definition noop_payload_shape :: "transaction \<Rightarrow> bool" where
  "noop_payload_shape t = (tx_is_noop t \<and> tx_value t = 0 \<and> tx_data t = [])"

text \<open>
  The status of an original that won: a close-out no-op surfaces as FAILED, an expired no-op
  without a competitor as EXPIRED. The clock is read by \<open>has_expired\<close>.
\<close>

definition original_winner_status ::
  "instant \<Rightarrow> receipt \<Rightarrow> competitive_transaction \<Rightarrow> transaction_status" where
  "original_winner_status now r ct =
     (let shape = noop_payload_shape (ct_original ct)
      in if rc_status r \<and> shape \<and> tx_failed_reason (ct_original ct) \<noteq> None then FAILED
         else if rc_status r \<and> shape \<and> ct_competitive ct = None \<and> has_expired now (ct_original ct)
         then EXPIRED
         else receipt_transaction_status r)"

text \<open>The transaction that lost to a competitor.\<close>

definition losing_original ::
  "evm_address \<Rightarrow> transaction \<Rightarrow> competition_type \<Rightarrow> transaction \<Rightarrow> transaction" where
  "losing_original self c ty orig =
     (case ty of
        Cancel \<Rightarrow> orig\<lparr> tx_status := CANCELLED, tx_is_noop := True, tx_to := self, tx_value := 0,
                        tx_data := [], tx_cancelled_by_transaction_id := Some (tx_id c) \<rparr>
      | Replace \<Rightarrow> orig\<lparr> tx_status := REPLACED \<rparr>)"

text \<open>
  The winner and the loser of the front entry, \<open>None\<close> when \<open>id\<close> is neither of its two. The code
  also computes a status for the loser, which it only logs.
\<close>

definition resolve_competition ::
  "evm_address \<Rightarrow> instant \<Rightarrow> instant \<Rightarrow> transaction_id \<Rightarrow> receipt \<Rightarrow> competitive_transaction \<Rightarrow>
   (transaction \<times> transaction option) option" where
  "resolve_competition self now_exp now_mined i r ct =
     (if tx_id (ct_original ct) = i
      then Some ((ct_original ct)\<lparr> tx_status := original_winner_status now_exp r ct,
                                   tx_mined_at := Some now_mined,
                                   tx_cancelled_by_transaction_id := None \<rparr>,
                 map_option fst (ct_competitive ct))
      else (case ct_competitive ct of
              Some (c, ty) \<Rightarrow>
                Some (c\<lparr> tx_status := receipt_transaction_status r, tx_mined_at := Some now_mined \<rparr>,
                      Some (losing_original self c ty (ct_original ct)))
            | None \<Rightarrow> None))"

definition move_inmempool_to_mining ::
  "instant \<Rightarrow> instant \<Rightarrow> transaction_id \<Rightarrow> receipt \<Rightarrow> transactions_queue \<Rightarrow>
   move_inmempool_error + (transactions_queue \<times> competition_resolution)" where
  "move_inmempool_to_mining now_exp now_mined i r q =
     (case q_inmempool q of
        [] \<Rightarrow> Inl (InmempoolNotFound (rl_id (q_relayer q)) (rl_address (q_relayer q)) i)
      | ct # rest \<Rightarrow>
          if get_transaction_by_id i ct \<noteq> None
          then (case resolve_competition (rl_address (q_relayer q)) now_exp now_mined i r ct of
                  None \<Rightarrow> Inl (InmempoolIdDoesNotMatch (rl_id (q_relayer q))
                                (rl_address (q_relayer q)) i (ct_original ct))
                | Some (winner, loser) \<Rightarrow>
                    Inr (q\<lparr> q_inmempool := rest,
                            q_mined := (if tx_status winner = MINED
                                        then AList.update (tx_id winner) winner (q_mined q)
                                        else q_mined q) \<rparr>,
                         \<lparr> cr_winner = winner, cr_winner_status = tx_status winner,
                           cr_loser = loser \<rparr>))
          else Inl (InmempoolIdDoesNotMatch (rl_id (q_relayer q)) (rl_address (q_relayer q)) i
                      (ct_original ct)))"

section \<open>The mined map\<close>

text \<open>\<open>iter().next()\<close> on a hash map gives some entry: which one is the argument \<open>pick\<close>.\<close>

definition get_next_mined_transaction :: "nat \<Rightarrow> transactions_queue \<Rightarrow> transaction option" where
  "get_next_mined_transaction pick q =
     (if q_mined q = [] then None
      else Some (snd (q_mined q ! (pick mod length (q_mined q)))))"

definition is_transaction_mined :: "transactions_queue \<Rightarrow> transaction_id \<Rightarrow> bool" where
  "is_transaction_mined q i = (i \<in> fst ` set (q_mined q))"

definition move_mining_to_confirmed :: "transaction_id \<Rightarrow> transactions_queue \<Rightarrow> transactions_queue" where
  "move_mining_to_confirmed i q = q\<lparr> q_mined := AList.delete i (q_mined q) \<rparr>"

section \<open>Settings\<close>

definition is_legacy_transactions :: "transactions_queue \<Rightarrow> bool" where
  "is_legacy_transactions q = (\<not> rl_eip_1559_enabled (q_relayer q))"

definition set_is_legacy_transactions :: "bool \<Rightarrow> transactions_queue \<Rightarrow> transactions_queue" where
  "set_is_legacy_transactions b q =
     q\<lparr> q_relayer := (q_relayer q)\<lparr> rl_eip_1559_enabled := b \<rparr> \<rparr>"

definition is_paused :: "transactions_queue \<Rightarrow> bool" where
  "is_paused q = rl_paused (q_relayer q)"

definition set_is_paused :: "bool \<Rightarrow> transactions_queue \<Rightarrow> transactions_queue" where
  "set_is_paused b q = q\<lparr> q_relayer := (q_relayer q)\<lparr> rl_paused := b \<rparr> \<rparr>"

definition set_name :: "string \<Rightarrow> transactions_queue \<Rightarrow> transactions_queue" where
  "set_name n q = q\<lparr> q_relayer := (q_relayer q)\<lparr> rl_name := n \<rparr> \<rparr>"

definition set_max_gas_price :: "u128 option \<Rightarrow> transactions_queue \<Rightarrow> transactions_queue" where
  "set_max_gas_price m q = q\<lparr> q_relayer := (q_relayer q)\<lparr> rl_max_gas_price := m \<rparr> \<rparr>"

definition in_confirmed_range :: "transactions_queue \<Rightarrow> u64 \<Rightarrow> bool" where
  "in_confirmed_range q elapsed = (elapsed > ep_blocks_every (q_evm_provider q) * q_confirmations q)"

end
