(* ===== verification/Queue_Laws.thy ===== *)
theory Queue_Laws
  imports Mining
begin

text \<open>
  The laws of the relayer's queue: the contract of a queue ordered by nonce and its instance, the
  ids a queue holds, what each operation keeps, and the moves between the three stages.
\<close>

section \<open>The contract of a queue ordered by a key\<close>

text \<open>
  What the processing loop relies on: insertion keeps the content and the order, and entries with
  equal keys leave in the order in which they came.
\<close>

locale keyed_queue =
  fixes enq :: "'t \<Rightarrow> 'q \<Rightarrow> 'q"
    and items :: "'q \<Rightarrow> 't list"
    and key :: "'t \<Rightarrow> 'k::linorder"
  assumes mset_enq: "mset (items (enq t q)) = add_mset t (mset (items q))"
    and sorted_enq: "sorted (map key (items q)) \<Longrightarrow> sorted (map key (items (enq t q)))"
    and stable_enq: "sorted (map key (items q)) \<Longrightarrow>
      filter (\<lambda>u. key u = k) (items (enq t q)) =
        filter (\<lambda>u. key u = k) (items q) @ (if key t = k then [t] else [])"
begin

lemma fold_enq:
  assumes "sorted (map key (items q))"
  shows "mset (items (fold enq ts q)) = mset ts + mset (items q)"
    and "sorted (map key (items (fold enq ts q)))"
    and "filter (\<lambda>u. key u = k) (items (fold enq ts q)) =
           filter (\<lambda>u. key u = k) (items q) @ filter (\<lambda>u. key u = k) ts"
  using assms
  by (induction ts arbitrary: q) (simp_all add: mset_enq sorted_enq stable_enq)

lemma fold_enq_sort:
  assumes "items q = []"
  shows "items (fold enq ts q) = sort_key key ts"
proof -
  have "sort_key key ts = items (fold enq ts q)"
  proof (rule properties_for_sort_key)
    show "mset (items (fold enq ts q)) = mset ts"
      using assms by (simp add: fold_enq)
    show "filter (\<lambda>u. key x = key u) (items (fold enq ts q)) = filter (\<lambda>u. key x = key u) ts"
      for x
      using fold_enq(3) [of q "key x" ts] assms by (simp add: eq_commute)
    show "sorted (map key (items (fold enq ts q)))"
      using assms by (simp add: fold_enq)
  qed
  then show ?thesis by simp
qed

lemma front_minimal:
  assumes "sorted (map key (items q))" "items q = t # ts" "u \<in> set (items q)"
  shows "key t \<le> key u"
  using assms by auto

end

lemma filter_insert_before:
  fixes key :: "'a \<Rightarrow> 'b::linorder"
  assumes "sorted (map key xs)"
  shows "filter (\<lambda>u. key u = k) (insert_before (\<lambda>y. key y > key x) x xs) =
           filter (\<lambda>u. key u = k) xs @ (if key x = k then [x] else [])"
  using assms
proof (induction xs)
  case Nil
  then show ?case by simp
next
  case (Cons y ys)
  show ?case
  proof (cases "key y > key x")
    case True
    have "\<forall>u \<in> set (y # ys). key u > key x"
      using Cons.prems True by auto
    then have "key x = k \<Longrightarrow> filter (\<lambda>u. key u = k) (y # ys) = []"
      by (auto simp: filter_empty_conv)
    then show ?thesis using True by auto
  next
    case False
    then show ?thesis using Cons by simp
  qed
qed

lemma pending_add [simp]:
  "q_pending (add_pending_transaction t q) =
     insert_before (\<lambda>u. tx_nonce u > tx_nonce t) t (q_pending q)"
  by (simp add: add_pending_transaction_def)

interpretation pending: keyed_queue add_pending_transaction q_pending tx_nonce
proof
  fix t :: transaction and q :: transactions_queue and k
  show "mset (q_pending (add_pending_transaction t q)) = add_mset t (mset (q_pending q))" by simp
  assume s: "sorted (map tx_nonce (q_pending q))"
  then show "sorted (map tx_nonce (q_pending (add_pending_transaction t q)))"
    using sorted_insert_before [of tx_nonce "q_pending q" t] by simp
  show "filter (\<lambda>u. tx_nonce u = k) (q_pending (add_pending_transaction t q)) =
      filter (\<lambda>u. tx_nonce u = k) (q_pending q) @ (if tx_nonce t = k then [t] else [])"
    using filter_insert_before [OF s, of k t] by simp
qed

section \<open>Order of the pending queue\<close>

definition pending_sorted :: "transactions_queue \<Rightarrow> bool" where
  "pending_sorted q = sorted (map tx_nonce (q_pending q))"

lemma pending_sorted_new: "pending_sorted (new_transactions_queue s)"
  by (simp add: pending_sorted_def new_transactions_queue_def sort_pending_transactions_def)

lemma pending_sorted_add: "pending_sorted q \<Longrightarrow> pending_sorted (add_pending_transaction t q)"
  unfolding pending_sorted_def by (rule pending.sorted_enq)

lemma pending_sorted_remove:
  "pending_sorted q \<Longrightarrow> pending_sorted (fst (remove_pending_transaction_by_id i q))"
  by (simp add: pending_sorted_def remove_pending_transaction_by_id_def sorted_remove_first)

lemma pending_sorted_update:
  assumes "pending_sorted q"
    and "\<And>u. u \<in> set (q_pending q) \<Longrightarrow> tx_id u = tx_id t \<Longrightarrow> tx_nonce u = tx_nonce t"
  shows "pending_sorted (fst (update_pending_transaction t q))"
proof -
  have "map tx_nonce (update_first (\<lambda>u. tx_id u = tx_id t) (\<lambda>_. t) (q_pending q))
          = map tx_nonce (q_pending q)"
    using assms(2) by (intro update_first_map_id) auto
  then show ?thesis
    using assms(1) by (simp add: pending_sorted_def update_pending_transaction_def)
qed

lemma pending_sorted_update_nonce:
  "pending_sorted q \<Longrightarrow> pending_sorted (update_pending_transaction_nonce i n q)"
  by (simp add: pending_sorted_def update_pending_transaction_nonce_def sort_pending_transactions_def)

lemma pending_sorted_move:
  "pending_sorted q \<Longrightarrow> move_pending_to_inmempool now t sent q = Inr q' \<Longrightarrow> pending_sorted q'"
  by (auto simp: pending_sorted_def move_pending_to_inmempool_def split: list.splits if_splits)

section \<open>Frames\<close>

text \<open>What the operations on one stage leave of the others.\<close>

lemma pending_frames [simp]:
  "q_pending (update_inmempool_transaction_gas sent now q) = q_pending q"
  "q_pending (update_inmempool_transaction_noop i sent now q) = q_pending q"
  "q_pending (update_inmempool_transaction_replaced i sent r q) = q_pending q"
  "q_pending (update_inmempool_transaction_nonce i n q) = q_pending q"
  "q_pending (move_mining_to_confirmed i q) = q_pending q"
  "q_pending (set_is_legacy_transactions b q) = q_pending q"
  "q_pending (set_is_paused b q) = q_pending q"
  "q_pending (set_name nm q) = q_pending q"
  "q_pending (set_max_gas_price m q) = q_pending q"
  by (simp_all add: update_inmempool_transaction_gas_def update_inmempool_transaction_noop_def
      update_inmempool_transaction_replaced_def update_inmempool_transaction_nonce_def
      move_mining_to_confirmed_def set_is_legacy_transactions_def set_is_paused_def set_name_def
      set_max_gas_price_def)

lemma inmempool_frames [simp]:
  "q_inmempool (add_pending_transaction t q) = q_inmempool q"
  "q_inmempool (fst (remove_pending_transaction_by_id i q)) = q_inmempool q"
  "q_inmempool (fst (update_pending_transaction t q)) = q_inmempool q"
  "q_inmempool (update_pending_transaction_nonce i n q) = q_inmempool q"
  "q_inmempool (move_mining_to_confirmed i q) = q_inmempool q"
  by (simp_all add: add_pending_transaction_def remove_pending_transaction_by_id_def
      update_pending_transaction_def update_pending_transaction_nonce_def
      move_mining_to_confirmed_def)

lemma relayer_frames [simp]:
  "q_relayer (add_pending_transaction t q) = q_relayer q"
  "q_relayer (fst (update_pending_transaction t q)) = q_relayer q"
  "q_relayer (update_pending_transaction_nonce i n q) = q_relayer q"
  "q_relayer (update_inmempool_transaction_gas sent now q) = q_relayer q"
  "q_relayer (update_inmempool_transaction_noop i sent now q) = q_relayer q"
  "q_relayer (update_inmempool_transaction_nonce i n q) = q_relayer q"
  "q_relayer (move_mining_to_confirmed i q) = q_relayer q"
  by (simp_all add: add_pending_transaction_def update_pending_transaction_def
      update_pending_transaction_nonce_def update_inmempool_transaction_gas_def
      update_inmempool_transaction_noop_def update_inmempool_transaction_nonce_def
      move_mining_to_confirmed_def)

section \<open>Members and their ids\<close>

definition queue_members :: "transactions_queue \<Rightarrow> transaction list" where
  "queue_members q = q_pending q @ concat (map ct_members (q_inmempool q))"

definition queue_ids :: "transactions_queue \<Rightarrow> transaction_id list" where
  "queue_ids q = map tx_id (queue_members q)"

lemma ct_members_new [simp]: "ct_members (new_competitive_transaction t) = [t]"
  by (simp add: ct_members_def new_competitive_transaction_def)

lemma ct_members_add_competitor [simp]:
  "ct_members (add_competitor c ty ct) =
     [(ct_original ct)\<lparr> tx_cancelled_by_transaction_id := Some (tx_id c) \<rparr>, c]"
  by (simp add: ct_members_def add_competitor_def)

lemma ct_original_member [simp]: "ct_original ct \<in> set (ct_members ct)"
  by (simp add: ct_members_def)

lemma active_member [simp]: "get_active_transaction ct \<in> set (ct_members ct)"
  by (auto simp: get_active_transaction_def ct_members_def split: option.splits)

lemma get_transaction_by_id_None:
  "(get_transaction_by_id i ct = None) = (i \<notin> tx_id ` set (ct_members ct))"
  by (auto simp: get_transaction_by_id_def ct_members_def split: option.splits if_splits)

lemma get_transaction_by_id_SomeD:
  "get_transaction_by_id i ct = Some t \<Longrightarrow> t \<in> set (ct_members ct) \<and> tx_id t = i"
  by (auto simp: get_transaction_by_id_def ct_members_def split: option.splits if_splits)

lemma active_by_id [simp]: "get_transaction_by_id (tx_id (get_active_transaction ct)) ct \<noteq> None"
  unfolding get_transaction_by_id_None by (simp add: rev_image_eqI)

lemma record_send_id [simp]: "tx_id (record_send sent now t) = tx_id t"
  by (simp add: record_send_def)

lemma noop_payload_simps [simp]:
  "tx_id (noop_payload self t) = tx_id t"
  "tx_nonce (noop_payload self t) = tx_nonce t"
  "tx_status (noop_payload self t) = tx_status t"
  "tx_to (noop_payload self t) = self"
  "tx_value (noop_payload self t) = 0"
  "tx_data (noop_payload self t) = []"
  "tx_is_noop (noop_payload self t)"
  "tx_blobs (noop_payload self t) = None"
  "tx_known_transaction_hash (noop_payload self t) = tx_known_transaction_hash t"
  "tx_relayer_id (noop_payload self t) = tx_relayer_id t"
  "tx_external_id (noop_payload self t) = tx_external_id t"
  "tx_cancelled_by_transaction_id (noop_payload self t) = tx_cancelled_by_transaction_id t"
  "tx_chain_id (noop_payload self t) = tx_chain_id t"
  by (simp_all add: noop_payload_def)

lemma members_modify_front_ids:
  "(\<And>ct. map tx_id (ct_members (f ct)) = map tx_id (ct_members ct)) \<Longrightarrow>
     map tx_id (concat (map ct_members (modify_front f cts))) =
     map tx_id (concat (map ct_members cts))"
  by (cases cts) auto

lemma modify_by_id_ids:
  "(\<And>t. tx_id (f t) = tx_id t) \<Longrightarrow>
     map tx_id (ct_members (modify_transaction_by_id i f ct)) = map tx_id (ct_members ct)"
  by (auto simp: modify_transaction_by_id_def ct_members_def split: option.splits)

lemma record_send_on_pair_ids:
  "map tx_id (ct_members (record_send_on_pair sent now ct)) = map tx_id (ct_members ct)"
  by (auto simp: record_send_on_pair_def ct_members_def split: option.splits)

lemma queue_ids_update_gas [simp]:
  "queue_ids (update_inmempool_transaction_gas sent now q) = queue_ids q"
  by (simp add: queue_ids_def queue_members_def update_inmempool_transaction_gas_def
      members_modify_front_ids record_send_on_pair_ids)

lemma queue_ids_update_noop [simp]:
  "queue_ids (update_inmempool_transaction_noop i sent now q) = queue_ids q"
  by (simp add: queue_ids_def queue_members_def update_inmempool_transaction_noop_def
      members_modify_front_ids modify_by_id_ids)

lemma members_update_first_ids:
  "(\<And>ct. map tx_id (ct_members (f ct)) = map tx_id (ct_members ct)) \<Longrightarrow>
     map tx_id (concat (map ct_members (update_first P f cts))) =
     map tx_id (concat (map ct_members cts))"
  by (induction cts) auto

lemma queue_ids_update_nonce [simp]:
  "queue_ids (update_inmempool_transaction_nonce i n q) = queue_ids q"
  by (simp add: queue_ids_def queue_members_def update_inmempool_transaction_nonce_def
      members_update_first_ids modify_by_id_ids)

lemma queue_ids_update_pending [simp]:
  "queue_ids (fst (update_pending_transaction t q)) = queue_ids q"
proof -
  have "map tx_id (update_first (\<lambda>u. tx_id u = tx_id t) (\<lambda>_. t) (q_pending q))
          = map tx_id (q_pending q)"
    by (rule update_first_map_id) simp
  then show ?thesis
    by (simp add: queue_ids_def queue_members_def update_pending_transaction_def)
qed

lemma queue_ids_add_pending:
  "mset (queue_ids (add_pending_transaction t q)) = add_mset (tx_id t) (mset (queue_ids q))"
  by (simp add: queue_ids_def queue_members_def)

lemma queue_ids_update_pending_nonce:
  "mset (queue_ids (update_pending_transaction_nonce i n q)) = mset (queue_ids q)"
proof -
  have "map tx_id (update_first (\<lambda>t. tx_id t = i) (\<lambda>t. t\<lparr> tx_nonce := n \<rparr>) (q_pending q))
          = map tx_id (q_pending q)"
    by (rule update_first_map_id) simp
  then have "mset (map tx_id (update_first (\<lambda>t. tx_id t = i) (\<lambda>t. t\<lparr> tx_nonce := n \<rparr>) (q_pending q)))
          = mset (map tx_id (q_pending q))" by simp
  then show ?thesis
    by (simp add: queue_ids_def queue_members_def update_pending_transaction_nonce_def
        sort_pending_transactions_def)
qed

lemma queue_ids_move_pending:
  "move_pending_to_inmempool now t sent q = Inr q' \<Longrightarrow> mset (queue_ids q') = mset (queue_ids q)"
  by (auto simp: move_pending_to_inmempool_def queue_ids_def queue_members_def
      split: list.splits if_splits)

lemma members_ids_cons:
  "tx_id ` set (queue_members (q\<lparr> q_inmempool := ct # rest \<rparr>)) =
     tx_id ` set (q_pending q) \<union> tx_id ` set (ct_members ct) \<union>
     tx_id ` (\<Union>u \<in> set rest. set (ct_members u))"
  by (auto simp: queue_members_def)

lemma queue_ids_add_competitor:
  assumes "add_competitor_to_inmempool_transaction i c ty q = Inr q'"
  shows "set (queue_ids q') \<subseteq> insert (tx_id c) (set (queue_ids q))"
proof -
  obtain ct rest where q: "q_inmempool q = ct # rest"
    and q': "q' = q\<lparr> q_inmempool := add_competitor c ty ct # rest \<rparr>"
    using assms
    by (auto simp: add_competitor_to_inmempool_transaction_def split: list.splits if_splits)
  have "q = q\<lparr> q_inmempool := ct # rest \<rparr>" using q by simp
  then have "set (queue_ids q) = tx_id ` set (queue_members (q\<lparr> q_inmempool := ct # rest \<rparr>))"
    by (simp add: queue_ids_def)
  moreover have "tx_id (ct_original ct) \<in> tx_id ` set (ct_members ct)" by simp
  ultimately show ?thesis
    unfolding q' queue_ids_def set_map members_ids_cons by auto
qed

lemma distinct_mset: "mset xs = mset ys \<Longrightarrow> distinct xs = distinct ys"
  by (metis distinct_count_atmost_1 set_mset_mset)

section \<open>Moves between the stages\<close>

lemma move_pending_to_inmempool_Inr:
  "(move_pending_to_inmempool now t sent q = Inr q') =
     (\<exists>queued rest. q_pending q = queued # rest \<and> tx_id queued = ts_id sent \<and> tx_id t = ts_id sent \<and>
        q' = q\<lparr> q_pending := rest,
               q_inmempool := q_inmempool q @
                 [new_competitive_transaction
                    ((record_send sent now t)\<lparr> tx_status := INMEMPOOL \<rparr>)] \<rparr>)"
  by (auto simp: move_pending_to_inmempool_def split: list.splits if_splits)

lemma resolve_competition_SomeD:
  "resolve_competition self e m i r ct = Some (w, l) \<Longrightarrow>
     tx_mined_at w = Some m \<and>
     (tx_id (ct_original ct) = i \<longrightarrow> tx_id w = i \<and> l = map_option fst (ct_competitive ct))"
  by (auto simp: resolve_competition_def split: if_splits option.splits)

lemma move_inmempool_to_mining_Inr:
  assumes "move_inmempool_to_mining e m i r q = Inr (q', res)"
  obtains ct rest where "q_inmempool q = ct # rest" "get_transaction_by_id i ct \<noteq> None"
    "resolve_competition (rl_address (q_relayer q)) e m i r ct = Some (cr_winner res, cr_loser res)"
    "cr_winner_status res = tx_status (cr_winner res)"
    "q' = q\<lparr> q_inmempool := rest,
            q_mined := (if tx_status (cr_winner res) = MINED
                        then AList.update (tx_id (cr_winner res)) (cr_winner res) (q_mined q)
                        else q_mined q) \<rparr>"
  using assms
  by (auto simp: move_inmempool_to_mining_def split: list.splits if_splits option.splits prod.splits)

lemma move_inmempool_never_stuck:
  assumes "q_inmempool q = ct # rest" "get_transaction_by_id i ct \<noteq> None"
  shows "\<exists>q' res. move_inmempool_to_mining e m i r q = Inr (q', res)"
proof -
  have "resolve_competition (rl_address (q_relayer q)) e m i r ct \<noteq> None"
    using assms(2) by (auto simp: resolve_competition_def get_transaction_by_id_def
        split: option.splits if_splits)
  with assms show ?thesis
    by (auto simp: move_inmempool_to_mining_def split: prod.splits)
qed

section \<open>The mined map\<close>

text \<open>Every entry is stored under its own id and is MINED.\<close>

definition mined_ok :: "transactions_queue \<Rightarrow> bool" where
  "mined_ok q = (distinct (map fst (q_mined q)) \<and>
     list_all (\<lambda>(i, t). tx_id t = i \<and> tx_status t = MINED) (q_mined q))"

lemma set_alist_update_subset: "set (AList.update k v al) \<subseteq> insert (k, v) (set al)"
  by (induction al) (auto simp: if_split_asm)

lemma set_alist_delete_subset: "set (AList.delete k al) \<subseteq> set al"
  by (auto simp: AList.delete_eq)

lemma mined_ok_move:
  assumes "mined_ok q" "move_inmempool_to_mining e m i r q = Inr (q', res)"
  shows "mined_ok q'"
proof -
  obtain rest where
    q': "q' = q\<lparr> q_inmempool := rest,
            q_mined := (if tx_status (cr_winner res) = MINED
                        then AList.update (tx_id (cr_winner res)) (cr_winner res) (q_mined q)
                        else q_mined q) \<rparr>"
    using assms(2) by (rule move_inmempool_to_mining_Inr) blast
  show ?thesis
    using assms(1) unfolding q' mined_ok_def list_all_iff
    by (auto simp: distinct_update dest!: set_alist_update_subset [THEN subsetD])
qed

lemma mined_ok_confirmed: "mined_ok q \<Longrightarrow> mined_ok (move_mining_to_confirmed i q)"
  unfolding mined_ok_def move_mining_to_confirmed_def list_all_iff
  by (auto simp: distinct_delete dest!: set_alist_delete_subset [THEN subsetD])

lemma get_next_mined_SomeD:
  "get_next_mined_transaction pick q = Some t \<Longrightarrow> \<exists>i. (i, t) \<in> set (q_mined q)"
proof -
  assume "get_next_mined_transaction pick q = Some t"
  then have ne: "q_mined q \<noteq> []" and t: "t = snd (q_mined q ! (pick mod length (q_mined q)))"
    by (auto simp: get_next_mined_transaction_def split: if_splits)
  then have "q_mined q ! (pick mod length (q_mined q)) \<in> set (q_mined q)" by simp
  then show ?thesis unfolding t by (metis prod.collapse)
qed

end
