(* ===== verification/Tx_Db.thy ===== *)
theory Tx_Db
  imports Queue_Laws
begin

text \<open>
  The transaction tables (transaction/db/write.rs, read.rs, admission.rs, builders.rs): the live
  table and the append-only audit log, one function per SQL operation. Each operation of the code
  runs in one database transaction, so it either applies as a whole or not at all; the answer the
  client sees is an argument, and an answer can be lost after the commit.
\<close>

section \<open>Rows\<close>

record row =
  r_id :: transaction_id
  r_relayer_id :: relayer_id
  r_to :: evm_address
  r_from :: evm_address
  r_nonce :: transaction_nonce
  r_chain_id :: chain_id
  r_data :: transaction_data
  r_value :: u256
  r_blobs :: "transaction_blob list option"
  r_gas_limit :: "u128 option"
  r_speed :: transaction_speed
  r_status :: transaction_status
  r_expires_at :: instant
  r_queued_at :: instant
  r_sent_at :: "instant option"
  r_mined_at :: "instant option"
  r_confirmed_at :: "instant option"
  r_failed_at :: "instant option"
  r_failed_reason :: "string option"
  r_hash :: "transaction_hash option"
  r_sent_max_priority_fee_per_gas :: "u128 option"
  r_sent_max_fee_per_gas :: "u128 option"
  r_gas_price :: "u128 option"
  r_sent_with_gas :: "gas_price_result option"
  r_sent_with_blob_gas :: "blob_gas_price_result option"
  r_block_hash :: "u256 option"
  r_block_number :: "u64 option"
  r_expired_at :: "instant option"
  r_external_id :: "string option"
  r_cancelled_by :: "transaction_id option"
  r_request_digest :: "u8 list option"

text \<open>The audit log is a list of row snapshots in the order of their \<open>history_id\<close>.\<close>

record db =
  db_rows :: "row list"
  db_audit :: "row list"

definition empty_db :: db where
  "empty_db = \<lparr> db_rows = [], db_audit = [] \<rparr>"

section \<open>Answers\<close>

datatype db_answer = DbOk | DbErr string | DbLostAck string

type_synonym 'a stmt = "db \<Rightarrow> db_error + db \<times> 'a"

definition run_stmt :: "db_answer \<Rightarrow> 'a stmt \<Rightarrow> db \<Rightarrow> db \<times> (db_error + 'a)" where
  "run_stmt ans f d =
     (case ans of
        DbErr e \<Rightarrow> (d, Inl (DbUnavailable e))
      | DbOk \<Rightarrow> (case f d of Inl e \<Rightarrow> (d, Inl e) | Inr (d', a) \<Rightarrow> (d', Inr a))
      | DbLostAck e \<Rightarrow> (case f d of Inl e' \<Rightarrow> (d, Inl e')
                                 | Inr (d', a) \<Rightarrow> (d', Inl (DbUnavailable e))))"

section \<open>Constraints\<close>

text \<open>
  The primary key, the unique index over the relayer and the external id, and the foreign key of
  the cancelling transaction.
\<close>

definition external_keys :: "row list \<Rightarrow> (relayer_id \<times> string) list" where
  "external_keys rs =
     concat (map (\<lambda>r. case r_external_id r of None \<Rightarrow> [] | Some e \<Rightarrow> [(r_relayer_id r, e)]) rs)"

definition cancelled_by_ok :: "row list \<Rightarrow> bool" where
  "cancelled_by_ok rs =
     list_all (\<lambda>r. case r_cancelled_by r of None \<Rightarrow> True | Some c \<Rightarrow> c \<in> r_id ` set rs) rs"

definition check_rows :: "row list \<Rightarrow> db_error + row list" where
  "check_rows rs =
     (if \<not> distinct (map r_id rs) then Inl (UniqueViolation ''transaction_pkey'')
      else if \<not> distinct (external_keys rs)
      then Inl (UniqueViolation ''idx_transaction_relayer_external_id'')
      else if \<not> cancelled_by_ok rs then Inl (ForeignKeyViolation ''fk_relayer_transaction_cancelled_by'')
      else Inr rs)"

text \<open>A write: the new live rows, checked, and the snapshots it appends to the audit log.\<close>

definition commit :: "row list \<Rightarrow> row list \<Rightarrow> 'a \<Rightarrow> 'a stmt" where
  "commit rs snapshots a d =
     and_then (check_rows rs) (\<lambda>rs'.
       Inr (\<lparr> db_rows = rs', db_audit = db_audit d @ snapshots \<rparr>, a))"

definition rows_with_id :: "transaction_id \<Rightarrow> row list \<Rightarrow> row list" where
  "rows_with_id i rs = filter (\<lambda>r. r_id r = i) rs"

definition update_where :: "(row \<Rightarrow> bool) \<Rightarrow> (row \<Rightarrow> row) \<Rightarrow> row list \<Rightarrow> row list" where
  "update_where p f rs = map (\<lambda>r. if p r then f r else r) rs"

text \<open>
  \<open>UPDATE ... WHERE id = $1\<close>, then the audit \<open>INSERT ... SELECT\<close> from the updated row, with the
  columns the statement lists; the others are NULL.
\<close>

definition update_and_audit :: "transaction_id \<Rightarrow> (row \<Rightarrow> row) \<Rightarrow> (row \<Rightarrow> row) \<Rightarrow> unit stmt" where
  "update_and_audit i f snapshot d =
     (let rs = update_where (\<lambda>r. r_id r = i) f (db_rows d)
      in commit rs (map snapshot (rows_with_id i rs)) () d)"

section \<open>Snapshots\<close>

definition audit_attempt :: "row \<Rightarrow> row" where
  "audit_attempt r = r\<lparr> r_request_digest := None \<rparr>"

definition audit_update :: "row \<Rightarrow> row" where
  "audit_update r = r\<lparr> r_cancelled_by := None, r_request_digest := None \<rparr>"

definition audit_sent :: "row \<Rightarrow> row" where
  "audit_sent r =
     r\<lparr> r_block_hash := None, r_block_number := None, r_expired_at := None,
        r_cancelled_by := None, r_request_digest := None \<rparr>"

definition audit_status :: "row \<Rightarrow> row" where
  "audit_status r =
     r\<lparr> r_sent_with_gas := None, r_sent_with_blob_gas := None, r_block_hash := None,
        r_block_number := None, r_expired_at := None, r_cancelled_by := None,
        r_request_digest := None \<rparr>"

definition audit_expired :: "row \<Rightarrow> row" where
  "audit_expired r =
     r\<lparr> r_sent_with_gas := None, r_sent_with_blob_gas := None, r_cancelled_by := None,
        r_request_digest := None \<rparr>"

definition audit_block :: "row \<Rightarrow> row" where
  "audit_block r =
     r\<lparr> r_sent_with_gas := None, r_sent_with_blob_gas := None, r_expired_at := None,
        r_cancelled_by := None, r_request_digest := None \<rparr>"

section \<open>The admission digest\<close>

fun speed_byte :: "transaction_speed \<Rightarrow> u8" where
  "speed_byte SLOW = 0"
| "speed_byte MEDIUM = 1"
| "speed_byte FAST = 2"
| "speed_byte SUPER = 3"

definition admission_domain :: "u8 list" where
  "admission_domain = map of_char ''rrelayer-admission-v1''"

text \<open>The bytes that are hashed; SHA-256 itself is the parameter \<open>sha\<close> of \<open>request_digest\<close>.\<close>

definition digest_preimage ::
  "evm_address \<Rightarrow> u256 \<Rightarrow> transaction_data \<Rightarrow> transaction_speed \<Rightarrow> u8 list" where
  "digest_preimage to v d s =
     admission_domain @ be_bytes 20 to @ be_bytes 32 v @
     be_bytes 8 (of_nat (length d) :: u64) @ d @ [speed_byte s]"

definition request_digest ::
  "(u8 list \<Rightarrow> u8 list) \<Rightarrow> evm_address \<Rightarrow> u256 \<Rightarrow> transaction_data \<Rightarrow> transaction_speed \<Rightarrow>
   u8 list" where
  "request_digest sha to v d s = sha (digest_preimage to v d s)"

section \<open>Writes\<close>

text \<open>The columns every insert of a transaction sets.\<close>

definition base_row :: "relayer_id \<Rightarrow> transaction \<Rightarrow> row" where
  "base_row rid t =
     \<lparr> r_id = tx_id t, r_relayer_id = rid, r_to = tx_to t, r_from = tx_from t, r_nonce = tx_nonce t,
       r_chain_id = tx_chain_id t, r_data = tx_data t, r_value = tx_value t, r_blobs = tx_blobs t,
       r_gas_limit = None, r_speed = tx_speed t, r_status = tx_status t,
       r_expires_at = tx_expires_at t, r_queued_at = tx_queued_at t, r_sent_at = None,
       r_mined_at = None, r_confirmed_at = None, r_failed_at = None, r_failed_reason = None,
       r_hash = None, r_sent_max_priority_fee_per_gas = None, r_sent_max_fee_per_gas = None,
       r_gas_price = None, r_sent_with_gas = None, r_sent_with_blob_gas = None,
       r_block_hash = None, r_block_number = None, r_expired_at = None,
       r_external_id = tx_external_id t, r_cancelled_by = None, r_request_digest = None \<rparr>"

definition transaction_digest :: "(u8 list \<Rightarrow> u8 list) \<Rightarrow> transaction \<Rightarrow> u8 list" where
  "transaction_digest sha t = request_digest sha (tx_to t) (tx_value t) (tx_data t) (tx_speed t)"

definition saved_row :: "(u8 list \<Rightarrow> u8 list) \<Rightarrow> relayer_id \<Rightarrow> transaction \<Rightarrow> row" where
  "saved_row sha rid t =
     (base_row rid t)\<lparr> r_gas_limit := tx_gas_limit t, r_hash := tx_known_transaction_hash t,
       r_cancelled_by := tx_cancelled_by_transaction_id t,
       r_request_digest := Some (transaction_digest sha t) \<rparr>"

definition save_transaction ::
  "(u8 list \<Rightarrow> u8 list) \<Rightarrow> relayer_id \<Rightarrow> transaction \<Rightarrow> unit stmt" where
  "save_transaction sha rid t d =
     commit (db_rows d @ [saved_row sha rid t]) [saved_row sha rid t] () d"

text \<open>The gas columns of a send; a legacy send stores only the legacy price.\<close>

definition sent_gas_columns ::
  "gas_price_result \<Rightarrow> blob_gas_price_result option \<Rightarrow> bool \<Rightarrow> row \<Rightarrow> row" where
  "sent_gas_columns g b legacy r =
     r\<lparr> r_sent_max_priority_fee_per_gas := (if legacy then None else Some (gp_max_priority_fee g)),
        r_sent_max_fee_per_gas := (if legacy then None else Some (gp_max_fee g)),
        r_gas_price := (if legacy then Some (legacy_gas_price g) else None),
        r_sent_with_gas := Some g,
        r_sent_with_blob_gas := b \<rparr>"

text \<open>The columns \<open>ON CONFLICT (id) DO UPDATE\<close> overwrites with the candidate's.\<close>

definition attempt_row ::
  "relayer_id \<Rightarrow> transaction \<Rightarrow> transaction_hash \<Rightarrow> gas_price_result \<Rightarrow>
   blob_gas_price_result option \<Rightarrow> bool \<Rightarrow> instant \<Rightarrow> row" where
  "attempt_row rid t h g b legacy now =
     sent_gas_columns g b legacy
       ((base_row rid t)\<lparr> r_gas_limit := tx_gas_limit t, r_hash := Some h,
          r_cancelled_by := tx_cancelled_by_transaction_id t, r_sent_at := Some now \<rparr>)"

definition merge_attempt :: "row \<Rightarrow> row \<Rightarrow> row" where
  "merge_attempt new old =
     new\<lparr> r_mined_at := r_mined_at old, r_confirmed_at := r_confirmed_at old,
          r_failed_at := r_failed_at old, r_failed_reason := r_failed_reason old,
          r_block_hash := r_block_hash old, r_block_number := r_block_number old,
          r_expired_at := r_expired_at old, r_request_digest := r_request_digest old \<rparr>"

definition transaction_broadcast_attempt ::
  "relayer_id \<Rightarrow> transaction \<Rightarrow> transaction_hash \<Rightarrow> gas_price_result \<Rightarrow>
   blob_gas_price_result option \<Rightarrow> bool \<Rightarrow> instant \<Rightarrow> unit stmt" where
  "transaction_broadcast_attempt rid t h g b legacy now d =
     (let new = attempt_row rid t h g b legacy now;
          rs = (if rows_with_id (tx_id t) (db_rows d) = [] then db_rows d @ [new]
                else update_where (\<lambda>r. r_id r = tx_id t) (merge_attempt new) (db_rows d))
      in commit rs (map audit_attempt (rows_with_id (tx_id t) rs)) () d)"

definition transaction_sent ::
  "transaction_id \<Rightarrow> transaction_hash \<Rightarrow> gas_price_result \<Rightarrow> blob_gas_price_result option \<Rightarrow> bool \<Rightarrow>
   instant \<Rightarrow> unit stmt" where
  "transaction_sent i h g b legacy now =
     update_and_audit i
       (\<lambda>r. sent_gas_columns g b legacy
              (r\<lparr> r_status := INMEMPOOL, r_hash := Some h, r_sent_at := Some now \<rparr>))
       audit_sent"

end
