(* ===== verification/Tx_Db_Ops.thy ===== *)
theory Tx_Db_Ops
  imports Tx_Db
begin

text \<open>
  The other statements of the transaction tables: recovery and repair at startup, the status
  updates of write.rs, the queries of read.rs, the row builder and the admission lookups.
\<close>

section \<open>Recovery and repair\<close>

definition has_attempt :: "transaction_id \<Rightarrow> transaction_hash \<Rightarrow> db \<Rightarrow> bool" where
  "has_attempt i h d =
     list_ex (\<lambda>a. r_id a = i \<and> r_hash a = Some h \<and> r_sent_at a \<noteq> None) (db_audit d)"

definition recoverable :: "relayer_id \<Rightarrow> transaction_id \<Rightarrow> transaction_hash \<Rightarrow> db \<Rightarrow> row \<Rightarrow> bool" where
  "recoverable rid i h d r =
     (r_id r = i \<and> r_relayer_id r = rid \<and> r_status r = PENDING \<and> r_failed_at r = None
      \<and> has_attempt i h d)"

text \<open>The guarded update of a landed attempt; the result is whether one row was recovered.\<close>

definition recover_landed_transaction_attempt ::
  "relayer_id \<Rightarrow> transaction_id \<Rightarrow> transaction_hash \<Rightarrow> gas_price_result \<Rightarrow>
   blob_gas_price_result option \<Rightarrow> bool \<Rightarrow> instant \<Rightarrow> bool stmt" where
  "recover_landed_transaction_attempt rid i h g b legacy now d =
     (let f = (\<lambda>r. sent_gas_columns g b legacy
                 (r\<lparr> r_status := INMEMPOOL, r_hash := Some h,
                     r_sent_at := (case r_sent_at r of None \<Rightarrow> Some now | Some s \<Rightarrow> Some s) \<rparr>));
          hit = filter (recoverable rid i h d) (db_rows d)
      in commit (update_where (recoverable rid i h d) f (db_rows d))
           (map (audit_attempt \<circ> f) hit) (length hit = 1) d)"

record repaired_transactions =
  rp_count :: nat
  rp_min_nonce :: "transaction_nonce option"
  rp_max_nonce :: "transaction_nonce option"

text \<open>\<open>MIN\<close> and \<open>MAX\<close> over a \<open>BIGINT\<close> column compare the nonces as signed integers.\<close>

definition signed_nonce :: "row \<Rightarrow> int" where
  "signed_nonce r = sint (r_nonce r)"

fun min_nonce_of :: "row list \<Rightarrow> transaction_nonce option" where
  "min_nonce_of [] = None"
| "min_nonce_of (r # rs) =
     (case min_nonce_of rs of
        None \<Rightarrow> Some (r_nonce r)
      | Some n \<Rightarrow> if signed_nonce r \<le> sint n then Some (r_nonce r) else Some n)"

fun max_nonce_of :: "row list \<Rightarrow> transaction_nonce option" where
  "max_nonce_of [] = None"
| "max_nonce_of (r # rs) =
     (case max_nonce_of rs of
        None \<Rightarrow> Some (r_nonce r)
      | Some n \<Rightarrow> if signed_nonce r \<ge> sint n then Some (r_nonce r) else Some n)"

definition poisoned :: "relayer_id \<Rightarrow> row \<Rightarrow> bool" where
  "poisoned rid r =
     (r_relayer_id r = rid \<and> r_status r = PENDING \<and> r_failed_at r \<noteq> None
      \<and> r_hash r = None \<and> r_sent_at r = None)"

definition poisoned_reason :: string where
  "poisoned_reason = ''startup repair: terminalized unsent failed pending transaction''"

definition fail_with :: "string \<Rightarrow> row \<Rightarrow> row" where
  "fail_with reason r =
     r\<lparr> r_status := FAILED,
        r_failed_reason := (case r_failed_reason r of None \<Rightarrow> Some reason | Some x \<Rightarrow> Some x) \<rparr>"

definition repair_poisoned_pending_transactions_for_relayer ::
  "relayer_id \<Rightarrow> repaired_transactions stmt" where
  "repair_poisoned_pending_transactions_for_relayer rid d =
     (let hit = map (fail_with poisoned_reason) (filter (poisoned rid) (db_rows d))
      in commit (update_where (poisoned rid) (fail_with poisoned_reason) (db_rows d))
           (map audit_attempt hit)
           \<lparr> rp_count = length hit, rp_min_nonce = min_nonce_of hit,
             rp_max_nonce = max_nonce_of hit \<rparr> d)"

text \<open>The guard of an absent repair: every recorded attempt is among the hashes checked absent.\<close>

definition repairable_absent ::
  "relayer_id \<Rightarrow> transaction_nonce \<Rightarrow> transaction_id \<times> transaction_hash list \<Rightarrow> db \<Rightarrow> row \<Rightarrow> bool" where
  "repairable_absent rid chain_nonce checked d r =
     (r_id r = fst checked \<and> r_relayer_id r = rid \<and> r_status r = PENDING
      \<and> r_sent_at r \<noteq> None \<and> r_failed_at r = None
      \<and> (case r_hash r of None \<Rightarrow> False | Some h \<Rightarrow> h \<in> set (snd checked))
      \<and> list_all (\<lambda>a. r_id a = fst checked \<and> r_sent_at a \<noteq> None \<longrightarrow>
           (case r_hash a of None \<Rightarrow> True | Some h \<Rightarrow> h \<in> set (snd checked))) (db_audit d)
      \<and> r_nonce r \<noteq> chain_nonce)"

definition fail_absent :: "instant \<Rightarrow> string \<Rightarrow> row \<Rightarrow> row" where
  "fail_absent now reason r = (fail_with reason r)\<lparr> r_failed_at := Some now \<rparr>"

definition repair_absent_one ::
  "relayer_id \<Rightarrow> transaction_nonce \<Rightarrow> string \<Rightarrow> instant \<Rightarrow> transaction_id \<times> transaction_hash list \<Rightarrow>
   row list stmt" where
  "repair_absent_one rid chain_nonce reason now checked d =
     (let p = repairable_absent rid chain_nonce checked d;
          hit = map (fail_absent now reason) (filter p (db_rows d))
      in commit (update_where p (fail_absent now reason) (db_rows d)) (map audit_attempt hit) hit d)"

fun repair_absent_loop ::
  "relayer_id \<Rightarrow> transaction_nonce \<Rightarrow> string \<Rightarrow> instant \<Rightarrow>
   (transaction_id \<times> transaction_hash list) list \<Rightarrow> row list \<Rightarrow> row list stmt" where
  "repair_absent_loop rid n reason now [] acc d = Inr (d, acc)"
| "repair_absent_loop rid n reason now (c # cs) acc d =
     and_then (repair_absent_one rid n reason now c d) (\<lambda>(d', hit).
       repair_absent_loop rid n reason now cs (acc @ hit) d')"

text \<open>
  One database transaction for all candidates. The fold over the nonces compares them unsigned.
\<close>

fun fold_min :: "row list \<Rightarrow> transaction_nonce option \<Rightarrow> transaction_nonce option" where
  "fold_min [] acc = acc"
| "fold_min (r # rs) acc =
     fold_min rs (case acc of Some c \<Rightarrow> if c \<le> r_nonce r then Some c else Some (r_nonce r)
                            | None \<Rightarrow> Some (r_nonce r))"

fun fold_max :: "row list \<Rightarrow> transaction_nonce option \<Rightarrow> transaction_nonce option" where
  "fold_max [] acc = acc"
| "fold_max (r # rs) acc =
     fold_max rs (case acc of Some c \<Rightarrow> if c \<ge> r_nonce r then Some c else Some (r_nonce r)
                            | None \<Rightarrow> Some (r_nonce r))"

definition repair_absent_pending_transactions_for_relayer ::
  "relayer_id \<Rightarrow> transaction_nonce \<Rightarrow> (transaction_id \<times> transaction_hash list) list \<Rightarrow> string \<Rightarrow>
   instant \<Rightarrow> repaired_transactions stmt" where
  "repair_absent_pending_transactions_for_relayer rid chain_nonce checked reason now d =
     (if checked = []
      then Inr (d, \<lparr> rp_count = 0, rp_min_nonce = None, rp_max_nonce = None \<rparr>)
      else and_then (repair_absent_loop rid chain_nonce reason now checked [] d) (\<lambda>(d', hit).
             Inr (d', \<lparr> rp_count = length hit, rp_min_nonce = fold_min hit None,
                        rp_max_nonce = fold_max hit None \<rparr>)))"

section \<open>Status updates\<close>

definition transaction_failed_on_send ::
  "(u8 list \<Rightarrow> u8 list) \<Rightarrow> relayer_id \<Rightarrow> transaction \<Rightarrow> string \<Rightarrow> instant \<Rightarrow> unit stmt" where
  "transaction_failed_on_send sha rid t reason now d =
     (let r = (base_row rid t)\<lparr> r_failed_at := Some now, r_failed_reason := Some (take 2000 reason),
                r_request_digest := Some (transaction_digest sha t) \<rparr>
      in commit (db_rows d @ [r]) [r] () d)"

definition update_transaction_noop ::
  "transaction_id \<Rightarrow> evm_address \<Rightarrow> transaction_speed \<Rightarrow> u128 \<Rightarrow> unit stmt" where
  "update_transaction_noop i to sp limit =
     update_and_audit i
       (\<lambda>r. r\<lparr> r_to := to, r_value := 0, r_data := [], r_blobs := None, r_gas_limit := Some limit,
               r_speed := sp \<rparr>)
       audit_status"

definition update_transaction_failed :: "transaction_id \<Rightarrow> string \<Rightarrow> instant \<Rightarrow> unit stmt" where
  "update_transaction_failed i reason now =
     update_and_audit i
       (\<lambda>r. r\<lparr> r_status := FAILED, r_failed_at := Some now,
               r_failed_reason := Some (take 2000 reason) \<rparr>)
       audit_status"

text \<open>The live row takes the hash of the receipt, the snapshot the one the queue knew.\<close>

definition transaction_mined :: "transaction \<Rightarrow> receipt \<Rightarrow> instant \<Rightarrow> unit stmt" where
  "transaction_mined t rc now =
     update_and_audit (tx_id t)
       (\<lambda>r. r\<lparr> r_status := MINED, r_to := tx_to t, r_from := tx_from t, r_value := tx_value t,
               r_data := tx_data t, r_nonce := tx_nonce t, r_chain_id := tx_chain_id t,
               r_gas_limit := Some (ucast (rc_gas_used rc)), r_block_hash := rc_block_hash rc,
               r_block_number := rc_block_number rc, r_speed := tx_speed t,
               r_hash := Some (rc_transaction_hash rc),
               r_sent_max_fee_per_gas := tx_sent_with_max_fee_per_gas t,
               r_sent_max_priority_fee_per_gas := tx_sent_with_max_priority_fee_per_gas t,
               r_external_id := tx_external_id t, r_mined_at := Some now \<rparr>)
       (\<lambda>r. (audit_block r)\<lparr> r_hash := tx_known_transaction_hash t \<rparr>)"

definition transaction_confirmed :: "transaction_id \<Rightarrow> instant \<Rightarrow> unit stmt" where
  "transaction_confirmed i now =
     update_and_audit i (\<lambda>r. r\<lparr> r_status := CONFIRMED, r_confirmed_at := Some now \<rparr>) audit_block"

definition transaction_update_nonce :: "transaction_id \<Rightarrow> transaction_nonce \<Rightarrow> unit stmt" where
  "transaction_update_nonce i n = update_and_audit i (\<lambda>r. r\<lparr> r_nonce := n \<rparr>) audit_block"

definition transaction_expired :: "transaction_id \<Rightarrow> instant \<Rightarrow> unit stmt" where
  "transaction_expired i now =
     update_and_audit i (\<lambda>r. r\<lparr> r_status := EXPIRED, r_expired_at := Some now \<rparr>) audit_expired"

definition updated_row :: "transaction \<Rightarrow> instant \<Rightarrow> row \<Rightarrow> row" where
  "updated_row t now r =
     r\<lparr> r_relayer_id := tx_relayer_id t, r_to := tx_to t, r_from := tx_from t,
        r_nonce := tx_nonce t, r_chain_id := tx_chain_id t, r_data := tx_data t,
        r_value := tx_value t, r_speed := tx_speed t, r_status := tx_status t,
        r_expires_at := tx_expires_at t, r_queued_at := tx_queued_at t, r_sent_at := tx_sent_at t,
        r_mined_at := tx_mined_at t, r_confirmed_at := tx_confirmed_at t,
        r_gas_limit := tx_gas_limit t, r_hash := tx_known_transaction_hash t,
        r_sent_max_fee_per_gas := tx_sent_with_max_fee_per_gas t,
        r_sent_max_priority_fee_per_gas := tx_sent_with_max_priority_fee_per_gas t,
        r_sent_with_gas := tx_sent_with_gas t, r_sent_with_blob_gas := tx_sent_with_blob_gas t,
        r_external_id := tx_external_id t, r_cancelled_by := tx_cancelled_by_transaction_id t,
        r_blobs := tx_blobs t, r_failed_reason := map_option (take 2000) (tx_failed_reason t),
        r_failed_at := (if tx_failed_reason t = None then r_failed_at r else Some now) \<rparr>"

definition transaction_update :: "transaction \<Rightarrow> instant \<Rightarrow> unit stmt" where
  "transaction_update t now = update_and_audit (tx_id t) (updated_row t now) audit_update"

section \<open>Queries\<close>

definition build_transaction_from_transaction_view :: "row \<Rightarrow> transaction" where
  "build_transaction_from_transaction_view r =
     \<lparr> tx_id = r_id r, tx_relayer_id = r_relayer_id r, tx_to = r_to r, tx_from = r_from r,
       tx_value = r_value r, tx_data = r_data r, tx_nonce = r_nonce r, tx_chain_id = r_chain_id r,
       tx_gas_limit = r_gas_limit r, tx_status = r_status r, tx_blobs = r_blobs r,
       tx_known_transaction_hash = r_hash r, tx_queued_at = r_queued_at r,
       tx_expires_at = r_expires_at r, tx_sent_at = r_sent_at r,
       tx_confirmed_at = r_confirmed_at r, tx_sent_with_gas = r_sent_with_gas r,
       tx_sent_with_blob_gas = r_sent_with_blob_gas r, tx_mined_at = r_mined_at r,
       tx_mined_at_block_number = r_block_number r, tx_speed = r_speed r,
       tx_sent_with_max_priority_fee_per_gas = r_sent_max_priority_fee_per_gas r,
       tx_sent_with_max_fee_per_gas = r_sent_max_fee_per_gas r,
       tx_is_noop = (r_to r = r_from r), tx_external_id = r_external_id r,
       tx_cancelled_by_transaction_id = r_cancelled_by r, tx_failed_reason = r_failed_reason r \<rparr>"

record recorded_attempt =
  ra_hash :: transaction_hash
  ra_sent_with_gas :: "gas_price_result option"
  ra_sent_with_blob_gas :: "blob_gas_price_result option"

text \<open>\<open>SELECT DISTINCT ON (hash)\<close>: the first row of each hash in the order given.\<close>

fun first_per_hash :: "recorded_attempt list \<Rightarrow> recorded_attempt list" where
  "first_per_hash [] = []"
| "first_per_hash (a # as) =
     a # filter (\<lambda>b. ra_hash b \<noteq> ra_hash a) (first_per_hash as)"

definition attempt_of_row :: "row \<Rightarrow> recorded_attempt list" where
  "attempt_of_row r =
     (case r_hash r of
        None \<Rightarrow> []
      | Some h \<Rightarrow>
          if r_sent_at r = None then []
          else [\<lparr> ra_hash = h, ra_sent_with_gas = r_sent_with_gas r,
                  ra_sent_with_blob_gas = r_sent_with_blob_gas r \<rparr>])"

text \<open>The audit rows in history order, then the live row, whose \<open>history_id\<close> is NULL.\<close>

definition get_recorded_transaction_attempts :: "transaction_id \<Rightarrow> db \<Rightarrow> recorded_attempt list" where
  "get_recorded_transaction_attempts i d =
     first_per_hash (concat (map attempt_of_row
       (rows_with_id i (db_audit d) @ rows_with_id i (db_rows d))))"

definition get_transaction :: "transaction_id \<Rightarrow> db \<Rightarrow> transaction option" where
  "get_transaction i d =
     map_option build_transaction_from_transaction_view (find (\<lambda>r. r_id r = i) (db_rows d))"

record paging_context =
  pc_limit :: u32
  pc_offset :: u32

definition paging_next :: "paging_context \<Rightarrow> nat \<Rightarrow> paging_context option" where
  "paging_next pc len =
     (if len = 0 then None
      else Some \<lparr> pc_limit = pc_limit pc, pc_offset = pc_offset pc + pc_limit pc \<rparr>)"

definition paging_previous :: "paging_context \<Rightarrow> paging_context option" where
  "paging_previous pc =
     (if pc_offset pc > pc_limit pc
      then Some \<lparr> pc_limit = pc_limit pc, pc_offset = pc_offset pc - pc_limit pc \<rparr> else None)"

record 'a paging_result =
  pr_items :: "'a list"
  pr_next :: "paging_context option"
  pr_previous :: "paging_context option"

definition page_of :: "paging_context \<Rightarrow> row list \<Rightarrow> transaction paging_result" where
  "page_of pc rs =
     (let items = map build_transaction_from_transaction_view
                    (take (unat (pc_limit pc)) (drop (unat (pc_offset pc)) rs))
      in \<lparr> pr_items = items, pr_next = paging_next pc (length items),
           pr_previous = paging_previous pc \<rparr>)"

text \<open>
  \<open>ORDER BY nonce\<close> on a \<open>BIGINT\<close> column is signed; rows with the same nonce come in table order.
\<close>

definition get_transactions_by_status_for_relayer ::
  "relayer_id \<Rightarrow> transaction_status \<Rightarrow> paging_context \<Rightarrow> db \<Rightarrow> transaction paging_result" where
  "get_transactions_by_status_for_relayer rid st pc d =
     page_of pc (sort_key signed_nonce
       (filter (\<lambda>r. r_relayer_id r = rid \<and> r_status r = st) (db_rows d)))"

definition get_transactions_for_relayer ::
  "relayer_id \<Rightarrow> paging_context \<Rightarrow> db \<Rightarrow> transaction paging_result" where
  "get_transactions_for_relayer rid pc d =
     page_of pc (filter (\<lambda>r. r_relayer_id r = rid) (db_rows d))"

definition get_pending_transactions_with_attempt_evidence_for_relayer ::
  "relayer_id \<Rightarrow> paging_context \<Rightarrow> db \<Rightarrow> transaction paging_result" where
  "get_pending_transactions_with_attempt_evidence_for_relayer rid pc d =
     page_of pc (sort_key signed_nonce
       (filter (\<lambda>r. r_relayer_id r = rid \<and> r_status r = PENDING \<and> r_sent_at r \<noteq> None
                    \<and> r_failed_at r = None \<and> r_hash r \<noteq> None) (db_rows d)))"

text \<open>\<open>query_opt\<close> fails when a query for at most one row gives two.\<close>

definition get_transaction_by_hash :: "transaction_hash \<Rightarrow> db \<Rightarrow> db_error + transaction option" where
  "get_transaction_by_hash h d =
     (case filter (\<lambda>r. r_hash r = Some h) (db_rows d) of
        [] \<Rightarrow> Inr None
      | [r] \<Rightarrow> Inr (Some (build_transaction_from_transaction_view r))
      | _ \<Rightarrow> Inl (DbUnavailable ''query returned an unexpected number of rows''))"

datatype external_lookup_error = AmbiguousExternalId

definition get_transaction_by_external_id ::
  "string \<Rightarrow> db \<Rightarrow> external_lookup_error + transaction option" where
  "get_transaction_by_external_id e d =
     (case filter (\<lambda>r. r_external_id r = Some e) (db_rows d) of
        [] \<Rightarrow> Inr None
      | [r] \<Rightarrow> Inr (Some (build_transaction_from_transaction_view r))
      | _ \<Rightarrow> Inl AmbiguousExternalId)"

definition find_by_external_id :: "relayer_id \<Rightarrow> string \<Rightarrow> db \<Rightarrow> row option" where
  "find_by_external_id rid e d =
     find (\<lambda>r. r_relayer_id r = rid \<and> r_external_id r = Some e) (db_rows d)"

definition get_transaction_by_external_id_for_relayer ::
  "relayer_id \<Rightarrow> string \<Rightarrow> db \<Rightarrow> transaction option" where
  "get_transaction_by_external_id_for_relayer rid e d =
     map_option build_transaction_from_transaction_view (find_by_external_id rid e d)"

text \<open>\<open>query\<close> functions return the error of the connection, else the answer.\<close>

definition run_query :: "string option \<Rightarrow> (db \<Rightarrow> 'a) \<Rightarrow> db \<Rightarrow> db_error + 'a" where
  "run_query fault f d = (case fault of Some e \<Rightarrow> Inl (DbUnavailable e) | None \<Rightarrow> Inr (f d))"

section \<open>Admission\<close>

datatype admission_error = CouldNotSaveTransactionDb db_error | ExternalIdConflict string

definition find_admitted_transaction ::
  "string option \<Rightarrow> relayer_id \<Rightarrow> string option \<Rightarrow> u8 list \<Rightarrow> db \<Rightarrow>
   admission_error + transaction option" where
  "find_admitted_transaction fault rid ext digest d =
     (case ext of
        None \<Rightarrow> Inr None
      | Some e \<Rightarrow>
          and_then (map_err CouldNotSaveTransactionDb (run_query fault (find_by_external_id rid e) d))
            (\<lambda>found.
              case found of
                None \<Rightarrow> Inr None
              | Some r \<Rightarrow>
                  if r_request_digest r \<noteq> Some digest then Inl (ExternalIdConflict e)
                  else Inr (Some (build_transaction_from_transaction_view r))))"

definition resolve_admission_insert_error ::
  "(u8 list \<Rightarrow> u8 list) \<Rightarrow> string option \<Rightarrow> relayer_id \<Rightarrow> transaction \<Rightarrow> db_error \<Rightarrow> db \<Rightarrow>
   admission_error + transaction" where
  "resolve_admission_insert_error sha fault rid t err d =
     (if err = UniqueViolation ''idx_transaction_relayer_external_id''
      then and_then (find_admitted_transaction fault rid (tx_external_id t) (transaction_digest sha t) d)
             (\<lambda>found. case found of
                        Some stored \<Rightarrow> Inr stored
                      | None \<Rightarrow> Inl (CouldNotSaveTransactionDb err))
      else Inl (CouldNotSaveTransactionDb err))"

definition save_admitted_transaction ::
  "(u8 list \<Rightarrow> u8 list) \<Rightarrow> db_answer \<Rightarrow> string option \<Rightarrow> relayer_id \<Rightarrow> transaction \<Rightarrow> db \<Rightarrow>
   db \<times> (admission_error + transaction)" where
  "save_admitted_transaction sha ans fault rid t d =
     (case run_stmt ans (save_transaction sha rid t) d of
        (d', Inr _) \<Rightarrow> (d', Inr t)
      | (d', Inl err) \<Rightarrow> (d', resolve_admission_insert_error sha fault rid t err d'))"

end
