(* ===== verification/Tx_Db_Laws.thy ===== *)
theory Tx_Db_Laws
  imports Tx_Db_Ops
begin

text \<open>
  Laws of the transaction tables: constraints hold after every statement, the audit log only grows,
  a recorded attempt stays recorded, and what the queries return of what was written.
\<close>

section \<open>Commits\<close>

definition rows_ok :: "row list \<Rightarrow> bool" where
  "rows_ok rs = (distinct (map r_id rs) \<and> distinct (external_keys rs) \<and> cancelled_by_ok rs)"

definition db_ok :: "db \<Rightarrow> bool" where
  "db_ok d = rows_ok (db_rows d)"

lemma check_rows_Inr: "(check_rows rs = Inr rs') = (rs' = rs \<and> rows_ok rs)"
  by (auto simp: check_rows_def rows_ok_def)

lemma commit_Inr:
  "(commit rs snaps a d = Inr (d', b)) =
     (b = a \<and> rows_ok rs \<and> d' = \<lparr> db_rows = rs, db_audit = db_audit d @ snaps \<rparr>)"
  by (auto simp: commit_def and_then_Inr check_rows_Inr)

lemma commit_Inl: "rows_ok rs \<Longrightarrow> commit rs snaps a d = Inr (\<lparr> db_rows = rs, db_audit = db_audit d @ snaps \<rparr>, a)"
  by (simp add: commit_Inr)

text \<open>
  A statement is \<open>lawful\<close> when its success keeps the constraints and only appends to the audit log.
\<close>

definition audit_grows :: "db \<Rightarrow> db \<Rightarrow> bool" where
  "audit_grows d d' = (\<exists>s. db_audit d' = db_audit d @ s)"

definition lawful :: "'a stmt \<Rightarrow> bool" where
  "lawful f = (\<forall>d d' a. f d = Inr (d', a) \<longrightarrow> (db_ok d \<longrightarrow> db_ok d') \<and> audit_grows d d')"

lemma audit_grows_refl [simp]: "audit_grows d d"
  by (simp add: audit_grows_def)

lemma audit_grows_trans: "audit_grows a b \<Longrightarrow> audit_grows b c \<Longrightarrow> audit_grows a c"
  by (auto simp: audit_grows_def)

lemma lawful_commit: "lawful (\<lambda>d. commit (f d) (g d) (h d) d)"
  by (auto simp: lawful_def commit_Inr db_ok_def audit_grows_def)

lemma lawful_update_and_audit [intro]: "lawful (update_and_audit i f s)"
  using lawful_commit unfolding update_and_audit_def Let_def .

lemma lawful_save_transaction [intro]: "lawful (save_transaction sha rid t)"
  using lawful_commit unfolding save_transaction_def .

lemma lawful_broadcast_attempt [intro]:
  "lawful (transaction_broadcast_attempt rid t h g b legacy now)"
  using lawful_commit unfolding transaction_broadcast_attempt_def Let_def .

lemma lawful_transaction_sent [intro]: "lawful (transaction_sent i h g b legacy now)"
  unfolding transaction_sent_def by blast

lemma lawful_recover [intro]:
  "lawful (recover_landed_transaction_attempt rid i h g b legacy now)"
  using lawful_commit unfolding recover_landed_transaction_attempt_def Let_def .

lemma lawful_repair_poisoned [intro]:
  "lawful (repair_poisoned_pending_transactions_for_relayer rid)"
  using lawful_commit unfolding repair_poisoned_pending_transactions_for_relayer_def Let_def .

lemma lawful_repair_absent_one [intro]: "lawful (repair_absent_one rid n reason now c)"
  using lawful_commit unfolding repair_absent_one_def Let_def .

lemma lawful_repair_absent_loop: "lawful (repair_absent_loop rid n reason now cs acc)"
proof (induction cs arbitrary: acc)
  case Nil
  then show ?case by (simp add: lawful_def)
next
  case (Cons c cs)
  show ?case
    unfolding lawful_def
  proof (intro allI impI)
    fix d d' a
    assume "repair_absent_loop rid n reason now (c # cs) acc d = Inr (d', a)"
    then obtain d1 hit where one: "repair_absent_one rid n reason now c d = Inr (d1, hit)"
      and rest: "repair_absent_loop rid n reason now cs (acc @ hit) d1 = Inr (d', a)"
      by (auto simp: and_then_Inr)
    have "(db_ok d \<longrightarrow> db_ok d1) \<and> audit_grows d d1"
      using lawful_repair_absent_one one unfolding lawful_def by blast
    moreover have "(db_ok d1 \<longrightarrow> db_ok d') \<and> audit_grows d1 d'"
      using Cons.IH [of "acc @ hit"] rest unfolding lawful_def by blast
    ultimately show "(db_ok d \<longrightarrow> db_ok d') \<and> audit_grows d d'"
      using audit_grows_trans by blast
  qed
qed

lemma lawful_repair_absent [intro]:
  "lawful (repair_absent_pending_transactions_for_relayer rid n cs reason now)"
proof (cases "cs = []")
  case True
  then show ?thesis
    by (simp add: lawful_def repair_absent_pending_transactions_for_relayer_def)
next
  case False
  show ?thesis
    unfolding lawful_def
  proof (intro allI impI)
    fix d d' a
    assume "repair_absent_pending_transactions_for_relayer rid n cs reason now d = Inr (d', a)"
    then obtain hit where "repair_absent_loop rid n reason now cs [] d = Inr (d', hit)"
      using False
      by (auto simp: repair_absent_pending_transactions_for_relayer_def and_then_Inr)
    then show "(db_ok d \<longrightarrow> db_ok d') \<and> audit_grows d d'"
      using lawful_repair_absent_loop unfolding lawful_def by blast
  qed
qed

lemma lawful_failed_on_send [intro]: "lawful (transaction_failed_on_send sha rid t reason now)"
  using lawful_commit unfolding transaction_failed_on_send_def Let_def .

lemma lawful_updates [intro]:
  "lawful (update_transaction_noop i to sp limit)"
  "lawful (update_transaction_failed i reason now)"
  "lawful (transaction_mined t rc now)"
  "lawful (transaction_confirmed i now)"
  "lawful (transaction_update_nonce i n)"
  "lawful (transaction_expired i now)"
  "lawful (transaction_update t now)"
  unfolding update_transaction_noop_def update_transaction_failed_def transaction_mined_def
    transaction_confirmed_def transaction_update_nonce_def transaction_expired_def
    transaction_update_def
  by (rule lawful_update_and_audit)+

lemma run_stmt_cases:
  assumes "run_stmt ans f d = (d', r)"
  obtains "d' = d" "\<exists>e. r = Inl e"
  | a where "f d = Inr (d', a)" "r = Inr a \<or> (\<exists>e. r = Inl e)"
  using assms by (cases ans; cases "f d") (auto simp: run_stmt_def)

lemma run_stmt_lawful:
  assumes "lawful f"
  shows "audit_grows d (fst (run_stmt ans f d))" and "db_ok d \<Longrightarrow> db_ok (fst (run_stmt ans f d))"
  using assms
  by (cases ans; cases "f d"; force simp: run_stmt_def lawful_def)+

lemma run_stmt_Inr: "run_stmt ans f d = (d', Inr a) \<Longrightarrow> f d = Inr (d', a)"
  by (cases ans) (auto simp: run_stmt_def split: sum.splits)

section \<open>Broadcast evidence\<close>

text \<open>A hash is evidenced when some audit snapshot records it as sent.\<close>

definition evidenced :: "transaction_hash \<Rightarrow> db \<Rightarrow> bool" where
  "evidenced h d = (\<exists>i. has_attempt i h d)"

lemma has_attempt_grows [evidence_intros]: "audit_grows d d' \<Longrightarrow> has_attempt i h d \<Longrightarrow> has_attempt i h d'"
  by (auto simp: audit_grows_def has_attempt_def)

lemma evidenced_grows [evidence_intros]: "audit_grows d d' \<Longrightarrow> evidenced h d \<Longrightarrow> evidenced h d'"
  by (auto simp: evidenced_def intro: has_attempt_grows)

lemma run_stmt_evidenced [evidence_intros]:
  "lawful f \<Longrightarrow> evidenced h d \<Longrightarrow> evidenced h (fst (run_stmt ans f d))"
  by (rule evidenced_grows [OF run_stmt_lawful(1)])

lemma audit_attempt_simps [simp]:
  "r_id (audit_attempt r) = r_id r" "r_hash (audit_attempt r) = r_hash r"
  "r_sent_at (audit_attempt r) = r_sent_at r" "r_nonce (audit_attempt r) = r_nonce r"
  by (simp_all add: audit_attempt_def)

lemma attempt_row_simps [simp]:
  "r_id (attempt_row rid t h g b l now) = tx_id t"
  "r_hash (attempt_row rid t h g b l now) = Some h"
  "r_sent_at (attempt_row rid t h g b l now) = Some now"
  "r_nonce (attempt_row rid t h g b l now) = tx_nonce t"
  by (simp_all add: attempt_row_def sent_gas_columns_def base_row_def)

lemma merge_attempt_simps [simp]:
  "r_id (merge_attempt new old) = r_id new" "r_hash (merge_attempt new old) = r_hash new"
  "r_sent_at (merge_attempt new old) = r_sent_at new"
  "r_nonce (merge_attempt new old) = r_nonce new"
  by (simp_all add: merge_attempt_def)

text \<open>After the statement of \<open>persist_attempt\<close> the hash is recorded for its transaction.\<close>

lemma broadcast_attempt_recorded:
  assumes "transaction_broadcast_attempt rid t h g b l now d = Inr (d', u)"
  shows "has_attempt (tx_id t) h d'"
proof -
  let ?new = "attempt_row rid t h g b l now"
  have "\<exists>r \<in> set (db_audit d'). r_id r = tx_id t \<and> r_hash r = Some h \<and> r_sent_at r = Some now"
  proof (cases "rows_with_id (tx_id t) (db_rows d) = []")
    case True
    then have "db_audit d' = db_audit d @ [audit_attempt ?new]"
      using assms
      by (auto simp: transaction_broadcast_attempt_def Let_def commit_Inr rows_with_id_def)
    then show ?thesis by auto
  next
    case False
    then obtain r where r: "r \<in> set (db_rows d)" "r_id r = tx_id t"
      by (auto simp: rows_with_id_def filter_empty_conv)
    have "db_audit d' = db_audit d @ map audit_attempt (rows_with_id (tx_id t)
            (update_where (\<lambda>r. r_id r = tx_id t) (merge_attempt ?new) (db_rows d)))"
      using assms False by (auto simp: transaction_broadcast_attempt_def Let_def commit_Inr)
    then have "audit_attempt (merge_attempt ?new r) \<in> set (db_audit d')"
      using r by (auto simp: rows_with_id_def update_where_def)
    then show ?thesis by (rule bexI [rotated]) simp
  qed
  then show ?thesis by (auto simp: has_attempt_def list_ex_iff)
qed

section \<open>Recorded attempts\<close>

lemma set_first_per_hash_subset: "set (first_per_hash as) \<subseteq> set as"
  by (induction as) auto

lemma hashes_first_per_hash: "ra_hash ` set (first_per_hash as) = ra_hash ` set as"
proof (induction as)
  case Nil
  then show ?case by simp
next
  case (Cons a as)
  have "insert (ra_hash a) (ra_hash ` {x \<in> set (first_per_hash as). ra_hash x \<noteq> ra_hash a}) =
          insert (ra_hash a) (ra_hash ` set (first_per_hash as))"
    by auto
  with Cons show ?case by simp
qed

lemma distinct_first_per_hash: "distinct (map ra_hash (first_per_hash as))"
  by (induction as) (auto simp: distinct_map intro: inj_on_subset)

lemma attempt_of_row_hash:
  "(h \<in> ra_hash ` set (attempt_of_row r)) = (r_hash r = Some h \<and> r_sent_at r \<noteq> None)"
  by (auto simp: attempt_of_row_def split: option.splits)

text \<open>The recorded attempts are exactly the hashes the audit log or the live row records as sent.\<close>

lemma recorded_attempts_complete:
  "(h \<in> ra_hash ` set (get_recorded_transaction_attempts i d)) =
     (has_attempt i h d \<or>
      (\<exists>r \<in> set (db_rows d). r_id r = i \<and> r_hash r = Some h \<and> r_sent_at r \<noteq> None))"
proof -
  have "(h \<in> ra_hash ` set (get_recorded_transaction_attempts i d)) =
          (\<exists>r \<in> set (db_audit d) \<union> set (db_rows d). r_id r = i \<and> h \<in> ra_hash ` set (attempt_of_row r))"
    unfolding get_recorded_transaction_attempts_def hashes_first_per_hash
    by (auto simp: rows_with_id_def image_iff)
  then show ?thesis
    unfolding attempt_of_row_hash has_attempt_def list_ex_iff by auto
qed

lemma recorded_attempts_distinct:
  "distinct (map ra_hash (get_recorded_transaction_attempts i d))"
  by (simp add: get_recorded_transaction_attempts_def distinct_first_per_hash)

section \<open>Rows are never deleted\<close>

definition known_ids :: "db \<Rightarrow> transaction_id set" where
  "known_ids d = r_id ` set (db_rows d)"

definition keeps_ids :: "'a stmt \<Rightarrow> bool" where
  "keeps_ids f = (\<forall>d d' a. f d = Inr (d', a) \<longrightarrow> known_ids d \<subseteq> known_ids d')"

lemma update_where_ids:
  assumes "\<And>r. p r \<Longrightarrow> r_id (f r) = r_id r"
  shows "r_id ` set (update_where p f rs) = r_id ` set rs"
proof -
  have "map r_id (update_where p f rs) = map r_id rs"
    using assms by (simp add: update_where_def)
  then show ?thesis by (metis set_map)
qed

lemma keeps_ids_update_and_audit: "(\<And>r. r_id (f r) = r_id r) \<Longrightarrow> keeps_ids (update_and_audit i f s)"
  by (auto simp: keeps_ids_def update_and_audit_def Let_def commit_Inr known_ids_def update_where_ids)

lemma sent_gas_columns_id [simp]: "r_id (sent_gas_columns g b l r) = r_id r"
  by (simp add: sent_gas_columns_def)

lemma saved_row_id [simp]: "r_id (saved_row sha rid t) = tx_id t"
  by (simp add: saved_row_def base_row_def)

lemma keeps_ids_updates [intro]:
  "keeps_ids (update_transaction_noop i to sp limit)"
  "keeps_ids (update_transaction_failed i reason now)"
  "keeps_ids (transaction_mined t rc now)"
  "keeps_ids (transaction_confirmed i now)"
  "keeps_ids (transaction_update_nonce i n)"
  "keeps_ids (transaction_expired i now)"
  "keeps_ids (transaction_update t now)"
  "keeps_ids (transaction_sent i h g b legacy now)"
  unfolding update_transaction_noop_def update_transaction_failed_def transaction_mined_def
    transaction_confirmed_def transaction_update_nonce_def transaction_expired_def
    transaction_update_def transaction_sent_def updated_row_def
  by (rule keeps_ids_update_and_audit; simp)+

lemma keeps_ids_save [intro]: "keeps_ids (save_transaction sha rid t)"
  by (auto simp: keeps_ids_def save_transaction_def commit_Inr known_ids_def)

lemma keeps_ids_failed_on_send [intro]: "keeps_ids (transaction_failed_on_send sha rid t reason now)"
  by (auto simp: keeps_ids_def transaction_failed_on_send_def Let_def commit_Inr known_ids_def)

lemma broadcast_attempt_ids:
  assumes "transaction_broadcast_attempt rid t h g b legacy now d = Inr (d', u)"
  shows "known_ids d' = insert (tx_id t) (known_ids d)"
proof (cases "rows_with_id (tx_id t) (db_rows d) = []")
  case True
  then have "db_rows d' = db_rows d @ [attempt_row rid t h g b legacy now]"
    using assms by (auto simp: transaction_broadcast_attempt_def Let_def commit_Inr)
  then show ?thesis by (simp add: known_ids_def)
next
  case False
  then have "tx_id t \<in> known_ids d"
    by (force simp: rows_with_id_def filter_empty_conv known_ids_def)
  moreover have "db_rows d' = update_where (\<lambda>r. r_id r = tx_id t)
      (merge_attempt (attempt_row rid t h g b legacy now)) (db_rows d)"
    using assms False by (auto simp: transaction_broadcast_attempt_def Let_def commit_Inr)
  then have "known_ids d' = known_ids d"
    by (simp add: known_ids_def update_where_ids)
  ultimately show ?thesis by auto
qed

lemma keeps_ids_broadcast_attempt [intro]:
  "keeps_ids (transaction_broadcast_attempt rid t h g b legacy now)"
  by (auto simp: keeps_ids_def dest: broadcast_attempt_ids)

lemma keeps_ids_recover [intro]:
  "keeps_ids (recover_landed_transaction_attempt rid i h g b legacy now)"
  by (auto simp: keeps_ids_def recover_landed_transaction_attempt_def Let_def commit_Inr known_ids_def
      update_where_ids)

lemma fail_ids [simp]: "r_id (fail_with reason r) = r_id r" "r_id (fail_absent now reason r) = r_id r"
  by (simp_all add: fail_with_def fail_absent_def)

lemma keeps_ids_repair_poisoned [intro]:
  "keeps_ids (repair_poisoned_pending_transactions_for_relayer rid)"
  by (auto simp: keeps_ids_def repair_poisoned_pending_transactions_for_relayer_def Let_def commit_Inr
      known_ids_def update_where_ids)

lemma run_stmt_keeps_ids:
  "keeps_ids f \<Longrightarrow> known_ids d \<subseteq> known_ids (fst (run_stmt ans f d))"
  by (cases ans; cases "f d"; force simp: run_stmt_def keeps_ids_def)

end
