(* ===== verification/Broadcast.thy ===== *)
theory Broadcast
  imports Tx_Db_Laws
begin

text \<open>
  Sending a transaction (\<open>send_transaction\<close> and \<open>persist_and_broadcast\<close> of
  queue_system/transactions_queue.rs): the price and the Safe route, the gas limit and the typed
  request, the conversion to a no-op when the transaction expired, the signature, and the durable
  record before the bytes leave. What a call sees of the outside (oracle caches, RPC answers,
  signatures, clocks, database answers) is the record \<open>send_env\<close>, one field per call site.
\<close>

section \<open>World\<close>

text \<open>A signed transaction: the request that was signed and the hash of the envelope.\<close>

record signed_transaction =
  sg_request :: typed_transaction
  sg_hash :: transaction_hash

text \<open>
  The database and the signed transactions handed to an RPC endpoint so far, in order. The second
  component is a history: the code keeps no such list.
\<close>

record world =
  w_db :: db
  w_broadcasts :: "signed_transaction list"

definition on_db :: "db_answer \<Rightarrow> 'a stmt \<Rightarrow> world \<Rightarrow> world \<times> (db_error + 'a)" where
  "on_db ans f w = (case run_stmt ans f (w_db w) of (d, r) \<Rightarrow> (w\<lparr> w_db := d \<rparr>, r))"

section \<open>Persist, then broadcast\<close>

text \<open>
  The generic function of the code: the store's two operations and the broadcaster are arguments,
  as the trait bounds \<open>S: BroadcastAttemptStore\<close> and \<open>B: SignedTransactionBroadcaster\<close> are. The
  transaction is returned as the caller's mutable reference would see it.
\<close>

definition persist_and_broadcast ::
  "(relayer_id \<Rightarrow> transaction \<Rightarrow> transaction_sent_with_relayer \<Rightarrow> bool \<Rightarrow> 's \<Rightarrow> 's \<times> (db_error + unit)) \<Rightarrow>
   (transaction_sent_with_relayer \<Rightarrow> bool \<Rightarrow> 's \<Rightarrow> 's \<times> (db_error + unit)) \<Rightarrow>
   (signed_transaction \<Rightarrow> 's \<Rightarrow> 's \<times> (string + transaction_hash)) \<Rightarrow>
   instant \<Rightarrow> relayer_id \<Rightarrow> transaction \<Rightarrow> transaction_sent_with_relayer \<Rightarrow> signed_transaction \<Rightarrow> bool \<Rightarrow>
   's \<Rightarrow> 's \<times> transaction \<times> (send_error + unit)" where
  "persist_and_broadcast persist_attempt mark_sent broadcast now rid t sent stx legacy s =
     (case persist_attempt rid t sent legacy s of
        (s1, Inl e) \<Rightarrow> (s1, t, Inl (CouldNotUpdateTransactionDb e))
      | (s1, Inr _) \<Rightarrow>
          (let t1 = record_send sent now t in
           case broadcast stx s1 of
             (s2, Inl e) \<Rightarrow> (s2, t1, Inl (TransactionSendError e))
           | (s2, Inr h) \<Rightarrow>
               (case mark_sent sent legacy s2 of
                  (s3, Inl e) \<Rightarrow> (s3, t1, Inl (CouldNotUpdateTransactionDb e))
                | (s3, Inr _) \<Rightarrow> (s3, t1\<lparr> tx_status := INMEMPOOL \<rparr>, Inr ()))))"

text \<open>The instances of the two traits: the Postgres client and the provider.\<close>

definition persist_attempt ::
  "db_answer \<Rightarrow> instant \<Rightarrow> relayer_id \<Rightarrow> transaction \<Rightarrow> transaction_sent_with_relayer \<Rightarrow> bool \<Rightarrow>
   world \<Rightarrow> world \<times> (db_error + unit)" where
  "persist_attempt ans now rid t sent legacy =
     on_db ans (transaction_broadcast_attempt rid t (ts_hash sent) (ts_sent_with_gas sent)
                  (ts_sent_with_blob_gas sent) legacy now)"

definition mark_sent ::
  "db_answer \<Rightarrow> instant \<Rightarrow> transaction_sent_with_relayer \<Rightarrow> bool \<Rightarrow> world \<Rightarrow>
   world \<times> (db_error + unit)" where
  "mark_sent ans now sent legacy =
     on_db ans (transaction_sent (ts_id sent) (ts_hash sent) (ts_sent_with_gas sent)
                  (ts_sent_with_blob_gas sent) legacy now)"

text \<open>
  \<open>send_raw_transaction\<close>: whatever the answer, the bytes were handed over, and after an error the
  node may or may not have them.
\<close>

definition broadcast ::
  "string + transaction_hash \<Rightarrow> signed_transaction \<Rightarrow> world \<Rightarrow>
   world \<times> (string + transaction_hash)" where
  "broadcast ans stx w = (w\<lparr> w_broadcasts := w_broadcasts w @ [stx] \<rparr>, ans)"

lemma record_send_hash [simp]: "tx_known_transaction_hash (record_send sent now t) = Some (ts_hash sent)"
  by (simp add: record_send_def)

text \<open>The stages of a call: refused by the store, or broadcast and possibly marked.\<close>

lemma persist_and_broadcast_cases:
  assumes p: "persist rid t sent legacy s = (s1, r1)" and b: "bcast stx s1 = (s2, r2)"
    and m: "mark sent legacy s2 = (s3, r3)"
    and pb: "persist_and_broadcast persist mark bcast now rid t sent stx legacy s = (s', t', r)"
  shows "(\<exists>e. s' = s1 \<and> t' = t \<and> r1 = Inl e \<and> r = Inl (CouldNotUpdateTransactionDb e)) \<or>
         (r1 = Inr () \<and> (s' = s2 \<or> s' = s3) \<and>
          tx_known_transaction_hash t' = Some (ts_hash sent))"
proof (cases r1)
  case (Inl e)
  with assms show ?thesis by (simp add: persist_and_broadcast_def)
next
  case (Inr u)
  then have r1: "r1 = Inr ()" by simp
  show ?thesis
  proof (cases r2)
    case (Inl e)
    have "(s', t', r) = (s2, record_send sent now t, Inl (TransactionSendError e))"
      unfolding pb [symmetric] persist_and_broadcast_def by (simp add: p b r1 Inl)
    then show ?thesis using r1 by simp
  next
    case r2: (Inr h)
    have "(s', t', r) =
        (case r3 of
           Inl e \<Rightarrow> (s3, record_send sent now t, Inl (CouldNotUpdateTransactionDb e))
         | Inr u \<Rightarrow> (s3, (record_send sent now t)\<lparr> tx_status := INMEMPOOL \<rparr>, Inr ()))"
      unfolding pb [symmetric] persist_and_broadcast_def by (simp add: p b m r1 r2 split: sum.splits)
    then show ?thesis using r1 by (cases r3) simp_all
  qed
qed

section \<open>The contract of the attempt store\<close>

text \<open>
  What \<open>persist_and_broadcast\<close> relies on: an acknowledged attempt is durable, the store never
  forgets one, and only the broadcaster hands bytes to the network.
\<close>

locale attempt_store =
  fixes persist :: "relayer_id \<Rightarrow> transaction \<Rightarrow> transaction_sent_with_relayer \<Rightarrow> bool \<Rightarrow> 's \<Rightarrow>
                    's \<times> (db_error + unit)"
    and mark :: "transaction_sent_with_relayer \<Rightarrow> bool \<Rightarrow> 's \<Rightarrow> 's \<times> (db_error + unit)"
    and bcast :: "signed_transaction \<Rightarrow> 's \<Rightarrow> 's \<times> (string + transaction_hash)"
    and durable :: "transaction_id \<Rightarrow> transaction_hash \<Rightarrow> 's \<Rightarrow> bool"
    and network :: "'s \<Rightarrow> signed_transaction list"
  assumes persist_durable: "persist rid t sent legacy s = (s', Inr ()) \<Longrightarrow> durable (tx_id t) (ts_hash sent) s'"
    and persist_keeps: "durable i h s \<Longrightarrow> durable i h (fst (persist rid t sent legacy s))"
    and mark_keeps: "durable i h s \<Longrightarrow> durable i h (fst (mark sent legacy s))"
    and bcast_keeps: "durable i h s \<Longrightarrow> durable i h (fst (bcast stx s))"
    and persist_quiet: "network (fst (persist rid t sent legacy s)) = network s"
    and mark_quiet: "network (fst (mark sent legacy s)) = network s"
    and bcast_network: "network (fst (bcast stx s)) = network s @ [stx]"
begin

definition covered :: "'s \<Rightarrow> bool" where
  "covered s = (\<forall>b \<in> set (network s). \<exists>i. durable i (sg_hash b) s)"

text \<open>What each stage keeps, whatever fails.\<close>

lemma stages:
  assumes p: "persist rid t sent legacy s = (s1, r1)" and b: "bcast stx s1 = (s2, r2)"
    and m: "mark sent legacy s2 = (s3, r3)"
  shows "network s1 = network s" "network s2 = network s @ [stx]" "network s3 = network s @ [stx]"
    and "durable i h s \<Longrightarrow> durable i h s1 \<and> durable i h s2 \<and> durable i h s3"
    and "r1 = Inr () \<Longrightarrow> durable (tx_id t) (ts_hash sent) s2 \<and> durable (tx_id t) (ts_hash sent) s3"
proof -
  have s: "s1 = fst (persist rid t sent legacy s)" "s2 = fst (bcast stx s1)"
    "s3 = fst (mark sent legacy s2)"
    using assms by simp_all
  show n1: "network s1 = network s" unfolding s(1) by (rule persist_quiet)
  then show n2: "network s2 = network s @ [stx]" unfolding s(2) by (simp add: bcast_network)
  then show "network s3 = network s @ [stx]" unfolding s(3) by (simp add: mark_quiet)
  have later: "durable i h s1 \<Longrightarrow> durable i h s2 \<and> durable i h s3" for i h
    unfolding s(2,3) by (simp add: bcast_keeps mark_keeps)
  then show "durable i h s \<Longrightarrow> durable i h s1 \<and> durable i h s2 \<and> durable i h s3"
    unfolding s(1) by (simp add: persist_keeps)
  assume "r1 = Inr ()"
  with p have "durable (tx_id t) (ts_hash sent) s1" using persist_durable by simp
  then show "durable (tx_id t) (ts_hash sent) s2 \<and> durable (tx_id t) (ts_hash sent) s3"
    by (rule later)
qed

text \<open>Memory exposes a hash, and the network sees it, only after the store accepted it.\<close>

lemma persist_and_broadcast_outcome:
  assumes "persist_and_broadcast persist mark bcast now rid t sent stx legacy s = (s', t', r)"
  shows "(t' = t \<and> network s' = network s \<and> (\<exists>e. r = Inl (CouldNotUpdateTransactionDb e))) \<or>
         (tx_known_transaction_hash t' = Some (ts_hash sent) \<and> durable (tx_id t) (ts_hash sent) s'
          \<and> network s' = network s @ [stx])"
    and "durable i h s \<Longrightarrow> durable i h s'"
proof -
  obtain s1 r1 where p: "persist rid t sent legacy s = (s1, r1)" by force
  obtain s2 r2 where b: "bcast stx s1 = (s2, r2)" by force
  obtain s3 r3 where m: "mark sent legacy s2 = (s3, r3)" by force
  note st = stages [OF p b m]
  from persist_and_broadcast_cases [OF p b m assms] st(1,2,3,5)
  show "(t' = t \<and> network s' = network s \<and> (\<exists>e. r = Inl (CouldNotUpdateTransactionDb e))) \<or>
         (tx_known_transaction_hash t' = Some (ts_hash sent) \<and> durable (tx_id t) (ts_hash sent) s'
          \<and> network s' = network s @ [stx])"
    by auto
  show "durable i h s \<Longrightarrow> durable i h s'"
    using persist_and_broadcast_cases [OF p b m assms] st(4) [of i h] by auto
qed

lemma persist_and_broadcast_covered:
  assumes pb: "persist_and_broadcast persist mark bcast now rid t sent stx legacy s = (s', t', r)"
    and c: "covered s" and h: "ts_hash sent = sg_hash stx"
  shows "covered s'"
proof -
  have old: "\<exists>i. durable i (sg_hash b) s'" if "b \<in> set (network s)" for b
    using c that persist_and_broadcast_outcome(2) [OF pb] unfolding covered_def by blast
  from persist_and_broadcast_outcome(1) [OF pb] h
  have "network s' = network s \<or> network s' = network s @ [stx] \<and> durable (tx_id t) (sg_hash stx) s'"
    by auto
  with old show ?thesis unfolding covered_def by auto
qed

end

section \<open>The instance\<close>

lemma on_db_db [simp]: "w_db (fst (on_db ans f w)) = fst (run_stmt ans f (w_db w))"
  by (simp add: on_db_def split: prod.splits)

lemma on_db_quiet [simp]: "w_broadcasts (fst (on_db ans f w)) = w_broadcasts w"
  by (simp add: on_db_def split: prod.splits)

lemma on_db_result [simp]: "snd (on_db ans f w) = snd (run_stmt ans f (w_db w))"
  by (simp add: on_db_def split: prod.splits)

lemma on_db_Inr: "on_db ans f w = (w', Inr a) \<Longrightarrow> f (w_db w) = Inr (w_db w', a)"
  by (auto simp: on_db_def split: prod.splits intro: run_stmt_Inr)

lemma on_db_has_attempt:
  "lawful f \<Longrightarrow> has_attempt i h (w_db w) \<Longrightarrow> has_attempt i h (w_db (fst (on_db ans f w)))"
  by (simp add: has_attempt_grows [OF run_stmt_lawful(1)])

interpretation store: attempt_store "persist_attempt pans pnow" "mark_sent mans mnow" "broadcast bans"
    "\<lambda>i h w. has_attempt i h (w_db w)" w_broadcasts
  for pans pnow mans mnow bans
proof
  fix rid t sent legacy s s'
  assume "persist_attempt pans pnow rid t sent legacy s = (s', Inr ())"
  then show "has_attempt (tx_id t) (ts_hash sent) (w_db s')"
    unfolding persist_attempt_def by (rule broadcast_attempt_recorded [OF on_db_Inr])
qed (auto simp: persist_attempt_def mark_sent_def broadcast_def intro!: has_attempt_grows [OF run_stmt_lawful(1)])

end
