(* ===== verification/Send_Tx.thy ===== *)
theory Send_Tx
  imports Broadcast
begin

text \<open>
  \<open>TransactionsQueue::send_transaction\<close> in its five stages: price and Safe route, gas limit, final
  request, conversion of an expired transaction to a no-op before and after signing, and the
  persisted broadcast. The transaction is passed by mutable reference, so every stage returns it,
  on errors as well.
\<close>

section \<open>What one send sees of the outside\<close>

record send_env =
  se_gas :: gas_reads
  se_blob_temp :: blob_reads
  se_blob_final :: blob_reads
  se_safe_nonce :: "string + u256"
  se_sign_text :: "string \<Rightarrow> string + ecdsa_signature"
  se_estimate :: "typed_transaction \<Rightarrow> rpc_error + u128"
  se_block_limit :: "rpc_error + u128"
  se_now_expiry :: instant
  se_now_signed :: instant
  se_sign :: "typed_transaction \<Rightarrow> string + transaction_hash"
  se_sign_again :: "typed_transaction \<Rightarrow> string + transaction_hash"
  se_persist :: db_answer
  se_now_persist :: instant
  se_now_sent :: instant
  se_broadcast :: "string + transaction_hash"
  se_mark :: db_answer
  se_now_mark :: instant

text \<open>
  The external functions: the KZG sidecar, the EIP-712 hash of a Safe transaction in hexadecimal,
  the ABI encoding of \<open>execTransaction\<close>, and the display of Safe errors.
\<close>

record crypto =
  cy_sidecar :: "transaction_blob list \<Rightarrow> string + u256 list"
  cy_safe_hash :: "evm_address \<Rightarrow> safe_transaction \<Rightarrow> chain_id \<Rightarrow> string"
  cy_encode_safe :: "safe_transaction \<Rightarrow> u8 list \<Rightarrow> transaction_data"
  cy_show_safe_error :: "safe_proxy_error \<Rightarrow> string"

fun show_conversion_error :: "conversion_error \<Rightarrow> string" where
  "show_conversion_error NoGasPrice = ''No gas price found in transaction''"
| "show_conversion_error NoBlobGasPrice = ''No blob gas price found in transaction''"
| "show_conversion_error NoBlobs = ''No blobs found in transaction''"
| "show_conversion_error (BlobSidecarBuild e) = ''Failed to build blob sidecar: '' @ e"
| "show_conversion_error NoGasLimit = ''Gas limit not set''"

definition conversion_failed :: "conversion_error \<Rightarrow> send_error" where
  "conversion_failed e = TransactionConversionError (show_conversion_error e)"

section \<open>Decimal display\<close>

fun show_digits :: "nat \<Rightarrow> string" where
  "show_digits n = (if n < 10 then [char_of (48 + n)] else show_digits (n div 10) @ [char_of (48 + n mod 10)])"

declare show_digits.simps [simp del]

definition over_block_limit_message :: "u128 \<Rightarrow> u128 \<Rightarrow> string" where
  "over_block_limit_message est lim =
     ''Estimated gas '' @ show_digits (unat est) @ '' exceeds latest block gas limit '' @
     show_digits (unat lim)"

definition queue_estimate_gas :: "rpc_error + u128 \<Rightarrow> rpc_error + u128 \<Rightarrow> bool \<Rightarrow> rpc_error + u128" where
  "queue_estimate_gas est lim noop =
     estimate_gas est lim over_block_limit_message noop"

section \<open>Price and route\<close>

definition send_gas_price ::
  "send_env \<Rightarrow> transactions_queue \<Rightarrow> transaction \<Rightarrow> send_error + gas_price_result" where
  "send_gas_price env q t =
     and_then (map_err SendTransactionGasPriceError
        (compute_gas_price_for_transaction (se_gas env) (rl_chain_id (q_relayer q))
           (q_max_gas_price_multiplier q) (tx_speed t) (tx_sent_with_gas t)))
       (\<lambda>g. if within_gas_price_bounds (q_relayer q) g then Inr g else Inl GasPriceTooHigh)"

text \<open>The Safe of the relayer for this send, if one is configured and the payload is not a no-op.\<close>

definition send_safe_proxy :: "transactions_queue \<Rightarrow> transaction \<Rightarrow> evm_address option" where
  "send_safe_proxy q t =
     (if tx_is_noop t then None
      else get_safe_proxy_for_relayer (q_safe_proxy_manager q) (rl_address (q_relayer q))
             (tx_chain_id t))"

text \<open>The recipient and data that are signed: the Safe call or the transaction's own.\<close>

definition safe_route ::
  "crypto \<Rightarrow> send_env \<Rightarrow> transactions_queue \<Rightarrow> transaction \<Rightarrow> evm_address \<Rightarrow>
   send_error + (evm_address \<times> transaction_data)" where
  "safe_route cy env q t safe =
     and_then (map_err SafeProxyError (se_safe_nonce env)) (\<lambda>n.
     and_then (map_err (\<lambda>e. TransactionConversionError (cy_show_safe_error cy e))
        (wrap_transaction_for_safe (q_safe_proxy_manager q) (rl_address (q_relayer q))
           (tx_chain_id t) (tx_to t) (tx_value t) (tx_data t) n)) (\<lambda>(addr, stx).
     and_then (map_err (\<lambda>e. TransactionConversionError
                          (''Failed to sign safe transaction hash: '' @ e))
        (se_sign_text env (cy_safe_hash cy addr stx (ep_chain_id (q_evm_provider q))))) (\<lambda>sg.
       Inr (addr, cy_encode_safe cy stx (safe_signature_bytes sg)))))"

definition working_copy ::
  "evm_address option \<Rightarrow> evm_address \<times> transaction_data \<Rightarrow> transaction \<Rightarrow> transaction" where
  "working_copy safe route t =
     (let w = t\<lparr> tx_to := fst route, tx_data := snd route \<rparr>
      in if safe \<noteq> None then w\<lparr> tx_value := 0 \<rparr> else w)"

definition send_route ::
  "crypto \<Rightarrow> send_env \<Rightarrow> transactions_queue \<Rightarrow> transaction \<Rightarrow> send_error + transaction" where
  "send_route cy env q t =
     (let safe = send_safe_proxy q t
      in and_then (case safe of None \<Rightarrow> Inr (tx_to t, tx_data t)
                              | Some a \<Rightarrow> safe_route cy env q t a)
           (\<lambda>route. Inr (working_copy safe route t)))"

section \<open>Typed requests\<close>

text \<open>
  The three-way choice that the code repeats for the estimate and for the final request: blob,
  legacy, EIP-1559. A blob price is computed only for a blob transaction and is then returned.
\<close>

definition typed_request ::
  "crypto \<Rightarrow> blob_reads \<Rightarrow> transactions_queue \<Rightarrow> transaction \<Rightarrow> gas_price_result \<Rightarrow> u128 \<Rightarrow>
   send_error + (typed_transaction \<times> blob_gas_price_result option)" where
  "typed_request cy reads q w g limit =
     (if is_blob_transaction w
      then and_then (map_err SendTransactionGasPriceError
              (compute_blob_gas_price_for_transaction reads (rl_chain_id (q_relayer q))
                 (q_max_gas_price_multiplier q) (tx_speed w) (tx_sent_with_blob_gas w))) (\<lambda>b.
           and_then (map_err conversion_failed
              (to_blob_typed_transaction_with_gas_limit (cy_sidecar cy) w (Some g) (Some b)
                 (Some limit))) (\<lambda>r. Inr (r, Some b)))
      else if is_legacy_transactions q
      then and_then (map_err conversion_failed
              (to_legacy_typed_transaction_with_gas_limit w (Some g) (Some limit)))
              (\<lambda>r. Inr (r, None))
      else and_then (map_err conversion_failed
              (to_eip1559_typed_transaction_with_gas_limit w (Some g) (Some limit)))
              (\<lambda>r. Inr (r, None)))"

definition TEMP_GAS_LIMIT :: u128 where "TEMP_GAS_LIMIT = 10000000"

definition SAFE_GAS_OVERHEAD :: u128 where "SAFE_GAS_OVERHEAD = 45000"

definition NOOP_GAS_LIMIT :: u128 where "NOOP_GAS_LIMIT = 21000"

text \<open>The gas limit: the transaction's own or an estimate, plus the overhead of a Safe.\<close>

definition send_gas_limit ::
  "crypto \<Rightarrow> send_env \<Rightarrow> transactions_queue \<Rightarrow> transaction \<Rightarrow> transaction \<Rightarrow> gas_price_result \<Rightarrow>
   send_error + u128" where
  "send_gas_limit cy env q t w g =
     and_then (typed_request cy (se_blob_temp env) q w g TEMP_GAS_LIMIT) (\<lambda>(request, _).
     and_then (case tx_gas_limit t of
                 Some l \<Rightarrow> Inr l
               | None \<Rightarrow> map_err TransactionEstimateGasError
                   (queue_estimate_gas (se_estimate env request) (se_block_limit env) (tx_is_noop w)))
       (\<lambda>l. Inr (if send_safe_proxy q t \<noteq> None then l + SAFE_GAS_OVERHEAD else l)))"

text \<open>The request that replaces an expired payload.\<close>

definition noop_request ::
  "transactions_queue \<Rightarrow> transaction \<Rightarrow> gas_price_result \<Rightarrow> send_error + typed_transaction" where
  "noop_request q t g =
     map_err conversion_failed
       (if is_legacy_transactions q
        then to_legacy_typed_transaction_with_gas_limit t (Some g) (Some NOOP_GAS_LIMIT)
        else to_eip1559_typed_transaction_with_gas_limit t (Some g) (Some NOOP_GAS_LIMIT))"

text \<open>
  A blob transaction that was broadcast can only be replaced by another blob transaction, so it is
  never converted to a no-op.
\<close>

definition can_replace_with_noop :: "transaction \<Rightarrow> transaction \<Rightarrow> bool" where
  "can_replace_with_noop before t = (tx_sent_with_gas before = None \<or> \<not> is_blob_transaction t)"

section \<open>The send\<close>

text \<open>Everything up to the final request, before the first expiry check.\<close>

definition prepare_send ::
  "crypto \<Rightarrow> send_env \<Rightarrow> transactions_queue \<Rightarrow> transaction \<Rightarrow>
   transaction \<times> (send_error + (gas_price_result \<times> typed_transaction \<times> blob_gas_price_result option))"
  where
  "prepare_send cy env q t =
     (case and_then (send_gas_price env q t) (\<lambda>g.
           and_then (send_route cy env q t) (\<lambda>w.
           and_then (send_gas_limit cy env q t w g) (\<lambda>l. Inr (g, w, l)))) of
        Inl e \<Rightarrow> (t, Inl e)
      | Inr (g, w, l) \<Rightarrow>
          (t\<lparr> tx_gas_limit := Some l \<rparr>,
           and_then (typed_request cy (se_blob_final env) q (w\<lparr> tx_gas_limit := Some l \<rparr>) g l)
             (\<lambda>(r, b). Inr (g, r, b))))"

text \<open>An expired transaction becomes a no-op, with a request of its own.\<close>

definition expire_to_noop ::
  "transactions_queue \<Rightarrow> instant \<Rightarrow> bool \<Rightarrow> transaction \<Rightarrow> gas_price_result \<Rightarrow> typed_transaction \<Rightarrow>
   blob_gas_price_result option \<Rightarrow>
   transaction \<times> bool \<times> (send_error + (typed_transaction \<times> blob_gas_price_result option))" where
  "expire_to_noop q now can t g r b =
     (if \<not> tx_is_noop t \<and> can \<and> has_expired now t
      then (let t' = transaction_to_noop q t
            in (t', True, and_then (noop_request q t' g) (\<lambda>r'. Inr (r', None))))
      else (t, False, Inr (r, b)))"

definition sign_request ::
  "(typed_transaction \<Rightarrow> string + transaction_hash) \<Rightarrow> typed_transaction \<Rightarrow>
   send_error + signed_transaction" where
  "sign_request signer r =
     and_then (map_err TransactionSendError (signer r)) (\<lambda>h. Inr \<lparr> sg_request = r, sg_hash = h \<rparr>)"

text \<open>Sign, check the expiry again, and sign the no-op when it fired.\<close>

definition sign_unexpired ::
  "send_env \<Rightarrow> transactions_queue \<Rightarrow> bool \<Rightarrow> transaction \<Rightarrow> gas_price_result \<Rightarrow> typed_transaction \<Rightarrow>
   blob_gas_price_result option \<Rightarrow>
   transaction \<times> (send_error + (signed_transaction \<times> blob_gas_price_result option))" where
  "sign_unexpired env q can t g r b =
     (case sign_request (se_sign env) r of
        Inl e \<Rightarrow> (t, Inl e)
      | Inr stx \<Rightarrow>
          (case expire_to_noop q (se_now_signed env) can t g r b of
             (t', False, _) \<Rightarrow> (t', Inr (stx, b))
           | (t', True, Inl e) \<Rightarrow> (t', Inl e)
           | (t', True, Inr (r', b')) \<Rightarrow>
               (t', and_then (sign_request (se_sign_again env) r') (\<lambda>stx'. Inr (stx', b')))))"

text \<open>All of \<open>send_transaction\<close> before \<open>persist_and_broadcast\<close>.\<close>

definition sign_send ::
  "crypto \<Rightarrow> send_env \<Rightarrow> transactions_queue \<Rightarrow> transaction \<Rightarrow>
   transaction \<times> (send_error + (transaction_sent_with_relayer \<times> signed_transaction))" where
  "sign_send cy env q t =
     (case prepare_send cy env q t of
        (t1, Inl e) \<Rightarrow> (t1, Inl e)
      | (t1, Inr (g, r, b)) \<Rightarrow>
          (let can = can_replace_with_noop t t1 in
           case expire_to_noop q (se_now_expiry env) can t1 g r b of
             (t2, _, Inl e) \<Rightarrow> (t2, Inl e)
           | (t2, _, Inr (r2, b2)) \<Rightarrow>
               (case sign_unexpired env q can t2 g r2 b2 of
                  (t3, Inl e) \<Rightarrow> (t3, Inl e)
                | (t3, Inr (stx, b3)) \<Rightarrow>
                    (t3, Inr (\<lparr> ts_id = tx_id t3, ts_hash = sg_hash stx, ts_sent_with_gas = g,
                                ts_sent_with_blob_gas = b3 \<rparr>, stx)))))"

definition send_transaction ::
  "crypto \<Rightarrow> send_env \<Rightarrow> transactions_queue \<Rightarrow> transaction \<Rightarrow> world \<Rightarrow>
   world \<times> transaction \<times> (send_error + transaction_sent_with_relayer)" where
  "send_transaction cy env q t w =
     (case sign_send cy env q t of
        (t', Inl e) \<Rightarrow> (w, t', Inl e)
      | (t', Inr (sent, stx)) \<Rightarrow>
          (case persist_and_broadcast (persist_attempt (se_persist env) (se_now_persist env))
                  (mark_sent (se_mark env) (se_now_mark env)) (broadcast (se_broadcast env))
                  (se_now_sent env) (rl_id (q_relayer q)) t' sent stx (is_legacy_transactions q) w of
             (w', t'', Inl e) \<Rightarrow> (w', t'', Inl e)
           | (w', t'', Inr _) \<Rightarrow> (w', t'', Inr sent)))"

end
