(* ===== verification/Send_Laws.thy ===== *)
theory Send_Laws
  imports Send_Tx
begin

text \<open>
  What a send keeps and what it guarantees: identity and nonce of the transaction on every branch,
  the fields of the request that is signed, the price bounds, the no-op of an expired payload, and
  the durable record of everything that reaches the network.
\<close>

section \<open>Requests\<close>

lemma map_err_Inr_iff: "(map_err f r = Inr x) = (r = Inr x)"
  by simp

lemma typed_request_fields:
  "typed_request cy reads q w g limit = Inr (r, b) \<Longrightarrow>
     \<exists>l. typed_fields_of r = common_fields w l"
  by (auto simp: typed_request_def and_then_Inr split: if_splits dest: typed_conversion_fields)

lemma noop_request_fields:
  "noop_request q t g = Inr r \<Longrightarrow> \<exists>l. typed_fields_of r = common_fields t l"
  by (auto simp: noop_request_def split: if_splits dest: typed_conversion_fields)

lemma working_copy_simps [simp]:
  "tx_nonce (working_copy safe route t) = tx_nonce t"
  "tx_chain_id (working_copy safe route t) = tx_chain_id t"
  "tx_is_noop (working_copy safe route t) = tx_is_noop t"
  "tx_blobs (working_copy safe route t) = tx_blobs t"
  by (simp_all add: working_copy_def Let_def)

lemma send_route_keeps:
  "send_route cy env q t = Inr w \<Longrightarrow>
     tx_nonce w = tx_nonce t \<and> tx_chain_id w = tx_chain_id t \<and> tx_is_noop w = tx_is_noop t"
  by (auto simp: send_route_def Let_def and_then_Inr)

lemma transaction_to_noop_simps [simp]:
  "tx_id (transaction_to_noop q t) = tx_id t"
  "tx_nonce (transaction_to_noop q t) = tx_nonce t"
  "tx_chain_id (transaction_to_noop q t) = tx_chain_id t"
  "tx_status (transaction_to_noop q t) = tx_status t"
  "tx_to (transaction_to_noop q t) = rl_address (q_relayer q)"
  "tx_value (transaction_to_noop q t) = 0"
  "tx_data (transaction_to_noop q t) = []"
  "tx_is_noop (transaction_to_noop q t)"
  "tx_blobs (transaction_to_noop q t) = None"
  "tx_known_transaction_hash (transaction_to_noop q t) = tx_known_transaction_hash t"
  "tx_relayer_id (transaction_to_noop q t) = tx_relayer_id t"
  "tx_external_id (transaction_to_noop q t) = tx_external_id t"
  by (simp_all add: transaction_to_noop_def)

section \<open>The stages keep the identity\<close>

text \<open>Same transaction, same slot: the id, the nonce and the chain never change in a send.\<close>

definition same_slot :: "transaction \<Rightarrow> transaction \<Rightarrow> bool" where
  "same_slot t t' = (tx_id t' = tx_id t \<and> tx_nonce t' = tx_nonce t \<and> tx_chain_id t' = tx_chain_id t)"

lemma same_slot_refl [simp]: "same_slot t t"
  by (simp add: same_slot_def)

lemma same_slot_trans: "same_slot a b \<Longrightarrow> same_slot b c \<Longrightarrow> same_slot a c"
  by (simp add: same_slot_def)

lemma same_slot_record_send [simp]: "same_slot t (record_send sent now t)"
  by (simp add: same_slot_def record_send_def)

lemma prepare_send_keeps:
  assumes "prepare_send cy env q t = (t', r)"
  shows "same_slot t t'" "tx_is_noop t' = tx_is_noop t" "tx_expires_at t' = tx_expires_at t"
    "tx_blobs t' = tx_blobs t" "tx_known_transaction_hash t' = tx_known_transaction_hash t"
    "tx_status t' = tx_status t"
  using assms by (auto simp: prepare_send_def same_slot_def split: sum.splits)

lemma prepare_send_request:
  assumes "prepare_send cy env q t = (t', Inr (g, r, b))"
  shows "tf_nonce (typed_fields_of r) = tx_nonce t" "tf_chain_id (typed_fields_of r) = tx_chain_id t"
    "send_gas_price env q t = Inr g"
proof -
  obtain w l where g: "send_gas_price env q t = Inr g" and w: "send_route cy env q t = Inr w"
    and r: "typed_request cy (se_blob_final env) q (w\<lparr> tx_gas_limit := Some l \<rparr>) g l = Inr (r, b)"
    using assms by (auto simp: prepare_send_def and_then_Inr split: sum.splits)
  show "send_gas_price env q t = Inr g" by (rule g)
  from typed_request_fields [OF r] send_route_keeps [OF w]
  show "tf_nonce (typed_fields_of r) = tx_nonce t" "tf_chain_id (typed_fields_of r) = tx_chain_id t"
    by auto
qed

lemma expire_to_noop_cases:
  assumes "expire_to_noop q now can t g r b = (t', fired, res)"
  shows "fired = (\<not> tx_is_noop t \<and> can \<and> has_expired now t)"
    and "\<not> fired \<Longrightarrow> t' = t \<and> res = Inr (r, b)"
    and "fired \<Longrightarrow> t' = transaction_to_noop q t \<and>
           res = and_then (noop_request q t' g) (\<lambda>r'. Inr (r', None))"
  using assms by (auto simp: expire_to_noop_def Let_def split: if_splits)

lemma expire_to_noop_keeps:
  "expire_to_noop q now can t g r b = (t', fired, res) \<Longrightarrow> same_slot t t'"
  by (cases fired) (auto dest: expire_to_noop_cases(2,3) simp: same_slot_def)

text \<open>A request that fits the transaction: its nonce and chain, and its payload if it is a no-op.\<close>

definition request_fits :: "transaction \<Rightarrow> typed_transaction \<Rightarrow> bool" where
  "request_fits t r =
     (tf_nonce (typed_fields_of r) = tx_nonce t \<and> tf_chain_id (typed_fields_of r) = tx_chain_id t)"

lemma expire_to_noop_request:
  assumes "expire_to_noop q now can t g r b = (t', fired, Inr (r', b'))" "request_fits t r"
  shows "request_fits t' r'"
proof (cases fired)
  case True
  with assms(1) have "t' = transaction_to_noop q t" and "noop_request q t' g = Inr r'"
    using expire_to_noop_cases(3) [OF assms(1)] by (auto simp: Inr_and_then)
  then show ?thesis using noop_request_fields [of q t' g r'] by (auto simp: request_fits_def)
next
  case False
  then show ?thesis using assms(2) expire_to_noop_cases(2) [OF assms(1)] by simp
qed

lemma sign_request_Inr:
  "(sign_request f r = Inr stx) = (\<exists>h. f r = Inr h \<and> stx = \<lparr> sg_request = r, sg_hash = h \<rparr>)"
  by (auto simp: sign_request_def and_then_Inr)

lemma sign_unexpired_cases:
  assumes "sign_unexpired env q can t g r b = (t', res)"
  obtains e where "t' = t" "res = Inl e"
  | fired res1 where "expire_to_noop q (se_now_signed env) can t g r b = (t', fired, res1)"
      "\<And>stx b'. res = Inr (stx, b') \<Longrightarrow>
         (if fired then res1 = Inr (sg_request stx, b') else stx = \<lparr> sg_request = r, sg_hash = sg_hash stx \<rparr>)"
proof (cases "sign_request (se_sign env) r")
  case (Inl e)
  with assms have "t' = t" "res = Inl e" by (simp_all add: sign_unexpired_def)
  then show thesis by (rule that(1))
next
  case (Inr stx)
  obtain t1 fired res1 where x: "expire_to_noop q (se_now_signed env) can t g r b = (t1, fired, res1)"
    by (metis prod_cases3)
  show thesis
  proof (cases fired)
    case False
    with assms Inr x have "t' = t1" "res = Inr (stx, b)" by (auto simp: sign_unexpired_def)
    with x Inr False show thesis
      by (intro that(2) [of fired res1]) (auto simp: sign_request_Inr)
  next
    case True
    with assms Inr x have t': "t' = t1"
      and res: "res = and_then res1 (\<lambda>(r', b'). and_then (sign_request (se_sign_again env) r') (\<lambda>s. Inr (s, b')))"
      by (auto simp: sign_unexpired_def split: sum.splits)
    with x True show thesis
      by (intro that(2) [of fired res1]) (auto simp: and_then_Inr Inr_and_then sign_request_Inr)
  qed
qed

section \<open>The signed request\<close>

lemma sign_unexpired_keeps:
  "sign_unexpired env q can t g r b = (t', res) \<Longrightarrow> same_slot t t'"
  by (erule sign_unexpired_cases) (auto dest: expire_to_noop_keeps)

lemma sign_unexpired_request:
  assumes s: "sign_unexpired env q can t g r b = (t', Inr (stx, b'))" and fit: "request_fits t r"
  shows "request_fits t' (sg_request stx)"
  using s
proof (cases rule: sign_unexpired_cases)
  case (2 fired res1)
  show ?thesis
  proof (cases fired)
    case True
    with 2 have "expire_to_noop q (se_now_signed env) can t g r b = (t', True, Inr (sg_request stx, b'))"
      by simp
    then show ?thesis by (rule expire_to_noop_request [OF _ fit])
  next
    case False
    with 2(2) [OF refl] have "sg_request stx = r" by (metis signed_transaction.select_convs(1))
    moreover have "t' = t" using expire_to_noop_cases(2) [OF 2(1) False] by simp
    ultimately show ?thesis using fit by simp
  qed
qed simp

lemma sign_send_stages:
  assumes "sign_send cy env q t = (t', Inr (sent, stx))"
  obtains t1 g r b t2 fired r2 b2 b3 where
    "prepare_send cy env q t = (t1, Inr (g, r, b))"
    "expire_to_noop q (se_now_expiry env) (can_replace_with_noop t t1) t1 g r b
       = (t2, fired, Inr (r2, b2))"
    "sign_unexpired env q (can_replace_with_noop t t1) t2 g r2 b2 = (t', Inr (stx, b3))"
    "sent = \<lparr> ts_id = tx_id t', ts_hash = sg_hash stx, ts_sent_with_gas = g,
              ts_sent_with_blob_gas = b3 \<rparr>"
  using assms
  by (auto simp: sign_send_def Let_def split: prod.splits sum.splits)

lemma sign_send_keeps: "sign_send cy env q t = (t', res) \<Longrightarrow> same_slot t t'"
  by (auto simp: sign_send_def Let_def split: prod.splits sum.splits
      dest!: prepare_send_keeps(1) expire_to_noop_keeps sign_unexpired_keeps
      intro: same_slot_trans)

lemma sign_send_Inr:
  assumes "sign_send cy env q t = (t', Inr (sent, stx))"
  shows "ts_id sent = tx_id t" "ts_hash sent = sg_hash stx" "request_fits t (sg_request stx)"
    "send_gas_price env q t = Inr (ts_sent_with_gas sent)"
proof -
  obtain t1 g r b t2 fired r2 b2 b3 where 1:
    "prepare_send cy env q t = (t1, Inr (g, r, b))"
    "expire_to_noop q (se_now_expiry env) (can_replace_with_noop t t1) t1 g r b
       = (t2, fired, Inr (r2, b2))"
    "sign_unexpired env q (can_replace_with_noop t t1) t2 g r2 b2 = (t', Inr (stx, b3))"
    "sent = \<lparr> ts_id = tx_id t', ts_hash = sg_hash stx, ts_sent_with_gas = g,
              ts_sent_with_blob_gas = b3 \<rparr>"
    using assms by (rule sign_send_stages)
  note slot = sign_send_keeps [OF assms]
  have fit1: "request_fits t1 r"
    using prepare_send_request [OF 1(1)] prepare_send_keeps(1) [OF 1(1)]
    by (simp add: request_fits_def same_slot_def)
  have "request_fits t' (sg_request stx)"
    by (rule sign_unexpired_request [OF 1(3) expire_to_noop_request [OF 1(2) fit1]])
  with slot show "request_fits t (sg_request stx)" by (simp add: request_fits_def same_slot_def)
  show "ts_id sent = tx_id t" "ts_hash sent = sg_hash stx"
    using 1(4) slot by (simp_all add: same_slot_def)
  show "send_gas_price env q t = Inr (ts_sent_with_gas sent)"
    using prepare_send_request(3) [OF 1(1)] 1(4) by simp
qed

lemma send_gas_price_bounds:
  "send_gas_price env q t = Inr g \<Longrightarrow> within_gas_price_bounds (q_relayer q) g"
  by (auto simp: send_gas_price_def and_then_Inr split: if_splits)

text \<open>
  An expired payload that may be replaced is never what gets signed last: the signed request is the
  relayer's transfer of nothing to itself.
\<close>

definition noop_request_to :: "evm_address \<Rightarrow> typed_transaction \<Rightarrow> bool" where
  "noop_request_to self r =
     (tf_to (typed_fields_of r) = self \<and> tf_value (typed_fields_of r) = 0 \<and>
      tf_input (typed_fields_of r) = [])"

lemma fired_noop:
  assumes "expire_to_noop q now can t g r b = (t', True, Inr (r', b'))"
  shows "tx_is_noop t'" "noop_request_to (rl_address (q_relayer q)) r'"
proof -
  from expire_to_noop_cases(3) [OF assms]
  have t': "t' = transaction_to_noop q t" and n: "noop_request q t' g = Inr r'"
    by (auto simp: Inr_and_then)
  show "tx_is_noop t'" by (simp add: t')
  from noop_request_fields [OF n] show "noop_request_to (rl_address (q_relayer q)) r'"
    by (auto simp: noop_request_to_def t')
qed

lemma sign_send_expired:
  assumes s: "sign_send cy env q t = (t', Inr (sent, stx))"
    and live: "\<not> tx_is_noop t" and can: "tx_sent_with_gas t = None \<or> \<not> is_blob_transaction t"
    and expired: "has_expired (se_now_signed env) t"
  shows "tx_is_noop t' \<and> noop_request_to (rl_address (q_relayer q)) (sg_request stx)"
  using s
proof (cases rule: sign_send_stages)
  case (1 t1 g r b t2 fired r2 b2 b3)
  note k = prepare_send_keeps [OF 1(1)]
  have can1: "can_replace_with_noop t t1"
    using can k(4) by (simp add: can_replace_with_noop_def is_blob_transaction_def)
  show ?thesis
  proof (cases fired)
    case True
    with 1(2) have x: "expire_to_noop q (se_now_expiry env) (can_replace_with_noop t t1) t1 g r b
       = (t2, True, Inr (r2, b2))" by simp
    note f = fired_noop [OF x]
    from 1(3) show ?thesis
    proof (cases rule: sign_unexpired_cases)
      case (2 fired2 res1)
      have nf: "\<not> fired2" using expire_to_noop_cases(1) [OF 2(1)] f(1) by simp
      with 2(2) [OF refl] have "sg_request stx = r2" by (metis signed_transaction.select_convs(1))
      with f expire_to_noop_cases(2) [OF 2(1) nf] show ?thesis by simp
    qed simp
  next
    case False
    then have t2: "t2 = t1" using expire_to_noop_cases(2) [OF 1(2)] by simp
    from 1(3) show ?thesis
    proof (cases rule: sign_unexpired_cases)
      case (2 fired2 res1)
      have f2: "fired2"
        using expire_to_noop_cases(1) [OF 2(1)] live can1 expired k(2,3) t2
        by (simp add: has_expired_def)
      with 2 have "expire_to_noop q (se_now_signed env) (can_replace_with_noop t t1) t2 g r2 b2
          = (t', True, Inr (sg_request stx, b3))" by simp
      then show ?thesis using fired_noop by blast
    qed simp
  qed
qed

section \<open>The whole send\<close>

abbreviation protected_world :: "world \<Rightarrow> bool" where
  "protected_world w \<equiv> \<forall>b \<in> set (w_broadcasts w). evidenced (sg_hash b) (w_db w)"

lemma send_transaction_cases:
  assumes "send_transaction cy env q t w = (w', t', res)"
  obtains e where "sign_send cy env q t = (t', Inl e)" "w' = w" "res = Inl e"
  | t1 sent stx r where "sign_send cy env q t = (t1, Inr (sent, stx))"
      "persist_and_broadcast (persist_attempt (se_persist env) (se_now_persist env))
         (mark_sent (se_mark env) (se_now_mark env)) (broadcast (se_broadcast env))
         (se_now_sent env) (rl_id (q_relayer q)) t1 sent stx (is_legacy_transactions q) w
         = (w', t', r)"
      "res = (case r of Inl e \<Rightarrow> Inl e | Inr _ \<Rightarrow> Inr sent)"
  using assms
  by (auto simp: send_transaction_def split: prod.splits sum.splits)

lemma persist_and_broadcast_slot:
  "persist_and_broadcast p m bc now rid t sent stx legacy s = (s', t', r) \<Longrightarrow> same_slot t t'"
  by (auto simp: persist_and_broadcast_def Let_def same_slot_def record_send_def
      split: prod.splits sum.splits)

lemma persist_and_broadcast_Inr:
  "persist_and_broadcast p m bc now rid t sent stx legacy s = (s', t', Inr u) \<Longrightarrow>
     t' = (record_send sent now t)\<lparr> tx_status := INMEMPOOL \<rparr>"
  by (auto simp: persist_and_broadcast_def Let_def split: prod.splits sum.splits)

lemma send_transaction_keeps:
  assumes "send_transaction cy env q t w = (w', t', res)"
  shows "same_slot t t'" "has_attempt i h (w_db w) \<Longrightarrow> has_attempt i h (w_db w')"
  using assms
  by (cases rule: send_transaction_cases;
      auto dest: sign_send_keeps persist_and_broadcast_slot store.persist_and_broadcast_outcome(2)
           intro: same_slot_trans)+

lemma covered_protected: "store.covered w = protected_world w"
  by (simp add: store.covered_def evidenced_def)

lemma send_transaction_protected:
  assumes "send_transaction cy env q t w = (w', t', res)" "protected_world w"
  shows "protected_world w'"
  using assms(1)
proof (cases rule: send_transaction_cases)
  case (1 e)
  then show ?thesis using assms(2) by simp
next
  case (2 t1 sent stx r)
  have "store.covered w'"
    by (rule store.persist_and_broadcast_covered [OF 2(2)])
       (use assms(2) sign_send_Inr(2) [OF 2(1)] in \<open>simp_all add: covered_protected\<close>)
  then show ?thesis by (simp add: covered_protected)
qed

lemma send_transaction_network:
  assumes "send_transaction cy env q t w = (w', t', res)"
  shows "w_broadcasts w' = w_broadcasts w \<or>
    (\<exists>stx. w_broadcasts w' = w_broadcasts w @ [stx] \<and> request_fits t (sg_request stx) \<and>
           has_attempt (tx_id t) (sg_hash stx) (w_db w') \<and>
           tx_known_transaction_hash t' = Some (sg_hash stx))"
  using assms
proof (cases rule: send_transaction_cases)
  case (1 e)
  then show ?thesis by simp
next
  case (2 t1 sent stx r)
  note s = sign_send_Inr [OF 2(1)] and k = sign_send_keeps [OF 2(1)]
  from store.persist_and_broadcast_outcome(1) [OF 2(2)] show ?thesis
    using s k by (auto simp: same_slot_def)
qed

lemma send_transaction_Inr:
  assumes "send_transaction cy env q t w = (w', t', Inr sent)"
  obtains stx where "w_broadcasts w' = w_broadcasts w @ [stx]" "sg_hash stx = ts_hash sent"
    "request_fits t (sg_request stx)" "has_attempt (tx_id t) (ts_hash sent) (w_db w')"
    "ts_id sent = tx_id t" "tx_known_transaction_hash t' = Some (ts_hash sent)"
    "tx_status t' = INMEMPOOL" "tx_sent_at t' = Some (se_now_sent env)"
    "within_gas_price_bounds (q_relayer q) (ts_sent_with_gas sent)"
  using assms
proof (cases rule: send_transaction_cases)
  case (2 t1 sent' stx r)
  then obtain u where r: "r = Inr u" and [simp]: "sent' = sent" by (auto split: sum.splits)
  note s = sign_send_Inr [OF 2(1)] and k = sign_send_keeps [OF 2(1)]
  show thesis
    by (rule that [of stx])
       (use store.persist_and_broadcast_outcome(1) [OF 2(2)] s k r
            persist_and_broadcast_Inr [OF 2(2) [unfolded r]] send_gas_price_bounds
         in \<open>auto simp: same_slot_def record_send_def\<close>)
qed simp

end
