(* ===== verification/Queues.thy ===== *)
theory Queues
  imports Send_Laws
begin

text \<open>
  The container of all relayer queues (queue_system/transactions_queues.rs): its state, the helpers
  the handlers share, and the admission of a transaction (\<open>add_transaction\<close>).
\<close>

section \<open>State\<close>

datatype webhook_event =
    OnQueued transaction
  | OnSent transaction
  | OnMined transaction receipt
  | OnConfirmed transaction receipt
  | OnFailed transaction
  | OnExpired transaction
  | OnCancelled transaction
  | OnReplaced transaction transaction

text \<open>
  The queues and block times by relayer, the database and the network, the cache of transaction
  reads, the webhook calls spawned so far, and whether shutdown was requested.
\<close>

record sys =
  s_queues :: "relayer_id \<rightharpoonup> transactions_queue"
  s_block_times :: "relayer_id \<rightharpoonup> u64"
  s_world :: world
  s_cache :: "transaction_id \<rightharpoonup> transaction option"
  s_webhooks_enabled :: bool
  s_webhooks :: "webhook_event list"
  s_shutting_down :: bool

abbreviation s_db :: "sys \<Rightarrow> db" where
  "s_db s \<equiv> w_db (s_world s)"

definition put_queue :: "relayer_id \<Rightarrow> transactions_queue \<Rightarrow> sys \<Rightarrow> sys" where
  "put_queue rid q s = s\<lparr> s_queues := (s_queues s)(rid \<mapsto> q) \<rparr>"

definition set_world :: "world \<Rightarrow> sys \<Rightarrow> sys" where
  "set_world w s = s\<lparr> s_world := w \<rparr>"

definition db_call :: "db_answer \<Rightarrow> 'a stmt \<Rightarrow> sys \<Rightarrow> sys \<times> (db_error + 'a)" where
  "db_call ans f s = (case on_db ans f (s_world s) of (w, r) \<Rightarrow> (set_world w s, r))"

definition fire :: "webhook_event list \<Rightarrow> sys \<Rightarrow> sys" where
  "fire evs s = (if s_webhooks_enabled s then s\<lparr> s_webhooks := s_webhooks s @ evs \<rparr> else s)"

definition get_transactions_queue :: "sys \<Rightarrow> relayer_id \<Rightarrow> transactions_queue option" where
  "get_transactions_queue s rid = s_queues s rid"

definition delete_queue :: "relayer_id \<Rightarrow> sys \<Rightarrow> sys" where
  "delete_queue rid s = s\<lparr> s_queues := (s_queues s)(rid := None) \<rparr>"

definition invalidate_transaction_cache :: "transaction_id \<Rightarrow> sys \<Rightarrow> sys" where
  "invalidate_transaction_cache i s = s\<lparr> s_cache := (s_cache s)(i := None) \<rparr>"

definition pending_transactions_count :: "sys \<Rightarrow> relayer_id \<Rightarrow> nat" where
  "pending_transactions_count s rid =
     (case get_transactions_queue s rid of Some q \<Rightarrow> get_pending_transaction_count q | None \<Rightarrow> 0)"

definition inmempool_transactions_count :: "sys \<Rightarrow> relayer_id \<Rightarrow> nat" where
  "inmempool_transactions_count s rid =
     (case get_transactions_queue s rid of Some q \<Rightarrow> get_inmempool_transaction_count q | None \<Rightarrow> 0)"

text \<open>A cached read of a transaction (transaction/get_transaction.rs, transaction/cache.rs).\<close>

definition get_transaction_cached ::
  "string option \<Rightarrow> transaction_id \<Rightarrow> sys \<Rightarrow> sys \<times> (db_error + transaction option)" where
  "get_transaction_cached fault i s =
     (case s_cache s i of
        Some (Some t) \<Rightarrow> (s, Inr (Some t))
      | _ \<Rightarrow>
          (case run_query fault (get_transaction i) (s_db s) of
             Inl e \<Rightarrow> (s, Inl e)
           | Inr r \<Rightarrow> (s\<lparr> s_cache := (s_cache s)(i \<mapsto> r) \<rparr>, Inr r)))"

section \<open>Helpers\<close>

text \<open>
  \<open>RRELAYER_TRANSACTION_EXPIRATION_SECONDS\<close>, parsed as \<open>i64\<close>; positive values that chrono accepts
  are used, anything else is twelve hours.
\<close>

definition expiration_duration :: "int option \<Rightarrow> int" where
  "expiration_duration configured =
     (case configured of
        Some secs \<Rightarrow> if secs > 0 \<and> secs \<le> (2 ^ 63 - 1) div 1000 then secs * 1000000000
                     else 12 * 3600 * 1000000000
      | None \<Rightarrow> 12 * 3600 * 1000000000)"

definition expires_at :: "int option \<Rightarrow> instant \<Rightarrow> instant" where
  "expires_at configured now = now + expiration_duration configured"

record add_transaction_env =
  ae_find_fault :: "string option"
  ae_expiration :: "int option"
  ae_now_expires :: instant
  ae_onchain_nonce :: "rpc_error + transaction_nonce"
  ae_now_queued :: instant
  ae_blob :: blob_reads
  ae_gas :: gas_reads
  ae_estimation_nonce :: "rpc_error + transaction_nonce"
  ae_estimate :: "typed_transaction \<Rightarrow> rpc_error + u128"
  ae_block_limit :: "rpc_error + u128"
  ae_balance :: "rpc_error + u256"
  ae_failed_answer :: db_answer
  ae_now_failed :: instant
  ae_failed_fault :: "string option"
  ae_save_answer :: db_answer
  ae_save_fault :: "string option"

datatype add_transaction_error =
    AddExternalIdConflict string
  | AddCouldNotSaveTransactionDb db_error
  | AddRelayerNotFound relayer_id
  | AddRelayerIsPaused relayer_id
  | AddTransactionGasPriceError gas_price_error
  | AddTransactionEstimateGasError relayer_id rpc_error
  | AddCouldNotGetCurrentOnChainNonce relayer_id rpc_error
  | AddTransactionConversionError conversion_error
  | AddUnsupportedTransactionType string

fun of_admission_error :: "admission_error \<Rightarrow> add_transaction_error" where
  "of_admission_error (CouldNotSaveTransactionDb e) = AddCouldNotSaveTransactionDb e"
| "of_admission_error (ExternalIdConflict x) = AddExternalIdConflict x"

definition compute_transaction_gas_prices ::
  "add_transaction_env \<Rightarrow> transactions_queue \<Rightarrow> transaction \<Rightarrow> transaction_speed \<Rightarrow>
   gas_price_error + (gas_price_result \<times> blob_gas_price_result option)" where
  "compute_transaction_gas_prices env q t speed =
     and_then (if is_blob_transaction t
               then and_then (compute_blob_gas_price_for_transaction (ae_blob env)
                      (rl_chain_id (q_relayer q)) (q_max_gas_price_multiplier q) speed None)
                      (\<lambda>b. Inr (Some b))
               else Inr None) (\<lambda>blob.
     and_then (compute_gas_price_for_transaction (ae_gas env) (rl_chain_id (q_relayer q))
                 (q_max_gas_price_multiplier q) speed None) (\<lambda>g.
       Inr (g, blob)))"

definition create_typed_transaction ::
  "crypto \<Rightarrow> transactions_queue \<Rightarrow> transaction \<Rightarrow> gas_price_result \<Rightarrow> blob_gas_price_result option \<Rightarrow>
   u128 \<Rightarrow> conversion_error + typed_transaction" where
  "create_typed_transaction cy q t g b limit =
     (if is_blob_transaction t
      then to_blob_typed_transaction_with_gas_limit (cy_sidecar cy) t (Some g) b (Some limit)
      else if is_legacy_transactions q
      then to_legacy_typed_transaction_with_gas_limit t (Some g) (Some limit)
      else to_eip1559_typed_transaction_with_gas_limit t (Some g) (Some limit))"

text \<open>The estimate at admission, and the balance it needs.\<close>

definition estimate_and_validate_gas ::
  "crypto \<Rightarrow> add_transaction_env \<Rightarrow> transactions_queue \<Rightarrow> transaction \<Rightarrow> gas_price_result \<Rightarrow>
   blob_gas_price_result option \<Rightarrow> add_transaction_error + u128" where
  "estimate_and_validate_gas cy env q t g b =
     and_then (map_err (AddCouldNotGetCurrentOnChainNonce (tx_relayer_id t)) (ae_estimation_nonce env))
       (\<lambda>n.
     and_then (map_err AddTransactionConversionError
                 (create_typed_transaction cy q (t\<lparr> tx_nonce := n \<rparr>) g b 1)) (\<lambda>request.
     and_then (map_err (AddTransactionEstimateGasError (tx_relayer_id t))
                 (queue_estimate_gas (ae_estimate env request) (ae_block_limit env) (tx_is_noop t)))
       (\<lambda>limit.
     and_then (map_err (AddTransactionEstimateGasError (tx_relayer_id t)) (ae_balance env))
       (\<lambda>balance.
         let gas_cost = limit * legacy_gas_price g;
             required = tx_value t + ucast gas_cost
         in if balance < required
            then Inl (AddTransactionEstimateGasError (tx_relayer_id t)
                        ''Insufficient funds for gas * price + value'')
            else Inr limit))))"

text \<open>The transaction that admission builds from the request.\<close>

definition queued_transaction ::
  "relayer_id \<Rightarrow> transaction_to_send \<Rightarrow> transactions_queue \<Rightarrow> transaction_nonce \<Rightarrow> instant \<Rightarrow> instant \<Rightarrow>
   transaction" where
  "queued_transaction rid tts q n now expires =
     \<lparr> tx_id = tts_id tts, tx_relayer_id = rid, tx_to = tts_to tts,
       tx_from = rl_address (q_relayer q), tx_value = tts_value tts, tx_data = tts_data tts,
       tx_nonce = n, tx_chain_id = rl_chain_id (q_relayer q), tx_gas_limit = None,
       tx_status = PENDING, tx_blobs = tts_blobs tts, tx_known_transaction_hash = None,
       tx_queued_at = now, tx_expires_at = expires, tx_sent_at = None, tx_confirmed_at = None,
       tx_sent_with_gas = None, tx_sent_with_blob_gas = None, tx_mined_at = None,
       tx_mined_at_block_number = None, tx_speed = tts_speed tts,
       tx_sent_with_max_priority_fee_per_gas = None, tx_sent_with_max_fee_per_gas = None,
       tx_is_noop = False, tx_external_id = tts_external_id tts,
       tx_cancelled_by_transaction_id = None, tx_failed_reason = None \<rparr>"

section \<open>Admission\<close>

text \<open>The parameters of admission: SHA-256 and the display of an admission error.\<close>

record admission_params =
  ap_sha256 :: "u8 list \<Rightarrow> u8 list"
  ap_show_error :: "add_transaction_error \<Rightarrow> string"

text \<open>A transaction that cannot be estimated is stored as FAILED; no nonce was reserved for it.\<close>

definition reject_unestimable ::
  "admission_params \<Rightarrow> add_transaction_env \<Rightarrow> relayer_id \<Rightarrow> transaction \<Rightarrow> add_transaction_error \<Rightarrow> sys \<Rightarrow>
   sys \<times> (add_transaction_error + transaction)" where
  "reject_unestimable ap env rid t err s =
     (let failed = t\<lparr> tx_status := FAILED \<rparr>;
          reason = ''Failed to send transaction as always failing on gas estimation: '' @
                   ap_show_error ap err
      in case db_call (ae_failed_answer env)
                (transaction_failed_on_send (ap_sha256 ap) rid failed reason (ae_now_failed env)) s of
           (s', Inl e) \<Rightarrow>
             (s', map_err of_admission_error
                    (resolve_admission_insert_error (ap_sha256 ap) (ae_failed_fault env) rid failed e
                       (s_db s')))
         | (s', Inr _) \<Rightarrow> (invalidate_transaction_cache (tx_id t) s', Inl err))"

definition save_admitted ::
  "admission_params \<Rightarrow> add_transaction_env \<Rightarrow> relayer_id \<Rightarrow> transaction \<Rightarrow> sys \<Rightarrow>
   sys \<times> (add_transaction_error + transaction)" where
  "save_admitted ap env rid t s =
     (case save_admitted_transaction (ap_sha256 ap) (ae_save_answer env) (ae_save_fault env) rid t
             (s_db s) of
        (d, r) \<Rightarrow> (set_world ((s_world s)\<lparr> w_db := d \<rparr>) s, map_err of_admission_error r))"

text \<open>
  The reservation of a nonce and the insert. When the insert fails, or finds that the request was
  already admitted, the nonce is released.
\<close>

definition admit ::
  "admission_params \<Rightarrow> add_transaction_env \<Rightarrow> relayer_id \<Rightarrow> transactions_queue \<Rightarrow> transaction \<Rightarrow> u128 \<Rightarrow>
   sys \<Rightarrow> sys \<times> (add_transaction_error + transaction)" where
  "admit ap env rid q t limit s =
     (case get_and_increment (q_nonce_manager q) of
        (nm, n) \<Rightarrow>
          (let q1 = q\<lparr> q_nonce_manager := nm \<rparr>;
               released = q1\<lparr> q_nonce_manager := release_unbroadcast_nonce n nm \<rparr>;
               t1 = t\<lparr> tx_nonce := n, tx_gas_limit := Some limit \<rparr>
           in case save_admitted ap env rid t1 s of
                (s', Inl e) \<Rightarrow> (put_queue rid released s', Inl e)
              | (s', Inr stored) \<Rightarrow>
                  if tx_id stored \<noteq> tx_id t1
                  then (put_queue rid released s', Inr stored)
                  else (fire [OnQueued t1] (invalidate_transaction_cache (tx_id t1)
                          (put_queue rid (add_pending_transaction t1 q1) s')), Inr t1)))"

definition BLOBS_UNSUPPORTED :: string where
  "BLOBS_UNSUPPORTED = ''EIP-4844 blob transactions are not supported by this wallet manager''"

definition add_transaction ::
  "crypto \<Rightarrow> admission_params \<Rightarrow> add_transaction_env \<Rightarrow> relayer_id \<Rightarrow> transaction_to_send \<Rightarrow> sys \<Rightarrow>
   sys \<times> (add_transaction_error + transaction)" where
  "add_transaction cy ap env rid tts s =
     (case find_admitted_transaction (ae_find_fault env) rid (tts_external_id tts)
             (request_digest (ap_sha256 ap) (tts_to tts) (tts_value tts) (tts_data tts) (tts_speed tts))
             (s_db s) of
        Inl e \<Rightarrow> (s, Inl (of_admission_error e))
      | Inr (Some stored) \<Rightarrow> (s, Inr stored)
      | Inr None \<Rightarrow>
          (case get_transactions_queue s rid of
             None \<Rightarrow> (s, Inl (AddRelayerNotFound rid))
           | Some q0 \<Rightarrow>
               if is_paused q0 then (s, Inl (AddRelayerIsPaused rid))
               else if tts_blobs tts \<noteq> None \<and> \<not> ep_supports_blobs (q_evm_provider q0)
               then (s, Inl (AddUnsupportedTransactionType BLOBS_UNSUPPORTED))
               else (case ae_onchain_nonce env of
                  Inl e \<Rightarrow> (s, Inl (AddCouldNotGetCurrentOnChainNonce rid e))
                | Inr onchain \<Rightarrow>
                    (let q = q0\<lparr> q_nonce_manager := sync_with_onchain_nonce onchain (q_nonce_manager q0) \<rparr>;
                         s1 = put_queue rid q s;
                         t = queued_transaction rid tts q onchain (ae_now_queued env)
                               (expires_at (ae_expiration env) (ae_now_expires env))
                     in case compute_transaction_gas_prices env q t (tts_speed tts) of
                          Inl e \<Rightarrow> (s1, Inl (AddTransactionGasPriceError e))
                        | Inr (g, b) \<Rightarrow>
                            (case estimate_and_validate_gas cy env q t g b of
                               Inl err \<Rightarrow> reject_unestimable ap env rid t err s1
                             | Inr limit \<Rightarrow> admit ap env rid q t limit s1)))))"

end
