(* ===== verification/Cancel_Replace.thy ===== *)
theory Cancel_Replace
  imports Queues
begin

text \<open>
  Cancelling and replacing a transaction (\<open>cancel_transaction\<close> and \<open>replace_transaction\<close> of
  queue_system/transactions_queues.rs): in place while it is pending, by a competitor with the same
  nonce once it is in the mempool.
\<close>

section \<open>Nonce recovery evidence\<close>

text \<open>The larger of the on-chain and the internal nonce; nothing is changed in memory.\<close>

definition recover_nonce_synchronization ::
  "rpc_error + transaction_nonce \<Rightarrow> transactions_queue \<Rightarrow> string + transaction_nonce" where
  "recover_nonce_synchronization onchain q =
     and_then (map_err (\<lambda>e. ''Failed to get on-chain nonce: '' @ e) onchain)
       (\<lambda>n. Inr (max n (get_current_nonce (q_nonce_manager q))))"

section \<open>Replacement payloads\<close>

text \<open>The text parameters: the display of a transaction id and the hex decoder.\<close>

record text_params =
  tp_show_id :: "transaction_id \<Rightarrow> string"
  tp_hex_decode :: "string \<Rightarrow> string + u8 list"

definition BYTES_PER_BLOB :: nat where "BYTES_PER_BLOB = 131072"

fun strip_0x :: "string \<Rightarrow> string" where
  "strip_0x (a # b # s) = (if a = CHR ''0'' \<and> b = CHR ''x'' then s else a # b # s)"
| "strip_0x s = s"

definition blob_from_hex :: "text_params \<Rightarrow> string \<Rightarrow> string + transaction_blob" where
  "blob_from_hex tp s =
     (let h = strip_0x s
      in if length h \<noteq> BYTES_PER_BLOB * 2
         then Inl (''Invalid hex length for blob: expected '' @ show_digits (BYTES_PER_BLOB * 2) @
                   '', got '' @ show_digits (length h))
         else map_err (\<lambda>e. ''Failed to decode hex string: '' @ e) (tp_hex_decode tp h))"

fun blobs_from_hex :: "text_params \<Rightarrow> string list \<Rightarrow> string + transaction_blob list" where
  "blobs_from_hex tp [] = Inr []"
| "blobs_from_hex tp (s # ss) =
     and_then (blob_from_hex tp s) (\<lambda>b. and_then (blobs_from_hex tp ss) (\<lambda>bs. Inr (b # bs)))"

definition optional_blobs ::
  "text_params \<Rightarrow> string list option \<Rightarrow> string + transaction_blob list option" where
  "optional_blobs tp blobs =
     (case blobs of None \<Rightarrow> Inr None | Some ss \<Rightarrow> and_then (blobs_from_hex tp ss) (\<lambda>bs. Inr (Some bs)))"

text \<open>The in-place replacement; \<open>None\<close> is the panic of \<open>expect\<close> on a malformed blob.\<close>

definition transaction_replace ::
  "text_params \<Rightarrow> relay_request \<Rightarrow> transaction \<Rightarrow> transaction option" where
  "transaction_replace tp rq t =
     (case optional_blobs tp (rq_blobs rq) of
        Inl _ \<Rightarrow> None
      | Inr blobs \<Rightarrow>
          Some (t\<lparr> tx_to := rq_to rq, tx_data := rq_data rq, tx_value := rq_value rq,
                   tx_is_noop := (tx_from t = rq_to rq), tx_blobs := blobs,
                   tx_gas_limit := None \<rparr>))"

datatype replace_error =
    ReplaceExternalIdConflict
  | ReplaceSendTransactionError send_error
  | ReplaceTransactionNotFound transaction_id
  | ReplaceRelayerIsPaused relayer_id
  | ReplaceCouldNotUpdateTransactionInDb db_error
  | ReplaceNonceSynchronizationRecovered
  | ReplacePanic

definition replacement_external_id ::
  "text_params \<Rightarrow> transaction \<Rightarrow> string option \<Rightarrow> editable_transaction_type \<Rightarrow>
   replace_error + string option" where
  "replacement_external_id tp original requested phase =
     (if requested \<noteq> None \<and> requested \<noteq> tx_external_id original then Inl ReplaceExternalIdConflict
      else Inr (case phase of
                  EditPending \<Rightarrow> tx_external_id original
                | EditInmempool \<Rightarrow> Some (''replace_'' @ tp_show_id tp (tx_id original))))"

definition competitor_nonce :: "transaction \<Rightarrow> transaction_nonce" where
  "competitor_nonce original = tx_nonce original"

text \<open>The fees of a competitor: 20\% above the original's, at least 1 gwei.\<close>

definition competitor_gas_price :: "gas_price_result \<Rightarrow> gas_price_result" where
  "competitor_gas_price g =
     \<lparr> gp_max_priority_fee = bump_u128_for_same_nonce_competitor (gp_max_priority_fee g),
       gp_max_fee = bump_u128_for_same_nonce_competitor (gp_max_fee g),
       gp_min_wait_time_estimate = None, gp_max_wait_time_estimate = None \<rparr>"

section \<open>Environment and results\<close>

record edit_env =
  ee_update :: db_answer
  ee_now_db :: instant
  ee_fresh_id :: transaction_id
  ee_expiration :: "int option"
  ee_now_expires :: instant
  ee_now_queued :: instant
  ee_blob :: blob_reads
  ee_send :: send_env
  ee_onchain_nonce :: "rpc_error + transaction_nonce"
  ee_now_sent :: instant

datatype cancel_error =
    CancelSendTransactionError send_error
  | CancelCouldNotUpdateTransactionDb db_error
  | CancelRelayerNotFound relayer_id
  | CancelRelayerIsPaused relayer_id
  | CancelNonceSynchronizationRecovered

record cancel_result =
  cn_success :: bool
  cn_cancel_transaction_id :: "transaction_id option"

definition cancel_failed :: cancel_result where
  "cancel_failed = \<lparr> cn_success = False, cn_cancel_transaction_id = None \<rparr>"

definition cancel_success :: "transaction_id \<Rightarrow> cancel_result" where
  "cancel_success i = \<lparr> cn_success = True, cn_cancel_transaction_id = Some i \<rparr>"

record replace_result =
  rr_success :: bool
  rr_replace_transaction_id :: "transaction_id option"
  rr_replace_transaction_hash :: "transaction_hash option"

definition replace_failed :: replace_result where
  "replace_failed =
     \<lparr> rr_success = False, rr_replace_transaction_id = None, rr_replace_transaction_hash = None \<rparr>"

definition replace_success :: "transaction_id \<Rightarrow> transaction_hash \<Rightarrow> replace_result" where
  "replace_success i h =
     \<lparr> rr_success = True, rr_replace_transaction_id = Some i, rr_replace_transaction_hash = Some h \<rparr>"

section \<open>Cancel\<close>

text \<open>A pending transaction forgets its sends and becomes a no-op with the same nonce.\<close>

definition cancelled_pending :: "transactions_queue \<Rightarrow> transaction \<Rightarrow> transaction" where
  "cancelled_pending q t =
     (transaction_to_noop q t)
       \<lparr> tx_known_transaction_hash := None, tx_sent_with_gas := None, tx_sent_with_blob_gas := None,
         tx_sent_with_max_fee_per_gas := None, tx_sent_with_max_priority_fee_per_gas := None,
         tx_sent_at := None, tx_status := PENDING \<rparr>"

definition cancel_pending ::
  "edit_env \<Rightarrow> relayer_id \<Rightarrow> transactions_queue \<Rightarrow> transaction \<Rightarrow> sys \<Rightarrow>
   sys \<times> (cancel_error + cancel_result)" where
  "cancel_pending env rid q t s =
     (let t' = cancelled_pending q t
      in case db_call (ee_update env) (transaction_update t' (ee_now_db env)) s of
           (s', Inl e) \<Rightarrow> (s', Inl (CancelCouldNotUpdateTransactionDb e))
         | (s', Inr _) \<Rightarrow>
             (fire [OnCancelled t'] (invalidate_transaction_cache (tx_id t)
                (put_queue rid (fst (update_pending_transaction t' q)) s')),
              Inr \<lparr> cn_success = True, cn_cancel_transaction_id = None \<rparr>))"

text \<open>The transaction that competes to cancel: a no-op with the same nonce at the highest speed.\<close>

definition cancel_competitor ::
  "text_params \<Rightarrow> edit_env \<Rightarrow> transactions_queue \<Rightarrow> transaction \<Rightarrow> gas_price_result \<Rightarrow> transaction" where
  "cancel_competitor tp env q orig g =
     \<lparr> tx_id = ee_fresh_id env, tx_relayer_id = tx_relayer_id orig,
       tx_to = rl_address (q_relayer q), tx_from = rl_address (q_relayer q), tx_value = 0,
       tx_data = [], tx_nonce = competitor_nonce orig, tx_chain_id = rl_chain_id (q_relayer q),
       tx_gas_limit = Some 21000, tx_status = PENDING, tx_blobs = None,
       tx_known_transaction_hash = None, tx_queued_at = ee_now_queued env,
       tx_expires_at = expires_at (ee_expiration env) (ee_now_expires env), tx_sent_at = None,
       tx_confirmed_at = None, tx_sent_with_gas = Some (competitor_gas_price g),
       tx_sent_with_blob_gas = None, tx_mined_at = None, tx_mined_at_block_number = None,
       tx_speed = SUPER, tx_sent_with_max_priority_fee_per_gas = None,
       tx_sent_with_max_fee_per_gas = None, tx_is_noop = True,
       tx_external_id = Some (''cancel_'' @ tp_show_id tp (tx_id orig)),
       tx_cancelled_by_transaction_id = None, tx_failed_reason = None \<rparr>"

text \<open>
  How both handlers react to a failed send of the competitor: \<open>True\<close> when the nonce evidence could
  be collected.
\<close>

definition competitor_send_recovered ::
  "edit_env \<Rightarrow> transactions_queue \<Rightarrow> send_error \<Rightarrow> bool" where
  "competitor_send_recovered env q e =
     (case e of
        TransactionSendError msg \<Rightarrow>
          competitor_nonce_error (to_lowercase msg)
          \<and> is_ok (recover_nonce_synchronization (ee_onchain_nonce env) q)
      | _ \<Rightarrow> False)"

text \<open>The competitor after its send, as it enters the mempool queue.\<close>

definition sent_competitor ::
  "edit_env \<Rightarrow> transaction_sent_with_relayer \<Rightarrow> transaction \<Rightarrow> transaction" where
  "sent_competitor env sent c =
     c\<lparr> tx_status := INMEMPOOL, tx_known_transaction_hash := Some (ts_hash sent),
        tx_sent_at := Some (ee_now_sent env) \<rparr>"

definition cancel_inmempool ::
  "crypto \<Rightarrow> text_params \<Rightarrow> edit_env \<Rightarrow> relayer_id \<Rightarrow> transactions_queue \<Rightarrow> transaction \<Rightarrow> sys \<Rightarrow>
   sys \<times> (cancel_error + cancel_result)" where
  "cancel_inmempool cy tp env rid q orig s =
     (case tx_sent_with_gas orig of
        None \<Rightarrow> (s, Inl (CancelSendTransactionError GasCalculationError))
      | Some g \<Rightarrow>
          (case send_transaction cy (ee_send env) q (cancel_competitor tp env q orig g) (s_world s) of
             (w, c, Inl e) \<Rightarrow>
               (set_world w s,
                Inl (if competitor_send_recovered env q e then CancelNonceSynchronizationRecovered
                     else CancelSendTransactionError e))
           | (w, c, Inr sent) \<Rightarrow>
               (let c' = sent_competitor env sent c;
                    orig' = orig\<lparr> tx_cancelled_by_transaction_id := Some (ee_fresh_id env) \<rparr>
                in case db_call (ee_update env) (transaction_update orig' (ee_now_db env))
                          (set_world w s) of
                     (s', Inl e) \<Rightarrow> (s', Inl (CancelCouldNotUpdateTransactionDb e))
                   | (s', Inr _) \<Rightarrow>
                       (case add_competitor_to_inmempool_transaction (tx_id orig) c' Cancel q of
                          Inl e \<Rightarrow> (s', Inl (CancelSendTransactionError e))
                        | Inr q' \<Rightarrow>
                            (fire [OnCancelled orig', OnSent c']
                               (invalidate_transaction_cache (tx_id orig) (put_queue rid q' s')),
                             Inr (cancel_success (ee_fresh_id env)))))))"

text \<open>The transaction is passed as the API read it; the queue decides in which stage it is.\<close>

definition cancel_transaction ::
  "crypto \<Rightarrow> text_params \<Rightarrow> edit_env \<Rightarrow> transaction \<Rightarrow> sys \<Rightarrow> sys \<times> (cancel_error + cancel_result)" where
  "cancel_transaction cy tp env t s =
     (let rid = tx_relayer_id t
      in case get_transactions_queue s rid of
           None \<Rightarrow> (s, Inl (CancelRelayerNotFound rid))
         | Some q \<Rightarrow>
             if is_paused q then (s, Inl (CancelRelayerIsPaused rid))
             else (case get_editable_transaction_by_id q (tx_id t) of
                     None \<Rightarrow> (s, Inr cancel_failed)
                   | Some (u, phase) \<Rightarrow>
                       if s_shutting_down s then (s, Inl (CancelRelayerIsPaused rid))
                       else (case phase of
                               EditPending \<Rightarrow> cancel_pending env rid q u s
                             | EditInmempool \<Rightarrow> cancel_inmempool cy tp env rid q u s)))"

section \<open>Replace\<close>

definition replace_pending ::
  "text_params \<Rightarrow> edit_env \<Rightarrow> relayer_id \<Rightarrow> transactions_queue \<Rightarrow> transaction \<Rightarrow> relay_request \<Rightarrow> sys \<Rightarrow>
   sys \<times> (replace_error + replace_result)" where
  "replace_pending tp env rid q t rq s =
     (case transaction_replace tp rq t of
        None \<Rightarrow> (s, Inl ReplacePanic)
      | Some t' \<Rightarrow>
          (case db_call (ee_update env) (transaction_update t' (ee_now_db env)) s of
             (s', Inl e) \<Rightarrow> (s', Inl (ReplaceCouldNotUpdateTransactionInDb e))
           | (s', Inr _) \<Rightarrow>
               (fire [OnReplaced t' t] (invalidate_transaction_cache (tx_id t)
                  (put_queue rid (fst (update_pending_transaction t' q)) s')),
                Inr \<lparr> rr_success = True, rr_replace_transaction_id = Some (tx_id t'),
                      rr_replace_transaction_hash = tx_known_transaction_hash t' \<rparr>)))"

definition bumped_gas_limit :: "u128 \<Rightarrow> u128" where
  "bumped_gas_limit l = l + l div 5"

definition replace_competitor ::
  "edit_env \<Rightarrow> transactions_queue \<Rightarrow> transaction \<Rightarrow> relay_request \<Rightarrow> transaction_blob list option \<Rightarrow>
   string option \<Rightarrow> transaction" where
  "replace_competitor env q orig rq blobs ext =
     \<lparr> tx_id = ee_fresh_id env, tx_relayer_id = tx_relayer_id orig,
       tx_to = rq_to rq, tx_from = rl_address (q_relayer q), tx_value = rq_value rq,
       tx_data = rq_data rq, tx_nonce = competitor_nonce orig,
       tx_chain_id = rl_chain_id (q_relayer q), tx_gas_limit = None, tx_status = PENDING,
       tx_blobs = blobs, tx_known_transaction_hash = None, tx_queued_at = ee_now_queued env,
       tx_expires_at = expires_at (ee_expiration env) (ee_now_expires env), tx_sent_at = None,
       tx_confirmed_at = None, tx_sent_with_gas = None, tx_sent_with_blob_gas = None,
       tx_mined_at = None, tx_mined_at_block_number = None, tx_speed = SUPER,
       tx_sent_with_max_priority_fee_per_gas = None, tx_sent_with_max_fee_per_gas = None,
       tx_is_noop = False, tx_external_id = ext, tx_cancelled_by_transaction_id = None,
       tx_failed_reason = None \<rparr>"

text \<open>The competitor with its gas: limit and fees raised from the original's.\<close>

definition priced_replacement ::
  "text_params \<Rightarrow> edit_env \<Rightarrow> transactions_queue \<Rightarrow> transaction \<Rightarrow> relay_request \<Rightarrow> string option \<Rightarrow>
   send_error + transaction" where
  "priced_replacement tp env q orig rq ext =
     and_then (map_err (\<lambda>e. TransactionConversionError
                          (''Failed to convert blob hex to TransactionBlob: '' @ e))
                 (optional_blobs tp (rq_blobs rq))) (\<lambda>blobs.
     and_then (ok_or GasCalculationError (tx_sent_with_gas orig)) (\<lambda>g.
     and_then (ok_or GasCalculationError (tx_gas_limit orig)) (\<lambda>limit.
     let c = (replace_competitor env q orig rq blobs ext)\<lparr> tx_gas_limit := Some (bumped_gas_limit limit) \<rparr>
     in and_then (if is_blob_transaction c
                  then and_then (map_err SendTransactionGasPriceError
                         (compute_blob_gas_price_for_transaction (ee_blob env)
                            (rl_chain_id (q_relayer q)) (q_max_gas_price_multiplier q) SUPER None))
                         (\<lambda>b. Inr (Some b))
                  else Inr None) (\<lambda>b.
          Inr (c\<lparr> tx_sent_with_gas := Some (competitor_gas_price g),
                   tx_sent_with_blob_gas := b \<rparr>)))))"

definition replace_inmempool ::
  "crypto \<Rightarrow> text_params \<Rightarrow> edit_env \<Rightarrow> relayer_id \<Rightarrow> transactions_queue \<Rightarrow> transaction \<Rightarrow> relay_request \<Rightarrow>
   string option \<Rightarrow> sys \<Rightarrow> sys \<times> (replace_error + replace_result)" where
  "replace_inmempool cy tp env rid q orig rq ext s =
     (case priced_replacement tp env q orig rq ext of
        Inl e \<Rightarrow> (s, Inl (ReplaceSendTransactionError e))
      | Inr c0 \<Rightarrow>
          (case send_transaction cy (ee_send env) q c0 (s_world s) of
             (w, c, Inl e) \<Rightarrow>
               (set_world w s,
                Inl (if competitor_send_recovered env q e then ReplaceNonceSynchronizationRecovered
                     else ReplaceSendTransactionError e))
           | (w, c, Inr sent) \<Rightarrow>
               (let c' = sent_competitor env sent c;
                    orig' = orig\<lparr> tx_cancelled_by_transaction_id := Some (ee_fresh_id env) \<rparr>
                in case db_call (ee_update env) (transaction_update orig' (ee_now_db env))
                          (set_world w s) of
                     (s', Inl e) \<Rightarrow> (s', Inl (ReplaceCouldNotUpdateTransactionInDb e))
                   | (s', Inr _) \<Rightarrow>
                       (case add_competitor_to_inmempool_transaction (tx_id orig) c' Replace q of
                          Inl e \<Rightarrow> (s', Inl (ReplaceSendTransactionError e))
                        | Inr q' \<Rightarrow>
                            (fire [OnReplaced c' orig', OnSent c']
                               (invalidate_transaction_cache (tx_id orig) (put_queue rid q' s')),
                             Inr (replace_success (ee_fresh_id env) (ts_hash sent)))))))"

definition replace_transaction ::
  "crypto \<Rightarrow> text_params \<Rightarrow> edit_env \<Rightarrow> transaction \<Rightarrow> relay_request \<Rightarrow> sys \<Rightarrow>
   sys \<times> (replace_error + replace_result)" where
  "replace_transaction cy tp env t rq s =
     (let rid = tx_relayer_id t
      in case get_transactions_queue s rid of
           None \<Rightarrow> (s, Inl (ReplaceTransactionNotFound (tx_id t)))
         | Some q \<Rightarrow>
             if is_paused q then (s, Inl (ReplaceRelayerIsPaused rid))
             else (case get_editable_transaction_by_id q (tx_id t) of
                     None \<Rightarrow> (s, Inr replace_failed)
                   | Some (u, phase) \<Rightarrow>
                       if s_shutting_down s then (s, Inl (ReplaceRelayerIsPaused rid))
                       else (case replacement_external_id tp u (rq_external_id rq) phase of
                               Inl e \<Rightarrow> (s, Inl e)
                             | Inr ext \<Rightarrow>
                                 (case phase of
                                    EditPending \<Rightarrow> replace_pending tp env rid q u rq s
                                  | EditInmempool \<Rightarrow> replace_inmempool cy tp env rid q u rq ext s))))"

end
