(* ===== verification/Process_Pending.thy ===== *)
theory Process_Pending
  imports Cancel_Replace
begin

text \<open>
  One step of the pending loop (\<open>process_single_pending\<close> of queue_system/transactions_queues.rs and
  the functions it calls, \<open>find_landed_attempt\<close> of attempts.rs): send the head of the queue, and on
  an error decide whether to wait, to close out, or to give the transaction another nonce.
\<close>

section \<open>Results\<close>

record 'a process_result =
  po_status :: 'a
  po_process_again_after :: u64

definition process_other :: "'a \<Rightarrow> u64 option \<Rightarrow> 'a process_result" where
  "process_other st after =
     \<lparr> po_status = st, po_process_again_after = (case after of None \<Rightarrow> 10 | Some ms \<Rightarrow> ms) \<rparr>"

datatype process_pending_status =
    PendingSuccess | RelayerPaused | NoPendingTransactions | PendingGasPriceTooHigh
  | PendingGasCalculationUnavailable | PendingNonceSynchronized | SendRetrying | ClosedOutWithNoop

datatype process_pending_error =
    PendingSendTransactionError relayer_id evm_address send_error
  | PendingMoveToInmempoolError relayer_id evm_address move_pending_error
  | PendingQueueNotFound relayer_id

section \<open>Existence of recorded attempts\<close>

text \<open>Every attempt is asked for, in recorded order; the first that exists wins.\<close>

fun find_landed_from ::
  "(transaction_hash \<Rightarrow> rpc_error + bool) \<Rightarrow> recorded_attempt list \<Rightarrow> recorded_attempt option \<Rightarrow>
   rpc_error + recorded_attempt option" where
  "find_landed_from exists [] landed = Inr landed"
| "find_landed_from exists (a # as) landed =
     and_then (exists (ra_hash a)) (\<lambda>b.
       find_landed_from exists as (if b \<and> landed = None then Some a else landed))"

definition find_landed_attempt ::
  "(transaction_hash \<Rightarrow> rpc_error + bool) \<Rightarrow> recorded_attempt list \<Rightarrow>
   rpc_error + recorded_attempt option" where
  "find_landed_attempt exists as = find_landed_from exists as None"

section \<open>Persist, then advance\<close>

text \<open>Generic over \<open>S: NonceUpdateStore\<close>, as in the code.\<close>

definition persist_then_advance_transaction_nonce ::
  "(transaction_id \<Rightarrow> transaction_nonce \<Rightarrow> 's \<Rightarrow> 's \<times> (db_error + unit)) \<Rightarrow> nonce_manager \<Rightarrow> transaction \<Rightarrow>
   transaction_nonce \<Rightarrow> 's \<Rightarrow> 's \<times> nonce_manager \<times> transaction \<times> (db_error + unit)" where
  "persist_then_advance_transaction_nonce persist_nonce nm t n s =
     (case persist_nonce (tx_id t) n s of
        (s', Inl e) \<Rightarrow> (s', nm, t, Inl e)
      | (s', Inr _) \<Rightarrow>
          (s', advance_after_persisted_reservation n nm, t\<lparr> tx_nonce := n \<rparr>, Inr ()))"

definition persist_nonce ::
  "db_answer \<Rightarrow> transaction_id \<Rightarrow> transaction_nonce \<Rightarrow> sys \<Rightarrow> sys \<times> (db_error + unit)" where
  "persist_nonce ans i n = db_call ans (transaction_update_nonce i n)"

section \<open>Environment\<close>

record pending_env =
  pe_now_expiry :: instant
  pe_send :: send_env
  pe_update :: db_answer
  pe_now_update :: instant
  pe_attempts_fault :: "string option"
  pe_exists :: "transaction_hash \<Rightarrow> rpc_error + bool"
  pe_receipt :: "transaction_hash \<Rightarrow> rpc_error + receipt option"
  pe_sent :: db_answer
  pe_now_db :: instant
  pe_recover :: db_answer
  pe_onchain_nonce :: "rpc_error + transaction_nonce"
  pe_persist_nonce :: db_answer
  pe_now_move :: instant
  pe_now_webhook :: instant

type_synonym pending_outcome =
  "sys \<times> (process_pending_error + process_pending_status process_result)"

definition pending_other :: "process_pending_status \<Rightarrow> u64 option \<Rightarrow> sys \<Rightarrow> pending_outcome" where
  "pending_other st after s = (s, Inr (process_other st after))"

definition pending_failed :: "transactions_queue \<Rightarrow> relayer_id \<Rightarrow> send_error \<Rightarrow> sys \<Rightarrow> pending_outcome" where
  "pending_failed q rid e s =
     (s, Inl (PendingSendTransactionError rid (rl_address (q_relayer q)) e))"

section \<open>Close-out\<close>

definition closed_out :: "transactions_queue \<Rightarrow> string \<Rightarrow> transaction \<Rightarrow> transaction" where
  "closed_out q reason t =
     (transaction_to_noop q t)
       \<lparr> tx_known_transaction_hash := None, tx_sent_with_gas := None,
         tx_sent_with_max_fee_per_gas := None, tx_sent_with_max_priority_fee_per_gas := None,
         tx_sent_at := None, tx_status := PENDING, tx_failed_reason := Some reason \<rparr>"

definition close_out_pending_transaction_as_noop ::
  "pending_env \<Rightarrow> relayer_id \<Rightarrow> transactions_queue \<Rightarrow> transaction \<Rightarrow> string \<Rightarrow> sys \<Rightarrow> pending_outcome" where
  "close_out_pending_transaction_as_noop env rid q t reason s =
     (let t' = closed_out q reason t
      in case db_call (pe_update env) (transaction_update t' (pe_now_update env)) s of
           (s', Inl e) \<Rightarrow>
             (s', Inl (PendingSendTransactionError (tx_relayer_id t) (rl_address (q_relayer q))
                         (CouldNotUpdateTransactionDb e)))
         | (s', Inr _) \<Rightarrow>
             pending_other ClosedOutWithNoop (Some 100)
               (fire [OnFailed (t\<lparr> tx_status := FAILED, tx_failed_reason := Some reason \<rparr>)]
                  (invalidate_transaction_cache (tx_id t)
                     (put_queue rid (fst (update_pending_transaction t' q)) s'))))"

section \<open>A landed attempt\<close>

definition attempt_sent ::
  "transaction \<Rightarrow> recorded_attempt \<Rightarrow> gas_price_result \<Rightarrow> transaction_sent_with_relayer" where
  "attempt_sent t a g =
     \<lparr> ts_id = tx_id t, ts_hash = ra_hash a, ts_sent_with_gas = g,
       ts_sent_with_blob_gas = ra_sent_with_blob_gas a \<rparr>"

text \<open>\<open>g\<close> is the gas evidence of the attempt, which the caller has checked to be there.\<close>

definition resolve_pending_transaction_mined ::
  "pending_env \<Rightarrow> relayer_id \<Rightarrow> transactions_queue \<Rightarrow> transaction \<Rightarrow> recorded_attempt \<Rightarrow>
   gas_price_result \<Rightarrow> sys \<Rightarrow> pending_outcome" where
  "resolve_pending_transaction_mined env rid q t a g s =
     (let sent = attempt_sent t a g
      in case db_call (pe_sent env)
                (transaction_sent (ts_id sent) (ts_hash sent) g (ts_sent_with_blob_gas sent)
                   (is_legacy_transactions q) (pe_now_db env)) s of
           (s', Inl e) \<Rightarrow> pending_failed q rid (CouldNotUpdateTransactionDb e) s'
         | (s', Inr _) \<Rightarrow>
             (case move_pending_to_inmempool (pe_now_move env) t sent q of
                Inl e \<Rightarrow> (s', Inl (PendingMoveToInmempoolError rid (rl_address (q_relayer q)) e))
              | Inr q' \<Rightarrow>
                  pending_other PendingNonceSynchronized (Some 100)
                    (fire [OnSent (t\<lparr> tx_status := INMEMPOOL,
                                      tx_known_transaction_hash := Some (ts_hash sent),
                                      tx_sent_at := Some (pe_now_webhook env) \<rparr>)]
                       (invalidate_transaction_cache (tx_id t) (put_queue rid q' s')))))"

text \<open>The attempt exists but has no receipt yet: the guarded recovery of the row.\<close>

definition recover_landed_pending ::
  "pending_env \<Rightarrow> relayer_id \<Rightarrow> transactions_queue \<Rightarrow> transaction \<Rightarrow> recorded_attempt \<Rightarrow>
   gas_price_result \<Rightarrow> sys \<Rightarrow> pending_outcome" where
  "recover_landed_pending env rid q t a g s =
     (case db_call (pe_recover env)
             (recover_landed_transaction_attempt rid (tx_id t) (ra_hash a) g
                (ra_sent_with_blob_gas a) (is_legacy_transactions q) (pe_now_db env)) s of
        (s', Inl e) \<Rightarrow> pending_failed q rid (CouldNotUpdateTransactionDb e) s'
      | (s', Inr False) \<Rightarrow> pending_other SendRetrying (Some 100) s'
      | (s', Inr True) \<Rightarrow>
          (case move_pending_to_inmempool (pe_now_move env) t (attempt_sent t a g) q of
             Inl e \<Rightarrow> (s', Inl (PendingMoveToInmempoolError rid (rl_address (q_relayer q)) e))
           | Inr q' \<Rightarrow>
               pending_other PendingNonceSynchronized (Some 100)
                 (invalidate_transaction_cache (tx_id t) (put_queue rid q' s'))))"

definition landed_attempt ::
  "pending_env \<Rightarrow> relayer_id \<Rightarrow> transactions_queue \<Rightarrow> transaction \<Rightarrow> recorded_attempt \<Rightarrow> sys \<Rightarrow>
   pending_outcome" where
  "landed_attempt env rid q t a s =
     (case ra_sent_with_gas a of
        None \<Rightarrow> pending_other SendRetrying (Some 100) s
      | Some g \<Rightarrow>
          (case pe_receipt env (ra_hash a) of
             Inr (Some _) \<Rightarrow> resolve_pending_transaction_mined env rid q t a g s
           | Inr None \<Rightarrow> recover_landed_pending env rid q t a g s
           | Inl _ \<Rightarrow> pending_other SendRetrying (Some 100) s))"

section \<open>Another nonce\<close>

text \<open>\<open>msg\<close> is the send error that led here; it is returned when the chain cannot be asked.\<close>

definition reassign_pending_nonce ::
  "pending_env \<Rightarrow> relayer_id \<Rightarrow> transactions_queue \<Rightarrow> transaction \<Rightarrow> string \<Rightarrow> sys \<Rightarrow> pending_outcome" where
  "reassign_pending_nonce env rid q t msg s =
     (case recover_nonce_synchronization (pe_onchain_nonce env) q of
        Inl _ \<Rightarrow> pending_failed q rid (TransactionSendError msg) s
      | Inr n \<Rightarrow>
          (case persist_then_advance_transaction_nonce (persist_nonce (pe_persist_nonce env))
                  (q_nonce_manager q) t n s of
             (s', nm, t', Inl e) \<Rightarrow> pending_failed q rid (CouldNotUpdateTransactionDb e) s'
           | (s', nm, t', Inr _) \<Rightarrow>
               pending_other PendingNonceSynchronized (Some 100)
                 (put_queue rid
                    (update_pending_transaction_nonce (tx_id t) n (q\<lparr> q_nonce_manager := nm \<rparr>)) s')))"

text \<open>
  A nonce conflict: the nonce is given up only when every recorded attempt is proven absent.
\<close>

definition pending_nonce_conflict ::
  "pending_env \<Rightarrow> relayer_id \<Rightarrow> transactions_queue \<Rightarrow> transaction \<Rightarrow> string \<Rightarrow> sys \<Rightarrow> pending_outcome" where
  "pending_nonce_conflict env rid q t msg s =
     (case run_query (pe_attempts_fault env) (get_recorded_transaction_attempts (tx_id t)) (s_db s) of
        Inl _ \<Rightarrow> pending_other SendRetrying (Some 100) s
      | Inr [] \<Rightarrow> pending_other SendRetrying (Some 100) s
      | Inr (a # as) \<Rightarrow>
          (case find_landed_attempt (pe_exists env) (a # as) of
             Inl _ \<Rightarrow> pending_other SendRetrying (Some 100) s
           | Inr (Some b) \<Rightarrow> landed_attempt env rid q t b s
           | Inr None \<Rightarrow> reassign_pending_nonce env rid q t msg s))"

section \<open>The step\<close>

definition pending_estimate_error ::
  "pending_env \<Rightarrow> relayer_id \<Rightarrow> transactions_queue \<Rightarrow> transaction \<Rightarrow> string \<Rightarrow> sys \<Rightarrow> pending_outcome" where
  "pending_estimate_error env rid q t msg s =
     (case classify_send_error (to_lowercase msg) of
        PermanentRejection \<Rightarrow> close_out_pending_transaction_as_noop env rid q t msg s
      | _ \<Rightarrow> pending_other SendRetrying (s_block_times s rid) s)"

definition pending_send_error ::
  "pending_env \<Rightarrow> relayer_id \<Rightarrow> transactions_queue \<Rightarrow> transaction \<Rightarrow> string \<Rightarrow> sys \<Rightarrow> pending_outcome" where
  "pending_send_error env rid q t msg s =
     (case classify_send_error (to_lowercase msg) of
        InsufficientFunds \<Rightarrow> pending_other SendRetrying (s_block_times s rid) s
      | PermanentRejection \<Rightarrow> close_out_pending_transaction_as_noop env rid q t msg s
      | AlreadyKnown \<Rightarrow> pending_other SendRetrying (s_block_times s rid) s
      | NonceConflict \<Rightarrow> pending_nonce_conflict env rid q t msg s
      | Underpriced \<Rightarrow> pending_failed q rid (TransactionSendError msg) s
      | Transient \<Rightarrow> pending_failed q rid (TransactionSendError msg) s)"

definition pending_error ::
  "pending_env \<Rightarrow> relayer_id \<Rightarrow> transactions_queue \<Rightarrow> transaction \<Rightarrow> send_error \<Rightarrow> sys \<Rightarrow> pending_outcome" where
  "pending_error env rid q t e s =
     (case e of
        GasPriceTooHigh \<Rightarrow> pending_other PendingGasPriceTooHigh (s_block_times s rid) s
      | GasCalculationError \<Rightarrow> pending_other PendingGasCalculationUnavailable (s_block_times s rid) s
      | TransactionEstimateGasError msg \<Rightarrow> pending_estimate_error env rid q t msg s
      | TransactionSendError msg \<Rightarrow> pending_send_error env rid q t msg s
      | CouldNotUpdateTransactionDb de \<Rightarrow> pending_failed q rid (CouldNotUpdateTransactionDb de) s
      | SendTransactionGasPriceError _ \<Rightarrow>
          pending_other PendingGasCalculationUnavailable (s_block_times s rid) s
      | TransactionConversionError _ \<Rightarrow> pending_other SendRetrying (s_block_times s rid) s
      | SafeProxyError _ \<Rightarrow> pending_other SendRetrying (s_block_times s rid) s
      | NoTransactionInQueue \<Rightarrow> pending_failed q rid NoTransactionInQueue s)"

definition pending_sent ::
  "pending_env \<Rightarrow> relayer_id \<Rightarrow> transactions_queue \<Rightarrow> transaction \<Rightarrow> transaction_sent_with_relayer \<Rightarrow>
   sys \<Rightarrow> pending_outcome" where
  "pending_sent env rid q t sent s =
     (case move_pending_to_inmempool (pe_now_move env) t sent q of
        Inl e \<Rightarrow> (s, Inl (PendingMoveToInmempoolError rid (rl_address (q_relayer q)) e))
      | Inr q' \<Rightarrow>
          pending_other PendingSuccess None
            (fire [OnSent (t\<lparr> tx_status := INMEMPOOL,
                              tx_known_transaction_hash := Some (ts_hash sent),
                              tx_sent_at := Some (pe_now_webhook env) \<rparr>)]
               (invalidate_transaction_cache (tx_id t) (put_queue rid q' s))))"

definition process_single_pending ::
  "crypto \<Rightarrow> pending_env \<Rightarrow> relayer_id \<Rightarrow> sys \<Rightarrow> pending_outcome" where
  "process_single_pending cy env rid s =
     (case get_transactions_queue s rid of
        None \<Rightarrow> (s, Inl (PendingQueueNotFound rid))
      | Some q \<Rightarrow>
          if is_paused q then pending_other RelayerPaused (Some 30000) s
          else (case get_next_pending_transaction q of
             None \<Rightarrow> pending_other NoPendingTransactions None s
           | Some t0 \<Rightarrow>
               if s_shutting_down s then (s, Inl (PendingQueueNotFound rid))
               else (let t = (if has_expired (pe_now_expiry env) t0 then transaction_to_noop q t0 else t0)
                     in case send_transaction cy (pe_send env) q t (s_world s) of
                          (w, t', Inr sent) \<Rightarrow> pending_sent env rid q t' sent (set_world w s)
                        | (w, t', Inl e) \<Rightarrow> pending_error env rid q t' e (set_world w s))))"

end
