(* ===== verification/Process_Inmempool.thy ===== *)
theory Process_Inmempool
  imports Process_Pending
begin

text \<open>
  One step of the mempool loop and one of the mined loop (\<open>process_single_inmempool\<close> and
  \<open>process_single_mined\<close> of queue_system/transactions_queues.rs): poll the receipt of the active
  transaction, resolve the entry, bump its gas, confirm what was mined.
\<close>

section \<open>The mempool step\<close>

datatype process_inmempool_status =
    InmempoolSuccess | StillInmempool | NoInmempoolTransactions | GasIncreased
  | InmempoolNonceSynchronized

datatype process_inmempool_error =
    InmempoolSendTransactionError relayer_id evm_address send_error
  | InmempoolMoveToMinedError relayer_id evm_address move_inmempool_error
  | InmempoolCouldNotUpdateStatus relayer_id evm_address transaction transaction_status db_error
  | InmempoolCouldNotGetReceipt relayer_id evm_address transaction rpc_error
  | InmempoolUnknownTransactionHash relayer_id evm_address transaction
  | InmempoolQueueNotFound relayer_id

record inmempool_env =
  ie_receipt :: "transaction_hash \<Rightarrow> rpc_error + receipt option"
  ie_now_expiry :: instant
  ie_now_mined :: instant
  ie_winner :: db_answer
  ie_now_winner :: instant
  ie_loser :: db_answer
  ie_now_loser :: instant
  ie_now_bump :: instant
  ie_gas_cap :: gas_oracle_cache
  ie_blob_cap :: blob_gas_oracle_cache
  ie_send :: send_env
  ie_receipt_race :: "transaction_hash \<Rightarrow> rpc_error + receipt option"
  ie_onchain_nonce :: "rpc_error + transaction_nonce"
  ie_persist_nonce :: db_answer
  ie_now_gas :: instant
  ie_now_noop :: instant

type_synonym inmempool_outcome =
  "sys \<times> (process_inmempool_error + process_inmempool_status process_result)"

definition inmempool_other ::
  "process_inmempool_status \<Rightarrow> u64 option \<Rightarrow> sys \<Rightarrow> inmempool_outcome" where
  "inmempool_other st after s = (s, Inr (process_other st after))"

definition status_not_saved ::
  "transactions_queue \<Rightarrow> relayer_id \<Rightarrow> transaction \<Rightarrow> transaction_status \<Rightarrow> db_error \<Rightarrow> sys \<Rightarrow>
   inmempool_outcome" where
  "status_not_saved q rid t st e s =
     (s, Inl (InmempoolCouldNotUpdateStatus rid (rl_address (q_relayer q)) t st e))"

subsection \<open>A receipt arrived\<close>

definition save_mined_winner ::
  "inmempool_env \<Rightarrow> relayer_id \<Rightarrow> transactions_queue \<Rightarrow> competition_resolution \<Rightarrow> receipt \<Rightarrow> sys \<Rightarrow>
   inmempool_outcome" where
  "save_mined_winner env rid q res rc s =
     (case db_call (ie_winner env) (transaction_mined (cr_winner res) rc (ie_now_winner env)) s of
        (s1, Inl e) \<Rightarrow> status_not_saved q rid (cr_winner res) MINED e s1
      | (s1, Inr _) \<Rightarrow>
          (let s2 = invalidate_transaction_cache (tx_id (cr_winner res)) s1
           in case cr_loser res of
                None \<Rightarrow> inmempool_other InmempoolSuccess None (fire [OnMined (cr_winner res) rc] s2)
              | Some loser \<Rightarrow>
                  (case db_call (ie_loser env) (transaction_update loser (ie_now_loser env)) s2 of
                     (s3, Inl e) \<Rightarrow> status_not_saved q rid loser (tx_status loser) e s3
                   | (s3, Inr _) \<Rightarrow>
                       inmempool_other InmempoolSuccess None
                         (fire [OnMined (cr_winner res) rc]
                            (invalidate_transaction_cache (tx_id loser) s3)))))"

definition save_expired_winner ::
  "inmempool_env \<Rightarrow> relayer_id \<Rightarrow> transactions_queue \<Rightarrow> competition_resolution \<Rightarrow> sys \<Rightarrow>
   inmempool_outcome" where
  "save_expired_winner env rid q res s =
     (case db_call (ie_winner env)
             (transaction_expired (tx_id (cr_winner res)) (ie_now_winner env)) s of
        (s1, Inl e) \<Rightarrow> status_not_saved q rid (cr_winner res) EXPIRED e s1
      | (s1, Inr _) \<Rightarrow>
          inmempool_other InmempoolSuccess None
            (fire [OnExpired (cr_winner res)]
               (invalidate_transaction_cache (tx_id (cr_winner res)) s1)))"

definition save_failed_winner ::
  "inmempool_env \<Rightarrow> relayer_id \<Rightarrow> transactions_queue \<Rightarrow> competition_resolution \<Rightarrow> sys \<Rightarrow>
   inmempool_outcome" where
  "save_failed_winner env rid q res s =
     (let winner = cr_winner res;
          reason = (case tx_failed_reason winner of Some r \<Rightarrow> r | None \<Rightarrow> ''Failed onchain'')
      in case db_call (ie_winner env)
                (update_transaction_failed (tx_id winner) reason (ie_now_winner env)) s of
           (s1, Inl e) \<Rightarrow> status_not_saved q rid winner FAILED e s1
         | (s1, Inr _) \<Rightarrow>
             (let s2 = invalidate_transaction_cache (tx_id winner) s1
              in inmempool_other InmempoolSuccess None
                   (if tx_failed_reason winner = None then fire [OnFailed winner] s2 else s2)))"

definition inmempool_receipt ::
  "inmempool_env \<Rightarrow> relayer_id \<Rightarrow> transactions_queue \<Rightarrow> transaction \<Rightarrow> receipt \<Rightarrow> sys \<Rightarrow>
   inmempool_outcome" where
  "inmempool_receipt env rid q t rc s =
     (case move_inmempool_to_mining (ie_now_expiry env) (ie_now_mined env) (tx_id t) rc q of
        Inl e \<Rightarrow> (s, Inl (InmempoolMoveToMinedError rid (rl_address (q_relayer q)) e))
      | Inr (q', res) \<Rightarrow>
          (let s' = put_queue rid q' s
           in case cr_winner_status res of
                MINED \<Rightarrow> save_mined_winner env rid q res rc s'
              | EXPIRED \<Rightarrow> save_expired_winner env rid q res s'
              | FAILED \<Rightarrow> save_failed_winner env rid q res s'
              | _ \<Rightarrow> inmempool_other InmempoolSuccess None s'))"

subsection \<open>A gas bump\<close>

text \<open>The wait of a poll that changed nothing: a tenth of the block time.\<close>

definition poll_wait :: "relayer_id \<Rightarrow> sys \<Rightarrow> u64 option" where
  "poll_wait rid s = map_option (\<lambda>b. b div 10) (s_block_times s rid)"

definition at_cap ::
  "inmempool_env \<Rightarrow> transactions_queue \<Rightarrow> transaction \<Rightarrow> bool" where
  "at_cap env q t =
     ((case tx_sent_with_gas t of
         None \<Rightarrow> False
       | Some g \<Rightarrow> is_at_max_gas_price_cap (ie_gas_cap env) (rl_chain_id (q_relayer q))
                     (q_max_gas_price_multiplier q) g) \<or>
      (case tx_sent_with_blob_gas t of
         None \<Rightarrow> False
       | Some b \<Rightarrow> is_at_max_blob_gas_price_cap (ie_blob_cap env) (rl_chain_id (q_relayer q))
                     (q_max_gas_price_multiplier q) b))"

definition reassign_inmempool_nonce ::
  "inmempool_env \<Rightarrow> relayer_id \<Rightarrow> transactions_queue \<Rightarrow> transaction \<Rightarrow> string \<Rightarrow> sys \<Rightarrow>
   inmempool_outcome" where
  "reassign_inmempool_nonce env rid q t msg s =
     (case recover_nonce_synchronization (ie_onchain_nonce env) q of
        Inl _ \<Rightarrow> (s, Inl (InmempoolSendTransactionError rid (rl_address (q_relayer q))
                          (TransactionSendError msg)))
      | Inr n \<Rightarrow>
          (case persist_then_advance_transaction_nonce (persist_nonce (ie_persist_nonce env))
                  (q_nonce_manager q) t n s of
             (s', nm, t', Inl e) \<Rightarrow>
               (s', Inl (InmempoolSendTransactionError rid (rl_address (q_relayer q))
                           (CouldNotUpdateTransactionDb e)))
           | (s', nm, t', Inr _) \<Rightarrow>
               inmempool_other InmempoolNonceSynchronized (Some 100)
                 (put_queue rid
                    (update_inmempool_transaction_nonce (tx_id t) n (q\<lparr> q_nonce_manager := nm \<rparr>)) s')))"

text \<open>
  A nonce conflict during a bump. \<open>t\<close> is the transaction as the send left it, so the hash that is
  looked up is the one the send recorded.
\<close>

definition inmempool_nonce_conflict ::
  "inmempool_env \<Rightarrow> relayer_id \<Rightarrow> transactions_queue \<Rightarrow> transaction \<Rightarrow> string \<Rightarrow> sys \<Rightarrow>
   inmempool_outcome" where
  "inmempool_nonce_conflict env rid q t msg s =
     (case tx_known_transaction_hash t of
        Some h \<Rightarrow>
          (case ie_receipt_race env h of
             Inr (Some _) \<Rightarrow> inmempool_other StillInmempool (Some 100) s
           | Inr None \<Rightarrow> reassign_inmempool_nonce env rid q t msg s
           | Inl _ \<Rightarrow> inmempool_other StillInmempool (Some 100) s)
      | None \<Rightarrow> reassign_inmempool_nonce env rid q t msg s)"

definition bump_error ::
  "inmempool_env \<Rightarrow> relayer_id \<Rightarrow> transactions_queue \<Rightarrow> transaction \<Rightarrow> send_error \<Rightarrow> sys \<Rightarrow>
   inmempool_outcome" where
  "bump_error env rid q t e s =
     (case e of
        TransactionSendError msg \<Rightarrow>
          (case classify_send_error (to_lowercase msg) of
             AlreadyKnown \<Rightarrow> inmempool_other StillInmempool (s_block_times s rid) s
           | NonceConflict \<Rightarrow> inmempool_nonce_conflict env rid q t msg s
           | _ \<Rightarrow> (s, Inl (InmempoolSendTransactionError rid (rl_address (q_relayer q)) e)))
      | _ \<Rightarrow> (s, Inl (InmempoolSendTransactionError rid (rl_address (q_relayer q)) e)))"

definition bump_sent ::
  "inmempool_env \<Rightarrow> relayer_id \<Rightarrow> transactions_queue \<Rightarrow> bool \<Rightarrow> transaction \<Rightarrow>
   transaction_sent_with_relayer \<Rightarrow> sys \<Rightarrow> inmempool_outcome" where
  "bump_sent env rid q was_noop t sent s =
     (let q1 = update_inmempool_transaction_gas sent (ie_now_gas env) q;
          q2 = (if \<not> was_noop \<and> tx_is_noop t
                then update_inmempool_transaction_noop (tx_id t) sent (ie_now_noop env) q1 else q1)
      in inmempool_other GasIncreased None
           (invalidate_transaction_cache (tx_id t) (put_queue rid q2 s)))"

definition bump_inmempool ::
  "crypto \<Rightarrow> inmempool_env \<Rightarrow> relayer_id \<Rightarrow> transactions_queue \<Rightarrow> transaction \<Rightarrow> sys \<Rightarrow>
   inmempool_outcome" where
  "bump_inmempool cy env rid q t s =
     (case send_transaction cy (ie_send env) q t (s_world s) of
        (w, t', Inl e) \<Rightarrow> bump_error env rid q t' e (set_world w s)
      | (w, t', Inr sent) \<Rightarrow> bump_sent env rid q (tx_is_noop t) t' sent (set_world w s))"

text \<open>No receipt yet.\<close>

definition inmempool_no_receipt ::
  "crypto \<Rightarrow> inmempool_env \<Rightarrow> relayer_id \<Rightarrow> transactions_queue \<Rightarrow> transaction \<Rightarrow> sys \<Rightarrow>
   inmempool_outcome" where
  "inmempool_no_receipt cy env rid q t s =
     (case tx_sent_at t of
        None \<Rightarrow> inmempool_other StillInmempool (poll_wait rid s) s
      | Some sent_at \<Rightarrow>
          if at_cap env q t then inmempool_other StillInmempool (poll_wait rid s) s
          else if should_bump_gas q (elapsed_ms (ie_now_bump env) sent_at) (tx_speed t)
          then bump_inmempool cy env rid q t s
          else inmempool_other StillInmempool (poll_wait rid s) s)"

definition process_single_inmempool ::
  "crypto \<Rightarrow> inmempool_env \<Rightarrow> relayer_id \<Rightarrow> sys \<Rightarrow> inmempool_outcome" where
  "process_single_inmempool cy env rid s =
     (case get_transactions_queue s rid of
        None \<Rightarrow> (s, Inl (InmempoolQueueNotFound rid))
      | Some q \<Rightarrow>
          (case get_next_inmempool_transaction q of
             None \<Rightarrow> inmempool_other NoInmempoolTransactions None s
           | Some t \<Rightarrow>
               if s_shutting_down s then (s, Inl (InmempoolQueueNotFound rid))
               else (case tx_known_transaction_hash t of
                  None \<Rightarrow> (s, Inl (InmempoolUnknownTransactionHash rid (rl_address (q_relayer q)) t))
                | Some h \<Rightarrow>
                    (case ie_receipt env h of
                       Inl e \<Rightarrow>
                         (s, Inl (InmempoolCouldNotGetReceipt rid (rl_address (q_relayer q)) t e))
                     | Inr (Some rc) \<Rightarrow> inmempool_receipt env rid q t rc s
                     | Inr None \<Rightarrow> inmempool_no_receipt cy env rid q t s))))"

section \<open>The mined step\<close>

datatype process_mined_status = MinedSuccess | NotConfirmedYet | NoMinedTransactions

datatype process_mined_error =
    MinedCouldNotGetReceipt relayer_id evm_address transaction rpc_error
  | MinedNotSaved relayer_id evm_address transaction db_error
  | NoMinedAt relayer_id evm_address transaction
  | MinedQueueNotFound relayer_id

record mined_env =
  me_pick :: nat
  me_now :: instant
  me_receipt :: "transaction_hash \<Rightarrow> rpc_error + receipt option"
  me_confirm :: db_answer
  me_now_confirm :: instant
  me_now_webhook :: instant

type_synonym mined_outcome = "sys \<times> (process_mined_error + process_mined_status process_result)"

text \<open>The receipt of a transaction that is about to be confirmed.\<close>

definition confirmed_receipt :: "mined_env \<Rightarrow> transaction \<Rightarrow> rpc_error + receipt" where
  "confirmed_receipt env t =
     (case tx_known_transaction_hash t of
        None \<Rightarrow> Inl ''Transaction hash not found''
      | Some h \<Rightarrow> and_then (me_receipt env h) (ok_or ''No receipt''))"

definition confirm_mined ::
  "mined_env \<Rightarrow> relayer_id \<Rightarrow> transactions_queue \<Rightarrow> transaction \<Rightarrow> sys \<Rightarrow> mined_outcome" where
  "confirm_mined env rid q t s =
     (case confirmed_receipt env t of
        Inl e \<Rightarrow> (s, Inl (MinedCouldNotGetReceipt rid (rl_address (q_relayer q)) t e))
      | Inr rc \<Rightarrow>
          (case db_call (me_confirm env) (transaction_confirmed (tx_id t) (me_now_confirm env)) s of
             (s', Inl e) \<Rightarrow> (s', Inl (MinedNotSaved rid (rl_address (q_relayer q)) t e))
           | (s', Inr _) \<Rightarrow>
               (fire [OnConfirmed (t\<lparr> tx_status := CONFIRMED,
                                      tx_confirmed_at := Some (me_now_webhook env) \<rparr>) rc]
                  (invalidate_transaction_cache (tx_id t)
                     (put_queue rid (move_mining_to_confirmed (tx_id t) q) s')),
                Inr (process_other MinedSuccess None))))"

definition process_single_mined ::
  "mined_env \<Rightarrow> relayer_id \<Rightarrow> sys \<Rightarrow> mined_outcome" where
  "process_single_mined env rid s =
     (case get_transactions_queue s rid of
        None \<Rightarrow> (s, Inl (MinedQueueNotFound rid))
      | Some q \<Rightarrow>
          (case get_next_mined_transaction (me_pick env) q of
             None \<Rightarrow> (s, Inr (process_other NoMinedTransactions None))
           | Some t \<Rightarrow>
               if s_shutting_down s then (s, Inl (MinedQueueNotFound rid))
               else (case tx_mined_at t of
                  None \<Rightarrow> (s, Inl (NoMinedAt rid (rl_address (q_relayer q)) t))
                | Some mined_at \<Rightarrow>
                    if in_confirmed_range q (elapsed_ms (me_now env) mined_at)
                    then confirm_mined env rid q t s
                    else (s, Inr (process_other NotConfirmedYet None)))))"

end
