(* ===== verification/Startup.thy ===== *)
theory Startup
  imports Process_Inmempool
begin

text \<open>
  Startup (queue_system/start.rs, \<open>TransactionsQueues::new\<close> and \<open>add_new_relayer\<close>): repair the
  rows a crash left behind, reload the queues from the database page by page, pair the competitors
  again, and choose the first free nonce. The page loop is a partial function: \<open>None\<close> is a loop
  that does not return.
\<close>

section \<open>Reloading a queue\<close>

text \<open>
  \<open>faults k\<close> is the connection error of the \<open>k\<close>th query, if any.
\<close>

partial_function (option) load_pages ::
  "(nat \<Rightarrow> string option) \<Rightarrow> (paging_context \<Rightarrow> db \<Rightarrow> transaction paging_result) \<Rightarrow> db \<Rightarrow> nat \<Rightarrow>
   paging_context \<Rightarrow> transaction list \<Rightarrow> (db_error + transaction list) option" where
  "load_pages faults page d k pc acc =
     (case run_query (faults k) (page pc) d of
        Inl e \<Rightarrow> Some (Inl e)
      | Inr r \<Rightarrow>
          (case paging_next pc (length (pr_items r)) of
             None \<Rightarrow> Some (Inr (acc @ pr_items r))
           | Some next \<Rightarrow> load_pages faults page d (Suc k) next (acc @ pr_items r)))"

definition first_page :: paging_context where
  "first_page = \<lparr> pc_limit = 1000, pc_offset = 0 \<rparr>"

definition repopulate_transaction_queue ::
  "(nat \<Rightarrow> string option) \<Rightarrow> relayer_id \<Rightarrow> transaction_status \<Rightarrow> db \<Rightarrow>
   (db_error + transaction list) option" where
  "repopulate_transaction_queue faults rid st d =
     load_pages faults (get_transactions_by_status_for_relayer rid st) d 0 first_page []"

section \<open>Pairing the competitors\<close>

definition rehydrated_type :: "transaction \<Rightarrow> competition_type" where
  "rehydrated_type c = (if tx_is_noop c \<or> (tx_value c = 0 \<and> tx_data c = []) then Cancel else Replace)"

definition is_competitor_of_some :: "transaction list \<Rightarrow> transaction \<Rightarrow> bool" where
  "is_competitor_of_some all t = list_ex (\<lambda>u. tx_cancelled_by_transaction_id u = Some (tx_id t)) all"

text \<open>One pass over the rows; \<open>processed\<close> holds the ids that already belong to an entry.\<close>

fun pair_competitors ::
  "transaction list \<Rightarrow> transaction list \<Rightarrow> transaction_id list \<Rightarrow> competitive_transaction list" where
  "pair_competitors all [] processed = []"
| "pair_competitors all (t # ts) processed =
     (if tx_id t \<in> set processed then pair_competitors all ts processed
      else (case tx_cancelled_by_transaction_id t of
              Some c_id \<Rightarrow>
                (case find (\<lambda>u. tx_id u = c_id) all of
                   Some c \<Rightarrow>
                     add_competitor c (rehydrated_type c) (new_competitive_transaction t)
                     # pair_competitors all ts (tx_id c # tx_id t # processed)
                 | None \<Rightarrow>
                     new_competitive_transaction t # pair_competitors all ts (tx_id t # processed))
            | None \<Rightarrow>
                if \<not> is_competitor_of_some all t
                then new_competitive_transaction t # pair_competitors all ts (tx_id t # processed)
                else pair_competitors all ts processed))"

definition repopulate_competitive_transaction_queue ::
  "(nat \<Rightarrow> string option) \<Rightarrow> relayer_id \<Rightarrow> db \<Rightarrow>
   (db_error + competitive_transaction list) option" where
  "repopulate_competitive_transaction_queue faults rid d =
     map_option (\<lambda>r. and_then r (\<lambda>ts. Inr (pair_competitors ts ts [])))
       (repopulate_transaction_queue faults rid INMEMPOOL d)"

section \<open>The first free nonce\<close>

text \<open>\<open>iter().max()\<close>, \<open>None\<close> on an empty iterator.\<close>

definition max_option :: "u64 list \<Rightarrow> u64 option" where
  "max_option ns = (case ns of [] \<Rightarrow> None | n # rest \<Rightarrow> Some (fold max rest n))"

definition entry_max_nonce :: "competitive_transaction \<Rightarrow> transaction_nonce" where
  "entry_max_nonce ct =
     (case ct_competitive ct of
        Some (c, _) \<Rightarrow> max (tx_nonce (ct_original ct)) (tx_nonce c)
      | None \<Rightarrow> tx_nonce (ct_original ct))"

definition saturating_succ :: "u64 \<Rightarrow> u64" where
  "saturating_succ n = (if n = - 1 then n else n + 1)"

definition option_list :: "'a option \<Rightarrow> 'a list" where
  "option_list x = (case x of None \<Rightarrow> [] | Some a \<Rightarrow> [a])"

definition effective_startup_nonce ::
  "transaction_nonce \<Rightarrow> transaction list \<Rightarrow> competitive_transaction list \<Rightarrow> transaction_nonce" where
  "effective_startup_nonce onchain pending inmempool =
     (let next = (case max_option (option_list (max_option (map tx_nonce pending)) @
                                   option_list (max_option (map entry_max_nonce inmempool))) of
                    None \<Rightarrow> 0
                  | Some n \<Rightarrow> saturating_succ n)
      in max onchain next)"

section \<open>Repair of recorded attempts\<close>

definition non_current_nonce_pending_repair_hash ::
  "transaction \<Rightarrow> transaction_nonce \<Rightarrow> transaction_hash option" where
  "non_current_nonce_pending_repair_hash t chain_nonce =
     (if tx_status t = PENDING \<and> tx_sent_at t \<noteq> None \<and> tx_nonce t \<noteq> chain_nonce
      then tx_known_transaction_hash t else None)"

datatype repair_error =
    CouldNotGetChainNonce relayer_id rpc_error
  | CouldNotLoadCandidates relayer_id db_error
  | CouldNotLoadAttempts relayer_id transaction_id db_error
  | MissingAttempts relayer_id transaction_id
  | CouldNotCheckAttempts relayer_id transaction_id rpc_error
  | MissingGasEvidence relayer_id transaction_id transaction_hash
  | CouldNotRecoverLandedAttempt relayer_id transaction_id db_error
  | LandedAttemptStateChanged relayer_id transaction_id
  | CouldNotRepairAbsentAttempts relayer_id db_error

record repair_env =
  re_chain_nonce :: "rpc_error + transaction_nonce"
  re_page_faults :: "nat \<Rightarrow> string option"
  re_attempt_faults :: "transaction_id \<Rightarrow> string option"
  re_exists :: "transaction_hash \<Rightarrow> rpc_error + bool"
  re_recover :: "transaction_id \<Rightarrow> db_answer"
  re_now :: instant
  re_absent :: db_answer

definition ABSENT_REASON :: string where
  "ABSENT_REASON =
     ''startup repair: terminalized broadcast-absent pending transaction outside the current chain nonce''"

text \<open>
  One candidate: \<open>Inr (Some c)\<close> adds \<open>c\<close> to the absent list, \<open>Inr None\<close> means it landed and was
  recovered, or is to stay pending.
\<close>

definition reconcile_candidate ::
  "repair_env \<Rightarrow> relayer \<Rightarrow> transaction_nonce \<Rightarrow> transaction \<Rightarrow> db \<Rightarrow>
   db \<times> (repair_error + (transaction_id \<times> transaction_hash list) option)" where
  "reconcile_candidate env r chain_nonce t d =
     (case run_query (re_attempt_faults env (tx_id t)) (get_recorded_transaction_attempts (tx_id t)) d of
        Inl e \<Rightarrow> (d, Inl (CouldNotLoadAttempts (rl_id r) (tx_id t) e))
      | Inr attempts \<Rightarrow>
          if attempts = [] then (d, Inl (MissingAttempts (rl_id r) (tx_id t)))
          else (case find_landed_attempt (re_exists env) attempts of
             Inl e \<Rightarrow> (d, Inl (CouldNotCheckAttempts (rl_id r) (tx_id t) e))
           | Inr (Some a) \<Rightarrow>
               (case ra_sent_with_gas a of
                  None \<Rightarrow> (d, Inl (MissingGasEvidence (rl_id r) (tx_id t) (ra_hash a)))
                | Some g \<Rightarrow>
                    (case run_stmt (re_recover env (tx_id t))
                            (recover_landed_transaction_attempt (rl_id r) (tx_id t) (ra_hash a) g
                               (ra_sent_with_blob_gas a) (\<not> rl_eip_1559_enabled r) (re_now env)) d of
                       (d', Inl e) \<Rightarrow> (d', Inl (CouldNotRecoverLandedAttempt (rl_id r) (tx_id t) e))
                     | (d', Inr False) \<Rightarrow> (d', Inl (LandedAttemptStateChanged (rl_id r) (tx_id t)))
                     | (d', Inr True) \<Rightarrow> (d', Inr None)))
           | Inr None \<Rightarrow>
               (d, Inr (if non_current_nonce_pending_repair_hash t chain_nonce \<noteq> None
                        then Some (tx_id t, map ra_hash attempts) else None))))"

fun reconcile_candidates ::
  "repair_env \<Rightarrow> relayer \<Rightarrow> transaction_nonce \<Rightarrow> transaction list \<Rightarrow>
   (transaction_id \<times> transaction_hash list) list \<Rightarrow> db \<Rightarrow>
   db \<times> (repair_error + (transaction_id \<times> transaction_hash list) list)" where
  "reconcile_candidates env r n [] absent d = (d, Inr absent)"
| "reconcile_candidates env r n (t # ts) absent d =
     (case reconcile_candidate env r n t d of
        (d', Inl e) \<Rightarrow> (d', Inl e)
      | (d', Inr c) \<Rightarrow> reconcile_candidates env r n ts (absent @ option_list c) d')"

definition repair_recorded_attempts_for_relayer ::
  "repair_env \<Rightarrow> relayer \<Rightarrow> db \<Rightarrow> (db \<times> (repair_error + repaired_transactions)) option" where
  "repair_recorded_attempts_for_relayer env r d =
     (case re_chain_nonce env of
        Inl e \<Rightarrow> Some (d, Inl (CouldNotGetChainNonce (rl_id r) e))
      | Inr n \<Rightarrow>
          (case load_pages (re_page_faults env)
                  (get_pending_transactions_with_attempt_evidence_for_relayer (rl_id r)) d 0
                  first_page [] of
             None \<Rightarrow> None
           | Some (Inl e) \<Rightarrow> Some (d, Inl (CouldNotLoadCandidates (rl_id r) e))
           | Some (Inr candidates) \<Rightarrow>
               (case reconcile_candidates env r n candidates [] d of
                  (d', Inl e) \<Rightarrow> Some (d', Inl e)
                | (d', Inr absent) \<Rightarrow>
                    (case run_stmt (re_absent env)
                            (repair_absent_pending_transactions_for_relayer (rl_id r) n absent
                               ABSENT_REASON (re_now env)) d' of
                       (d'', Inl e) \<Rightarrow> Some (d'', Inl (CouldNotRepairAbsentAttempts (rl_id r) e))
                     | (d'', Inr res) \<Rightarrow> Some (d'', Inr res)))))"

section \<open>One relayer\<close>

record relayer_setup =
  rs_relayer :: relayer
  rs_evm_provider :: evm_provider
  rs_pending :: "transaction list"
  rs_inmempool :: "competitive_transaction list"
  rs_mined :: "(transaction_id \<times> transaction) list"
  rs_gas_bump_config :: gas_bump_block_config
  rs_max_gas_price_multiplier :: u64

record network_config =
  nc_chain_id :: chain_id
  nc_gas_bump_blocks_every :: gas_bump_block_config
  nc_max_gas_price_multiplier :: u64

record startup_env =
  su_provider :: "evm_provider option"
  su_poisoned :: db_answer
  su_repair :: repair_env
  su_pending_faults :: "nat \<Rightarrow> string option"
  su_inmempool_faults :: "nat \<Rightarrow> string option"
  su_mined_faults :: "nat \<Rightarrow> string option"

definition relayer_setup_of ::
  "network_config list \<Rightarrow> evm_provider \<Rightarrow> relayer \<Rightarrow> transaction list \<Rightarrow>
   competitive_transaction list \<Rightarrow> transaction list \<Rightarrow> relayer_setup" where
  "relayer_setup_of configs p r pending inmempool mined =
     (let config = find (\<lambda>c. nc_chain_id c = rl_chain_id r) configs
      in \<lparr> rs_relayer = r, rs_evm_provider = p, rs_pending = pending, rs_inmempool = inmempool,
           rs_mined = fold (\<lambda>t al. AList.update (tx_id t) t al) mined [],
           rs_gas_bump_config = (case config of Some c \<Rightarrow> nc_gas_bump_blocks_every c
                                              | None \<Rightarrow> default_gas_bump_block_config),
           rs_max_gas_price_multiplier =
             (case config of Some c \<Rightarrow> nc_max_gas_price_multiplier c | None \<Rightarrow> 2) \<rparr>)"

text \<open>
  \<open>Inr None\<close> keeps the relayer offline; \<open>Inl\<close> aborts the whole startup.
\<close>

definition startup_relayer ::
  "network_config list \<Rightarrow> startup_env \<Rightarrow> relayer \<Rightarrow> db \<Rightarrow>
   (db \<times> (db_error + relayer_setup option)) option" where
  "startup_relayer configs env r d =
     (case su_provider env of
        None \<Rightarrow> Some (d, Inr None)
      | Some p \<Rightarrow>
          (case run_stmt (su_poisoned env)
                  (repair_poisoned_pending_transactions_for_relayer (rl_id r)) d of
             (d1, Inl e) \<Rightarrow> Some (d1, Inr None)
           | (d1, Inr _) \<Rightarrow>
               (case repair_recorded_attempts_for_relayer (su_repair env) r d1 of
                  None \<Rightarrow> None
                | Some (d2, Inl e) \<Rightarrow> Some (d2, Inr None)
                | Some (d2, Inr _) \<Rightarrow>
                    (case repopulate_transaction_queue (su_pending_faults env) (rl_id r) PENDING d2 of
                       None \<Rightarrow> None
                     | Some (Inl e) \<Rightarrow> Some (d2, Inl e)
                     | Some (Inr pending) \<Rightarrow>
                         (case repopulate_competitive_transaction_queue (su_inmempool_faults env)
                                 (rl_id r) d2 of
                            None \<Rightarrow> None
                          | Some (Inl e) \<Rightarrow> Some (d2, Inl e)
                          | Some (Inr inmempool) \<Rightarrow>
                              (case repopulate_transaction_queue (su_mined_faults env) (rl_id r) MINED d2 of
                                 None \<Rightarrow> None
                               | Some (Inl e) \<Rightarrow> Some (d2, Inl e)
                               | Some (Inr mined) \<Rightarrow>
                                   Some (d2, Inr (Some (relayer_setup_of configs p r pending inmempool
                                                          mined)))))))))"

section \<open>The container\<close>

definition queue_of_setup ::
  "safe_proxy_config list \<Rightarrow> relayer_setup \<Rightarrow> transaction_nonce \<Rightarrow> transactions_queue" where
  "queue_of_setup safes rs onchain =
     new_transactions_queue
       \<lparr> qs_relayer = rs_relayer rs, qs_evm_provider = rs_evm_provider rs,
         qs_nonce_manager = new_nonce_manager
           (effective_startup_nonce onchain (rs_pending rs) (rs_inmempool rs)),
         qs_pending = rs_pending rs, qs_inmempool = rs_inmempool rs, qs_mined = rs_mined rs,
         qs_safe_proxy_manager = safes, qs_gas_bump_config = rs_gas_bump_config rs,
         qs_max_gas_price_multiplier = rs_max_gas_price_multiplier rs \<rparr>"

definition empty_sys :: "world \<Rightarrow> bool \<Rightarrow> sys" where
  "empty_sys w webhooks =
     \<lparr> s_queues = Map.empty, s_block_times = Map.empty, s_world = w, s_cache = Map.empty,
       s_webhooks_enabled = webhooks, s_webhooks = [], s_shutting_down = False \<rparr>"

text \<open>\<open>TransactionsQueues::new\<close>; the first provider error aborts it.\<close>

fun new_transactions_queues ::
  "(relayer_id \<Rightarrow> rpc_error + transaction_nonce) \<Rightarrow> safe_proxy_config list \<Rightarrow> relayer_setup list \<Rightarrow>
   sys \<Rightarrow> rpc_error + sys" where
  "new_transactions_queues onchain safes [] s = Inr s"
| "new_transactions_queues onchain safes (rs # rest) s =
     and_then (onchain (rl_id (rs_relayer rs))) (\<lambda>n.
       new_transactions_queues onchain safes rest
         ((put_queue (rl_id (rs_relayer rs)) (queue_of_setup safes rs n) s)
            \<lparr> s_block_times := (s_block_times s)
                (rl_id (rs_relayer rs) \<mapsto> ep_blocks_every (rs_evm_provider rs)) \<rparr>))"

datatype startup_error =
    RepopulateError db_error
  | QueuesError rpc_error

fun startup_relayers ::
  "network_config list \<Rightarrow> (relayer_id \<Rightarrow> startup_env) \<Rightarrow> relayer list \<Rightarrow> relayer_setup list \<Rightarrow> db \<Rightarrow>
   (db \<times> (db_error + relayer_setup list)) option" where
  "startup_relayers configs envs [] acc d = Some (d, Inr acc)"
| "startup_relayers configs envs (r # rs) acc d =
     (case startup_relayer configs (envs (rl_id r)) r d of
        None \<Rightarrow> None
      | Some (d', Inl e) \<Rightarrow> Some (d', Inl e)
      | Some (d', Inr setup) \<Rightarrow> startup_relayers configs envs rs (acc @ option_list setup) d')"

text \<open>From the relayers loaded from the database to the running container.\<close>

definition startup_transactions_queues ::
  "network_config list \<Rightarrow> (relayer_id \<Rightarrow> startup_env) \<Rightarrow>
   (relayer_id \<Rightarrow> rpc_error + transaction_nonce) \<Rightarrow> safe_proxy_config list \<Rightarrow> bool \<Rightarrow> relayer list \<Rightarrow>
   world \<Rightarrow> (world \<times> (startup_error + sys)) option" where
  "startup_transactions_queues configs envs onchain safes webhooks rs w =
     (case startup_relayers configs envs rs [] (w_db w) of
        None \<Rightarrow> None
      | Some (d, Inl e) \<Rightarrow> Some (w\<lparr> w_db := d \<rparr>, Inl (RepopulateError e))
      | Some (d, Inr setups) \<Rightarrow>
          (let w' = w\<lparr> w_db := d \<rparr>
           in Some (w', map_err QueuesError
                (new_transactions_queues onchain safes setups (empty_sys w' webhooks)))))"

text \<open>A relayer created while the system runs.\<close>

definition add_new_relayer ::
  "rpc_error + transaction_nonce \<Rightarrow> safe_proxy_config list \<Rightarrow> relayer_setup \<Rightarrow> sys \<Rightarrow> sys \<times> (rpc_error + unit)"
  where
  "add_new_relayer onchain safes rs s =
     (case onchain of
        Inl e \<Rightarrow> (s, Inl e)
      | Inr n \<Rightarrow>
          (put_queue (rl_id (rs_relayer rs))
             (new_transactions_queue
                \<lparr> qs_relayer = rs_relayer rs, qs_evm_provider = rs_evm_provider rs,
                  qs_nonce_manager = new_nonce_manager n, qs_pending = [], qs_inmempool = [],
                  qs_mined = [], qs_safe_proxy_manager = safes,
                  qs_gas_bump_config = rs_gas_bump_config rs,
                  qs_max_gas_price_multiplier = rs_max_gas_price_multiplier rs \<rparr>) s, Inr ()))"

section \<open>The processing loops\<close>

text \<open>
  What a loop does with the result of a step: wait that many milliseconds, or stop because the
  queue is gone. Any other error waits a second.
\<close>

datatype loop_action = WaitMs u64 | StopLoop

fun pending_loop_action ::
  "process_pending_error + process_pending_status process_result \<Rightarrow> loop_action" where
  "pending_loop_action (Inr r) = WaitMs (po_process_again_after r)"
| "pending_loop_action (Inl (PendingQueueNotFound _)) = StopLoop"
| "pending_loop_action (Inl _) = WaitMs 1000"

fun inmempool_loop_action ::
  "process_inmempool_error + process_inmempool_status process_result \<Rightarrow> loop_action" where
  "inmempool_loop_action (Inr r) = WaitMs (po_process_again_after r)"
| "inmempool_loop_action (Inl (InmempoolQueueNotFound _)) = StopLoop"
| "inmempool_loop_action (Inl _) = WaitMs 1000"

fun mined_loop_action ::
  "process_mined_error + process_mined_status process_result \<Rightarrow> loop_action" where
  "mined_loop_action (Inr r) = WaitMs (po_process_again_after r)"
| "mined_loop_action (Inl (MinedQueueNotFound _)) = StopLoop"
| "mined_loop_action (Inl _) = WaitMs 1000"

end
