(* ===== verification/Handler_Laws.thy ===== *)
theory Handler_Laws
  imports Startup
begin

text \<open>
  Every handler of the container keeps the system well formed: what reached the network is
  recorded, the tables satisfy their constraints, the pending queues are in nonce order, and every
  transaction in memory has a row.
\<close>

section \<open>Well-formed systems\<close>

definition queue_ok :: "db \<Rightarrow> transactions_queue \<Rightarrow> bool" where
  "queue_ok d q = (pending_sorted q \<and> mined_ok q \<and> set (queue_ids q) \<subseteq> known_ids d)"

definition sys_ok :: "sys \<Rightarrow> bool" where
  "sys_ok s = (protected_world (s_world s) \<and> db_ok (s_db s) \<and>
     (\<forall>rid q. s_queues s rid = Some q \<longrightarrow> queue_ok (s_db s) q))"

lemma queue_ok_grows: "known_ids d \<subseteq> known_ids d' \<Longrightarrow> queue_ok d q \<Longrightarrow> queue_ok d' q"
  by (auto simp: queue_ok_def)

lemma sys_okD: "sys_ok s \<Longrightarrow> s_queues s rid = Some q \<Longrightarrow> queue_ok (s_db s) q"
  by (simp add: sys_ok_def)

section \<open>Frames\<close>

lemma put_queue_simps [simp]:
  "s_world (put_queue rid q s) = s_world s"
  "s_queues (put_queue rid q s) = (s_queues s)(rid \<mapsto> q)"
  "s_block_times (put_queue rid q s) = s_block_times s"
  by (simp_all add: put_queue_def)

lemma set_world_simps [simp]:
  "s_world (set_world w s) = w" "s_queues (set_world w s) = s_queues s"
  "s_block_times (set_world w s) = s_block_times s"
  by (simp_all add: set_world_def)

lemma fire_simps [simp]:
  "s_world (fire evs s) = s_world s" "s_queues (fire evs s) = s_queues s"
  "s_block_times (fire evs s) = s_block_times s"
  by (simp_all add: fire_def)

lemma invalidate_simps [simp]:
  "s_world (invalidate_transaction_cache i s) = s_world s"
  "s_queues (invalidate_transaction_cache i s) = s_queues s"
  "s_block_times (invalidate_transaction_cache i s) = s_block_times s"
  by (simp_all add: invalidate_transaction_cache_def)

lemma sys_ok_cong: "s_world s' = s_world s \<Longrightarrow> s_queues s' = s_queues s \<Longrightarrow> sys_ok s' = sys_ok s"
  by (simp add: sys_ok_def)

lemma sys_ok_fire [simp]: "sys_ok (fire evs s) = sys_ok s"
  by (rule sys_ok_cong) simp_all

lemma sys_ok_invalidate [simp]: "sys_ok (invalidate_transaction_cache i s) = sys_ok s"
  by (rule sys_ok_cong) simp_all

lemma sys_ok_put_queue: "sys_ok s \<Longrightarrow> queue_ok (s_db s) q \<Longrightarrow> sys_ok (put_queue rid q s)"
  by (auto simp: sys_ok_def)

section \<open>Statements\<close>

text \<open>A world reached from another by statements and recorded broadcasts.\<close>

definition world_step :: "world \<Rightarrow> world \<Rightarrow> bool" where
  "world_step w w' = ((protected_world w \<longrightarrow> protected_world w') \<and>
     (db_ok (w_db w) \<longrightarrow> db_ok (w_db w')) \<and> known_ids (w_db w) \<subseteq> known_ids (w_db w'))"

lemma world_step_refl [simp]: "world_step w w"
  by (simp add: world_step_def)

lemma world_step_trans: "world_step a b \<Longrightarrow> world_step b c \<Longrightarrow> world_step a c"
  by (auto simp: world_step_def)

lemma sys_ok_world:
  assumes "sys_ok s" "world_step (s_world s) (s_world s')" "s_queues s' = s_queues s"
  shows "sys_ok s'"
  using assms queue_ok_grows unfolding sys_ok_def world_step_def by fastforce

lemma on_db_world_step:
  assumes "lawful f" "keeps_ids f"
  shows "world_step w (fst (on_db ans f w))"
  using run_stmt_lawful [OF assms(1)] run_stmt_keeps_ids [OF assms(2)]
  by (auto simp: world_step_def intro: run_stmt_evidenced [OF assms(1)])

lemma db_call_queues [simp]: "s_queues (fst (db_call ans f s)) = s_queues s"
  by (simp add: db_call_def split: prod.splits)

lemma db_call_block_times [simp]: "s_block_times (fst (db_call ans f s)) = s_block_times s"
  by (simp add: db_call_def split: prod.splits)

lemma db_call_world: "s_world (fst (db_call ans f s)) = fst (on_db ans f (s_world s))"
  by (simp add: db_call_def split: prod.splits)

lemma db_call_step:
  assumes "db_call ans f s = (s', r)" "lawful f" "keeps_ids f"
  shows "s_queues s' = s_queues s" "world_step (s_world s) (s_world s')"
    "sys_ok s \<Longrightarrow> sys_ok s'" "known_ids (s_db s) \<subseteq> known_ids (s_db s')"
proof -
  have s': "s' = fst (db_call ans f s)" using assms(1) by simp
  show q: "s_queues s' = s_queues s" by (simp add: s')
  show w: "world_step (s_world s) (s_world s')"
    using on_db_world_step [OF assms(2,3)] by (simp add: s' db_call_world)
  show "sys_ok s \<Longrightarrow> sys_ok s'" by (rule sys_ok_world [OF _ w q])
  show "known_ids (s_db s) \<subseteq> known_ids (s_db s')" using w by (simp add: world_step_def)
qed

lemma db_call_Inr: "db_call ans f s = (s', Inr a) \<Longrightarrow> f (s_db s) = Inr (s_db s', a)"
  by (auto simp: db_call_def split: prod.splits dest: on_db_Inr)

section \<open>Sends\<close>

lemma persist_and_broadcast_world:
  assumes "persist_and_broadcast (persist_attempt pa pn) (mark_sent ma mn) (broadcast ba) now rid t
             sent stx legacy w = (w', t', r)" and "ts_hash sent = sg_hash stx"
  shows "world_step w w'"
proof -
  obtain s1 r1 where p: "persist_attempt pa pn rid t sent legacy w = (s1, r1)" by force
  obtain s2 r2 where b: "broadcast ba stx s1 = (s2, r2)" by force
  obtain s3 r3 where m: "mark_sent ma mn sent legacy s2 = (s3, r3)" by force
  have 1: "world_step w s1"
    using on_db_world_step [OF lawful_broadcast_attempt keeps_ids_broadcast_attempt, of w pa] p
    unfolding persist_attempt_def by (metis fst_conv)
  have 2: "w_db s2 = w_db s1" using b by (auto simp: broadcast_def)
  have 3: "world_step s2 s3"
    using on_db_world_step [OF lawful_transaction_sent keeps_ids_updates(8), of s2 ma] m
    unfolding mark_sent_def by (metis fst_conv)
  have db: "db_ok (w_db w) \<Longrightarrow> db_ok (w_db w')" "known_ids (w_db w) \<subseteq> known_ids (w_db w')"
    using persist_and_broadcast_cases [OF p b m assms(1)] 1 2 3
    by (auto simp: world_step_def)
  have "protected_world w \<Longrightarrow> protected_world w'"
    using store.persist_and_broadcast_covered [OF assms(1) _ assms(2)]
    by (simp add: covered_protected)
  with db show ?thesis by (simp add: world_step_def)
qed

lemma send_transaction_world:
  assumes "send_transaction cy env q t w = (w', t', res)"
  shows "world_step w w'"
  using assms
proof (cases rule: send_transaction_cases)
  case (2 t1 sent stx r)
  show ?thesis by (rule persist_and_broadcast_world [OF 2(2) sign_send_Inr(2) [OF 2(1)]])
qed simp

lemma has_attempt_known:
  assumes "transaction_broadcast_attempt rid t h g b legacy now d = Inr (d', u)"
  shows "tx_id t \<in> known_ids d'"
  using broadcast_attempt_ids [OF assms] by simp

lemma send_transaction_known:
  assumes "send_transaction cy env q t w = (w', t', Inr sent)"
  shows "tx_id t \<in> known_ids (w_db w')"
  using assms
proof (cases rule: send_transaction_cases)
  case (2 t1 sent' stx r)
  obtain s1 r1 where p: "persist_attempt (se_persist env) (se_now_persist env) (rl_id (q_relayer q))
      t1 sent' (is_legacy_transactions q) w = (s1, r1)" by force
  obtain s2 r2 where b: "broadcast (se_broadcast env) stx s1 = (s2, r2)" by force
  obtain s3 r3 where m: "mark_sent (se_mark env) (se_now_mark env) sent' (is_legacy_transactions q) s2
      = (s3, r3)" by force
  have "\<not> (\<exists>e. r = Inl e)" using 2(3) by auto
  then have r1: "r1 = Inr ()" and w': "w' = s2 \<or> w' = s3"
    using persist_and_broadcast_cases [OF p b m 2(2)] by auto
  have "tx_id t1 \<in> known_ids (w_db s1)"
    using p r1 unfolding persist_attempt_def by (auto dest!: on_db_Inr broadcast_attempt_ids)
  moreover have "w_db s2 = w_db s1" using b by (auto simp: broadcast_def)
  moreover have "world_step s2 s3"
    using on_db_world_step [OF lawful_transaction_sent keeps_ids_updates(8), of s2 "se_mark env"] m
    unfolding mark_sent_def by (metis fst_conv)
  then have "known_ids (w_db s2) \<subseteq> known_ids (w_db s3)" by (simp add: world_step_def)
  moreover have "tx_id t1 = tx_id t" using sign_send_keeps [OF 2(1)] by (simp add: same_slot_def)
  ultimately show ?thesis using w' by fastforce
qed simp

section \<open>Queues\<close>

lemma queue_ok_nonce_manager [simp]: "queue_ok d (q\<lparr> q_nonce_manager := nm \<rparr>) = queue_ok d q"
  by (simp add: queue_ok_def pending_sorted_def mined_ok_def queue_ids_def queue_members_def)

lemma mined_ok_pending [simp]:
  "mined_ok (q\<lparr> q_pending := p \<rparr>) = mined_ok q"
  "mined_ok (q\<lparr> q_inmempool := m \<rparr>) = mined_ok q"
  "mined_ok (q\<lparr> q_pending := p, q_inmempool := m \<rparr>) = mined_ok q"
  by (simp_all add: mined_ok_def)

lemma queue_ok_add_pending:
  assumes "queue_ok d q" "tx_id t \<in> known_ids d"
  shows "queue_ok d (add_pending_transaction t q)"
proof -
  have "set (queue_ids (add_pending_transaction t q)) = insert (tx_id t) (set (queue_ids q))"
    using queue_ids_add_pending [of t q] by (metis set_mset_add_mset_insert set_mset_mset)
  then show ?thesis
    using assms pending_sorted_add [of q t]
    by (auto simp: queue_ok_def mined_ok_def add_pending_transaction_def)
qed

lemma queue_ok_update_pending:
  assumes "queue_ok d q" "find (\<lambda>u. tx_id u = tx_id t) (q_pending q) = Some u" "tx_nonce t = tx_nonce u"
  shows "queue_ok d (fst (update_pending_transaction t q))"
proof -
  have "map tx_nonce (update_first (\<lambda>u. tx_id u = tx_id t) (\<lambda>_. t) (q_pending q))
          = map tx_nonce (q_pending q)"
    using assms(2,3) by (intro update_first_map_find) auto
  then have "pending_sorted (fst (update_pending_transaction t q))"
    using assms(1) by (simp add: queue_ok_def pending_sorted_def update_pending_transaction_def)
  moreover have "mined_ok (fst (update_pending_transaction t q))"
    using assms(1) by (simp add: queue_ok_def update_pending_transaction_def)
  ultimately show ?thesis using assms(1) by (simp add: queue_ok_def)
qed

lemma queue_ok_update_pending_nonce:
  assumes "queue_ok d q"
  shows "queue_ok d (update_pending_transaction_nonce i n q)"
proof -
  have "set (queue_ids (update_pending_transaction_nonce i n q)) = set (queue_ids q)"
    using queue_ids_update_pending_nonce by (metis set_mset_mset)
  moreover have "mined_ok (update_pending_transaction_nonce i n q)"
    using assms by (simp add: queue_ok_def update_pending_transaction_nonce_def)
  ultimately show ?thesis
    using assms pending_sorted_update_nonce by (simp add: queue_ok_def)
qed

lemma queue_ok_move_pending:
  assumes "queue_ok d q" "move_pending_to_inmempool now t sent q = Inr q'"
  shows "queue_ok d q'"
proof -
  have "set (queue_ids q') = set (queue_ids q)"
    using queue_ids_move_pending [OF assms(2)] by (metis set_mset_mset)
  moreover have "mined_ok q'"
    using assms by (auto simp: queue_ok_def move_pending_to_inmempool_Inr)
  ultimately show ?thesis
    using assms pending_sorted_move by (auto simp: queue_ok_def)
qed

lemma queue_ok_add_competitor:
  assumes "queue_ok d q" "add_competitor_to_inmempool_transaction i c ty q = Inr q'"
    and "tx_id c \<in> known_ids d"
  shows "queue_ok d q'"
proof -
  have "q_pending q' = q_pending q" "mined_ok q' = mined_ok q"
    using assms(2)
    by (auto simp: add_competitor_to_inmempool_transaction_def split: list.splits if_splits)
  then show ?thesis
    using assms queue_ids_add_competitor [OF assms(2)]
    by (auto simp: queue_ok_def pending_sorted_def)
qed

lemma queue_ok_inmempool_updates:
  assumes "queue_ok d q"
  shows "queue_ok d (update_inmempool_transaction_gas sent now q)"
    "queue_ok d (update_inmempool_transaction_noop i sent now q)"
    "queue_ok d (update_inmempool_transaction_nonce i n q)"
  using assms
  by (simp_all add: queue_ok_def pending_sorted_def update_inmempool_transaction_gas_def [THEN arg_cong [of _ _ mined_ok]]
      update_inmempool_transaction_noop_def [THEN arg_cong [of _ _ mined_ok]]
      update_inmempool_transaction_nonce_def [THEN arg_cong [of _ _ mined_ok]])

lemma queue_ok_mining:
  assumes "queue_ok d q" "move_inmempool_to_mining e m i r q = Inr (q', res)"
  shows "queue_ok d q'"
proof -
  obtain ct rest where q: "q_inmempool q = ct # rest" and
    q': "q' = q\<lparr> q_inmempool := rest,
            q_mined := (if tx_status (cr_winner res) = MINED
                        then AList.update (tx_id (cr_winner res)) (cr_winner res) (q_mined q)
                        else q_mined q) \<rparr>"
    using assms(2) by (rule move_inmempool_to_mining_Inr) blast
  have "set (queue_ids q') \<subseteq> set (queue_ids q)"
    unfolding q' by (auto simp: queue_ids_def queue_members_def q)
  moreover have "pending_sorted q' = pending_sorted q" by (simp add: q' pending_sorted_def)
  ultimately show ?thesis
    using assms mined_ok_move by (auto simp: queue_ok_def)
qed

lemma queue_ok_confirmed:
  "queue_ok d q \<Longrightarrow> queue_ok d (move_mining_to_confirmed i q)"
  by (simp add: queue_ok_def pending_sorted_def mined_ok_confirmed queue_ids_def queue_members_def)

end
