(* ===== verification/Pending_Laws.thy ===== *)
theory Pending_Laws
  imports Handler_Laws
begin

text \<open>
  The laws of admission and of the pending step: they keep the system well formed, and what they
  guarantee about nonces.
\<close>

section \<open>Admission\<close>

lemma on_save_admitted:
  assumes "save_admitted ap env rid t s = (s', r)"
  shows "s_queues s' = s_queues s" "world_step (s_world s) (s_world s')"
    "r = Inr stored \<Longrightarrow> tx_id stored \<in> known_ids (s_db s')"
proof -
  let ?f = "save_transaction (ap_sha256 ap) rid t"
  obtain d x where x: "run_stmt (ae_save_answer env) ?f (s_db s) = (d, x)" by force
  have s': "s' = set_world ((s_world s)\<lparr> w_db := d \<rparr>) s"
    using assms x by (cases x) (auto simp: save_admitted_def save_admitted_transaction_def)
  then show "s_queues s' = s_queues s" by simp
  have "world_step (s_world s) (fst (on_db (ae_save_answer env) ?f (s_world s)))"
    by (rule on_db_world_step [OF lawful_save_transaction keeps_ids_save])
  then show "world_step (s_world s) (s_world s')" by (simp add: s' on_db_def x)
  assume r: "r = Inr stored"
  show "tx_id stored \<in> known_ids (s_db s')"
  proof (cases x)
    case (Inl e)
    with assms x r have "resolve_admission_insert_error (ap_sha256 ap) (ae_save_fault env) rid t e d
        = Inr stored"
      by (auto simp: save_admitted_def save_admitted_transaction_def)
    then obtain ext row where "find_by_external_id rid ext d = Some row"
      "stored = build_transaction_from_transaction_view row"
      by (auto simp: resolve_admission_insert_error_def find_admitted_transaction_def and_then_Inr
          run_query_def split: if_splits option.splits)
    then show ?thesis
      by (auto simp: find_by_external_id_def known_ids_def s'
          build_transaction_from_transaction_view_def dest!: find_SomeD)
  next
    case (Inr u)
    with x have "?f (s_db s) = Inr (d, u)" by (simp add: run_stmt_Inr)
    then have "tx_id t \<in> known_ids d"
      by (auto simp: save_transaction_def commit_Inr known_ids_def)
    moreover have "stored = t"
      using assms x r Inr by (auto simp: save_admitted_def save_admitted_transaction_def)
    ultimately show ?thesis by (simp add: s')
  qed
qed

lemma reject_unestimable_ok:
  assumes "sys_ok s"
  shows "sys_ok (fst (reject_unestimable ap env rid t err s))"
proof -
  obtain s' r where c: "db_call (ae_failed_answer env)
     (transaction_failed_on_send (ap_sha256 ap) rid (t\<lparr> tx_status := FAILED \<rparr>)
        (''Failed to send transaction as always failing on gas estimation: '' @ ap_show_error ap err)
        (ae_now_failed env)) s = (s', r)" by force
  have "sys_ok s'"
    using db_call_step(3) [OF c lawful_failed_on_send keeps_ids_failed_on_send] assms by simp
  then show ?thesis by (cases r) (simp_all add: reject_unestimable_def Let_def c [simplified])
qed

lemma admit_ok:
  assumes "sys_ok s" "s_queues s rid = Some q"
  shows "sys_ok (fst (admit ap env rid q t limit s))"
proof -
  obtain nm n where g: "get_and_increment (q_nonce_manager q) = (nm, n)" by force
  let ?t = "t\<lparr> tx_nonce := n, tx_gas_limit := Some limit \<rparr>"
  obtain s' r where c: "save_admitted ap env rid ?t s = (s', r)" by force
  note sa = on_save_admitted [OF c]
  have ok: "sys_ok s'" by (rule sys_ok_world [OF assms(1) sa(2) sa(1)])
  then have q: "queue_ok (s_db s') q" using assms(2) sa(1) by (simp add: sys_okD)
  show ?thesis
  proof (cases r)
    case (Inl e)
    then show ?thesis using ok q by (simp add: admit_def g Let_def c sys_ok_put_queue)
  next
    case (Inr stored)
    show ?thesis
    proof (cases "tx_id stored = tx_id t")
      case False
      then show ?thesis using ok q Inr by (simp add: admit_def g Let_def c sys_ok_put_queue)
    next
      case True
      then have "tx_id t \<in> known_ids (s_db s')" using sa(3) [OF Inr] by simp
      then have "queue_ok (s_db s') (add_pending_transaction ?t (q\<lparr> q_nonce_manager := nm \<rparr>))"
        using q by (simp add: queue_ok_add_pending)
      then show ?thesis using ok Inr True by (simp add: admit_def g Let_def c sys_ok_put_queue)
    qed
  qed
qed

lemma add_transaction_ok:
  assumes ok: "sys_ok s"
  shows "sys_ok (fst (add_transaction cy ap env rid tts s))"
proof -
  have put: "sys_ok (put_queue rid (q\<lparr> q_nonce_manager := nm \<rparr>) s)"
    if "s_queues s rid = Some q" for q nm
    using ok that by (simp add: sys_ok_put_queue sys_okD)
  have admit: "sys_ok (fst (admit ap env rid (q\<lparr> q_nonce_manager := nm \<rparr>) t limit
      (put_queue rid (q\<lparr> q_nonce_manager := nm \<rparr>) s)))"
    if "s_queues s rid = Some q" for q nm t limit
    using put [OF that] by (simp add: admit_ok)
  have reject: "sys_ok (fst (reject_unestimable ap env rid t err
      (put_queue rid (q\<lparr> q_nonce_manager := nm \<rparr>) s)))"
    if "s_queues s rid = Some q" for q nm t err
    using put [OF that] by (rule reject_unestimable_ok)
  show ?thesis
    unfolding add_transaction_def get_transactions_queue_def Let_def
    by (simp split: sum.split option.split prod.split add: ok put admit reject)
qed

section \<open>The pending step\<close>

lemma closed_out_simps [simp]:
  "tx_id (closed_out q reason t) = tx_id t" "tx_nonce (closed_out q reason t) = tx_nonce t"
  by (simp_all add: closed_out_def)

lemma pending_other_fst [simp]: "fst (pending_other st after s) = s"
  by (simp add: pending_other_def)

lemma pending_failed_fst [simp]: "fst (pending_failed q rid e s) = s"
  by (simp add: pending_failed_def)

text \<open>The transaction being processed: the queue holds it under its id and nonce.\<close>

definition holds :: "transactions_queue \<Rightarrow> transaction \<Rightarrow> bool" where
  "holds q t = (\<exists>u. find (\<lambda>v. tx_id v = tx_id t) (q_pending q) = Some u \<and> tx_nonce u = tx_nonce t)"

lemma holds_head: "q_pending q = u # us \<Longrightarrow> same_slot u t \<Longrightarrow> holds q t"
  by (auto simp: holds_def same_slot_def)

lemma close_out_ok:
  assumes "sys_ok s" "s_queues s rid = Some q" "holds q t"
  shows "sys_ok (fst (close_out_pending_transaction_as_noop env rid q t reason s))"
proof -
  obtain s' r where c: "db_call (pe_update env)
      (transaction_update (closed_out q reason t) (pe_now_update env)) s = (s', r)" by force
  note st = db_call_step [OF c lawful_updates(7) keeps_ids_updates(7)]
  have "queue_ok (s_db s') q" using st assms by (simp add: sys_okD)
  then have "queue_ok (s_db s') (fst (update_pending_transaction (closed_out q reason t) q))"
    using assms(3) by (auto simp: holds_def intro!: queue_ok_update_pending)
  then show ?thesis
    using st(3) [OF assms(1)]
    by (cases r) (simp_all add: close_out_pending_transaction_as_noop_def Let_def c sys_ok_put_queue)
qed

lemma resolve_pending_ok:
  assumes "sys_ok s" "s_queues s rid = Some q"
  shows "sys_ok (fst (resolve_pending_transaction_mined env rid q t a g s))"
proof -
  let ?sent = "attempt_sent t a g"
  obtain s' r where c: "db_call (pe_sent env) (transaction_sent (ts_id ?sent) (ts_hash ?sent) g
      (ts_sent_with_blob_gas ?sent) (is_legacy_transactions q) (pe_now_db env)) s = (s', r)" by force
  note st = db_call_step [OF c lawful_transaction_sent keeps_ids_updates(8)]
  have q: "queue_ok (s_db s') q" using st assms by (simp add: sys_okD)
  show ?thesis
    using st(3) [OF assms(1)] queue_ok_move_pending [OF q]
    by (cases r)
       (auto simp: resolve_pending_transaction_mined_def Let_def c split: sum.split
         intro!: sys_ok_put_queue)
qed

lemma recover_landed_ok:
  assumes "sys_ok s" "s_queues s rid = Some q"
  shows "sys_ok (fst (recover_landed_pending env rid q t a g s))"
proof -
  obtain s' r where c: "db_call (pe_recover env) (recover_landed_transaction_attempt rid (tx_id t)
      (ra_hash a) g (ra_sent_with_blob_gas a) (is_legacy_transactions q) (pe_now_db env)) s = (s', r)"
    by force
  note st = db_call_step [OF c lawful_recover keeps_ids_recover]
  have q: "queue_ok (s_db s') q" using st assms by (simp add: sys_okD)
  show ?thesis
    using st(3) [OF assms(1)] queue_ok_move_pending [OF q]
    by (cases r)
       (auto simp: recover_landed_pending_def Let_def c split: sum.split bool.split
         intro!: sys_ok_put_queue)
qed

lemma landed_attempt_ok:
  assumes "sys_ok s" "s_queues s rid = Some q"
  shows "sys_ok (fst (landed_attempt env rid q t a s))"
  using assms resolve_pending_ok [OF assms] recover_landed_ok [OF assms]
  by (simp add: landed_attempt_def split: option.split sum.split)

lemma persist_then_advance_sys:
  assumes "persist_then_advance_transaction_nonce (persist_nonce ans) nm t n s = (s', nm', t', r)"
  shows "s_queues s' = s_queues s" "world_step (s_world s) (s_world s')"
    "r = Inr u \<Longrightarrow> nm' = advance_after_persisted_reservation n nm"
    "\<exists>e. r = Inl e \<Longrightarrow> nm' = nm \<and> t' = t"
proof -
  obtain s1 r1 where c: "db_call ans (transaction_update_nonce (tx_id t) n) s = (s1, r1)" by force
  note st = db_call_step [OF c lawful_updates(5) keeps_ids_updates(5)]
  have "s' = s1" using assms c
    by (cases r1) (auto simp: persist_then_advance_transaction_nonce_def persist_nonce_def)
  with st show "s_queues s' = s_queues s" "world_step (s_world s) (s_world s')" by simp_all
  show "r = Inr u \<Longrightarrow> nm' = advance_after_persisted_reservation n nm"
    "\<exists>e. r = Inl e \<Longrightarrow> nm' = nm \<and> t' = t"
    using assms by (auto simp: persist_then_advance_transaction_nonce_def split: prod.splits sum.splits)
qed

lemma reassign_pending_ok:
  assumes "sys_ok s" "s_queues s rid = Some q"
  shows "sys_ok (fst (reassign_pending_nonce env rid q t msg s))"
proof (cases "recover_nonce_synchronization (pe_onchain_nonce env) q")
  case (Inl e)
  then show ?thesis using assms by (simp add: reassign_pending_nonce_def)
next
  case (Inr n)
  obtain s' nm t' r where p: "persist_then_advance_transaction_nonce
      (persist_nonce (pe_persist_nonce env)) (q_nonce_manager q) t n s = (s', nm, t', r)"
    by (metis prod_cases4)
  note pa = persist_then_advance_sys [OF p]
  have ok: "sys_ok s'" by (rule sys_ok_world [OF assms(1) pa(2,1)])
  then have "queue_ok (s_db s') q" using assms(2) pa(1) by (simp add: sys_okD)
  then show ?thesis
    using ok
    by (cases r)
       (simp_all add: reassign_pending_nonce_def Inr p sys_ok_put_queue queue_ok_update_pending_nonce)
qed

lemma pending_nonce_conflict_ok:
  assumes "sys_ok s" "s_queues s rid = Some q"
  shows "sys_ok (fst (pending_nonce_conflict env rid q t msg s))"
  using assms landed_attempt_ok [OF assms] reassign_pending_ok [OF assms]
  by (simp add: pending_nonce_conflict_def split: option.split sum.split list.split)

lemma pending_error_ok:
  assumes "sys_ok s" "s_queues s rid = Some q" "holds q t"
  shows "sys_ok (fst (pending_error env rid q t e s))"
  using assms(1) close_out_ok [OF assms] pending_nonce_conflict_ok [OF assms(1,2)]
  by (simp add: pending_error_def pending_estimate_error_def pending_send_error_def
      split: send_error.split send_error_class.split)

lemma pending_sent_ok:
  assumes "sys_ok s" "s_queues s rid = Some q"
  shows "sys_ok (fst (pending_sent env rid q t sent s))"
  using assms queue_ok_move_pending [OF sys_okD [OF assms]]
  by (auto simp: pending_sent_def split: sum.split intro!: sys_ok_put_queue)

lemma process_single_pending_ok:
  assumes ok: "sys_ok s"
  shows "sys_ok (fst (process_single_pending cy env rid s))"
proof (cases "s_queues s rid")
  case None
  then show ?thesis using ok by (simp add: process_single_pending_def get_transactions_queue_def)
next
  case q: (Some q)
  show ?thesis
  proof (cases "is_paused q \<or> get_next_pending_transaction q = None \<or> s_shutting_down s")
    case True
    then show ?thesis
      using ok q
      by (auto simp: process_single_pending_def get_transactions_queue_def split: option.split)
  next
    case False
    then obtain t0 ts where head: "q_pending q = t0 # ts"
      by (auto simp: get_next_pending_transaction_def split: list.splits)
    let ?t = "if has_expired (pe_now_expiry env) t0 then transaction_to_noop q t0 else t0"
    have slot: "same_slot t0 ?t" by (simp add: same_slot_def)
    obtain w t' r where sd: "send_transaction cy (pe_send env) q ?t (s_world s) = (w, t', r)"
      by (metis prod_cases3)
    have ok': "sys_ok (set_world w s)"
      using sys_ok_world [OF ok, of "set_world w s"] send_transaction_world [OF sd] by simp
    have h: "holds q t'"
      using holds_head [OF head same_slot_trans [OF slot send_transaction_keeps(1) [OF sd]]] .
    show ?thesis
      using False q sd head pending_sent_ok [OF ok'] pending_error_ok [OF ok' _ h]
      by (cases r)
         (simp_all add: process_single_pending_def get_transactions_queue_def
           get_next_pending_transaction_def Let_def)
  qed
qed

end
