(* ===== verification/Edit_Laws.thy ===== *)
theory Edit_Laws
  imports Pending_Laws
begin

text \<open>
  Cancel, replace, the mempool step, the mined step and startup keep the system well formed.
\<close>

section \<open>Cancel and replace\<close>

lemma cancelled_pending_simps [simp]:
  "tx_id (cancelled_pending q t) = tx_id t" "tx_nonce (cancelled_pending q t) = tx_nonce t"
  by (simp_all add: cancelled_pending_def)

lemma transaction_replace_slot:
  "transaction_replace tp rq t = Some t' \<Longrightarrow> tx_id t' = tx_id t \<and> tx_nonce t' = tx_nonce t"
  by (auto simp: transaction_replace_def split: sum.splits)

lemma editable_pending:
  assumes "get_editable_transaction_by_id q i = Some (t, EditPending)"
  shows "find (\<lambda>u. tx_id u = i) (q_pending q) = Some t" "tx_id t = i"
  using assms
  by (auto simp: get_editable_transaction_by_id_def split: option.splits dest: find_SomeD)

text \<open>Writing an edited pending transaction to the row and then to the queue.\<close>

lemma update_pending_ok:
  assumes ok: "sys_ok s" and q: "s_queues s rid = Some q"
    and f: "find (\<lambda>u. tx_id u = tx_id t') (q_pending q) = Some t" and n: "tx_nonce t' = tx_nonce t"
    and c: "db_call ans (transaction_update t' now) s = (s', r)"
  shows "sys_ok s'" "sys_ok (put_queue rid (fst (update_pending_transaction t' q)) s')"
proof -
  note st = db_call_step [OF c lawful_updates(7) keeps_ids_updates(7)]
  show ok': "sys_ok s'" using st(3) ok by simp
  have "queue_ok (s_db s') q" using ok' st(1) q by (simp add: sys_okD)
  then show "sys_ok (put_queue rid (fst (update_pending_transaction t' q)) s')"
    using ok' f n by (simp add: sys_ok_put_queue queue_ok_update_pending)
qed

lemma cancel_pending_ok:
  assumes ok: "sys_ok s" and q: "s_queues s rid = Some q"
    and f: "find (\<lambda>u. tx_id u = tx_id t) (q_pending q) = Some t"
  shows "sys_ok (fst (cancel_pending env rid q t s))"
proof -
  obtain s' r where c: "db_call (ee_update env)
      (transaction_update (cancelled_pending q t) (ee_now_db env)) s = (s', r)" by force
  have "find (\<lambda>u. tx_id u = tx_id (cancelled_pending q t)) (q_pending q) = Some t" using f by simp
  note u = update_pending_ok [OF ok q this _ c]
  show ?thesis using u by (cases r) (simp_all add: cancel_pending_def Let_def c)
qed

lemma replace_pending_ok:
  assumes ok: "sys_ok s" and q: "s_queues s rid = Some q"
    and f: "find (\<lambda>u. tx_id u = tx_id t) (q_pending q) = Some t"
  shows "sys_ok (fst (replace_pending tp env rid q t rq s))"
proof (cases "transaction_replace tp rq t")
  case None
  then show ?thesis using ok by (simp add: replace_pending_def)
next
  case (Some t')
  obtain s' r where c: "db_call (ee_update env) (transaction_update t' (ee_now_db env)) s = (s', r)"
    by force
  have "find (\<lambda>u. tx_id u = tx_id t') (q_pending q) = Some t"
    using f transaction_replace_slot [OF Some] by simp
  note u = update_pending_ok [OF ok q this _ c]
  show ?thesis
    using u transaction_replace_slot [OF Some]
    by (cases r) (simp_all add: replace_pending_def Some c)
qed

text \<open>The common tail of both handlers on a mempool transaction.\<close>

lemma competitor_ok:
  assumes ok: "sys_ok s" and q: "s_queues s rid = Some q"
    and sd: "send_transaction cy env q c0 (s_world s) = (w, c, Inr sent)"
    and u: "db_call ans (transaction_update orig now) (set_world w s) = (s', Inr x)"
    and a: "add_competitor_to_inmempool_transaction i c' ty q = Inr q'"
    and i: "tx_id c' = tx_id c0"
  shows "sys_ok (put_queue rid q' s')"
proof -
  have ok1: "sys_ok (set_world w s)"
    using sys_ok_world [OF ok, of "set_world w s"] send_transaction_world [OF sd] by simp
  note st = db_call_step [OF u lawful_updates(7) keeps_ids_updates(7)]
  have "tx_id c' \<in> known_ids (s_db s')"
    using send_transaction_known [OF sd] st(4) i by auto
  moreover have "queue_ok (s_db s') q" using st(1) st(3) [OF ok1] q by (simp add: sys_okD)
  ultimately show ?thesis
    using st(3) [OF ok1] a by (simp add: sys_ok_put_queue queue_ok_add_competitor)
qed

lemma sent_competitor_id [simp]: "tx_id (sent_competitor env sent c) = tx_id c"
  by (simp add: sent_competitor_def)

lemma cancel_inmempool_ok:
  assumes ok: "sys_ok s" and q: "s_queues s rid = Some q"
  shows "sys_ok (fst (cancel_inmempool cy tp env rid q orig s))"
proof (cases "tx_sent_with_gas orig")
  case None
  then show ?thesis using ok by (simp add: cancel_inmempool_def)
next
  case (Some g)
  let ?c0 = "cancel_competitor tp env q orig g"
  obtain w c r where sd: "send_transaction cy (ee_send env) q ?c0 (s_world s) = (w, c, r)"
    by (metis prod_cases3)
  have ok1: "sys_ok (set_world w s)"
    using sys_ok_world [OF ok, of "set_world w s"] send_transaction_world [OF sd] by simp
  show ?thesis
  proof (cases r)
    case (Inl e)
    then show ?thesis using ok1 by (simp add: cancel_inmempool_def Some sd)
  next
    case (Inr sent)
    let ?orig = "orig\<lparr> tx_cancelled_by_transaction_id := Some (ee_fresh_id env) \<rparr>"
    obtain s' x where u: "db_call (ee_update env) (transaction_update ?orig (ee_now_db env))
        (set_world w s) = (s', x)" by force
    have ok2: "sys_ok s'"
      using db_call_step(3) [OF u lawful_updates(7) keeps_ids_updates(7)] ok1 by simp
    have slot: "tx_id c = tx_id ?c0"
      using send_transaction_keeps(1) [OF sd] by (simp add: same_slot_def)
    have put: "sys_ok (put_queue rid q' s')"
      if "x = Inr y" "add_competitor_to_inmempool_transaction (tx_id orig)
            (sent_competitor env sent c) Cancel q = Inr q'" for y q'
      by (rule competitor_ok [OF ok q sd [unfolded Inr] u [unfolded that(1)] that(2)])
         (simp add: slot)
    show ?thesis
      using ok2 put
      by (cases x) (auto simp: cancel_inmempool_def Some sd Inr Let_def u split: sum.split)
  qed
qed

lemma replace_inmempool_ok:
  assumes ok: "sys_ok s" and q: "s_queues s rid = Some q"
  shows "sys_ok (fst (replace_inmempool cy tp env rid q orig rq ext s))"
proof (cases "priced_replacement tp env q orig rq ext")
  case (Inl e)
  then show ?thesis using ok by (simp add: replace_inmempool_def)
next
  case c0: (Inr c0)
  obtain w c r where sd: "send_transaction cy (ee_send env) q c0 (s_world s) = (w, c, r)"
    by (metis prod_cases3)
  have ok1: "sys_ok (set_world w s)"
    using sys_ok_world [OF ok, of "set_world w s"] send_transaction_world [OF sd] by simp
  show ?thesis
  proof (cases r)
    case (Inl e)
    then show ?thesis using ok1 by (simp add: replace_inmempool_def c0 sd)
  next
    case (Inr sent)
    let ?orig = "orig\<lparr> tx_cancelled_by_transaction_id := Some (ee_fresh_id env) \<rparr>"
    obtain s' x where u: "db_call (ee_update env) (transaction_update ?orig (ee_now_db env))
        (set_world w s) = (s', x)" by force
    have ok2: "sys_ok s'"
      using db_call_step(3) [OF u lawful_updates(7) keeps_ids_updates(7)] ok1 by simp
    have slot: "tx_id c = tx_id c0"
      using send_transaction_keeps(1) [OF sd] by (simp add: same_slot_def)
    have put: "sys_ok (put_queue rid q' s')"
      if "x = Inr y" "add_competitor_to_inmempool_transaction (tx_id orig)
            (sent_competitor env sent c) Replace q = Inr q'" for y q'
      by (rule competitor_ok [OF ok q sd [unfolded Inr] u [unfolded that(1)] that(2)])
         (simp add: slot)
    show ?thesis
      using ok2 put
      by (cases x) (auto simp: replace_inmempool_def c0 sd Inr Let_def u split: sum.split)
  qed
qed

lemma cancel_transaction_ok:
  assumes "sys_ok s"
  shows "sys_ok (fst (cancel_transaction cy tp env t s))"
proof -
  have p: "sys_ok (fst (cancel_pending env rid q u s))"
    if "s_queues s rid = Some q" "get_editable_transaction_by_id q i = Some (u, EditPending)"
    for rid q u i
    using cancel_pending_ok [OF assms that(1)] editable_pending [OF that(2)] by simp
  show ?thesis
    using assms p cancel_inmempool_ok [OF assms]
    by (simp add: cancel_transaction_def get_transactions_queue_def Let_def
        split: option.split prod.split editable_transaction_type.split)
qed

lemma replace_transaction_ok:
  assumes "sys_ok s"
  shows "sys_ok (fst (replace_transaction cy tp env t rq s))"
proof -
  have p: "sys_ok (fst (replace_pending tp env rid q u rq s))"
    if "s_queues s rid = Some q" "get_editable_transaction_by_id q i = Some (u, EditPending)"
    for rid q u i
    using replace_pending_ok [OF assms that(1)] editable_pending [OF that(2)] by simp
  show ?thesis
    using assms p replace_inmempool_ok [OF assms]
    by (simp add: replace_transaction_def get_transactions_queue_def Let_def
        split: option.split prod.split editable_transaction_type.split sum.split)
qed

section \<open>The mempool and mined steps\<close>

lemma db_call_sys_ok:
  "sys_ok s \<Longrightarrow> lawful f \<Longrightarrow> keeps_ids f \<Longrightarrow> db_call ans f s = (s', r) \<Longrightarrow> sys_ok s'"
  using db_call_step(3) by blast

lemma inmempool_fst [simp]:
  "fst (inmempool_other st after s) = s" "fst (status_not_saved q rid t st2 e s) = s"
  by (simp_all add: inmempool_other_def status_not_saved_def)

lemma save_mined_winner_ok:
  assumes "sys_ok s"
  shows "sys_ok (fst (save_mined_winner env rid q res rc s))"
proof -
  obtain s1 r1 where c1: "db_call (ie_winner env)
      (transaction_mined (cr_winner res) rc (ie_now_winner env)) s = (s1, r1)" by force
  have ok1: "sys_ok s1" by (rule db_call_sys_ok [OF assms lawful_updates(3) keeps_ids_updates(3) c1])
  show ?thesis
  proof (cases "cr_loser res")
    case None
    then show ?thesis using ok1 by (cases r1) (simp_all add: save_mined_winner_def c1 Let_def)
  next
    case (Some loser)
    obtain s3 r3 where c3: "db_call (ie_loser env) (transaction_update loser (ie_now_loser env))
        (invalidate_transaction_cache (tx_id (cr_winner res)) s1) = (s3, r3)" by force
    have "sys_ok s3"
      by (rule db_call_sys_ok [OF _ lawful_updates(7) keeps_ids_updates(7) c3]) (simp add: ok1)
    then show ?thesis
      using ok1 by (cases r1; cases r3) (simp_all add: save_mined_winner_def c1 Let_def Some c3)
  qed
qed

lemma save_expired_winner_ok:
  assumes "sys_ok s"
  shows "sys_ok (fst (save_expired_winner env rid q res s))"
proof -
  obtain s1 r1 where c1: "db_call (ie_winner env)
      (transaction_expired (tx_id (cr_winner res)) (ie_now_winner env)) s = (s1, r1)" by force
  have "sys_ok s1" by (rule db_call_sys_ok [OF assms lawful_updates(6) keeps_ids_updates(6) c1])
  then show ?thesis by (cases r1) (simp_all add: save_expired_winner_def c1)
qed

lemma save_failed_winner_ok:
  assumes "sys_ok s"
  shows "sys_ok (fst (save_failed_winner env rid q res s))"
proof -
  let ?reason = "case tx_failed_reason (cr_winner res) of Some r \<Rightarrow> r | None \<Rightarrow> ''Failed onchain''"
  obtain s1 r1 where c1: "db_call (ie_winner env)
      (update_transaction_failed (tx_id (cr_winner res)) ?reason (ie_now_winner env)) s = (s1, r1)"
    by force
  have "sys_ok s1" by (rule db_call_sys_ok [OF assms lawful_updates(2) keeps_ids_updates(2) c1])
  then show ?thesis by (cases r1) (simp_all add: save_failed_winner_def Let_def c1)
qed

lemma inmempool_receipt_ok:
  assumes "sys_ok s" "s_queues s rid = Some q"
  shows "sys_ok (fst (inmempool_receipt env rid q t rc s))"
proof (cases "move_inmempool_to_mining (ie_now_expiry env) (ie_now_mined env) (tx_id t) rc q")
  case (Inl e)
  then show ?thesis using assms(1) by (simp add: inmempool_receipt_def)
next
  case (Inr x)
  obtain q' res where x: "x = (q', res)" by force
  have "sys_ok (put_queue rid q' s)"
    using assms queue_ok_mining [OF sys_okD [OF assms] Inr [unfolded x]] by (simp add: sys_ok_put_queue)
  then show ?thesis
    by (simp add: inmempool_receipt_def Inr x Let_def save_mined_winner_ok save_expired_winner_ok
        save_failed_winner_ok split: transaction_status.split)
qed

lemma reassign_inmempool_ok:
  assumes "sys_ok s" "s_queues s rid = Some q"
  shows "sys_ok (fst (reassign_inmempool_nonce env rid q t msg s))"
proof (cases "recover_nonce_synchronization (ie_onchain_nonce env) q")
  case (Inl e)
  then show ?thesis using assms by (simp add: reassign_inmempool_nonce_def)
next
  case (Inr n)
  obtain s' nm t' r where p: "persist_then_advance_transaction_nonce
      (persist_nonce (ie_persist_nonce env)) (q_nonce_manager q) t n s = (s', nm, t', r)"
    by (metis prod_cases4)
  note pa = persist_then_advance_sys [OF p]
  have ok: "sys_ok s'" by (rule sys_ok_world [OF assms(1) pa(2,1)])
  then have "queue_ok (s_db s') q" using assms(2) pa(1) by (simp add: sys_okD)
  then show ?thesis
    using ok
    by (cases r)
       (simp_all add: reassign_inmempool_nonce_def Inr p sys_ok_put_queue
         queue_ok_inmempool_updates(3))
qed

lemma bump_inmempool_ok:
  assumes ok: "sys_ok s" and q: "s_queues s rid = Some q"
  shows "sys_ok (fst (bump_inmempool cy env rid q t s))"
proof -
  obtain w t' r where sd: "send_transaction cy (ie_send env) q t (s_world s) = (w, t', r)"
    by (metis prod_cases3)
  have ok1: "sys_ok (set_world w s)"
    using sys_ok_world [OF ok, of "set_world w s"] send_transaction_world [OF sd] by simp
  have q1: "s_queues (set_world w s) rid = Some q" using q by simp
  have "queue_ok (s_db (set_world w s)) q" by (rule sys_okD [OF ok1 q1])
  then have b: "sys_ok (fst (bump_sent env rid q wn t' sent (set_world w s)))" for wn sent
    using ok1 by (simp add: bump_sent_def Let_def sys_ok_put_queue queue_ok_inmempool_updates)
  have e: "sys_ok (fst (bump_error env rid q t' e (set_world w s)))" for e
    using ok1 reassign_inmempool_ok [OF ok1 q1]
    by (simp add: bump_error_def inmempool_nonce_conflict_def
        split: send_error.split send_error_class.split option.split sum.split)
  show ?thesis using b e by (cases r) (simp_all add: bump_inmempool_def sd)
qed

lemma process_single_inmempool_ok:
  assumes "sys_ok s"
  shows "sys_ok (fst (process_single_inmempool cy env rid s))"
  using assms inmempool_receipt_ok [OF assms] bump_inmempool_ok [OF assms]
  by (simp add: process_single_inmempool_def inmempool_no_receipt_def get_transactions_queue_def
      split: option.split sum.split)

lemma process_single_mined_ok:
  assumes "sys_ok s"
  shows "sys_ok (fst (process_single_mined env rid s))"
proof -
  have "sys_ok (fst (confirm_mined env rid q t s))" if q: "s_queues s rid = Some q" for q t
  proof -
    obtain s1 r1 where c: "db_call (me_confirm env)
        (transaction_confirmed (tx_id t) (me_now_confirm env)) s = (s1, r1)" by force
    note st = db_call_step [OF c lawful_updates(4) keeps_ids_updates(4)]
    have "queue_ok (s_db s1) q" using st(1) st(3) [OF assms] q by (simp add: sys_okD)
    then show ?thesis
      using assms st(3) [OF assms]
      by (cases r1)
         (simp_all add: confirm_mined_def c sys_ok_put_queue queue_ok_confirmed split: sum.split)
  qed
  then show ?thesis
    using assms
    by (simp add: process_single_mined_def get_transactions_queue_def split: option.split)
qed

end
