(* ===== verification/Startup_Laws.thy ===== *)
theory Startup_Laws
  imports Edit_Laws
begin

text \<open>
  The laws of startup: the page loop returns and gives every row, the pairing gives back the pairs
  that were stored, the first free nonce is above everything queued, the repairs change only what
  they were told to, and the container that results is well formed.
\<close>

section \<open>The page loop\<close>

lemma load_pages_subset_aux:
  assumes "load_pages faults page d k pc acc = Some r"
  shows "(\<forall>pc. set (pr_items (page pc d)) \<subseteq> S) \<longrightarrow> set acc \<subseteq> S \<longrightarrow> (\<forall>ts. r = Inr ts \<longrightarrow> set ts \<subseteq> S)"
proof (rule load_pages.raw_induct [where P =
        "\<lambda>faults page d k pc acc r. (\<forall>pc. set (pr_items (page pc d)) \<subseteq> S) \<longrightarrow> set acc \<subseteq> S \<longrightarrow>
           (\<forall>ts. r = Inr ts \<longrightarrow> set ts \<subseteq> S)", OF _ assms])
  fix load faults page d k pc acc r
  assume IH: "\<And>faults page d k pc acc r. load faults page d k pc acc = Some r \<Longrightarrow>
      (\<forall>pc. set (pr_items (page pc d)) \<subseteq> S) \<longrightarrow> set acc \<subseteq> S \<longrightarrow> (\<forall>ts. r = Inr ts \<longrightarrow> set ts \<subseteq> S)"
    and eq: "(case run_query (faults k) (page pc) d of
        Inl e \<Rightarrow> Some (Inl e)
      | Inr p \<Rightarrow>
          (case paging_next pc (length (pr_items p)) of
             None \<Rightarrow> Some (Inr (acc @ pr_items p))
           | Some next \<Rightarrow> load faults page d (Suc k) next (acc @ pr_items p))) = Some r"
  show "(\<forall>pc. set (pr_items (page pc d)) \<subseteq> S) \<longrightarrow> set acc \<subseteq> S \<longrightarrow> (\<forall>ts. r = Inr ts \<longrightarrow> set ts \<subseteq> S)"
  proof (intro impI)
    assume page: "\<forall>pc. set (pr_items (page pc d)) \<subseteq> S" and acc: "set acc \<subseteq> S"
    then have both: "set (acc @ pr_items (page pc d)) \<subseteq> S" by simp
    show "\<forall>ts. r = Inr ts \<longrightarrow> set ts \<subseteq> S"
      using eq IH page both
      by (fastforce simp: run_query_def split: option.splits)
  qed
qed

lemma load_pages_subset:
  assumes "load_pages faults page d k pc acc = Some (Inr ts)"
    and "\<And>pc. set (pr_items (page pc d)) \<subseteq> S" and "set acc \<subseteq> S"
  shows "set ts \<subseteq> S"
  using load_pages_subset_aux [OF assms(1), of S] assms(2,3) by simp

text \<open>The rows of a page are a slice of the ordered rows.\<close>

definition slice :: "paging_context \<Rightarrow> 'a list \<Rightarrow> 'a list" where
  "slice pc xs = take (unat (pc_limit pc)) (drop (unat (pc_offset pc)) xs)"

lemma page_of_items [simp]:
  "pr_items (page_of pc rs) = slice pc (map build_transaction_from_transaction_view rs)"
  by (simp add: page_of_def Let_def slice_def take_map drop_map)

lemma unat_add_1000:
  "unat (w :: u32) + 1000 < 2 ^ 32 \<Longrightarrow> unat (w + 1000) = unat w + 1000"
  by (simp add: unat_word_ariths)

text \<open>
  With fewer rows than the offset can count, the loop ends and returns all of them, in order.
\<close>

lemma load_pages_complete:
  assumes "\<And>j. faults j = None"
    and "\<And>pc. pr_items (page pc d) = slice pc rows"
    and "length rows + 1000 < 2 ^ 32" "unat off \<le> length rows + 999"
  shows "load_pages faults page d k \<lparr> pc_limit = 1000, pc_offset = off \<rparr> acc
           = Some (Inr (acc @ drop (unat off) rows))"
  using assms(4)
proof (induction "length rows + 1000 - unat off" arbitrary: off k acc rule: less_induct)
  case less
  let ?pc = "\<lparr> pc_limit = 1000, pc_offset = off \<rparr>"
  have items: "pr_items (page ?pc d) = take 1000 (drop (unat off) rows)"
    by (simp add: assms(2) slice_def)
  show ?case
  proof (cases "unat off < length rows")
    case False
    then show ?thesis
      by (subst load_pages.simps) (simp add: run_query_def assms(1) items paging_next_def)
  next
    case True
    have off': "unat (off + 1000) = unat off + 1000"
      using True assms(3) by (intro unat_add_1000) simp
    have "load_pages faults page d (Suc k) \<lparr> pc_limit = 1000, pc_offset = off + 1000 \<rparr>
            (acc @ take 1000 (drop (unat off) rows))
          = Some (Inr ((acc @ take 1000 (drop (unat off) rows)) @ drop (unat (off + 1000)) rows))"
      by (rule less.hyps) (use True off' in simp_all)
    also have "(acc @ take 1000 (drop (unat off) rows)) @ drop (unat (off + 1000)) rows
        = acc @ drop (unat off) rows"
      unfolding off' by (metis append_assoc append_take_drop_id drop_drop add.commute)
    finally have rest: "load_pages faults page d (Suc k) \<lparr> pc_limit = 1000, pc_offset = off + 1000 \<rparr>
        (acc @ take 1000 (drop (unat off) rows)) = Some (Inr (acc @ drop (unat off) rows))" .
    from True have "length (take 1000 (drop (unat off) rows)) \<noteq> 0" by simp
    then show ?thesis
      by (subst load_pages.simps)
         (simp add: run_query_def assms(1) items paging_next_def rest del: length_take)
  qed
qed

lemma repopulate_complete:
  assumes "\<And>j. faults j = None" "length (db_rows d) + 1000 < 2 ^ 32"
  shows "repopulate_transaction_queue faults rid st d =
    Some (Inr (map build_transaction_from_transaction_view (sort_key signed_nonce
      (filter (\<lambda>r. r_relayer_id r = rid \<and> r_status r = st) (db_rows d)))))"
proof -
  let ?rows = "map build_transaction_from_transaction_view (sort_key signed_nonce
      (filter (\<lambda>r. r_relayer_id r = rid \<and> r_status r = st) (db_rows d)))"
  have "length ?rows + 1000 < 2 ^ 32"
    using assms(2) by (auto intro: le_less_trans [OF length_filter_le])
  then have "load_pages faults (get_transactions_by_status_for_relayer rid st) d 0
      \<lparr> pc_limit = 1000, pc_offset = 0 \<rparr> [] = Some (Inr ([] @ drop (unat (0 :: u32)) ?rows))"
    by (intro load_pages_complete) (simp_all add: assms(1) get_transactions_by_status_for_relayer_def)
  then show ?thesis by (simp add: repopulate_transaction_queue_def first_page_def)
qed

text \<open>What is loaded comes from the rows of the relayer with that status.\<close>

lemma repopulate_rows:
  assumes "repopulate_transaction_queue faults rid st d = Some (Inr ts)" "t \<in> set ts"
  shows "\<exists>r \<in> set (db_rows d). t = build_transaction_from_transaction_view r
           \<and> r_relayer_id r = rid \<and> r_status r = st"
proof -
  let ?S = "build_transaction_from_transaction_view `
              {r \<in> set (db_rows d). r_relayer_id r = rid \<and> r_status r = st}"
  have "set (pr_items (get_transactions_by_status_for_relayer rid st pc d)) \<subseteq> ?S" for pc
    by (auto simp: get_transactions_by_status_for_relayer_def slice_def
        dest!: in_set_takeD in_set_dropD)
  then have "set ts \<subseteq> ?S"
    by (intro load_pages_subset [OF assms(1) [unfolded repopulate_transaction_queue_def]]) auto
  with assms(2) show ?thesis by auto
qed

lemma build_transaction_id [simp]:
  "tx_id (build_transaction_from_transaction_view r) = r_id r"
  "tx_status (build_transaction_from_transaction_view r) = r_status r"
  "tx_nonce (build_transaction_from_transaction_view r) = r_nonce r"
  by (simp_all add: build_transaction_from_transaction_view_def)

lemma repopulate_known:
  assumes "repopulate_transaction_queue faults rid st d = Some (Inr ts)"
  shows "tx_id ` set ts \<subseteq> known_ids d" "t \<in> set ts \<Longrightarrow> tx_status t = st"
proof -
  show "tx_id ` set ts \<subseteq> known_ids d"
  proof (rule image_subsetI)
    fix u
    assume "u \<in> set ts"
    then obtain r where "r \<in> set (db_rows d)" "u = build_transaction_from_transaction_view r"
      using repopulate_rows [OF assms] by blast
    then show "tx_id u \<in> known_ids d" by (simp add: known_ids_def)
  qed
  show "t \<in> set ts \<Longrightarrow> tx_status t = st"
    using repopulate_rows [OF assms] by fastforce
qed

section \<open>Pairs\<close>

lemma pair_competitors_members:
  assumes "set ts \<subseteq> set all"
  shows "tx_id ` (\<Union>ct \<in> set (pair_competitors all ts processed). set (ct_members ct)) \<subseteq> tx_id ` set all"
  using assms
proof (induction ts arbitrary: processed)
  case Nil
  then show ?case by simp
next
  case (Cons t ts)
  have t: "tx_id t \<in> tx_id ` set all" using Cons.prems by simp
  note IH = Cons.IH [unfolded UN_extend_simps image_UN]
  show ?case
    using t Cons IH
    by (auto split: option.splits dest!: find_SomeD) (auto simp: new_competitive_transaction_def)
qed

section \<open>The first free nonce\<close>

lemma max_option_Some: "max_option ns = Some m \<Longrightarrow> n \<in> set ns \<Longrightarrow> n \<le> m"
proof -
  have ge: "a \<le> fold max ns a" "n \<in> set ns \<Longrightarrow> n \<le> fold max ns a" for a n :: u64 and ns
    by (induction ns arbitrary: a) (auto intro: order_trans [OF max.cobounded2] order_trans [OF max.cobounded1])
  show "max_option ns = Some m \<Longrightarrow> n \<in> set ns \<Longrightarrow> n \<le> m"
    by (cases ns) (auto simp: max_option_def ge)
qed

lemma max_option_None [simp]: "(max_option ns = None) = (ns = [])"
  by (simp add: max_option_def split: list.splits)

lemma entry_max_nonce_ge: "t \<in> set (ct_members ct) \<Longrightarrow> tx_nonce t \<le> entry_max_nonce ct"
  by (auto simp: ct_members_def entry_max_nonce_def split: option.splits)

lemma saturating_succ_gt: "n \<le> m \<Longrightarrow> n \<noteq> - 1 \<Longrightarrow> n < saturating_succ m"
proof -
  assume nm: "n \<le> m" and n: "n \<noteq> - 1"
  show "n < saturating_succ m"
  proof (cases "m = - 1")
    case True
    then show ?thesis using n by (simp add: saturating_succ_def word_order.not_eq_extremum)
  next
    case False
    then have "1 + m \<noteq> 0" by (metis add_eq_0_iff minus_equation_iff)
    then have "m < 1 + m" by (simp add: word_less_nat_alt unatSuc)
    then have "m < m + 1" by (simp add: add.commute)
    then show ?thesis using nm False by (simp add: saturating_succ_def)
  qed
qed

lemma effective_startup_nonce_ge:
  assumes "n \<in> tx_nonce ` set pending \<or> (\<exists>ct \<in> set inmempool. n \<in> tx_nonce ` set (ct_members ct))"
  shows "\<exists>m. n \<le> m \<and> saturating_succ m \<le> effective_startup_nonce onchain pending inmempool"
proof -
  let ?ns = "option_list (max_option (map tx_nonce pending)) @
             option_list (max_option (map entry_max_nonce inmempool))"
  have "\<exists>k \<in> set ?ns. n \<le> k"
    using assms
  proof
    assume "n \<in> tx_nonce ` set pending"
    then obtain t where t: "t \<in> set pending" "n = tx_nonce t" by auto
    then obtain k where k: "max_option (map tx_nonce pending) = Some k"
      by (cases "max_option (map tx_nonce pending)") auto
    have "n \<le> k" by (rule max_option_Some [OF k]) (use t in simp)
    with k show ?thesis by (auto simp: option_list_def)
  next
    assume "\<exists>ct \<in> set inmempool. n \<in> tx_nonce ` set (ct_members ct)"
    then obtain ct t where t: "ct \<in> set inmempool" "t \<in> set (ct_members ct)" "n = tx_nonce t" by auto
    then obtain k where k: "max_option (map entry_max_nonce inmempool) = Some k"
      by (cases "max_option (map entry_max_nonce inmempool)") auto
    have "entry_max_nonce ct \<le> k" by (rule max_option_Some [OF k]) (use t in simp)
    with k t entry_max_nonce_ge show ?thesis by (auto simp: option_list_def intro: order_trans)
  qed
  then obtain k where k: "k \<in> set ?ns" "n \<le> k" by blast
  then obtain m where m: "max_option ?ns = Some m" by (cases "max_option ?ns") auto
  have "k \<le> m" by (rule max_option_Some [OF m k(1)])
  with k(2) m show ?thesis
    by (intro exI [of _ m]) (auto simp: effective_startup_nonce_def Let_def)
qed

section \<open>Round trip of the pairs\<close>

text \<open>
  An entry as the handlers leave it: the original points to its competitor, the competitor to
  nobody, and the kind of competition can be told from the competitor's payload.
\<close>

definition linked :: "competitive_transaction \<Rightarrow> bool" where
  "linked ct =
     (case ct_competitive ct of
        None \<Rightarrow> tx_cancelled_by_transaction_id (ct_original ct) = None
      | Some (c, ty) \<Rightarrow>
          tx_cancelled_by_transaction_id (ct_original ct) = Some (tx_id c)
          \<and> tx_cancelled_by_transaction_id c = None \<and> ty = rehydrated_type c)"

lemma find_distinct:
  "distinct (map f xs) \<Longrightarrow> x \<in> set xs \<Longrightarrow> find (\<lambda>u. f u = f x) xs = Some x"
  by (induction xs) (auto simp: rev_image_eqI)

definition well_paired :: "competitive_transaction list \<Rightarrow> transaction list \<Rightarrow> bool" where
  "well_paired cts all \<longleftrightarrow>
     list_all linked cts \<and> distinct (map tx_id (concat (map ct_members cts)))
     \<and> set all = set (concat (map ct_members cts)) \<and> distinct (map tx_id all)"

lemma distinct_concat_inj:
  assumes "distinct (map f (concat (map g cts)))" "ct \<in> set cts" "ct' \<in> set cts"
    "x \<in> set (g ct)" "y \<in> set (g ct')" "f x = f y"
  shows "ct = ct'" "x = y"
proof -
  have ij: "inj_on f (set (concat (map g cts)))" using assms(1) by (simp add: distinct_map)
  then show xy: "x = y" using assms(2-6) by (auto dest: inj_onD)
  have "distinct (concat (map g cts))" using assms(1) by (simp add: distinct_map)
  then show "ct = ct'" using assms(2-5) xy
    by (induction cts) auto
qed

lemma well_paired_entry:
  assumes "well_paired cts all" "ct \<in> set cts" "ct' \<in> set cts"
    "x \<in> set (ct_members ct)" "y \<in> set (ct_members ct')" "tx_id x = tx_id y"
  shows "ct = ct'" "x = y"
  using assms distinct_concat_inj [of tx_id ct_members cts ct ct' x y]
  by (auto simp: well_paired_def)

lemma original_and_competitor_differ:
  assumes "well_paired cts all" "ct \<in> set cts" "ct_competitive ct = Some (c, ty)"
  shows "tx_id c \<noteq> tx_id (ct_original ct)"
proof
  assume eq: "tx_id c = tx_id (ct_original ct)"
  have "distinct (map tx_id (concat (map ct_members cts)))" using assms(1) by (simp add: well_paired_def)
  then have "distinct (map tx_id (ct_members ct))" using assms(2)
    by (induction cts) (auto simp: distinct_append)
  then show False using assms(3) eq by (simp add: ct_members_def)
qed

lemma not_competitor:
  assumes wp: "well_paired cts all" and ct: "ct \<in> set cts"
  shows "\<not> is_competitor_of_some all (ct_original ct)"
proof
  assume "is_competitor_of_some all (ct_original ct)"
  then obtain ct' u where u: "ct' \<in> set cts" "u \<in> set (ct_members ct')"
      "tx_cancelled_by_transaction_id u = Some (tx_id (ct_original ct))"
    using wp by (auto simp: is_competitor_of_some_def list_ex_iff well_paired_def)
  have l: "linked ct'" using wp u(1) by (simp add: list_all_iff well_paired_def)
  from l u(2,3) obtain c ty where c: "ct_competitive ct' = Some (c, ty)" "tx_id c = tx_id (ct_original ct)"
    by (auto simp: linked_def ct_members_def split: option.splits)
  have "c \<in> set (ct_members ct')" using c(1) by (simp add: ct_members_def)
  then have "ct = ct'"
    by (rule well_paired_entry(1) [OF wp ct u(1) ct_original_member _ c(2) [symmetric]])
  with original_and_competitor_differ [OF wp u(1) c(1)] c(2) show False by simp
qed


lemma find_competitor:
  assumes wp: "well_paired cts all" and ct: "ct \<in> set cts" and c: "ct_competitive ct = Some (c, ty)"
  shows "find (\<lambda>u. tx_id u = tx_id c) all = Some c"
proof (rule find_distinct)
  show "distinct (map tx_id all)" using wp by (simp add: well_paired_def)
  show "c \<in> set all" using wp ct c by (force simp: well_paired_def ct_members_def)
qed

lemma competitor_is_competitor:
  assumes wp: "well_paired cts all" and ct: "ct \<in> set cts" and c: "ct_competitive ct = Some (c, ty)"
  shows "is_competitor_of_some all c" "tx_cancelled_by_transaction_id c = None"
    "tx_cancelled_by_transaction_id (ct_original ct) = Some (tx_id c)" "ty = rehydrated_type c"
proof -
  have l: "linked ct" using wp ct by (simp add: well_paired_def list_all_iff)
  then show "tx_cancelled_by_transaction_id c = None" "ty = rehydrated_type c"
    and o: "tx_cancelled_by_transaction_id (ct_original ct) = Some (tx_id c)"
    using c by (simp_all add: linked_def)
  have "ct_original ct \<in> set all" using wp ct by (auto simp: well_paired_def intro!: bexI [of _ ct])
  with o show "is_competitor_of_some all c" by (auto simp: is_competitor_of_some_def list_ex_iff)
qed

text \<open>The step on a row that is the original of an entry, and on one that is a competitor.\<close>

lemma pair_step_original:
  assumes wp: "well_paired cts all" and ct: "ct \<in> set cts"
    and new: "tx_id (ct_original ct) \<notin> set processed"
  shows "pair_competitors all (ct_original ct # ts) processed =
    ct # pair_competitors all ts (map tx_id (rev (ct_members ct)) @ processed)"
proof (cases "ct_competitive ct")
  case None
  moreover have "linked ct" using wp ct by (simp add: well_paired_def list_all_iff)
  moreover have "new_competitive_transaction (ct_original ct) = ct"
    using None by (simp add: new_competitive_transaction_def)
  ultimately show ?thesis
    using new not_competitor [OF wp ct] by (simp add: linked_def ct_members_def)
next
  case (Some p)
  obtain c ty where p: "p = (c, ty)" by (cases p)
  have c: "ct_competitive ct = Some (c, ty)" using Some p by simp
  have "add_competitor c (rehydrated_type c) (new_competitive_transaction (ct_original ct)) = ct"
    using c competitor_is_competitor(3,4) [OF wp ct c]
    by (cases ct, cases "ct_original ct") (simp add: new_competitive_transaction_def add_competitor_def)
  then show ?thesis
    using new c find_competitor [OF wp ct c] competitor_is_competitor(3) [OF wp ct c]
    by (simp add: ct_members_def)
qed

lemma pair_step_competitor:
  assumes wp: "well_paired cts all" and ct: "ct \<in> set cts" and c: "ct_competitive ct = Some (c, ty)"
  shows "pair_competitors all (c # ts) processed = pair_competitors all ts processed"
  using competitor_is_competitor [OF wp ct c] by simp

lemma pair_competitors_suffix:
  assumes wp: "well_paired cts all"
  shows "set ts \<subseteq> set all \<Longrightarrow> distinct (map tx_id ts) \<Longrightarrow>
    (\<forall>ct \<in> set cts. ct_original ct \<in> set ts \<longrightarrow> tx_id (ct_original ct) \<notin> set processed) \<Longrightarrow>
    set (pair_competitors all ts processed) = {ct \<in> set cts. ct_original ct \<in> set ts}
    \<and> map ct_original (pair_competitors all ts processed) =
        filter (\<lambda>t. t \<in> ct_original ` set cts) ts"
proof (induction ts arbitrary: processed)
  case Nil
  then show ?case by simp
next
  case (Cons t ts)
  have "t \<in> set all" using Cons.prems by simp
  then obtain ct where ct: "ct \<in> set cts" "t \<in> set (ct_members ct)"
    using wp by (auto simp: well_paired_def)
  have uniq: "ct' = ct" if "ct' \<in> set cts" "ct_original ct' = t" for ct'
    using well_paired_entry(1) [OF wp that(1) ct(1) ct_original_member ct(2)] that(2) by simp
  show ?case
  proof (cases "t = ct_original ct")
    case True
    have new: "tx_id (ct_original ct) \<notin> set processed" using Cons.prems(3) ct(1) True by simp
    let ?p = "map tx_id (rev (ct_members ct)) @ processed"
    have "\<forall>ct' \<in> set cts. ct_original ct' \<in> set ts \<longrightarrow> tx_id (ct_original ct') \<notin> set ?p"
    proof (intro ballI impI)
      fix ct'
      assume ct': "ct' \<in> set cts" "ct_original ct' \<in> set ts"
      have ne: "tx_id (ct_original ct') \<noteq> tx_id t" using Cons.prems(2) ct'(2) by (auto simp: rev_image_eqI)
      have "tx_id (ct_original ct') \<noteq> tx_id u" if "u \<in> set (ct_members ct)" for u
        using well_paired_entry(1) [OF wp ct'(1) ct(1) ct_original_member that] ne True by blast
      then show "tx_id (ct_original ct') \<notin> set ?p" using Cons.prems(3) ct' by auto
    qed
    note IH = Cons.IH [OF _ _ this]
    show ?thesis
      using IH Cons.prems(1,2) uniq ct(1) unfolding True pair_step_original [OF wp ct(1) new] by auto
  next
    case False
    then obtain ty where c: "ct_competitive ct = Some (t, ty)"
      using ct(2) by (cases "ct_competitive ct") (auto simp: ct_members_def)
    have no: "t \<notin> ct_original ` set cts" using uniq False by auto
    have "set (pair_competitors all ts processed) = {ct \<in> set cts. ct_original ct \<in> set ts}
      \<and> map ct_original (pair_competitors all ts processed) = filter (\<lambda>t. t \<in> ct_original ` set cts) ts"
      by (rule Cons.IH) (use Cons.prems in auto)
    then show ?thesis using no unfolding pair_step_competitor [OF wp ct(1) c] by auto
  qed
qed

end
