(* ===== verification/Boot_Laws.thy ===== *)
theory Boot_Laws
  imports Startup_Laws
begin

text \<open>
  The container that startup builds is well formed: the repairs keep the tables and their audit
  trail, and every reloaded transaction has its row.
\<close>

section \<open>Repairs\<close>

definition db_step :: "db \<Rightarrow> db \<Rightarrow> bool" where
  "db_step d d' = ((db_ok d \<longrightarrow> db_ok d') \<and> audit_grows d d' \<and> known_ids d \<subseteq> known_ids d')"

lemma db_step_refl [simp]: "db_step d d"
  by (simp add: db_step_def)

lemma db_step_trans: "db_step a b \<Longrightarrow> db_step b c \<Longrightarrow> db_step a c"
  by (auto simp: db_step_def intro: audit_grows_trans)

lemma run_stmt_db_step:
  "run_stmt ans f d = (d', r) \<Longrightarrow> lawful f \<Longrightarrow> keeps_ids f \<Longrightarrow> db_step d d'"
  using run_stmt_lawful [of f d ans] run_stmt_keeps_ids [of f d ans] by (simp add: db_step_def)

lemma db_step_world: "db_step (w_db w) d \<Longrightarrow> world_step w (w\<lparr> w_db := d \<rparr>)"
  by (auto simp: db_step_def world_step_def intro: evidenced_grows)

lemma keeps_ids_repair_absent_one: "keeps_ids (repair_absent_one rid n reason now c)"
  by (auto simp: keeps_ids_def repair_absent_one_def Let_def commit_Inr known_ids_def update_where_ids)

lemma repair_absent_loop_ids:
  "repair_absent_loop rid n reason now cs acc d = Inr (d', a) \<Longrightarrow> known_ids d \<subseteq> known_ids d'"
proof (induction cs arbitrary: acc d)
  case Nil
  then show ?case by simp
next
  case (Cons c cs)
  then obtain d1 hit where one: "repair_absent_one rid n reason now c d = Inr (d1, hit)"
    and rest: "repair_absent_loop rid n reason now cs (acc @ hit) d1 = Inr (d', a)"
    by (auto simp: and_then_Inr)
  have "known_ids d \<subseteq> known_ids d1"
    using keeps_ids_repair_absent_one one unfolding keeps_ids_def by blast
  also have "\<dots> \<subseteq> known_ids d'" by (rule Cons.IH [OF rest])
  finally show ?case .
qed

lemma keeps_ids_repair_absent [intro]:
  "keeps_ids (repair_absent_pending_transactions_for_relayer rid n cs reason now)"
  by (auto simp: keeps_ids_def repair_absent_pending_transactions_for_relayer_def and_then_Inr
      split: if_splits dest: repair_absent_loop_ids)

lemma reconcile_candidate_step:
  "reconcile_candidate env r n t d = (d', res) \<Longrightarrow> db_step d d'"
  unfolding reconcile_candidate_def
  by (auto split: sum.splits option.splits if_splits prod.splits bool.splits
      dest!: run_stmt_db_step [OF _ lawful_recover keeps_ids_recover])

lemma reconcile_candidates_step:
  "reconcile_candidates env r n ts absent d = (d', res) \<Longrightarrow> db_step d d'"
proof (induction ts arbitrary: absent d)
  case Nil
  then show ?case by simp
next
  case (Cons t ts)
  obtain d1 c where c: "reconcile_candidate env r n t d = (d1, c)" by force
  from reconcile_candidate_step [OF c] Cons show ?case
    by (auto simp: c split: sum.splits intro: db_step_trans)
qed

lemma repair_recorded_attempts_step:
  assumes "repair_recorded_attempts_for_relayer env r d = Some (d', res)"
  shows "db_step d d'"
proof -
  have A: "db_step d d'"
    if "reconcile_candidates env r n ts [] d = (d1, x)"
      "run_stmt (re_absent env) (repair_absent_pending_transactions_for_relayer (rl_id r) n cs reason now)
          d1 = (d', y)" for n ts d1 x cs reason now y
    using db_step_trans [OF reconcile_candidates_step [OF that(1)]
        run_stmt_db_step [OF that(2) lawful_repair_absent keeps_ids_repair_absent]] .
  show ?thesis
    using assms A reconcile_candidates_step unfolding repair_recorded_attempts_for_relayer_def
    by (auto split: sum.splits option.splits prod.splits)
qed

section \<open>One relayer\<close>

definition setup_ok :: "db \<Rightarrow> relayer_setup \<Rightarrow> bool" where
  "setup_ok d rs = (tx_id ` set (rs_pending rs) \<subseteq> known_ids d
     \<and> tx_id ` (\<Union>ct \<in> set (rs_inmempool rs). set (ct_members ct)) \<subseteq> known_ids d
     \<and> distinct (map fst (rs_mined rs))
     \<and> list_all (\<lambda>(i, t). tx_id t = i \<and> tx_status t = MINED) (rs_mined rs))"

lemma setup_ok_grows: "known_ids d \<subseteq> known_ids d' \<Longrightarrow> setup_ok d rs \<Longrightarrow> setup_ok d' rs"
  unfolding setup_ok_def by (meson order_trans)

lemma fold_update_mined:
  assumes "\<forall>t \<in> set ts. tx_status t = MINED" "distinct (map fst al)"
    "list_all (\<lambda>(i, t). tx_id t = i \<and> tx_status t = MINED) al"
  shows "distinct (map fst (fold (\<lambda>t al. AList.update (tx_id t) t al) ts al))
    \<and> list_all (\<lambda>(i, t). tx_id t = i \<and> tx_status t = MINED)
        (fold (\<lambda>t al. AList.update (tx_id t) t al) ts al)"
  using assms
proof (induction ts arbitrary: al)
  case Nil
  then show ?case by simp
next
  case (Cons t ts)
  have "list_all (\<lambda>(i, t). tx_id t = i \<and> tx_status t = MINED) (AList.update (tx_id t) t al)"
    using Cons.prems(1,3) set_alist_update_subset [of "tx_id t" t al] by (auto simp: list_all_iff)
  then show ?case
    using Cons.IH [of "AList.update (tx_id t) t al"] Cons.prems by (simp add: distinct_update)
qed

lemma repopulate_competitive_known:
  assumes "repopulate_competitive_transaction_queue faults rid d = Some (Inr cts)"
  shows "tx_id ` (\<Union>ct \<in> set cts. set (ct_members ct)) \<subseteq> known_ids d"
proof -
  from assms obtain ts where ts: "repopulate_transaction_queue faults rid INMEMPOOL d = Some (Inr ts)"
    and cts: "cts = pair_competitors ts ts []"
    by (auto simp: repopulate_competitive_transaction_queue_def and_then_Inr)
  show ?thesis
    using pair_competitors_members [of ts ts "[]"] repopulate_known(1) [OF ts] cts by simp
qed

lemma relayer_setup_ok:
  assumes "repopulate_transaction_queue f1 rid PENDING d = Some (Inr pending)"
    and "repopulate_competitive_transaction_queue f2 rid d = Some (Inr inmempool)"
    and "repopulate_transaction_queue f3 rid MINED d = Some (Inr mined)"
  shows "setup_ok d (relayer_setup_of configs p r pending inmempool mined)"
  using repopulate_known [OF assms(1)] repopulate_competitive_known [OF assms(2)]
    fold_update_mined [of mined "[]"] repopulate_known(2) [OF assms(3)]
  by (simp add: setup_ok_def relayer_setup_of_def Let_def)

lemma startup_relayer_step:
  assumes "startup_relayer configs env r d = Some (d', res)"
  shows "db_step d d'" "res = Inr (Some rs) \<Longrightarrow> setup_ok d' rs"
proof -
  have "db_step d d' \<and> (\<forall>rs. res = Inr (Some rs) \<longrightarrow> setup_ok d' rs)"
  proof (cases "su_provider env")
    case None
    then show ?thesis using assms by (auto simp: startup_relayer_def)
  next
    case (Some p)
    obtain d1 x where x: "run_stmt (su_poisoned env)
        (repair_poisoned_pending_transactions_for_relayer (rl_id r)) d = (d1, x)" by force
    note s1 = run_stmt_db_step [OF x lawful_repair_poisoned keeps_ids_repair_poisoned]
    show ?thesis
    proof (cases "\<exists>e. x = Inl e")
      case True
      then show ?thesis using assms s1 by (auto simp: startup_relayer_def Some x)
    next
      case False
      then obtain rp where rp: "x = Inr rp" by (cases x) auto
      then obtain d2 y where y: "repair_recorded_attempts_for_relayer (su_repair env) r d1 = Some (d2, y)"
        using assms by (cases "repair_recorded_attempts_for_relayer (su_repair env) r d1")
          (auto simp: startup_relayer_def Some x)
      note s2 = db_step_trans [OF s1 repair_recorded_attempts_step [OF y]]
      show ?thesis
        using assms s2 unfolding startup_relayer_def
        by (auto simp: Some x rp y relayer_setup_ok split: option.splits sum.splits)
    qed
  qed
  then show "db_step d d'" "res = Inr (Some rs) \<Longrightarrow> setup_ok d' rs" by simp_all
qed

lemma startup_relayers_step:
  assumes "startup_relayers configs envs rs acc d = Some (d', res)" "list_all (setup_ok d) acc"
  shows "db_step d d' \<and> (\<forall>setups. res = Inr setups \<longrightarrow> list_all (setup_ok d') setups)"
  using assms
proof (induction rs arbitrary: acc d)
  case Nil
  then show ?case by auto
next
  case (Cons r rs)
  then obtain d1 x where x: "startup_relayer configs (envs (rl_id r)) r d = Some (d1, x)"
    by (cases "startup_relayer configs (envs (rl_id r)) r d") auto
  note s1 = startup_relayer_step [OF x]
  show ?case
  proof (cases x)
    case (Inl e)
    then show ?thesis using Cons.prems x s1 by auto
  next
    case (Inr st)
    have rest: "startup_relayers configs envs rs (acc @ option_list st) d1 = Some (d', res)"
      using Cons.prems(1) x Inr by simp
    have "list_all (setup_ok d1) acc"
      using Cons.prems(2) s1(1) setup_ok_grows by (auto simp: list_all_iff db_step_def)
    then have "list_all (setup_ok d1) (acc @ option_list st)"
      using s1(2) Inr by (cases st) (auto simp: option_list_def)
    from Cons.IH [OF rest this] s1(1) show ?thesis by (auto intro: db_step_trans)
  qed
qed

section \<open>The container\<close>

lemma queue_ok_of_setup: "setup_ok d rs \<Longrightarrow> queue_ok d (queue_of_setup safes rs n)"
  unfolding queue_ok_def queue_of_setup_def
  by (auto simp: pending_sorted_def setup_ok_def mined_ok_def new_transactions_queue_def queue_ids_def
      queue_members_def sort_pending_transactions_def)

lemma new_transactions_queues_ok:
  assumes "new_transactions_queues onchain safes setups s = Inr s'" "sys_ok s"
    "list_all (setup_ok (s_db s)) setups"
  shows "sys_ok s'"
  using assms
proof (induction setups arbitrary: s)
  case Nil
  then show ?case by simp
next
  case (Cons rs rest)
  from Cons.prems(1) obtain n where n: "onchain (rl_id (rs_relayer rs)) = Inr n"
    by (auto simp: and_then_Inr)
  let ?s = "(put_queue (rl_id (rs_relayer rs)) (queue_of_setup safes rs n) s)
              \<lparr> s_block_times := (s_block_times s)
                  (rl_id (rs_relayer rs) \<mapsto> ep_blocks_every (rs_evm_provider rs)) \<rparr>"
  have "sys_ok (put_queue (rl_id (rs_relayer rs)) (queue_of_setup safes rs n) s)"
    using Cons.prems by (intro sys_ok_put_queue) (simp_all add: queue_ok_of_setup)
  then have "sys_ok ?s" by (subst sys_ok_cong [of ?s]) simp_all
  then show ?case
    using Cons.IH [of ?s] Cons.prems n by (simp add: and_then_Inr)
qed

lemma startup_sys_ok:
  assumes "startup_transactions_queues configs envs onchain safes webhooks rs w = Some (w', Inr s)"
    and "protected_world w" "db_ok (w_db w)"
  shows "sys_ok s"
proof -
  from assms(1) obtain d setups where st: "startup_relayers configs envs rs [] (w_db w) = Some (d, Inr setups)"
    and new: "new_transactions_queues onchain safes setups (empty_sys (w\<lparr> w_db := d \<rparr>) webhooks) = Inr s"
    by (auto simp: startup_transactions_queues_def Let_def split: option.splits prod.splits sum.splits)
  from startup_relayers_step [OF st] have d: "db_step (w_db w) d" and ok: "list_all (setup_ok d) setups"
    by simp_all
  have "sys_ok (empty_sys (w\<lparr> w_db := d \<rparr>) webhooks)"
    using db_step_world [OF d] assms(2,3) by (auto simp: sys_ok_def empty_sys_def world_step_def)
  then show ?thesis
    by (rule new_transactions_queues_ok [OF new]) (use ok in \<open>simp add: empty_sys_def\<close>)
qed

lemma startup_world_step:
  assumes "startup_transactions_queues configs envs onchain safes webhooks rs w = Some (w', r)"
  shows "world_step w w'"
proof -
  obtain d x where st: "startup_relayers configs envs rs [] (w_db w) = Some (d, x)" and w': "w' = w\<lparr> w_db := d \<rparr>"
    using assms by (auto simp: startup_transactions_queues_def Let_def split: option.splits prod.splits sum.splits)
  then show ?thesis using startup_relayers_step [OF st] db_step_world by simp
qed

lemma add_new_relayer_ok: "sys_ok s \<Longrightarrow> sys_ok (fst (add_new_relayer onchain safes rs s))"
  by (auto simp: add_new_relayer_def queue_ok_def pending_sorted_def mined_ok_def
      new_transactions_queue_def queue_ids_def queue_members_def sort_pending_transactions_def
      split: sum.splits intro!: sys_ok_put_queue)

end
