(* ===== verification/System.thy ===== *)
theory System
  imports Boot_Laws
begin

text \<open>
  The running system: the requests of clients, the three processing loops, the settings of a
  relayer, shutdown, and restarts that rebuild the queues from the database. A step is one handler
  that runs to its end with the queue locked; a crash inside a handler is a run in which its later
  statements and broadcasts fail, followed by a restart.
\<close>

section \<open>Steps\<close>

definition with_queue ::
  "relayer_id \<Rightarrow> (transactions_queue \<Rightarrow> transactions_queue) \<Rightarrow> sys \<Rightarrow> sys" where
  "with_queue rid f s =
     (case get_transactions_queue s rid of Some q \<Rightarrow> put_queue rid (f q) s | None \<Rightarrow> s)"

text \<open>The settings the relayer API forwards to a running queue (relayer/api).\<close>

datatype setting =
    PauseRelayer bool
  | Eip1559Status bool
  | RelayerName string
  | MaxGasPrice "u128 option"

fun apply_setting :: "setting \<Rightarrow> transactions_queue \<Rightarrow> transactions_queue" where
  "apply_setting (PauseRelayer b) q = set_is_paused b q"
| "apply_setting (Eip1559Status enabled) q = set_is_legacy_transactions (\<not> enabled) q"
| "apply_setting (RelayerName n) q = set_name n q"
| "apply_setting (MaxGasPrice m) q = set_max_gas_price m q"

inductive step :: "crypto \<Rightarrow> admission_params \<Rightarrow> text_params \<Rightarrow> sys \<Rightarrow> sys \<Rightarrow> bool"
  for cy ap tp where
  Add: "step cy ap tp s (fst (add_transaction cy ap add_env rid tts s))"
| Cancelled: "step cy ap tp s (fst (cancel_transaction cy tp edit t s))"
| Replaced: "step cy ap tp s (fst (replace_transaction cy tp edit t rq s))"
| Pending: "step cy ap tp s (fst (process_single_pending cy pending rid s))"
| Inmempool: "step cy ap tp s (fst (process_single_inmempool cy inmempool rid s))"
| Mined: "step cy ap tp s (fst (process_single_mined mined rid s))"
| NewRelayer: "step cy ap tp s (fst (add_new_relayer onchain safes rs s))"
| DeleteRelayer: "step cy ap tp s (delete_queue rid s)"
| Setting: "step cy ap tp s (with_queue rid (apply_setting c) s)"
| Read: "step cy ap tp s (fst (get_transaction_cached fault i s))"
| Shutdown: "step cy ap tp s (s\<lparr> s_shutting_down := True \<rparr>)"
| Restart: "startup_transactions_queues configs envs onchain safes webhooks rs (s_world s) = Some (w, Inr s')
    \<Longrightarrow> step cy ap tp s s'"
| FailedRestart: "startup_transactions_queues configs envs onchain safes webhooks rs (s_world s) = Some (w, Inl e)
    \<Longrightarrow> step cy ap tp s (empty_sys w webhooks)"

inductive_cases stepE: "step cy ap tp s s'"

definition empty_world :: world where
  "empty_world = \<lparr> w_db = \<lparr> db_rows = [], db_audit = [] \<rparr>, w_broadcasts = [] \<rparr>"

inductive reachable :: "crypto \<Rightarrow> admission_params \<Rightarrow> text_params \<Rightarrow> sys \<Rightarrow> bool"
  for cy ap tp where
  Init: "reachable cy ap tp (empty_sys empty_world webhooks)"
| Step: "reachable cy ap tp s \<Longrightarrow> step cy ap tp s s' \<Longrightarrow> reachable cy ap tp s'"

section \<open>The invariant\<close>

lemma apply_setting_frame [simp]:
  "q_pending (apply_setting c q) = q_pending q" "q_inmempool (apply_setting c q) = q_inmempool q"
  "q_mined (apply_setting c q) = q_mined q"
  by (cases c; simp add: set_is_paused_def set_is_legacy_transactions_def set_name_def set_max_gas_price_def)+

lemma queue_ok_setting: "queue_ok d q \<Longrightarrow> queue_ok d (apply_setting c q)"
  by (simp add: queue_ok_def pending_sorted_def mined_ok_def queue_ids_def queue_members_def)

lemma setting_ok: "sys_ok s \<Longrightarrow> sys_ok (with_queue rid (apply_setting c) s)"
  by (simp add: with_queue_def get_transactions_queue_def sys_ok_put_queue queue_ok_setting sys_okD
      split: option.split)

lemma delete_queue_ok: "sys_ok s \<Longrightarrow> sys_ok (delete_queue rid s)"
  by (auto simp: sys_ok_def delete_queue_def)

lemma read_ok: "sys_ok s \<Longrightarrow> sys_ok (fst (get_transaction_cached fault i s))"
  by (auto simp: sys_ok_def get_transaction_cached_def split: option.splits sum.splits)

lemma empty_sys_ok: "protected_world w \<Longrightarrow> db_ok (w_db w) \<Longrightarrow> sys_ok (empty_sys w webhooks)"
  by (simp add: sys_ok_def empty_sys_def)

lemma step_ok: "step cy ap tp s s' \<Longrightarrow> sys_ok s \<Longrightarrow> sys_ok s'"
proof (induction rule: step.induct)
  case (Restart configs envs onchain safes webhooks rs s w s')
  then show ?case using startup_sys_ok [OF Restart(1)] by (simp add: sys_ok_def)
next
  case (FailedRestart configs envs onchain safes webhooks rs s w e)
  then show ?case
    using startup_world_step [OF FailedRestart(1)]
    by (intro empty_sys_ok) (simp_all add: sys_ok_def world_step_def)
next
  case (Shutdown s)
  then show ?case by (simp add: sys_ok_def)
qed (simp_all add: add_transaction_ok cancel_transaction_ok replace_transaction_ok
    process_single_pending_ok process_single_inmempool_ok process_single_mined_ok add_new_relayer_ok
    delete_queue_ok setting_ok read_ok)

lemma reachable_ok: "reachable cy ap tp s \<Longrightarrow> sys_ok s"
proof (induction rule: reachable.induct)
  case (Init webhooks)
  show ?case by (rule empty_sys_ok) (simp_all add: empty_world_def db_ok_def rows_ok_def cancelled_by_ok_def external_keys_def)
next
  case (Step s s')
  then show ?case using step_ok by blast
qed

end
