(* ===== verification/Conflict_Laws.thy ===== *)
theory Conflict_Laws
  imports System
begin

text \<open>
  What a nonce conflict of the pending loop may do: the interface of the store a new nonce is
  written to before memory changes, the interface of the existence check, and the only path on
  which a step of the pending loop moves the nonce counter of the relayer.
\<close>

section \<open>The nonce store\<close>

text \<open>
  \<open>NonceUpdateStore\<close>: \<open>stored i n s\<close> says that a restart from \<open>s\<close> gives transaction \<open>i\<close> the nonce \<open>n\<close>.
\<close>

locale nonce_store =
  fixes persist :: "transaction_id \<Rightarrow> transaction_nonce \<Rightarrow> 's \<Rightarrow> 's \<times> (db_error + unit)"
    and stored :: "transaction_id \<Rightarrow> transaction_nonce \<Rightarrow> 's \<Rightarrow> bool"
  assumes persisted: "persist i n s = (s', Inr u) \<Longrightarrow> stored i n s'"
begin

lemma persist_then_advance_cases:
  assumes "persist_then_advance_transaction_nonce persist nm t n s = (s', nm', t', r)"
  shows "(\<exists>e. r = Inl e) \<and> nm' = nm \<and> t' = t \<or>
    r = Inr () \<and> stored (tx_id t) n s' \<and> nm' = advance_after_persisted_reservation n nm
    \<and> t' = t\<lparr> tx_nonce := n \<rparr>"
  using assms persisted
  by (auto simp: persist_then_advance_transaction_nonce_def split: prod.splits sum.splits)

lemma memory_changes_only_if_stored:
  assumes "persist_then_advance_transaction_nonce persist nm t n s = (s', nm', t', r)"
    and "nm' \<noteq> nm \<or> tx_nonce t' \<noteq> tx_nonce t"
  shows "r = Inr () \<and> stored (tx_id t) n s' \<and> tx_nonce t' = n"
  using persist_then_advance_cases [OF assms(1)] assms(2) by auto

end

definition nonce_stored :: "transaction_id \<Rightarrow> transaction_nonce \<Rightarrow> sys \<Rightarrow> bool" where
  "nonce_stored i n s = list_all (\<lambda>r. r_id r = i \<longrightarrow> r_nonce r = n) (db_rows (s_db s))"

lemma persist_nonce_stores:
  assumes "persist_nonce ans i n s = (s', Inr u)"
  shows "nonce_stored i n s'"
proof -
  have "transaction_update_nonce i n (s_db s) = Inr (s_db s', u)"
    by (rule db_call_Inr [OF assms [unfolded persist_nonce_def]])
  then have "db_rows (s_db s') = update_where (\<lambda>r. r_id r = i) (\<lambda>r. r\<lparr> r_nonce := n \<rparr>) (db_rows (s_db s))"
    unfolding transaction_update_nonce_def update_and_audit_def Let_def commit_Inr by simp
  moreover have "list_all (\<lambda>r. r_id r = i \<longrightarrow> r_nonce r = n)
      (update_where (\<lambda>r. r_id r = i) (\<lambda>r. r\<lparr> r_nonce := n \<rparr>) rs)" for rs :: "row list"
    by (induction rs) (simp_all add: update_where_def)
  ultimately show ?thesis by (simp add: nonce_stored_def)
qed

interpretation row_nonce: nonce_store "persist_nonce ans" nonce_stored for ans
  by unfold_locales (rule persist_nonce_stores)

section \<open>The existence check\<close>

text \<open>\<open>find_landed_attempt\<close> is \<open>Ok(None)\<close> exactly when every attempt was asked for and is absent.\<close>

lemma find_landed_from_Some: "find_landed_from exists as (Some b) \<noteq> Inr None"
  by (induction as) (auto simp: and_then_Inr)

lemma find_landed_absent:
  "(find_landed_attempt exists as = Inr None) = (\<forall>a \<in> set as. exists (ra_hash a) = Inr False)"
proof -
  have "(find_landed_from exists as None = Inr None) = (\<forall>a \<in> set as. exists (ra_hash a) = Inr False)"
  proof (induction as)
    case Nil
    then show ?case by simp
  next
    case (Cons a as)
    then show ?case
      by (auto simp: and_then_Inr find_landed_from_Some split: if_splits)
  qed
  then show ?thesis by (simp add: find_landed_attempt_def)
qed

lemma find_landed_exists:
  assumes "find_landed_attempt exists as = Inr (Some a)"
  shows "a \<in> set as" "exists (ra_hash a) = Inr True"
proof -
  have "a \<in> set as \<and> exists (ra_hash a) = Inr True \<or> l = Some a"
    if "find_landed_from exists as l = Inr (Some a)" for l
    using that
  proof (induction as arbitrary: l)
    case Nil
    then show ?case by simp
  next
    case (Cons x as)
    from Cons.prems obtain b where b: "exists (ra_hash x) = Inr b"
      and rest: "find_landed_from exists as (if b \<and> l = None then Some x else l) = Inr (Some a)"
      by (auto simp: and_then_Inr)
    from Cons.IH [OF rest] b show ?case by (auto split: if_splits)
  qed
  from this [of None] assms show "a \<in> set as" "exists (ra_hash a) = Inr True"
    by (simp_all add: find_landed_attempt_def)
qed

section \<open>The counter moves on one path only\<close>

text \<open>\<open>same_counter rid q s\<close>: the queue of \<open>rid\<close> in \<open>s\<close> has the nonce counter of \<open>q\<close>.\<close>

definition same_counter :: "relayer_id \<Rightarrow> transactions_queue \<Rightarrow> sys \<Rightarrow> bool" where
  "same_counter rid q s = (map_option q_nonce_manager (s_queues s rid) = Some (q_nonce_manager q))"

lemma same_counter_simps [simp]:
  "same_counter rid q (fire evs s) = same_counter rid q s"
  "same_counter rid q (invalidate_transaction_cache i s) = same_counter rid q s"
  "same_counter rid q (set_world w s) = same_counter rid q s"
  "same_counter rid q (put_queue rid q' s) = (q_nonce_manager q' = q_nonce_manager q)"
  by (simp_all add: same_counter_def)

lemma same_counter_db_call:
  "db_call ans f s = (s', r) \<Longrightarrow> same_counter rid q s' = same_counter rid q s"
  using db_call_queues [of ans f s] by (simp add: same_counter_def)

lemma nonce_manager_frames [simp]:
  "q_nonce_manager (fst (update_pending_transaction t q)) = q_nonce_manager q"
  "move_pending_to_inmempool now t sent q = Inr q' \<Longrightarrow> q_nonce_manager q' = q_nonce_manager q"
  by (auto simp: update_pending_transaction_def move_pending_to_inmempool_Inr)

lemma close_out_counter:
  "same_counter rid q s \<Longrightarrow>
     same_counter rid q (fst (close_out_pending_transaction_as_noop env rid q t reason s))"
  by (auto simp: close_out_pending_transaction_as_noop_def Let_def same_counter_db_call
      split: prod.splits sum.splits)

lemma landed_counter:
  "same_counter rid q s \<Longrightarrow> same_counter rid q (fst (landed_attempt env rid q t a s))"
  unfolding landed_attempt_def resolve_pending_transaction_mined_def recover_landed_pending_def
  by (auto simp: Let_def same_counter_db_call split: prod.splits sum.splits option.splits bool.splits)

lemma pending_sent_counter:
  "same_counter rid q s \<Longrightarrow> same_counter rid q (fst (pending_sent env rid q t sent s))"
  unfolding pending_sent_def by (auto split: sum.splits)

text \<open>The conditions under which a pending transaction gets another nonce.\<close>

definition all_attempts_absent ::
  "pending_env \<Rightarrow> transaction_id \<Rightarrow> db \<Rightarrow> bool" where
  "all_attempts_absent env i d =
     (let attempts = get_recorded_transaction_attempts i d
      in attempts \<noteq> [] \<and> list_all (\<lambda>a. pe_exists env (ra_hash a) = Inr False) attempts)"

lemma conflict_counter:
  assumes "same_counter rid q s"
    and moved: "\<not> same_counter rid q (fst (pending_nonce_conflict env rid q t msg s))"
  shows "all_attempts_absent env (tx_id t) (s_db s)
    \<and> pending_nonce_conflict env rid q t msg s = reassign_pending_nonce env rid q t msg s"
proof -
  let ?as = "get_recorded_transaction_attempts (tx_id t) (s_db s)"
  have as: "pe_attempts_fault env = None" "?as \<noteq> []"
    using assms by (auto simp: pending_nonce_conflict_def run_query_def split: option.splits list.splits)
  then have eq: "pending_nonce_conflict env rid q t msg s =
      (case find_landed_attempt (pe_exists env) ?as of
         Inl _ \<Rightarrow> pending_other SendRetrying (Some 100) s
       | Inr (Some b) \<Rightarrow> landed_attempt env rid q t b s
       | Inr None \<Rightarrow> reassign_pending_nonce env rid q t msg s)"
    by (cases ?as) (simp_all add: pending_nonce_conflict_def run_query_def)
  with moved assms(1) have none: "find_landed_attempt (pe_exists env) ?as = Inr None"
    by (auto simp: landed_counter split: sum.splits option.splits)
  have "all_attempts_absent env (tx_id t) (s_db s)"
    using as(2) none by (simp add: all_attempts_absent_def Let_def list_all_iff find_landed_absent)
  with none eq show ?thesis by simp
qed

lemma error_counter:
  assumes same: "same_counter rid q s" and moved: "\<not> same_counter rid q (fst (pending_error env rid q t e s))"
  shows "\<exists>msg. e = TransactionSendError msg \<and> classify_send_error (to_lowercase msg) = NonceConflict
    \<and> all_attempts_absent env (tx_id t) (s_db s)
    \<and> pending_error env rid q t e s = reassign_pending_nonce env rid q t msg s"
proof (cases e)
  case (TransactionSendError msg)
  then have eq: "pending_error env rid q t e s = pending_send_error env rid q t msg s"
    by (simp add: pending_error_def)
  with moved same have c: "classify_send_error (to_lowercase msg) = NonceConflict"
    by (cases "classify_send_error (to_lowercase msg)") (simp_all add: pending_send_error_def close_out_counter)
  then have "pending_error env rid q t e s = pending_nonce_conflict env rid q t msg s"
    by (simp add: eq pending_send_error_def)
  with conflict_counter [OF same, of env t msg] moved c TransactionSendError show ?thesis by auto
next
  case (TransactionEstimateGasError msg)
  with moved same show ?thesis
    by (cases "classify_send_error (to_lowercase msg)")
       (simp_all add: pending_error_def pending_estimate_error_def close_out_counter)
qed (use moved same in \<open>simp_all add: pending_error_def\<close>)

lemma pending_step_counter:
  assumes q: "s_queues s rid = Some q"
    and moved: "\<not> same_counter rid q (fst (process_single_pending cy env rid s))"
  obtains t0 t w t' msg where "get_next_pending_transaction q = Some t0"
    "t = (if has_expired (pe_now_expiry env) t0 then transaction_to_noop q t0 else t0)"
    "send_transaction cy (pe_send env) q t (s_world s) = (w, t', Inl (TransactionSendError msg))"
    "classify_send_error (to_lowercase msg) = NonceConflict"
    "all_attempts_absent env (tx_id t') (w_db w)"
    "process_single_pending cy env rid s = reassign_pending_nonce env rid q t' msg (set_world w s)"
proof -
  have same: "same_counter rid q s" by (simp add: same_counter_def q)
  from moved obtain t0 where t0: "get_next_pending_transaction q = Some t0"
    and go: "\<not> is_paused q" "\<not> s_shutting_down s"
    by (auto simp: process_single_pending_def get_transactions_queue_def q same split: if_splits option.splits)
  let ?t = "if has_expired (pe_now_expiry env) t0 then transaction_to_noop q t0 else t0"
  obtain w t' r where sd: "send_transaction cy (pe_send env) q ?t (s_world s) = (w, t', r)"
    by (metis prod_cases3)
  have eq: "process_single_pending cy env rid s =
      (case r of Inr sent \<Rightarrow> pending_sent env rid q t' sent (set_world w s)
       | Inl e \<Rightarrow> pending_error env rid q t' e (set_world w s))"
    by (simp add: process_single_pending_def get_transactions_queue_def q t0 go Let_def sd split: sum.split)
  with moved same obtain e where e: "r = Inl e"
    by (cases r) (auto simp: pending_sent_counter)
  have "\<not> same_counter rid q (fst (pending_error env rid q t' e (set_world w s)))"
    using moved eq e by simp
  from error_counter [OF _ this] same
  obtain msg where "e = TransactionSendError msg"
    "classify_send_error (to_lowercase msg) = NonceConflict"
    "all_attempts_absent env (tx_id t') (w_db w)"
    "pending_error env rid q t' e (set_world w s) = reassign_pending_nonce env rid q t' msg (set_world w s)"
    by auto
  then show ?thesis using that [OF t0 refl, of w t' msg] sd e eq by simp
qed

end
