(* ===== verification/Examples.thy ===== *)
theory Examples
  imports Conflict_Laws
begin

text \<open>
  A concrete relayer, its environments and a run of the system, for the witnesses: admission of a
  request, its send, a bump, and what the chain answers.
\<close>

section \<open>A relayer\<close>

definition ex_price :: "u128 \<Rightarrow> gas_price_result" where
  "ex_price n = \<lparr> gp_max_priority_fee = n, gp_max_fee = 10 * n, gp_min_wait_time_estimate = None,
                  gp_max_wait_time_estimate = None \<rparr>"

definition ex_cache :: gas_oracle_cache where
  "ex_cache = [1 \<mapsto> \<lparr> ge_slow = ex_price 100, ge_medium = ex_price 200, ge_fast = ex_price 300,
                      ge_super_fast = ex_price 400 \<rparr>]"

definition ex_reads :: gas_reads where
  "ex_reads = \<lparr> gr_base = ex_cache, gr_next = ex_cache, gr_super = ex_cache \<rparr>"

definition ex_blob_reads :: blob_reads where
  "ex_blob_reads = \<lparr> br_base = Map.empty, br_next = Map.empty, br_super = Map.empty \<rparr>"

definition ex_relayer :: relayer where
  "ex_relayer = \<lparr> rl_id = 7, rl_name = ''main'', rl_chain_id = 1, rl_cloned_from_chain_id = None,
     rl_address = 42, rl_wallet_index = 0, rl_max_gas_price = None, rl_paused = False,
     rl_eip_1559_enabled = True, rl_created_at = 0, rl_is_private_key = False \<rparr>"

definition ex_provider :: evm_provider where
  "ex_provider = \<lparr> ep_chain_id = 1, ep_blocks_every = 12000, ep_confirmations = 12,
     ep_supports_blobs = True \<rparr>"

definition ex_setup :: relayer_setup where
  "ex_setup = relayer_setup_of [] ex_provider ex_relayer [] [] []"

definition ex_tts :: transaction_to_send where
  "ex_tts = \<lparr> tts_id = 1, tts_speed = FAST, tts_to = 99, tts_value = 5, tts_data = [1, 2],
     tts_blobs = None, tts_external_id = Some ''order-1'' \<rparr>"

section \<open>Environments\<close>

definition ex_crypto :: crypto where
  "ex_crypto = \<lparr> cy_sidecar = (\<lambda>bs. Inr (map (\<lambda>b. of_nat (length b)) bs)),
     cy_safe_hash = (\<lambda>a t c. ''00''), cy_encode_safe = (\<lambda>t sig. st_data t @ sig),
     cy_show_safe_error = (\<lambda>e. ''safe'') \<rparr>"

definition ex_ap :: admission_params where
  "ex_ap = \<lparr> ap_sha256 = (\<lambda>bs. bs), ap_show_error = (\<lambda>e. ''estimation failed'') \<rparr>"

definition ex_tp :: text_params where
  "ex_tp = \<lparr> tp_show_id = (\<lambda>i. show_digits (unat i)), tp_hex_decode = (\<lambda>s. Inl ''not hex'') \<rparr>"

definition ex_add_env :: add_transaction_env where
  "ex_add_env = \<lparr> ae_find_fault = None, ae_expiration = Some 3600, ae_now_expires = 0,
     ae_onchain_nonce = Inr 5, ae_now_queued = 0, ae_blob = ex_blob_reads, ae_gas = ex_reads,
     ae_estimation_nonce = Inr 5, ae_estimate = (\<lambda>r. Inr 30000), ae_block_limit = Inr 30000000,
     ae_balance = Inr 1000000000000, ae_failed_answer = DbOk, ae_now_failed = 0,
     ae_failed_fault = None, ae_save_answer = DbOk, ae_save_fault = None \<rparr>"

text \<open>\<open>h\<close> is the hash of what is signed, \<open>answer\<close> what the node says to the broadcast.\<close>

definition ex_send_env :: "transaction_hash \<Rightarrow> (string + transaction_hash) \<Rightarrow> instant \<Rightarrow> send_env" where
  "ex_send_env h answer now = \<lparr> se_gas = ex_reads, se_blob_temp = ex_blob_reads,
     se_blob_final = ex_blob_reads, se_safe_nonce = Inr 0,
     se_sign_text = (\<lambda>m. Inl ''no signer''), se_estimate = (\<lambda>r. Inr 30000),
     se_block_limit = Inr 30000000, se_now_expiry = now, se_now_signed = now,
     se_sign = (\<lambda>r. Inr h), se_sign_again = (\<lambda>r. Inr (h + 1)), se_persist = DbOk,
     se_now_persist = now, se_now_sent = now, se_broadcast = answer, se_mark = DbOk,
     se_now_mark = now \<rparr>"

definition ex_pending_env ::
  "send_env \<Rightarrow> (transaction_hash \<Rightarrow> rpc_error + bool) \<Rightarrow> (rpc_error + transaction_nonce) \<Rightarrow> pending_env" where
  "ex_pending_env sd ex n = \<lparr> pe_now_expiry = se_now_expiry sd, pe_send = sd, pe_update = DbOk,
     pe_now_update = 10, pe_attempts_fault = None, pe_exists = ex, pe_receipt = (\<lambda>h. Inr None),
     pe_sent = DbOk, pe_now_db = 10, pe_recover = DbOk, pe_onchain_nonce = n,
     pe_persist_nonce = DbOk, pe_now_move = 10, pe_now_webhook = 10 \<rparr>"

definition ex_edit_env :: "transaction_id \<Rightarrow> send_env \<Rightarrow> edit_env" where
  "ex_edit_env i sd = \<lparr> ee_update = DbOk, ee_now_db = 10, ee_fresh_id = i, ee_expiration = None,
     ee_now_expires = 10, ee_now_queued = 10, ee_blob = ex_blob_reads, ee_send = sd,
     ee_onchain_nonce = Inr 5, ee_now_sent = 10 \<rparr>"

definition ex_receipt :: "transaction_hash \<Rightarrow> bool \<Rightarrow> receipt" where
  "ex_receipt h st = \<lparr> rc_status = st, rc_transaction_hash = h, rc_gas_used = 21000,
     rc_block_hash = Some 77, rc_block_number = Some 12 \<rparr>"

definition ex_inmempool_env ::
  "(transaction_hash \<Rightarrow> rpc_error + receipt option) \<Rightarrow> instant \<Rightarrow> send_env \<Rightarrow>
   (transaction_hash \<Rightarrow> rpc_error + receipt option) \<Rightarrow> inmempool_env" where
  "ex_inmempool_env rc now sd race = \<lparr> ie_receipt = rc, ie_now_expiry = se_now_expiry sd,
     ie_now_mined = now, ie_winner = DbOk, ie_now_winner = now, ie_loser = DbOk,
     ie_now_loser = now, ie_now_bump = now, ie_gas_cap = ex_cache, ie_blob_cap = Map.empty,
     ie_send = sd, ie_receipt_race = race, ie_onchain_nonce = Inr 6, ie_persist_nonce = DbOk,
     ie_now_gas = now, ie_now_noop = now \<rparr>"

section \<open>A queue and a transaction\<close>

definition ex_queue :: transactions_queue where
  "ex_queue = queue_of_setup [] ex_setup 5"

definition ex_transaction :: transaction where
  "ex_transaction = queued_transaction 7 ex_tts ex_queue 5 0 1000000"

section \<open>A run\<close>

text \<open>A relayer with one admitted request; then the request in the mempool under the hash 1000.\<close>

definition ex_start :: sys where
  "ex_start = fst (add_new_relayer (Inr 5) [] ex_setup (empty_sys empty_world True))"

definition ex_queued :: sys where
  "ex_queued = fst (add_transaction ex_crypto ex_ap ex_add_env 7 ex_tts ex_start)"

definition ex_ok_pending :: pending_env where
  "ex_ok_pending = ex_pending_env (ex_send_env 1000 (Inr 1000) 20) (\<lambda>h. Inr False) (Inr 5)"

definition ex_sent :: sys where
  "ex_sent = fst (process_single_pending ex_crypto ex_ok_pending 7 ex_queued)"

lemmas ex_defs =
  ex_price_def ex_cache_def ex_reads_def ex_blob_reads_def ex_relayer_def ex_provider_def
  ex_setup_def ex_tts_def ex_crypto_def ex_ap_def ex_add_env_def ex_send_env_def
  ex_pending_env_def ex_start_def ex_queued_def ex_ok_pending_def ex_sent_def

lemma ex_reachable:
  "reachable ex_crypto ex_ap ex_tp ex_start"
  "reachable ex_crypto ex_ap ex_tp ex_queued"
  "reachable ex_crypto ex_ap ex_tp ex_sent"
proof -
  have init: "reachable ex_crypto ex_ap ex_tp (empty_sys empty_world True)" by (rule Init)
  show 1: "reachable ex_crypto ex_ap ex_tp ex_start"
    unfolding ex_start_def by (rule reachable.Step [OF init step.NewRelayer])
  show 2: "reachable ex_crypto ex_ap ex_tp ex_queued"
    unfolding ex_queued_def by (rule reachable.Step [OF 1 step.Add])
  show "reachable ex_crypto ex_ap ex_tp ex_sent"
    unfolding ex_sent_def by (rule reachable.Step [OF 2 step.Pending])
qed

lemma ex_sent_broadcast: "map sg_hash (w_broadcasts (s_world ex_sent)) = [1000]"
  by code_simp

end
