(* ===== verification/Send_Properties.thy ===== *)
theory Send_Properties
  imports Examples
begin

text \<open>
  Properties of one send: prices, bumps and estimates, the classification of node errors, and what
  \<open>send_transaction\<close> leaves behind in the database, on the network and in memory.
\<close>

section \<open>Sends\<close>

lemma persist_and_broadcast_noop:
  "persist_and_broadcast p m b now rid t sent stx legacy w = (w', t', r) \<Longrightarrow> tx_is_noop t' = tx_is_noop t"
  by (auto simp: persist_and_broadcast_def Let_def record_send_def split: prod.splits sum.splits)

text \<open>C4: A successful \<open>send_transaction\<close> hands exactly one signed transaction to the network; its
  hash is the one returned and kept in memory, the database has it recorded as an attempt of this
  transaction, the signed request carries the transaction's own nonce and chain, and the price is
  within the relayer's limit. The transaction in memory becomes INMEMPOOL.\<close>

theorem send_transaction_ok:
  assumes "send_transaction cy env q t w = (w', t', Inr sent)"
  shows "\<exists>stx. w_broadcasts w' = w_broadcasts w @ [stx] \<and> sg_hash stx = ts_hash sent
    \<and> tf_nonce (typed_fields_of (sg_request stx)) = tx_nonce t
    \<and> tf_chain_id (typed_fields_of (sg_request stx)) = tx_chain_id t
    \<and> has_attempt (tx_id t) (ts_hash sent) (w_db w')
    \<and> within_gas_price_bounds (q_relayer q) (ts_sent_with_gas sent)
    \<and> ts_id sent = tx_id t \<and> tx_id t' = tx_id t \<and> tx_nonce t' = tx_nonce t
    \<and> tx_status t' = INMEMPOOL \<and> tx_known_transaction_hash t' = Some (ts_hash sent)"
proof -
  have slot: "same_slot t t'" by (rule send_transaction_keeps(1) [OF assms])
  from assms show ?thesis
  proof (rule send_transaction_Inr)
    fix stx
    assume "w_broadcasts w' = w_broadcasts w @ [stx]" "sg_hash stx = ts_hash sent"
      "request_fits t (sg_request stx)" "has_attempt (tx_id t) (ts_hash sent) (w_db w')"
      "ts_id sent = tx_id t" "tx_known_transaction_hash t' = Some (ts_hash sent)"
      "tx_status t' = INMEMPOOL" "within_gas_price_bounds (q_relayer q) (ts_sent_with_gas sent)"
    with slot show ?thesis by (intro exI [of _ stx]) (simp add: request_fits_def same_slot_def)
  qed
qed

theorem send_transaction_ok_witness:
  "\<exists>w' t' sent. send_transaction ex_crypto (ex_send_env 1000 (Inr 1000) 20) ex_queue ex_transaction empty_world
     = (w', t', Inr sent) \<and> map sg_hash (w_broadcasts w') = [1000] \<and> tx_status t' = INMEMPOOL"
proof -
  obtain w' t' res where r: "send_transaction ex_crypto (ex_send_env 1000 (Inr 1000) 20) ex_queue
      ex_transaction empty_world = (w', t', res)" by (metis prod_cases3)
  have "case send_transaction ex_crypto (ex_send_env 1000 (Inr 1000) 20) ex_queue ex_transaction
      empty_world of (_, _, res) \<Rightarrow> map_sum id ts_hash res = Inr 1000" by code_simp
  with r obtain sent where sent: "res = Inr sent" "ts_hash sent = 1000" by (cases res) auto
  have "w_broadcasts empty_world = []" by (simp add: empty_world_def)
  with send_transaction_ok [OF r [unfolded sent(1)]] sent show ?thesis
    using r by (intro exI [of _ w'] exI [of _ t'] exI [of _ sent]) auto
qed

text \<open>C2: Whatever fails, a \<open>send_transaction\<close> puts at most one transaction on the network, under the
  nonce of the transaction, and only after its hash was recorded as an attempt; when the broadcast
  happened, memory exposes the same hash. Recorded attempts are never lost.\<close>

theorem send_transaction_at_most_one:
  assumes "send_transaction cy env q t w = (w', t', res)"
  shows "(w_broadcasts w' = w_broadcasts w \<and> (\<exists>e. res = Inl e) \<or>
    (\<exists>stx. w_broadcasts w' = w_broadcasts w @ [stx]
       \<and> tf_nonce (typed_fields_of (sg_request stx)) = tx_nonce t
       \<and> has_attempt (tx_id t) (sg_hash stx) (w_db w')
       \<and> tx_known_transaction_hash t' = Some (sg_hash stx)))
    \<and> (\<forall>i h. has_attempt i h (w_db w) \<longrightarrow> has_attempt i h (w_db w'))"
proof (intro conjI allI impI)
  show "w_broadcasts w' = w_broadcasts w \<and> (\<exists>e. res = Inl e) \<or>
    (\<exists>stx. w_broadcasts w' = w_broadcasts w @ [stx]
       \<and> tf_nonce (typed_fields_of (sg_request stx)) = tx_nonce t
       \<and> has_attempt (tx_id t) (sg_hash stx) (w_db w')
       \<and> tx_known_transaction_hash t' = Some (sg_hash stx))"
  proof (cases res)
    case (Inl e)
    then show ?thesis using send_transaction_network [OF assms] by (auto simp: request_fits_def)
  next
    case (Inr sent)
    obtain stx where "w_broadcasts w' = w_broadcasts w @ [stx]" "sg_hash stx = ts_hash sent"
      "request_fits t (sg_request stx)" "has_attempt (tx_id t) (ts_hash sent) (w_db w')"
      "tx_known_transaction_hash t' = Some (ts_hash sent)"
      by (rule send_transaction_Inr [OF assms [unfolded Inr]])
    then show ?thesis by (auto simp: request_fits_def)
  qed
  show "has_attempt i h (w_db w')" if "has_attempt i h (w_db w)" for i h
    using that by (rule send_transaction_keeps(2) [OF assms])
qed

theorem send_transaction_at_most_one_witness:
  "\<exists>w' t' e. send_transaction ex_crypto (ex_send_env 1000 (Inl ''timeout'') 20) ex_queue ex_transaction
     empty_world = (w', t', Inl e) \<and> length (w_broadcasts w') = 1
     \<and> tx_known_transaction_hash t' = Some 1000"
proof -
  obtain w' t' res where r: "send_transaction ex_crypto (ex_send_env 1000 (Inl ''timeout'') 20) ex_queue
      ex_transaction empty_world = (w', t', res)" by (metis prod_cases3)
  have "case send_transaction ex_crypto (ex_send_env 1000 (Inl ''timeout'') 20) ex_queue ex_transaction
      empty_world of (w', t', res) \<Rightarrow> \<not> is_ok res \<and> map sg_hash (w_broadcasts w') = [1000]" by code_simp
  with r obtain e where e: "res = Inl e" "map sg_hash (w_broadcasts w') = [1000]"
    by (cases res) (auto simp: is_ok_def)
  have "w_broadcasts empty_world = []" by (simp add: empty_world_def)
  with send_transaction_at_most_one [OF r] e show ?thesis
    using r by (intro exI [of _ w'] exI [of _ t'] exI [of _ e]) auto
qed

text \<open>C5: A send of a transaction that expired before it was signed never puts the caller's payload on
  the network: what is broadcast is the relayer's transfer of nothing to itself, and the
  transaction is a no-op from then on. (A blob transaction that was broadcast before is excluded:
  only another blob transaction can replace it.)\<close>

theorem expired_payload_never_sent:
  assumes "send_transaction cy env q t w = (w', t', res)"
    and "w_broadcasts w' = w_broadcasts w @ [stx]"
    and "\<not> tx_is_noop t" "tx_sent_with_gas t = None \<or> \<not> is_blob_transaction t"
    and "has_expired (se_now_signed env) t"
  shows "tx_is_noop t' \<and> tf_to (typed_fields_of (sg_request stx)) = rl_address (q_relayer q)
    \<and> tf_value (typed_fields_of (sg_request stx)) = 0 \<and> tf_input (typed_fields_of (sg_request stx)) = []
    \<and> tf_nonce (typed_fields_of (sg_request stx)) = tx_nonce t"
  using assms(1)
proof (cases rule: send_transaction_cases)
  case (1 e)
  then show ?thesis using assms(2) by simp
next
  case (2 t1 sent stx' r)
  note noop = sign_send_expired [OF 2(1) assms(3-5)]
  have "w_broadcasts w' = w_broadcasts w \<or> w_broadcasts w' = w_broadcasts w @ [stx']"
    using store.persist_and_broadcast_outcome(1) [OF 2(2)] by auto
  then have "stx = stx'" using assms(2) by auto
  moreover have "tx_is_noop t' = tx_is_noop t1"
    by (rule persist_and_broadcast_noop [OF 2(2)])
  ultimately show ?thesis
    using noop sign_send_Inr(3) [OF 2(1)] by (simp add: noop_request_to_def request_fits_def)
qed

theorem expired_payload_never_sent_witness:
  "\<exists>w' t' res stx. send_transaction ex_crypto (ex_send_env 1000 (Inr 1000) 2000000) ex_queue ex_transaction
     empty_world = (w', t', res) \<and> w_broadcasts w' = [stx] \<and> sg_hash stx = 1000 \<and> tx_is_noop t'
     \<and> tf_value (typed_fields_of (sg_request stx)) = 0 \<and> tx_value ex_transaction = 5"
proof -
  let ?env = "ex_send_env 1000 (Inr 1000) 2000000"
  obtain w' t' res where r: "send_transaction ex_crypto ?env ex_queue ex_transaction empty_world
      = (w', t', res)" by (metis prod_cases3)
  have "case send_transaction ex_crypto ?env ex_queue ex_transaction empty_world of
      (w', _, _) \<Rightarrow> map sg_hash (w_broadcasts w') = [1000]" by code_simp
  with r obtain stx where stx: "w_broadcasts w' = [stx]" "sg_hash stx = 1000" by auto
  have "\<not> tx_is_noop ex_transaction" "tx_sent_with_gas ex_transaction = None"
    "has_expired (se_now_signed ?env) ex_transaction" "tx_value ex_transaction = 5" by code_simp+
  with expired_payload_never_sent [OF r, of stx] stx show ?thesis
    using r by (intro exI [of _ w'] exI [of _ t'] exI [of _ res] exI [of _ stx])
      (simp add: empty_world_def)
qed

section \<open>Prices\<close>

text \<open>C6: The price of a resend is never inconsistent and never silently stays put: the priority fee
  does not exceed the fee, each fee stays under the cap of the SUPER price when there is one, and
  the fee is strictly above the one sent before unless it was cut to that cap (provided the 5\%
  bump of the old price fits 128 bits).\<close>

theorem resend_price_bounds:
  assumes "compute_gas_price_for_transaction reads chain multiplier speed (Some sent) = Inr g"
    and "bump_fits (gp_max_fee sent)" "bump_fits (gp_max_priority_fee sent)"
  shows "gp_max_priority_fee g \<le> gp_max_fee g
    \<and> (case get_gas_price_for_speed (gr_super reads) chain SUPER of
         None \<Rightarrow> gp_max_fee g > gp_max_fee sent
       | Some s \<Rightarrow>
           (let cap = gp_max_fee s * ucast multiplier;
                cap_priority = gp_max_priority_fee s * ucast multiplier
            in (cap > 0 \<longrightarrow> gp_max_fee g \<le> cap)
               \<and> (cap_priority > 0 \<longrightarrow> gp_max_priority_fee g \<le> cap_priority)
               \<and> (gp_max_fee g > gp_max_fee sent \<or> cap > 0 \<and> gp_max_fee g = cap)))"
proof (cases "get_gas_price_for_speed (gr_super reads) chain SUPER")
  case None
  with assms show ?thesis
    by (auto elim!: compute_gas_price_resend simp: price_simps bump_strict not_le)
next
  case (Some s)
  from assms(1) obtain g0 where g: "g = clamp_priority_fee (cap_gas_price (Some s) multiplier
      (bump_if_not_above sent g0))"
    using Some by (elim compute_gas_price_resend) simp
  let ?b = "bump_if_not_above sent g0"
  have b: "gp_max_fee sent < gp_max_fee ?b" using bump_if_not_above_strict(1) [OF assms(2,3)] .
  let ?cap = "gp_max_fee s * ucast multiplier"
  have fee: "gp_max_fee g = (if ?cap > 0 then min ?cap (gp_max_fee ?b) else gp_max_fee ?b)"
    by (simp add: g cap_gas_price_fee Let_def)
  have new: "gp_max_fee g > gp_max_fee sent \<or> ?cap > 0 \<and> gp_max_fee g = ?cap"
    using b by (cases "?cap \<le> gp_max_fee ?b") (auto simp: fee min_def)
  have "gp_max_priority_fee g \<le> gp_max_fee g" by (simp add: g clamp_priority_fee_priority)
  moreover have "?cap > 0 \<longrightarrow> gp_max_fee g \<le> ?cap" by (simp add: fee)
  moreover have "0 < gp_max_priority_fee s * ucast multiplier \<longrightarrow>
      gp_max_priority_fee g \<le> gp_max_priority_fee s * ucast multiplier"
    by (simp add: g clamp_priority_fee_priority cap_gas_price_priority Let_def min_le_iff_disj)
  ultimately show ?thesis using new by (simp add: Some Let_def)
qed

theorem resend_price_bounds_witness:
  "compute_gas_price_for_transaction ex_reads 1 2 SUPER (Some (ex_price 700)) = Inr (ex_price 700\<lparr> gp_max_fee := 7350, gp_max_priority_fee := 735 \<rparr>)
   \<and> (7350 :: u128) > gp_max_fee (ex_price 700)"
proof -
  have c: "compute_gas_price_for_transaction ex_reads 1 2 SUPER (Some (ex_price 700))
      = Inr (ex_price 700\<lparr> gp_max_fee := 7350, gp_max_priority_fee := 735 \<rparr>)" by code_simp
  have f: "bump_fits (gp_max_fee (ex_price 700))" "bump_fits (gp_max_priority_fee (ex_price 700))"
    by (simp_all add: bump_fits_def ex_price_def)
  have s: "get_gas_price_for_speed (gr_super ex_reads) 1 SUPER = Some (ex_price 400)" by code_simp
  show ?thesis
    using resend_price_bounds [OF c f] c by (simp add: s ex_price_def)
qed

text \<open>The blob fee of a resend obeys the same rule: strictly above the previous blob price or equal
  to the positive cap, never above the cap, and the total is the price of one blob's gas whenever the
  price was changed from the oracle's.\<close>

theorem resend_blob_price_bounds:
  assumes "compute_blob_gas_price_for_transaction reads chain multiplier speed (Some sent) = Inr b"
    and "bump_fits (bg_blob_gas_price sent)"
  shows "case get_blob_gas_price_for_speed (br_super reads) chain SUPER of
      None \<Rightarrow> bg_blob_gas_price b > bg_blob_gas_price sent
    | Some s \<Rightarrow>
        (let cap = bg_blob_gas_price s * ucast multiplier
         in (cap > 0 \<longrightarrow> bg_blob_gas_price b \<le> cap)
            \<and> (bg_blob_gas_price b > bg_blob_gas_price sent \<or> cap > 0 \<and> bg_blob_gas_price b = cap))"
proof -
  from assms(1) obtain b0 where b: "b = cap_blob_gas_price
      (get_blob_gas_price_for_speed (br_super reads) chain SUPER) multiplier (bump_blob_if_not_above sent b0)"
    by (auto simp: compute_blob_gas_price_for_transaction_def split: option.splits)
  have "bg_blob_gas_price sent < bg_blob_gas_price (bump_blob_if_not_above sent b0)"
    using bump_strict [OF assms(2)] by (simp add: bump_blob_if_not_above_def not_le)
  then show ?thesis
    unfolding b by (auto simp: cap_blob_gas_price_def Let_def split: option.split)
qed

definition ex_blob_cache :: blob_gas_oracle_cache where
  "ex_blob_cache = [1 \<mapsto> \<lparr> be_super_fast = \<lparr> bg_blob_gas_price = 50, bg_total_fee_for_blob = 6553600 \<rparr>,
     be_fast = \<lparr> bg_blob_gas_price = 40, bg_total_fee_for_blob = 5242880 \<rparr>,
     be_medium = \<lparr> bg_blob_gas_price = 30, bg_total_fee_for_blob = 3932160 \<rparr>,
     be_slow = \<lparr> bg_blob_gas_price = 20, bg_total_fee_for_blob = 2621440 \<rparr>,
     be_base_fee_per_blob_gas = 10, be_timestamp = 0 \<rparr>]"

theorem resend_blob_price_bounds_witness:
  "compute_blob_gas_price_for_transaction \<lparr> br_base = ex_blob_cache, br_next = ex_blob_cache,
       br_super = ex_blob_cache \<rparr> 1 4 MEDIUM
       (Some \<lparr> bg_blob_gas_price = 100, bg_total_fee_for_blob = 13107200 \<rparr>)
     = Inr \<lparr> bg_blob_gas_price = 105, bg_total_fee_for_blob = 13762560 \<rparr>
   \<and> (105 :: u128) \<le> 50 * 4"
proof -
  let ?reads = "\<lparr> br_base = ex_blob_cache, br_next = ex_blob_cache, br_super = ex_blob_cache \<rparr>"
  let ?sent = "\<lparr> bg_blob_gas_price = 100, bg_total_fee_for_blob = 13107200 \<rparr>"
  have c: "compute_blob_gas_price_for_transaction ?reads 1 4 MEDIUM (Some ?sent)
      = Inr \<lparr> bg_blob_gas_price = 105, bg_total_fee_for_blob = 13762560 \<rparr>" by code_simp
  have f: "bump_fits (bg_blob_gas_price ?sent)" by (simp add: bump_fits_def)
  have s: "get_blob_gas_price_for_speed (br_super ?reads) 1 SUPER
      = Some \<lparr> bg_blob_gas_price = 50, bg_total_fee_for_blob = 6553600 \<rparr>" by code_simp
  show ?thesis using resend_blob_price_bounds [OF c f] c by (simp add: s)
qed

text \<open>The price of a competitor for the same nonce is at least a fifth and at least one gwei above
  the old one, exactly so unless it saturates at the largest 128-bit number, and never wraps.\<close>

theorem competitor_bump_exact:
  "unat (bump_u128_for_same_nonce_competitor v) =
     min (unat v + max (unat v div 5) 1000000000) (2 ^ 128 - 1)
   \<and> (v = - 1 \<or> v < bump_u128_for_same_nonce_competitor v)"
proof (intro conjI)
  show eq: "unat (bump_u128_for_same_nonce_competitor v) =
     min (unat v + max (unat v div 5) 1000000000) (2 ^ 128 - 1)" by (rule unat_competitor_bump)
  show "v = - 1 \<or> v < bump_u128_for_same_nonce_competitor v"
  proof (cases "v = - 1")
    case False
    then have "v < - 1" by (simp add: word_order.not_eq_extremum)
    then have "unat v < 2 ^ 128 - 1" by (simp add: word_less_nat_alt unat_max_u128)
    then show ?thesis by (simp add: word_less_nat_alt eq less_max_iff_disj)
  qed simp
qed

text \<open>A gas limit is estimated with a 20\% buffer that never exceeds the block gas limit and never
  drops below the node's estimate; an estimate above the block limit is an error; a no-op gets the
  estimate as it is.\<close>

theorem estimate_gas_bounds:
  assumes "queue_estimate_gas (Inr est) (Inr lim) False = Inr g" "unat est * 12 < 2 ^ 128"
  shows "est \<le> g \<and> g \<le> lim \<and> unat g = min (unat est * 12 div 10) (unat lim)"
proof -
  from assms(1) have le: "est \<le> lim" and g: "g = min (est * 12 div 10) lim"
    by (auto simp: queue_estimate_gas_def estimate_gas_def Inr_and_then split: if_splits)
  have "unat (est * 12 div 10) = unat est * 12 div 10"
    using assms(2) by (simp add: unat_div unat_word_ariths)
  then have u: "unat g = min (unat est * 12 div 10) (unat lim)"
    unfolding g by (simp add: min_def word_le_nat_alt)
  moreover have "unat est \<le> unat est * 12 div 10" by simp
  ultimately show ?thesis using le by (simp add: word_le_nat_alt)
qed

theorem estimate_gas_bounds_witness:
  "queue_estimate_gas (Inr 21000) (Inr 24000) False = Inr 24000 \<and> (21000 :: u128) \<le> 24000"
proof -
  have "queue_estimate_gas (Inr 21000) (Inr 24000) False = Inr 24000" by code_simp
  with estimate_gas_bounds [OF this] show ?thesis by simp
qed

end
