(* ===== verification/Handler_Properties.thy ===== *)
theory Handler_Properties
  imports Send_Properties
begin

text \<open>
  Properties of the handlers: when the pending loop may give a transaction another nonce, what a
  close-out leaves behind, admission, cancellation and replacement, bumps and confirmations.
\<close>

section \<open>Nonce conflicts of the pending loop\<close>

lemma attempts_absent_hashes:
  assumes "all_attempts_absent env i d" "has_attempt i h d"
  shows "pe_exists env h = Inr False"
proof -
  have "h \<in> ra_hash ` set (get_recorded_transaction_attempts i d)"
    using assms(2) recorded_attempts_complete by blast
  then show ?thesis
    using assms(1) by (auto simp: all_attempts_absent_def Let_def list_all_iff)
qed

lemma working_transaction_id:
  "tx_id (if has_expired now t0 then transaction_to_noop q t0 else t0) = tx_id t0"
  by simp

text \<open>C1: The pending loop moves the nonce counter of a relayer only for a send that the node rejected
  as a nonce conflict, and only after it asked the chain for every attempt that was ever recorded
  for that transaction (the one just rejected included) and each of them was absent. An attempt
  that may still execute therefore keeps its nonce.\<close>

theorem nonce_moves_only_when_attempts_absent:
  assumes "s_queues s rid = Some q" "process_single_pending cy env rid s = (s', r)"
    and "map_option q_nonce_manager (s_queues s' rid) \<noteq> Some (q_nonce_manager q)"
  shows "\<exists>t t' w msg. get_next_pending_transaction q = Some t
    \<and> send_transaction cy (pe_send env) q
        (if has_expired (pe_now_expiry env) t then transaction_to_noop q t else t) (s_world s)
        = (w, t', Inl (TransactionSendError msg))
    \<and> classify_send_error (to_lowercase msg) = NonceConflict
    \<and> get_recorded_transaction_attempts (tx_id t) (w_db w) \<noteq> []
    \<and> (\<forall>h. has_attempt (tx_id t) h (w_db w) \<longrightarrow> pe_exists env h = Inr False)"
proof -
  have moved: "\<not> same_counter rid q (fst (process_single_pending cy env rid s))"
    using assms(2,3) by (simp add: same_counter_def)
  obtain t0 t w t' msg where t0: "get_next_pending_transaction q = Some t0"
    and t: "t = (if has_expired (pe_now_expiry env) t0 then transaction_to_noop q t0 else t0)"
    and sd: "send_transaction cy (pe_send env) q t (s_world s) = (w, t', Inl (TransactionSendError msg))"
    and c: "classify_send_error (to_lowercase msg) = NonceConflict"
    and a: "all_attempts_absent env (tx_id t') (w_db w)"
    by (rule pending_step_counter [OF assms(1) moved])
  have "tx_id t' = tx_id t" using send_transaction_keeps(1) [OF sd] by (simp add: same_slot_def)
  then have i: "tx_id t' = tx_id t0" using t by simp
  have "get_recorded_transaction_attempts (tx_id t0) (w_db w) \<noteq> []"
    using a i by (simp add: all_attempts_absent_def Let_def)
  moreover have "\<forall>h. has_attempt (tx_id t0) h (w_db w) \<longrightarrow> pe_exists env h = Inr False"
    using attempts_absent_hashes [OF a] i by simp
  ultimately show ?thesis using t0 sd c unfolding t by blast
qed

definition ex_conflict_env :: pending_env where
  "ex_conflict_env = ex_pending_env (ex_send_env 1000 (Inl ''Nonce too low'') 20) (\<lambda>h. Inr False) (Inr 9)"

lemma ex_conflict_counters:
  "map_option q_nonce_manager (s_queues ex_queued 7) = Some \<lparr> nm_nonce = 6 \<rparr>"
  "map_option q_nonce_manager (s_queues (fst (process_single_pending ex_crypto ex_conflict_env 7 ex_queued)) 7)
     = Some \<lparr> nm_nonce = 10 \<rparr>"
  by code_simp+

theorem nonce_moves_only_when_attempts_absent_witness:
  "\<exists>q t (w :: world). s_queues ex_queued 7 = Some q \<and> get_next_pending_transaction q = Some t
    \<and> get_recorded_transaction_attempts (tx_id t) (w_db w) \<noteq> []"
proof -
  obtain q where q: "s_queues ex_queued 7 = Some q" "q_nonce_manager q = \<lparr> nm_nonce = 6 \<rparr>"
    using ex_conflict_counters(1) by auto
  obtain s' r where p: "process_single_pending ex_crypto ex_conflict_env 7 ex_queued = (s', r)" by force
  have "map_option q_nonce_manager (s_queues s' 7) \<noteq> Some (q_nonce_manager q)"
    using ex_conflict_counters(2) p q(2) by auto
  from nonce_moves_only_when_attempts_absent [OF q(1) p this] q(1) show ?thesis by auto
qed

text \<open>C3: When the pending loop does move the nonce counter, the new nonce is already stored: every row
  of the transaction carries it, so a restart at any later point reloads the transaction with it,
  the transaction in memory carries the same one, it is not below the nonce the counter had
  reached, and the counter is past it.\<close>

theorem moved_nonce_is_durable:
  assumes "s_queues s rid = Some q" "process_single_pending cy env rid s = (s', r)"
    and "s_queues s' rid = Some q'" "q_nonce_manager q' \<noteq> q_nonce_manager q"
  shows "\<exists>t n. get_next_pending_transaction q = Some t \<and> nm_nonce (q_nonce_manager q) \<le> n
    \<and> (\<forall>row \<in> set (db_rows (s_db s')). r_id row = tx_id t \<longrightarrow> r_nonce row = n)
    \<and> q_nonce_manager q' = advance_after_persisted_reservation n (q_nonce_manager q)
    \<and> q_pending q' = sort_key tx_nonce
        (update_first (\<lambda>u. tx_id u = tx_id t) (\<lambda>u. u\<lparr> tx_nonce := n \<rparr>) (q_pending q))"
proof -
  have moved: "\<not> same_counter rid q (fst (process_single_pending cy env rid s))"
    using assms(2-4) by (simp add: same_counter_def)
  obtain t0 t w t' msg where t0: "get_next_pending_transaction q = Some t0"
    and t: "t = (if has_expired (pe_now_expiry env) t0 then transaction_to_noop q t0 else t0)"
    and sd: "send_transaction cy (pe_send env) q t (s_world s) = (w, t', Inl (TransactionSendError msg))"
    and re: "process_single_pending cy env rid s = reassign_pending_nonce env rid q t' msg (set_world w s)"
    by (rule pending_step_counter [OF assms(1) moved])
  have "tx_id t' = tx_id t" using send_transaction_keeps(1) [OF sd] by (simp add: same_slot_def)
  then have i: "tx_id t' = tx_id t0" using t by simp
  have run: "reassign_pending_nonce env rid q t' msg (set_world w s) = (s', r)" using re assms(2) by simp
  have same: "same_counter rid q (set_world w s)" using assms(1) by (simp add: same_counter_def)
  obtain n where n: "recover_nonce_synchronization (pe_onchain_nonce env) q = Inr n"
    using run assms(3,4) same
    by (cases "recover_nonce_synchronization (pe_onchain_nonce env) q")
       (auto simp: reassign_pending_nonce_def pending_failed_def same_counter_def)
  obtain s1 nm t1 r1 where p: "persist_then_advance_transaction_nonce
      (persist_nonce (pe_persist_nonce env)) (q_nonce_manager q) t' n (set_world w s) = (s1, nm, t1, r1)"
    by (metis prod_cases4)
  have q1: "same_counter rid q s1"
    using persist_then_advance_sys(1) [OF p] same by (simp add: same_counter_def)
  have r1: "r1 = Inr ()" and stored: "nonce_stored (tx_id t') n s1"
    and nm: "nm = advance_after_persisted_reservation n (q_nonce_manager q)"
    using row_nonce.persist_then_advance_cases [OF p] run assms(3,4) q1
    by (auto simp: reassign_pending_nonce_def n p pending_failed_def same_counter_def)
  have s': "s' = put_queue rid (update_pending_transaction_nonce (tx_id t') n
      (q\<lparr> q_nonce_manager := nm \<rparr>)) s1"
    using run by (simp add: reassign_pending_nonce_def n p r1 pending_other_def)
  have mem: "list_ex (\<lambda>u. tx_id u = tx_id t0) (q_pending q)"
    using t0 by (auto simp: get_next_pending_transaction_def list_ex_iff split: list.splits)
  have "nm_nonce (q_nonce_manager q) \<le> n"
    using n by (auto simp: recover_nonce_synchronization_def and_then_Inr get_current_nonce_def)
  then show ?thesis
    using t0 stored assms(3) mem i nm unfolding s'
    by (intro exI [of _ t0] exI [of _ n])
       (auto simp: nonce_stored_def list_all_iff update_pending_transaction_nonce_def
         sort_pending_transactions_def)
qed

theorem moved_nonce_is_durable_witness:
  "\<exists>q' (t :: transaction) n. s_queues (fst (process_single_pending ex_crypto ex_conflict_env 7 ex_queued)) 7 = Some q'
    \<and> 6 \<le> n \<and> q_nonce_manager q' = advance_after_persisted_reservation n \<lparr> nm_nonce = 6 \<rparr>
    \<and> tx_id t = 1"
proof -
  obtain q where q: "s_queues ex_queued 7 = Some q" "q_nonce_manager q = \<lparr> nm_nonce = 6 \<rparr>"
    using ex_conflict_counters(1) by auto
  obtain q' where q': "s_queues (fst (process_single_pending ex_crypto ex_conflict_env 7 ex_queued)) 7 = Some q'"
    "q_nonce_manager q' = \<lparr> nm_nonce = 10 \<rparr>" using ex_conflict_counters(2) by auto
  obtain s' r where p: "process_single_pending ex_crypto ex_conflict_env 7 ex_queued = (s', r)" by force
  have "s_queues s' 7 = Some q'" "q_nonce_manager q' \<noteq> q_nonce_manager q" using p q q' by simp_all
  from moved_nonce_is_durable [OF q(1) p this] obtain t n where
    "nm_nonce (q_nonce_manager q) \<le> n" "get_next_pending_transaction q = Some t"
    "q_nonce_manager q' = advance_after_persisted_reservation n (q_nonce_manager q)" by blast
  moreover have "map_option (map_option tx_id \<circ> get_next_pending_transaction) (s_queues ex_queued 7)
      = Some (Some 1)" by code_simp
  ultimately show ?thesis using q q'
    by (intro exI [of _ q'] exI [of _ t] exI [of _ n]) auto
qed

section \<open>Close-outs\<close>

lemma update_pending_found:
  assumes "find (\<lambda>u. tx_id u = tx_id t') ps = Some t0" "tx_nonce t' = tx_nonce t0"
  shows "map tx_nonce (update_first (\<lambda>u. tx_id u = tx_id t') (\<lambda>_. t') ps) = map tx_nonce ps
    \<and> map tx_id (update_first (\<lambda>u. tx_id u = tx_id t') (\<lambda>_. t') ps) = map tx_id ps
    \<and> find (\<lambda>u. tx_id u = tx_id t') (update_first (\<lambda>u. tx_id u = tx_id t') (\<lambda>_. t') ps) = Some t'"
  using assms by (induction ps) auto

lemma updated_rows:
  assumes "transaction_update t now d = Inr (d', u)"
  shows "db_rows d' = update_where (\<lambda>r. r_id r = tx_id t) (updated_row t now) (db_rows d)"
  using assms by (simp add: transaction_update_def update_and_audit_def Let_def commit_Inr)

lemma update_where_all:
  "(\<And>r. P (f r)) \<Longrightarrow>
     list_all (\<lambda>r. r_id r = i \<longrightarrow> P r) (update_where (\<lambda>r. r_id r = i) f rs)"
  by (induction rs) (auto simp: update_where_def)

lemma close_out_Inr:
  assumes "close_out_pending_transaction_as_noop env rid q t reason s = (s', Inr res)"
  shows "\<exists>rows. db_rows (s_db s') = update_where (\<lambda>r. r_id r = tx_id t)
        (updated_row (closed_out q reason t) (pe_now_update env)) rows
    \<and> s_queues s' rid = Some (fst (update_pending_transaction (closed_out q reason t) q))
    \<and> w_broadcasts (s_world s') = w_broadcasts (s_world s)"
proof -
  obtain s1 r1 where c: "db_call (pe_update env)
      (transaction_update (closed_out q reason t) (pe_now_update env)) s = (s1, r1)" by force
  then obtain u where r1: "r1 = Inr u"
    using assms by (cases r1) (auto simp: close_out_pending_transaction_as_noop_def Let_def)
  have s': "s_world s' = s_world s1 \<and> s_queues s' = (s_queues s1)
      (rid \<mapsto> fst (update_pending_transaction (closed_out q reason t) q))"
    using assms by (auto simp: close_out_pending_transaction_as_noop_def Let_def c r1 pending_other_def)
  have "w_broadcasts (s_world s1) = w_broadcasts (s_world s)"
    using on_db_quiet db_call_world [of "pe_update env" _ s] c by (metis fst_conv)
  with s' updated_rows [OF db_call_Inr [OF c [unfolded r1]]] show ?thesis by auto
qed

text \<open>C7: A close-out of a permanently rejected transaction keeps its place: the pending queue has the
  same ids and nonces in the same order and the nonce counter is untouched, the transaction in the
  queue is a transfer of nothing from the relayer to itself under its old nonce, its rows say the
  same and are PENDING with the rejection reason, and nothing was broadcast.\<close>

theorem close_out_keeps_the_nonce:
  assumes "close_out_pending_transaction_as_noop env rid q t reason s = (s', Inr res)"
    and "find (\<lambda>u. tx_id u = tx_id t) (q_pending q) = Some t0" "tx_nonce t0 = tx_nonce t"
  shows "\<exists>q' c. s_queues s' rid = Some q' \<and> q_nonce_manager q' = q_nonce_manager q
    \<and> map tx_nonce (q_pending q') = map tx_nonce (q_pending q)
    \<and> map tx_id (q_pending q') = map tx_id (q_pending q)
    \<and> find (\<lambda>u. tx_id u = tx_id t) (q_pending q') = Some c
    \<and> tx_nonce c = tx_nonce t \<and> tx_to c = rl_address (q_relayer q) \<and> tx_value c = 0 \<and> tx_data c = []
    \<and> tx_is_noop c \<and> tx_failed_reason c = Some reason
    \<and> w_broadcasts (s_world s') = w_broadcasts (s_world s)
    \<and> list_all (\<lambda>r. r_id r = tx_id t \<longrightarrow> r_status r = PENDING \<and> r_nonce r = tx_nonce t
         \<and> r_to r = rl_address (q_relayer q) \<and> r_value r = 0 \<and> r_data r = []
         \<and> r_failed_reason r = Some (take 2000 reason)) (db_rows (s_db s'))"
proof -
  let ?c = "closed_out q reason t"
  from close_out_Inr [OF assms(1)] obtain rows where
    rows: "db_rows (s_db s') = update_where (\<lambda>r. r_id r = tx_id t) (updated_row ?c (pe_now_update env)) rows"
    and q': "s_queues s' rid = Some (fst (update_pending_transaction ?c q))"
    and quiet: "w_broadcasts (s_world s') = w_broadcasts (s_world s)" by blast
  have c: "tx_status ?c = PENDING" "tx_to ?c = rl_address (q_relayer q)" "tx_value ?c = 0" "tx_data ?c = []"
    "tx_is_noop ?c" "tx_failed_reason ?c = Some reason"
    by (simp_all add: closed_out_def)
  have "list_all (\<lambda>r. r_id r = tx_id t \<longrightarrow> r_status r = PENDING \<and> r_nonce r = tx_nonce t
         \<and> r_to r = rl_address (q_relayer q) \<and> r_value r = 0 \<and> r_data r = []
         \<and> r_failed_reason r = Some (take 2000 reason)) (db_rows (s_db s'))"
    unfolding rows by (rule update_where_all) (simp add: updated_row_def c)
  moreover have "list_ex (\<lambda>u. tx_id u = tx_id ?c) (q_pending q)"
    using find_SomeD [OF assms(2)] by (auto simp: list_ex_iff)
  ultimately show ?thesis
    using update_pending_found [of ?c "q_pending q" t0] assms(2,3) q' quiet c
    by (intro exI [of _ "fst (update_pending_transaction ?c q)"] exI [of _ ?c])
       (simp add: update_pending_transaction_def)
qed

theorem close_out_keeps_the_nonce_witness:
  "\<exists>s' res q'. close_out_pending_transaction_as_noop ex_ok_pending 7
      (add_pending_transaction ex_transaction ex_queue) ex_transaction ''execution reverted'' ex_queued
      = (s', Inr res) \<and> s_queues s' 7 = Some q' \<and> map tx_nonce (q_pending q') = [5]"
proof -
  let ?q = "add_pending_transaction ex_transaction ex_queue"
  obtain s' r where run: "close_out_pending_transaction_as_noop ex_ok_pending 7 ?q ex_transaction
      ''execution reverted'' ex_queued = (s', r)" by force
  have "is_ok (snd (close_out_pending_transaction_as_noop ex_ok_pending 7 ?q ex_transaction
      ''execution reverted'' ex_queued))" by code_simp
  with run obtain res where res: "r = Inr res" by (cases r) auto
  have p: "q_pending ?q = [ex_transaction]"
    by (simp add: add_pending_transaction_def ex_queue_def queue_of_setup_def new_transactions_queue_def
        ex_setup_def relayer_setup_of_def sort_pending_transactions_def)
  have n: "tx_nonce ex_transaction = 5" by (simp add: ex_transaction_def queued_transaction_def)
  from close_out_keeps_the_nonce [OF run [unfolded res], of ex_transaction] p n
  show ?thesis using run res by auto
qed



end
