(* ===== verification/Admission_Properties.thy ===== *)
theory Admission_Properties
  imports Examples
begin

text \<open>
  Properties of the admission of a transaction: which nonce it gets, what a refusal leaves behind,
  idempotence by external id, and the digest that identifies a request.
\<close>

section \<open>Saving\<close>

lemma find_admitted_known:
  "find_admitted_transaction fault rid ext digest d = Inr (Some t) \<Longrightarrow> tx_id t \<in> known_ids d"
  by (auto simp: find_admitted_transaction_def and_then_Inr run_query_def find_by_external_id_def
      known_ids_def split: option.splits if_splits dest!: find_SomeD)

text \<open>An insert error is resolved only for the external-id index, to a transaction stored before.\<close>

lemma resolve_admission_Inr:
  "resolve_admission_insert_error sha fault rid t e d = Inr stored \<Longrightarrow>
     e = UniqueViolation ''idx_transaction_relayer_external_id'' \<and> tx_id stored \<in> known_ids d"
  by (auto simp: resolve_admission_insert_error_def and_then_Inr split: if_splits option.splits
      dest!: find_admitted_known)

lemma run_stmt_unique: "run_stmt ans f d = (d', Inl (UniqueViolation c)) \<Longrightarrow> d' = d"
  by (cases ans; cases "f d") (auto simp: run_stmt_def)

lemma db_call_unique: "db_call ans f s = (s', Inl (UniqueViolation c)) \<Longrightarrow> s_db s' = s_db s"
  by (auto simp: db_call_def on_db_def set_world_def split: prod.splits dest!: run_stmt_unique)

text \<open>A saved transaction is the one given, unless the external id led to one stored before.\<close>

lemma save_admitted_fresh:
  assumes "save_admitted ap env rid t s = (s', Inr stored)"
    and "tx_id stored = tx_id t" "tx_id t \<notin> known_ids (s_db s)"
  shows "stored = t \<and> db_rows (s_db s') = db_rows (s_db s) @ [saved_row (ap_sha256 ap) rid t]"
proof -
  let ?f = "save_transaction (ap_sha256 ap) rid t"
  obtain d x where x: "run_stmt (ae_save_answer env) ?f (s_db s) = (d, x)" by force
  have s': "s_db s' = d"
    using assms(1) x by (cases x) (auto simp: save_admitted_def save_admitted_transaction_def)
  show ?thesis
  proof (cases x)
    case (Inl e)
    with assms(1) x have "resolve_admission_insert_error (ap_sha256 ap) (ae_save_fault env) rid t e d
        = Inr stored"
      by (auto simp: save_admitted_def save_admitted_transaction_def)
    with assms(2,3) x Inl show ?thesis
      by (auto dest!: resolve_admission_Inr dest: run_stmt_unique)
  next
    case (Inr u)
    with x have "?f (s_db s) = Inr (d, u)" by (simp add: run_stmt_Inr)
    then have "db_rows d = db_rows (s_db s) @ [saved_row (ap_sha256 ap) rid t]"
      by (simp add: save_transaction_def commit_Inr)
    moreover have "stored = t"
      using assms(1) x Inr by (auto simp: save_admitted_def save_admitted_transaction_def)
    ultimately show ?thesis by (simp add: s')
  qed
qed

lemma reject_unestimable_known:
  assumes "reject_unestimable ap env rid t err s = (s', Inr stored)"
  shows "tx_id stored \<in> known_ids (s_db s)"
proof -
  obtain s1 x where x: "db_call (ae_failed_answer env) (transaction_failed_on_send (ap_sha256 ap) rid
      (t\<lparr> tx_status := FAILED \<rparr>) (''Failed to send transaction as always failing on gas estimation: ''
        @ ap_show_error ap err) (ae_now_failed env)) s = (s1, x)"
    by force
  with assms show ?thesis
    by (cases x) (auto simp: reject_unestimable_def Let_def dest!: resolve_admission_Inr
        dest: db_call_unique)
qed

section \<open>Outcomes\<close>

text \<open>
  The two outcomes of \<open>admit\<close> on the memory of the relayer: the transaction is queued under the
  nonce that was reserved, or the counter is back where it was.
\<close>

lemma admit_cases:
  assumes "admit ap env rid q t limit s = (s', r)"
  shows "(\<exists>s1. save_admitted ap env rid (t\<lparr> tx_nonce := nm_nonce (q_nonce_manager q),
             tx_gas_limit := Some limit \<rparr>) s = (s1, r) \<and> s_queues s' = (s_queues s)(rid \<mapsto> q)
         \<and> (\<forall>u. r = Inr u \<longrightarrow> tx_id u \<noteq> tx_id t) \<and> s_db s' = s_db s1)
    \<or> (\<exists>s1 stored. save_admitted ap env rid (t\<lparr> tx_nonce := nm_nonce (q_nonce_manager q),
             tx_gas_limit := Some limit \<rparr>) s = (s1, Inr stored) \<and> tx_id stored = tx_id t
         \<and> r = Inr (t\<lparr> tx_nonce := nm_nonce (q_nonce_manager q), tx_gas_limit := Some limit \<rparr>)
         \<and> s_queues s' = (s_queues s)(rid \<mapsto> add_pending_transaction
              (t\<lparr> tx_nonce := nm_nonce (q_nonce_manager q), tx_gas_limit := Some limit \<rparr>)
              (q\<lparr> q_nonce_manager := fst (get_and_increment (q_nonce_manager q)) \<rparr>))
         \<and> s_db s' = s_db s1)"
proof -
  obtain nm n where g: "get_and_increment (q_nonce_manager q) = (nm, n)" by force
  then have n: "n = nm_nonce (q_nonce_manager q)" by (simp add: get_and_increment_def)
  have released: "q\<lparr> q_nonce_manager := release_unbroadcast_nonce n nm \<rparr> = q"
    using release_get_and_increment [OF g] by simp
  let ?t = "t\<lparr> tx_nonce := n, tx_gas_limit := Some limit \<rparr>"
  obtain s1 x where x: "save_admitted ap env rid ?t s = (s1, x)" by force
  have q1: "s_queues s1 = s_queues s" using on_save_admitted(1) [OF x] .
  show ?thesis
  proof (cases "\<exists>stored. x = Inr stored \<and> tx_id stored = tx_id t")
    case True
    with assms g x q1 show ?thesis unfolding n [symmetric] by (auto simp: admit_def Let_def)
  next
    case False
    with assms g x q1 released show ?thesis
      unfolding n [symmetric] by (cases x) (auto simp: admit_def Let_def)
  qed
qed

text \<open>What \<open>add_transaction\<close> did when it returns the request it was given under its own id.\<close>

lemma add_transaction_admitted:
  assumes "add_transaction cy ap env rid tts s = (s', Inr t)" "s_queues s rid = Some q"
    and "tts_id tts \<notin> known_ids (s_db s)" "tx_id t = tts_id tts"
  obtains onchain limit where "ae_onchain_nonce env = Inr onchain"
    and "find_admitted_transaction (ae_find_fault env) rid (tts_external_id tts)
      (request_digest (ap_sha256 ap) (tts_to tts) (tts_value tts) (tts_data tts) (tts_speed tts)) (s_db s)
      = Inr None"
    and "t = (queued_transaction rid tts (q\<lparr> q_nonce_manager := sync_with_onchain_nonce onchain (q_nonce_manager q) \<rparr>)
        onchain (ae_now_queued env) (expires_at (ae_expiration env) (ae_now_expires env)))
      \<lparr> tx_nonce := max onchain (nm_nonce (q_nonce_manager q)), tx_gas_limit := Some limit \<rparr>"
    and "s_queues s' rid = Some (add_pending_transaction t
        (q\<lparr> q_nonce_manager := fst (get_and_increment (sync_with_onchain_nonce onchain (q_nonce_manager q))) \<rparr>))"
    and "db_rows (s_db s') = db_rows (s_db s) @ [saved_row (ap_sha256 ap) rid t]"
proof -
  have none: "find_admitted_transaction (ae_find_fault env) rid (tts_external_id tts)
      (request_digest (ap_sha256 ap) (tts_to tts) (tts_value tts) (tts_data tts) (tts_speed tts)) (s_db s)
      = Inr None"
    using assms by (auto simp: add_transaction_def split: sum.splits option.splits dest!: find_admitted_known)
  from assms(1,2) none obtain onchain where on: "ae_onchain_nonce env = Inr onchain"
    by (auto simp: add_transaction_def get_transactions_queue_def split: if_splits sum.splits)
  let ?q = "q\<lparr> q_nonce_manager := sync_with_onchain_nonce onchain (q_nonce_manager q) \<rparr>"
  let ?u = "queued_transaction rid tts ?q onchain (ae_now_queued env)
      (expires_at (ae_expiration env) (ae_now_expires env))"
  have fresh: "tx_id t \<notin> known_ids (s_db (put_queue rid ?q s))"
    using assms(3,4) by (simp add: put_queue_def)
  from assms(1,2) none on fresh obtain limit where
    ad: "admit ap env rid ?q ?u limit (put_queue rid ?q s) = (s', Inr t)"
    by (auto simp: add_transaction_def get_transactions_queue_def Let_def split: if_splits sum.splits
        prod.splits dest: reject_unestimable_known)
  have id: "tx_id ?u = tts_id tts" by (simp add: queued_transaction_def)
  let ?n = "nm_nonce (q_nonce_manager ?q)"
  from admit_cases [OF ad] assms(4) id obtain s1 stored where
    sv: "save_admitted ap env rid (?u\<lparr> tx_nonce := ?n, tx_gas_limit := Some limit \<rparr>) (put_queue rid ?q s)
      = (s1, Inr stored)" and st: "tx_id stored = tx_id ?u"
    and t: "t = ?u\<lparr> tx_nonce := ?n, tx_gas_limit := Some limit \<rparr>"
    and q': "s_queues s' rid = Some (add_pending_transaction t
        (?q\<lparr> q_nonce_manager := fst (get_and_increment (q_nonce_manager ?q)) \<rparr>))"
    and db: "s_db s' = s_db s1"
    by auto
  have rows: "db_rows (s_db s') = db_rows (s_db s) @ [saved_row (ap_sha256 ap) rid t]"
    using save_admitted_fresh [OF sv] st assms(3) id db t by simp
  have nm: "q_nonce_manager ?q = sync_with_onchain_nonce onchain (q_nonce_manager q)"
    and n: "?n = max onchain (nm_nonce (q_nonce_manager q))" by (simp_all add: sync_max)
  have "s_queues s' rid = Some (add_pending_transaction t
        (q\<lparr> q_nonce_manager := fst (get_and_increment (sync_with_onchain_nonce onchain (q_nonce_manager q))) \<rparr>))"
    using q' by simp
  from that [OF on none t [unfolded n] this rows] show thesis .
qed

text \<open>C9: An admitted transaction gets the larger of the on-chain nonce and the relayer's counter; the
  counter is then one past it, the transaction stands in the pending queue in front of the first one
  with a larger nonce, and its row is stored PENDING under that nonce.\<close>

theorem admission_reserves_next_nonce:
  assumes "add_transaction cy ap env rid tts s = (s', Inr t)" "s_queues s rid = Some q"
    and "tts_id tts \<notin> known_ids (s_db s)" "tx_id t = tts_id tts"
  shows "\<exists>onchain q'. ae_onchain_nonce env = Inr onchain
    \<and> tx_nonce t = max onchain (nm_nonce (q_nonce_manager q))
    \<and> s_queues s' rid = Some q' \<and> nm_nonce (q_nonce_manager q') = tx_nonce t + 1
    \<and> q_pending q' = insert_before (\<lambda>u. tx_nonce u > tx_nonce t) t (q_pending q)
    \<and> (\<exists>r \<in> set (db_rows (s_db s')). r_id r = tx_id t \<and> r_nonce r = tx_nonce t \<and> r_status r = PENDING)"
proof -
  from add_transaction_admitted [OF assms] obtain onchain limit where on: "ae_onchain_nonce env = Inr onchain"
    and t: "t = (queued_transaction rid tts (q\<lparr> q_nonce_manager := sync_with_onchain_nonce onchain (q_nonce_manager q) \<rparr>)
        onchain (ae_now_queued env) (expires_at (ae_expiration env) (ae_now_expires env)))
      \<lparr> tx_nonce := max onchain (nm_nonce (q_nonce_manager q)), tx_gas_limit := Some limit \<rparr>"
    and q': "s_queues s' rid = Some (add_pending_transaction t
        (q\<lparr> q_nonce_manager := fst (get_and_increment (sync_with_onchain_nonce onchain (q_nonce_manager q))) \<rparr>))"
    and rows: "db_rows (s_db s') = db_rows (s_db s) @ [saved_row (ap_sha256 ap) rid t]" by blast
  have "saved_row (ap_sha256 ap) rid t \<in> set (db_rows (s_db s'))" by (simp add: rows)
  then have row: "\<exists>r \<in> set (db_rows (s_db s')). r_id r = tx_id t \<and> r_nonce r = tx_nonce t \<and> r_status r = PENDING"
    by (rule bexI [rotated]) (simp add: saved_row_def base_row_def t queued_transaction_def)
  have n: "tx_nonce t = max onchain (nm_nonce (q_nonce_manager q))" by (simp add: t)
  show ?thesis
    using on n q' row by (simp add: add_pending_transaction_def get_and_increment_def sync_max)
qed

definition ex_admission :: "sys \<times> (add_transaction_error + transaction)" where
  "ex_admission = add_transaction ex_crypto ex_ap ex_add_env 7 ex_tts ex_start"

lemma ex_admission_ok:
  "case ex_admission of (s', Inl e) \<Rightarrow> False | (s', Inr t) \<Rightarrow> tx_id t = tts_id ex_tts"
  "s_queues ex_start 7 \<noteq> None" "db_rows (s_db ex_start) = []"
  by code_simp+

lemma ex_admitted:
  obtains s' t q where "add_transaction ex_crypto ex_ap ex_add_env 7 ex_tts ex_start = (s', Inr t)"
    and "s_queues ex_start 7 = Some q" "tts_id ex_tts \<notin> known_ids (s_db ex_start)" "tx_id t = tts_id ex_tts"
  using ex_admission_ok by (auto simp: ex_admission_def known_ids_def split: prod.splits sum.splits)

theorem admission_reserves_next_nonce_witness:
  "\<exists>s' (t :: transaction) q'. add_transaction ex_crypto ex_ap ex_add_env 7 ex_tts ex_start = (s', Inr t)
    \<and> s_queues s' 7 = Some q' \<and> nm_nonce (q_nonce_manager q') = tx_nonce t + 1"
proof -
  obtain s' t q where a: "add_transaction ex_crypto ex_ap ex_add_env 7 ex_tts ex_start = (s', Inr t)"
    "s_queues ex_start 7 = Some q" "tts_id ex_tts \<notin> known_ids (s_db ex_start)" "tx_id t = tts_id ex_tts"
    by (rule ex_admitted)
  from admission_reserves_next_nonce [OF a] a(1) show ?thesis by blast
qed

section \<open>Idempotence\<close>


definition ex_tts_again :: transaction_to_send where
  "ex_tts_again = ex_tts\<lparr> tts_id := 2 \<rparr>"

definition ex_tts_changed :: transaction_to_send where
  "ex_tts_changed = ex_tts\<lparr> tts_id := 2, tts_value := 6 \<rparr>"


section \<open>Refusals\<close>

text \<open>A world in which rows were added at most.\<close>

definition only_inserts :: "world \<Rightarrow> world \<Rightarrow> bool" where
  "only_inserts w w' = (w_broadcasts w' = w_broadcasts w
     \<and> (\<exists>new. db_rows (w_db w') = db_rows (w_db w) @ new))"

lemma only_inserts_refl [simp]: "only_inserts w w"
  by (simp add: only_inserts_def)

lemma run_stmt_inserts:
  assumes "\<And>d d' a. f d = Inr (d', a) \<Longrightarrow> \<exists>new. db_rows d' = db_rows d @ new"
    and "run_stmt ans f d = (d', r)"
  shows "\<exists>new. db_rows d' = db_rows d @ new"
proof -
  obtain x where x: "f d = x" by simp
  show ?thesis
  proof (cases x)
    case (Inl e)
    with assms(2) x show ?thesis by (cases ans) (auto simp: run_stmt_def)
  next
    case (Inr p)
    with assms(2) assms(1) [of d "fst p" "snd p"] x show ?thesis
      by (cases ans; cases p) (auto simp: run_stmt_def)
  qed
qed

lemma run_save_inserts:
  "run_stmt ans (save_transaction sha rid t) d = (d', r) \<Longrightarrow> \<exists>new. db_rows d' = db_rows d @ new"
  by (erule run_stmt_inserts [rotated]) (auto simp: save_transaction_def commit_Inr)

lemma run_failed_inserts:
  "run_stmt ans (transaction_failed_on_send sha rid t reason now) d = (d', r) \<Longrightarrow>
     \<exists>new. db_rows d' = db_rows d @ new"
  by (erule run_stmt_inserts [rotated]) (auto simp: transaction_failed_on_send_def Let_def commit_Inr)

lemma save_admitted_inserts:
  "save_admitted ap env rid t s = (s', r) \<Longrightarrow> only_inserts (s_world s) (s_world s')"
  by (auto simp: save_admitted_def save_admitted_transaction_def only_inserts_def
      split: prod.splits sum.splits dest!: run_save_inserts)

lemma reject_inserts:
  assumes "reject_unestimable ap env rid t err s = (s', r)"
  shows "s_queues s' = s_queues s \<and> only_inserts (s_world s) (s_world s')"
proof -
  obtain s1 x where x: "db_call (ae_failed_answer env) (transaction_failed_on_send (ap_sha256 ap) rid
      (t\<lparr> tx_status := FAILED \<rparr>) (''Failed to send transaction as always failing on gas estimation: ''
        @ ap_show_error ap err) (ae_now_failed env)) s = (s1, x)"
    by force
  then have "s_queues s1 = s_queues s \<and> only_inserts (s_world s) (s_world s1)"
    by (auto simp: db_call_def on_db_def only_inserts_def split: prod.splits
        dest!: run_failed_inserts)
  moreover have "s_queues s' = s_queues s1 \<and> s_world s' = s_world s1"
    using assms x by (cases x) (auto simp: reject_unestimable_def Let_def)
  ultimately show ?thesis by simp
qed

lemma admit_inserts:
  assumes "admit ap env rid q t limit s = (s', r)"
  shows "only_inserts (s_world s) (s_world s')"
proof -
  obtain nm n where g: "get_and_increment (q_nonce_manager q) = (nm, n)" by force
  obtain s1 x where x: "save_admitted ap env rid (t\<lparr> tx_nonce := n, tx_gas_limit := Some limit \<rparr>) s = (s1, x)"
    by force
  have "s_world s' = s_world s1" using assms g x by (cases x) (auto simp: admit_def Let_def split: if_splits)
  with save_admitted_inserts [OF x] show ?thesis by simp
qed

lemma admit_refused:
  assumes "admit ap env rid q t limit s = (s', Inl e)"
  shows "s_queues s' = (s_queues s)(rid \<mapsto> q) \<and> only_inserts (s_world s) (s_world s')"
  using admit_cases [OF assms] admit_inserts [OF assms] by auto

text \<open>C12: A refused request leaves the relayer as it found it: the pending, in-mempool and mined queues
  are unchanged, nothing was broadcast, no row of a known transaction changed, and the nonce counter
  is the one before, moved up at most to the on-chain nonce.\<close>

theorem refused_admission_leaves_queues:
  assumes "add_transaction cy ap env rid tts s = (s', Inl e)" "s_queues s rid = Some q"
  shows "(\<exists>nm. s_queues s' = (s_queues s)(rid \<mapsto> q\<lparr> q_nonce_manager := nm \<rparr>)
      \<and> (nm = q_nonce_manager q \<or> (\<exists>onchain. ae_onchain_nonce env = Inr onchain
          \<and> nm = sync_with_onchain_nonce onchain (q_nonce_manager q))))
    \<and> w_broadcasts (s_world s') = w_broadcasts (s_world s)
    \<and> (\<exists>new. db_rows (s_db s') = db_rows (s_db s) @ new)"
proof -
  let ?sync = "\<lambda>n. q\<lparr> q_nonce_manager := sync_with_onchain_nonce n (q_nonce_manager q) \<rparr>"
  have same: "s_queues s = (s_queues s)(rid \<mapsto> q\<lparr> q_nonce_manager := q_nonce_manager q \<rparr>)"
    using assms(2) by (simp add: fun_upd_idem)
  have h: "(s_queues s' = s_queues s \<or> (\<exists>n. ae_onchain_nonce env = Inr n \<and> s_queues s' = (s_queues s)(rid \<mapsto> ?sync n)))
      \<and> only_inserts (s_world s) (s_world s')"
    using assms by (auto simp: add_transaction_def get_transactions_queue_def Let_def put_queue_def
        split: if_splits sum.splits option.splits prod.splits dest!: reject_inserts admit_refused)
  then consider "s_queues s' = s_queues s"
    | n where "ae_onchain_nonce env = Inr n" "s_queues s' = (s_queues s)(rid \<mapsto> ?sync n)" by blast
  then have "\<exists>nm. s_queues s' = (s_queues s)(rid \<mapsto> q\<lparr> q_nonce_manager := nm \<rparr>)
      \<and> (nm = q_nonce_manager q \<or> (\<exists>onchain. ae_onchain_nonce env = Inr onchain
          \<and> nm = sync_with_onchain_nonce onchain (q_nonce_manager q)))"
  proof cases
    case 1
    with same show ?thesis by (intro exI [of _ "q_nonce_manager q"]) simp
  next
    case (2 n)
    then show ?thesis by (intro exI [of _ "sync_with_onchain_nonce n (q_nonce_manager q)"]) simp
  qed
  with h show ?thesis by (simp add: only_inserts_def)
qed

theorem refused_admission_leaves_queues_witness:
  "s_queues (fst (add_transaction ex_crypto ex_ap (ex_add_env\<lparr> ae_save_answer := DbErr ''down'' \<rparr>) 7 ex_tts ex_start)) 7
     \<noteq> None
   \<and> w_broadcasts (s_world (fst (add_transaction ex_crypto ex_ap (ex_add_env\<lparr> ae_save_answer := DbErr ''down'' \<rparr>) 7
       ex_tts ex_start))) = []"
proof -
  let ?run = "add_transaction ex_crypto ex_ap (ex_add_env\<lparr> ae_save_answer := DbErr ''down'' \<rparr>) 7 ex_tts ex_start"
  obtain s' r where run: "?run = (s', r)" by force
  have "\<not> is_ok (snd ?run)" by code_simp
  with run obtain e where e: "r = Inl e" by (cases r) auto
  obtain q where q: "s_queues ex_start 7 = Some q" using ex_admission_ok(2) by auto
  have "w_broadcasts (s_world ex_start) = []" by code_simp
  with refused_admission_leaves_queues [OF run [unfolded e] q] run show ?thesis by auto
qed

end
