(* ===== verification/Rate_Limiter.thy ===== *)
theory Rate_Limiter
  imports Prelude
begin

text \<open>
  The rate limiter (crates/core/src/rate_limiting): usage windows per user and relayer, for all
  users together and per relayer; a request is checked against each of them and then counted in
  each, and a failed request takes its count back. Every check and every reservation takes its own
  lock and reads its own clock, so each has its own time argument.
\<close>

section \<open>Configuration\<close>

datatype rate_limit_operation = RlTransaction | RlSigning

definition operation_str :: "rate_limit_operation \<Rightarrow> string" where
  "operation_str op = (case op of RlTransaction \<Rightarrow> ''transactions'' | RlSigning \<Rightarrow> ''signing'')"

record rate_limit_with_interval =
  ri_interval :: string
  ri_transactions :: u64
  ri_signing_operations :: u64

record user_rate_limit_config =
  ur_per_relayer :: "rate_limit_with_interval option"
  ur_global :: "rate_limit_with_interval option"

record rate_limit_config =
  rc_user_limits :: "user_rate_limit_config option"
  rc_relayer_limits :: "rate_limit_with_interval option"
  rc_fallback_to_relayer :: bool

definition limit_of :: "rate_limit_with_interval \<Rightarrow> rate_limit_operation \<Rightarrow> u64" where
  "limit_of l op = (case op of RlTransaction \<Rightarrow> ri_transactions l | RlSigning \<Rightarrow> ri_signing_operations l)"

text \<open>The limits for all users together, if any.\<close>

definition global_limits :: "rate_limit_config \<Rightarrow> rate_limit_with_interval option" where
  "global_limits c = Option.bind (rc_user_limits c) ur_global"

section \<open>Intervals\<close>

definition is_space :: "char \<Rightarrow> bool" where
  "is_space c = (c \<in> {CHR 0x09, CHR 0x0A, CHR 0x0B, CHR 0x0C, CHR 0x0D, CHR '' ''})"

definition trim :: "string \<Rightarrow> string" where
  "trim s = rev (dropWhile is_space (rev (dropWhile is_space s)))"

text \<open>\<open>strip_suffix\<close> for a suffix of one character.\<close>

definition strip_last :: "char \<Rightarrow> string \<Rightarrow> string option" where
  "strip_last c s = (if s \<noteq> [] \<and> last s = c then Some (butlast s) else None)"

definition digit_val :: "char \<Rightarrow> nat option" where
  "digit_val c = (let n = of_char c in if 48 \<le> n \<and> n \<le> (57 :: nat) then Some (n - 48) else None)"

fun digits_value :: "nat \<Rightarrow> string \<Rightarrow> nat option" where
  "digits_value acc [] = Some acc"
| "digits_value acc (c # cs) = (case digit_val c of None \<Rightarrow> None | Some d \<Rightarrow> digits_value (acc * 10 + d) cs)"

text \<open>\<open>str::parse::<u32>\<close>: an optional plus sign, at least one digit, no overflow.\<close>

definition parse_u32 :: "string \<Rightarrow> u32 option" where
  "parse_u32 s =
     (let ds = (case s of c # cs \<Rightarrow> if c = CHR ''+'' then cs else s | [] \<Rightarrow> [])
      in if ds = [] then None
         else (case digits_value 0 ds of
                 None \<Rightarrow> None
               | Some n \<Rightarrow> if n < 2 ^ 32 then Some (of_nat n) else None))"

text \<open>\<open>value * 60\<close> wraps in a release build.\<close>

definition parse_interval :: "string \<Rightarrow> u32" where
  "parse_interval interval =
     (let s = trim interval
      in if s = ''second'' \<or> s = ''seconds'' then 1
         else if s = ''minute'' \<or> s = ''minutes'' then 60
         else (case strip_last (CHR ''s'') s of
                 Some n \<Rightarrow> max (case parse_u32 n of Some v \<Rightarrow> v | None \<Rightarrow> 60) 1
               | None \<Rightarrow>
                   (case strip_last (CHR ''m'') s of
                      Some n \<Rightarrow> max (case parse_u32 n of Some v \<Rightarrow> v * 60 | None \<Rightarrow> 60) 1
                    | None \<Rightarrow> 60)))"

text \<open>The limits of a user: (transactions, signing operations, seconds).\<close>

definition get_limits_for_user :: "rate_limit_config \<Rightarrow> u64 \<times> u64 \<times> u32" where
  "get_limits_for_user c =
     (case Option.bind (rc_user_limits c) ur_per_relayer of
        Some l \<Rightarrow> (ri_transactions l, ri_signing_operations l, parse_interval (ri_interval l))
      | None \<Rightarrow>
          (case rc_relayer_limits c of
             Some l \<Rightarrow> (ri_transactions l, ri_signing_operations l, parse_interval (ri_interval l))
           | None \<Rightarrow> (100, 50, 60)))"

section \<open>Windows\<close>

text \<open>Times are nanoseconds since the epoch; \<open>as_secs\<close> drops the fraction.\<close>

type_synonym sys_time = nat

definition as_secs :: "nat \<Rightarrow> nat" where
  "as_secs ns = ns div 1000000000"

definition calculate_window_start :: "sys_time \<Rightarrow> u32 \<Rightarrow> sys_time" where
  "calculate_window_start now window = (as_secs now div unat window) * unat window * 1000000000"

record usage_window =
  uw_usage_count :: u64
  uw_window_start :: sys_time

type_synonym usage_cache = "string \<rightharpoonup> usage_window"

text \<open>A window start in the future counts as expired.\<close>

definition window_expired :: "sys_time \<Rightarrow> u32 \<Rightarrow> usage_window \<Rightarrow> bool" where
  "window_expired now window u =
     (if now < uw_window_start u then True else as_secs (now - uw_window_start u) > unat window)"

definition window_of :: "usage_cache \<Rightarrow> string \<Rightarrow> sys_time \<Rightarrow> u32 \<Rightarrow> usage_window" where
  "window_of cache key now window =
     (case cache key of
        Some u \<Rightarrow> u
      | None \<Rightarrow> \<lparr> uw_usage_count = 0, uw_window_start = calculate_window_start now window \<rparr>)"

text \<open>What a check sees, and what a reservation writes.\<close>

definition current_usage :: "usage_cache \<Rightarrow> string \<Rightarrow> sys_time \<Rightarrow> u32 \<Rightarrow> u64" where
  "current_usage cache key now window =
     (let u = window_of cache key now window
      in if window_expired now window u then 1 else uw_usage_count u + 1)"

definition reserve_window :: "string \<Rightarrow> sys_time \<Rightarrow> u32 \<Rightarrow> usage_cache \<Rightarrow> usage_cache" where
  "reserve_window key now window cache =
     (let u = window_of cache key now window
      in cache(key \<mapsto>
           (if window_expired now window u
            then \<lparr> uw_usage_count = 1, uw_window_start = calculate_window_start now window \<rparr>
            else \<lparr> uw_usage_count = uw_usage_count u + 1, uw_window_start = uw_window_start u \<rparr>)))"

definition revert_window :: "string \<Rightarrow> usage_cache \<Rightarrow> usage_cache" where
  "revert_window key cache =
     (case cache key of
        Some u \<Rightarrow>
          if uw_usage_count u > 0
          then cache(key \<mapsto> u\<lparr> uw_usage_count := uw_usage_count u - 1 \<rparr>) else cache
      | None \<Rightarrow> cache)"

section \<open>The limiter\<close>

datatype rate_limit_error =
    LimitExceeded string u64 u64 u32
  | NoRateLimitKey

record rate_limiter =
  lm_config :: rate_limit_config
  lm_usage :: usage_cache
  lm_global :: usage_cache
  lm_relayer :: usage_cache

definition new_rate_limiter :: "rate_limit_config \<Rightarrow> rate_limiter" where
  "new_rate_limiter c =
     \<lparr> lm_config = c, lm_usage = Map.empty, lm_global = Map.empty, lm_relayer = Map.empty \<rparr>"

text \<open>\<open>show_address\<close> is the display of an address, \<open>hex_address\<close> its \<open>hex()\<close>.\<close>

record address_text =
  at_show :: "u160 \<Rightarrow> string"
  at_hex :: "u160 \<Rightarrow> string"

definition detect :: "address_text \<Rightarrow> rate_limit_config \<Rightarrow> string option \<Rightarrow> u160 \<Rightarrow> rate_limit_error + string" where
  "detect ad c header relayer =
     (case header of
        Some key \<Rightarrow> Inr key
      | None \<Rightarrow> if rc_fallback_to_relayer c then Inr (at_hex ad relayer) else Inl NoRateLimitKey)"

definition user_key :: "address_text \<Rightarrow> string \<Rightarrow> u160 \<Rightarrow> rate_limit_operation \<Rightarrow> string" where
  "user_key ad key relayer op = key @ ''_'' @ at_show ad relayer @ ''_'' @ operation_str op"

definition global_key :: "rate_limit_operation \<Rightarrow> string" where
  "global_key op = (case op of RlTransaction \<Rightarrow> ''global_user_tx'' | RlSigning \<Rightarrow> ''global_user_signing'')"

definition relayer_key :: "address_text \<Rightarrow> u160 \<Rightarrow> rate_limit_operation \<Rightarrow> string" where
  "relayer_key ad relayer op =
     ''relayer_'' @ at_show ad relayer @ ''_'' @
     (case op of RlTransaction \<Rightarrow> ''tx'' | RlSigning \<Rightarrow> ''signing'')"

subsection \<open>Checks\<close>

definition check_relayer_limits ::
  "address_text \<Rightarrow> rate_limit_with_interval \<Rightarrow> sys_time \<Rightarrow> u160 \<Rightarrow> rate_limit_operation \<Rightarrow>
   rate_limiter \<Rightarrow> rate_limit_error + unit" where
  "check_relayer_limits ad l now relayer op rl =
     (let window = parse_interval (ri_interval l); limit = limit_of l op;
          usage = current_usage (lm_relayer rl) (relayer_key ad relayer op) now window
      in if usage > limit then Inl (LimitExceeded (''relayer_'' @ operation_str op) usage limit window)
         else Inr ())"

definition check_global_user_limits ::
  "rate_limit_with_interval \<Rightarrow> sys_time \<Rightarrow> rate_limit_operation \<Rightarrow> rate_limiter \<Rightarrow> rate_limit_error + unit"
  where
  "check_global_user_limits l now op rl =
     (let window = parse_interval (ri_interval l); limit = limit_of l op;
          usage = current_usage (lm_global rl) (global_key op) now window
      in if usage > limit then Inl (LimitExceeded (global_key op) usage limit window) else Inr ())"

record rate_limit_result =
  rs_allowed :: bool
  rs_current_usage :: u64
  rs_limit :: u64
  rs_window_seconds :: u32
  rs_reset_time :: sys_time

definition user_limit :: "rate_limit_config \<Rightarrow> rate_limit_operation \<Rightarrow> u64" where
  "user_limit c op =
     (case get_limits_for_user c of (tx, signing, _) \<Rightarrow>
        (case op of RlTransaction \<Rightarrow> tx | RlSigning \<Rightarrow> signing))"

definition user_window :: "rate_limit_config \<Rightarrow> u32" where
  "user_window c = snd (snd (get_limits_for_user c))"

definition check_user_limits ::
  "address_text \<Rightarrow> sys_time \<Rightarrow> string \<Rightarrow> u160 \<Rightarrow> rate_limit_operation \<Rightarrow> rate_limiter \<Rightarrow> rate_limit_result"
  where
  "check_user_limits ad now key relayer op rl =
     (let limit = user_limit (lm_config rl) op; window = user_window (lm_config rl)
      in if limit = - 1
         then \<lparr> rs_allowed = True, rs_current_usage = 0, rs_limit = - 1, rs_window_seconds = window,
                rs_reset_time = now \<rparr>
         else (let usage = current_usage (lm_usage rl) (user_key ad key relayer op) now window
               in \<lparr> rs_allowed = (usage \<le> limit), rs_current_usage = usage, rs_limit = limit,
                    rs_window_seconds = window,
                    rs_reset_time = calculate_window_start now window + unat window * 1000000000 \<rparr>))"

subsection \<open>Reservations\<close>

definition reserve_user_operation ::
  "address_text \<Rightarrow> sys_time \<Rightarrow> string \<Rightarrow> u160 \<Rightarrow> rate_limit_operation \<Rightarrow> rate_limiter \<Rightarrow> rate_limiter" where
  "reserve_user_operation ad now key relayer op rl =
     rl\<lparr> lm_usage := reserve_window (user_key ad key relayer op) now (user_window (lm_config rl))
                       (lm_usage rl) \<rparr>"

definition reserve_global_user_operation ::
  "sys_time \<Rightarrow> rate_limit_operation \<Rightarrow> rate_limiter \<Rightarrow> rate_limiter" where
  "reserve_global_user_operation now op rl =
     (case global_limits (lm_config rl) of
        Some l \<Rightarrow> rl\<lparr> lm_global := reserve_window (global_key op) now (parse_interval (ri_interval l))
                                    (lm_global rl) \<rparr>
      | None \<Rightarrow> rl)"

definition reserve_relayer_operation ::
  "address_text \<Rightarrow> sys_time \<Rightarrow> u160 \<Rightarrow> rate_limit_operation \<Rightarrow> rate_limiter \<Rightarrow> rate_limiter" where
  "reserve_relayer_operation ad now relayer op rl =
     (case rc_relayer_limits (lm_config rl) of
        Some l \<Rightarrow> rl\<lparr> lm_relayer := reserve_window (relayer_key ad relayer op) now
                                     (parse_interval (ri_interval l)) (lm_relayer rl) \<rparr>
      | None \<Rightarrow> rl)"

subsection \<open>A request\<close>

text \<open>One clock reading per check and per reservation.\<close>

record limiter_clock =
  ck_relayer :: sys_time
  ck_global :: sys_time
  ck_user :: sys_time
  ck_reserve_user :: sys_time
  ck_reserve_global :: sys_time
  ck_reserve_relayer :: sys_time

record reservation =
  rv_user_key :: string
  rv_operation :: rate_limit_operation
  rv_relayer :: u160

definition check_all ::
  "address_text \<Rightarrow> limiter_clock \<Rightarrow> string option \<Rightarrow> u160 \<Rightarrow> rate_limit_operation \<Rightarrow> rate_limiter \<Rightarrow>
   rate_limit_error + string" where
  "check_all ad ck header relayer op rl =
     and_then (detect ad (lm_config rl) header relayer) (\<lambda>key.
     and_then (case rc_relayer_limits (lm_config rl) of
                 Some l \<Rightarrow> check_relayer_limits ad l (ck_relayer ck) relayer op rl
               | None \<Rightarrow> Inr ()) (\<lambda>_.
     and_then (case global_limits (lm_config rl) of
                 Some l \<Rightarrow> check_global_user_limits l (ck_global ck) op rl
               | None \<Rightarrow> Inr ()) (\<lambda>_.
       let r = check_user_limits ad (ck_user ck) key relayer op rl
       in if rs_allowed r then Inr key
          else Inl (LimitExceeded (operation_str op) (rs_current_usage r) (rs_limit r)
                      (rs_window_seconds r)))))"

definition reserve_all ::
  "address_text \<Rightarrow> limiter_clock \<Rightarrow> string \<Rightarrow> u160 \<Rightarrow> rate_limit_operation \<Rightarrow> rate_limiter \<Rightarrow> rate_limiter" where
  "reserve_all ad ck key relayer op rl =
     reserve_relayer_operation ad (ck_reserve_relayer ck) relayer op
       (reserve_global_user_operation (ck_reserve_global ck) op
         (reserve_user_operation ad (ck_reserve_user ck) key relayer op rl))"

definition check_and_reserve ::
  "address_text \<Rightarrow> limiter_clock \<Rightarrow> string option \<Rightarrow> u160 \<Rightarrow> rate_limit_operation \<Rightarrow> rate_limiter \<Rightarrow>
   rate_limiter \<times> (rate_limit_error + reservation)" where
  "check_and_reserve ad ck header relayer op rl =
     (case check_all ad ck header relayer op rl of
        Inl e \<Rightarrow> (rl, Inl e)
      | Inr key \<Rightarrow>
          (reserve_all ad ck key relayer op rl,
           Inr \<lparr> rv_user_key = key, rv_operation = op, rv_relayer = relayer \<rparr>))"

text \<open>\<open>revert\<close>, and the drop of a reservation that was not committed.\<close>

definition revert :: "address_text \<Rightarrow> reservation \<Rightarrow> rate_limiter \<Rightarrow> rate_limiter" where
  "revert ad rv rl =
     (let rl1 = rl\<lparr> lm_usage := revert_window (user_key ad (rv_user_key rv) (rv_relayer rv) (rv_operation rv))
                                  (lm_usage rl) \<rparr>;
          rl2 = (if global_limits (lm_config rl) \<noteq> None
                 then rl1\<lparr> lm_global := revert_window (global_key (rv_operation rv)) (lm_global rl1) \<rparr>
                 else rl1)
      in if rc_relayer_limits (lm_config rl) \<noteq> None
         then rl2\<lparr> lm_relayer := revert_window (relayer_key ad (rv_relayer rv) (rv_operation rv))
                                   (lm_relayer rl2) \<rparr>
         else rl2)"

text \<open>
  The outcome a request handler sees: a reservation to hold, no limiting, or the answer 404 or 429, or
  the error of the relayer lookup (\<open>found\<close>). A missing key lets the request through.
\<close>

datatype limiter_outcome =
    Reserved reservation | NotLimited | TooManyRequests | RelayerDoesNotExist | LookupFailed string

definition check_and_reserve_rate_limit ::
  "address_text \<Rightarrow> limiter_clock \<Rightarrow> string option \<Rightarrow> string + u160 option \<Rightarrow> rate_limit_operation \<Rightarrow>
   rate_limiter option \<Rightarrow> rate_limiter option \<times> limiter_outcome" where
  "check_and_reserve_rate_limit ad ck header found op limiter =
     (case limiter of
        None \<Rightarrow> (None, NotLimited)
      | Some rl \<Rightarrow>
          (case found of
             Inl e \<Rightarrow> (limiter, LookupFailed e)
           | Inr None \<Rightarrow> (limiter, RelayerDoesNotExist)
           | Inr (Some relayer) \<Rightarrow>
               (case check_and_reserve ad ck header relayer op rl of
                  (rl', Inr rv) \<Rightarrow> (Some rl', Reserved rv)
                | (rl', Inl (LimitExceeded _ _ _ _)) \<Rightarrow> (Some rl', TooManyRequests)
                | (rl', Inl NoRateLimitKey) \<Rightarrow> (Some rl', NotLimited))))"

end
