(* ===== verification/Limiter_Properties.thy ===== *)
theory Limiter_Properties
  imports Rate_Limiter
begin

text \<open>
  Properties of the rate limiter: windows have a length, counts stay within the limits when requests
  are served one after another, a reverted reservation leaves no trace, and two requests that are
  checked before either is counted exceed the limit.
\<close>

section \<open>One counter\<close>

text \<open>A counter that does not exceed its limit, and whose window does not start after \<open>now\<close>.\<close>

definition within_limit :: "nat \<Rightarrow> sys_time \<Rightarrow> usage_cache \<Rightarrow> string \<Rightarrow> bool" where
  "within_limit limit now cache key =
     (case cache key of
        None \<Rightarrow> True
      | Some u \<Rightarrow> unat (uw_usage_count u) \<le> limit \<and> uw_window_start u \<le> now)"

lemma window_start_le: "calculate_window_start now w \<le> now"
proof -
  have "as_secs now div unat w * unat w * 1000000000 \<le> as_secs now * 1000000000"
    by (simp add: div_times_less_eq_dividend)
  also have "\<dots> \<le> now" by (simp add: as_secs_def)
  finally show ?thesis by (simp add: calculate_window_start_def)
qed

lemma window_expired_mono:
  assumes "window_expired now w u" "uw_window_start u \<le> now" "now \<le> later"
  shows "window_expired later w u"
proof -
  have "as_secs (now - uw_window_start u) \<le> as_secs (later - uw_window_start u)"
    using assms(3) by (simp add: as_secs_def div_le_mono)
  with assms show ?thesis by (auto simp: window_expired_def split: if_splits)
qed

lemma within_other [simp]:
  "key \<noteq> key' \<Longrightarrow> within_limit limit now (cache(key' := v)) key = within_limit limit now cache key"
  by (simp add: within_limit_def)

lemma within_mono: "within_limit limit now cache key \<Longrightarrow> now \<le> later \<Longrightarrow> within_limit limit later cache key"
  by (auto simp: within_limit_def split: option.splits)

lemma within_revert [simp]:
  "within_limit limit now cache key \<Longrightarrow> within_limit limit now (revert_window key' cache) key"
  by (auto simp: within_limit_def revert_window_def unat_minus_one word_gt_0 split: option.splits)

text \<open>What a check allowed and a later reservation counted is within the limit.\<close>

lemma reserve_within:
  assumes "within_limit (unat limit) now cache key" "now \<le> checked" "checked \<le> later"
    and "current_usage cache key checked w \<le> limit"
  shows "within_limit (unat limit) later (reserve_window key later w cache) key"
proof (cases "cache key")
  case None
  have "1 \<le> limit"
    using assms(4) None by (simp add: current_usage_def window_of_def Let_def split: if_splits)
  with None show ?thesis
    by (auto simp: within_limit_def reserve_window_def window_of_def Let_def window_start_le word_le_nat_alt)
next
  case (Some u)
  then have u: "uw_window_start u \<le> checked" "unat (uw_usage_count u) \<le> unat limit"
    using assms(1,2) by (auto simp: within_limit_def)
  show ?thesis
  proof (cases "window_expired later w u")
    case True
    have "limit \<noteq> 0"
    proof
      assume "limit = 0"
      moreover from this u(2) have "uw_usage_count u = 0" by (simp add: unat_eq_zero)
      ultimately show False
        using assms(4) Some by (simp add: current_usage_def window_of_def Let_def split: if_splits)
    qed
    then have "1 \<le> unat limit" using unat_eq_zero [of limit] by linarith
    with True Some show ?thesis
      by (simp add: within_limit_def reserve_window_def window_of_def Let_def window_start_le word_le_nat_alt)
  next
    case False
    then have "\<not> window_expired checked w u"
      using window_expired_mono [of checked w u later] u(1) assms(3) by blast
    then have "uw_usage_count u + 1 \<le> limit"
      using assms(4) Some by (simp add: current_usage_def window_of_def Let_def)
    with False Some u(1) assms(3) show ?thesis
      by (simp add: within_limit_def reserve_window_def window_of_def Let_def word_le_nat_alt)
  qed
qed

text \<open>A reservation that is counted in a window and taken back leaves the cache as it was.\<close>

definition live :: "usage_cache \<Rightarrow> string \<Rightarrow> sys_time \<Rightarrow> u32 \<Rightarrow> bool" where
  "live cache key now w =
     (case cache key of
        None \<Rightarrow> False
      | Some u \<Rightarrow> \<not> window_expired now w u \<and> uw_usage_count u \<noteq> - 1)"

lemma revert_reserve_window:
  "live cache key now w \<Longrightarrow> revert_window key (reserve_window key now w cache) = cache"
  by (auto simp: live_def revert_window_def reserve_window_def window_of_def Let_def fun_upd_idem
      word_gt_0 eq_neg_iff_add_eq_0 split: option.splits)

section \<open>Runs\<close>

text \<open>The clock readings of one request, in the order the code takes them.\<close>

definition clock_ordered :: "limiter_clock \<Rightarrow> bool" where
  "clock_ordered ck =
     (ck_relayer ck \<le> ck_global ck \<and> ck_global ck \<le> ck_user ck \<and> ck_user ck \<le> ck_reserve_user ck
      \<and> ck_reserve_user ck \<le> ck_reserve_global ck \<and> ck_reserve_global ck \<le> ck_reserve_relayer ck)"

text \<open>
  A limiter that serves one request after another under a clock that does not run backwards, with
  reservations taken back at any time.
\<close>

inductive limiter_run :: "address_text \<Rightarrow> rate_limit_config \<Rightarrow> sys_time \<Rightarrow> rate_limiter \<Rightarrow> bool"
  for ad :: address_text and c :: rate_limit_config where
  Fresh: "limiter_run ad c 0 (new_rate_limiter c)"
| Request: "limiter_run ad c now rl \<Longrightarrow> clock_ordered ck \<Longrightarrow> now \<le> ck_relayer ck \<Longrightarrow>
    limiter_run ad c (ck_reserve_relayer ck) (fst (check_and_reserve ad ck header relayer op rl))"
| Revert: "limiter_run ad c now rl \<Longrightarrow> limiter_run ad c now (revert ad rv rl)"

text \<open>Every counter of the limiter within its limit.\<close>

definition counters_within :: "address_text \<Rightarrow> rate_limit_config \<Rightarrow> sys_time \<Rightarrow> rate_limiter \<Rightarrow> bool" where
  "counters_within ad c now rl =
     (lm_config rl = c
      \<and> (\<forall>key relayer op. user_limit c op \<noteq> - 1 \<longrightarrow>
           within_limit (unat (user_limit c op)) now (lm_usage rl) (user_key ad key relayer op))
      \<and> (\<forall>l op. global_limits c = Some l \<longrightarrow> within_limit (unat (limit_of l op)) now (lm_global rl) (global_key op))
      \<and> (\<forall>l relayer op. rc_relayer_limits c = Some l \<longrightarrow>
           within_limit (unat (limit_of l op)) now (lm_relayer rl) (relayer_key ad relayer op)))"

text \<open>Keys of different operations differ, since the operation ends them.\<close>

lemma user_key_operation: "user_key ad k r op = user_key ad k' r' op' \<Longrightarrow> op = op'"
proof -
  assume "user_key ad k r op = user_key ad k' r' op'"
  then have "last (user_key ad k r op) = last (user_key ad k' r' op')" by simp
  then show ?thesis by (cases op; cases op') (auto simp: user_key_def operation_str_def)
qed

lemma relayer_key_operation: "relayer_key ad r op = relayer_key ad r' op' \<Longrightarrow> op = op'"
proof -
  assume "relayer_key ad r op = relayer_key ad r' op'"
  then have "last (relayer_key ad r op) = last (relayer_key ad r' op')" by simp
  then show ?thesis by (cases op; cases op') (auto simp: relayer_key_def)
qed

lemma global_key_operation: "global_key op = global_key op' \<Longrightarrow> op = op'"
  by (cases op; cases op') (auto simp: global_key_def)

lemma within_reserve:
  assumes "within_limit (unat limit) now cache key" "now \<le> checked" "checked \<le> later"
    and "key = key' \<longrightarrow> current_usage cache key' checked w \<le> limit"
  shows "within_limit (unat limit) later (reserve_window key' later w cache) key"
proof (cases "key = key'")
  case True
  with assms reserve_within [of limit now cache key checked later w] show ?thesis by simp
next
  case False
  then show ?thesis
    using within_mono [OF assms(1), of later] assms(2,3) by (simp add: reserve_window_def Let_def)
qed

lemma check_all_Inr:
  assumes "check_all ad ck header relayer op rl = Inr key"
  shows "user_limit (lm_config rl) op \<noteq> - 1 \<Longrightarrow> current_usage (lm_usage rl) (user_key ad key relayer op)
      (ck_user ck) (user_window (lm_config rl)) \<le> user_limit (lm_config rl) op"
    and "global_limits (lm_config rl) = Some l \<Longrightarrow> current_usage (lm_global rl) (global_key op)
      (ck_global ck) (parse_interval (ri_interval l)) \<le> limit_of l op"
    and "rc_relayer_limits (lm_config rl) = Some l' \<Longrightarrow> current_usage (lm_relayer rl)
      (relayer_key ad relayer op) (ck_relayer ck) (parse_interval (ri_interval l')) \<le> limit_of l' op"
  using assms
  by (auto simp: check_all_def and_then_Inr check_user_limits_def check_global_user_limits_def
      check_relayer_limits_def Let_def not_less split: if_splits)

lemma counters_within_mono: "counters_within ad c now rl \<Longrightarrow> now \<le> later \<Longrightarrow> counters_within ad c later rl"
  by (simp add: counters_within_def within_mono [of _ now _ _ later])

lemma counters_within_request:
  assumes "counters_within ad c now rl" "clock_ordered ck" "now \<le> ck_relayer ck"
  shows "counters_within ad c (ck_reserve_relayer ck) (fst (check_and_reserve ad ck header relayer op rl))"
proof (cases "check_all ad ck header relayer op rl")
  case (Inl e)
  have "now \<le> ck_reserve_relayer ck" using assms(2,3) by (simp add: clock_ordered_def)
  with assms(1) Inl show ?thesis by (auto simp: check_and_reserve_def dest: counters_within_mono)
next
  case (Inr key)
  note c = check_all_Inr [OF Inr]
  have conf: "lm_config rl = c" using assms(1) by (simp add: counters_within_def)
  let ?rl = "reserve_all ad ck key relayer op rl"
  have u: "within_limit (unat (user_limit c op')) (ck_reserve_relayer ck) (lm_usage ?rl) (user_key ad k r op')"
    if "user_limit c op' \<noteq> - 1" for k r op'
  proof -
    have "within_limit (unat (user_limit c op')) (ck_reserve_user ck) (reserve_window (user_key ad key relayer op)
        (ck_reserve_user ck) (user_window c) (lm_usage rl)) (user_key ad k r op')"
      using assms that c(1) conf
      by (intro within_reserve [of _ now _ _ "ck_user ck"])
         (auto simp: counters_within_def clock_ordered_def dest: user_key_operation)
    then show ?thesis
      using assms(2) conf by (auto simp: reserve_all_def reserve_user_operation_def clock_ordered_def
          reserve_global_user_operation_def reserve_relayer_operation_def split: option.splits
          elim!: within_mono)
  qed
  have g: "within_limit (unat (limit_of l op')) (ck_reserve_relayer ck) (lm_global ?rl) (global_key op')"
    if "global_limits c = Some l" for l op'
  proof -
    have "within_limit (unat (limit_of l op')) (ck_reserve_global ck) (reserve_window (global_key op)
        (ck_reserve_global ck) (parse_interval (ri_interval l)) (lm_global rl)) (global_key op')"
      using assms that c(2) conf
      by (intro within_reserve [of _ now _ _ "ck_global ck"])
         (auto simp: counters_within_def clock_ordered_def dest: global_key_operation)
    then show ?thesis
      using assms(2) conf that by (auto simp: reserve_all_def reserve_user_operation_def clock_ordered_def
          reserve_global_user_operation_def reserve_relayer_operation_def split: option.splits
          elim!: within_mono)
  qed
  have r: "within_limit (unat (limit_of l op')) (ck_reserve_relayer ck) (lm_relayer ?rl) (relayer_key ad r op')"
    if "rc_relayer_limits c = Some l" for l r op'
  proof -
    have "within_limit (unat (limit_of l op')) (ck_reserve_relayer ck) (reserve_window (relayer_key ad relayer op)
        (ck_reserve_relayer ck) (parse_interval (ri_interval l)) (lm_relayer rl)) (relayer_key ad r op')"
      using assms that c(3) conf
      by (intro within_reserve [of _ now _ _ "ck_relayer ck"])
         (auto simp: counters_within_def clock_ordered_def dest: relayer_key_operation)
    then show ?thesis
      using conf that by (simp add: reserve_all_def reserve_user_operation_def
          reserve_global_user_operation_def reserve_relayer_operation_def split: option.splits)
  qed
  have "lm_config ?rl = c"
    using conf by (simp add: reserve_all_def reserve_user_operation_def reserve_global_user_operation_def
        reserve_relayer_operation_def split: option.splits)
  with u g r Inr show ?thesis by (simp add: check_and_reserve_def counters_within_def)
qed

lemma counters_within_revert: "counters_within ad c now rl \<Longrightarrow> counters_within ad c now (revert ad rv rl)"
  by (auto simp: counters_within_def revert_def Let_def)

text \<open>C11: As long as requests are served one after another under a clock that does not run backwards,
  every stored counter (per user and relayer, for all users, per relayer) stays within the configured
  limit of its operation, whatever the requests and however reservations are taken back.\<close>

theorem sequential_requests_within_limits:
  assumes "limiter_run ad c now rl"
  shows "counters_within ad c now rl"
  using assms
proof (induction rule: limiter_run.induct)
  case Fresh
  show ?case by (simp add: counters_within_def new_rate_limiter_def within_limit_def)
next
  case (Request now rl ck header relayer op)
  from Request.IH Request.hyps(2,3) show ?case by (rule counters_within_request)
next
  case (Revert now rl rv)
  from Revert.IH show ?case by (rule counters_within_revert)
qed

definition ex_limits :: rate_limit_with_interval where
  "ex_limits = \<lparr> ri_interval = ''minute'', ri_transactions = 1, ri_signing_operations = 1 \<rparr>"

definition ex_limit_config :: rate_limit_config where
  "ex_limit_config = \<lparr> rc_user_limits = Some \<lparr> ur_per_relayer = Some ex_limits, ur_global = Some ex_limits \<rparr>,
     rc_relayer_limits = Some ex_limits, rc_fallback_to_relayer = True \<rparr>"

definition ex_text :: address_text where
  "ex_text = \<lparr> at_show = (\<lambda>a. ''0x2a''), at_hex = (\<lambda>a. ''0x2a'') \<rparr>"

definition ex_clock :: limiter_clock where
  "ex_clock = \<lparr> ck_relayer = 5, ck_global = 5, ck_user = 5, ck_reserve_user = 6, ck_reserve_global = 6,
     ck_reserve_relayer = 7 \<rparr>"

lemmas limiter_eval =
  check_and_reserve_def check_all_def detect_def check_relayer_limits_def check_global_user_limits_def
  check_user_limits_def reserve_all_def reserve_user_operation_def reserve_global_user_operation_def
  reserve_relayer_operation_def current_usage_def window_of_def reserve_window_def window_expired_def
  calculate_window_start_def as_secs_def user_limit_def user_window_def get_limits_for_user_def
  global_limits_def limit_of_def parse_interval_def trim_def is_space_def user_key_def global_key_def
  relayer_key_def operation_str_def new_rate_limiter_def ex_limits_def ex_limit_config_def ex_text_def
  ex_clock_def Let_def

abbreviation ex_limited :: "rate_limiter \<times> (rate_limit_error + reservation)" where
  "ex_limited \<equiv> check_and_reserve ex_text ex_clock (Some ''alice'') 42 RlTransaction
     (new_rate_limiter ex_limit_config)"

theorem sequential_requests_within_limits_witness:
  "is_ok (snd ex_limited) \<and> counters_within ex_text ex_limit_config 7 (fst ex_limited)"
proof -
  have "limiter_run ex_text ex_limit_config (ck_reserve_relayer ex_clock) (fst ex_limited)"
    by (rule limiter_run.Request [OF limiter_run.Fresh]) (simp_all add: ex_clock_def clock_ordered_def)
  from sequential_requests_within_limits [OF this]
  have "counters_within ex_text ex_limit_config 7 (fst ex_limited)" by (simp add: ex_clock_def)
  moreover have "is_ok (snd ex_limited)" by (simp add: limiter_eval)
  ultimately show ?thesis by simp
qed

section \<open>Taking a reservation back\<close>

text \<open>A granted request whose three windows were running is undone exactly by taking its reservation
  back: every cache is what it was before.\<close>

theorem revert_undoes_reservation:
  assumes "check_and_reserve ad ck header relayer op rl = (rl', Inr rv)"
    and "live (lm_usage rl) (user_key ad (rv_user_key rv) relayer op) (ck_reserve_user ck) (user_window (lm_config rl))"
    and "case global_limits (lm_config rl) of None \<Rightarrow> True
       | Some l \<Rightarrow> live (lm_global rl) (global_key op) (ck_reserve_global ck) (parse_interval (ri_interval l))"
    and "case rc_relayer_limits (lm_config rl) of None \<Rightarrow> True
       | Some l \<Rightarrow> live (lm_relayer rl) (relayer_key ad relayer op) (ck_reserve_relayer ck) (parse_interval (ri_interval l))"
  shows "revert ad rv rl' = rl"
proof -
  from assms(1) obtain key where rl': "rl' = reserve_all ad ck key relayer op rl"
    and rv: "rv = \<lparr> rv_user_key = key, rv_operation = op, rv_relayer = relayer \<rparr>"
    by (auto simp: check_and_reserve_def split: sum.splits)
  show ?thesis
    using assms(2-4) revert_reserve_window unfolding rl' rv
    by (cases "global_limits (lm_config rl)"; cases "rc_relayer_limits (lm_config rl)")
       (simp_all add: revert_def reserve_all_def reserve_user_operation_def reserve_global_user_operation_def
         reserve_relayer_operation_def Let_def)
qed

definition ex_busy :: rate_limiter where
  "ex_busy = \<lparr> lm_config = ex_limit_config,
     lm_usage = [''alice_0x2a_transactions'' \<mapsto> \<lparr> uw_usage_count = 0, uw_window_start = 0 \<rparr>],
     lm_global = [''global_user_tx'' \<mapsto> \<lparr> uw_usage_count = 0, uw_window_start = 0 \<rparr>],
     lm_relayer = [''relayer_0x2a_tx'' \<mapsto> \<lparr> uw_usage_count = 0, uw_window_start = 0 \<rparr>] \<rparr>"

theorem revert_undoes_reservation_witness:
  "\<exists>rl' rv. check_and_reserve ex_text ex_clock (Some ''alice'') 42 RlTransaction ex_busy = (rl', Inr rv)
    \<and> revert ex_text rv rl' = ex_busy"
proof -
  have c: "case check_and_reserve ex_text ex_clock (Some ''alice'') 42 RlTransaction ex_busy of
      (rl', Inl e) \<Rightarrow> False | (rl', Inr rv) \<Rightarrow> rv_user_key rv = ''alice''"
    by (simp add: limiter_eval ex_busy_def)
  obtain rl' r where run0: "check_and_reserve ex_text ex_clock (Some ''alice'') 42 RlTransaction ex_busy
      = (rl', r)" by force
  with c obtain rv where k: "r = Inr rv" "rv_user_key rv = ''alice''" by (cases r) auto
  note run = run0 [unfolded k(1)]
  have l: "live (lm_usage ex_busy) (user_key ex_text ''alice'' 42 RlTransaction) (ck_reserve_user ex_clock)
      (user_window (lm_config ex_busy))"
    "case global_limits (lm_config ex_busy) of None \<Rightarrow> True
       | Some l \<Rightarrow> live (lm_global ex_busy) (global_key RlTransaction) (ck_reserve_global ex_clock) (parse_interval (ri_interval l))"
    "case rc_relayer_limits (lm_config ex_busy) of None \<Rightarrow> True
       | Some l \<Rightarrow> live (lm_relayer ex_busy) (relayer_key ex_text 42 RlTransaction) (ck_reserve_relayer ex_clock) (parse_interval (ri_interval l))"
    by (simp_all add: limiter_eval ex_busy_def live_def)
  from revert_undoes_reservation [OF run _ l(2,3)] k l(1) run show ?thesis by simp
qed

section \<open>Windows\<close>

lemma parse_interval_pos: "0 < unat (parse_interval s)"
  by (auto simp: parse_interval_def Let_def unat_gt_0 max_def split: option.splits)

text \<open>The window of a user is never empty, whatever interval is configured, and the start that is
  computed for it is a multiple of the window with the present inside it; the division by the length
  of the window is therefore always defined.\<close>

theorem user_window_contains_now:
  "0 < unat (user_window c) \<and> calculate_window_start now (user_window c) \<le> now
    \<and> now < calculate_window_start now (user_window c) + unat (user_window c) * 1000000000
    \<and> unat (user_window c) * 1000000000 dvd calculate_window_start now (user_window c)"
proof -
  let ?w = "unat (user_window c)"
  have w: "0 < ?w"
    by (auto simp: user_window_def get_limits_for_user_def parse_interval_pos split: option.splits)
  have "as_secs now < (as_secs now div ?w) * ?w + ?w"
    using dividend_less_div_times [OF w, of "as_secs now"] by (simp add: add.commute)
  then have "as_secs now + 1 \<le> (as_secs now div ?w) * ?w + ?w" by simp
  then have "(as_secs now + 1) * 1000000000 \<le> ((as_secs now div ?w) * ?w + ?w) * 1000000000"
    by (rule mult_le_mono1)
  moreover have "now < (as_secs now + 1) * 1000000000" by (simp add: as_secs_def)
  ultimately have "now < calculate_window_start now (user_window c) + ?w * 1000000000"
    by (simp add: calculate_window_start_def algebra_simps)
  then show ?thesis using w window_start_le by (auto simp: calculate_window_start_def)
qed

section \<open>Requests that are checked together\<close>

text \<open>
  The checks and the reservations take separate locks: two requests that are both checked before
  either is counted are both granted, and the counter ends above the limit of one.
\<close>

lemma reserve_all_usage:
  "lm_usage (reserve_all ad ck key relayer op rl) =
     reserve_window (user_key ad key relayer op) (ck_reserve_user ck) (user_window (lm_config rl)) (lm_usage rl)"
  "lm_config (reserve_all ad ck key relayer op rl) = lm_config rl"
  by (simp_all add: reserve_all_def reserve_user_operation_def reserve_global_user_operation_def
      reserve_relayer_operation_def split: option.splits)

lemma concurrent_requests_exceed_limit:
  "check_all ex_text ex_clock (Some ''alice'') 42 RlTransaction (new_rate_limiter ex_limit_config) = Inr ''alice''
   \<and> user_limit ex_limit_config RlTransaction = 1
   \<and> map_option uw_usage_count (lm_usage
       (reserve_all ex_text ex_clock ''alice'' 42 RlTransaction
         (reserve_all ex_text ex_clock ''alice'' 42 RlTransaction (new_rate_limiter ex_limit_config)))
       (user_key ex_text ''alice'' 42 RlTransaction)) = Some 2"
proof (intro conjI)
  show "check_all ex_text ex_clock (Some ''alice'') 42 RlTransaction (new_rate_limiter ex_limit_config) = Inr ''alice''"
    by (simp add: limiter_eval)
  show "user_limit ex_limit_config RlTransaction = 1" by (simp add: limiter_eval)
  have w: "user_window ex_limit_config = 60" by (simp add: limiter_eval)
  show "map_option uw_usage_count (lm_usage
       (reserve_all ex_text ex_clock ''alice'' 42 RlTransaction
         (reserve_all ex_text ex_clock ''alice'' 42 RlTransaction (new_rate_limiter ex_limit_config)))
       (user_key ex_text ''alice'' 42 RlTransaction)) = Some 2"
    unfolding reserve_all_usage
    by (simp add: reserve_window_def window_of_def window_expired_def calculate_window_start_def as_secs_def
        new_rate_limiter_def w ex_clock_def Let_def)
qed

text \<open>
  A window counts as running for one second too long: at the first instant of the next aligned window
  the counter of the old one still applies.
\<close>

lemma window_runs_a_second_long:
  "\<not> window_expired 60500000000 60 \<lparr> uw_usage_count = 5, uw_window_start = 0 \<rparr>
    \<and> calculate_window_start 60500000000 60 = 60000000000"
  by (simp add: window_expired_def calculate_window_start_def as_secs_def)

end
