(* ===== verification/Startup_Properties.thy ===== *)
theory Startup_Properties
  imports Examples
begin

text \<open>
  Properties of startup: it returns, it reloads everything, the repair of recorded attempts fails only
  transactions none of whose attempts can execute, and the first nonce handed out is free.
\<close>

section \<open>Startup returns\<close>

text \<open>The page loop ends whatever the connection answers, as long as the offset can count the rows.\<close>

lemma load_pages_returns:
  assumes "\<And>pc. length (pr_items (page pc d)) \<le> length rows - unat (pc_offset pc)"
    and "length rows + 1000 < 2 ^ 32"
  shows "\<exists>r. load_pages faults page d k \<lparr> pc_limit = 1000, pc_offset = off \<rparr> acc = Some r"
proof (induction "length rows + 1000 - unat off" arbitrary: off k acc rule: less_induct)
  case less
  let ?pc = "\<lparr> pc_limit = 1000, pc_offset = off \<rparr>"
  show ?case
  proof (cases "faults k = None \<and> unat off < length rows \<and> pr_items (page ?pc d) \<noteq> []")
    case False
    then have "faults k \<noteq> None \<or> pr_items (page ?pc d) = []" using assms(1) [of ?pc] by auto
    then show ?thesis
      by (subst load_pages.simps) (auto simp: run_query_def paging_next_def split: option.splits)
  next
    case True
    then have lt: "unat off < length rows" by simp
    then have off': "unat (off + 1000) = unat off + 1000"
      using assms(2) by (intro unat_add_1000) simp
    have "\<exists>r. load_pages faults page d (Suc k) \<lparr> pc_limit = 1000, pc_offset = off + 1000 \<rparr>
            (acc @ pr_items (page ?pc d)) = Some r"
      by (rule less) (use lt off' in linarith)
    with True show ?thesis
      by (subst load_pages.simps) (simp add: run_query_def paging_next_def)
  qed
qed

lemma sorted_page_length:
  "length (pr_items (page_of pc (sort_key signed_nonce (filter p rs)))) \<le> length rs - unat (pc_offset pc)"
proof -
  have "length (filter p rs) - unat (pc_offset pc) \<le> length rs - unat (pc_offset pc)"
    by (rule diff_le_mono) simp
  then show ?thesis by (simp add: slice_def)
qed

definition rows_countable :: "db \<Rightarrow> bool" where
  "rows_countable d = (length (db_rows d) + 1000 < 2 ^ 32)"

lemma repopulate_returns:
  "rows_countable d \<Longrightarrow> \<exists>r. repopulate_transaction_queue faults rid st d = Some r"
  unfolding repopulate_transaction_queue_def first_page_def rows_countable_def
  by (rule load_pages_returns [where rows = "db_rows d"])
     (simp_all only: get_transactions_by_status_for_relayer_def sorted_page_length)

lemma evidence_pages_return:
  "rows_countable d \<Longrightarrow>
     \<exists>r. load_pages faults (get_pending_transactions_with_attempt_evidence_for_relayer rid) d 0 first_page [] = Some r"
  unfolding first_page_def rows_countable_def
  by (rule load_pages_returns [where rows = "db_rows d"])
     (simp_all only: get_pending_transactions_with_attempt_evidence_for_relayer_def sorted_page_length)

text \<open>The repairs only update rows.\<close>

definition keeps_length :: "'a stmt \<Rightarrow> bool" where
  "keeps_length f = (\<forall>d d' a. f d = Inr (d', a) \<longrightarrow> length (db_rows d') = length (db_rows d))"

lemma run_stmt_length:
  "keeps_length f \<Longrightarrow> run_stmt ans f d = (d', r) \<Longrightarrow> length (db_rows d') = length (db_rows d)"
  by (erule run_stmt_cases) (auto simp: keeps_length_def)

lemma keeps_length_repairs:
  "keeps_length (repair_poisoned_pending_transactions_for_relayer rid)"
  "keeps_length (recover_landed_transaction_attempt rid i h g b legacy now)"
  "keeps_length (repair_absent_one rid n reason now c)"
  by (auto simp: keeps_length_def repair_poisoned_pending_transactions_for_relayer_def
      recover_landed_transaction_attempt_def repair_absent_one_def Let_def commit_Inr update_where_def)

lemma repair_absent_loop_length:
  "repair_absent_loop rid n reason now cs acc d = Inr (d', a) \<Longrightarrow> length (db_rows d') = length (db_rows d)"
proof (induction cs arbitrary: acc d)
  case Nil
  then show ?case by simp
next
  case (Cons c cs)
  then show ?case using keeps_length_repairs(3) [of rid n reason now c]
    by (auto simp: and_then_Inr keeps_length_def)
qed

lemma keeps_length_repair_absent:
  "keeps_length (repair_absent_pending_transactions_for_relayer rid n cs reason now)"
  by (auto simp: keeps_length_def repair_absent_pending_transactions_for_relayer_def and_then_Inr
      split: if_splits dest: repair_absent_loop_length)

lemma reconcile_candidate_length:
  "reconcile_candidate env r n t d = (d', res) \<Longrightarrow> length (db_rows d') = length (db_rows d)"
  unfolding reconcile_candidate_def
  by (auto split: sum.splits option.splits if_splits prod.splits bool.splits
      dest!: run_stmt_length [OF keeps_length_repairs(2)])

lemma reconcile_candidates_length:
  "reconcile_candidates env r n ts absent d = (d', res) \<Longrightarrow> length (db_rows d') = length (db_rows d)"
proof (induction ts arbitrary: absent d)
  case Nil
  then show ?case by auto
next
  case (Cons t ts)
  obtain d1 c where c: "reconcile_candidate env r n t d = (d1, c)" by force
  from reconcile_candidate_length [OF c] Cons show ?case by (auto simp: c split: sum.splits)
qed

lemma repair_recorded_attempts_returns:
  assumes "rows_countable d"
  shows "\<exists>d' res. repair_recorded_attempts_for_relayer env r d = Some (d', res)
    \<and> length (db_rows d') = length (db_rows d)"
proof (cases "re_chain_nonce env")
  case (Inl e)
  then show ?thesis by (simp add: repair_recorded_attempts_for_relayer_def)
next
  case (Inr n)
  obtain x where x: "load_pages (re_page_faults env)
      (get_pending_transactions_with_attempt_evidence_for_relayer (rl_id r)) d 0 first_page [] = Some x"
    using evidence_pages_return [OF assms] by blast
  show ?thesis
  proof (cases x)
    case (Inl e)
    with Inr x show ?thesis by (simp add: repair_recorded_attempts_for_relayer_def)
  next
    case candidates: (Inr ts)
    obtain d1 y where y: "reconcile_candidates env r n ts [] d = (d1, y)" by force
    note l1 = reconcile_candidates_length [OF y]
    show ?thesis
    proof (cases y)
      case (Inl e)
      with Inr x y candidates l1 show ?thesis by (simp add: repair_recorded_attempts_for_relayer_def)
    next
      case absent: (Inr cs)
      obtain d2 z where z: "run_stmt (re_absent env)
          (repair_absent_pending_transactions_for_relayer (rl_id r) n cs ABSENT_REASON (re_now env)) d1 = (d2, z)"
        by force
      from run_stmt_length [OF keeps_length_repair_absent z] Inr x y candidates absent z l1 show ?thesis
        by (cases z) (simp_all add: repair_recorded_attempts_for_relayer_def)
    qed
  qed
qed

lemma startup_relayer_returns:
  assumes "rows_countable d"
  shows "\<exists>d' res. startup_relayer configs env r d = Some (d', res) \<and> length (db_rows d') = length (db_rows d)"
proof (cases "su_provider env")
  case None
  then show ?thesis by (simp add: startup_relayer_def)
next
  case (Some p)
  obtain d1 x where x: "run_stmt (su_poisoned env)
      (repair_poisoned_pending_transactions_for_relayer (rl_id r)) d = (d1, x)" by force
  note l1 = run_stmt_length [OF keeps_length_repairs(1) x]
  then have "rows_countable d1" using assms by (simp add: rows_countable_def)
  then obtain d2 y where y: "repair_recorded_attempts_for_relayer (su_repair env) r d1 = Some (d2, y)"
    and l2: "length (db_rows d2) = length (db_rows d1)"
    using repair_recorded_attempts_returns [of d1 "su_repair env" r] by blast
  then have c: "rows_countable d2" using assms l1 by (simp add: rows_countable_def)
  obtain a b m where "repopulate_transaction_queue (su_pending_faults env) (rl_id r) PENDING d2 = Some a"
    "repopulate_transaction_queue (su_inmempool_faults env) (rl_id r) INMEMPOOL d2 = Some b"
    "repopulate_transaction_queue (su_mined_faults env) (rl_id r) MINED d2 = Some m"
    using repopulate_returns [OF c, of "su_pending_faults env" "rl_id r" PENDING]
      repopulate_returns [OF c, of "su_inmempool_faults env" "rl_id r" INMEMPOOL]
      repopulate_returns [OF c, of "su_mined_faults env" "rl_id r" MINED] by blast
  with Some x y l1 l2 show ?thesis
    by (auto simp: startup_relayer_def repopulate_competitive_transaction_queue_def split: sum.splits)
qed

lemma startup_relayers_return:
  "rows_countable d \<Longrightarrow> \<exists>r. startup_relayers configs envs rs acc d = Some r"
proof (induction rs arbitrary: acc d)
  case Nil
  then show ?case by simp
next
  case (Cons r rs)
  obtain d' res where r: "startup_relayer configs (envs (rl_id r)) r d = Some (d', res)"
    and l: "length (db_rows d') = length (db_rows d)"
    using startup_relayer_returns [OF Cons.prems] by blast
  have "rows_countable d'" using Cons.prems l by (simp add: rows_countable_def)
  with r Cons.IH show ?case by (cases res) auto
qed


definition ex_startup_env :: "(transaction_hash \<Rightarrow> rpc_error + bool) \<Rightarrow> transaction_nonce \<Rightarrow> startup_env" where
  "ex_startup_env known n = \<lparr> su_provider = Some ex_provider, su_poisoned = DbOk,
     su_repair = \<lparr> re_chain_nonce = Inr n, re_page_faults = (\<lambda>k. None), re_attempt_faults = (\<lambda>i. None),
       re_exists = known, re_recover = (\<lambda>i. DbOk), re_now = 50, re_absent = DbOk \<rparr>,
     su_pending_faults = (\<lambda>k. None), su_inmempool_faults = (\<lambda>k. None), su_mined_faults = (\<lambda>k. None) \<rparr>"


section \<open>Everything is reloaded\<close>

lemma startup_relayer_loads:
  assumes "startup_relayer configs env r d = Some (d', Inr (Some st))"
  obtains p pending inmempool mined where
    "repopulate_transaction_queue (su_pending_faults env) (rl_id r) PENDING d' = Some (Inr pending)"
    "repopulate_competitive_transaction_queue (su_inmempool_faults env) (rl_id r) d' = Some (Inr inmempool)"
    "repopulate_transaction_queue (su_mined_faults env) (rl_id r) MINED d' = Some (Inr mined)"
    "st = relayer_setup_of configs p r pending inmempool mined"
  using assms by (auto simp: startup_relayer_def split: option.splits prod.splits sum.splits)

lemma relayer_setup_of_simps [simp]:
  "rs_relayer (relayer_setup_of configs p r pending inmempool mined) = r"
  "rs_pending (relayer_setup_of configs p r pending inmempool mined) = pending"
  "rs_inmempool (relayer_setup_of configs p r pending inmempool mined) = inmempool"
  by (simp_all add: relayer_setup_of_def Let_def)

text \<open>The rows of a relayer with a status, in the order the queries return them.\<close>

definition loaded :: "relayer_id \<Rightarrow> transaction_status \<Rightarrow> db \<Rightarrow> transaction list" where
  "loaded rid st d = map build_transaction_from_transaction_view (sort_key signed_nonce
      (filter (\<lambda>r. r_relayer_id r = rid \<and> r_status r = st) (db_rows d)))"

lemma startup_relayer_loaded:
  assumes "startup_relayer configs env r d = Some (d', Inr (Some st))"
    and "\<And>k. su_pending_faults env k = None" "\<And>k. su_inmempool_faults env k = None"
    and "rows_countable d'"
  shows "rs_relayer st = r" "rs_pending st = loaded (rl_id r) PENDING d'"
    "rs_inmempool st = pair_competitors (loaded (rl_id r) INMEMPOOL d') (loaded (rl_id r) INMEMPOOL d') []"
proof -
  obtain p pending inmempool mined where l:
    "repopulate_transaction_queue (su_pending_faults env) (rl_id r) PENDING d' = Some (Inr pending)"
    "repopulate_competitive_transaction_queue (su_inmempool_faults env) (rl_id r) d' = Some (Inr inmempool)"
    "st = relayer_setup_of configs p r pending inmempool mined"
    by (rule startup_relayer_loads [OF assms(1)])
  note c = assms(4) [unfolded rows_countable_def]
  have "pending = loaded (rl_id r) PENDING d'"
    using l(1) repopulate_complete [of "su_pending_faults env", OF assms(2) c] by (simp add: loaded_def)
  moreover have "inmempool = pair_competitors (loaded (rl_id r) INMEMPOOL d') (loaded (rl_id r) INMEMPOOL d') []"
    using l(2) repopulate_complete [of "su_inmempool_faults env", OF assms(3) c]
    by (simp add: repopulate_competitive_transaction_queue_def loaded_def)
  ultimately show "rs_relayer st = r" "rs_pending st = loaded (rl_id r) PENDING d'"
    "rs_inmempool st = pair_competitors (loaded (rl_id r) INMEMPOOL d') (loaded (rl_id r) INMEMPOOL d') []"
    using l(3) by simp_all
qed

text \<open>A competitor is not itself competed for, as the handlers leave the rows.\<close>

definition no_chains :: "transaction list \<Rightarrow> bool" where
  "no_chains all = (\<forall>u \<in> set all. \<forall>c \<in> set all.
     tx_cancelled_by_transaction_id u = Some (tx_id c) \<longrightarrow> tx_cancelled_by_transaction_id c = None)"

abbreviation entries_members :: "competitive_transaction list \<Rightarrow> transaction_id set" where
  "entries_members cts \<equiv> tx_id ` (\<Union>ct \<in> set cts. set (ct_members ct))"

lemma original_new [simp]: "ct_original (new_competitive_transaction t) = t"
  by (simp add: new_competitive_transaction_def)

lemma pair_covers_originals:
  "\<forall>t \<in> set ts. tx_id t \<in> set processed \<or> tx_id t \<in> entries_members (pair_competitors all ts processed)
     \<or> (tx_cancelled_by_transaction_id t = None \<and> is_competitor_of_some all t)"
proof (induction ts arbitrary: processed)
  case Nil
  then show ?case by simp
next
  case (Cons t ts)
  consider "tx_id t \<in> set processed"
    | c where "tx_id t \<notin> set processed" "tx_cancelled_by_transaction_id t = Some (tx_id c)"
        "find (\<lambda>u. tx_id u = tx_id c) all = Some c"
    | c_id where "tx_id t \<notin> set processed" "tx_cancelled_by_transaction_id t = Some c_id"
        "find (\<lambda>u. tx_id u = c_id) all = None"
    | "tx_id t \<notin> set processed" "tx_cancelled_by_transaction_id t = None"
    using find_SomeD by (cases "tx_cancelled_by_transaction_id t"; fastforce)
  then show ?case
  proof cases
    case 1
    then show ?thesis using Cons [of processed] by auto
  next
    case (2 c)
    then show ?thesis using Cons [of "tx_id c # tx_id t # processed"] by auto
  next
    case (3 c_id)
    then show ?thesis using Cons [of "tx_id t # processed"] by auto
  next
    case 4
    then show ?thesis
      using Cons [of processed] Cons [of "tx_id t # processed"] by auto
  qed
qed

lemma pair_covers_competitors:
  assumes "distinct (map tx_id all)" "set ts \<subseteq> set all"
  shows "u \<in> set ts \<Longrightarrow> tx_cancelled_by_transaction_id u = Some (tx_id c) \<Longrightarrow> c \<in> set all \<Longrightarrow>
    tx_id u \<in> set processed \<or> tx_id c \<in> entries_members (pair_competitors all ts processed)
    \<or> (\<exists>v \<in> set all. tx_cancelled_by_transaction_id v = Some (tx_id u))"
  using assms(2)
proof (induction ts arbitrary: processed)
  case Nil
  then show ?case by simp
next
  case (Cons t ts)
  have inj: "tx_id x = tx_id y \<Longrightarrow> x \<in> set all \<Longrightarrow> y \<in> set all \<Longrightarrow> x = y" for x y
    using assms(1) by (auto simp: distinct_map dest: inj_onD)
  have u: "u \<in> set all" and t: "t \<in> set all" using Cons.prems by auto
  have fc: "find (\<lambda>w. tx_id w = tx_id c) all = Some c" by (rule find_distinct [OF assms(1) Cons.prems(3)])
  have IH: "u \<in> set ts \<Longrightarrow> tx_id u \<in> set p \<or> tx_id c \<in> entries_members (pair_competitors all ts p)
    \<or> (\<exists>v \<in> set all. tx_cancelled_by_transaction_id v = Some (tx_id u))" for p
    using Cons.IH [of p] Cons.prems by auto
  show ?case
  proof (cases "tx_id u = tx_id t")
    case True
    then have "u = t" by (rule inj [OF _ u t])
    then show ?thesis using Cons.prems(2) fc by auto
  next
    case False
    then have us: "u \<in> set ts" using Cons.prems(1) by auto
    show ?thesis
    proof (cases "tx_id t \<in> set processed")
      case True
      then show ?thesis using IH [OF us, of processed] by simp
    next
      case new: False
      show ?thesis
      proof (cases "tx_cancelled_by_transaction_id t")
        case None
        then show ?thesis
          using new IH [OF us, of processed] IH [OF us, of "tx_id t # processed"] False by auto
      next
        case (Some i)
        show ?thesis
        proof (cases "find (\<lambda>w. tx_id w = i) all")
          case None
          then show ?thesis using new Some IH [OF us, of "tx_id t # processed"] False by auto
        next
          case (Some c')
          then have "tx_id c' = i" by (auto dest: find_SomeD)
          then show ?thesis
            using new Some \<open>tx_cancelled_by_transaction_id t = Some i\<close> t False
              IH [OF us, of "tx_id c' # tx_id t # processed"] by auto
        qed
      qed
    qed
  qed
qed

lemma pair_covers:
  assumes "distinct (map tx_id all)" "no_chains all" "t \<in> set all"
  shows "tx_id t \<in> entries_members (pair_competitors all all [])"
proof -
  have o: "tx_id t \<in> entries_members (pair_competitors all all [])
      \<or> (tx_cancelled_by_transaction_id t = None \<and> is_competitor_of_some all t)"
    using pair_covers_originals [where ts = all and all = all and processed = "[]"] assms(3) by simp
  show ?thesis
  proof (rule ccontr)
    assume "\<not> ?thesis"
    with o obtain u where u: "u \<in> set all" "tx_cancelled_by_transaction_id u = Some (tx_id t)"
      by (auto simp: is_competitor_of_some_def list_ex_iff)
    from pair_covers_competitors [OF assms(1) order_refl u assms(3), of "[]"] \<open>\<not> ?thesis\<close>
    obtain v where "v \<in> set all" "tx_cancelled_by_transaction_id v = Some (tx_id u)" by auto
    with assms(2) u(1) have "tx_cancelled_by_transaction_id u = None" unfolding no_chains_def by blast
    with u(2) show False by simp
  qed
qed


declare load_pages.simps [code]

definition ex_boot :: "(db \<times> (db_error + relayer_setup option)) option" where
  "ex_boot = startup_relayer [] (ex_startup_env (\<lambda>h. Inr True) 5) ex_relayer (s_db ex_sent)"

lemma ex_boot_ok:
  "case ex_boot of Some (d, Inr (Some st)) \<Rightarrow>
      map r_id (db_rows d) = [1] \<and> map r_status (db_rows d) = [INMEMPOOL] \<and> map r_relayer_id (db_rows d) = [7]
      \<and> map r_nonce (db_rows d) = [5] \<and> no_chains (loaded 7 INMEMPOOL d)
   | _ \<Rightarrow> False"
  by code_simp

lemma ex_boot_result:
  obtains d st row where "startup_relayer [] (ex_startup_env (\<lambda>h. Inr True) 5) ex_relayer (s_db ex_sent)
      = Some (d, Inr (Some st))" "db_rows d = [row]" "r_id row = 1" "r_status row = INMEMPOOL"
    "r_relayer_id row = rl_id ex_relayer" "r_nonce row = 5" "no_chains (loaded (rl_id ex_relayer) INMEMPOOL d)"
proof -
  have rl: "rl_id ex_relayer = 7" by (simp add: ex_relayer_def)
  obtain d x where x: "ex_boot = Some (d, x)" using ex_boot_ok by (cases ex_boot) auto
  from ex_boot_ok obtain st where st: "x = Inr (Some st)"
    unfolding x by (auto split: sum.splits option.splits)
  obtain row where "db_rows d = [row]" using ex_boot_ok by (auto simp: x st)
  with that [of d st row] ex_boot_ok show thesis by (simp add: x st rl ex_boot_def [symmetric])
qed

lemma ex_env_faults:
  "su_pending_faults (ex_startup_env known n) k = None" "su_inmempool_faults (ex_startup_env known n) k = None"
  by (simp_all add: ex_startup_env_def)


section \<open>The first nonce is free\<close>

lemma pair_members_rows:
  assumes "set ts \<subseteq> set all" "m \<in> set (ct_members ct)" "ct \<in> set (pair_competitors all ts processed)"
  shows "\<exists>t \<in> set all. tx_id m = tx_id t \<and> tx_nonce m = tx_nonce t"
  using assms(1,3)
proof (induction ts arbitrary: processed)
  case Nil
  then show ?case by simp
next
  case (Cons t ts)
  have t: "t \<in> set all" and ts: "set ts \<subseteq> set all" using Cons.prems(1) by auto
  note IH = Cons.IH [OF ts]
  from Cons.prems(2) assms(2) t show ?case
    by (auto split: if_splits option.splits dest: IH dest!: find_SomeD; blast)
qed

lemma counter_after_startup:
  "snd (get_and_increment (q_nonce_manager (queue_of_setup safes st onchain)))
     = effective_startup_nonce onchain (rs_pending st) (rs_inmempool st)"
  by (simp add: queue_of_setup_def new_transactions_queue_def get_and_increment_def new_nonce_manager_def)

text \<open>C15: The first nonce a relayer hands out after startup is neither below the on-chain nonce nor the
  nonce of any of its stored PENDING or INMEMPOOL transactions, nor below one of them (nonces short of
  the largest u64, where the counter saturates).\<close>

theorem startup_nonce_is_free:
  assumes "startup_relayer configs env r d = Some (d', Inr (Some st))"
    and "\<And>k. su_pending_faults env k = None" "\<And>k. su_inmempool_faults env k = None"
    and "length (db_rows d') + 1000 < 2 ^ 32" "distinct (map r_id (db_rows d'))"
    and "no_chains (loaded (rl_id r) INMEMPOOL d')"
    and "row \<in> set (db_rows d')" "r_relayer_id row = rl_id r" "r_status row \<in> {PENDING, INMEMPOOL}"
    and "r_nonce row \<noteq> - 1"
  shows "let n = snd (get_and_increment (q_nonce_manager (queue_of_setup safes st onchain)))
         in onchain \<le> n \<and> r_nonce row < n"
proof -
  note l = startup_relayer_loaded [OF assms(1-3), unfolded rows_countable_def, OF assms(4)]
  let ?all = "loaded (rl_id r) INMEMPOOL d'"
  let ?eff = "effective_startup_nonce onchain (rs_pending st) (rs_inmempool st)"
  have in_loaded: "build_transaction_from_transaction_view row \<in> set (loaded (rl_id r) (r_status row) d')"
    using assms(7,8) by (simp add: loaded_def)
  have dist: "distinct (map tx_id ?all)"
    using assms(5) by (simp add: loaded_def distinct_map inj_on_def)
  have "r_nonce row \<in> tx_nonce ` set (rs_pending st)
      \<or> (\<exists>ct \<in> set (rs_inmempool st). r_nonce row \<in> tx_nonce ` set (ct_members ct))"
  proof (cases "r_status row = PENDING")
    case True
    with in_loaded have "tx_nonce (build_transaction_from_transaction_view row) \<in> tx_nonce ` set (rs_pending st)"
      unfolding l(2) by (intro imageI) simp
    then show ?thesis by simp
  next
    case False
    then have st: "r_status row = INMEMPOOL" using assms(9) by simp
    then have row: "build_transaction_from_transaction_view row \<in> set ?all" using in_loaded by simp
    from pair_covers [OF dist assms(6) row] obtain ct m where
      m: "ct \<in> set (pair_competitors ?all ?all [])" "m \<in> set (ct_members ct)" "tx_id m = r_id row" by auto
    from pair_members_rows [OF order_refl m(2,1)] obtain t where
      t: "t \<in> set ?all" "tx_id m = tx_id t" "tx_nonce m = tx_nonce t" by blast
    have "t = build_transaction_from_transaction_view row"
    proof (rule inj_onD)
      show "inj_on tx_id (set ?all)" using dist by (simp add: distinct_map)
      show "tx_id t = tx_id (build_transaction_from_transaction_view row)" using t(2) m(3) by simp
    qed (use t(1) row in simp_all)
    then have "tx_nonce m = r_nonce row" using t(3) by simp
    with m show ?thesis unfolding l(3) by (metis imageI)
  qed
  from effective_startup_nonce_ge [OF this, of onchain] obtain k where
    "r_nonce row \<le> k" "saturating_succ k \<le> ?eff" by blast
  with saturating_succ_gt [of "r_nonce row" k] assms(10) have "r_nonce row < ?eff" by simp
  moreover have "onchain \<le> ?eff" by (simp add: effective_startup_nonce_def Let_def)
  ultimately show ?thesis by (simp add: counter_after_startup)
qed

theorem startup_nonce_is_free_witness:
  "\<exists>d st. startup_relayer [] (ex_startup_env (\<lambda>h. Inr True) 5) ex_relayer (s_db ex_sent) = Some (d, Inr (Some st))
     \<and> 5 < snd (get_and_increment (q_nonce_manager (queue_of_setup [] st 5)))"
proof -
  obtain d st row where b: "startup_relayer [] (ex_startup_env (\<lambda>h. Inr True) 5) ex_relayer (s_db ex_sent)
      = Some (d, Inr (Some st))" "db_rows d = [row]" "r_id row = 1" "r_status row = INMEMPOOL"
    "r_relayer_id row = rl_id ex_relayer" "r_nonce row = 5" "no_chains (loaded (rl_id ex_relayer) INMEMPOOL d)"
    by (rule ex_boot_result)
  from startup_nonce_is_free [OF b(1) ex_env_faults _ _ b(7) _ b(5), of "[]" 5] b
  show ?thesis by (simp add: Let_def)
qed

section \<open>Pairs\<close>


definition ex_pair :: competitive_transaction where
  "ex_pair = add_competitor (ex_transaction\<lparr> tx_id := 2, tx_value := 0, tx_data := [] \<rparr>) Cancel
     (new_competitive_transaction ex_transaction)"


section \<open>The repair of recorded attempts\<close>

text \<open>
  What a repair may do to the failed rows: one that is newly FAILED has no attempt that the chain
  knows, among all that were recorded before the repair.
\<close>

definition fails_only_absent :: "(transaction_hash \<Rightarrow> rpc_error + bool) \<Rightarrow> db \<Rightarrow> db \<Rightarrow> bool" where
  "fails_only_absent known d d' =
     (audit_grows d d' \<and>
      (\<forall>r' \<in> set (db_rows d'). r_status r' = FAILED \<longrightarrow>
         (\<exists>r \<in> set (db_rows d). r_id r = r_id r' \<and> r_status r = FAILED)
         \<or> (\<forall>h. has_attempt (r_id r') h d \<longrightarrow> known h = Inr False)))"

lemma fails_only_refl [simp]: "fails_only_absent known d d"
  by (auto simp: fails_only_absent_def)

lemma fails_only_trans:
  assumes "fails_only_absent known a b" "fails_only_absent known b c"
  shows "fails_only_absent known a c"
proof -
  have "audit_grows a c" using assms by (auto simp: fails_only_absent_def intro: audit_grows_trans)
  moreover have "(\<exists>r \<in> set (db_rows a). r_id r = r_id r' \<and> r_status r = FAILED)
      \<or> (\<forall>h. has_attempt (r_id r') h a \<longrightarrow> known h = Inr False)"
    if "r' \<in> set (db_rows c)" "r_status r' = FAILED" for r'
  proof (cases "\<exists>r \<in> set (db_rows b). r_id r = r_id r' \<and> r_status r = FAILED")
    case True
    then show ?thesis using assms(1) by (fastforce simp: fails_only_absent_def)
  next
    case False
    then have "\<forall>h. has_attempt (r_id r') h b \<longrightarrow> known h = Inr False"
      using assms(2) that by (auto simp: fails_only_absent_def)
    moreover have "audit_grows a b" using assms(1) by (simp add: fails_only_absent_def)
    ultimately show ?thesis using has_attempt_grows by blast
  qed
  ultimately show ?thesis by (simp add: fails_only_absent_def)
qed

lemma run_stmt_fails_only:
  assumes "run_stmt ans f d = (d', r)" "\<And>d' a. f d = Inr (d', a) \<Longrightarrow> fails_only_absent known d d'"
  shows "fails_only_absent known d d'"
  using assms(1) by (rule run_stmt_cases) (auto intro: assms(2))

lemma recover_fails_only:
  "recover_landed_transaction_attempt rid i h g b legacy now d = Inr (d', x) \<Longrightarrow> fails_only_absent known d d'"
  by (auto simp: recover_landed_transaction_attempt_def Let_def commit_Inr fails_only_absent_def
      audit_grows_def update_where_def sent_gas_columns_def recoverable_def)

lemma repair_absent_one_fails_only:
  assumes "repair_absent_one rid n reason now c d = Inr (d', hit)"
    and "\<forall>h \<in> set (snd c). known h = Inr False"
  shows "fails_only_absent known d d'"
proof -
  let ?p = "repairable_absent rid n c d"
  from assms(1) have d': "db_rows d' = update_where ?p (fail_absent now reason) (db_rows d)"
    and a: "audit_grows d d'"
    by (auto simp: repair_absent_one_def Let_def commit_Inr audit_grows_def)
  have "\<forall>h. has_attempt (r_id r) h d \<longrightarrow> known h = Inr False" if "?p r" for r
    using that assms(2) by (fastforce simp: repairable_absent_def has_attempt_def list_all_iff list_ex_iff)
  then show ?thesis
    using a unfolding fails_only_absent_def d' by (auto simp: update_where_def)
qed

lemma repair_absent_loop_fails_only:
  "repair_absent_loop rid n reason now cs acc d = Inr (d', hits) \<Longrightarrow>
   \<forall>c \<in> set cs. \<forall>h \<in> set (snd c). known h = Inr False \<Longrightarrow> fails_only_absent known d d'"
proof (induction cs arbitrary: acc d)
  case Nil
  then show ?case by simp
next
  case (Cons c cs)
  then obtain d1 hit where one: "repair_absent_one rid n reason now c d = Inr (d1, hit)"
    and rest: "repair_absent_loop rid n reason now cs (acc @ hit) d1 = Inr (d', hits)"
    by (auto simp: and_then_Inr)
  have "fails_only_absent known d d1" using repair_absent_one_fails_only [OF one] Cons.prems(2) by simp
  moreover have "fails_only_absent known d1 d'" using Cons.IH [OF rest] Cons.prems(2) by simp
  ultimately show ?case by (rule fails_only_trans)
qed

lemma repair_absent_fails_only:
  "repair_absent_pending_transactions_for_relayer rid n cs reason now d = Inr (d', x) \<Longrightarrow>
   \<forall>c \<in> set cs. \<forall>h \<in> set (snd c). known h = Inr False \<Longrightarrow> fails_only_absent known d d'"
  by (auto simp: repair_absent_pending_transactions_for_relayer_def and_then_Inr split: if_splits
      dest: repair_absent_loop_fails_only)

lemma reconcile_candidate_fails_only:
  assumes "reconcile_candidate env r n t d = (d', res)"
  shows "fails_only_absent (re_exists env) d d'
    \<and> (\<forall>c. res = Inr (Some c) \<longrightarrow> (\<forall>h \<in> set (snd c). re_exists env h = Inr False))"
  using assms unfolding reconcile_candidate_def
  by (auto simp: find_landed_absent split: sum.splits option.splits if_splits prod.splits bool.splits
      dest!: run_stmt_fails_only [OF _ recover_fails_only])

lemma reconcile_candidates_fails_only:
  "reconcile_candidates env r n ts absent d = (d', res) \<Longrightarrow>
   \<forall>c \<in> set absent. \<forall>h \<in> set (snd c). re_exists env h = Inr False \<Longrightarrow>
   fails_only_absent (re_exists env) d d'
     \<and> (\<forall>cs. res = Inr cs \<longrightarrow> (\<forall>c \<in> set cs. \<forall>h \<in> set (snd c). re_exists env h = Inr False))"
proof (induction ts arbitrary: absent d)
  case Nil
  then show ?case by auto
next
  case (Cons t ts)
  obtain d1 x where x: "reconcile_candidate env r n t d = (d1, x)" by force
  note one = reconcile_candidate_fails_only [OF x]
  show ?case
  proof (cases x)
    case (Inl e)
    then show ?thesis using Cons.prems one by (auto simp: x)
  next
    case (Inr c)
    have rest: "reconcile_candidates env r n ts (absent @ option_list c) d1 = (d', res)"
      using Cons.prems(1) by (simp add: x Inr)
    have "\<forall>c' \<in> set (absent @ option_list c). \<forall>h \<in> set (snd c'). re_exists env h = Inr False"
      using Cons.prems(2) one Inr by (cases c) (auto simp: option_list_def)
    from Cons.IH [OF rest this] one show ?thesis by (blast intro: fails_only_trans)
  qed
qed

text \<open>C17: The repair of a relayer at startup marks a transaction FAILED only when the chain was asked for
  every attempt ever recorded for it and answered that it knows none of them; an attempt that may
  still execute is never terminalized, and an unreachable node fails nothing.\<close>

theorem startup_repair_fails_only_absent:
  assumes "repair_recorded_attempts_for_relayer env r d = Some (d', res)"
    and "row \<in> set (db_rows d')" "r_status row = FAILED"
    and "\<forall>old \<in> set (db_rows d). r_id old = r_id row \<longrightarrow> r_status old \<noteq> FAILED"
  shows "\<forall>h. has_attempt (r_id row) h d \<longrightarrow> re_exists env h = Inr False"
proof -
  have "fails_only_absent (re_exists env) d d'"
  proof -
    have A: "fails_only_absent (re_exists env) d d2"
      if "reconcile_candidates env r n ts [] d = (d1, Inr cs)"
        "run_stmt (re_absent env) (repair_absent_pending_transactions_for_relayer (rl_id r) n cs reason now)
            d1 = (d2, y)" for n ts d1 cs reason now y d2
    proof -
      from reconcile_candidates_fails_only [OF that(1)] have
        one: "fails_only_absent (re_exists env) d d1"
        and cs: "\<forall>c \<in> set cs. \<forall>h \<in> set (snd c). re_exists env h = Inr False" by simp_all
      have "fails_only_absent (re_exists env) d1 d2"
        by (rule run_stmt_fails_only [OF that(2)]) (rule repair_absent_fails_only [OF _ cs])
      with one show ?thesis by (rule fails_only_trans)
    qed
    have B: "fails_only_absent (re_exists env) d d1"
      if "reconcile_candidates env r n ts [] d = (d1, x)" for n ts d1 x
      using reconcile_candidates_fails_only [OF that] by simp
    show ?thesis
      using assms(1) A B unfolding repair_recorded_attempts_for_relayer_def
      by (auto split: sum.splits option.splits prod.splits)
  qed
  with assms(2-4) show ?thesis unfolding fails_only_absent_def by blast
qed

text \<open>A send whose answer was lost: the attempt is recorded, the row is still PENDING.\<close>

definition ex_unanswered :: db where
  "ex_unanswered = s_db (fst (process_single_pending ex_crypto
     (ex_pending_env (ex_send_env 1000 (Inl ''connection reset'') 20) (\<lambda>h. Inr False) (Inr 5)) 7 ex_queued))"

definition ex_repair :: repair_env where
  "ex_repair = su_repair (ex_startup_env (\<lambda>h. Inr False) 9)"

lemma ex_repair_ok:
  "map r_status (db_rows ex_unanswered) = [PENDING]" "has_attempt 1 1000 ex_unanswered"
  "case repair_recorded_attempts_for_relayer ex_repair ex_relayer ex_unanswered of
     Some (d, Inr n) \<Rightarrow> map r_status (db_rows d) = [FAILED] \<and> map r_id (db_rows d) = [1] | _ \<Rightarrow> False"
  by code_simp+

theorem startup_repair_fails_only_absent_witness:
  "has_attempt 1 1000 ex_unanswered \<and> re_exists ex_repair 1000 = Inr False"
proof -
  obtain d x where d: "repair_recorded_attempts_for_relayer ex_repair ex_relayer ex_unanswered = Some (d, x)"
    using ex_repair_ok(3) by (cases "repair_recorded_attempts_for_relayer ex_repair ex_relayer ex_unanswered") auto
  have m: "map r_status (db_rows d) = [FAILED] \<and> map r_id (db_rows d) = [1]"
    using ex_repair_ok(3) unfolding d by (cases x) auto
  then obtain row where row: "db_rows d = [row]" "r_status row = FAILED" "r_id row = 1"
    by (cases "db_rows d") auto
  have "\<forall>old \<in> set (db_rows ex_unanswered). r_status old \<noteq> FAILED"
    using ex_repair_ok(1) by (cases "db_rows ex_unanswered") auto
  with startup_repair_fails_only_absent [OF d, of row] row ex_repair_ok(2) show ?thesis by auto
qed

end
