(* ===== verification/System_Properties.thy ===== *)
theory System_Properties
  imports Examples
begin

text \<open>
  What holds in every reachable state of the system, and the contracts of the nonce manager and of the
  relayer's queue.
\<close>

section \<open>Reachable states\<close>

text \<open>C18: Write ahead: in every state the system can reach, through any interleaving of requests, loop
  steps, settings, failures and restarts, every transaction that was handed to the network has its hash
  among the recorded attempts of some stored transaction.\<close>

theorem reachable_broadcasts_recorded:
  assumes "reachable cy ap tp s" "sg \<in> set (w_broadcasts (s_world s))"
  shows "\<exists>i \<in> known_ids (s_db s) \<union> r_id ` set (db_audit (s_db s)).
    sg_hash sg \<in> ra_hash ` set (get_recorded_transaction_attempts i (s_db s))"
proof -
  have "evidenced (sg_hash sg) (s_db s)"
    using reachable_ok [OF assms(1)] assms(2) by (simp add: sys_ok_def)
  then obtain i where i: "has_attempt i (sg_hash sg) (s_db s)" by (auto simp: evidenced_def)
  have "i \<in> r_id ` set (db_audit (s_db s))" using i by (auto simp: has_attempt_def list_ex_iff)
  moreover have "sg_hash sg \<in> ra_hash ` set (get_recorded_transaction_attempts i (s_db s))"
    using recorded_attempts_complete i by blast
  ultimately show ?thesis by blast
qed

theorem reachable_broadcasts_recorded_witness:
  "\<exists>i. 1000 \<in> ra_hash ` set (get_recorded_transaction_attempts i (s_db ex_sent))"
proof -
  obtain sg where sg: "w_broadcasts (s_world ex_sent) = [sg]" "sg_hash sg = 1000"
    using ex_sent_broadcast by (cases "w_broadcasts (s_world ex_sent)") auto
  from reachable_broadcasts_recorded [OF ex_reachable(3), of sg] sg show ?thesis by auto
qed

text \<open>C19: In every reachable state each relayer's pending queue is in nonce order, its mined map has one
  entry per id and only mined transactions, and every transaction held in memory has its row in the
  database, so none of them is lost when the process stops.\<close>

theorem reachable_queues_backed:
  assumes "reachable cy ap tp s" "s_queues s rid = Some q"
  shows "sorted (map tx_nonce (q_pending q)) \<and> distinct (map fst (q_mined q))
    \<and> (\<forall>(i, t) \<in> set (q_mined q). tx_id t = i \<and> tx_status t = MINED)
    \<and> (\<forall>t \<in> set (queue_members q). \<exists>r \<in> set (db_rows (s_db s)). r_id r = tx_id t)"
proof -
  have ok: "queue_ok (s_db s) q" using sys_okD [OF reachable_ok [OF assms(1)] assms(2)] .
  then have "\<forall>t \<in> set (queue_members q). tx_id t \<in> known_ids (s_db s)"
    by (auto simp: queue_ok_def queue_ids_def)
  then have "\<forall>t \<in> set (queue_members q). \<exists>r \<in> set (db_rows (s_db s)). r_id r = tx_id t"
    by (fastforce simp: known_ids_def)
  with ok show ?thesis by (auto simp: queue_ok_def pending_sorted_def mined_ok_def list_all_iff)
qed

theorem reachable_queues_backed_witness:
  "\<exists>q t. s_queues ex_queued 7 = Some q \<and> q_pending q = [t]
    \<and> (\<exists>r \<in> set (db_rows (s_db ex_queued)). r_id r = tx_id t)"
proof -
  have c: "map_option (length \<circ> q_pending) (s_queues ex_queued 7) = Some 1" by code_simp
  then obtain q where q: "s_queues ex_queued 7 = Some q" "length (q_pending q) = 1" by auto
  then obtain t where "q_pending q = [t]" by (cases "q_pending q") auto
  with reachable_queues_backed [OF ex_reachable(2) q(1)] q(1) show ?thesis by (auto simp: queue_members_def)
qed



section \<open>The nonce manager\<close>

text \<open>C21: The u64 nonce manager implements a counter over the natural numbers for every sequence of
  reservations, synchronisations, releases and persisted reservations, in the order in which the calls
  take its lock, as long as 2^64 is not reached.\<close>

theorem nonce_manager_refines_counter:
  assumes "unat (nm_nonce m) \<le> N" "list_all (below_nonce N) es" "N + length es < 2 ^ 64"
  shows "unat (nm_nonce (nonce_run m es)) = counter_run (unat (nm_nonce m)) es"
  using assms by (rule nonce_run_refines_aux)

theorem nonce_manager_refines_counter_witness:
  "unat (nm_nonce (nonce_run (new_nonce_manager 3) [Reserve, Sync 9, Reserve, Release 9, Advance 4])) = 9"
proof -
  have "counter_run 3 [Reserve, Sync 9, Reserve, Release 9, Advance 4] = 9" by simp
  with nonce_manager_refines_counter [of "new_nonce_manager 3" 10 "[Reserve, Sync 9, Reserve, Release 9, Advance 4]"]
  show ?thesis by (simp add: new_nonce_manager_def)
qed

text \<open>Without a release in between, the reserved nonces are strictly increasing, so no two reservations
  get the same nonce, and none is below the nonce the manager started with.\<close>

theorem reservations_increase:
  assumes "unat (nm_nonce m) \<le> N" "list_all (below_nonce N) es" "N + length es < 2 ^ 64"
    and "list_all (\<lambda>e. \<not> is_release e) es"
  shows "sorted_wrt (<) (reserved m es) \<and> distinct (reserved m es)
    \<and> (\<forall>n \<in> set (reserved m es). nm_nonce m \<le> n)"
proof -
  note r = reserved_from [OF assms]
  have s: "sorted_wrt (<) (reserved m es)"
    using r by (simp add: sorted_wrt_map word_less_nat_alt [abs_def])
  then have "distinct (reserved m es)" by (simp add: strict_sorted_iff)
  with s r show ?thesis by (auto simp: word_le_nat_alt)
qed

theorem reservations_increase_witness:
  "reserved (new_nonce_manager 3) [Reserve, Sync 9, Reserve, Reserve] = [3, 9, 10]
    \<and> distinct (reserved (new_nonce_manager 3) [Reserve, Sync 9, Reserve, Reserve])"
proof -
  have "reserved (new_nonce_manager 3) [Reserve, Sync 9, Reserve, Reserve] = [3, 9, 10]" by code_simp
  with reservations_increase [of "new_nonce_manager 3" 10 "[Reserve, Sync 9, Reserve, Reserve]"]
  show ?thesis by (simp add: new_nonce_manager_def)
qed

section \<open>The pending queue\<close>

text \<open>Adding transactions one after another to an empty pending queue gives exactly their stable sort by
  nonce: what the loop takes next has the least nonce, and among equal nonces the one added first.\<close>

theorem pending_queue_is_stable_sort:
  assumes "q_pending q = []"
  shows "q_pending (fold add_pending_transaction ts q) = sort_key tx_nonce ts"
  using assms by (rule pending.fold_enq_sort)

theorem pending_queue_is_stable_sort_witness:
  "map tx_nonce (q_pending (fold add_pending_transaction
     (map (\<lambda>n. ex_transaction\<lparr> tx_nonce := n \<rparr>) [7, 5, 6]) ex_queue)) = [5, 6, 7]"
proof -
  have "q_pending ex_queue = []"
    by (simp add: ex_queue_def queue_of_setup_def new_transactions_queue_def ex_setup_def relayer_setup_of_def
        sort_pending_transactions_def)
  note sort = pending_queue_is_stable_sort [OF this]
  show ?thesis unfolding sort by simp
qed

section \<open>Receipts\<close>

lemma resolve_competition_facts:
  assumes "resolve_competition self now_exp now_mined i r ct = Some (w, l)" "get_transaction_by_id i ct = Some t"
  shows "tx_id w = i \<and> tx_nonce w = tx_nonce t \<and> tx_mined_at w = Some now_mined
    \<and> map_option tx_id l = (if tx_id (ct_original ct) = i then map_option (tx_id \<circ> fst) (ct_competitive ct)
         else Some (tx_id (ct_original ct)))
    \<and> (tx_status w = MINED \<longrightarrow> rc_status r)"
proof (cases "tx_id (ct_original ct) = i")
  case True
  with assms show ?thesis
    by (auto simp: resolve_competition_def get_transaction_by_id_def original_winner_status_def Let_def
        receipt_transaction_status_def option.map_comp comp_def split: if_splits)
next
  case False
  with assms obtain c ty where "ct_competitive ct = Some (c, ty)" "tx_id c = i" "t = c"
    by (auto simp: get_transaction_by_id_def split: option.splits if_splits)
  with False assms show ?thesis
    by (auto simp: resolve_competition_def receipt_transaction_status_def losing_original_def
        split: competition_type.splits if_splits)
qed

text \<open>A receipt for a member of the front entry always resolves it: the entry leaves the mempool queue,
  the rest keeps its order, the winner is the transaction of the receipt, the other one of a pair is the
  loser, and the winner enters the mined map exactly when its status is MINED (a reverted transaction
  and a no-op that closed out or expired do not).\<close>

theorem receipt_resolves_front:
  assumes "q_inmempool q = ct # rest" "get_transaction_by_id i ct = Some t"
  shows "\<exists>q' res. move_inmempool_to_mining now_exp now_mined i r q = Inr (q', res)
    \<and> q_inmempool q' = rest \<and> q_pending q' = q_pending q
    \<and> tx_id (cr_winner res) = i \<and> tx_nonce (cr_winner res) = tx_nonce t
    \<and> tx_mined_at (cr_winner res) = Some now_mined
    \<and> map_option tx_id (cr_loser res) =
        (if tx_id (ct_original ct) = i then map_option (tx_id \<circ> fst) (ct_competitive ct)
         else Some (tx_id (ct_original ct)))
    \<and> q_mined q' = (if tx_status (cr_winner res) = MINED then AList.update i (cr_winner res) (q_mined q)
                     else q_mined q)
    \<and> (tx_status (cr_winner res) = MINED \<longrightarrow> rc_status r)"
proof -
  have "get_transaction_by_id i ct \<noteq> None" using assms(2) by simp
  from move_inmempool_never_stuck [OF assms(1) this] obtain q' res where
    m: "move_inmempool_to_mining now_exp now_mined i r q = Inr (q', res)" by blast
  then obtain ct' rest' where f: "q_inmempool q = ct' # rest'"
    and res: "resolve_competition (rl_address (q_relayer q)) now_exp now_mined i r ct'
      = Some (cr_winner res, cr_loser res)"
    and q': "q' = q\<lparr> q_inmempool := rest', q_mined := (if tx_status (cr_winner res) = MINED
        then AList.update (tx_id (cr_winner res)) (cr_winner res) (q_mined q) else q_mined q) \<rparr>"
    by (rule move_inmempool_to_mining_Inr)
  have "ct' = ct" "rest' = rest" using f assms(1) by simp_all
  with resolve_competition_facts [OF res [unfolded \<open>ct' = ct\<close>] assms(2)] m q' show ?thesis by auto
qed

theorem receipt_resolves_front_witness:
  "\<exists>q' res. move_inmempool_to_mining 5 9 1 (ex_receipt 1000 True)
      (ex_queue\<lparr> q_inmempool := [new_competitive_transaction ex_transaction] \<rparr>) = Inr (q', res)
    \<and> q_inmempool q' = [] \<and> cr_loser res = None"
proof -
  have "get_transaction_by_id 1 (new_competitive_transaction ex_transaction) = Some ex_transaction"
    "ct_competitive (new_competitive_transaction ex_transaction) = None"
    "tx_id (ct_original (new_competitive_transaction ex_transaction)) = 1"
    by (simp_all add: get_transaction_by_id_def new_competitive_transaction_def ex_transaction_def
        queued_transaction_def ex_tts_def)
  then show ?thesis
    using receipt_resolves_front [of "ex_queue\<lparr> q_inmempool := [new_competitive_transaction ex_transaction] \<rparr>"
      "new_competitive_transaction ex_transaction" "[]" 1 ex_transaction 5 9 "ex_receipt 1000 True"]
    by (auto simp: option.map_comp)
qed

text \<open>
  When the original wins, the losing competitor keeps the status it had: nothing records that it was
  dropped.
\<close>

lemma losing_competitor_keeps_status:
  assumes "q_inmempool q = ct # rest" "ct_competitive ct = Some (c, ty)"
    and "move_inmempool_to_mining now_exp now_mined (tx_id (ct_original ct)) r q = Inr (q', res)"
  shows "cr_loser res = Some c"
  using assms by (auto simp: move_inmempool_to_mining_def resolve_competition_def split: if_splits)

section \<open>Settings\<close>

text \<open>Switching EIP-1559 on makes the running queue send legacy transactions, and the reverse.\<close>

lemma eip1559_setting_inverted:
  "is_legacy_transactions (apply_setting (Eip1559Status enabled) q) = enabled"
  by (simp add: is_legacy_transactions_def set_is_legacy_transactions_def)

end
