(* ===== verification/Edit_Properties.thy ===== *)
theory Edit_Properties
  imports Handler_Properties
begin

text \<open>
  Properties of cancellation, replacement, gas bumps and confirmations.
\<close>

section \<open>Payloads through a send\<close>

definition same_payload :: "transaction \<Rightarrow> transaction \<Rightarrow> bool" where
  "same_payload t t' = (tx_to t' = tx_to t \<and> tx_value t' = tx_value t \<and> tx_data t' = tx_data t
     \<and> tx_is_noop t' = tx_is_noop t)"

lemma same_payload_refl [simp]: "same_payload t t"
  by (simp add: same_payload_def)

lemma prepare_send_payload: "prepare_send cy env q t = (t', r) \<Longrightarrow> same_payload t t'"
  by (auto simp: prepare_send_def same_payload_def split: sum.splits)

lemma expire_noop_payload:
  "expire_to_noop q now can t g r b = (t', fired, res) \<Longrightarrow> tx_is_noop t \<Longrightarrow> t' = t"
  using expire_to_noop_cases(1,2) [of q now can t g r b t' fired res] by auto

lemma sign_unexpired_noop:
  "sign_unexpired env q can t g r b = (t', res) \<Longrightarrow> tx_is_noop t \<Longrightarrow> t' = t"
  by (erule sign_unexpired_cases) (auto dest: expire_noop_payload)

lemma persist_payload:
  "persist_and_broadcast p m b now rid t sent stx legacy w = (w', t', r) \<Longrightarrow> same_payload t t'"
  by (auto simp: persist_and_broadcast_def Let_def record_send_def same_payload_def
      split: prod.splits sum.splits)

text \<open>A send never changes the payload of a no-op.\<close>

lemma send_keeps_noop:
  assumes "send_transaction cy env q t w = (w', t', res)" "tx_is_noop t"
  shows "same_payload t t'"
proof -
  have sign: "same_payload t t1" if s: "sign_send cy env q t = (t1, x)" for t1 x
  proof -
    obtain t0 p where p: "prepare_send cy env q t = (t0, p)" by force
    from prepare_send_payload [OF p] assms(2) have n: "same_payload t t0" "tx_is_noop t0"
      by (simp_all add: same_payload_def)
    with s p show ?thesis
      by (auto simp: sign_send_def Let_def split: prod.splits sum.splits
          dest!: expire_noop_payload sign_unexpired_noop)
  qed
  from assms(1) show ?thesis
  proof (cases rule: send_transaction_cases)
    case (1 e)
    then show ?thesis using sign by simp
  next
    case (2 t1 sent stx r)
    then show ?thesis using sign [OF 2(1)] persist_payload [OF 2(2)] by (simp add: same_payload_def)
  qed
qed

section \<open>Competitors\<close>

lemma add_competitor_front:
  "(add_competitor_to_inmempool_transaction i c ty q = Inr q') =
     (\<exists>ct rest. q_inmempool q = ct # rest \<and> tx_id (ct_original ct) = i
        \<and> q' = q\<lparr> q_inmempool := add_competitor c ty ct # rest \<rparr>)"
  by (auto simp: add_competitor_to_inmempool_transaction_def split: list.splits if_splits)

lemma db_call_network: "db_call ans f s = (s', r) \<Longrightarrow> w_broadcasts (s_world s') = w_broadcasts (s_world s)"
  using db_call_world [of ans f s] by (metis fst_conv on_db_quiet)

lemma cancel_transaction_success:
  assumes "cancel_transaction cy tp env t s = (s', Inr (cancel_success i))"
    and q: "s_queues s (tx_relayer_id t) = Some q"
  obtains u where "get_editable_transaction_by_id q (tx_id t) = Some (u, EditInmempool)"
    and "cancel_inmempool cy tp env (tx_relayer_id t) q u s = (s', Inr (cancel_success i))"
  using assms(1)
  by (auto simp: cancel_transaction_def Let_def get_transactions_queue_def q cancel_pending_def
      cancel_failed_def cancel_success_def split: if_splits option.splits prod.splits
      editable_transaction_type.splits sum.splits)

lemma editable_inmempool:
  "get_editable_transaction_by_id q i = Some (u, EditInmempool) \<Longrightarrow>
     \<exists>ct \<in> set (q_inmempool q). u = ct_original ct \<and> tx_id u = i"
  by (auto simp: get_editable_transaction_by_id_def split: option.splits dest: find_SomeD)

lemma send_success_facts:
  assumes "send_transaction cy env q t w = (w', t', Inr sent)"
  shows "\<exists>stx. w_broadcasts w' = w_broadcasts w @ [stx] \<and> sg_hash stx = ts_hash sent
    \<and> request_fits t (sg_request stx)"
  using assms by (rule send_transaction_Inr) blast

text \<open>
  What both handlers do once the competitor was sent and the original's row was updated: the competitor
  joins the original in the front entry.
\<close>

lemma competitor_joins_front:
  assumes sd: "send_transaction cy (ee_send env) q c0 (s_world s) = (w, c, Inr sent)"
    and x: "db_call ans f (set_world w s) = (s1, x)"
    and a: "add_competitor_to_inmempool_transaction (tx_id u) (sent_competitor env sent c) ty q = Inr q1"
    and n: "tx_nonce c0 = tx_nonce u"
    and u: "get_editable_transaction_by_id q i = Some (u, EditInmempool)"
    and unique: "\<forall>ct \<in> set (q_inmempool q). \<forall>ct' \<in> set (q_inmempool q).
           tx_id (ct_original ct) = tx_id (ct_original ct') \<longrightarrow> ct = ct'"
  shows "\<exists>ct rest stx. q_inmempool q = ct # rest \<and> u = ct_original ct \<and> tx_id (ct_original ct) = i
    \<and> q1 = q\<lparr> q_inmempool := add_competitor (sent_competitor env sent c) ty ct # rest \<rparr>
    \<and> tx_id c = tx_id c0 \<and> tx_nonce c = tx_nonce (ct_original ct)
    \<and> w_broadcasts (s_world s1) = w_broadcasts (s_world s) @ [stx]
    \<and> tf_nonce (typed_fields_of (sg_request stx)) = tx_nonce (ct_original ct)
    \<and> sg_hash stx = ts_hash sent"
proof -
  from editable_inmempool [OF u] obtain cu where cu: "cu \<in> set (q_inmempool q)" "u = ct_original cu"
    "tx_id u = i" by blast
  from a obtain ct rest where ct: "q_inmempool q = ct # rest" "tx_id (ct_original ct) = tx_id u"
    and q1: "q1 = q\<lparr> q_inmempool := add_competitor (sent_competitor env sent c) ty ct # rest \<rparr>"
    by (auto simp: add_competitor_front)
  have u': "u = ct_original ct" using unique cu ct by auto
  from send_success_facts [OF sd] obtain stx where
    stx: "w_broadcasts w = w_broadcasts (s_world s) @ [stx]" "sg_hash stx = ts_hash sent"
      "request_fits c0 (sg_request stx)" by blast
  have net: "w_broadcasts (s_world s1) = w_broadcasts (s_world s) @ [stx]"
    using db_call_network [OF x] stx(1) by simp
  have slot: "same_slot c0 c" by (rule send_transaction_keeps(1) [OF sd])
  show ?thesis
    using ct q1 net stx(2,3) slot n u' cu(3)
    by (intro exI [of _ ct] exI [of _ rest] exI [of _ stx])
       (simp add: same_slot_def request_fits_def)
qed

text \<open>C22: A successful cancellation of a transaction in the mempool puts one more transaction on the network,
  a competitor under the same nonce: the relayer's transfer of nothing to itself, with an id of its own,
  held beside the original in the front entry, which points to it; the nonce counter and the pending
  queue are untouched.\<close>

theorem cancel_competes_for_same_nonce:
  assumes "cancel_transaction cy tp env t s = (s', Inr (cancel_success i))"
    and "s_queues s (tx_relayer_id t) = Some q"
    and "\<forall>ct \<in> set (q_inmempool q). \<forall>ct' \<in> set (q_inmempool q).
           tx_id (ct_original ct) = tx_id (ct_original ct') \<longrightarrow> ct = ct'"
  shows "\<exists>ct rest c stx q'. q_inmempool q = ct # rest \<and> tx_id (ct_original ct) = tx_id t
    \<and> s_queues s' (tx_relayer_id t) = Some q' \<and> q_inmempool q' = add_competitor c Cancel ct # rest
    \<and> q_pending q' = q_pending q \<and> q_nonce_manager q' = q_nonce_manager q
    \<and> tx_id c = i \<and> tx_nonce c = tx_nonce (ct_original ct)
    \<and> tx_to c = rl_address (q_relayer q) \<and> tx_value c = 0 \<and> tx_data c = []
    \<and> w_broadcasts (s_world s') = w_broadcasts (s_world s) @ [stx]
    \<and> tf_nonce (typed_fields_of (sg_request stx)) = tx_nonce (ct_original ct)
    \<and> tx_known_transaction_hash c = Some (sg_hash stx)"
proof -
  from assms(1,2) obtain u where ed: "get_editable_transaction_by_id q (tx_id t) = Some (u, EditInmempool)"
    and run: "cancel_inmempool cy tp env (tx_relayer_id t) q u s = (s', Inr (cancel_success i))"
    by (rule cancel_transaction_success)
  from run obtain g where g: "tx_sent_with_gas u = Some g"
    by (auto simp: cancel_inmempool_def split: option.splits)
  let ?c0 = "cancel_competitor tp env q u g"
  let ?u = "u\<lparr> tx_cancelled_by_transaction_id := Some (ee_fresh_id env) \<rparr>"
  obtain w c r where sd: "send_transaction cy (ee_send env) q ?c0 (s_world s) = (w, c, r)"
    by (metis prod_cases3)
  from run g sd obtain sent where r: "r = Inr sent"
    by (cases r) (auto simp: cancel_inmempool_def)
  obtain s1 x where x: "db_call (ee_update env) (transaction_update ?u (ee_now_db env)) (set_world w s) = (s1, x)"
    by force
  from run g sd r x obtain y where xy: "x = Inr y" by (cases x) (auto simp: cancel_inmempool_def Let_def)
  from run g sd r x xy obtain q1 where q1: "add_competitor_to_inmempool_transaction (tx_id u)
      (sent_competitor env sent c) Cancel q = Inr q1" and i: "i = ee_fresh_id env"
    and s': "s_queues s' = (s_queues s1)(tx_relayer_id t \<mapsto> q1)" "s_world s' = s_world s1"
    by (auto simp: cancel_inmempool_def Let_def cancel_success_def split: sum.splits)
  have n: "tx_nonce ?c0 = tx_nonce u" by (simp add: cancel_competitor_def competitor_nonce_def)
  from competitor_joins_front [OF sd [unfolded r] x q1 n ed assms(3)] obtain ct rest stx where
    f: "q_inmempool q = ct # rest" "tx_id (ct_original ct) = tx_id t"
      "q1 = q\<lparr> q_inmempool := add_competitor (sent_competitor env sent c) Cancel ct # rest \<rparr>"
      "tx_id c = tx_id ?c0" "tx_nonce c = tx_nonce (ct_original ct)"
      "w_broadcasts (s_world s1) = w_broadcasts (s_world s) @ [stx]"
      "tf_nonce (typed_fields_of (sg_request stx)) = tx_nonce (ct_original ct)" "sg_hash stx = ts_hash sent"
    by blast
  have "same_payload ?c0 c"
    by (rule send_keeps_noop [OF sd]) (simp add: cancel_competitor_def)
  then have "tx_to c = rl_address (q_relayer q)" "tx_value c = 0" "tx_data c = []" "tx_id ?c0 = i"
    using i by (simp_all add: same_payload_def cancel_competitor_def)
  with f s' show ?thesis
    by (intro exI [of _ ct] exI [of _ rest] exI [of _ "sent_competitor env sent c"] exI [of _ stx] exI [of _ q1])
       (simp add: sent_competitor_def)
qed

text \<open>The saturation test on words, for evaluation.\<close>

lemma saturating_add_code [code]: "saturating_add_u128 a b = (if a \<le> - 1 - b then a + b else - 1)"
proof -
  have "unat (- 1 - b) = 2 ^ 128 - 1 - unat b"
    using unat_sub [of b "- 1"] by (simp add: unat_max_u128)
  moreover have "unat b < 2 ^ 128" using unsigned_less [of b] by simp
  ultimately have "(a \<le> - 1 - b) = (unat a + unat b < 2 ^ 128)"
    by (simp add: word_le_nat_alt) linarith
  then show ?thesis by (simp add: saturating_add_u128_def)
qed

definition ex_cancel_run :: "sys \<times> (cancel_error + cancel_result)" where
  "ex_cancel_run = cancel_transaction ex_crypto ex_tp (ex_edit_env 2 (ex_send_env 2000 (Inr 2000) 30)) ex_transaction ex_sent"

definition ex_request :: relay_request where
  "ex_request = \<lparr> rq_to = 98, rq_value = 1, rq_data = [], rq_speed = None, rq_external_id = None, rq_blobs = None \<rparr>"

definition ex_replace_run :: "sys \<times> (replace_error + replace_result)" where
  "ex_replace_run = replace_transaction ex_crypto ex_tp (ex_edit_env 2 (ex_send_env 2000 (Inr 2000) 30)) ex_transaction
     ex_request ex_sent"

lemma ex_competitor_runs:
  "case snd ex_cancel_run of Inl e \<Rightarrow> False | Inr r \<Rightarrow> r = cancel_success 2"
  "case snd ex_replace_run of Inl e \<Rightarrow> False | Inr r \<Rightarrow> r = replace_success 2 2000"
  "case s_queues ex_sent 7 of None \<Rightarrow> False | Some q \<Rightarrow> length (q_inmempool q) = 1
     \<and> (case get_editable_transaction_by_id q 1 of Some (u, EditInmempool) \<Rightarrow> True | _ \<Rightarrow> False)"
  by code_simp+

lemma ex_sent_queue:
  obtains q u where "s_queues ex_sent 7 = Some q"
    "\<forall>ct \<in> set (q_inmempool q). \<forall>ct' \<in> set (q_inmempool q). tx_id (ct_original ct) = tx_id (ct_original ct') \<longrightarrow> ct = ct'"
    "get_editable_transaction_by_id q 1 = Some (u, EditInmempool)" "length (q_inmempool q) = 1"
proof -
  obtain q where q: "s_queues ex_sent 7 = Some q" using ex_competitor_runs(3) by (auto split: option.splits)
  have l: "length (q_inmempool q) = 1" using ex_competitor_runs(3) by (simp add: q)
  then obtain ct where "q_inmempool q = [ct]" by (cases "q_inmempool q") auto
  moreover obtain u where "get_editable_transaction_by_id q 1 = Some (u, EditInmempool)"
    using ex_competitor_runs(3) by (auto simp: q split: option.splits editable_transaction_type.splits)
  ultimately show thesis using that [of q u] q l by simp
qed

lemma ex_transaction_ids: "tx_relayer_id ex_transaction = 7" "tx_id ex_transaction = 1"
  by (simp_all add: ex_transaction_def queued_transaction_def ex_tts_def)

theorem cancel_competes_for_same_nonce_witness:
  "\<exists>stx. w_broadcasts (s_world (fst ex_cancel_run)) = w_broadcasts (s_world ex_sent) @ [stx]"
proof -
  obtain q u where q: "s_queues ex_sent 7 = Some q"
    "\<forall>ct \<in> set (q_inmempool q). \<forall>ct' \<in> set (q_inmempool q). tx_id (ct_original ct) = tx_id (ct_original ct') \<longrightarrow> ct = ct'"
    by (rule ex_sent_queue)
  have "snd ex_cancel_run = Inr (cancel_success 2)" using ex_competitor_runs(1) by (auto split: sum.splits)
  then have run: "cancel_transaction ex_crypto ex_tp (ex_edit_env 2 (ex_send_env 2000 (Inr 2000) 30)) ex_transaction ex_sent
      = (fst ex_cancel_run, Inr (cancel_success 2))" by (metis prod.collapse ex_cancel_run_def)
  have "s_queues ex_sent (tx_relayer_id ex_transaction) = Some q" using q(1) by (simp add: ex_transaction_ids)
  from cancel_competes_for_same_nonce [OF run this q(2)]
  show ?thesis by blast
qed

text \<open>A successful replacement of a transaction in the mempool likewise puts one competitor on the
  network under the nonce of the original and holds it beside the original in the front entry, with an id
  of its own; the nonce counter and the pending queue are untouched.\<close>

theorem replace_competes_for_same_nonce:
  assumes "replace_transaction cy tp env t rq s = (s', Inr (replace_success i h))"
    and "s_queues s (tx_relayer_id t) = Some q"
    and "get_editable_transaction_by_id q (tx_id t) = Some (u, EditInmempool)"
    and "\<forall>ct \<in> set (q_inmempool q). \<forall>ct' \<in> set (q_inmempool q).
           tx_id (ct_original ct) = tx_id (ct_original ct') \<longrightarrow> ct = ct'"
  shows "\<exists>ct rest c stx q'. q_inmempool q = ct # rest \<and> tx_id (ct_original ct) = tx_id t
    \<and> s_queues s' (tx_relayer_id t) = Some q' \<and> q_inmempool q' = add_competitor c Replace ct # rest
    \<and> q_pending q' = q_pending q \<and> q_nonce_manager q' = q_nonce_manager q
    \<and> tx_id c = i \<and> tx_nonce c = tx_nonce (ct_original ct)
    \<and> w_broadcasts (s_world s') = w_broadcasts (s_world s) @ [stx] \<and> sg_hash stx = h
    \<and> tf_nonce (typed_fields_of (sg_request stx)) = tx_nonce (ct_original ct)
    \<and> tx_known_transaction_hash c = Some h"
proof -
  from assms(1-3) obtain ext where
    run: "replace_inmempool cy tp env (tx_relayer_id t) q u rq ext s = (s', Inr (replace_success i h))"
    by (auto simp: replace_transaction_def Let_def get_transactions_queue_def split: if_splits sum.splits)
  then obtain c0 where c0: "priced_replacement tp env q u rq ext = Inr c0"
    by (auto simp: replace_inmempool_def split: sum.splits)
  have k: "tx_id c0 = ee_fresh_id env" "tx_nonce c0 = tx_nonce u"
    using c0 by (auto simp: priced_replacement_def and_then_Inr Let_def replace_competitor_def
        competitor_nonce_def split: if_splits)
  let ?u = "u\<lparr> tx_cancelled_by_transaction_id := Some (ee_fresh_id env) \<rparr>"
  obtain w c r where sd: "send_transaction cy (ee_send env) q c0 (s_world s) = (w, c, r)"
    by (metis prod_cases3)
  from run c0 sd obtain sent where r: "r = Inr sent" by (cases r) (auto simp: replace_inmempool_def)
  obtain s1 x where x: "db_call (ee_update env) (transaction_update ?u (ee_now_db env)) (set_world w s) = (s1, x)"
    by force
  from run c0 sd r x obtain y where xy: "x = Inr y" by (cases x) (auto simp: replace_inmempool_def Let_def)
  from run c0 sd r x xy obtain q1 where q1: "add_competitor_to_inmempool_transaction (tx_id u)
      (sent_competitor env sent c) Replace q = Inr q1" and i: "i = ee_fresh_id env" "h = ts_hash sent"
    and s': "s_queues s' = (s_queues s1)(tx_relayer_id t \<mapsto> q1)" "s_world s' = s_world s1"
    by (auto simp: replace_inmempool_def Let_def replace_success_def split: sum.splits)
  from competitor_joins_front [OF sd [unfolded r] x q1 k(2) assms(3,4)] obtain ct rest stx where
    f: "q_inmempool q = ct # rest" "tx_id (ct_original ct) = tx_id t"
      "q1 = q\<lparr> q_inmempool := add_competitor (sent_competitor env sent c) Replace ct # rest \<rparr>"
      "tx_id c = tx_id c0" "tx_nonce c = tx_nonce (ct_original ct)"
      "w_broadcasts (s_world s1) = w_broadcasts (s_world s) @ [stx]"
      "tf_nonce (typed_fields_of (sg_request stx)) = tx_nonce (ct_original ct)" "sg_hash stx = ts_hash sent"
    by blast
  with s' k(1) i show ?thesis
    by (intro exI [of _ ct] exI [of _ rest] exI [of _ "sent_competitor env sent c"] exI [of _ stx] exI [of _ q1])
       (simp add: sent_competitor_def)
qed


theorem replace_competes_for_same_nonce_witness:
  "\<exists>stx. w_broadcasts (s_world (fst ex_replace_run)) = w_broadcasts (s_world ex_sent) @ [stx] \<and> sg_hash stx = 2000"
proof -
  obtain q u where q: "s_queues ex_sent 7 = Some q"
    "\<forall>ct \<in> set (q_inmempool q). \<forall>ct' \<in> set (q_inmempool q). tx_id (ct_original ct) = tx_id (ct_original ct') \<longrightarrow> ct = ct'"
    "get_editable_transaction_by_id q 1 = Some (u, EditInmempool)"
    by (rule ex_sent_queue)
  have "snd ex_replace_run = Inr (replace_success 2 2000)" using ex_competitor_runs(2) by (auto split: sum.splits)
  then have run: "replace_transaction ex_crypto ex_tp (ex_edit_env 2 (ex_send_env 2000 (Inr 2000) 30)) ex_transaction
      ex_request ex_sent = (fst ex_replace_run, Inr (replace_success 2 2000))"
    by (metis prod.collapse ex_replace_run_def)
  have "s_queues ex_sent (tx_relayer_id ex_transaction) = Some q"
    "get_editable_transaction_by_id q (tx_id ex_transaction) = Some (u, EditInmempool)"
    using q by (simp_all add: ex_transaction_ids)
  from replace_competes_for_same_nonce [OF run this q(2)] show ?thesis by blast
qed

section \<open>Refused edits\<close>

text \<open>A cancellation or replacement that ends in an error leaves the relayer's memory untouched: no queue,
  counter or pending entry changes, and at most one transaction was put on the network.\<close>

theorem refused_edits_leave_queues:
  "(cancel_transaction cy tp env t s = (s', Inl e) \<longrightarrow> s_queues s' = s_queues s
      \<and> length (w_broadcasts (s_world s')) \<le> length (w_broadcasts (s_world s)) + 1)
   \<and> (replace_transaction cy tp env t rq s = (s'', Inl e') \<longrightarrow> s_queues s'' = s_queues s
      \<and> length (w_broadcasts (s_world s'')) \<le> length (w_broadcasts (s_world s)) + 1)"
proof -
  have send: "length (w_broadcasts w') \<le> length (w_broadcasts w) + 1"
    if "send_transaction cy senv q c w = (w', c', r)" for senv q c w w' c' r
    using send_transaction_network [OF that] by auto
  have db: "s_queues s2 = s_queues s1 \<and> w_broadcasts (s_world s2) = w_broadcasts (s_world s1)"
    if "db_call ans f s1 = (s2, r)" for ans s1 s2 r and f :: "unit stmt"
    using db_call_network [OF that] db_call_queues [of ans f s1] that by simp
  have ci: "s_queues s' = s_queues s \<and> length (w_broadcasts (s_world s')) \<le> length (w_broadcasts (s_world s)) + 1"
    if "cancel_inmempool cy tp env rid q u s = (s', Inl e)" for rid q u s' e
    using that by (auto simp: cancel_inmempool_def Let_def split: option.splits prod.splits sum.splits
        dest!: send db)
  have cp: "s_queues s' = s_queues s \<and> length (w_broadcasts (s_world s')) \<le> length (w_broadcasts (s_world s)) + 1"
    if "cancel_pending env rid q u s = (s', Inl e)" for rid q u s' e
    using that by (auto simp: cancel_pending_def Let_def split: prod.splits sum.splits dest!: db)
  have ri: "s_queues s' = s_queues s \<and> length (w_broadcasts (s_world s')) \<le> length (w_broadcasts (s_world s)) + 1"
    if "replace_inmempool cy tp env rid q u rq ext s = (s', Inl e)" for rid q u ext s' e
    using that by (auto simp: replace_inmempool_def Let_def split: option.splits prod.splits sum.splits
        dest!: send db)
  have rp: "s_queues s' = s_queues s \<and> length (w_broadcasts (s_world s')) \<le> length (w_broadcasts (s_world s)) + 1"
    if "replace_pending tp env rid q u rq s = (s', Inl e)" for rid q u s' e
    using that by (auto simp: replace_pending_def Let_def split: option.splits prod.splits sum.splits dest!: db)
  have c: "s_queues s' = s_queues s \<and> length (w_broadcasts (s_world s')) \<le> length (w_broadcasts (s_world s)) + 1"
    if "cancel_transaction cy tp env t s = (s', Inl e)"
    using that by (auto simp: cancel_transaction_def Let_def split: option.splits prod.splits if_splits
        editable_transaction_type.splits dest!: ci cp)
  have r: "s_queues s'' = s_queues s \<and> length (w_broadcasts (s_world s'')) \<le> length (w_broadcasts (s_world s)) + 1"
    if "replace_transaction cy tp env t rq s = (s'', Inl e')"
    using that by (auto simp: replace_transaction_def Let_def split: option.splits prod.splits if_splits
        editable_transaction_type.splits sum.splits dest!: ri rp)
  from c r show ?thesis by blast
qed

definition ex_refused_cancel :: "sys \<times> (cancel_error + cancel_result)" where
  "ex_refused_cancel = cancel_transaction ex_crypto ex_tp
     (ex_edit_env 2 (ex_send_env 2000 (Inl ''nonce too low'') 30)) ex_transaction ex_sent"

theorem refused_edits_leave_queues_witness:
  "\<not> is_ok (snd ex_refused_cancel) \<and> s_queues (fst ex_refused_cancel) = s_queues ex_sent"
proof -
  have n: "\<not> is_ok (snd ex_refused_cancel)" by code_simp
  then obtain e where "snd ex_refused_cancel = Inl e" by (cases "snd ex_refused_cancel") auto
  then have "cancel_transaction ex_crypto ex_tp (ex_edit_env 2 (ex_send_env 2000 (Inl ''nonce too low'') 30))
      ex_transaction ex_sent = (fst ex_refused_cancel, Inl e)" by (metis prod.collapse ex_refused_cancel_def)
  with refused_edits_leave_queues n show ?thesis by blast
qed

end
