(* ===== verification/Loop_Properties.thy ===== *)
theory Loop_Properties
  imports Handler_Properties
begin

text \<open>
  Properties of the three processing loops: what a step does to the queue, to the nonce counter and to
  the rows, when a mined transaction is confirmed, and what shutdown stops.
\<close>

section \<open>The pending step\<close>

text \<open>C23: A successful step of the pending loop moves exactly the head of the pending queue to the back of
  the mempool queue: it put one transaction on the network under the nonce of that head, the transaction
  in the mempool queue is INMEMPOOL and carries the hash that was broadcast, and the rest of the pending
  queue and the nonce counter are untouched.\<close>

theorem pending_success_moves_head:
  assumes "process_single_pending cy env rid s = (s', Inr r)" "po_status r = PendingSuccess"
    and "s_queues s rid = Some q"
  shows "\<exists>t rest t' stx q'. q_pending q = t # rest \<and> s_queues s' rid = Some q' \<and> q_pending q' = rest
    \<and> q_inmempool q' = q_inmempool q @ [new_competitive_transaction t']
    \<and> tx_id t' = tx_id t \<and> tx_nonce t' = tx_nonce t \<and> tx_status t' = INMEMPOOL
    \<and> tx_known_transaction_hash t' = Some (sg_hash stx)
    \<and> w_broadcasts (s_world s') = w_broadcasts (s_world s) @ [stx]
    \<and> tf_nonce (typed_fields_of (sg_request stx)) = tx_nonce t
    \<and> has_attempt (tx_id t) (sg_hash stx) (s_db s')
    \<and> q_nonce_manager q' = q_nonce_manager q"
proof -
  from assms(1) assms(2) obtain t0 where t0: "get_next_pending_transaction q = Some t0"
    and go: "\<not> is_paused q" "\<not> s_shutting_down s"
    using assms(3) by (auto simp: process_single_pending_def get_transactions_queue_def pending_other_def
        process_other_def split: if_splits option.splits)
  let ?t = "if has_expired (pe_now_expiry env) t0 then transaction_to_noop q t0 else t0"
  obtain w t' x where sd: "send_transaction cy (pe_send env) q ?t (s_world s) = (w, t', x)"
    by (metis prod_cases3)
  have step: "process_single_pending cy env rid s =
      (case x of Inr sent \<Rightarrow> pending_sent env rid q t' sent (set_world w s)
       | Inl e \<Rightarrow> pending_error env rid q t' e (set_world w s))"
    by (simp add: process_single_pending_def get_transactions_queue_def assms(3) t0 go Let_def sd split: sum.split)
  have never: "po_status r \<noteq> PendingSuccess" if "pending_error env rid q t' e s1 = (s', Inr r)" for e s1
    using that by (auto simp: pending_error_def pending_estimate_error_def pending_send_error_def
        pending_nonce_conflict_def landed_attempt_def resolve_pending_transaction_mined_def
        recover_landed_pending_def reassign_pending_nonce_def close_out_pending_transaction_as_noop_def
        pending_other_def pending_failed_def process_other_def Let_def
        split: send_error.splits send_error_class.splits sum.splits option.splits list.splits prod.splits
          bool.splits)
  from step assms(1,2) never obtain sent where x: "x = Inr sent" by (cases x) auto
  with step assms(1) obtain q' where q': "move_pending_to_inmempool (pe_now_move env) t' sent q = Inr q'"
    and s': "s_queues s' = (s_queues s)(rid \<mapsto> q')" "s_world s' = w"
    by (auto simp: pending_sent_def pending_other_def split: sum.splits)
  from q' obtain u rest where u: "q_pending q = u # rest"
    and q1: "q' = q\<lparr> q_pending := rest, q_inmempool := q_inmempool q @ [new_competitive_transaction
        ((record_send sent (pe_now_move env) t')\<lparr> tx_status := INMEMPOOL \<rparr>)] \<rparr>"
    by (auto simp: move_pending_to_inmempool_Inr)
  have u0: "u = t0" using t0 u by (simp add: get_next_pending_transaction_def)
  have id: "tx_id ?t = tx_id t0" "tx_nonce ?t = tx_nonce t0" by simp_all
  have slot: "same_slot t0 t'" using send_transaction_keeps(1) [OF sd] id by (simp add: same_slot_def)
  from sd [unfolded x] show ?thesis
  proof (rule send_transaction_Inr)
    fix stx
    assume "w_broadcasts w = w_broadcasts (s_world s) @ [stx]" "sg_hash stx = ts_hash sent"
      "request_fits ?t (sg_request stx)" "has_attempt (tx_id ?t) (ts_hash sent) (w_db w)"
    then show ?thesis
      using u u0 q1 s' slot
      by (intro exI [of _ t0] exI [of _ rest] exI [of _ "(record_send sent (pe_now_move env) t')\<lparr> tx_status := INMEMPOOL \<rparr>"]
          exI [of _ stx] exI [of _ q']) (simp add: id same_slot_def request_fits_def record_send_def)
  qed
qed

theorem pending_success_moves_head_witness:
  "\<exists>q'. s_queues ex_sent 7 = Some q' \<and> q_pending q' = [] \<and> length (q_inmempool q') = 1"
proof -
  have c: "case snd (process_single_pending ex_crypto ex_ok_pending 7 ex_queued) of Inl e \<Rightarrow> False
      | Inr r \<Rightarrow> po_status r = PendingSuccess"
    "map_option (length \<circ> q_pending) (s_queues ex_queued 7) = Some 1"
    "map_option (length \<circ> q_inmempool) (s_queues ex_queued 7) = Some 0" by code_simp+
  obtain r where r: "process_single_pending ex_crypto ex_ok_pending 7 ex_queued = (ex_sent, Inr r)"
    "po_status r = PendingSuccess"
    using c(1) by (cases "process_single_pending ex_crypto ex_ok_pending 7 ex_queued")
      (auto simp: ex_sent_def split: sum.splits)
  obtain q where q: "s_queues ex_queued 7 = Some q" "length (q_pending q) = 1" "q_inmempool q = []"
    using c(2,3) by auto
  from pending_success_moves_head [OF r q(1)] q show ?thesis by auto
qed

section \<open>The mempool step\<close>

lemma inmempool_other_counter [simp]:
  "same_counter rid q (fst (inmempool_other st after s)) = same_counter rid q s"
  by (simp add: inmempool_other_def)

lemma status_not_saved_fst [simp]: "fst (status_not_saved q rid t st e s) = s"
  by (simp add: status_not_saved_def)

lemma mining_counter:
  "move_inmempool_to_mining e m i r q = Inr (q', res) \<Longrightarrow> q_nonce_manager q' = q_nonce_manager q"
  by (erule move_inmempool_to_mining_Inr) simp

lemma receipt_counter:
  assumes "same_counter rid q s"
  shows "same_counter rid q (fst (inmempool_receipt env rid q t rc s))"
proof -
  have saved: "same_counter rid q (fst (save_mined_winner env rid q1 res rc s1))"
    "same_counter rid q (fst (save_expired_winner env rid q1 res s1))"
    "same_counter rid q (fst (save_failed_winner env rid q1 res s1))"
    if "same_counter rid q s1" for q1 res s1
    using that
    by (auto simp: save_mined_winner_def save_expired_winner_def save_failed_winner_def Let_def
        same_counter_db_call split: prod.splits sum.splits option.splits)
  show ?thesis
    using assms by (auto simp: inmempool_receipt_def Let_def saved mining_counter
        split: sum.splits prod.splits transaction_status.splits)
qed

lemma bump_sent_counter: "same_counter rid q (fst (bump_sent env rid q was t sent s))"
  by (simp add: bump_sent_def Let_def update_inmempool_transaction_gas_def update_inmempool_transaction_noop_def)

lemma inmempool_conflict_counter:
  assumes "same_counter rid q s"
    and "\<not> same_counter rid q (fst (inmempool_nonce_conflict env rid q t msg s))"
  shows "(\<forall>h. tx_known_transaction_hash t = Some h \<longrightarrow> ie_receipt_race env h = Inr None)
    \<and> inmempool_nonce_conflict env rid q t msg s = reassign_inmempool_nonce env rid q t msg s"
  using assms by (auto simp: inmempool_nonce_conflict_def split: option.splits sum.splits)

lemma bump_error_counter:
  assumes same: "same_counter rid q s" and moved: "\<not> same_counter rid q (fst (bump_error env rid q t e s))"
  shows "\<exists>msg. e = TransactionSendError msg \<and> classify_send_error (to_lowercase msg) = NonceConflict
    \<and> (\<forall>h. tx_known_transaction_hash t = Some h \<longrightarrow> ie_receipt_race env h = Inr None)
    \<and> bump_error env rid q t e s = reassign_inmempool_nonce env rid q t msg s"
proof (cases e)
  case (TransactionSendError msg)
  with moved same have c: "classify_send_error (to_lowercase msg) = NonceConflict"
    by (cases "classify_send_error (to_lowercase msg)") (simp_all add: bump_error_def)
  then have "bump_error env rid q t e s = inmempool_nonce_conflict env rid q t msg s"
    by (simp add: bump_error_def TransactionSendError)
  with inmempool_conflict_counter [OF same, of env t msg] moved c TransactionSendError show ?thesis by auto
qed (use moved same in \<open>simp_all add: bump_error_def\<close>)

lemma mempool_step_counter:
  assumes q: "s_queues s rid = Some q"
    and moved: "\<not> same_counter rid q (fst (process_single_inmempool cy env rid s))"
  obtains t w t' msg where "get_next_inmempool_transaction q = Some t"
    "send_transaction cy (ie_send env) q t (s_world s) = (w, t', Inl (TransactionSendError msg))"
    "classify_send_error (to_lowercase msg) = NonceConflict"
    "\<forall>h. tx_known_transaction_hash t' = Some h \<longrightarrow> ie_receipt_race env h = Inr None"
    "process_single_inmempool cy env rid s = reassign_inmempool_nonce env rid q t' msg (set_world w s)"
proof -
  have same: "same_counter rid q s" by (simp add: same_counter_def q)
  from moved obtain t where t: "get_next_inmempool_transaction q = Some t"
    and step: "process_single_inmempool cy env rid s = bump_inmempool cy env rid q t s"
    by (auto simp: process_single_inmempool_def inmempool_no_receipt_def get_transactions_queue_def q same
        receipt_counter split: if_splits option.splits sum.splits)
  obtain w t' r where sd: "send_transaction cy (ie_send env) q t (s_world s) = (w, t', r)"
    by (metis prod_cases3)
  have eq: "bump_inmempool cy env rid q t s =
      (case r of Inr sent \<Rightarrow> bump_sent env rid q (tx_is_noop t) t' sent (set_world w s)
       | Inl e \<Rightarrow> bump_error env rid q t' e (set_world w s))"
    by (simp add: bump_inmempool_def sd split: sum.split)
  with moved step obtain e where e: "r = Inl e" by (cases r) (auto simp: bump_sent_counter)
  have "\<not> same_counter rid q (fst (bump_error env rid q t' e (set_world w s)))"
    using moved step eq e by simp
  from bump_error_counter [OF _ this] same obtain msg where "e = TransactionSendError msg"
    "classify_send_error (to_lowercase msg) = NonceConflict"
    "\<forall>h. tx_known_transaction_hash t' = Some h \<longrightarrow> ie_receipt_race env h = Inr None"
    "bump_error env rid q t' e (set_world w s) = reassign_inmempool_nonce env rid q t' msg (set_world w s)"
    by auto
  then show thesis using that [OF t, of w t' msg] sd e eq step by simp
qed

text \<open>The mempool loop moves the nonce counter of a relayer only for a bump that the node rejected as a
  nonce conflict, after the recovery nonce could be read, and only when the hash recorded by the rejected
  bump has no receipt; the new nonce is not below the counter and is stored in every row of the
  transaction before memory changes.\<close>

theorem mempool_nonce_moves_only_on_conflict:
  assumes "s_queues s rid = Some q" "process_single_inmempool cy env rid s = (s', r)"
    and "s_queues s' rid = Some q'" "q_nonce_manager q' \<noteq> q_nonce_manager q"
  shows "\<exists>t w t' msg n. get_next_inmempool_transaction q = Some t
    \<and> send_transaction cy (ie_send env) q t (s_world s) = (w, t', Inl (TransactionSendError msg))
    \<and> classify_send_error (to_lowercase msg) = NonceConflict
    \<and> (\<forall>h. tx_known_transaction_hash t' = Some h \<longrightarrow> ie_receipt_race env h = Inr None)
    \<and> recover_nonce_synchronization (ie_onchain_nonce env) q = Inr n
    \<and> nm_nonce (q_nonce_manager q) \<le> n
    \<and> (\<forall>row \<in> set (db_rows (s_db s')). r_id row = tx_id t \<longrightarrow> r_nonce row = n)
    \<and> q_nonce_manager q' = advance_after_persisted_reservation n (q_nonce_manager q)"
proof -
  have moved: "\<not> same_counter rid q (fst (process_single_inmempool cy env rid s))"
    using assms(2-4) by (simp add: same_counter_def)
  obtain t w t' msg where t: "get_next_inmempool_transaction q = Some t"
    and sd: "send_transaction cy (ie_send env) q t (s_world s) = (w, t', Inl (TransactionSendError msg))"
    and c: "classify_send_error (to_lowercase msg) = NonceConflict"
    and race: "\<forall>h. tx_known_transaction_hash t' = Some h \<longrightarrow> ie_receipt_race env h = Inr None"
    and re: "process_single_inmempool cy env rid s = reassign_inmempool_nonce env rid q t' msg (set_world w s)"
    by (rule mempool_step_counter [OF assms(1) moved])
  have i: "tx_id t' = tx_id t" using send_transaction_keeps(1) [OF sd] by (simp add: same_slot_def)
  have run: "reassign_inmempool_nonce env rid q t' msg (set_world w s) = (s', r)" using re assms(2) by simp
  have same: "same_counter rid q (set_world w s)" using assms(1) by (simp add: same_counter_def)
  obtain n where n: "recover_nonce_synchronization (ie_onchain_nonce env) q = Inr n"
    using run assms(3,4) same
    by (cases "recover_nonce_synchronization (ie_onchain_nonce env) q")
       (auto simp: reassign_inmempool_nonce_def same_counter_def)
  obtain s1 nm t1 r1 where p: "persist_then_advance_transaction_nonce
      (persist_nonce (ie_persist_nonce env)) (q_nonce_manager q) t' n (set_world w s) = (s1, nm, t1, r1)"
    by (metis prod_cases4)
  have q1: "same_counter rid q s1"
    using persist_then_advance_sys(1) [OF p] same by (simp add: same_counter_def)
  have r1: "r1 = Inr ()" and stored: "nonce_stored (tx_id t') n s1"
    and nm: "nm = advance_after_persisted_reservation n (q_nonce_manager q)"
    using row_nonce.persist_then_advance_cases [OF p] run assms(3,4) q1
    by (auto simp: reassign_inmempool_nonce_def n p same_counter_def)
  have s': "s' = put_queue rid (update_inmempool_transaction_nonce (tx_id t') n
      (q\<lparr> q_nonce_manager := nm \<rparr>)) s1"
    using run by (simp add: reassign_inmempool_nonce_def n p r1 inmempool_other_def)
  have "nm_nonce (q_nonce_manager q) \<le> n"
    using n by (auto simp: recover_nonce_synchronization_def and_then_Inr get_current_nonce_def)
  with t sd c race n stored assms(3) i nm show ?thesis unfolding s'
    by (intro exI [of _ t] exI [of _ w] exI [of _ t'] exI [of _ msg] exI [of _ n])
       (auto simp: nonce_stored_def list_all_iff update_inmempool_transaction_nonce_def)
qed

text \<open>
  A bump of the transaction sent under the hash 1000 that the node rejects: the first submission was
  mined in the meantime.
\<close>

definition ex_race_env :: inmempool_env where
  "ex_race_env = ex_inmempool_env (\<lambda>h. Inr None) 1000000000000
     (ex_send_env 2000 (Inl ''Nonce too low'') 1000000000000)
     (\<lambda>h. if h = 1000 then Inr (Some (ex_receipt 1000 True)) else Inr None)"

definition ex_race :: inmempool_outcome where
  "ex_race = process_single_inmempool ex_crypto ex_race_env 7 ex_sent"

lemma ex_race_counters:
  "map_option q_nonce_manager (s_queues ex_sent 7) = Some \<lparr> nm_nonce = 6 \<rparr>"
  "map_option q_nonce_manager (s_queues (fst ex_race) 7) = Some \<lparr> nm_nonce = 7 \<rparr>"
  by code_simp+

theorem mempool_nonce_moves_only_on_conflict_witness:
  "\<exists>n q'. s_queues (fst ex_race) 7 = Some q' \<and> 6 \<le> n
    \<and> q_nonce_manager q' = advance_after_persisted_reservation n \<lparr> nm_nonce = 6 \<rparr>"
proof -
  obtain q where q: "s_queues ex_sent 7 = Some q" "q_nonce_manager q = \<lparr> nm_nonce = 6 \<rparr>"
    using ex_race_counters(1) by auto
  obtain q' where q': "s_queues (fst ex_race) 7 = Some q'" "q_nonce_manager q' = \<lparr> nm_nonce = 7 \<rparr>"
    using ex_race_counters(2) by auto
  have run: "process_single_inmempool ex_crypto ex_race_env 7 ex_sent = (fst ex_race, snd ex_race)"
    by (simp add: ex_race_def)
  have "q_nonce_manager q' \<noteq> q_nonce_manager q" using q(2) q'(2) by simp
  from mempool_nonce_moves_only_on_conflict [OF q(1) run q'(1) this] q q' show ?thesis by auto
qed

text \<open>
  In this run the live submission 1000 has a receipt, but the handler looks up the hash of the rejected
  bump only: the transaction keeps its payload and gets the nonce 6, so that it will be executed twice.
\<close>

lemma bump_race_ignores_live_hash:
  "ie_receipt_race ex_race_env 1000 = Inr (Some (ex_receipt 1000 True))"
  "map_option (map (\<lambda>ct. (tx_nonce (ct_original ct), tx_to (ct_original ct), tx_value (ct_original ct)))
     \<circ> q_inmempool) (s_queues ex_sent 7) = Some [(5, 99, 5)]"
  "map_option (map (\<lambda>ct. (tx_nonce (ct_original ct), tx_to (ct_original ct), tx_value (ct_original ct)))
     \<circ> q_inmempool) (s_queues (fst ex_race) 7) = Some [(6, 99, 5)]"
  by code_simp+

section \<open>The mined step\<close>

lemma confirmed_rows:
  assumes "transaction_confirmed i now d = Inr (d', u)"
  shows "list_all (\<lambda>r. r_id r = i \<longrightarrow> r_status r = CONFIRMED) (db_rows d')"
proof -
  have "db_rows d' = update_where (\<lambda>r. r_id r = i) (\<lambda>r. r\<lparr> r_status := CONFIRMED, r_confirmed_at := Some now \<rparr>)
      (db_rows d)"
    using assms by (simp add: transaction_confirmed_def update_and_audit_def Let_def commit_Inr)
  then show ?thesis by (simp add: update_where_all)
qed

lemma confirm_mined_queues:
  assumes "confirm_mined env rid q t s = (s', r)"
  shows "s_queues s' = s_queues s \<or>
    (\<exists>rc. confirmed_receipt env t = Inr rc \<and> s_queues s' = (s_queues s)(rid \<mapsto> move_mining_to_confirmed (tx_id t) q)
      \<and> list_all (\<lambda>row. r_id row = tx_id t \<longrightarrow> r_status row = CONFIRMED) (db_rows (s_db s')))"
proof -
  obtain s1 x where x: "db_call (me_confirm env) (transaction_confirmed (tx_id t) (me_now_confirm env)) s = (s1, x)"
    by force
  have q1: "s_queues s1 = s_queues s"
    using db_call_queues [of "me_confirm env" "transaction_confirmed (tx_id t) (me_now_confirm env)" s] x by simp
  show ?thesis
  proof (cases x)
    case (Inl e)
    with assms x q1 show ?thesis by (auto simp: confirm_mined_def split: sum.splits)
  next
    case (Inr u)
    from confirmed_rows [OF db_call_Inr [OF x [unfolded Inr]]] assms x Inr q1 show ?thesis
      by (auto simp: confirm_mined_def split: sum.splits)
  qed
qed

text \<open>C24: The mined loop confirms a transaction only when more time than the provider's number of
  confirmations in blocks has passed since it was mined and its receipt could be read again; then every
  row of it is CONFIRMED and it leaves the mined map, which otherwise keeps its entries. In every other
  case no queue changes.\<close>

theorem confirmed_only_in_range:
  assumes "process_single_mined env rid s = (s', r)" "s_queues s rid = Some q" "mined_ok q"
  shows "s_queues s' = s_queues s \<or>
    (\<exists>t mined_at rc q'. (tx_id t, t) \<in> set (q_mined q) \<and> tx_mined_at t = Some mined_at
      \<and> ep_blocks_every (q_evm_provider q) * q_confirmations q < elapsed_ms (me_now env) mined_at
      \<and> confirmed_receipt env t = Inr rc
      \<and> s_queues s' = (s_queues s)(rid \<mapsto> q') \<and> q' = q\<lparr> q_mined := AList.delete (tx_id t) (q_mined q) \<rparr>
      \<and> (\<forall>row \<in> set (db_rows (s_db s')). r_id row = tx_id t \<longrightarrow> r_status row = CONFIRMED))"
proof (cases "s_queues s' = s_queues s")
  case False
  with assms(1,2) obtain t mined_at where t: "get_next_mined_transaction (me_pick env) q = Some t"
    and m: "tx_mined_at t = Some mined_at" "in_confirmed_range q (elapsed_ms (me_now env) mined_at)"
    and run: "confirm_mined env rid q t s = (s', r)"
    by (auto simp: process_single_mined_def get_transactions_queue_def split: option.splits if_splits)
  from get_next_mined_SomeD [OF t] obtain i where i: "(i, t) \<in> set (q_mined q)" by blast
  have "(tx_id t, t) \<in> set (q_mined q)" using assms(3) i by (auto simp: mined_ok_def list_all_iff)
  with confirm_mined_queues [OF run] False m show ?thesis
    by (auto simp: in_confirmed_range_def move_mining_to_confirmed_def list_all_iff)
qed simp

definition ex_mined :: sys where
  "ex_mined = fst (process_single_inmempool ex_crypto
     (ex_inmempool_env (\<lambda>h. Inr (Some (ex_receipt 1000 True))) 100 (ex_send_env 2000 (Inr 2000) 100) (\<lambda>h. Inr None)) 7 ex_sent)"

definition ex_mined_env :: mined_env where
  "ex_mined_env = \<lparr> me_pick = 0, me_now = 1000000000000, me_receipt = (\<lambda>h. Inr (Some (ex_receipt 1000 True))),
     me_confirm = DbOk, me_now_confirm = 1000000000000, me_now_webhook = 1000000000000 \<rparr>"

definition ex_confirmed :: mined_outcome where
  "ex_confirmed = process_single_mined ex_mined_env 7 ex_mined"

lemma ex_confirmed_maps:
  "map_option (map fst \<circ> q_mined) (s_queues ex_mined 7) = Some [1]"
  "map_option (map fst \<circ> q_mined) (s_queues (fst ex_confirmed) 7) = Some []"
  by code_simp+

theorem confirmed_only_in_range_witness:
  "\<exists>q t mined_at. s_queues ex_mined 7 = Some q \<and> (tx_id t, t) \<in> set (q_mined q) \<and> tx_mined_at t = Some mined_at
    \<and> ep_blocks_every (q_evm_provider q) * q_confirmations q < elapsed_ms 1000000000000 mined_at"
proof -
  obtain q where q: "s_queues ex_mined 7 = Some q" "map fst (q_mined q) = [1]"
    using ex_confirmed_maps(1) by auto
  have "reachable ex_crypto ex_ap ex_tp ex_mined"
    unfolding ex_mined_def by (rule reachable.Step [OF ex_reachable(3) step.Inmempool])
  then have ok: "mined_ok q" using sys_okD [OF reachable_ok q(1)] by (auto simp: queue_ok_def)
  have run: "process_single_mined ex_mined_env 7 ex_mined = (fst ex_confirmed, snd ex_confirmed)"
    by (simp add: ex_confirmed_def)
  have "s_queues (fst ex_confirmed) \<noteq> s_queues ex_mined"
    using ex_confirmed_maps by (metis option.inject list.distinct(1))
  with confirmed_only_in_range [OF run q(1) ok] q(1) show ?thesis by (auto simp: ex_mined_env_def)
qed

text \<open>After shutdown was requested no loop does anything any more: neither memory nor the database nor
  the network changes, whatever the queues hold.\<close>

theorem shutdown_stops_the_loops:
  assumes "s_shutting_down s"
  shows "fst (process_single_pending cy penv rid s) = s \<and> fst (process_single_inmempool cy ienv rid s) = s
    \<and> fst (process_single_mined menv rid s) = s"
  using assms
  by (auto simp: process_single_pending_def process_single_inmempool_def process_single_mined_def
      pending_other_def inmempool_other_def split: option.splits)

theorem shutdown_stops_the_loops_witness:
  "fst (process_single_pending ex_crypto ex_ok_pending 7 (ex_queued\<lparr> s_shutting_down := True \<rparr>))
     = ex_queued\<lparr> s_shutting_down := True \<rparr>"
proof -
  have "s_shutting_down (ex_queued\<lparr> s_shutting_down := True \<rparr>)" by simp
  from shutdown_stops_the_loops [OF this] show ?thesis by blast
qed

end
