(* ===== verification/Access_Control.thy ===== *)
theory Access_Control
  imports Tx_Types Rate_Limiter
begin

text \<open>
  Who may use a relayer (app_state.rs, policy/, middleware/policy.rs, authentication/basic_auth.rs and
  the addresses of yaml.rs): basic authentication, API keys, the request policy (source address and
  signed token), relayers kept for internal use, and the permissions of a network. The base64
  decoder, the JWT decoder and the parsers of IP addresses and networks are parameters.
\<close>

section \<open>Answers and headers\<close>

datatype http_status =
    BAD_REQUEST | UNAUTHORIZED | FORBIDDEN | NOT_FOUND | CONFLICT | TOO_MANY_REQUESTS
  | INTERNAL_SERVER_ERROR

type_synonym http_error = "http_status \<times> string"

definition internal_server_error :: "string option \<Rightarrow> http_error" where
  "internal_server_error m =
     (INTERNAL_SERVER_ERROR, case m of Some s \<Rightarrow> s | None \<Rightarrow> ''Internal server error'')"

definition bad_request :: "string \<Rightarrow> http_error" where
  "bad_request m = (BAD_REQUEST, m)"

definition not_found :: "string \<Rightarrow> http_error" where
  "not_found m = (NOT_FOUND, m)"

definition too_many_requests :: http_error where
  "too_many_requests = (TOO_MANY_REQUESTS, ''Too many requests'')"

definition unauthorized :: "string option \<Rightarrow> http_error" where
  "unauthorized m = (UNAUTHORIZED, case m of Some s \<Rightarrow> s | None \<Rightarrow> ''Unauthorized'')"

definition forbidden :: "string \<Rightarrow> http_error" where
  "forbidden m = (FORBIDDEN, m)"

definition conflict :: "string \<Rightarrow> http_error" where
  "conflict m = (CONFLICT, m)"

text \<open>
  Headers by lower-case name; a lookup ignores the case of the name. A value is its bytes, and
  \<open>to_str\<close> accepts it when every byte is visible ASCII, a blank or a tab.
\<close>

type_synonym header_map = "string \<rightharpoonup> string"

definition header_get :: "header_map \<Rightarrow> string \<Rightarrow> string option" where
  "header_get h name = h (to_lowercase name)"

definition header_insert :: "string \<Rightarrow> string \<Rightarrow> header_map \<Rightarrow> header_map" where
  "header_insert name v h = h(to_lowercase name \<mapsto> v)"

definition visible :: "char \<Rightarrow> bool" where
  "visible c = (let n = (of_char c :: nat) in (32 \<le> n \<and> n < 127) \<or> n = 9)"

definition to_str :: "string \<Rightarrow> string option" where
  "to_str v = (if list_all visible v then Some v else None)"

definition header_text :: "header_map \<Rightarrow> string \<Rightarrow> string option" where
  "header_text h name = Option.bind (header_get h name) to_str"

section \<open>Basic authentication\<close>

text \<open>
  \<open>b64\<close> decodes base64 into the text it encodes (none for bad base64 or bad UTF-8). The server's name
  and password are read from the environment at each request.
\<close>

record server_env =
  se_username :: "string option"
  se_password :: "string option"
  se_b64 :: "string \<Rightarrow> string option"

datatype basic_auth_error =
    MissingAuthHeader | InvalidHeaderFormat | InvalidBase64 | InvalidCredentialsFormat
  | InvalidCredentials | MissingServerCredentials

fun split_colon :: "string \<Rightarrow> (string \<times> string) option" where
  "split_colon [] = None"
| "split_colon (c # cs) =
     (if c = CHR '':'' then Some ([], cs)
      else (case split_colon cs of None \<Rightarrow> None | Some (a, b) \<Rightarrow> Some (c # a, b)))"

definition credentials_from_headers ::
  "server_env \<Rightarrow> header_map \<Rightarrow> basic_auth_error + (string \<times> string)" where
  "credentials_from_headers se h =
     (case header_get h ''Authorization'' of
        None \<Rightarrow> Inl MissingAuthHeader
      | Some v \<Rightarrow>
          (case to_str v of
             None \<Rightarrow> Inl InvalidHeaderFormat
           | Some s \<Rightarrow>
               if take 6 s \<noteq> ''Basic '' then Inl InvalidHeaderFormat
               else (case se_b64 se (drop 6 s) of
                       None \<Rightarrow> Inl InvalidBase64
                     | Some text \<Rightarrow> ok_or InvalidCredentialsFormat (split_colon text))))"

definition validate_credentials :: "server_env \<Rightarrow> string \<times> string \<Rightarrow> basic_auth_error + unit" where
  "validate_credentials se creds =
     and_then (ok_or MissingServerCredentials (se_username se)) (\<lambda>u.
     and_then (ok_or MissingServerCredentials (se_password se)) (\<lambda>p.
       if fst creds = u \<and> snd creds = p then Inr () else Inl InvalidCredentials))"

definition validate_basic_auth :: "server_env \<Rightarrow> header_map \<Rightarrow> basic_auth_error + unit" where
  "validate_basic_auth se h = and_then (credentials_from_headers se h) (validate_credentials se)"

text \<open>The middleware in front of every route overwrites the marker the handlers read.\<close>

definition inject_basic_auth_status :: "server_env \<Rightarrow> header_map \<Rightarrow> header_map" where
  "inject_basic_auth_status se h =
     (if is_ok (validate_basic_auth se h)
      then header_insert ''x-rrelayer-basic-auth-valid'' ''true'' h
      else header_insert ''x-rrelayer-basic-auth-valid'' ''false'' h)"

section \<open>Configuration\<close>

datatype all_or_addresses = AllAddresses | ListedAddresses "evm_address list"

definition aoa_contains :: "all_or_addresses \<Rightarrow> evm_address \<Rightarrow> bool" where
  "aoa_contains a x = (case a of AllAddresses \<Rightarrow> True | ListedAddresses l \<Rightarrow> x \<in> set l)"

datatype all_or_one_or_many = AoAll | AoOne evm_address | AoMany "evm_address list"

definition aom_contains :: "all_or_one_or_many \<Rightarrow> evm_address \<Rightarrow> bool" where
  "aom_contains a x = (case a of AoAll \<Rightarrow> True | AoOne y \<Rightarrow> y = x | AoMany l \<Rightarrow> x \<in> set l)"

definition aom_len :: "all_or_one_or_many \<Rightarrow> nat option" where
  "aom_len a = (case a of AoAll \<Rightarrow> None | AoOne _ \<Rightarrow> Some 1 | AoMany l \<Rightarrow> Some (length l))"

definition aom_is_empty :: "all_or_one_or_many \<Rightarrow> bool" where
  "aom_is_empty a = (case a of AoAll \<Rightarrow> False | AoOne _ \<Rightarrow> False | AoMany l \<Rightarrow> l = [])"

definition aom_iter :: "all_or_one_or_many \<Rightarrow> evm_address list" where
  "aom_iter a = (case a of AoAll \<Rightarrow> [] | AoOne x \<Rightarrow> [x] | AoMany l \<Rightarrow> l)"

record jwt_hs256_config =
  jw_secret_env :: string
  jw_signature_header :: "string option"

definition signature_header :: "jwt_hs256_config \<Rightarrow> string" where
  "signature_header c =
     (case jw_signature_header c of Some h \<Rightarrow> h | None \<Rightarrow> ''x-appsmith-signature'')"

datatype signature_scheme = JwtHs256 jwt_hs256_config

record network_permissions =
  np_relayers :: all_or_one_or_many
  np_allowlist :: "evm_address list"
  np_disable_native_transfer :: "bool option"
  np_disable_personal_sign :: "bool option"
  np_disable_typed_data_sign :: "bool option"
  np_disable_transactions :: "bool option"
  np_ip_allowlist :: "string list option"
  np_request_verification :: "signature_scheme option"

record api_key =
  ak_relayer :: evm_address
  ak_keys :: "string list"

definition unwrap_or_default :: "bool option \<Rightarrow> bool" where
  "unwrap_or_default b = (case b of Some x \<Rightarrow> x | None \<Rightarrow> False)"

section \<open>The source address of a request\<close>

datatype ip_addr = V4 u32 | V6 u128

text \<open>
  The parsers of the standard library and of the crate for networks: an address, and a network as
  the addresses it contains; and the display of an address.
\<close>

record ip_params =
  ip_parse_addr :: "string \<Rightarrow> ip_addr option"
  ip_parse_net :: "string \<Rightarrow> (ip_addr \<Rightarrow> bool) option"
  ip_show :: "ip_addr \<Rightarrow> string"

datatype ip_allowlist_error = InvalidRule string

definition rule_matches :: "ip_params \<Rightarrow> ip_addr \<Rightarrow> string \<Rightarrow> ip_allowlist_error + bool" where
  "rule_matches ip client rule0 =
     (let rule = trim rule0
      in if rule = [] then Inl (InvalidRule rule)
         else (case ip_parse_net ip rule of
                 Some net \<Rightarrow> Inr (net client)
               | None \<Rightarrow>
                   (case ip_parse_addr ip rule of
                      Some a \<Rightarrow> Inr (a = client)
                    | None \<Rightarrow> Inl (InvalidRule rule))))"

fun validate_ip_allowlist :: "ip_params \<Rightarrow> string list \<Rightarrow> ip_allowlist_error + unit" where
  "validate_ip_allowlist ip [] = Inr ()"
| "validate_ip_allowlist ip (r # rs) =
     and_then (rule_matches ip (V4 0) r) (\<lambda>_. validate_ip_allowlist ip rs)"

fun ip_allowed :: "ip_params \<Rightarrow> ip_addr \<Rightarrow> string list \<Rightarrow> ip_allowlist_error + bool" where
  "ip_allowed ip client [] = Inr False"
| "ip_allowed ip client (r # rs) =
     and_then (rule_matches ip client r) (\<lambda>b. if b then Inr True else ip_allowed ip client rs)"

text \<open>
  The address of the client: the first entry of the forwarding header when the proxy is trusted (a
  header that cannot be read gives none), and the peer of the connection otherwise.
\<close>

definition extract_client_ip ::
  "ip_params \<Rightarrow> header_map \<Rightarrow> ip_addr option \<Rightarrow> bool \<Rightarrow> ip_addr option" where
  "extract_client_ip ip h connect trust =
     (if trust
      then (case header_get h ''x-forwarded-for'' of
              Some raw \<Rightarrow>
                Option.bind (to_str raw)
                  (\<lambda>v. ip_parse_addr ip (trim (takeWhile (\<lambda>c. c \<noteq> CHR '','') v)))
            | None \<Rightarrow> connect)
      else connect)"

section \<open>Signed requests\<close>

datatype signature_error =
    MissingSignatureHeader string
  | NonAsciiHeader string
  | SecretEnvMissing string
  | SecretEnvEmpty string
  | InvalidJwt

text \<open>
  \<open>jp_decode secret token\<close> is the expiry claim of a token whose HS256 signature is valid for the
  secret (none for any other token); \<open>jp_env\<close> is the environment and \<open>jp_show\<close> the display of an error.
\<close>

record jwt_params =
  jp_decode :: "string \<Rightarrow> string \<Rightarrow> u64 option"
  jp_env :: "string \<Rightarrow> string option"
  jp_show :: "signature_error \<Rightarrow> string"

definition verify_jwt_hs256_at ::
  "jwt_params \<Rightarrow> jwt_hs256_config \<Rightarrow> header_map \<Rightarrow> u64 \<Rightarrow> signature_error + unit" where
  "verify_jwt_hs256_at jp c h now =
     (case jp_env jp (jw_secret_env c) of
        None \<Rightarrow> Inl (SecretEnvMissing (jw_secret_env c))
      | Some secret \<Rightarrow>
          if trim secret = [] then Inl (SecretEnvEmpty (jw_secret_env c))
          else (case header_get h (signature_header c) of
                  None \<Rightarrow> Inl (MissingSignatureHeader (signature_header c))
                | Some v \<Rightarrow>
                    (case to_str v of
                       None \<Rightarrow> Inl (NonAsciiHeader (signature_header c))
                     | Some raw \<Rightarrow>
                         (let token = trim raw
                          in if token = [] then Inl InvalidJwt
                             else (case jp_decode jp secret token of
                                     None \<Rightarrow> Inl InvalidJwt
                                   | Some expiry \<Rightarrow>
                                       if expiry \<le> now then Inl InvalidJwt else Inr ())))))"

text \<open>The clock in seconds; none when it is before the epoch.\<close>

definition verify_request_signature ::
  "jwt_params \<Rightarrow> u64 option \<Rightarrow> signature_scheme \<Rightarrow> header_map \<Rightarrow> signature_error + unit" where
  "verify_request_signature jp clock scheme h =
     and_then (ok_or InvalidJwt clock) (\<lambda>now.
       case scheme of JwtHs256 c \<Rightarrow> verify_jwt_hs256_at jp c h now)"

section \<open>The request policy\<close>

record policy_params =
  pp_ip :: ip_params
  pp_jwt :: jwt_params
  pp_clock :: "u64 option"
  pp_address :: address_text

definition check_source ::
  "ip_params \<Rightarrow> ip_addr option \<Rightarrow> string list \<Rightarrow> http_error + unit" where
  "check_source ip client rules =
     (case client of
        None \<Rightarrow> Inl (forbidden ''ip allowlist is enforced but client ip could not be resolved'')
      | Some a \<Rightarrow>
          (case ip_allowed ip a rules of
             Inl e \<Rightarrow> Inl (internal_server_error (Some ''request policy configuration is invalid''))
           | Inr ok \<Rightarrow>
               if \<not> ok then Inl (forbidden (''client ip '' @ ip_show ip a @
                                            '' is not allowed by relayer policy''))
               else Inr ()))"

definition check_signature ::
  "jwt_params \<Rightarrow> u64 option \<Rightarrow> header_map \<Rightarrow> signature_scheme \<Rightarrow> http_error + unit" where
  "check_signature jp clock h scheme =
     (case verify_request_signature jp clock scheme h of
        Inr _ \<Rightarrow> Inr ()
      | Inl (SecretEnvMissing _) \<Rightarrow>
          Inl (internal_server_error (Some ''request verification is unavailable''))
      | Inl (SecretEnvEmpty _) \<Rightarrow>
          Inl (internal_server_error (Some ''request verification is unavailable''))
      | Inl e \<Rightarrow> Inl (unauthorized (Some (jp_show jp e))))"

definition when_some :: "'a option \<Rightarrow> ('a \<Rightarrow> http_error + unit) \<Rightarrow> http_error + unit" where
  "when_some x f = (case x of Some a \<Rightarrow> f a | None \<Rightarrow> Inr ())"

fun validate_request_policy_entries ::
  "policy_params \<Rightarrow> ip_addr option \<Rightarrow> header_map \<Rightarrow> evm_address \<Rightarrow> network_permissions list \<Rightarrow>
   http_error + unit" where
  "validate_request_policy_entries pp client h relayer [] = Inr ()"
| "validate_request_policy_entries pp client h relayer (p # ps) =
     (if \<not> aom_contains (np_relayers p) relayer
      then validate_request_policy_entries pp client h relayer ps
      else and_then (when_some (np_ip_allowlist p) (check_source (pp_ip pp) client)) (\<lambda>_.
           and_then (when_some (np_request_verification p)
                       (check_signature (pp_jwt pp) (pp_clock pp) h)) (\<lambda>_.
             validate_request_policy_entries pp client h relayer ps)))"

section \<open>The application state\<close>

record app_config =
  ac_internal_only :: "(chain_id \<times> evm_address) list"
  ac_random :: "chain_id \<rightharpoonup> evm_address list"
  ac_permissions :: "(chain_id \<times> network_permissions list) list"
  ac_api_keys :: "(chain_id \<times> api_key list) list"
  ac_blobs_enabled :: "(chain_id \<times> bool option) list"
  ac_private_key_only :: "chain_id list"

definition restricted :: "app_config \<Rightarrow> evm_address \<Rightarrow> chain_id \<Rightarrow> bool" where
  "restricted ac relayer chain =
     list_ex (\<lambda>(c, a). c = chain \<and> a = relayer) (ac_internal_only ac)"

definition is_allowed_for_random :: "app_config \<Rightarrow> evm_address \<Rightarrow> chain_id \<Rightarrow> bool" where
  "is_allowed_for_random ac relayer chain =
     (case ac_random ac chain of
        Some allowed \<Rightarrow> allowed = [] \<or> relayer \<in> set allowed
      | None \<Rightarrow> False)"

definition find_network_permission :: "app_config \<Rightarrow> chain_id \<Rightarrow> network_permissions list option" where
  "find_network_permission ac chain =
     map_option snd (find (\<lambda>n. fst n = chain) (ac_permissions ac))"

definition find_api_keys :: "app_config \<Rightarrow> chain_id \<Rightarrow> api_key list option" where
  "find_api_keys ac chain = map_option snd (find (\<lambda>k. fst k = chain) (ac_api_keys ac))"

definition is_basic_auth_valid :: "header_map \<Rightarrow> bool" where
  "is_basic_auth_valid h = (header_text h ''x-rrelayer-basic-auth-valid'' = Some ''true'')"

definition validate_basic_auth_valid :: "header_map \<Rightarrow> http_error + unit" where
  "validate_basic_auth_valid h =
     (if is_basic_auth_valid h then Inr () else Inl (unauthorized None))"

definition validate_allowed_passed_basic_auth :: "app_config \<Rightarrow> header_map \<Rightarrow> http_error + unit" where
  "validate_allowed_passed_basic_auth ac h =
     (let api_keys_enabled = (ac_api_keys ac \<noteq> [])
      in if \<not> api_keys_enabled \<and> \<not> is_basic_auth_valid h then Inl (unauthorized None) else Inr ())"

definition presented_key :: "header_map \<Rightarrow> string option" where
  "presented_key h = header_text h ''x-rrelayer-api-key''"

text \<open>The first entry of the relayer decides.\<close>

fun key_of_relayer :: "string \<Rightarrow> evm_address \<Rightarrow> api_key list \<Rightarrow> bool" where
  "key_of_relayer key relayer [] = False"
| "key_of_relayer key relayer (c # cs) =
     (if ak_relayer c = relayer then key \<in> set (ak_keys c) else key_of_relayer key relayer cs)"

definition is_api_key_valid_for_relayer :: "app_config \<Rightarrow> header_map \<Rightarrow> evm_address \<Rightarrow> chain_id \<Rightarrow> bool" where
  "is_api_key_valid_for_relayer ac h relayer chain =
     (case presented_key h of
        None \<Rightarrow> False
      | Some key \<Rightarrow>
          (case find_api_keys ac chain of
             None \<Rightarrow> False
           | Some cs \<Rightarrow> key_of_relayer key relayer cs))"

definition validate_auth_basic_or_api_key ::
  "app_config \<Rightarrow> header_map \<Rightarrow> evm_address \<Rightarrow> chain_id \<Rightarrow> http_error + unit" where
  "validate_auth_basic_or_api_key ac h relayer chain =
     (if is_basic_auth_valid h then Inr ()
      else if is_api_key_valid_for_relayer ac h relayer chain then Inr ()
      else Inl (unauthorized None))"

definition relayers_of_key :: "string \<Rightarrow> api_key list \<Rightarrow> evm_address list" where
  "relayers_of_key key cs = map ak_relayer (filter (\<lambda>c. key \<in> set (ak_keys c)) cs)"

definition some_unless_empty :: "'a list \<Rightarrow> 'a list option" where
  "some_unless_empty xs = (if xs = [] then None else Some xs)"

definition validate_api_key_and_get_relayers ::
  "app_config \<Rightarrow> header_map \<Rightarrow> chain_id \<Rightarrow> evm_address list option" where
  "validate_api_key_and_get_relayers ac h chain =
     Option.bind (presented_key h) (\<lambda>key.
     Option.bind (find_api_keys ac chain) (\<lambda>cs. some_unless_empty (relayers_of_key key cs)))"

definition is_api_key_valid_across_any_chain :: "app_config \<Rightarrow> header_map \<Rightarrow> bool" where
  "is_api_key_valid_across_any_chain ac h =
     (case presented_key h of
        None \<Rightarrow> False
      | Some key \<Rightarrow> list_ex (\<lambda>(c, cs). list_ex (\<lambda>k. key \<in> set (ak_keys k)) cs) (ac_api_keys ac))"

definition get_api_key_access :: "app_config \<Rightarrow> header_map \<Rightarrow> (chain_id \<times> evm_address list) list option" where
  "get_api_key_access ac h =
     Option.bind (presented_key h) (\<lambda>key.
       some_unless_empty
         (filter (\<lambda>(c, rs). rs \<noteq> [])
           (map (\<lambda>(c, cs). (c, relayers_of_key key cs)) (ac_api_keys ac))))"

datatype auth_status = BasicStatus | ApiKeyStatus "(chain_id \<times> evm_address list) list"

definition auth_status_api :: "app_config \<Rightarrow> header_map \<Rightarrow> http_error + auth_status" where
  "auth_status_api ac h =
     (case validate_basic_auth_valid h of
        Inr _ \<Rightarrow> Inr BasicStatus
      | Inl _ \<Rightarrow>
          (case get_api_key_access ac h of
             Some access \<Rightarrow> Inr (ApiKeyStatus access)
           | None \<Rightarrow> Inl (unauthorized None)))"

definition restricted_addresses :: "app_config \<Rightarrow> evm_address \<Rightarrow> chain_id \<Rightarrow> evm_address list" where
  "restricted_addresses ac relayer chain =
     (case find_network_permission ac chain of
        None \<Rightarrow> []
      | Some ps \<Rightarrow> concat (map np_allowlist (filter (\<lambda>p. aom_contains (np_relayers p) relayer) ps)))"

definition restricted_personal_signing ::
  "app_config \<Rightarrow> evm_address \<Rightarrow> chain_id \<Rightarrow> http_error + unit" where
  "restricted_personal_signing ac relayer chain =
     (case find_network_permission ac chain of
        None \<Rightarrow> Inr ()
      | Some ps \<Rightarrow>
          if list_ex (\<lambda>p. aom_contains (np_relayers p) relayer \<and>
                          unwrap_or_default (np_disable_personal_sign p)) ps
          then Inl (unauthorized (Some ''Relayer have disabled personal signing'')) else Inr ())"

definition validate_request_policy ::
  "policy_params \<Rightarrow> app_config \<Rightarrow> ip_addr option \<Rightarrow> header_map \<Rightarrow> evm_address \<Rightarrow> chain_id \<Rightarrow>
   http_error + unit" where
  "validate_request_policy pp ac client h relayer chain =
     (case find_network_permission ac chain of
        None \<Rightarrow> Inr ()
      | Some ps \<Rightarrow> validate_request_policy_entries pp client h relayer ps)"

datatype network_validate_action = ActTransaction | ActSigningTypedData

definition permission_denies ::
  "address_text \<Rightarrow> network_validate_action \<Rightarrow> evm_address \<Rightarrow> u256 \<Rightarrow> network_permissions \<Rightarrow>
   http_error option" where
  "permission_denies ad action to value p =
     (if action = ActTransaction \<and> unwrap_or_default (np_disable_transactions p)
      then Some (unauthorized (Some ''Relayer have disabled transactions''))
      else if action = ActSigningTypedData \<and> unwrap_or_default (np_disable_typed_data_sign p)
      then Some (unauthorized (Some ''Relayer have disabled typed data signing''))
      else if np_allowlist p \<noteq> [] \<and> to \<notin> set (np_allowlist p)
      then Some (unauthorized (Some (''relayer is not allowed to send transactions to '' @ at_show ad to)))
      else if value \<noteq> 0 \<and> unwrap_or_default (np_disable_native_transfer p)
      then Some (unauthorized (Some ''native transfer is disabled for this relayer''))
      else None)"

fun validate_permissions ::
  "address_text \<Rightarrow> evm_address \<Rightarrow> evm_address \<Rightarrow> u256 \<Rightarrow> network_validate_action \<Rightarrow>
   network_permissions list \<Rightarrow> http_error + unit" where
  "validate_permissions ad relayer to value action [] = Inr ()"
| "validate_permissions ad relayer to value action (p # ps) =
     (if aom_contains (np_relayers p) relayer
      then (case permission_denies ad action to value p of
              Some e \<Rightarrow> Inl e
            | None \<Rightarrow> validate_permissions ad relayer to value action ps)
      else validate_permissions ad relayer to value action ps)"

definition network_permission_validate ::
  "address_text \<Rightarrow> app_config \<Rightarrow> evm_address \<Rightarrow> chain_id \<Rightarrow> evm_address \<Rightarrow> u256 \<Rightarrow>
   network_validate_action \<Rightarrow> http_error + unit" where
  "network_permission_validate ad ac relayer chain to value action =
     (case find_network_permission ac chain of
        None \<Rightarrow> Inr ()
      | Some ps \<Rightarrow> validate_permissions ad relayer to value action ps)"

text \<open>Blob transactions must be switched on for the network.\<close>

definition validate_blobs :: "app_config \<Rightarrow> chain_id \<Rightarrow> 'a option \<Rightarrow> http_error + unit" where
  "validate_blobs ac chain blobs =
     (case blobs of
        None \<Rightarrow> Inr ()
      | Some _ \<Rightarrow>
          (case find (\<lambda>n. fst n = chain) (ac_blobs_enabled ac) of
             None \<Rightarrow> Inl (internal_server_error (Some ''Network configuration not found''))
           | Some (_, enabled) \<Rightarrow>
               if \<not> unwrap_or_default enabled
               then Inl (internal_server_error
                      (Some ''Blob transactions are not enabled for this network''))
               else Inr ()))"

end
