(* ===== verification/Request_Api.thy ===== *)
theory Request_Api
  imports Access_Control Cancel_Replace
begin

text \<open>
  The HTTP handlers that submit, cancel and replace transactions and that sign (transaction/api/,
  signing/api/): which checks each makes and in which order, the rate limit reservation it holds,
  and the queue operation it calls. The lookups of the relayer or the transaction, the clocks and the
  answers of database, network and signer are inputs.
\<close>

section \<open>The application\<close>

record signed_text =
  sg_relayer :: relayer_id
  sg_message :: string
  sg_signature :: "u8 list"
  sg_chain_id :: chain_id

text \<open>The configuration, the limiter, the queues with their database, and the tables of signatures.\<close>

record app =
  as_config :: app_config
  as_limiter :: "rate_limiter option"
  as_sys :: sys
  as_signed_texts :: "signed_text list"
  as_signed_typed_data :: "signed_text list"

text \<open>
  The parameters of the handlers: the policy's parsers, the cryptography, the digest, the text
  conversions, the parser of blobs, and the display of errors.
\<close>

record api_params =
  ai_policy :: policy_params
  ai_crypto :: crypto
  ai_admission :: admission_params
  ai_text :: text_params
  ai_parse_blob :: "string \<Rightarrow> transaction_blob option"
  ai_show_db :: "db_error \<Rightarrow> string"
  ai_show_cancel :: "cancel_error \<Rightarrow> string"
  ai_show_replace :: "replace_error \<Rightarrow> string"

abbreviation ai_address :: "api_params \<Rightarrow> address_text" where
  "ai_address ai \<equiv> pp_address (ai_policy ai)"

text \<open>What a request carries and when it arrives.\<close>

record request =
  hr_headers :: header_map
  hr_client_ip :: "ip_addr option"
  hr_clock :: limiter_clock
  hr_limiter_lookup :: "string + evm_address option"

section \<open>Errors as answers\<close>

definition of_db_error :: "api_params \<Rightarrow> db_error \<Rightarrow> http_error" where
  "of_db_error ai e = internal_server_error (Some (ai_show_db ai e))"

definition of_add_error :: "api_params \<Rightarrow> add_transaction_error \<Rightarrow> http_error" where
  "of_add_error ai e =
     (let s = ap_show_error (ai_admission ai) e
      in case e of
           AddExternalIdConflict _ \<Rightarrow> conflict s
         | AddRelayerIsPaused _ \<Rightarrow> forbidden s
         | AddRelayerNotFound _ \<Rightarrow> not_found s
         | AddUnsupportedTransactionType _ \<Rightarrow> bad_request s
         | _ \<Rightarrow> internal_server_error (Some s))"

definition of_cancel_error :: "api_params \<Rightarrow> cancel_error \<Rightarrow> http_error" where
  "of_cancel_error ai e =
     (let s = ai_show_cancel ai e
      in case e of
           CancelRelayerIsPaused _ \<Rightarrow> forbidden s
         | CancelRelayerNotFound _ \<Rightarrow> not_found s
         | _ \<Rightarrow> internal_server_error (Some s))"

text \<open>A panic of the handler closes the connection without an answer.\<close>

datatype 'a answer = Answered 'a | HandlerPanicked

definition of_replace_error :: "api_params \<Rightarrow> replace_error \<Rightarrow> http_error answer" where
  "of_replace_error ai e =
     (let s = ai_show_replace ai e
      in case e of
           ReplaceExternalIdConflict \<Rightarrow> Answered (conflict s)
         | ReplaceTransactionNotFound _ \<Rightarrow> Answered (bad_request s)
         | ReplaceRelayerIsPaused _ \<Rightarrow> Answered (forbidden s)
         | ReplacePanic \<Rightarrow> HandlerPanicked
         | _ \<Rightarrow> Answered (internal_server_error (Some s)))"

section \<open>Reservations\<close>

definition RATE_LIMIT_HEADER_NAME :: string where
  "RATE_LIMIT_HEADER_NAME = ''x-rrelayer-rate-limit-key''"

definition reserve_request ::
  "api_params \<Rightarrow> request \<Rightarrow> rate_limit_operation \<Rightarrow> app \<Rightarrow> app \<times> (http_error + reservation option)" where
  "reserve_request ai hr op a =
     (case check_and_reserve_rate_limit (ai_address ai) (hr_clock hr)
             (header_text (hr_headers hr) RATE_LIMIT_HEADER_NAME) (hr_limiter_lookup hr) op
             (as_limiter a) of
        (l, outcome) \<Rightarrow>
          (a\<lparr> as_limiter := l \<rparr>,
           case outcome of
             Reserved rv \<Rightarrow> Inr (Some rv)
           | NotLimited \<Rightarrow> Inr None
           | TooManyRequests \<Rightarrow> Inl too_many_requests
           | RelayerDoesNotExist \<Rightarrow> Inl (not_found ''Relayer does not exist'')
           | LookupFailed e \<Rightarrow> Inl (internal_server_error (Some e))))"

text \<open>
  A reservation that is dropped without a commit is taken back; the task that does it is placed at
  the end of the request.
\<close>

definition drop_reservation :: "api_params \<Rightarrow> reservation option \<Rightarrow> app \<Rightarrow> app" where
  "drop_reservation ai rv a =
     (case rv of
        None \<Rightarrow> a
      | Some r \<Rightarrow> a\<lparr> as_limiter := map_option (revert (ai_address ai) r) (as_limiter a) \<rparr>)"

section \<open>Submission\<close>

text \<open>The checks before any state is read, in their order.\<close>

definition authorise_use ::
  "api_params \<Rightarrow> app_config \<Rightarrow> request \<Rightarrow> evm_address \<Rightarrow> chain_id \<Rightarrow> http_error + unit" where
  "authorise_use ai ac hr relayer chain =
     and_then (validate_auth_basic_or_api_key ac (hr_headers hr) relayer chain) (\<lambda>_.
       validate_request_policy (ai_policy ai) ac (hr_client_ip hr) (hr_headers hr) relayer chain)"

definition not_internal :: "app_config \<Rightarrow> evm_address \<Rightarrow> chain_id \<Rightarrow> http_error + unit" where
  "not_internal ac relayer chain =
     (if restricted ac relayer chain
      then Inl (unauthorized (Some ''Relayer can only be used internally'')) else Inr ())"

definition authorise_send ::
  "api_params \<Rightarrow> app_config \<Rightarrow> request \<Rightarrow> relayer \<Rightarrow> relay_request \<Rightarrow> http_error + unit" where
  "authorise_send ai ac hr r rq =
     and_then (authorise_use ai ac hr (rl_address r) (rl_chain_id r)) (\<lambda>_.
     and_then (not_internal ac (rl_address r) (rl_chain_id r)) (\<lambda>_.
     and_then (network_permission_validate (ai_address ai) ac (rl_address r) (rl_chain_id r)
                 (rq_to rq) (rq_value rq) ActTransaction) (\<lambda>_.
       validate_blobs ac (rl_chain_id r) (rq_blobs rq))))"

fun parse_blobs :: "api_params \<Rightarrow> string list \<Rightarrow> http_error + transaction_blob list" where
  "parse_blobs ai [] = Inr []"
| "parse_blobs ai (s # ss) =
     (case ai_parse_blob ai s of
        None \<Rightarrow> Inl (bad_request ''Failed to parse blob it must be 131,072 bytes'')
      | Some b \<Rightarrow> and_then (parse_blobs ai ss) (\<lambda>bs. Inr (b # bs)))"

definition convert_blob_strings_to_blobs ::
  "api_params \<Rightarrow> string list option \<Rightarrow> http_error + transaction_blob list option" where
  "convert_blob_strings_to_blobs ai blobs =
     (case blobs of
        None \<Rightarrow> Inr None
      | Some ss \<Rightarrow> and_then (parse_blobs ai ss) (\<lambda>bs. Inr (Some bs)))"

record send_result =
  sn_id :: transaction_id
  sn_hash :: "transaction_hash option"

definition send_result_of :: "transaction \<Rightarrow> send_result" where
  "send_result_of t = \<lparr> sn_id = tx_id t, sn_hash = tx_known_transaction_hash t \<rparr>"

record submit_env =
  sb_find_fault :: "string option"
  sb_fresh_id :: transaction_id
  sb_add :: add_transaction_env

definition request_speed :: "relay_request \<Rightarrow> transaction_speed" where
  "request_speed rq = (case rq_speed rq of Some s \<Rightarrow> s | None \<Rightarrow> FAST)"

text \<open>
  The reservation is committed only when the queue admitted this very request; a retry that found the
  stored transaction takes it back.
\<close>

definition submit_reserved ::
  "api_params \<Rightarrow> submit_env \<Rightarrow> relayer \<Rightarrow> relay_request \<Rightarrow> reservation option \<Rightarrow> app \<Rightarrow>
   app \<times> (http_error + send_result)" where
  "submit_reserved ai env r rq rv a =
     (case convert_blob_strings_to_blobs ai (rq_blobs rq) of
        Inl e \<Rightarrow> (drop_reservation ai rv a, Inl e)
      | Inr blobs \<Rightarrow>
          (let tts = new_transaction_to_send (sb_fresh_id env) (rq_to rq) (rq_value rq) (rq_data rq)
                       (rq_speed rq) blobs (rq_external_id rq)
           in case add_transaction (ai_crypto ai) (ai_admission ai) (sb_add env) (rl_id r) tts
                     (as_sys a) of
                (s, Inl e) \<Rightarrow> (drop_reservation ai rv (a\<lparr> as_sys := s \<rparr>), Inl (of_add_error ai e))
              | (s, Inr t) \<Rightarrow>
                  ((if tx_id t = tts_id tts then a\<lparr> as_sys := s \<rparr>
                    else drop_reservation ai rv (a\<lparr> as_sys := s \<rparr>)),
                   Inr (send_result_of t))))"

definition api_send_transaction ::
  "api_params \<Rightarrow> request \<Rightarrow> submit_env \<Rightarrow> relayer \<Rightarrow> relay_request \<Rightarrow> app \<Rightarrow>
   app \<times> (http_error + send_result)" where
  "api_send_transaction ai hr env r rq a =
     (case authorise_send ai (as_config a) hr r rq of
        Inl e \<Rightarrow> (a, Inl e)
      | Inr _ \<Rightarrow>
          (case find_admitted_transaction (sb_find_fault env) (rl_id r) (rq_external_id rq)
                  (request_digest (ap_sha256 (ai_admission ai)) (rq_to rq) (rq_value rq) (rq_data rq)
                     (request_speed rq)) (s_db (as_sys a)) of
             Inl e \<Rightarrow> (a, Inl (of_add_error ai (of_admission_error e)))
           | Inr (Some stored) \<Rightarrow> (a, Inr (send_result_of stored))
           | Inr None \<Rightarrow>
               (case reserve_request ai hr RlTransaction a of
                  (a', Inl e) \<Rightarrow> (a', Inl e)
                | (a', Inr rv) \<Rightarrow> submit_reserved ai env r rq rv a')))"

text \<open>The lookup of the relayer is an input.\<close>

definition handle_send_transaction ::
  "api_params \<Rightarrow> request \<Rightarrow> submit_env \<Rightarrow> db_error + relayer option \<Rightarrow> relay_request \<Rightarrow> app \<Rightarrow>
   app \<times> (http_error + send_result)" where
  "handle_send_transaction ai hr env found rq a =
     (case validate_allowed_passed_basic_auth (as_config a) (hr_headers hr) of
        Inl e \<Rightarrow> (a, Inl e)
      | Inr _ \<Rightarrow>
          (case found of
             Inl e \<Rightarrow> (a, Inl (of_db_error ai e))
           | Inr None \<Rightarrow> (a, Inl (not_found ''Relayer does not exist''))
           | Inr (Some r) \<Rightarrow> api_send_transaction ai hr env r rq a))"

section \<open>Submission through any relayer\<close>

fun partition_eligible ::
  "('a \<Rightarrow> http_error + unit) \<Rightarrow> 'a list \<Rightarrow> 'a list \<times> http_error option" where
  "partition_eligible validate [] = ([], None)"
| "partition_eligible validate (x # xs) =
     (case partition_eligible validate xs of
        (ok, first) \<Rightarrow>
          (case validate x of
             Inr _ \<Rightarrow> (x # ok, first)
           | Inl e \<Rightarrow> (ok, Some e)))"

definition filter_eligible :: "('a \<Rightarrow> http_error + unit) \<Rightarrow> 'a list \<Rightarrow> http_error + 'a list" where
  "filter_eligible validate candidates =
     (case partition_eligible validate candidates of
        (eligible, first) \<Rightarrow>
          if eligible = []
          then Inl (case first of Some e \<Rightarrow> e | None \<Rightarrow> bad_request ''No policy candidates'')
          else Inr eligible)"

text \<open>
  The candidates of a chain, sorted by wallet index and then by the text of the id. \<open>show_id\<close> is the
  display of a relayer id.
\<close>

definition candidate_before :: "(relayer_id \<Rightarrow> string) \<Rightarrow> relayer \<Rightarrow> relayer \<Rightarrow> bool" where
  "candidate_before show_id x y =
     (rl_wallet_index x < rl_wallet_index y \<or>
      (rl_wallet_index x = rl_wallet_index y \<and>
       ord_class.lexordp (map of_char (show_id (rl_id x)) :: nat list) (map of_char (show_id (rl_id y)))))"

definition sort_policy_candidates :: "(relayer_id \<Rightarrow> string) \<Rightarrow> relayer list \<Rightarrow> relayer list" where
  "sort_policy_candidates show_id rs = foldr (\<lambda>x. insert_before (\<lambda>y. \<not> candidate_before show_id y x) x) rs []"

definition select_available_relayers ::
  "(relayer_id \<Rightarrow> string) \<Rightarrow> (chain_id \<Rightarrow> string) \<Rightarrow> app_config \<Rightarrow> chain_id \<Rightarrow> relayer list \<Rightarrow>
   http_error + relayer list" where
  "select_available_relayers show_id show_chain ac chain relayers =
     (if relayers = [] then Inl (not_found (''No relayers found for chain '' @ show_chain chain))
      else (let available = sort_policy_candidates show_id
                  (filter (\<lambda>r. \<not> rl_paused r \<and> \<not> restricted ac (rl_address r) (rl_chain_id r) \<and>
                              is_allowed_for_random ac (rl_address r) (rl_chain_id r)) relayers)
            in if available = []
               then Inl (bad_request (''No available relayers for chain '' @ show_chain chain @
                  '' (all relayers are paused, internal-only, or not allowed for random selection)''))
               else Inr available))"

definition eligible_relayers ::
  "(relayer_id \<Rightarrow> string) \<Rightarrow> (chain_id \<Rightarrow> string) \<Rightarrow> api_params \<Rightarrow> request \<Rightarrow> app_config \<Rightarrow> chain_id \<Rightarrow>
   relayer list \<Rightarrow> http_error + relayer list" where
  "eligible_relayers show_id show_chain ai hr ac chain relayers =
     and_then (validate_allowed_passed_basic_auth ac (hr_headers hr)) (\<lambda>_.
     and_then (select_available_relayers show_id show_chain ac chain relayers) (\<lambda>candidates.
     and_then (filter_eligible (\<lambda>r. validate_auth_basic_or_api_key ac (hr_headers hr)
                 (rl_address r) (rl_chain_id r)) candidates) (\<lambda>authorised.
       filter_eligible (\<lambda>r. validate_request_policy (ai_policy ai) ac (hr_client_ip hr)
                 (hr_headers hr) (rl_address r) (rl_chain_id r)) authorised)))"

text \<open>\<open>pick\<close> is the random choice, an index below the number of candidates.\<close>

definition send_transaction_random ::
  "(relayer_id \<Rightarrow> string) \<Rightarrow> (chain_id \<Rightarrow> string) \<Rightarrow> api_params \<Rightarrow> request \<Rightarrow> submit_env \<Rightarrow>
   (nat \<Rightarrow> nat) \<Rightarrow> db_error + relayer list \<Rightarrow> chain_id \<Rightarrow> relay_request \<Rightarrow> app \<Rightarrow>
   app \<times> (http_error + send_result)" where
  "send_transaction_random show_id show_chain ai hr env pick found chain rq a =
     (case found of
        Inl e \<Rightarrow> (a, (case validate_allowed_passed_basic_auth (as_config a) (hr_headers hr) of
                         Inl e' \<Rightarrow> Inl e' | Inr _ \<Rightarrow> Inl (of_db_error ai e)))
      | Inr relayers \<Rightarrow>
          (case eligible_relayers show_id show_chain ai hr (as_config a) chain relayers of
             Inl e \<Rightarrow> (a, Inl e)
           | Inr rs \<Rightarrow> api_send_transaction ai hr env (rs ! (pick (length rs) mod length rs)) rq a))"

section \<open>Cancellation and replacement\<close>

text \<open>
  The lookup of the transaction is an input. The permissions are those for the stored transaction's
  target and value.
\<close>

definition authorise_cancel ::
  "api_params \<Rightarrow> app_config \<Rightarrow> request \<Rightarrow> transaction \<Rightarrow> http_error + unit" where
  "authorise_cancel ai ac hr t =
     and_then (not_internal ac (tx_from t) (tx_chain_id t)) (\<lambda>_.
     and_then (authorise_use ai ac hr (tx_from t) (tx_chain_id t)) (\<lambda>_.
       network_permission_validate (ai_address ai) ac (tx_from t) (tx_chain_id t)
         (tx_to t) (tx_value t) ActTransaction))"

definition authorise_replace ::
  "api_params \<Rightarrow> app_config \<Rightarrow> request \<Rightarrow> transaction \<Rightarrow> relay_request \<Rightarrow> http_error + unit" where
  "authorise_replace ai ac hr t rq =
     and_then (authorise_use ai ac hr (tx_from t) (tx_chain_id t)) (\<lambda>_.
     and_then (not_internal ac (tx_from t) (tx_chain_id t)) (\<lambda>_.
     and_then (network_permission_validate (ai_address ai) ac (tx_from t) (tx_chain_id t)
                 (tx_to t) (tx_value t) ActTransaction) (\<lambda>_.
       validate_blobs ac (tx_chain_id t) (rq_blobs rq))))"

definition find_for_edit ::
  "api_params \<Rightarrow> app_config \<Rightarrow> request \<Rightarrow> db_error + transaction option \<Rightarrow> http_error + transaction" where
  "find_for_edit ai ac hr found =
     and_then (validate_allowed_passed_basic_auth ac (hr_headers hr)) (\<lambda>_.
     and_then (map_err (of_db_error ai) found) (\<lambda>t.
       ok_or (not_found ''Could not find transaction id'') t))"

definition api_cancel_transaction ::
  "api_params \<Rightarrow> request \<Rightarrow> edit_env \<Rightarrow> db_error + transaction option \<Rightarrow> app \<Rightarrow>
   app \<times> (http_error + cancel_result)" where
  "api_cancel_transaction ai hr env found a =
     (case find_for_edit ai (as_config a) hr found of
        Inl e \<Rightarrow> (a, Inl e)
      | Inr t \<Rightarrow>
          (case authorise_cancel ai (as_config a) hr t of
             Inl e \<Rightarrow> (a, Inl e)
           | Inr _ \<Rightarrow>
               (case reserve_request ai hr RlTransaction a of
                  (a', Inl e) \<Rightarrow> (a', Inl e)
                | (a', Inr rv) \<Rightarrow>
                    (case cancel_transaction (ai_crypto ai) (ai_text ai) env t (as_sys a') of
                       (s, Inl e) \<Rightarrow>
                         (drop_reservation ai rv (a'\<lparr> as_sys := s \<rparr>), Inl (of_cancel_error ai e))
                     | (s, Inr r) \<Rightarrow> (a'\<lparr> as_sys := s \<rparr>, Inr r)))))"

definition api_replace_transaction ::
  "api_params \<Rightarrow> request \<Rightarrow> edit_env \<Rightarrow> db_error + transaction option \<Rightarrow> relay_request \<Rightarrow> app \<Rightarrow>
   app \<times> (http_error answer + replace_result)" where
  "api_replace_transaction ai hr env found rq a =
     (case find_for_edit ai (as_config a) hr found of
        Inl e \<Rightarrow> (a, Inl (Answered e))
      | Inr t \<Rightarrow>
          (case authorise_replace ai (as_config a) hr t rq of
             Inl e \<Rightarrow> (a, Inl (Answered e))
           | Inr _ \<Rightarrow>
               (case reserve_request ai hr RlTransaction a of
                  (a', Inl e) \<Rightarrow> (a', Inl (Answered e))
                | (a', Inr rv) \<Rightarrow>
                    (case replace_transaction (ai_crypto ai) (ai_text ai) env t rq (as_sys a') of
                       (s, Inl e) \<Rightarrow>
                         (drop_reservation ai rv (a'\<lparr> as_sys := s \<rparr>), Inl (of_replace_error ai e))
                     | (s, Inr r) \<Rightarrow> (a'\<lparr> as_sys := s \<rparr>, Inr r)))))"

section \<open>Signing\<close>

text \<open>
  \<open>signed\<close> is the answer of the signer and \<open>saved\<close> that of the insert; the webhook calls of signing are
  not part of the model.
\<close>

record sign_env =
  gn_signed :: "http_error + u8 list"
  gn_saved :: "db_error + unit"
  gn_provider_chain :: chain_id

definition sign_checks ::
  "api_params \<Rightarrow> app_config \<Rightarrow> request \<Rightarrow> db_error + relayer option \<Rightarrow> http_error + relayer" where
  "sign_checks ai ac hr found =
     and_then (validate_allowed_passed_basic_auth ac (hr_headers hr)) (\<lambda>_.
     and_then (map_err (of_db_error ai) found) (\<lambda>o_r.
     and_then (ok_or (not_found ''Relayer does not exist'') o_r) (\<lambda>r.
     and_then (authorise_use ai ac hr (rl_address r) (rl_chain_id r)) (\<lambda>_.
       if rl_paused r then Inl (forbidden ''Relayer is paused'') else Inr r))))"

definition sign_text ::
  "api_params \<Rightarrow> request \<Rightarrow> sign_env \<Rightarrow> db_error + relayer option \<Rightarrow> string \<Rightarrow> app \<Rightarrow>
   app \<times> (http_error + u8 list)" where
  "sign_text ai hr env found text a =
     (case sign_checks ai (as_config a) hr found of
        Inl e \<Rightarrow> (a, Inl e)
      | Inr r \<Rightarrow>
          (case reserve_request ai hr RlSigning a of
             (a', Inl e) \<Rightarrow> (a', Inl e)
           | (a', Inr rv) \<Rightarrow>
               (case restricted_personal_signing (as_config a) (rl_address r) (rl_chain_id r) of
                  Inl e \<Rightarrow> (drop_reservation ai rv a', Inl e)
                | Inr _ \<Rightarrow>
                    (case gn_signed env of
                       Inl e \<Rightarrow> (drop_reservation ai rv a', Inl e)
                     | Inr sig \<Rightarrow>
                         (case gn_saved env of
                            Inl e \<Rightarrow> (drop_reservation ai rv a', Inl (of_db_error ai e))
                          | Inr _ \<Rightarrow>
                              (a'\<lparr> as_signed_texts := as_signed_texts a' @
                                    [\<lparr> sg_relayer = rl_id r, sg_message = text, sg_signature = sig,
                                       sg_chain_id = gn_provider_chain env \<rparr>] \<rparr>,
                               Inr sig))))))"

text \<open>
  The domain of typed data: the chain (converted to 64 bits; a larger value panics) and the contract,
  zero when absent. The message is kept as text.
\<close>

record typed_data =
  td_chain_id :: "u256 option"
  td_verifying_contract :: "evm_address option"
  td_message :: string

definition sign_typed_data ::
  "api_params \<Rightarrow> request \<Rightarrow> sign_env \<Rightarrow> db_error + relayer option \<Rightarrow> typed_data \<Rightarrow> app \<Rightarrow>
   app \<times> (http_error answer + u8 list)" where
  "sign_typed_data ai hr env found td a =
     (case sign_checks ai (as_config a) hr found of
        Inl e \<Rightarrow> (a, Inl (Answered e))
      | Inr r \<Rightarrow>
          (case td_chain_id td of
             None \<Rightarrow> (a, Inl (Answered (unauthorized (Some
               ''You can not sign typed data with a different chain id to the rrelayer''))))
           | Some chain \<Rightarrow>
               if 2 ^ 64 \<le> unat chain then (a, Inl HandlerPanicked)
               else if ucast chain \<noteq> rl_chain_id r
               then (a, Inl (Answered (bad_request ''Chain id does not match relayer'')))
               else (case network_permission_validate (ai_address ai) (as_config a) (rl_address r)
                            (rl_chain_id r)
                            (case td_verifying_contract td of Some c \<Rightarrow> c | None \<Rightarrow> 0) 0
                            ActSigningTypedData of
                       Inl e \<Rightarrow> (a, Inl (Answered e))
                     | Inr _ \<Rightarrow>
                         (case reserve_request ai hr RlSigning a of
                            (a', Inl e) \<Rightarrow> (a', Inl (Answered e))
                          | (a', Inr rv) \<Rightarrow>
                              (case gn_signed env of
                                 Inl e \<Rightarrow> (drop_reservation ai rv a', Inl (Answered e))
                               | Inr sig \<Rightarrow>
                                   (case gn_saved env of
                                      Inl e \<Rightarrow>
                                        (drop_reservation ai rv a', Inl (Answered (of_db_error ai e)))
                                    | Inr _ \<Rightarrow>
                                        (a'\<lparr> as_signed_typed_data := as_signed_typed_data a' @
                                              [\<lparr> sg_relayer = rl_id r, sg_message = td_message td,
                                                 sg_signature = sig,
                                                 sg_chain_id = gn_provider_chain env \<rparr>] \<rparr>,
                                         Inr sig)))))))"

end
