(* ===== verification/Request_Properties.thy ===== *)
theory Request_Properties
  imports Request_Api Examples
begin

text \<open>
  Properties of the access control: who can submit through a relayer, in terms of the configuration
  alone, and what the check of a replacement leaves open.
\<close>

section \<open>Authentication\<close>

lemma to_lowercase_marker [simp]:
  "to_lowercase ''x-rrelayer-basic-auth-valid'' = ''x-rrelayer-basic-auth-valid''"
  "to_lowercase ''x-rrelayer-api-key'' = ''x-rrelayer-api-key''"
  by code_simp+

lemma marker_texts [simp]: "to_str ''true'' = Some ''true''" "to_str ''false'' = Some ''false''"
  by code_simp+

text \<open>The marker says what the credentials are, whatever the client put into the header.\<close>

lemma marker_not_forged [simp]:
  "is_basic_auth_valid (inject_basic_auth_status se h) = is_ok (validate_basic_auth se h)"
  by (simp add: is_basic_auth_valid_def inject_basic_auth_status_def header_text_def header_get_def
      header_insert_def)

lemma presented_key_inject [simp]:
  "presented_key (inject_basic_auth_status se h) = presented_key h"
  by (simp add: presented_key_def header_text_def header_get_def inject_basic_auth_status_def
      header_insert_def)

lemma key_of_relayer_find:
  "key_of_relayer key relayer cs =
     (case find (\<lambda>c. ak_relayer c = relayer) cs of None \<Rightarrow> False | Some c \<Rightarrow> key \<in> set (ak_keys c))"
  by (induction cs) auto

text \<open>Who a relayer accepts: the server's credentials, or a key of the relayer's entry.\<close>

definition authenticated ::
  "server_env \<Rightarrow> app_config \<Rightarrow> header_map \<Rightarrow> evm_address \<Rightarrow> chain_id \<Rightarrow> bool" where
  "authenticated se ac h relayer chain =
     (is_ok (validate_basic_auth se h) \<or>
      (\<exists>key cs c. presented_key h = Some key \<and> find_api_keys ac chain = Some cs \<and>
         find (\<lambda>c. ak_relayer c = relayer) cs = Some c \<and> key \<in> set (ak_keys c)))"

lemma validate_auth_iff:
  "(validate_auth_basic_or_api_key ac (inject_basic_auth_status se h) relayer chain = Inr u) =
     authenticated se ac h relayer chain"
  by (auto simp: validate_auth_basic_or_api_key_def is_api_key_valid_for_relayer_def authenticated_def
      key_of_relayer_find split: option.splits)

section \<open>Source addresses\<close>

definition valid_rule :: "ip_params \<Rightarrow> string \<Rightarrow> bool" where
  "valid_rule ip r = is_ok (rule_matches ip (V4 0) r)"

text \<open>Whether a rule is well formed does not depend on the client.\<close>

lemma rule_matches_valid: "is_ok (rule_matches ip client r) = valid_rule ip r"
  by (simp add: rule_matches_def valid_rule_def Let_def split: option.splits)

lemma validate_ip_allowlist_iff:
  "(validate_ip_allowlist ip rules = Inr ()) = list_all (valid_rule ip) rules"
  by (induction rules) (auto simp: valid_rule_def and_then_Inr is_ok_def split: sum.splits)

lemma ip_allowed_iff:
  "list_all (valid_rule ip) rules \<Longrightarrow>
     ip_allowed ip client rules = Inr (list_ex (\<lambda>r. rule_matches ip client r = Inr True) rules)"
proof (induction rules)
  case (Cons r rs)
  then have "is_ok (rule_matches ip client r)" by (simp add: rule_matches_valid)
  with Cons show ?case by (cases "rule_matches ip client r") auto
qed simp

lemma check_source_iff:
  "list_all (valid_rule ip) rules \<Longrightarrow>
     (check_source ip client rules = Inr ()) =
     (\<exists>a. client = Some a \<and> (\<exists>r \<in> set rules. rule_matches ip a r = Inr True))"
  by (auto simp: check_source_def ip_allowed_iff list_ex_iff split: option.splits)

section \<open>The policy of a relayer\<close>

text \<open>A token that the secret signed and whose expiry lies in the future.\<close>

definition live_token :: "jwt_params \<Rightarrow> u64 option \<Rightarrow> header_map \<Rightarrow> jwt_hs256_config \<Rightarrow> bool" where
  "live_token jp clock h c =
     (\<exists>now secret token expiry. clock = Some now \<and> jp_env jp (jw_secret_env c) = Some secret \<and>
        trim secret \<noteq> [] \<and> header_text h (signature_header c) = Some token \<and> trim token \<noteq> [] \<and>
        jp_decode jp secret (trim token) = Some expiry \<and> now < expiry)"

lemma check_signature_iff:
  "(check_signature jp clock h (JwtHs256 c) = Inr ()) = live_token jp clock h c"
proof -
  have "(check_signature jp clock h (JwtHs256 c) = Inr ()) =
      is_ok (verify_request_signature jp clock (JwtHs256 c) h)"
    by (auto simp: check_signature_def is_ok_def split: sum.splits signature_error.splits)
  also have "\<dots> = live_token jp clock h c"
    by (cases clock) (auto simp: verify_request_signature_def verify_jwt_hs256_at_def live_token_def
        header_text_def Let_def not_le is_ok_def ok_or_def split: option.splits)
  finally show ?thesis .
qed

definition policy_allows :: "policy_params \<Rightarrow> ip_addr option \<Rightarrow> header_map \<Rightarrow> network_permissions \<Rightarrow> bool" where
  "policy_allows pp client h p =
     ((\<forall>rules. np_ip_allowlist p = Some rules \<longrightarrow>
         (\<exists>a. client = Some a \<and> (\<exists>r \<in> set rules. rule_matches (pp_ip pp) a r = Inr True))) \<and>
      (\<forall>c. np_request_verification p = Some (JwtHs256 c) \<longrightarrow> live_token (pp_jwt pp) (pp_clock pp) h c))"

definition transfer_allowed :: "evm_address \<Rightarrow> u256 \<Rightarrow> network_permissions \<Rightarrow> bool" where
  "transfer_allowed to value p =
     (np_disable_transactions p \<noteq> Some True \<and> (np_allowlist p = [] \<or> to \<in> set (np_allowlist p)) \<and>
      (value = 0 \<or> np_disable_native_transfer p \<noteq> Some True))"

definition relayer_permissions :: "app_config \<Rightarrow> evm_address \<Rightarrow> chain_id \<Rightarrow> network_permissions list" where
  "relayer_permissions ac relayer chain =
     (case find_network_permission ac chain of
        None \<Rightarrow> []
      | Some ps \<Rightarrow> filter (\<lambda>p. aom_contains (np_relayers p) relayer) ps)"

text \<open>The address lists passed the validation that runs at startup.\<close>

definition policies_validated :: "ip_params \<Rightarrow> app_config \<Rightarrow> bool" where
  "policies_validated ip ac =
     list_all (\<lambda>(c, ps). list_all (\<lambda>p. case np_ip_allowlist p of None \<Rightarrow> True
        | Some rules \<Rightarrow> validate_ip_allowlist ip rules = Inr ()) ps) (ac_permissions ac)"

lemma policy_entries_iff:
  assumes "\<forall>p \<in> set ps. case np_ip_allowlist p of None \<Rightarrow> True
    | Some rules \<Rightarrow> validate_ip_allowlist (pp_ip pp) rules = Inr ()"
  shows "(validate_request_policy_entries pp client h relayer ps = Inr ()) =
     (\<forall>p \<in> set (filter (\<lambda>p. aom_contains (np_relayers p) relayer) ps). policy_allows pp client h p)"
  using assms
proof (induction ps)
  case (Cons p ps)
  have ip: "(when_some (np_ip_allowlist p) (check_source (pp_ip pp) client) = Inr ()) =
      (\<forall>rules. np_ip_allowlist p = Some rules \<longrightarrow>
         (\<exists>a. client = Some a \<and> (\<exists>r \<in> set rules. rule_matches (pp_ip pp) a r = Inr True)))"
    using Cons.prems by (auto simp: when_some_def check_source_iff validate_ip_allowlist_iff split: option.splits)
  have sg: "(when_some (np_request_verification p) (check_signature (pp_jwt pp) (pp_clock pp) h) = Inr ()) =
      (\<forall>c. np_request_verification p = Some (JwtHs256 c) \<longrightarrow> live_token (pp_jwt pp) (pp_clock pp) h c)"
  proof (cases "np_request_verification p")
    case (Some x)
    then show ?thesis by (cases x) (simp add: when_some_def check_signature_iff)
  qed (simp add: when_some_def)
  have "policy_allows pp client h p = (when_some (np_ip_allowlist p) (check_source (pp_ip pp) client) = Inr ()
      \<and> when_some (np_request_verification p) (check_signature (pp_jwt pp) (pp_clock pp) h) = Inr ())"
    by (simp only: policy_allows_def ip sg)
  moreover have "(validate_request_policy_entries pp client h relayer ps = Inr ()) =
      (\<forall>p \<in> set (filter (\<lambda>p. aom_contains (np_relayers p) relayer) ps). policy_allows pp client h p)"
    using Cons by simp
  ultimately show ?case by (simp add: and_then_Inr)
qed simp

lemma permissions_iff:
  "(validate_permissions ad relayer to value ActTransaction ps = Inr ()) =
     (\<forall>p \<in> set (filter (\<lambda>p. aom_contains (np_relayers p) relayer) ps). transfer_allowed to value p)"
proof (induction ps)
  case (Cons p ps)
  have "(permission_denies ad ActTransaction to value p = None) = transfer_allowed to value p"
    by (auto simp: permission_denies_def transfer_allowed_def unwrap_or_default_def split: option.splits)
  with Cons show ?case by (auto split: option.splits)
qed simp

lemma policies_validated_chain:
  "policies_validated ip ac \<Longrightarrow> find_network_permission ac chain = Some ps \<Longrightarrow>
     \<forall>p \<in> set ps. case np_ip_allowlist p of None \<Rightarrow> True | Some rules \<Rightarrow> validate_ip_allowlist ip rules = Inr ()"
  by (auto simp: policies_validated_def find_network_permission_def list_all_iff dest!: find_SomeD)

lemma validate_policy_iff:
  assumes "policies_validated (pp_ip pp) ac"
  shows "(validate_request_policy pp ac client h relayer chain = Inr ()) =
     (\<forall>p \<in> set (relayer_permissions ac relayer chain). policy_allows pp client h p)"
  using policy_entries_iff [OF policies_validated_chain [OF assms]]
  by (auto simp: validate_request_policy_def relayer_permissions_def split: option.splits)

lemma permission_validate_iff:
  "(network_permission_validate ad ac relayer chain to value ActTransaction = Inr ()) =
     (\<forall>p \<in> set (relayer_permissions ac relayer chain). transfer_allowed to value p)"
  by (simp add: network_permission_validate_def relayer_permissions_def permissions_iff split: option.splits)

section \<open>Submission\<close>

definition blobs_allowed :: "app_config \<Rightarrow> chain_id \<Rightarrow> bool" where
  "blobs_allowed ac chain =
     (find (\<lambda>n. fst n = chain) (ac_blobs_enabled ac) = Some (chain, Some True))"

lemma validate_blobs_iff:
  "(validate_blobs ac chain blobs = Inr ()) = (blobs = None \<or> blobs_allowed ac chain)"
  by (auto simp: validate_blobs_def blobs_allowed_def unwrap_or_default_def split: option.splits dest: find_SomeD)

text \<open>The specification of a submission that is let through, in terms of the configuration.\<close>

definition submission_allowed ::
  "server_env \<Rightarrow> policy_params \<Rightarrow> app_config \<Rightarrow> header_map \<Rightarrow> ip_addr option \<Rightarrow> relayer \<Rightarrow> relay_request \<Rightarrow> bool"
  where
  "submission_allowed se pp ac h client r rq =
     (authenticated se ac h (rl_address r) (rl_chain_id r) \<and>
      (rl_chain_id r, rl_address r) \<notin> set (ac_internal_only ac) \<and>
      (\<forall>p \<in> set (relayer_permissions ac (rl_address r) (rl_chain_id r)).
         policy_allows pp client (inject_basic_auth_status se h) p \<and>
         transfer_allowed (rq_to rq) (rq_value rq) p) \<and>
      (rq_blobs rq = None \<or> blobs_allowed ac (rl_chain_id r)))"

lemma not_internal_iff:
  "(not_internal ac relayer chain = Inr ()) = ((chain, relayer) \<notin> set (ac_internal_only ac))"
  by (auto simp: not_internal_def restricted_def list_ex_iff)

lemma authorise_send_iff:
  assumes "policies_validated (pp_ip (ai_policy ai)) ac" "hr_headers hr = inject_basic_auth_status se h"
  shows "(authorise_send ai ac hr r rq = Inr ()) =
     submission_allowed se (ai_policy ai) ac h (hr_client_ip hr) r rq"
  by (auto simp: authorise_send_def authorise_use_def and_then_Inr assms validate_auth_iff
      validate_policy_iff not_internal_iff permission_validate_iff validate_blobs_iff submission_allowed_def)

text \<open>C25: Access control: behind the authentication middleware and with policies validated at startup, a
  submission passes the checks exactly when the client is authenticated for this relayer (the server's
  credentials or a key of the relayer's entry, never a header the client forged), the relayer is not
  kept for internal use, every permission entry that covers the relayer allows the source address,
  the signed token, the target and the value, and blobs are enabled when it carries any; every other
  submission is answered with an error and changes nothing.\<close>

theorem submission_needs_authorisation:
  assumes "policies_validated (pp_ip (ai_policy ai)) (as_config a)"
    and "hr_headers hr = inject_basic_auth_status se h"
  shows "(authorise_send ai (as_config a) hr r rq = Inr ())
      = submission_allowed se (ai_policy ai) (as_config a) h (hr_client_ip hr) r rq
    \<and> (\<not> submission_allowed se (ai_policy ai) (as_config a) h (hr_client_ip hr) r rq \<longrightarrow>
        (\<exists>e. handle_send_transaction ai hr env (Inr (Some r)) rq a = (a, Inl e)))"
proof -
  have iff: "(authorise_send ai (as_config a) hr r rq = Inr ())
      = submission_allowed se (ai_policy ai) (as_config a) h (hr_client_ip hr) r rq"
    using assms by (rule authorise_send_iff)
  have "\<exists>e. handle_send_transaction ai hr env (Inr (Some r)) rq a = (a, Inl e)"
    if "\<not> submission_allowed se (ai_policy ai) (as_config a) h (hr_client_ip hr) r rq"
  proof -
    from that iff obtain e where "authorise_send ai (as_config a) hr r rq = Inl e"
      by (cases "authorise_send ai (as_config a) hr r rq") auto
    then show ?thesis
      by (cases "validate_allowed_passed_basic_auth (as_config a) (hr_headers hr)")
         (simp_all add: handle_send_transaction_def api_send_transaction_def)
  qed
  with iff show ?thesis by blast
qed


definition ex_server :: server_env where
  "ex_server = \<lparr> se_username = Some ''u'', se_password = Some ''p'',
     se_b64 = (\<lambda>s. if s = ''dTpw'' then Some ''u:p'' else None) \<rparr>"

definition ex_ip :: ip_params where
  "ex_ip = \<lparr> ip_parse_addr = (\<lambda>s. if s = ''10.0.0.1'' then Some (V4 167772161) else None),
     ip_parse_net = (\<lambda>s. if s = ''10.0.0.0/8'' then Some (\<lambda>a. case a of V4 w \<Rightarrow> drop_bit 24 w = 10 | V6 _ \<Rightarrow> False) else None),
     ip_show = (\<lambda>a. ''ip'') \<rparr>"

definition ex_policy :: policy_params where
  "ex_policy = \<lparr> pp_ip = ex_ip, pp_jwt = \<lparr> jp_decode = (\<lambda>s t. None), jp_env = (\<lambda>n. None), jp_show = (\<lambda>e. ''jwt'') \<rparr>,
     pp_clock = Some 0, pp_address = \<lparr> at_show = (\<lambda>a. ''0x''), at_hex = (\<lambda>a. ''00'') \<rparr> \<rparr>"

definition ex_api :: api_params where
  "ex_api = \<lparr> ai_policy = ex_policy, ai_crypto = ex_crypto, ai_admission = ex_ap, ai_text = ex_tp,
     ai_parse_blob = (\<lambda>s. None), ai_show_db = (\<lambda>e. ''db''), ai_show_cancel = (\<lambda>e. ''cancel''),
     ai_show_replace = (\<lambda>e. ''replace'') \<rparr>"

definition ex_permissions :: network_permissions where
  "ex_permissions = \<lparr> np_relayers = AoOne 42, np_allowlist = [99], np_disable_native_transfer = None,
     np_disable_personal_sign = None, np_disable_typed_data_sign = None, np_disable_transactions = None,
     np_ip_allowlist = Some [''10.0.0.0/8''], np_request_verification = None \<rparr>"

definition ex_config :: app_config where
  "ex_config = \<lparr> ac_internal_only = [], ac_random = Map.empty, ac_permissions = [(1, [ex_permissions])],
     ac_api_keys = [(1, [\<lparr> ak_relayer = 42, ak_keys = [''secret''] \<rparr>])], ac_blobs_enabled = [(1, None)],
     ac_private_key_only = [] \<rparr>"

definition ex_app :: "sys \<Rightarrow> app" where
  "ex_app s = \<lparr> as_config = ex_config, as_limiter = None, as_sys = s, as_signed_texts = [],
     as_signed_typed_data = [] \<rparr>"

definition ex_key_headers :: header_map where
  "ex_key_headers = [''x-rrelayer-api-key'' \<mapsto> ''secret'', ''x-rrelayer-basic-auth-valid'' \<mapsto> ''true'']"

definition ex_http :: request where
  "ex_http = \<lparr> hr_headers = inject_basic_auth_status ex_server ex_key_headers,
     hr_client_ip = Some (V4 167772161),
     hr_clock = \<lparr> ck_relayer = 0, ck_global = 0, ck_user = 0, ck_reserve_user = 0, ck_reserve_global = 0,
       ck_reserve_relayer = 0 \<rparr>, hr_limiter_lookup = Inr (Some 42) \<rparr>"

definition ex_to :: "evm_address \<Rightarrow> relay_request" where
  "ex_to x = \<lparr> rq_to = x, rq_value = 1, rq_data = [], rq_speed = None, rq_external_id = None, rq_blobs = None \<rparr>"

definition ex_submit :: submit_env where
  "ex_submit = \<lparr> sb_find_fault = None, sb_fresh_id = 9, sb_add = ex_add_env \<rparr>"

lemma ex_policies: "policies_validated (pp_ip (ai_policy ex_api)) (as_config (ex_app s))"
  by (simp add: policies_validated_def ex_app_def ex_config_def ex_permissions_def ex_api_def ex_policy_def
      ex_ip_def rule_matches_def trim_def is_space_def Let_def)

lemma ex_authorise:
  "is_ok (authorise_send ex_api ex_config ex_http ex_relayer (ex_to 99))"
  "\<not> is_ok (authorise_send ex_api ex_config ex_http ex_relayer (ex_to 98))"
  by code_simp+

theorem submission_needs_authorisation_witness:
  "submission_allowed ex_server ex_policy ex_config ex_key_headers (Some (V4 167772161)) ex_relayer (ex_to 99)
   \<and> (\<exists>e. handle_send_transaction ex_api ex_http ex_submit (Inr (Some ex_relayer)) (ex_to 98) (ex_app ex_start)
        = (ex_app ex_start, Inl e))"
proof -
  have h: "hr_headers ex_http = inject_basic_auth_status ex_server ex_key_headers" by (simp add: ex_http_def)
  have c: "as_config (ex_app ex_start) = ex_config" "ai_policy ex_api = ex_policy"
    "hr_client_ip ex_http = Some (V4 167772161)" by (simp_all add: ex_app_def ex_api_def ex_http_def)
  note t = submission_needs_authorisation [OF ex_policies [of ex_start] h, unfolded c]
  have "authorise_send ex_api ex_config ex_http ex_relayer (ex_to 99) = Inr ()"
    using ex_authorise(1) by (cases "authorise_send ex_api ex_config ex_http ex_relayer (ex_to 99)") auto
  moreover have "authorise_send ex_api ex_config ex_http ex_relayer (ex_to 98) \<noteq> Inr ()"
    using ex_authorise(2) by auto
  ultimately show ?thesis
    using t [of ex_relayer "ex_to 99"] t [of ex_relayer "ex_to 98"] by blast
qed

section \<open>Replacement\<close>

lemma update_first_in:
  "find P xs = Some x \<Longrightarrow> f x \<in> set (update_first P f xs)"
  by (induction xs) (auto split: if_splits)

lemma replaced_pending_in_queue:
  assumes "replace_pending tp env rid q u rq s = (s', Inr res)"
    and "find (\<lambda>x. tx_id x = tx_id u) (q_pending q) = Some u"
  shows "\<exists>q' t'. s_queues s' rid = Some q' \<and> t' \<in> set (q_pending q') \<and> tx_id t' = tx_id u
    \<and> tx_to t' = rq_to rq \<and> tx_value t' = rq_value rq \<and> tx_data t' = rq_data rq"
proof -
  from assms(1) obtain t' where t': "transaction_replace tp rq u = Some t'"
    by (auto simp: replace_pending_def split: option.splits)
  obtain s1 x where x: "db_call (ee_update env) (transaction_update t' (ee_now_db env)) s = (s1, x)" by force
  from assms(1) t' x obtain y where "x = Inr y" by (cases x) (auto simp: replace_pending_def)
  with assms(1) t' x have q': "s_queues s' rid = Some (fst (update_pending_transaction t' q))"
    by (auto simp: replace_pending_def)
  have f: "tx_id t' = tx_id u" "tx_to t' = rq_to rq" "tx_value t' = rq_value rq" "tx_data t' = rq_data rq"
    using t' by (auto simp: transaction_replace_def split: sum.splits)
  have "t' \<in> set (q_pending (fst (update_pending_transaction t' q)))"
    using update_first_in [OF assms(2), of "\<lambda>_. t'"] f(1) find_SomeD [OF assms(2)]
    by (auto simp: update_pending_transaction_def Let_def list_ex_iff)
  with q' f show ?thesis by blast
qed

lemma find_for_edit_found: "find_for_edit ai ac hr (Inr (Some t)) = Inr u \<Longrightarrow> u = t"
  by (auto simp: find_for_edit_def and_then_Inr)

text \<open>The check of a replacement looks at the stored transaction, never at the new content: when a
  replacement of a pending transaction succeeds, the new target, value and data are queued for the
  relayer even where the relayer's permissions refuse a submission of the same request.\<close>

theorem replacement_content_unchecked:
  assumes "api_replace_transaction ai hr env (Inr (Some t)) rq a = (a', Inr res)" "rr_success res"
    and "s_queues (as_sys a) (tx_relayer_id t) = Some q"
    and "get_editable_transaction_by_id q (tx_id t) = Some (u, EditPending)"
    and "rl_address r = tx_from t" "rl_chain_id r = tx_chain_id t"
    and "network_permission_validate (ai_address ai) (as_config a) (tx_from t) (tx_chain_id t)
           (rq_to rq) (rq_value rq) ActTransaction = Inl e"
  shows "(\<exists>q' t'. s_queues (as_sys a') (tx_relayer_id t) = Some q' \<and> t' \<in> set (q_pending q')
      \<and> tx_id t' = tx_id t \<and> tx_to t' = rq_to rq \<and> tx_value t' = rq_value rq \<and> tx_data t' = rq_data rq)
    \<and> (\<exists>e'. authorise_send ai (as_config a) hr r rq = Inl e')"
proof -
  obtain a1 x where x: "reserve_request ai hr RlTransaction a = (a1, x)" by force
  then have sys: "as_sys a1 = as_sys a" by (auto simp: reserve_request_def split: prod.splits)
  obtain s1 y where y: "replace_transaction (ai_crypto ai) (ai_text ai) env t rq (as_sys a1) = (s1, y)" by force
  have y': "y = Inr res" "as_sys a' = s1"
    using assms(1) x y
    by (cases y; auto simp: api_replace_transaction_def split: sum.splits dest!: find_for_edit_found)+
  from y sys y' assms(2-4) have "replace_pending (ai_text ai) env (tx_relayer_id t) q u rq (as_sys a) = (s1, Inr res)"
    by (auto simp: replace_transaction_def Let_def get_transactions_queue_def replace_failed_def
        split: if_splits sum.splits)
  moreover have "find (\<lambda>x. tx_id x = tx_id u) (q_pending q) = Some u" "tx_id u = tx_id t"
    using editable_pending [OF assms(4)] by simp_all
  ultimately have "\<exists>q' t'. s_queues (as_sys a') (tx_relayer_id t) = Some q' \<and> t' \<in> set (q_pending q')
      \<and> tx_id t' = tx_id t \<and> tx_to t' = rq_to rq \<and> tx_value t' = rq_value rq \<and> tx_data t' = rq_data rq"
    using replaced_pending_in_queue y'(2) by metis
  moreover have "authorise_send ai (as_config a) hr r rq \<noteq> Inr ()"
    using assms(5-7) by (auto simp: authorise_send_def and_then_Inr)
  then have "\<exists>e'. authorise_send ai (as_config a) hr r rq = Inl e'"
    by (cases "authorise_send ai (as_config a) hr r rq") auto
  ultimately show ?thesis by blast
qed

definition ex_bypass :: "app \<times> (http_error answer + replace_result)" where
  "ex_bypass = api_replace_transaction ex_api ex_http (ex_edit_env 2 (ex_send_env 2000 (Inr 2000) 30))
     (Inr (Some ex_transaction)) (ex_to 98) (ex_app ex_queued)"

lemma ex_bypass_run:
  "case snd ex_bypass of Inl e \<Rightarrow> False | Inr r \<Rightarrow> rr_success r"
  "case s_queues ex_queued 7 of None \<Rightarrow> False | Some q \<Rightarrow>
     (case get_editable_transaction_by_id q 1 of Some (u, EditPending) \<Rightarrow> True | _ \<Rightarrow> False)"
  "case network_permission_validate (ai_address ex_api) ex_config 42 1 98 1 ActTransaction of Inl e \<Rightarrow> True | Inr _ \<Rightarrow> False"
  "tx_relayer_id ex_transaction = 7 \<and> tx_id ex_transaction = 1 \<and> tx_from ex_transaction = 42
     \<and> tx_chain_id ex_transaction = 1 \<and> rl_address ex_relayer = 42 \<and> rl_chain_id ex_relayer = 1"
  by code_simp+

theorem replacement_content_unchecked_witness:
  "(\<exists>q' (t' :: transaction). s_queues (as_sys (fst ex_bypass)) 7 = Some q' \<and> t' \<in> set (q_pending q') \<and> tx_to t' = 98)
   \<and> (\<exists>e'. authorise_send ex_api ex_config ex_http ex_relayer (ex_to 98) = Inl e')"
proof -
  obtain res where res: "snd ex_bypass = Inr res" "rr_success res"
    using ex_bypass_run(1) by (auto split: sum.splits)
  obtain q u where q: "s_queues ex_queued 7 = Some q" "get_editable_transaction_by_id q 1 = Some (u, EditPending)"
    using ex_bypass_run(2)
    by (cases "s_queues ex_queued 7")
       (auto split: option.split_asm prod.split_asm editable_transaction_type.split_asm)
  obtain e where e: "network_permission_validate (ai_address ex_api) ex_config 42 1 98 1 ActTransaction = Inl e"
    using ex_bypass_run(3) by (auto split: sum.splits)
  note ids = ex_bypass_run(4)
  have run: "api_replace_transaction ex_api ex_http (ex_edit_env 2 (ex_send_env 2000 (Inr 2000) 30))
     (Inr (Some ex_transaction)) (ex_to 98) (ex_app ex_queued) = (fst ex_bypass, Inr res)"
    using res(1) by (metis ex_bypass_def prod.collapse)
  have ap: "as_sys (ex_app ex_queued) = ex_queued" "as_config (ex_app ex_queued) = ex_config"
    "rq_to (ex_to 98) = 98" "rq_value (ex_to 98) = 1" by (simp_all add: ex_app_def ex_to_def)
  from replacement_content_unchecked [OF run res(2), of q u ex_relayer e] q e ids ap show ?thesis by auto
qed

end
