(* ===== verification/Setup_Config.thy ===== *)
theory Setup_Config
  imports Access_Control Safe_Proxy
begin

text \<open>
  The part of the configuration file the server is built from (yaml.rs), its validation, and what
  \<open>start\<close> and \<open>start_api\<close> derive from it (startup.rs): the access control lists, the Safe
  configurations and the networks that only have private keys. Reading the file, the YAML parser and
  the substitution of environment variables are not modelled.
\<close>

section \<open>Networks\<close>

record native_token_config =
  nt_min_balance :: u256
  nt_top_up_amount :: u256

record erc20_token_config =
  et_address :: evm_address
  et_min_balance :: u256
  et_top_up_amount :: u256

record top_up_config =
  tc_safe :: "evm_address option"
  tc_relayer :: evm_address
  tc_internal_only :: "bool option"
  tc_relayers :: all_or_addresses
  tc_native :: "native_token_config option"
  tc_erc20_tokens :: "erc20_token_config list option"

definition via_safe :: "top_up_config \<Rightarrow> bool" where
  "via_safe c = (tc_safe c \<noteq> None)"

definition top_up_internal_only :: "top_up_config \<Rightarrow> bool" where
  "top_up_internal_only c = (case tc_internal_only c of Some b \<Rightarrow> b | None \<Rightarrow> True)"

text \<open>Which signing methods a provider section configures.\<close>

record signing_provider =
  sp_raw :: bool
  sp_aws_secret_manager :: bool
  sp_gcp_secret_manager :: bool
  sp_privy :: bool
  sp_aws_kms :: bool
  sp_turnkey :: bool
  sp_pkcs11 :: bool
  sp_fireblocks :: bool
  sp_private_keys :: bool

definition signing_methods :: "signing_provider \<Rightarrow> bool list" where
  "signing_methods p =
     [sp_raw p, sp_aws_secret_manager p, sp_gcp_secret_manager p, sp_privy p, sp_aws_kms p,
      sp_turnkey p, sp_pkcs11 p, sp_fireblocks p, sp_private_keys p]"

definition validate_signing_provider :: "signing_provider \<Rightarrow> string + unit" where
  "validate_signing_provider p =
     (let configured = length (filter (\<lambda>b. b) (signing_methods p))
      in if configured = 0 then Inl ''Signing key is not set''
         else if configured = 1 then Inr ()
         else Inl ''Only one signing key method can be configured at a time'')"

record network_setup =
  ns_name :: string
  ns_chain_id :: chain_id
  ns_signing_provider :: "signing_provider option"
  ns_provider_urls :: "string list"
  ns_automatic_top_up :: "top_up_config list option"
  ns_permissions :: "network_permissions list option"
  ns_api_keys :: "api_key list option"
  ns_enable_sending_blobs :: "bool option"
  ns_allowed_random_relayers :: "all_or_one_or_many option"

section \<open>Validation\<close>

text \<open>
  The environment, the check of a header name (none for a valid one), the test for an absolute path,
  and the display of an address list error.
\<close>

record validation_params =
  vp_ip :: ip_params
  vp_env :: "string \<Rightarrow> string option"
  vp_header_name :: "string \<Rightarrow> bool"
  vp_absolute :: "string \<Rightarrow> bool"
  vp_show_ip_error :: "ip_allowlist_error \<Rightarrow> string"

definition validate_jwt_config :: "validation_params \<Rightarrow> jwt_hs256_config \<Rightarrow> string + unit" where
  "validate_jwt_config vp c =
     (if trim (jw_secret_env c) = [] then Inl ''request_verification.secret_env cannot be empty''
      else and_then
        (case jw_signature_header c of
           None \<Rightarrow> Inr ()
         | Some header \<Rightarrow>
             if trim header = [] then Inl ''request_verification.signature_header cannot be empty''
             else if \<not> vp_header_name vp header
             then Inl (''request_verification.signature_header `'' @ header @
                       ''` is not a valid HTTP header name'')
             else Inr ())
        (\<lambda>_. case vp_env vp (jw_secret_env c) of
               None \<Rightarrow> Inl (''request_verification secret environment variable `'' @ jw_secret_env c @
                            ''` is not set'')
             | Some secret \<Rightarrow>
                 if trim secret = []
                 then Inl (''request_verification secret environment variable `'' @ jw_secret_env c @
                           ''` is empty'')
                 else Inr ()))"

definition validate_scheme :: "validation_params \<Rightarrow> signature_scheme \<Rightarrow> string + unit" where
  "validate_scheme vp scheme = (case scheme of JwtHs256 c \<Rightarrow> validate_jwt_config vp c)"

datatype read_yaml_error =
    NoNetworksEnabled
  | SigningProviderYamlError string
  | RequestPolicyYamlError string
  | NetworkProviderUrlsNotDefined string
  | CronJobYamlError string
  | ApiConfigYamlError string

fun all_ok :: "('a \<Rightarrow> 'e + unit) \<Rightarrow> 'a list \<Rightarrow> 'e + unit" where
  "all_ok f [] = Inr ()"
| "all_ok f (x # xs) = and_then (f x) (\<lambda>_. all_ok f xs)"

definition opt_ok :: "('a \<Rightarrow> 'e + unit) \<Rightarrow> 'a option \<Rightarrow> 'e + unit" where
  "opt_ok f x = (case x of None \<Rightarrow> Inr () | Some a \<Rightarrow> f a)"

definition validate_api_config :: "validation_params \<Rightarrow> string option \<Rightarrow> string + unit" where
  "validate_api_config vp socket =
     opt_ok (\<lambda>path. if \<not> vp_absolute vp path
                    then Inl ''api_config.unix_socket_path must be an absolute path'' else Inr ()) socket"

definition validate_network_permission ::
  "validation_params \<Rightarrow> network_permissions \<Rightarrow> read_yaml_error + unit" where
  "validate_network_permission vp p =
     and_then (opt_ok (\<lambda>rules. map_err (\<lambda>e. RequestPolicyYamlError (vp_show_ip_error vp e))
                 (validate_ip_allowlist (vp_ip vp) rules)) (np_ip_allowlist p)) (\<lambda>_.
       opt_ok (\<lambda>s. map_err RequestPolicyYamlError (validate_scheme vp s)) (np_request_verification p))"

definition validate_network :: "validation_params \<Rightarrow> network_setup \<Rightarrow> read_yaml_error + unit" where
  "validate_network vp n =
     (if ns_provider_urls n = [] then Inl (NetworkProviderUrlsNotDefined (ns_name n))
      else and_then (opt_ok (\<lambda>k. map_err SigningProviderYamlError (validate_signing_provider k))
                       (ns_signing_provider n)) (\<lambda>_.
             opt_ok (all_ok (validate_network_permission vp)) (ns_permissions n)))"

definition validate_networks ::
  "validation_params \<Rightarrow> string option \<Rightarrow> network_setup list \<Rightarrow> read_yaml_error + unit" where
  "validate_networks vp socket ns =
     (if ns = [] then Inl NoNetworksEnabled
      else and_then (map_err ApiConfigYamlError (validate_api_config vp socket)) (\<lambda>_.
             all_ok (validate_network vp) ns))"

section \<open>What the server keeps of it\<close>

definition random_addresses :: "all_or_one_or_many \<Rightarrow> evm_address list" where
  "random_addresses a = (case a of AoAll \<Rightarrow> [] | AoOne x \<Rightarrow> [x] | AoMany l \<Rightarrow> l)"

definition relayers_allowed_for_random :: "network_setup list \<Rightarrow> chain_id \<rightharpoonup> evm_address list" where
  "relayers_allowed_for_random ns =
     fold (\<lambda>n m. case ns_allowed_random_relayers n of
                    None \<Rightarrow> m
                  | Some a \<Rightarrow> m(ns_chain_id n \<mapsto> random_addresses a)) ns Map.empty"

definition top_ups :: "network_setup \<Rightarrow> top_up_config list" where
  "top_ups n = (case ns_automatic_top_up n of None \<Rightarrow> [] | Some cs \<Rightarrow> cs)"

definition safe_configs :: "network_setup list \<Rightarrow> safe_proxy_config list" where
  "safe_configs ns =
     concat (map (\<lambda>n. concat (map (\<lambda>c. case tc_safe c of
                  None \<Rightarrow> []
                | Some safe \<Rightarrow> [\<lparr> sp_address = safe, sp_relayers = [tc_relayer c],
                                  sp_chain_id = ns_chain_id n \<rparr>]) (top_ups n))) ns)"

definition relayers_internal_only :: "network_setup list \<Rightarrow> (chain_id \<times> evm_address) list" where
  "relayers_internal_only ns =
     concat (map (\<lambda>n. map (\<lambda>c. (ns_chain_id n, tc_relayer c))
                      (filter top_up_internal_only (top_ups n))) ns)"

text \<open>Every network has an entry, empty when it configures no keys.\<close>

definition configured_api_keys :: "network_setup list \<Rightarrow> (chain_id \<times> api_key list) list" where
  "configured_api_keys ns =
     map (\<lambda>n. (ns_chain_id n, case ns_api_keys n of Some ks \<Rightarrow> ks | None \<Rightarrow> [])) ns"

definition configured_permissions :: "network_setup list \<Rightarrow> (chain_id \<times> network_permissions list) list" where
  "configured_permissions ns =
     concat (map (\<lambda>n. case ns_permissions n of None \<Rightarrow> [] | Some ps \<Rightarrow> [(ns_chain_id n, ps)]) ns)"

definition only_private_keys :: "signing_provider \<Rightarrow> bool" where
  "only_private_keys p =
     (sp_private_keys p \<and> \<not> sp_raw p \<and> \<not> sp_aws_secret_manager p \<and> \<not> sp_gcp_secret_manager p \<and>
      \<not> sp_privy p \<and> \<not> sp_aws_kms p \<and> \<not> sp_turnkey p \<and> \<not> sp_pkcs11 p \<and> \<not> sp_fireblocks p)"

definition private_key_only_networks ::
  "signing_provider option \<Rightarrow> network_setup list \<Rightarrow> chain_id list" where
  "private_key_only_networks global ns =
     concat (map (\<lambda>n. case (case ns_signing_provider n of Some p \<Rightarrow> Some p | None \<Rightarrow> global) of
                         None \<Rightarrow> []
                       | Some p \<Rightarrow> if only_private_keys p then [ns_chain_id n] else []) ns)"

definition app_config_of :: "signing_provider option \<Rightarrow> network_setup list \<Rightarrow> app_config" where
  "app_config_of global ns =
     \<lparr> ac_internal_only = relayers_internal_only ns, ac_random = relayers_allowed_for_random ns,
       ac_permissions = configured_permissions ns, ac_api_keys = configured_api_keys ns,
       ac_blobs_enabled = map (\<lambda>n. (ns_chain_id n, ns_enable_sending_blobs n)) ns,
       ac_private_key_only = private_key_only_networks global ns \<rparr>"

section \<open>Lemmas\<close>

text \<open>
  The test for enabled API keys never fails on a server that started: the first gate of every handler
  lets every request through, and the second one decides.
\<close>

lemma basic_auth_gate_open:
  "ns \<noteq> [] \<Longrightarrow> validate_allowed_passed_basic_auth (app_config_of global ns) h = Inr ()"
  by (simp add: validate_allowed_passed_basic_auth_def app_config_of_def configured_api_keys_def)

lemma all_ok_iff: "(all_ok f xs = Inr ()) = (\<forall>x \<in> set xs. f x = Inr ())"
  by (induction xs) (auto simp: and_then_Inr)

lemma opt_ok_iff: "(opt_ok f x = Inr ()) = (\<forall>a. x = Some a \<longrightarrow> f a = Inr ())"
  by (simp add: opt_ok_def split: option.splits)

text \<open>Exactly one signing method passes the validation.\<close>

lemma validate_signing_provider_iff:
  "(validate_signing_provider p = Inr ()) = (length (filter (\<lambda>b. b) (signing_methods p)) = 1)"
  by (simp add: validate_signing_provider_def Let_def)

text \<open>A relayer that tops up through a Safe is routed through it by the queue as well.\<close>

lemma safe_configs_relayer:
  assumes "n \<in> set ns" "c \<in> set (top_ups n)" "tc_safe c = Some safe"
  shows "get_safe_proxy_for_relayer (safe_configs ns) (tc_relayer c) (ns_chain_id n) \<noteq> None"
proof -
  have "\<lparr> sp_address = safe, sp_relayers = [tc_relayer c], sp_chain_id = ns_chain_id n \<rparr> \<in> set (safe_configs ns)"
    using assms unfolding safe_configs_def by force
  then have "\<exists>x \<in> set (safe_configs ns). tc_relayer c \<in> set (sp_relayers x) \<and> sp_chain_id x = ns_chain_id n"
    by force
  then show ?thesis
    by (auto simp: get_safe_proxy_for_relayer_def find_None_iff)
qed

end
