(* ===== verification/Setup_Properties.thy ===== *)
theory Setup_Properties
  imports Setup_Config Request_Properties
begin

text \<open>
  From the configuration file to the running server: what the validation at startup establishes for the
  checks of the handlers.
\<close>

lemma validated_permission:
  "validate_network_permission vp p = Inr () \<Longrightarrow>
     (case np_ip_allowlist p of None \<Rightarrow> True | Some rules \<Rightarrow> validate_ip_allowlist (vp_ip vp) rules = Inr ())"
  by (auto simp: validate_network_permission_def and_then_Inr opt_ok_iff split: option.splits)

lemma validated_network:
  "validate_network vp n = Inr () \<Longrightarrow> ns_permissions n = Some ps \<Longrightarrow> p \<in> set ps \<Longrightarrow>
     validate_network_permission vp p = Inr ()"
  by (simp add: validate_network_def and_then_Inr all_ok_iff opt_ok_iff split: if_splits)

text \<open>A server that starts has valid address lists: no request is refused for a malformed rule.\<close>

lemma started_policies_validated:
  assumes "validate_networks vp socket ns = Inr ()"
  shows "policies_validated (vp_ip vp) (app_config_of global ns)"
proof -
  have net: "validate_network vp n = Inr ()" if "n \<in> set ns" for n
    using assms that by (auto simp: validate_networks_def and_then_Inr all_ok_iff split: if_splits)
  then have "validate_ip_allowlist (vp_ip vp) rules = Inr ()"
    if "n \<in> set ns" "Some ps = ns_permissions n" "p \<in> set ps" "np_ip_allowlist p = Some rules" for n ps p rules
    using that validated_permission [OF validated_network [OF net [OF that(1)] that(2) [symmetric] that(3)]] by simp
  then show ?thesis
    by (auto simp: policies_validated_def app_config_of_def configured_permissions_def list_all_iff
        split: option.splits)
qed

text \<open>The checks of a submission on a server whose configuration passed the validation.\<close>

lemma started_server_authorises:
  assumes "validate_networks vp socket ns = Inr ()" "pp_ip (ai_policy ai) = vp_ip vp"
    and "hr_headers hr = inject_basic_auth_status se h"
  shows "(authorise_send ai (app_config_of global ns) hr r rq = Inr ()) =
     submission_allowed se (ai_policy ai) (app_config_of global ns) h (hr_client_ip hr) r rq"
  using authorise_send_iff [OF _ assms(3)] started_policies_validated [OF assms(1)] assms(2) by simp

text \<open>A relayer that pays top-ups and is not released for other uses never passes them.\<close>

lemma top_up_source_refused:
  assumes "n \<in> set ns" "c \<in> set (top_ups n)" "top_up_internal_only c"
    and "rl_chain_id r = ns_chain_id n" "rl_address r = tc_relayer c"
  shows "\<not> submission_allowed se pp (app_config_of global ns) h client r rq"
proof -
  have "(rl_chain_id r, rl_address r) \<in> set (relayers_internal_only ns)"
    using assms unfolding relayers_internal_only_def by force
  then show ?thesis by (simp add: submission_allowed_def app_config_of_def)
qed

end
