(* ===== verification/Relayer_Store.thy ===== *)
theory Relayer_Store
  imports Send_Tx
begin

text \<open>
  The table of relayers (relayer/db/) and the wallet indexes in it (relayer/types/wallet_index.rs):
  how an index of the database becomes an index of a wallet manager, which index a new relayer gets,
  and the statements that create, clone, import, pause and delete relayers. What a wallet manager
  answers is an input.
\<close>

section \<open>Wallet indexes\<close>

definition MAX_NORMAL_WALLET_INDEX :: u32 where
  "MAX_NORMAL_WALLET_INDEX = 2147483647"

definition MIN_PRIVATE_KEY_WALLET_MANAGER_INDEX :: u32 where
  "MIN_PRIVATE_KEY_WALLET_MANAGER_INDEX = MAX_NORMAL_WALLET_INDEX + 2"

text \<open>An \<open>i32\<close> is an integer in its range.\<close>

definition I32_MIN :: int where "I32_MIN = - 2147483648"
definition I32_MAX :: int where "I32_MAX = 2147483647"

datatype wallet_index = Normal u32 | PrivateKey int

datatype wallet_index_error =
    NormalIndexOutOfRange u32 u32
  | NormalDbIndexMustBeNonNegative int
  | PrivateKeyIndexMustBeNegative int
  | PrivateKeyIndexOutOfRange int

definition normal_index :: "u32 \<Rightarrow> wallet_index_error + wallet_index" where
  "normal_index i =
     (if i > MAX_NORMAL_WALLET_INDEX then Inl (NormalIndexOutOfRange i MAX_NORMAL_WALLET_INDEX)
      else Inr (Normal i))"

definition private_key_index :: "int \<Rightarrow> wallet_index_error + wallet_index" where
  "private_key_index d =
     (if d \<ge> 0 then Inl (PrivateKeyIndexMustBeNegative d)
      else if d = I32_MIN then Inl (PrivateKeyIndexOutOfRange d)
      else Inr (PrivateKey d))"

definition from_db_value :: "int \<Rightarrow> bool \<Rightarrow> wallet_index_error + wallet_index" where
  "from_db_value d is_private_key =
     (if is_private_key then private_key_index d
      else if d < 0 then Inl (NormalDbIndexMustBeNonNegative d)
      else normal_index (word_of_int d))"

definition is_private_key_manager_index :: "u32 \<Rightarrow> bool" where
  "is_private_key_manager_index i = (i \<ge> MIN_PRIVATE_KEY_WALLET_MANAGER_INDEX)"

fun manager_index :: "wallet_index \<Rightarrow> u32" where
  "manager_index (Normal i) = i"
| "manager_index (PrivateKey d) = - 1 - word_of_int (- d - 1)"

fun private_key_internal_index :: "wallet_index \<Rightarrow> u32 option" where
  "private_key_internal_index (Normal i) = None"
| "private_key_internal_index (PrivateKey d) = Some (- 1 - manager_index (PrivateKey d))"

fun db_value :: "wallet_index \<Rightarrow> int" where
  "db_value (Normal i) = sint i"
| "db_value (PrivateKey d) = d"

text \<open>
  The private key manager turns the index of a wallet into the position of the key
  (\<open>convert_to_internal_index\<close>); \<open>keys\<close> is the number of keys it has.
\<close>

definition convert_to_internal_index :: "nat \<Rightarrow> u32 \<Rightarrow> nat option" where
  "convert_to_internal_index keys i =
     (let internal = (if is_private_key_manager_index i then unat (- 1 - i) else unat i)
      in if internal < keys then Some internal else None)"

text \<open>Which manager a composite wallet uses: the private keys, if any, or the primary one.\<close>

datatype manager = PrimaryManager | PrivateKeyManager

definition get_manager_for_index :: "bool \<Rightarrow> u32 \<Rightarrow> manager option" where
  "get_manager_for_index has_private_keys i =
     (if is_private_key_manager_index i
      then (if has_private_keys then Some PrivateKeyManager else None)
      else Some PrimaryManager)"

text \<open>The index of a relayer; a row outside the two ranges panics.\<close>

definition relayer_wallet_index :: "relayer \<Rightarrow> u32 option" where
  "relayer_wallet_index r =
     (case from_db_value (rl_wallet_index r) (rl_is_private_key r) of
        Inl e \<Rightarrow> None
      | Inr w \<Rightarrow> Some (manager_index w))"

datatype wallet_manager_chain_id = MainChain chain_id | ClonedChain chain_id chain_id

definition relayer_wallet_chain :: "relayer \<Rightarrow> wallet_manager_chain_id" where
  "relayer_wallet_chain r =
     (case rl_cloned_from_chain_id r of
        Some c \<Rightarrow> ClonedChain c (rl_chain_id r)
      | None \<Rightarrow> MainChain (rl_chain_id r))"

section \<open>The table\<close>

record relayer_row =
  rw_relayer :: relayer
  rw_deleted :: bool

type_synonym relayer_table = "relayer_row list"

definition live :: "relayer_table \<Rightarrow> relayer list" where
  "live t = map rw_relayer (filter (\<lambda>r. \<not> rw_deleted r) t)"

text \<open>
  The primary key, and the partial index over live root wallets: one row for each chain and normal
  index that was not cloned.
\<close>

definition root_wallet :: "relayer \<Rightarrow> bool" where
  "root_wallet r =
     (\<not> rl_is_private_key r \<and> rl_wallet_index r \<ge> 0 \<and> rl_cloned_from_chain_id r = None)"

definition root_keys :: "relayer_table \<Rightarrow> (chain_id \<times> int) list" where
  "root_keys t = map (\<lambda>r. (rl_chain_id r, rl_wallet_index r)) (filter root_wallet (live t))"

definition check_relayers :: "relayer_table \<Rightarrow> db_error + relayer_table" where
  "check_relayers t =
     (if \<not> distinct (map (rl_id \<circ> rw_relayer) t) then Inl (UniqueViolation ''record_pkey'')
      else if \<not> distinct (root_keys t)
      then Inl (UniqueViolation ''idx_relayer_live_normal_root_wallet_namespace'')
      else Inr t)"

definition insert_relayer :: "relayer \<Rightarrow> relayer_table \<Rightarrow> db_error + relayer_table" where
  "insert_relayer r t = check_relayers (t @ [\<lparr> rw_relayer = r, rw_deleted = False \<rparr>])"

definition update_relayers ::
  "(relayer \<Rightarrow> bool) \<Rightarrow> (relayer_row \<Rightarrow> relayer_row) \<Rightarrow> relayer_table \<Rightarrow> relayer_table" where
  "update_relayers p f t = map (\<lambda>r. if p (rw_relayer r) then f r else r) t"

definition set_relayer :: "(relayer \<Rightarrow> relayer) \<Rightarrow> relayer_row \<Rightarrow> relayer_row" where
  "set_relayer f r = r\<lparr> rw_relayer := f (rw_relayer r) \<rparr>"

section \<open>Queries\<close>

definition get_relayer :: "relayer_id \<Rightarrow> relayer_table \<Rightarrow> relayer option" where
  "get_relayer i t = find (\<lambda>r. rl_id r = i) (live t)"

definition get_all_relayers_for_chain :: "chain_id \<Rightarrow> relayer_table \<Rightarrow> relayer list" where
  "get_all_relayers_for_chain c t = filter (\<lambda>r. rl_chain_id r = c) (live t)"

text \<open>A query for one row fails when there are several.\<close>

definition get_relayer_by_address ::
  "evm_address \<Rightarrow> chain_id \<Rightarrow> relayer_table \<Rightarrow> db_error + relayer option" where
  "get_relayer_by_address a c t =
     (case filter (\<lambda>r. rl_address r = a) (get_all_relayers_for_chain c t) of
        [] \<Rightarrow> Inr None
      | [r] \<Rightarrow> Inr (Some r)
      | _ \<Rightarrow> Inl (DbUnavailable ''query returned an unexpected number of rows''))"

definition max_index :: "int list \<Rightarrow> int" where
  "max_index is = foldr max is (- 1)"

text \<open>\<open>next_normal_wallet_index_sql\<close>, for a relayer that is created.\<close>

definition next_normal_wallet_index :: "chain_id \<Rightarrow> relayer_table \<Rightarrow> int" where
  "next_normal_wallet_index c t =
     max_index (map rl_wallet_index (filter (\<lambda>r. rl_chain_id r = c \<and> \<not> rl_is_private_key r \<and>
                                                 rl_wallet_index r \<ge> 0) (live t))) + 1"

text \<open>\<open>get_next_wallet_index\<close>, for a key that is imported: the rows of private keys count as well.\<close>

definition get_next_wallet_index :: "chain_id \<Rightarrow> relayer_table \<Rightarrow> int" where
  "get_next_wallet_index c t =
     (case map rl_wallet_index (get_all_relayers_for_chain c t) of
        [] \<Rightarrow> 0
      | i # is \<Rightarrow> foldr max is i + 1)"

section \<open>Creation\<close>

datatype create_relayer_error =
    CouldNotSaveRelayerDb db_error
  | NoSaveRelayerInitInfoReturnedDb
  | RelayerWalletError string
  | CloneSourceNotFound relayer_id
  | CannotClonePrivateKeyRelayer string
  | CannotCloneProviderRelayer string
  | CloneReturnedWrongAddress evm_address evm_address
  | CanNotCloneAClonedRelayer evm_address chain_id chain_id chain_id int
  | CreatePanicked

record create_env =
  cr_fresh_id :: relayer_id
  cr_now :: instant
  cr_can_clone :: bool
  cr_wallet :: "u32 \<Rightarrow> wallet_manager_chain_id \<Rightarrow> string + evm_address"
  cr_address :: "u32 \<Rightarrow> string + evm_address"

text \<open>The columns a statement does not list take their defaults.\<close>

definition default_relayer :: "create_env \<Rightarrow> string \<Rightarrow> chain_id \<Rightarrow> int \<Rightarrow> bool \<Rightarrow> evm_address \<Rightarrow> relayer" where
  "default_relayer env name c i pk a =
     \<lparr> rl_id = cr_fresh_id env, rl_name = name, rl_chain_id = c, rl_cloned_from_chain_id = None,
       rl_address = a, rl_wallet_index = i, rl_max_gas_price = None, rl_paused = False,
       rl_eip_1559_enabled = True, rl_created_at = cr_now env, rl_is_private_key = pk \<rparr>"

definition inserted ::
  "relayer_id \<Rightarrow> db_error + relayer_table \<Rightarrow> relayer_table \<Rightarrow>
   relayer_table \<times> (create_relayer_error + relayer)" where
  "inserted i result t =
     (case result of
        Inl e \<Rightarrow> (t, Inl (CouldNotSaveRelayerDb e))
      | Inr t' \<Rightarrow> (t', ok_or NoSaveRelayerInitInfoReturnedDb (get_relayer i t')))"

text \<open>
  A relayer for the next index. The insert and the update of its address are one transaction under
  an advisory lock of the chain; the wallet manager is asked in between, and its failure panics,
  which rolls the transaction back. The update names chain and index, not the new row.
\<close>

definition create_new_relayer ::
  "create_env \<Rightarrow> string \<Rightarrow> chain_id \<Rightarrow> relayer_table \<Rightarrow> relayer_table \<times> (create_relayer_error + relayer)"
  where
  "create_new_relayer env name c t =
     (let i = next_normal_wallet_index c t
      in case insert_relayer (default_relayer env name c i False 0) t of
           Inl e \<Rightarrow> (t, Inl (CouldNotSaveRelayerDb e))
         | Inr t' \<Rightarrow>
             (case cr_wallet env (word_of_int i) (MainChain c) of
                Inl e \<Rightarrow> (t, Inl CreatePanicked)
              | Inr a \<Rightarrow>
                  inserted (cr_fresh_id env)
                    (Inr (update_relayers (\<lambda>r. rl_chain_id r = c \<and> rl_wallet_index r = i)
                            (set_relayer (\<lambda>r. r\<lparr> rl_address := a \<rparr>)) t')) t))"

text \<open>
  A clone of a relayer on another chain: the source must be an own wallet, and the manager must give
  the same address. Nothing compares the chains or looks for an earlier clone.
\<close>

definition clone_checks ::
  "create_env \<Rightarrow> chain_id \<Rightarrow> relayer \<Rightarrow> create_relayer_error + unit" where
  "clone_checks env c src =
     (if rl_is_private_key src then Inl (CannotClonePrivateKeyRelayer (rl_name src))
      else if \<not> cr_can_clone env then Inl (CannotCloneProviderRelayer (rl_name src))
      else (case rl_cloned_from_chain_id src of
              Some from \<Rightarrow>
                Inl (CanNotCloneAClonedRelayer (rl_address src) (rl_chain_id src) c from (rl_wallet_index src))
            | None \<Rightarrow>
                (case relayer_wallet_index src of
                   None \<Rightarrow> Inl CreatePanicked
                 | Some i \<Rightarrow>
                     (case cr_wallet env i (ClonedChain (rl_chain_id src) c) of
                        Inl e \<Rightarrow> Inl (RelayerWalletError e)
                      | Inr a \<Rightarrow>
                          if a \<noteq> rl_address src
                          then Inl (CloneReturnedWrongAddress a (rl_address src)) else Inr ()))))"

definition cloned_relayer :: "create_env \<Rightarrow> string \<Rightarrow> chain_id \<Rightarrow> relayer \<Rightarrow> relayer" where
  "cloned_relayer env name c src =
     src\<lparr> rl_id := cr_fresh_id env, rl_name := name, rl_chain_id := c,
          rl_cloned_from_chain_id := Some (rl_chain_id src), rl_created_at := cr_now env \<rparr>"

definition clone_relayer ::
  "create_env \<Rightarrow> string \<Rightarrow> chain_id \<Rightarrow> relayer_id \<Rightarrow> relayer_table \<Rightarrow>
   relayer_table \<times> (create_relayer_error + relayer)" where
  "clone_relayer env name c source t =
     (case and_then (ok_or (CloneSourceNotFound source) (get_relayer source t)) (\<lambda>src.
             and_then (clone_checks env c src) (\<lambda>_. Inr src)) of
        Inl e \<Rightarrow> (t, Inl e)
      | Inr src \<Rightarrow> inserted (cr_fresh_id env) (insert_relayer (cloned_relayer env name c src) t) t)"

text \<open>The import of a configured private key, under its negative index.\<close>

definition import_private_key ::
  "create_env \<Rightarrow> string \<Rightarrow> chain_id \<Rightarrow> int \<Rightarrow> relayer_table \<Rightarrow>
   relayer_table \<times> (create_relayer_error + relayer)" where
  "import_private_key env name c i t =
     (case cr_address env (word_of_int (- i - 1)) of
        Inl e \<Rightarrow> (t, Inl (RelayerWalletError e))
      | Inr a \<Rightarrow>
          inserted (cr_fresh_id env) (insert_relayer (default_relayer env name c i True a) t) t)"

definition save_relayer :: "relayer \<Rightarrow> relayer_table \<Rightarrow> db_error + relayer_table" where
  "save_relayer r t =
     insert_relayer (r\<lparr> rl_cloned_from_chain_id := None, rl_max_gas_price := None \<rparr>) t"

section \<open>Updates\<close>

definition delete_relayer :: "relayer_id \<Rightarrow> relayer_table \<Rightarrow> relayer_table" where
  "delete_relayer i t = update_relayers (\<lambda>r. rl_id r = i) (\<lambda>r. r\<lparr> rw_deleted := True \<rparr>) t"

definition set_relayer_paused :: "bool \<Rightarrow> relayer_id \<Rightarrow> relayer_table \<Rightarrow> relayer_table" where
  "set_relayer_paused b i t =
     update_relayers (\<lambda>r. rl_id r = i) (set_relayer (\<lambda>r. r\<lparr> rl_paused := b \<rparr>)) t"

definition update_relayer_max_gas_price :: "u128 option \<Rightarrow> relayer_id \<Rightarrow> relayer_table \<Rightarrow> relayer_table" where
  "update_relayer_max_gas_price cap i t =
     update_relayers (\<lambda>r. rl_id r = i) (set_relayer (\<lambda>r. r\<lparr> rl_max_gas_price := cap \<rparr>)) t"

definition update_relayer_eip_1559_status :: "bool \<Rightarrow> relayer_id \<Rightarrow> relayer_table \<Rightarrow> relayer_table" where
  "update_relayer_eip_1559_status b i t =
     update_relayers (\<lambda>r. rl_id r = i) (set_relayer (\<lambda>r. r\<lparr> rl_eip_1559_enabled := b \<rparr>)) t"

section \<open>The private keys of the configuration\<close>

text \<open>
  At startup every private key of a network becomes a relayer unless its address is one already
  (\<open>import_private_keys_as_relayers\<close>). \<open>faults\<close> are failed lookups and \<open>envs\<close> the inputs of the inserts,
  by position; a failed lookup does not stop the import, a failed address skips the key.
\<close>

definition private_key_name :: "string \<Rightarrow> nat \<Rightarrow> string" where
  "private_key_name network i = network @ ''-pk-'' @ show_digits i"

fun import_keys ::
  "(nat \<Rightarrow> bool) \<Rightarrow> (nat \<Rightarrow> create_env) \<Rightarrow> string \<Rightarrow> chain_id \<Rightarrow> nat list \<Rightarrow> relayer_table \<Rightarrow> relayer_table"
  where
  "import_keys faults envs network c [] t = t"
| "import_keys faults envs network c (i # is) t =
     (case cr_address (envs i) (of_nat i) of
        Inl e \<Rightarrow> import_keys faults envs network c is t
      | Inr a \<Rightarrow>
          (case (if faults i then Inl (DbUnavailable ''lookup'') else get_relayer_by_address a c t) of
             Inr (Some r) \<Rightarrow> import_keys faults envs network c is t
           | _ \<Rightarrow> import_keys faults envs network c is
                    (fst (import_private_key (envs i) (private_key_name network i) c (- (int i + 1)) t))))"

end
