(* ===== verification/Relayer_Properties.thy ===== *)
theory Relayer_Properties
  imports Relayer_Store
begin

text \<open>
  Properties of the relayer table: the two ranges of wallet indexes never meet, a created relayer has
  a wallet of its own, and a clone on the source's own chain shares its account.
\<close>

section \<open>Wallet indexes\<close>

lemma word_of_int_range: "0 \<le> d \<Longrightarrow> d < 2 ^ 32 \<Longrightarrow> unat (word_of_int d :: u32) = nat d"
  by (simp add: unat_eq_nat_uint uint_word_of_int)

lemma complement_index: "unat (- 1 - (w :: u32)) = 2 ^ 32 - 1 - unat w"
proof -
  have "w \<le> - 1" by simp
  then have "unat (- 1 - w) = unat (- 1 :: u32) - unat w" by (rule unat_sub)
  then show ?thesis by (simp add: unsigned_minus_1_eq_mask mask_eq_exp_minus_1)
qed

lemma manager_index_private:
  assumes "I32_MIN < d" "d < 0"
  shows "unat (manager_index (PrivateKey d)) = 2 ^ 32 - nat (- d)"
proof -
  have "unat (word_of_int (- d - 1) :: u32) = nat (- d - 1)"
    using assms by (intro word_of_int_range) (simp_all add: I32_MIN_def)
  then have "unat (manager_index (PrivateKey d)) = 2 ^ 32 - 1 - nat (- d - 1)"
    by (simp only: manager_index.simps complement_index)
  also have "\<dots> = 2 ^ 32 - nat (- d)" using assms(2) by linarith
  finally show ?thesis .
qed

lemma private_key_manager_unat: "is_private_key_manager_index i = (2147483649 \<le> unat i)"
  by (simp add: is_private_key_manager_index_def MIN_PRIVATE_KEY_WALLET_MANAGER_INDEX_def
      MAX_NORMAL_WALLET_INDEX_def word_le_nat_alt)

lemma from_db_cases:
  assumes "from_db_value d pk = Inr w" "I32_MIN \<le> d" "d \<le> I32_MAX"
  shows "(pk \<and> w = PrivateKey d \<and> I32_MIN < d \<and> d < 0)
     \<or> (\<not> pk \<and> w = Normal (word_of_int d) \<and> 0 \<le> d \<and> unat (word_of_int d :: u32) = nat d)"
  using assms by (auto simp: from_db_value_def private_key_index_def normal_index_def I32_MIN_def I32_MAX_def
      split: if_splits intro: word_of_int_range)

text \<open>The index of a stored relayer goes to the wallet manager and back without loss: every index of the
  database in the \<open>i32\<close> range that is accepted is the one written back, the manager's index lies in the
  range of private keys exactly for a private key, where it leads to the position of the key the row
  was imported for, and two accepted indexes never share a manager's index.\<close>

theorem wallet_index_round_trip:
  assumes "from_db_value d pk = Inr w" "I32_MIN \<le> d" "d \<le> I32_MAX"
    and "from_db_value d' pk' = Inr w'" "I32_MIN \<le> d'" "d' \<le> I32_MAX"
  shows "db_value w = d \<and> is_private_key_manager_index (manager_index w) = pk
    \<and> (pk \<longrightarrow> convert_to_internal_index keys (manager_index w)
          = (if nat (- d - 1) < keys then Some (nat (- d - 1)) else None))
    \<and> (manager_index w = manager_index w' \<longrightarrow> d = d' \<and> pk = pk')"
proof -
  have one: "db_value w = d \<and> is_private_key_manager_index (manager_index w) = pk
      \<and> unat (manager_index w) = (if pk then 2 ^ 32 - nat (- d) else nat d)"
    if a: "from_db_value d pk = Inr w" "I32_MIN \<le> d" "d \<le> I32_MAX" for d pk w
  proof (cases pk)
    case True
    with from_db_cases [OF a] have w: "w = PrivateKey d" "I32_MIN < d" "d < 0" by auto
    have "nat (- d) < 2147483648" using w(2,3) by (simp add: I32_MIN_def)
    then show ?thesis using w True
      by (simp add: manager_index_private private_key_manager_unat del: manager_index.simps)
  next
    case False
    with from_db_cases [OF a] have w: "w = Normal (word_of_int d)" "0 \<le> d"
      "unat (word_of_int d :: u32) = nat d" by auto
    have "sint (word_of_int d :: u32) = d"
      using w(2) a(3) by (simp add: I32_MAX_def signed_of_int signed_take_bit_int_eq_self)
    then show ?thesis using w False a(3) by (simp add: private_key_manager_unat I32_MAX_def)
  qed
  note f = one [OF assms(1-3)] and g = one [OF assms(4-6)]
  have "d = d' \<and> pk = pk'" if "manager_index w = manager_index w'"
  proof -
    have pk: "pk = pk'" using f g that by metis
    with f g that have "(if pk then 2 ^ 32 - nat (- d) else nat d) = (if pk then 2 ^ 32 - nat (- d') else nat d')"
      by metis
    with pk from_db_cases [OF assms(1-3)] from_db_cases [OF assms(4-6)] show ?thesis
      by (auto simp: I32_MIN_def split: if_splits)
  qed
  moreover have "convert_to_internal_index keys (manager_index w)
      = (if nat (- d - 1) < keys then Some (nat (- d - 1)) else None)" if pk
  proof -
    have d: "I32_MIN < d" "d < 0" using from_db_cases [OF assms(1-3)] that by auto
    have "unat (- 1 - manager_index w) = nat (- d - 1)"
      using f that d by (simp add: complement_index I32_MIN_def)
    with f that show ?thesis by (simp add: convert_to_internal_index_def Let_def)
  qed
  ultimately show ?thesis using f by blast
qed

theorem wallet_index_round_trip_witness:
  "db_value (PrivateKey (- 2)) = - 2 \<and> is_private_key_manager_index (manager_index (PrivateKey (- 2)))
     \<and> convert_to_internal_index 3 (manager_index (PrivateKey (- 2))) = Some 1"
proof -
  have a: "from_db_value (- 2) True = Inr (PrivateKey (- 2))" "I32_MIN \<le> - 2" "- 2 \<le> I32_MAX"
    "from_db_value 5 False = Inr (Normal 5)" "I32_MIN \<le> 5" "5 \<le> I32_MAX"
    by (simp_all add: from_db_value_def private_key_index_def normal_index_def I32_MIN_def I32_MAX_def
        MAX_NORMAL_WALLET_INDEX_def)
  from wallet_index_round_trip [OF a, of 3] show ?thesis by simp
qed

section \<open>The table\<close>

definition table_ok :: "relayer_table \<Rightarrow> bool" where
  "table_ok t = (check_relayers t = Inr t)"

lemma table_ok_iff: "table_ok t = (distinct (map (rl_id \<circ> rw_relayer) t) \<and> distinct (root_keys t))"
  by (simp add: table_ok_def check_relayers_def)

lemma insert_relayer_Inr:
  "insert_relayer r t = Inr t' \<Longrightarrow> t' = t @ [\<lparr> rw_relayer = r, rw_deleted = False \<rparr>] \<and> table_ok t'"
  by (auto simp: insert_relayer_def check_relayers_def table_ok_iff split: if_splits)

lemma live_append [simp]: "live (t @ u) = live t @ live u"
  by (simp add: live_def)

lemma live_new [simp]: "live [\<lparr> rw_relayer = r, rw_deleted = False \<rparr>] = [r]"
  by (simp add: live_def)

lemma max_index_ge: "i \<in> set is \<Longrightarrow> i \<le> max_index is"
  by (induction "is") (auto simp: max_index_def le_max_iff_disj)

lemma next_normal_index_fresh:
  assumes "r \<in> set (live t)" "rl_chain_id r = c" "\<not> rl_is_private_key r" "rl_wallet_index r \<ge> 0"
  shows "rl_wallet_index r < next_normal_wallet_index c t"
proof -
  have "rl_wallet_index r \<in> set (map rl_wallet_index (filter (\<lambda>r. rl_chain_id r = c \<and> \<not> rl_is_private_key r \<and>
      rl_wallet_index r \<ge> 0) (live t)))" using assms by auto
  from max_index_ge [OF this] show ?thesis by (simp add: next_normal_wallet_index_def)
qed

lemma max_index_lower: "- 1 \<le> max_index is"
  by (induction "is") (auto simp: max_index_def le_max_iff_disj)

lemma next_normal_index_nonneg: "0 \<le> next_normal_wallet_index c t"
  using max_index_lower [of "map rl_wallet_index (filter (\<lambda>r. rl_chain_id r = c \<and> \<not> rl_is_private_key r \<and>
      rl_wallet_index r \<ge> 0) (live t))"] by (simp add: next_normal_wallet_index_def)

lemma root_keys_live: "live t = live t' \<Longrightarrow> root_keys t = root_keys t'"
  by (simp add: root_keys_def)

lemma get_relayer_appended:
  assumes "i \<notin> set (map (rl_id \<circ> rw_relayer) t)" "live u = live t @ [r]" "rl_id r = i"
  shows "get_relayer i u = Some r"
proof -
  have "\<forall>x \<in> set (live t). rl_id x \<noteq> i" using assms(1) by (force simp: live_def)
  then have "find (\<lambda>r. rl_id r = i) (live t) = None" by (auto simp: find_None_iff)
  with assms(2,3) show ?thesis by (simp add: get_relayer_def find_None_append)
qed

text \<open>An update of addresses leaves keys, ids and deletions as they are.\<close>

lemma update_address_keys:
  "root_keys (update_relayers p (set_relayer (\<lambda>r. r\<lparr> rl_address := a \<rparr>)) t) = root_keys t"
  "map (rl_id \<circ> rw_relayer) (update_relayers p (set_relayer (\<lambda>r. r\<lparr> rl_address := a \<rparr>)) t)
     = map (rl_id \<circ> rw_relayer) t"
  unfolding root_keys_def live_def update_relayers_def set_relayer_def
  by (induction t) (auto simp: root_wallet_def)

lemma update_address_live:
  "live (update_relayers p (set_relayer (\<lambda>r. r\<lparr> rl_address := a \<rparr>)) t)
     = map (\<lambda>r. if p r then r\<lparr> rl_address := a \<rparr> else r) (live t)"
  by (induction t) (auto simp: live_def update_relayers_def set_relayer_def)



definition ex_create_env :: "relayer_id \<Rightarrow> create_env" where
  "ex_create_env i = \<lparr> cr_fresh_id = i, cr_now = 0, cr_can_clone = True, cr_wallet = (\<lambda>i c. Inr (ucast i + 100)),
     cr_address = (\<lambda>i. Inr (ucast i + 900)) \<rparr>"

definition ex_table :: relayer_table where
  "ex_table = fst (create_new_relayer (ex_create_env 1) ''first'' 1 (fst (import_private_key (ex_create_env 9) ''pk'' 1 (- 1) [])))"

lemmas create_defs = create_new_relayer_def ex_create_env_def insert_relayer_def check_relayers_def root_keys_def
  root_wallet_def default_relayer_def next_normal_wallet_index_def max_index_def inserted_def get_relayer_def
  update_relayers_def set_relayer_def live_def import_private_key_def


section \<open>Clones\<close>

text \<open>Nothing stops a relayer from being cloned onto the chain it already serves: such a clone succeeds
  and leaves two live relayers with one account on one chain, which the lookup by address can then no
  longer resolve. Each gets a queue with a nonce counter of its own.\<close>

theorem clone_can_share_account:
  assumes "clone_relayer env name c source t = (t', Inr r)"
    and "cr_fresh_id env \<notin> set (map (rl_id \<circ> rw_relayer) t)"
    and "get_relayer source t = Some src" "rl_chain_id src = c"
  shows "src \<in> set (live t') \<and> r \<in> set (live t') \<and> rl_id r \<noteq> rl_id src \<and> rl_address r = rl_address src
    \<and> rl_chain_id r = rl_chain_id src \<and> (\<exists>e. get_relayer_by_address (rl_address src) c t' = Inl e)"
proof -
  let ?r = "cloned_relayer env name c src"
  from assms(1,3) have ins: "inserted (cr_fresh_id env) (insert_relayer ?r t) t = (t', Inr r)"
    by (auto simp: clone_relayer_def and_then_Inr split: sum.splits)
  then obtain u where u: "insert_relayer ?r t = Inr u" by (cases "insert_relayer ?r t") (auto simp: inserted_def)
  from insert_relayer_Inr [OF u] have live: "live u = live t @ [?r]" by simp
  have "get_relayer (cr_fresh_id env) u = Some ?r"
    using get_relayer_appended [OF assms(2) live] by (simp add: cloned_relayer_def)
  with ins u have t': "t' = u" "r = ?r" by (auto simp: inserted_def)
  have src: "src \<in> set (live t)" using assms(3) by (auto simp: get_relayer_def dest: find_SomeD)
  have "rl_id src \<noteq> cr_fresh_id env" using src assms(2) by (force simp: live_def)
  then have r: "rl_id ?r \<noteq> rl_id src" "rl_address ?r = rl_address src" "rl_chain_id ?r = c"
    by (simp_all add: cloned_relayer_def)
  obtain xs ys where "live t = xs @ src # ys" using src by (meson split_list)
  then have "2 \<le> length (filter (\<lambda>x. rl_address x = rl_address src) (get_all_relayers_for_chain c u))"
    using assms(4) r by (simp add: get_all_relayers_for_chain_def live)
  then obtain a b rest where
    "filter (\<lambda>x. rl_address x = rl_address src) (get_all_relayers_for_chain c u) = a # b # rest"
    by (metis One_nat_def Suc_1 Suc_le_length_iff)
  then have "\<exists>e. get_relayer_by_address (rl_address src) c u = Inl e"
    by (simp add: get_relayer_by_address_def)
  with t' src r live assms(4) show ?thesis by simp
qed

theorem clone_can_share_account_witness:
  "case clone_relayer (ex_create_env 3) ''copy'' 1 1 ex_table of
     (t', Inl e) \<Rightarrow> False | (t', Inr r) \<Rightarrow> (\<exists>src \<in> set (live t'). rl_id r \<noteq> rl_id src \<and> rl_address r = rl_address src)"
proof -
  have f: "cr_fresh_id (ex_create_env 3) \<notin> set (map (rl_id \<circ> rw_relayer) ex_table)"
    by (simp add: ex_table_def create_defs Let_def)
  have g: "case get_relayer 1 ex_table of None \<Rightarrow> False | Some src \<Rightarrow> rl_chain_id src = 1"
    "is_ok (snd (clone_relayer (ex_create_env 3) ''copy'' 1 1 ex_table))"
    by (simp_all add: ex_table_def create_defs Let_def clone_relayer_def clone_checks_def relayer_wallet_index_def
        from_db_value_def normal_index_def cloned_relayer_def MAX_NORMAL_WALLET_INDEX_def)
  obtain src where src: "get_relayer 1 ex_table = Some src" "rl_chain_id src = 1"
    using g(1) by (auto split: option.splits)
  obtain t' r where run: "clone_relayer (ex_create_env 3) ''copy'' 1 1 ex_table = (t', Inr r)"
    using g(2) by (cases "clone_relayer (ex_create_env 3) ''copy'' 1 1 ex_table") (auto simp: is_ok_def split: sum.splits)
  from clone_can_share_account [OF run f src] run show ?thesis by auto
qed

end
