(* ===== verification/Top_Up.thy ===== *)
theory Top_Up
  imports Setup_Config Queues Relayer_Store
begin

text \<open>
  The task that tops relayers up (background_tasks/automatic_top_up_task.rs): which addresses of a chain
  are below their minimum, whether the source can pay, and the transactions it hands to the queue.
  Balances, gas prices, the lookups of relayers and the answers of the queue's environment are
  inputs, one per call; logging and the timers are left out.
\<close>

section \<open>Inputs\<close>

text \<open>
  The task keeps the relayers of each chain in a hash map; the list stands for it in the order of its
  iteration. \<open>show\<close> is the display of an address, \<open>transfer\<close> and \<open>balance_of\<close> the ABI encodings,
  \<open>decode\<close> the ABI decoder of a balance.
\<close>

type_synonym relayer_cache = "(chain_id \<times> relayer list) list"

record top_up_params =
  tu_show_address :: "evm_address \<Rightarrow> string"
  tu_transfer :: "evm_address \<Rightarrow> u256 \<Rightarrow> transaction_data"
  tu_decode :: "u8 list \<Rightarrow> u256 option"
  tu_show_safe :: "safe_proxy_error \<Rightarrow> string"
  tu_show_db :: "db_error \<Rightarrow> string"
  tu_show_id :: "transaction_id \<Rightarrow> string"

record payment_env =
  py_target :: "db_error + relayer option"
  py_wallet :: "db_error + relayer option"
  py_safe_nonce :: "string + u256"
  py_source :: "db_error + relayer option"
  py_fresh_id :: transaction_id
  py_add :: add_transaction_env

record funds_env =
  fd_balance :: "rpc_error + u256"
  fd_token_call :: "rpc_error + u8 list"
  fd_gas_price :: "rpc_error + u128"

text \<open>The readings for one token (none is the native one) of one configuration.\<close>

record token_env =
  tk_balance :: "evm_address \<Rightarrow> rpc_error + u256"
  tk_call :: "evm_address \<Rightarrow> rpc_error + u8 list"
  tk_funds :: funds_env
  tk_payment :: "evm_address \<Rightarrow> payment_env"

section \<open>The cache of relayers\<close>

text \<open>\<open>found\<close> is the answer of the database for a chain; an error keeps the old entry.\<close>

fun refresh_relayer_cache ::
  "(chain_id \<Rightarrow> db_error + relayer list) \<Rightarrow> network_setup list \<Rightarrow> relayer_cache \<Rightarrow> relayer_cache" where
  "refresh_relayer_cache found [] cache = cache"
| "refresh_relayer_cache found (n # ns) cache =
     refresh_relayer_cache found ns
       (if top_ups n \<noteq> []
        then (case found (ns_chain_id n) of
                Inl e \<Rightarrow> cache
              | Inr rs \<Rightarrow> AList.update (ns_chain_id n) rs cache)
        else cache)"

definition cached_relayer :: "relayer_cache \<Rightarrow> evm_address \<Rightarrow> relayer option" where
  "cached_relayer cache a = find (\<lambda>r. rl_address r = a) (concat (map snd cache))"

text \<open>
  The wallet is looked up on the chain, in the cache and then in the database. A row outside the two
  ranges of wallet indexes panics and ends the task; here it is not found, and nothing is paid either.
\<close>

definition find_wallet_index_for_address ::
  "relayer_cache \<Rightarrow> db_error + relayer option \<Rightarrow> chain_id \<Rightarrow> evm_address \<Rightarrow> u32 option" where
  "find_wallet_index_for_address cache found chain a =
     (case Option.bind (map_of cache chain) (find (\<lambda>r. rl_address r = a)) of
        Some r \<Rightarrow> relayer_wallet_index r
      | None \<Rightarrow> (case found of Inr (Some r) \<Rightarrow> relayer_wallet_index r | _ \<Rightarrow> None))"

section \<open>Targets\<close>

text \<open>\<open>All\<close> with an unreadable table is no target; a list with an unreadable table is an error.\<close>

definition resolve_relayer_addresses ::
  "db_error + relayer list \<Rightarrow> all_or_addresses \<Rightarrow> evm_address \<Rightarrow> db_error + evm_address list" where
  "resolve_relayer_addresses found relayers source =
     and_then
       (case relayers of
          AllAddresses \<Rightarrow> Inr (case found of Inl e \<Rightarrow> [] | Inr rs \<Rightarrow> map rl_address rs)
        | ListedAddresses as \<Rightarrow>
            and_then found (\<lambda>rs. Inr (filter (\<lambda>a. a \<in> set (map rl_address rs)) as)))
       (\<lambda>as. Inr (filter (\<lambda>a. a \<noteq> source) as))"

text \<open>\<open>balance < minimum\<close>; an address whose balance cannot be read is skipped.\<close>

definition below_minimum :: "(evm_address \<Rightarrow> rpc_error + u256) \<Rightarrow> u256 \<Rightarrow> evm_address list \<Rightarrow> evm_address list" where
  "below_minimum balance minimum as =
     filter (\<lambda>a. case balance a of Inl e \<Rightarrow> False | Inr b \<Rightarrow> b < minimum) as"

text \<open>An empty answer or one that cannot be decoded is a balance of zero.\<close>

definition get_erc20_balance :: "top_up_params \<Rightarrow> rpc_error + u8 list \<Rightarrow> rpc_error + u256" where
  "get_erc20_balance tp answer =
     and_then answer (\<lambda>bytes. Inr (if bytes = [] then 0
                                   else case tu_decode tp bytes of Some b \<Rightarrow> b | None \<Rightarrow> 0))"

section \<open>Can the source pay\<close>

definition estimate_cost :: "u256 \<Rightarrow> rpc_error + u128 \<Rightarrow> rpc_error + u256" where
  "estimate_cost gas price = and_then price (\<lambda>p. Inr (ucast p * gas))"

definition estimated_or_default :: "u256 \<Rightarrow> rpc_error + u128 \<Rightarrow> u256" where
  "estimated_or_default gas price =
     (case estimate_cost gas price of Inr c \<Rightarrow> c | Inl e \<Rightarrow> gas * 20000000000)"

text \<open>The products are those of \<open>U256\<close>, which wrap in a release build.\<close>

definition check_native_from_address_balance ::
  "funds_env \<Rightarrow> native_token_config \<Rightarrow> nat \<Rightarrow> rpc_error + bool" where
  "check_native_from_address_balance fd c n =
     and_then (fd_balance fd) (\<lambda>balance.
       let cost = estimated_or_default 21000 (fd_gas_price fd);
           required = (nt_top_up_amount c + cost) * of_nat n
       in Inr (\<not> balance < required))"

definition check_erc20_from_address_balance ::
  "top_up_params \<Rightarrow> funds_env \<Rightarrow> erc20_token_config \<Rightarrow> nat \<Rightarrow> rpc_error + bool" where
  "check_erc20_from_address_balance tp fd c n =
     and_then (get_erc20_balance tp (fd_token_call fd)) (\<lambda>tokens.
     and_then (fd_balance fd) (\<lambda>native.
       let gas = estimated_or_default 65000 (fd_gas_price fd) * of_nat n;
           required = et_top_up_amount c * of_nat n
       in Inr (\<not> native < gas \<and> \<not> tokens < required)))"

text \<open>Only a reading that says no stops the payments; a failed reading does not.\<close>

definition funds_refused :: "rpc_error + bool \<Rightarrow> bool" where
  "funds_refused r = (r = Inr False)"

section \<open>Payments\<close>

text \<open>
  \<open>create_safe_transaction_with_signature\<close>: the signature of a Safe transaction is not implemented, so
  the call fails after the nonce was read.
\<close>

definition create_safe_signature :: "safe_transaction \<Rightarrow> safe_proxy_error + u8 list" where
  "create_safe_signature stx = Inl (SignatureError ''Safe signatures are not supported yet'')"

definition create_safe_transaction_with_signature ::
  "crypto \<Rightarrow> string + u256 \<Rightarrow> evm_address \<Rightarrow> u256 \<Rightarrow> transaction_data \<Rightarrow>
   safe_proxy_error + (safe_transaction \<times> transaction_data)" where
  "create_safe_transaction_with_signature cy nonce to v d =
     and_then (map_err SafeContractError nonce) (\<lambda>n.
       let stx = new_safe_transaction to v d n
       in and_then (create_safe_signature stx) (\<lambda>sig. Inr (stx, cy_encode_safe cy stx sig)))"

text \<open>What is paid: target, value and data of the call, and the name of the payment.\<close>

record payment =
  pm_to :: evm_address
  pm_value :: u256
  pm_data :: transaction_data
  pm_external_id :: string

definition native_payment ::
  "top_up_params \<Rightarrow> native_token_config \<Rightarrow> evm_address \<Rightarrow> evm_address \<Rightarrow> payment" where
  "native_payment tp c source target =
     \<lparr> pm_to = target, pm_value = nt_top_up_amount c, pm_data = [],
       pm_external_id = ''automatic_top_up_native_'' @ tu_show_address tp source @ ''_'' @
                        tu_show_address tp target \<rparr>"

definition erc20_payment ::
  "top_up_params \<Rightarrow> erc20_token_config \<Rightarrow> evm_address \<Rightarrow> evm_address \<Rightarrow> payment" where
  "erc20_payment tp c source target =
     \<lparr> pm_to = et_address c, pm_value = 0, pm_data = tu_transfer tp target (et_top_up_amount c),
       pm_external_id = ''automatic_top_up_erc20_'' @ tu_show_address tp (et_address c) @ ''_'' @
                        tu_show_address tp source @ ''_'' @ tu_show_address tp target \<rparr>"

text \<open>The target must be a relayer of the chain, and not the source.\<close>

definition payable_target ::
  "top_up_params \<Rightarrow> payment_env \<Rightarrow> evm_address \<Rightarrow> evm_address \<Rightarrow> string + unit" where
  "payable_target tp env source target =
     (if source = target then Inl ''Cannot send top-up transaction to self''
      else (case py_target env of
              Inl e \<Rightarrow> Inl (''Failed to validate relayer_address as relayer: '' @ tu_show_db tp e)
            | Inr None \<Rightarrow> Inl ''Security check failed: relayer_address is not a registered relayer''
            | Inr (Some _) \<Rightarrow> Inr ()))"

definition routed_payment ::
  "crypto \<Rightarrow> top_up_params \<Rightarrow> payment_env \<Rightarrow> relayer_cache \<Rightarrow> chain_id \<Rightarrow> top_up_config \<Rightarrow> payment \<Rightarrow>
   string + payment" where
  "routed_payment cy tp env cache chain c p =
     (case tc_safe c of
        None \<Rightarrow> Inr p
      | Some safe \<Rightarrow>
          (case find_wallet_index_for_address cache (py_wallet env) chain (tc_relayer c) of
             None \<Rightarrow> Inl ''Cannot find wallet index for from_address''
           | Some i \<Rightarrow>
               map_err (\<lambda>e. ''Failed to create Safe transaction: '' @ tu_show_safe tp e)
                 (and_then (create_safe_transaction_with_signature cy (py_safe_nonce env)
                              (pm_to p) (pm_value p) (pm_data p))
                    (\<lambda>(stx, encoded).
                       Inr (p\<lparr> pm_to := safe, pm_value := 0, pm_data := encoded \<rparr>)))))"

text \<open>The relayer that pays: from the cache of all chains, else from the database.\<close>

definition paying_relayer ::
  "top_up_params \<Rightarrow> payment_env \<Rightarrow> relayer_cache \<Rightarrow> evm_address \<Rightarrow> string + relayer_id" where
  "paying_relayer tp env cache source =
     (case cached_relayer cache source of
        Some r \<Rightarrow> Inr (rl_id r)
      | None \<Rightarrow>
          (case py_source env of
             Inl e \<Rightarrow> Inl (''Database error while looking up relayer: '' @ tu_show_db tp e)
           | Inr None \<Rightarrow> Inl ''Relayer not found in database''
           | Inr (Some r) \<Rightarrow> Inr (rl_id r)))"

text \<open>\<open>send_native_top_up_transaction\<close> and \<open>send_erc20_top_up_transaction\<close> differ in the payment only.\<close>

definition send_top_up_transaction ::
  "crypto \<Rightarrow> admission_params \<Rightarrow> top_up_params \<Rightarrow> payment_env \<Rightarrow> relayer_cache \<Rightarrow> chain_id \<Rightarrow>
   top_up_config \<Rightarrow> evm_address \<Rightarrow> payment \<Rightarrow> sys \<Rightarrow> sys \<times> (string + string)" where
  "send_top_up_transaction cy ap tp env cache chain c target p s =
     (case and_then (payable_target tp env (tc_relayer c) target) (\<lambda>_.
             and_then (routed_payment cy tp env cache chain c p) (\<lambda>p'.
             and_then (paying_relayer tp env cache (tc_relayer c)) (\<lambda>rid. Inr (p', rid)))) of
        Inl e \<Rightarrow> (s, Inl e)
      | Inr (p', rid) \<Rightarrow>
          (let tts = new_transaction_to_send (py_fresh_id env) (pm_to p') (pm_value p') (pm_data p')
                       (Some FAST) None (Some (pm_external_id p'))
           in case add_transaction cy ap (py_add env) rid tts s of
                (s', Inl e) \<Rightarrow> (s', Inl (''Failed to queue transaction: '' @ ap_show_error ap e))
              | (s', Inr t) \<Rightarrow> (s', Inr (tu_show_id tp (tx_id t)))))"

fun send_payments ::
  "crypto \<Rightarrow> admission_params \<Rightarrow> top_up_params \<Rightarrow> (evm_address \<Rightarrow> payment_env) \<Rightarrow> relayer_cache \<Rightarrow>
   chain_id \<Rightarrow> top_up_config \<Rightarrow> (evm_address \<Rightarrow> payment) \<Rightarrow> evm_address list \<Rightarrow> sys \<Rightarrow> sys" where
  "send_payments cy ap tp env cache chain c p [] s = s"
| "send_payments cy ap tp env cache chain c p (a # as) s =
     send_payments cy ap tp env cache chain c p as
       (fst (send_top_up_transaction cy ap tp (env a) cache chain c a (p a) s))"

section \<open>One configuration\<close>

definition process_native_token_top_ups ::
  "crypto \<Rightarrow> admission_params \<Rightarrow> top_up_params \<Rightarrow> token_env \<Rightarrow> relayer_cache \<Rightarrow> chain_id \<Rightarrow>
   top_up_config \<Rightarrow> evm_address list \<Rightarrow> native_token_config \<Rightarrow> sys \<Rightarrow> sys" where
  "process_native_token_top_ups cy ap tp env cache chain c as nc s =
     (let needy = below_minimum (tk_balance env) (nt_min_balance nc) as
      in if needy = [] then s
         else if funds_refused (check_native_from_address_balance (tk_funds env) nc (length needy)) then s
         else send_payments cy ap tp (tk_payment env) cache chain c (native_payment tp nc (tc_relayer c))
                needy s)"

definition process_erc20_token_top_ups ::
  "crypto \<Rightarrow> admission_params \<Rightarrow> top_up_params \<Rightarrow> token_env \<Rightarrow> relayer_cache \<Rightarrow> chain_id \<Rightarrow>
   top_up_config \<Rightarrow> evm_address list \<Rightarrow> erc20_token_config \<Rightarrow> sys \<Rightarrow> sys" where
  "process_erc20_token_top_ups cy ap tp env cache chain c as ec s =
     (let needy = below_minimum (\<lambda>a. get_erc20_balance tp (tk_call env a)) (et_min_balance ec) as
      in if needy = [] then s
         else if funds_refused (check_erc20_from_address_balance tp (tk_funds env) ec (length needy)) then s
         else send_payments cy ap tp (tk_payment env) cache chain c (erc20_payment tp ec (tc_relayer c))
                needy s)"

record config_env =
  cf_relayers :: "db_error + relayer list"
  cf_native :: token_env
  cf_tokens :: "nat \<Rightarrow> token_env"

definition process_top_up_config ::
  "crypto \<Rightarrow> admission_params \<Rightarrow> top_up_params \<Rightarrow> config_env \<Rightarrow> relayer_cache \<Rightarrow> chain_id \<Rightarrow>
   top_up_config \<Rightarrow> sys \<Rightarrow> sys" where
  "process_top_up_config cy ap tp env cache chain c s =
     (case resolve_relayer_addresses (cf_relayers env) (tc_relayers c) (tc_relayer c) of
        Inl e \<Rightarrow> s
      | Inr as \<Rightarrow>
          if as = [] then s
          else (let s1 = (case tc_native c of
                            None \<Rightarrow> s
                          | Some nc \<Rightarrow>
                              process_native_token_top_ups cy ap tp (cf_native env) cache chain c as nc s);
                    tokens = (case tc_erc20_tokens c of None \<Rightarrow> [] | Some ts \<Rightarrow> ts)
                in fold (\<lambda>(i, ec) st.
                          process_erc20_token_top_ups cy ap tp (cf_tokens env i) cache chain c as ec st)
                     (enumerate 0 tokens) s1))"

text \<open>One round over all networks; a network without a provider is skipped.\<close>

definition check_and_top_up_addresses ::
  "crypto \<Rightarrow> admission_params \<Rightarrow> top_up_params \<Rightarrow> (chain_id \<Rightarrow> nat \<Rightarrow> config_env) \<Rightarrow> chain_id list \<Rightarrow>
   relayer_cache \<Rightarrow> network_setup list \<Rightarrow> sys \<Rightarrow> sys" where
  "check_and_top_up_addresses cy ap tp env providers cache ns s =
     fold (\<lambda>n st.
        if ns_chain_id n \<in> set providers
        then fold (\<lambda>(i, c) st'. process_top_up_config cy ap tp (env (ns_chain_id n) i) cache (ns_chain_id n) c st')
               (enumerate 0 (top_ups n)) st
        else st) ns s"

end
