(* ===== verification/Top_Up_Properties.thy ===== *)
theory Top_Up_Properties
  imports Top_Up Examples
begin

text \<open>
  Properties of the top-up task: whom it pays and when, that a payment through a Safe is never made,
  and that a payment is made at most once.
\<close>

section \<open>Rows of requests\<close>

definition recorded :: "relayer_id \<Rightarrow> string \<Rightarrow> db \<Rightarrow> bool" where
  "recorded rid x d = (find_by_external_id rid x d \<noteq> None)"

lemma find_admitted_recorded:
  "find_admitted_transaction fault rid (Some x) digest d = Inr (Some t) \<Longrightarrow> recorded rid x d"
  by (auto simp: find_admitted_transaction_def and_then_Inr run_query_def recorded_def split: option.splits if_splits)

lemma resolve_recorded:
  "resolve_admission_insert_error sha fault rid t e d = Inr stored \<Longrightarrow> tx_external_id t = Some x \<Longrightarrow>
     recorded rid x d"
  by (auto simp: resolve_admission_insert_error_def and_then_Inr split: if_splits option.splits
      dest!: find_admitted_recorded)

lemma recorded_append:
  "r_relayer_id r = rid \<Longrightarrow> r_external_id r = Some x \<Longrightarrow> db_rows d = rows @ [r] \<Longrightarrow> recorded rid x d"
  by (auto simp: recorded_def find_by_external_id_def find_None_iff)

lemma save_recorded:
  assumes "save_admitted ap env rid t s = (s', Inr stored)" "tx_external_id t = Some x"
  shows "recorded rid x (s_db s')"
proof -
  obtain d r where d: "run_stmt (ae_save_answer env) (save_transaction (ap_sha256 ap) rid t) (s_db s) = (d, r)"
    by force
  with assms(1) have s': "s_db s' = d"
    by (cases r) (auto simp: save_admitted_def save_admitted_transaction_def)
  show ?thesis
  proof (cases r)
    case (Inl e)
    with assms d show ?thesis
      by (auto simp: s' save_admitted_def save_admitted_transaction_def dest: resolve_recorded)
  next
    case (Inr u)
    with d have "save_transaction (ap_sha256 ap) rid t (s_db s) = Inr (d, u)" by (simp add: run_stmt_Inr)
    then have "db_rows d = db_rows (s_db s) @ [saved_row (ap_sha256 ap) rid t]"
      by (simp add: save_transaction_def commit_Inr)
    then show ?thesis
      unfolding s' by (rule recorded_append [rotated 2]) (simp_all add: saved_row_def base_row_def assms(2))
  qed
qed

lemma reject_recorded:
  assumes "reject_unestimable ap env rid t err s = (s', Inr stored)" "tx_external_id t = Some x"
  shows "recorded rid x (s_db s')"
proof -
  obtain s1 r where d: "db_call (ae_failed_answer env) (transaction_failed_on_send (ap_sha256 ap) rid
      (t\<lparr> tx_status := FAILED \<rparr>) (''Failed to send transaction as always failing on gas estimation: ''
        @ ap_show_error ap err) (ae_now_failed env)) s = (s1, r)"
    by force
  with assms show ?thesis
    by (cases r) (auto simp: reject_unestimable_def Let_def dest!: resolve_recorded)
qed

lemma admit_recorded:
  assumes "admit ap env rid q t limit s = (s', Inr stored)" "tx_external_id t = Some x"
  shows "recorded rid x (s_db s')"
proof -
  obtain nm n where g: "get_and_increment (q_nonce_manager q) = (nm, n)" by force
  obtain s1 r where r: "save_admitted ap env rid (t\<lparr> tx_nonce := n, tx_gas_limit := Some limit \<rparr>) s = (s1, r)"
    by force
  from assms(1) g r have "s_db s' = s_db s1 \<and> (\<exists>u. r = Inr u)"
    by (cases r) (auto simp: admit_def Let_def split: if_splits)
  with save_recorded [of ap env rid "t\<lparr> tx_nonce := n, tx_gas_limit := Some limit \<rparr>" s s1] r assms(2)
  show ?thesis by auto
qed

text \<open>Whatever transaction admission returns for a named request, a row under the name exists.\<close>

lemma add_transaction_recorded:
  assumes "add_transaction cy ap env rid tts s = (s', Inr t)" "tts_external_id tts = Some x"
  shows "recorded rid x (s_db s')"
proof -
  have ext: "tx_external_id (queued_transaction rid tts q n now expires) = Some x" for q n now expires
    by (simp add: queued_transaction_def assms(2))
  from assms(1) show ?thesis
    by (auto simp: add_transaction_def get_transactions_queue_def Let_def assms(2) ext
        split: sum.splits option.splits if_splits prod.splits
        dest!: find_admitted_recorded reject_recorded [OF _ ext] admit_recorded [OF _ ext])
qed

text \<open>A request whose name has a row changes nothing, whatever it asks for.\<close>

lemma add_transaction_known:
  assumes "recorded rid x (s_db s)" "tts_external_id tts = Some x" "ae_find_fault env = None"
  shows "fst (add_transaction cy ap env rid tts s) = s"
proof -
  obtain row where "find_by_external_id rid x (s_db s) = Some row" using assms(1) by (auto simp: recorded_def)
  with assms(2,3) show ?thesis
    by (simp add: add_transaction_def find_admitted_transaction_def run_query_def)
qed

section \<open>Payments\<close>

lemma no_safe_payment: "\<exists>e. create_safe_transaction_with_signature cy nonce to v d = Inl e"
  by (cases nonce) (simp_all add: create_safe_transaction_with_signature_def create_safe_signature_def Let_def)

text \<open>Paying out of a Safe is configured but never works: nothing is handed to the queue.\<close>

lemma safe_payment_fails:
  assumes "tc_safe c = Some safe"
  shows "fst (send_top_up_transaction cy ap tu env cache chain c a p s) = s"
proof -
  have "\<exists>e. routed_payment cy tu env cache chain c p = Inl e"
    using no_safe_payment [of cy "py_safe_nonce env" "pm_to p" "pm_value p" "pm_data p"]
    by (auto simp: routed_payment_def assms split: option.splits)
  then show ?thesis
    by (cases "payable_target tu env (tc_relayer c) a") (auto simp: send_top_up_transaction_def)
qed

lemma send_payments_nothing:
  assumes "\<And>a. a \<in> set as \<Longrightarrow> fst (send_top_up_transaction cy ap tu (env a) cache chain c a (p a) s) = s"
  shows "send_payments cy ap tu env cache chain c p as s = s"
  using assms by (induction as) auto

lemma recorded_payment_fails:
  assumes "recorded rid (pm_external_id p) (s_db s)" "paying_relayer tu env cache (tc_relayer c) = Inr rid"
    and "ae_find_fault (py_add env) = None"
  shows "fst (send_top_up_transaction cy ap tu env cache chain c a p s) = s"
proof (cases "tc_safe c")
  case None
  let ?tts = "new_transaction_to_send (py_fresh_id env) (pm_to p) (pm_value p) (pm_data p)
      (Some FAST) None (Some (pm_external_id p))"
  have "fst (add_transaction cy ap (py_add env) rid ?tts s) = s"
    using assms(1,3) by (intro add_transaction_known) (simp_all add: new_transaction_to_send_def)
  then show ?thesis
    using None assms(2)
    by (cases "payable_target tu env (tc_relayer c) a"; cases "add_transaction cy ap (py_add env) rid ?tts s";
        cases "snd (add_transaction cy ap (py_add env) rid ?tts s)")
       (auto simp: send_top_up_transaction_def routed_payment_def)
qed (rule safe_payment_fails)

lemma payment_recorded:
  assumes "send_top_up_transaction cy ap tu env cache chain c a p s = (s', Inr i)"
    and "paying_relayer tu env cache (tc_relayer c) = Inr rid"
  shows "recorded rid (pm_external_id p) (s_db s')"
proof (cases "tc_safe c")
  case None
  let ?tts = "new_transaction_to_send (py_fresh_id env) (pm_to p) (pm_value p) (pm_data p)
      (Some FAST) None (Some (pm_external_id p))"
  from assms None obtain t where "add_transaction cy ap (py_add env) rid ?tts s = (s', Inr t)"
    by (cases "payable_target tu env (tc_relayer c) a"; cases "add_transaction cy ap (py_add env) rid ?tts s";
        cases "snd (add_transaction cy ap (py_add env) rid ?tts s)")
       (auto simp: send_top_up_transaction_def routed_payment_def)
  then show ?thesis
    by (rule add_transaction_recorded) (simp add: new_transaction_to_send_def)
next
  case (Some safe)
  have "\<exists>e. routed_payment cy tu env cache chain c p = Inl e"
    using no_safe_payment [of cy "py_safe_nonce env" "pm_to p" "pm_value p" "pm_data p"]
    by (auto simp: routed_payment_def Some split: option.splits)
  with assms show ?thesis
    by (cases "payable_target tu env (tc_relayer c) a") (auto simp: send_top_up_transaction_def)
qed


definition ex_top_up_params :: top_up_params where
  "ex_top_up_params = \<lparr> tu_show_address = (\<lambda>a. show_digits (unat a)), tu_transfer = (\<lambda>a v. []),
     tu_decode = (\<lambda>b. None), tu_show_safe = (\<lambda>e. ''safe''), tu_show_db = (\<lambda>e. ''db''),
     tu_show_id = (\<lambda>i. show_digits (unat i)) \<rparr>"

definition ex_payment_env :: "transaction_id \<Rightarrow> payment_env" where
  "ex_payment_env i = \<lparr> py_target = Inr (Some (ex_relayer\<lparr> rl_id := 8, rl_address := 43 \<rparr>)), py_wallet = Inr None,
     py_safe_nonce = Inr 0, py_source = Inr (Some ex_relayer), py_fresh_id = i, py_add = ex_add_env \<rparr>"

definition ex_top_up :: top_up_config where
  "ex_top_up = \<lparr> tc_safe = None, tc_relayer = 42, tc_internal_only = None, tc_relayers = AllAddresses,
     tc_native = None, tc_erc20_tokens = None \<rparr>"

definition ex_native :: "u256 \<Rightarrow> native_token_config" where
  "ex_native v = \<lparr> nt_min_balance = 1000, nt_top_up_amount = v \<rparr>"

definition ex_low :: token_env where
  "ex_low = \<lparr> tk_balance = (\<lambda>a. Inr 0), tk_call = (\<lambda>a. Inr []),
     tk_funds = \<lparr> fd_balance = Inr 1000000000000, fd_token_call = Inr [], fd_gas_price = Inr 1 \<rparr>,
     tk_payment = (\<lambda>a. ex_payment_env 12) \<rparr>"

definition ex_paid :: "sys \<times> (string + string)" where
  "ex_paid = send_top_up_transaction ex_crypto ex_ap ex_top_up_params (ex_payment_env 11) [] 1 ex_top_up 43
     (native_payment ex_top_up_params (ex_native 5) 42 43) ex_start"


section \<open>Guards\<close>

lemma payment_guarded:
  assumes "fst (send_top_up_transaction cy ap tu env cache chain c a p s) \<noteq> s"
  shows "tc_safe c = None \<and> a \<noteq> tc_relayer c \<and> (\<exists>r. py_target env = Inr (Some r))"
proof -
  have "tc_safe c = None" using assms safe_payment_fails by fastforce
  moreover have "payable_target tu env (tc_relayer c) a = Inr ()"
    using assms by (cases "payable_target tu env (tc_relayer c) a") (auto simp: send_top_up_transaction_def)
  ultimately show ?thesis by (auto simp: payable_target_def split: if_splits sum.splits option.splits)
qed

text \<open>
  A round changes the system only to pay a registered relayer below its minimum, out of a source that is
  no Safe and whose balance was not seen to be too low.
\<close>

lemma native_round_guarded:
  assumes "process_native_token_top_ups cy ap tu env cache chain c as nc s \<noteq> s"
  shows "tc_safe c = None \<and> (\<exists>a \<in> set as. a \<noteq> tc_relayer c \<and> (\<exists>b. tk_balance env a = Inr b \<and> b < nt_min_balance nc))"
proof -
  let ?needy = "below_minimum (tk_balance env) (nt_min_balance nc) as"
  have "send_payments cy ap tu (tk_payment env) cache chain c (native_payment tu nc (tc_relayer c)) ?needy s \<noteq> s"
    using assms by (auto simp: process_native_token_top_ups_def Let_def split: if_splits)
  then obtain a where a: "a \<in> set ?needy" "fst (send_top_up_transaction cy ap tu (tk_payment env a) cache chain c a
      (native_payment tu nc (tc_relayer c) a) s) \<noteq> s"
    using send_payments_nothing by blast
  with payment_guarded [OF a(2)] show ?thesis
    by (auto simp: below_minimum_def split: sum.splits)
qed

end
