(* ===== verification/Cron_Jobs.thy ===== *)
theory Cron_Jobs
  imports Setup_Config Queues Relayer_Store
begin

text \<open>
  Scheduled transactions (background_tasks/cron_job_task.rs and the cron jobs of yaml.rs): the interval
  syntax, the validation of a job, when a job first runs, which relayer it uses and what it submits.
  Values and contract calls are parsed and encoded by external crates: parameters.
\<close>

section \<open>Jobs\<close>

record contract_call =
  cc_function :: string
  cc_args :: "string list"

record cron_transaction =
  ct_to :: evm_address
  ct_value :: "string option"
  ct_speed :: "transaction_speed option"
  ct_external_id :: "string option"
  ct_data :: "string option"
  ct_contract :: "contract_call option"

record cron_job =
  cj_name :: string
  cj_enabled :: bool
  cj_network :: string
  cj_relayers :: all_or_one_or_many
  cj_every :: string
  cj_run_on_startup :: "bool option"
  cj_transaction :: cron_transaction

text \<open>
  \<open>cp_value\<close> parses a value; \<open>cp_function\<close> parses a function signature into the types of its inputs,
  \<open>cp_coerce\<close> reads an argument of a type and \<open>cp_encode\<close> encodes the call.
\<close>

record cron_params =
  cp_value :: "string \<Rightarrow> string + u256"
  cp_function :: "string \<Rightarrow> string + string list"
  cp_coerce :: "string \<Rightarrow> string \<Rightarrow> string + u8 list"
  cp_encode :: "string \<Rightarrow> u8 list list \<Rightarrow> string + transaction_data"
  cp_show_address :: "evm_address \<Rightarrow> string"
  cp_show_db :: "db_error \<Rightarrow> string"

section \<open>Intervals\<close>

definition parse_u64 :: "string \<Rightarrow> u64 option" where
  "parse_u64 s =
     (let ds = (case s of c # cs \<Rightarrow> if c = CHR ''+'' then cs else s | [] \<Rightarrow> [])
      in if ds = [] then None
         else (case digits_value 0 ds of
                 None \<Rightarrow> None
               | Some n \<Rightarrow> if n < 2 ^ 64 then Some (of_nat n) else None))"

definition is_ascii :: "char \<Rightarrow> bool" where
  "is_ascii c = ((of_char c :: nat) < 128)"

definition unit_seconds :: "char \<Rightarrow> u64 option" where
  "unit_seconds c =
     (if c = CHR ''s'' then Some 1 else if c = CHR ''m'' then Some 60
      else if c = CHR ''h'' then Some 3600 else if c = CHR ''d'' then Some 86400
      else if c = CHR ''w'' then Some 604800 else None)"

text \<open>The seconds of an interval; the product wraps in a release build.\<close>

definition parse_cron_job_interval :: "string \<Rightarrow> string + u64" where
  "parse_cron_job_interval interval =
     (let s = trim interval
      in if length s < 2 \<or> \<not> list_all is_ascii s
         then Inl ''interval must include a positive number and unit''
         else (case parse_u64 (butlast s) of
                 None \<Rightarrow> Inl ''interval must include a positive whole number followed by s, m, h, d, or w''
               | Some amount \<Rightarrow>
                   if amount = 0 then Inl ''interval must be greater than zero''
                   else (case unit_seconds (last s) of
                           None \<Rightarrow> Inl ''interval unit must be one of s, m, h, d, or w''
                         | Some u \<Rightarrow> Inr (amount * u))))"

section \<open>Payloads\<close>

definition hex_digit :: "char \<Rightarrow> u8 option" where
  "hex_digit c =
     (let n = (of_char c :: nat)
      in if 48 \<le> n \<and> n \<le> 57 then Some (of_nat (n - 48))
         else if 97 \<le> n \<and> n \<le> 102 then Some (of_nat (n - 87))
         else if 65 \<le> n \<and> n \<le> 70 then Some (of_nat (n - 55)) else None)"

fun hex_bytes :: "string \<Rightarrow> u8 list option" where
  "hex_bytes [] = Some []"
| "hex_bytes [c] = None"
| "hex_bytes (a # b # s) =
     (case (hex_digit a, hex_digit b, hex_bytes s) of
        (Some x, Some y, Some bs) \<Rightarrow> Some ((16 * x + y) # bs)
      | _ \<Rightarrow> None)"

text \<open>\<open>TransactionData::raw_hex\<close>.\<close>

definition raw_hex :: "string \<Rightarrow> string + transaction_data" where
  "raw_hex s =
     (if s = [] then Inl ''TransactionData string is empty''
      else if take 2 s \<noteq> ''0x'' then Inl (''TransactionData must start with '' @ [CHR 0x27] @ ''0x'' @ [CHR 0x27])
      else if \<not> list_all (\<lambda>c. hex_digit c \<noteq> None) (drop 2 s)
      then Inl ''TransactionData must contain only valid hexadecimal digits''
      else ok_or ''Invalid hex string: Odd number of digits'' (hex_bytes (drop 2 s)))"

definition arity_error :: "nat \<Rightarrow> nat \<Rightarrow> string" where
  "arity_error expected got =
     ''function expects '' @ show_digits expected @ '' arg(s), got '' @ show_digits got"

fun coerce_args :: "cron_params \<Rightarrow> (string \<times> string) list \<Rightarrow> string + u8 list list" where
  "coerce_args cp [] = Inr []"
| "coerce_args cp ((ty, arg) # rest) =
     and_then (cp_coerce cp ty arg) (\<lambda>v. and_then (coerce_args cp rest) (\<lambda>vs. Inr (v # vs)))"

definition encode_contract_call :: "cron_params \<Rightarrow> contract_call \<Rightarrow> string + transaction_data" where
  "encode_contract_call cp c =
     and_then (map_err (\<lambda>e. ''invalid contract function signature: '' @ e) (cp_function cp (cc_function c)))
       (\<lambda>inputs.
         if length inputs \<noteq> length (cc_args c)
         then Inl (arity_error (length inputs) (length (cc_args c)))
         else and_then (coerce_args cp (zip inputs (cc_args c))) (\<lambda>values.
                map_err (\<lambda>e. ''failed to ABI encode contract call: '' @ e)
                  (cp_encode cp (cc_function c) values)))"

definition cron_value :: "cron_params \<Rightarrow> cron_transaction \<Rightarrow> string + u256" where
  "cron_value cp t = cp_value cp (case ct_value t of Some v \<Rightarrow> v | None \<Rightarrow> ''0'')"

definition cron_data :: "cron_params \<Rightarrow> cron_transaction \<Rightarrow> string + transaction_data" where
  "cron_data cp t =
     (case (ct_data t, ct_contract t) of
        (Some d, None) \<Rightarrow> raw_hex d
      | (None, Some c) \<Rightarrow> encode_contract_call cp c
      | (None, None) \<Rightarrow> Inl ''transaction.data or transaction.contract is required''
      | (Some _, Some _) \<Rightarrow> Inl ''transaction.data and transaction.contract cannot both be defined'')"

definition build_transaction_to_send ::
  "cron_params \<Rightarrow> transaction_id \<Rightarrow> cron_transaction \<Rightarrow> string + transaction_to_send" where
  "build_transaction_to_send cp fresh t =
     and_then (map_err (\<lambda>e. ''invalid value: '' @ e) (cron_value cp t)) (\<lambda>v.
     and_then (cron_data cp t) (\<lambda>d.
       Inr (new_transaction_to_send fresh (ct_to t) v d (ct_speed t) None (ct_external_id t))))"

section \<open>Validation\<close>

definition validate_cron_data :: "cron_params \<Rightarrow> cron_job \<Rightarrow> string + unit" where
  "validate_cron_data cp j =
     (let t = cj_transaction j; job = ''cron job '' @ cj_name j
      in and_then (opt_ok (\<lambda>d. map_err (\<lambda>e. job @ '' has invalid transaction.data: '' @ e)
                       (and_then (raw_hex d) (\<lambda>_. Inr ()))) (ct_data t)) (\<lambda>_.
         and_then (opt_ok (\<lambda>v. map_err (\<lambda>e. job @ '' has invalid transaction.value: '' @ e)
                       (and_then (cp_value cp v) (\<lambda>_. Inr ()))) (ct_value t)) (\<lambda>_.
           opt_ok (\<lambda>c.
             if trim (cc_function c) = [] then Inl (job @ '' contract.function cannot be empty'')
             else and_then (map_err (\<lambda>e. job @ '' has invalid contract.function: '' @ e)
                              (cp_function cp (cc_function c))) (\<lambda>inputs.
                    if length inputs \<noteq> length (cc_args c)
                    then Inl (job @ '' contract.'' @ arity_error (length inputs) (length (cc_args c)))
                    else Inr ())) (ct_contract t))))"

definition validate_cron_job :: "cron_params \<Rightarrow> network_setup list \<Rightarrow> cron_job \<Rightarrow> string + unit" where
  "validate_cron_job cp ns j =
     (let t = cj_transaction j; job = ''cron job '' @ cj_name j
      in if trim (cj_name j) = [] then Inl ''cron job name cannot be empty''
         else if trim (cj_network j) = [] then Inl (job @ '' network cannot be empty'')
         else if \<not> list_ex (\<lambda>n. ns_name n = cj_network j) ns
         then Inl (job @ '' references unknown network '' @ cj_network j)
         else if aom_is_empty (cj_relayers j) then Inl (job @ '' relayers cannot be empty'')
         else and_then (map_err (\<lambda>e. job @ '' has invalid schedule.every: '' @ e)
                          (parse_cron_job_interval (cj_every j))) (\<lambda>_.
           if ct_data t \<noteq> None \<and> ct_contract t \<noteq> None
           then Inl (job @ '' must define either transaction.data or transaction.contract, not both'')
           else if ct_data t = None \<and> ct_contract t = None
           then Inl (job @ '' must define transaction.data or transaction.contract'')
           else validate_cron_data cp j))"

fun validate_cron_jobs ::
  "cron_params \<Rightarrow> network_setup list \<Rightarrow> string list \<Rightarrow> cron_job list \<Rightarrow> read_yaml_error + unit" where
  "validate_cron_jobs cp ns seen [] = Inr ()"
| "validate_cron_jobs cp ns seen (j # js) =
     and_then (map_err CronJobYamlError (validate_cron_job cp ns j)) (\<lambda>_.
       if cj_name j \<in> set seen
       then Inl (CronJobYamlError (''cron job name '' @ cj_name j @ '' is used more than once''))
       else validate_cron_jobs cp ns (cj_name j # seen) js)"

section \<open>The schedule\<close>

text \<open>
  When each job of each project last ran. Durations are nanoseconds; the dates of the model are
  unbounded.
\<close>

type_synonym cron_state = "string \<times> string \<rightharpoonup> instant"

text \<open>\<open>read\<close> says whether the query is answered; an anchor that cannot be written is only logged.\<close>

definition next_cron_job_delay ::
  "string \<Rightarrow> cron_job \<Rightarrow> db_error + unit \<Rightarrow> db_error + unit \<Rightarrow> instant \<Rightarrow> nat \<Rightarrow> cron_state \<Rightarrow>
   cron_state \<times> nat" where
  "next_cron_job_delay project j read mark now interval cs =
     (case read of
        Inl e \<Rightarrow> (cs, interval)
      | Inr _ \<Rightarrow>
          (case cs (project, cj_name j) of
             Some prior \<Rightarrow>
               (cs, if prior + int interval \<le> now then 0 else nat (prior + int interval - now))
           | None \<Rightarrow>
               if unwrap_or_default (cj_run_on_startup j) then (cs, 0)
               else ((case mark of Inl e \<Rightarrow> cs | Inr _ \<Rightarrow> cs((project, cj_name j) \<mapsto> now)), interval)))"

section \<open>A run\<close>

definition cron_permission_ok ::
  "cron_params \<Rightarrow> cron_transaction \<Rightarrow> network_permissions \<Rightarrow> string + unit" where
  "cron_permission_ok cp t p =
     (if unwrap_or_default (np_disable_transactions p) then Inl ''relayer has transactions disabled''
      else if unwrap_or_default (np_disable_native_transfer p) \<and>
              (case cron_value cp t of Inl e \<Rightarrow> False | Inr v \<Rightarrow> v \<noteq> 0)
      then Inl ''relayer has native transfers disabled''
      else if np_allowlist p \<noteq> [] \<and> ct_to t \<notin> set (np_allowlist p)
      then Inl (''relayer is not allowed to send transactions to '' @ cp_show_address cp (ct_to t))
      else Inr ())"

definition validate_cron_job_transaction_permissions ::
  "cron_params \<Rightarrow> network_setup list \<Rightarrow> cron_job \<Rightarrow> relayer \<Rightarrow> string + unit" where
  "validate_cron_job_transaction_permissions cp ns j r =
     (case find (\<lambda>n. ns_chain_id n = rl_chain_id r) ns of
        None \<Rightarrow> Inr ()
      | Some n \<Rightarrow>
          (case ns_permissions n of
             None \<Rightarrow> Inr ()
           | Some ps \<Rightarrow>
               all_ok (cron_permission_ok cp (cj_transaction j))
                 (filter (\<lambda>p. aom_contains (np_relayers p) (rl_address r)) ps)))"

definition chain_internal_only :: "network_setup list \<Rightarrow> chain_id \<Rightarrow> evm_address list" where
  "chain_internal_only ns c =
     concat (map (\<lambda>n. map tc_relayer (filter top_up_internal_only (top_ups n)))
              (filter (\<lambda>n. ns_chain_id n = c) ns))"

definition cron_candidates ::
  "cron_params \<Rightarrow> network_setup list \<Rightarrow> cron_job \<Rightarrow> chain_id \<Rightarrow> relayer list \<Rightarrow> relayer list" where
  "cron_candidates cp ns j c rs =
     filter (\<lambda>r. \<not> rl_paused r \<and> rl_address r \<notin> set (chain_internal_only ns c) \<and>
                 aom_contains (cj_relayers j) (rl_address r) \<and>
                 is_ok (validate_cron_job_transaction_permissions cp ns j r)) rs"

text \<open>\<open>pick\<close> is the random choice: the first of the shuffled candidates.\<close>

definition select_cron_job_relayer ::
  "cron_params \<Rightarrow> network_setup list \<Rightarrow> (chain_id \<Rightarrow> db_error + relayer list) \<Rightarrow> (nat \<Rightarrow> nat) \<Rightarrow>
   cron_job \<Rightarrow> string + relayer" where
  "select_cron_job_relayer cp ns found pick j =
     (case find (\<lambda>n. ns_name n = cj_network j) ns of
        None \<Rightarrow> Inl (''network '' @ cj_network j @ '' is not configured'')
      | Some n \<Rightarrow>
          and_then (map_err (cp_show_db cp) (found (ns_chain_id n))) (\<lambda>rs.
            let available = cron_candidates cp ns j (ns_chain_id n) rs
            in if available = []
               then Inl (''no available relayers found for network '' @ cj_network j @
                         '' matching cron job relayers filter and permissions'')
               else Inr (available ! (pick (length available) mod length available))))"

record cron_env =
  ce_relayers :: "chain_id \<Rightarrow> db_error + relayer list"
  ce_pick :: "nat \<Rightarrow> nat"
  ce_fresh_id :: transaction_id
  ce_add :: add_transaction_env
  ce_mark :: "db_error + unit"
  ce_now :: instant

text \<open>The run is marked when the queue returned a transaction, an old one included.\<close>

definition enqueue_cron_job_transaction ::
  "crypto \<Rightarrow> admission_params \<Rightarrow> cron_params \<Rightarrow> string \<Rightarrow> network_setup list \<Rightarrow> cron_env \<Rightarrow> cron_job \<Rightarrow>
   sys \<times> cron_state \<Rightarrow> sys \<times> cron_state" where
  "enqueue_cron_job_transaction cy ap cp project ns env j st =
     (case st of (s, cs) \<Rightarrow>
       (case and_then (select_cron_job_relayer cp ns (ce_relayers env) (ce_pick env) j) (\<lambda>r.
               and_then (build_transaction_to_send cp (ce_fresh_id env) (cj_transaction j)) (\<lambda>tts.
                 Inr (r, tts))) of
          Inl e \<Rightarrow> (s, cs)
        | Inr (r, tts) \<Rightarrow>
            (case add_transaction cy ap (ce_add env) (rl_id r) tts s of
               (s', Inl e) \<Rightarrow> (s', cs)
             | (s', Inr t) \<Rightarrow>
                 (s', case ce_mark env of
                        Inl e \<Rightarrow> cs
                      | Inr _ \<Rightarrow> cs((project, cj_name j) \<mapsto> ce_now env)))))"

text \<open>
  The life of a job as a list of runs, one for each interval that passes without a shutdown; a job whose
  interval does not parse never starts.
\<close>

definition run_cron_job ::
  "crypto \<Rightarrow> admission_params \<Rightarrow> cron_params \<Rightarrow> string \<Rightarrow> network_setup list \<Rightarrow> db_error + unit \<Rightarrow>
   db_error + unit \<Rightarrow> instant \<Rightarrow> cron_env list \<Rightarrow> cron_job \<Rightarrow> sys \<times> cron_state \<Rightarrow> sys \<times> cron_state" where
  "run_cron_job cy ap cp project ns read mark now envs j st =
     (case parse_cron_job_interval (cj_every j) of
        Inl e \<Rightarrow> st
      | Inr secs \<Rightarrow>
          (case next_cron_job_delay project j read mark now (unat secs * 1000000000) (snd st) of
             (cs, delay) \<Rightarrow>
               fold (\<lambda>env. enqueue_cron_job_transaction cy ap cp project ns env j) envs (fst st, cs)))"

end
