(* ===== verification/Cron_Properties.thy ===== *)
theory Cron_Properties
  imports Cron_Jobs Request_Properties Top_Up_Properties
begin

text \<open>
  Properties of the scheduled transactions: a run submits only what the configuration of the relayer it
  chose permits, and a job whose transaction carries an external id is executed once.
\<close>

section \<open>Permissions\<close>

text \<open>A native transfer that parses is refused by the same rule as a submission through the API.\<close>

lemma cron_permission_iff:
  assumes "cron_value cp t = Inr v"
  shows "(cron_permission_ok cp t p = Inr ()) = transfer_allowed (ct_to t) v p"
  by (auto simp: cron_permission_ok_def transfer_allowed_def unwrap_or_default_def assms split: option.splits)

definition network_permissions_of :: "network_setup list \<Rightarrow> relayer \<Rightarrow> network_permissions list" where
  "network_permissions_of ns r =
     (case find (\<lambda>n. ns_chain_id n = rl_chain_id r) ns of
        None \<Rightarrow> []
      | Some n \<Rightarrow> (case ns_permissions n of
                     None \<Rightarrow> []
                   | Some ps \<Rightarrow> filter (\<lambda>p. aom_contains (np_relayers p) (rl_address r)) ps))"

lemma cron_permissions_iff:
  assumes "cron_value cp (cj_transaction j) = Inr v"
  shows "(validate_cron_job_transaction_permissions cp ns j r = Inr ()) =
     (\<forall>p \<in> set (network_permissions_of ns r). transfer_allowed (ct_to (cj_transaction j)) v p)"
  by (auto simp: validate_cron_job_transaction_permissions_def network_permissions_of_def all_ok_iff
      cron_permission_iff [OF assms] split: option.splits)

lemma select_SomeD:
  assumes "select_cron_job_relayer cp ns found pick j = Inr r"
  shows "\<exists>n rs. find (\<lambda>n. ns_name n = cj_network j) ns = Some n \<and> found (ns_chain_id n) = Inr rs \<and>
     r \<in> set (cron_candidates cp ns j (ns_chain_id n) rs)"
  using assms
  by (auto simp: select_cron_job_relayer_def and_then_Inr Let_def
      split: option.splits if_splits sum.splits)

lemma build_SomeD:
  assumes "build_transaction_to_send cp i t = Inr tts"
  shows "\<exists>v d. cron_value cp t = Inr v \<and> cron_data cp t = Inr d \<and>
     tts = new_transaction_to_send i (ct_to t) v d (ct_speed t) None (ct_external_id t)"
  using assms by (auto simp: build_transaction_to_send_def and_then_Inr split: sum.splits)

lemma enqueue_cases:
  obtains (refused) "enqueue_cron_job_transaction cy ap cp project ns env j (s, cs) = (s, cs)"
  | (submitted) r tts where "select_cron_job_relayer cp ns (ce_relayers env) (ce_pick env) j = Inr r"
      "build_transaction_to_send cp (ce_fresh_id env) (cj_transaction j) = Inr tts"
      "fst (enqueue_cron_job_transaction cy ap cp project ns env j (s, cs)) =
         fst (add_transaction cy ap (ce_add env) (rl_id r) tts s)"
      "snd (enqueue_cron_job_transaction cy ap cp project ns env j (s, cs)) =
         (if is_ok (snd (add_transaction cy ap (ce_add env) (rl_id r) tts s)) \<and> is_ok (ce_mark env)
          then cs((project, cj_name j) \<mapsto> ce_now env) else cs)"
proof (cases "select_cron_job_relayer cp ns (ce_relayers env) (ce_pick env) j")
  case (Inl e)
  then show ?thesis by (intro refused) (simp add: enqueue_cron_job_transaction_def)
next
  case sel: (Inr r)
  show ?thesis
  proof (cases "build_transaction_to_send cp (ce_fresh_id env) (cj_transaction j)")
    case (Inl e)
    with sel show ?thesis by (intro refused) (simp add: enqueue_cron_job_transaction_def)
  next
    case (Inr tts)
    obtain s' res where a: "add_transaction cy ap (ce_add env) (rl_id r) tts s = (s', res)" by force
    from sel Inr a show ?thesis
      by (intro submitted [of r tts])
         (simp_all add: enqueue_cron_job_transaction_def is_ok_def split: sum.splits)
  qed
qed

text \<open>C28: A run of a scheduled job changes the system only by submitting the configured transaction
  (target, parsed value and data) through a relayer of the job's network that is not paused, not kept for
  top-ups, within the job's own filter, and for which every permission entry that covers it allows
  transactions, the target and the value.\<close>

theorem cron_run_permitted:
  assumes "fst (enqueue_cron_job_transaction cy ap cp project ns env j (s, cs)) \<noteq> s"
  shows "\<exists>n rs r v d. find (\<lambda>n. ns_name n = cj_network j) ns = Some n
    \<and> ce_relayers env (ns_chain_id n) = Inr rs \<and> r \<in> set rs \<and> \<not> rl_paused r
    \<and> rl_address r \<notin> set (chain_internal_only ns (ns_chain_id n))
    \<and> aom_contains (cj_relayers j) (rl_address r)
    \<and> cron_value cp (cj_transaction j) = Inr v \<and> cron_data cp (cj_transaction j) = Inr d
    \<and> (\<forall>p \<in> set (network_permissions_of ns r). transfer_allowed (ct_to (cj_transaction j)) v p)
    \<and> fst (enqueue_cron_job_transaction cy ap cp project ns env j (s, cs)) =
        fst (add_transaction cy ap (ce_add env) (rl_id r)
          (new_transaction_to_send (ce_fresh_id env) (ct_to (cj_transaction j)) v d
             (ct_speed (cj_transaction j)) None (ct_external_id (cj_transaction j))) s)"
proof (cases rule: enqueue_cases [of cy ap cp project ns env j s cs])
  case (submitted r tts)
  obtain n rs where n: "find (\<lambda>n. ns_name n = cj_network j) ns = Some n" "ce_relayers env (ns_chain_id n) = Inr rs"
    "r \<in> set (cron_candidates cp ns j (ns_chain_id n) rs)"
    using select_SomeD [OF submitted(1)] by blast
  obtain v d where v: "cron_value cp (cj_transaction j) = Inr v" "cron_data cp (cj_transaction j) = Inr d"
    "tts = new_transaction_to_send (ce_fresh_id env) (ct_to (cj_transaction j)) v d
       (ct_speed (cj_transaction j)) None (ct_external_id (cj_transaction j))"
    using build_SomeD [OF submitted(2)] by blast
  from n(3) have r: "r \<in> set rs" "\<not> rl_paused r" "rl_address r \<notin> set (chain_internal_only ns (ns_chain_id n))"
    "aom_contains (cj_relayers j) (rl_address r)"
    "validate_cron_job_transaction_permissions cp ns j r = Inr ()"
    by (auto simp: cron_candidates_def is_ok_def split: sum.splits)
  with n v submitted(3) show ?thesis
    by (intro exI [of _ n] exI [of _ rs] exI [of _ r] exI [of _ v] exI [of _ d])
       (simp add: cron_permissions_iff [OF v(1), symmetric])
qed (use assms in simp)

definition ex_network :: network_setup where
  "ex_network = \<lparr> ns_name = ''mainnet'', ns_chain_id = 1, ns_signing_provider = None, ns_provider_urls = [],
     ns_automatic_top_up = None, ns_permissions = Some [ex_permissions\<lparr> np_ip_allowlist := None \<rparr>],
     ns_api_keys = None, ns_enable_sending_blobs = None, ns_allowed_random_relayers = None \<rparr>"

definition ex_cron_params :: cron_params where
  "ex_cron_params = \<lparr> cp_value = (\<lambda>s. if s = ''5'' then Inr 5 else Inr 0), cp_function = (\<lambda>s. Inr []),
     cp_coerce = (\<lambda>t a. Inr []), cp_encode = (\<lambda>f vs. Inr []), cp_show_address = (\<lambda>a. ''0x''),
     cp_show_db = (\<lambda>e. ''db'') \<rparr>"

definition ex_cron_job :: cron_job where
  "ex_cron_job = \<lparr> cj_name = ''heartbeat'', cj_enabled = True, cj_network = ''mainnet'', cj_relayers = AoAll,
     cj_every = ''5m'', cj_run_on_startup = Some True,
     cj_transaction = \<lparr> ct_to = 99, ct_value = Some ''5'', ct_speed = None, ct_external_id = Some ''beat'',
       ct_data = Some ''0x12aB'', ct_contract = None \<rparr> \<rparr>"

definition ex_cron_env :: "transaction_id \<Rightarrow> cron_env" where
  "ex_cron_env i = \<lparr> ce_relayers = (\<lambda>c. Inr [ex_relayer\<lparr> rl_id := 6, rl_paused := True \<rparr>, ex_relayer]),
     ce_pick = (\<lambda>n. 3), ce_fresh_id = i, ce_add = ex_add_env, ce_mark = Inr (), ce_now = 40 \<rparr>"

text \<open>The first run queues a transaction.\<close>

lemma ex_cron_run:
  "length (db_rows (s_db (fst (enqueue_cron_job_transaction ex_crypto ex_ap ex_cron_params ''p'' [ex_network]
     (ex_cron_env 11) ex_cron_job (ex_start, Map.empty))))) \<noteq> length (db_rows (s_db ex_start))"
  by code_simp

theorem cron_run_permitted_witness:
  "\<exists>n rs r v d. find (\<lambda>n. ns_name n = cj_network ex_cron_job) [ex_network] = Some n
    \<and> ce_relayers (ex_cron_env 11) (ns_chain_id n) = Inr rs \<and> r \<in> set rs \<and> \<not> rl_paused r
    \<and> rl_address r \<notin> set (chain_internal_only [ex_network] (ns_chain_id n))
    \<and> aom_contains (cj_relayers ex_cron_job) (rl_address r)
    \<and> cron_value ex_cron_params (cj_transaction ex_cron_job) = Inr v
    \<and> cron_data ex_cron_params (cj_transaction ex_cron_job) = Inr d
    \<and> (\<forall>p \<in> set (network_permissions_of [ex_network] r). transfer_allowed (ct_to (cj_transaction ex_cron_job)) v p)
    \<and> fst (enqueue_cron_job_transaction ex_crypto ex_ap ex_cron_params ''p'' [ex_network] (ex_cron_env 11)
          ex_cron_job (ex_start, Map.empty)) =
        fst (add_transaction ex_crypto ex_ap (ce_add (ex_cron_env 11)) (rl_id r)
          (new_transaction_to_send (ce_fresh_id (ex_cron_env 11)) (ct_to (cj_transaction ex_cron_job)) v d
             (ct_speed (cj_transaction ex_cron_job)) None (ct_external_id (cj_transaction ex_cron_job))) ex_start)"
proof (rule cron_run_permitted)
  show "fst (enqueue_cron_job_transaction ex_crypto ex_ap ex_cron_params ''p'' [ex_network] (ex_cron_env 11)
      ex_cron_job (ex_start, Map.empty)) \<noteq> ex_start"
    using ex_cron_run by metis
qed

section \<open>Named jobs\<close>

text \<open>
  A job whose transaction has an external id runs once for each relayer: as soon as a row carries the
  name, every further run through that relayer leaves the system as it is, and is marked as run when the
  stored request is the same.
\<close>

lemma named_job_runs_once:
  assumes "ct_external_id (cj_transaction j) = Some x"
    and "\<And>r. select_cron_job_relayer cp ns (ce_relayers env) (ce_pick env) j = Inr r \<Longrightarrow> recorded (rl_id r) x (s_db s)"
    and "ae_find_fault (ce_add env) = None"
  shows "fst (enqueue_cron_job_transaction cy ap cp project ns env j (s, cs)) = s"
proof (cases rule: enqueue_cases [of cy ap cp project ns env j s cs])
  case (submitted r tts)
  have "tts_external_id tts = Some x"
    using build_SomeD [OF submitted(2)] assms(1) by (auto simp: new_transaction_to_send_def)
  with assms(2) [OF submitted(1)] assms(3) submitted(3) show ?thesis by (simp add: add_transaction_known)
qed simp

section \<open>Validation\<close>

lemma validate_names_distinct:
  "validate_cron_jobs cp ns seen js = Inr () \<Longrightarrow>
     distinct (map cj_name js) \<and> set (map cj_name js) \<inter> set seen = {}"
  by (induction js arbitrary: seen) (fastforce simp: and_then_Inr split: if_splits)+

text \<open>A job that passed the validation has an interval, a network and one kind of payload.\<close>

lemma validated_job:
  assumes "validate_cron_job cp ns j = Inr ()"
  shows "(\<exists>n \<in> set ns. ns_name n = cj_network j) \<and> is_ok (parse_cron_job_interval (cj_every j)) \<and>
    ((ct_data (cj_transaction j) = None) \<noteq> (ct_contract (cj_transaction j) = None))"
  using assms
  by (auto simp: validate_cron_job_def Let_def and_then_Inr list_ex_iff is_ok_def
      split: if_splits sum.splits)

end
