(* ===== verification/Shutdown.thy ===== *)
theory Shutdown
  imports Prelude
begin

text \<open>
  The shutdown coordinator (shutdown.rs): the count of critical operations, the flag that refuses new
  ones, and the caller of \<open>request_shutdown\<close> that waits for the count to reach zero or for its timeout.
  Each atomic access is a step of its own, so the runs interleave as the threads do; the memory is
  sequentially consistent. \<open>tokio::sync::Notify\<close> wakes the waiters that are registered when it is called.
\<close>

section \<open>State\<close>

text \<open>
  Where a thread is: it has passed the check of the flag, it is counted and holds its guard, or it has
  taken the count to zero and is about to notify.
\<close>

datatype phase = Idle | Admitted | Running | Signalling

text \<open>Where the caller of \<open>request_shutdown\<close> is: about to load the count, about to register, registered.\<close>

datatype waiter = NoRequest | Loading | Arming | Waiting | Reported bool

record coordinator =
  co_active_operations :: u64
  co_shutdown_requested :: bool
  co_waiter :: waiter
  co_threads :: "phase list"

definition new_coordinator :: "nat \<Rightarrow> coordinator" where
  "new_coordinator n =
     \<lparr> co_active_operations = 0, co_shutdown_requested = False, co_waiter = NoRequest,
       co_threads = replicate n Idle \<rparr>"

section \<open>Atomic accesses\<close>

definition set_phase :: "nat \<Rightarrow> phase \<Rightarrow> coordinator \<Rightarrow> coordinator" where
  "set_phase i p c = c\<lparr> co_threads := (co_threads c)[i := p] \<rparr>"

text \<open>\<open>enter_operation\<close> loads the flag and later adds to the count.\<close>

definition enter_operation_check :: "nat \<Rightarrow> coordinator \<Rightarrow> coordinator" where
  "enter_operation_check i c = (if co_shutdown_requested c then c else set_phase i Admitted c)"

definition enter_operation_count :: "nat \<Rightarrow> coordinator \<Rightarrow> coordinator" where
  "enter_operation_count i c =
     (set_phase i Running c)\<lparr> co_active_operations := co_active_operations c + 1 \<rparr>"

text \<open>\<open>exit_operation\<close>: the last one to leave notifies.\<close>

definition exit_operation_count :: "nat \<Rightarrow> coordinator \<Rightarrow> coordinator" where
  "exit_operation_count i c =
     (set_phase i (if co_active_operations c = 1 then Signalling else Idle) c)
       \<lparr> co_active_operations := co_active_operations c - 1 \<rparr>"

definition notify_waiters :: "nat \<Rightarrow> coordinator \<Rightarrow> coordinator" where
  "notify_waiters i c =
     (set_phase i Idle c)\<lparr> co_waiter := (if co_waiter c = Waiting then Loading else co_waiter c) \<rparr>"

definition request_shutdown :: "coordinator \<Rightarrow> coordinator" where
  "request_shutdown c = c\<lparr> co_shutdown_requested := True, co_waiter := Loading \<rparr>"

definition wait_load :: "coordinator \<Rightarrow> coordinator" where
  "wait_load c = c\<lparr> co_waiter := (if 0 < co_active_operations c then Arming else Reported True) \<rparr>"

definition wait_register :: "coordinator \<Rightarrow> coordinator" where
  "wait_register c = c\<lparr> co_waiter := Waiting \<rparr>"

definition shutdown_timeout :: "coordinator \<Rightarrow> coordinator" where
  "shutdown_timeout c = c\<lparr> co_waiter := Reported False \<rparr>"

section \<open>Steps\<close>

text \<open>The timeout is seen between two polls of the wait, never between its load and its registration.\<close>

inductive co_step :: "coordinator \<Rightarrow> coordinator \<Rightarrow> bool" where
  Check: "i < length (co_threads c) \<Longrightarrow> co_threads c ! i = Idle \<Longrightarrow> \<not> co_shutdown_requested c \<Longrightarrow>
     co_step c (enter_operation_check i c)"
| Enter: "i < length (co_threads c) \<Longrightarrow> co_threads c ! i = Admitted \<Longrightarrow> co_step c (enter_operation_count i c)"
| Exit: "i < length (co_threads c) \<Longrightarrow> co_threads c ! i = Running \<Longrightarrow> co_step c (exit_operation_count i c)"
| Notify: "i < length (co_threads c) \<Longrightarrow> co_threads c ! i = Signalling \<Longrightarrow> co_step c (notify_waiters i c)"
| Request: "co_waiter c = NoRequest \<Longrightarrow> co_step c (request_shutdown c)"
| Load: "co_waiter c = Loading \<Longrightarrow> co_step c (wait_load c)"
| Register: "co_waiter c = Arming \<Longrightarrow> co_step c (wait_register c)"
| Timeout: "co_waiter c = Loading \<or> co_waiter c = Waiting \<Longrightarrow> co_step c (shutdown_timeout c)"

inductive_cases co_stepE: "co_step c c'"

inductive co_run :: "nat \<Rightarrow> coordinator \<Rightarrow> coordinator \<Rightarrow> bool" where
  Stop: "co_run 0 c c"
| Go: "co_run k c c' \<Longrightarrow> co_step c' c'' \<Longrightarrow> co_run (Suc k) c c''"

lemmas co_accesses = enter_operation_check_def enter_operation_count_def exit_operation_count_def
  notify_waiters_def request_shutdown_def wait_load_def wait_register_def shutdown_timeout_def set_phase_def

section \<open>Counting\<close>

text \<open>How many threads hold a guard, and the steps that are left of a run.\<close>

definition running :: "coordinator \<Rightarrow> nat" where
  "running c = length (filter (\<lambda>p. p = Running) (co_threads c))"

definition phase_work :: "phase \<Rightarrow> nat" where
  "phase_work p = (case p of Idle \<Rightarrow> 0 | Signalling \<Rightarrow> 3 | Running \<Rightarrow> 4 | Admitted \<Rightarrow> 5)"

definition waiter_work :: "waiter \<Rightarrow> nat" where
  "waiter_work w = (case w of NoRequest \<Rightarrow> 3 | Loading \<Rightarrow> 3 | Arming \<Rightarrow> 2 | Waiting \<Rightarrow> 1 | Reported b \<Rightarrow> 0)"

definition work_left :: "coordinator \<Rightarrow> nat" where
  "work_left c = sum_list (map phase_work (co_threads c)) + waiter_work (co_waiter c)"

lemma sum_list_update:
  "i < length xs \<Longrightarrow> sum_list (map f (xs[i := x])) + f (xs ! i) = sum_list (map f xs) + (f x :: nat)"
  by (induction xs arbitrary: i) (auto split: nat.splits)

lemma filter_length_update:
  "i < length xs \<Longrightarrow> length (filter P (xs[i := x])) + (if P (xs ! i) then 1 else 0) =
     length (filter P xs) + (if P x then 1 else 0)"
proof (induction xs arbitrary: i)
  case (Cons y ys)
  then show ?case by (cases i) (force simp: Cons.IH dest: Cons.IH)+
qed simp

lemma running_set_phase:
  "i < length (co_threads c) \<Longrightarrow> running (set_phase i p c) + (if co_threads c ! i = Running then 1 else 0) =
     running c + (if p = Running then 1 else 0)"
  using filter_length_update [of i "co_threads c" "\<lambda>p. p = Running" p] by (simp add: running_def set_phase_def)

lemma running_bound: "running c \<le> length (co_threads c)"
  by (simp add: running_def)

lemma running_0_iff: "running c = 0 \<longleftrightarrow> Running \<notin> set (co_threads c)"
  by (auto simp: running_def filter_empty_conv)

text \<open>The count is the number of guards, and the flag is up once a shutdown is requested.\<close>

definition co_ok :: "coordinator \<Rightarrow> bool" where
  "co_ok c \<longleftrightarrow> length (co_threads c) < 2 ^ 64 \<and> unat (co_active_operations c) = running c \<and>
     (co_shutdown_requested c = (co_waiter c \<noteq> NoRequest))"

lemma new_coordinator_ok: "n < 2 ^ 64 \<Longrightarrow> co_ok (new_coordinator n)"
  by (simp add: co_ok_def new_coordinator_def running_def)

lemma co_step_ok:
  assumes "co_step c c'" "co_ok c"
  shows "co_ok c'"
  using assms(1)
proof (cases rule: co_step.cases)
  case (Enter i)
  then have r: "running (set_phase i Running c) = running c + 1"
    using running_set_phase [of i c Running] by simp
  have "running c + 1 < 2 ^ 64"
    using r running_bound [of "set_phase i Running c"] assms(2) by (simp add: co_ok_def set_phase_def)
  then have "unat (co_active_operations c + 1) = running c + 1"
    using assms(2) by (simp add: co_ok_def unat_add_lem [THEN iffD1])
  with r show ?thesis
    using assms(2) Enter by (simp add: co_ok_def enter_operation_count_def running_def set_phase_def)
next
  case (Exit i)
  define p where "p = (if co_active_operations c = 1 then Signalling else Idle)"
  have "p \<noteq> Running" by (simp add: p_def)
  with Exit have r: "running (set_phase i p c) + 1 = running c"
    using running_set_phase [of i c p] by simp
  then have "co_active_operations c \<noteq> 0" using assms(2) by (auto simp: co_ok_def)
  with r show ?thesis
    using assms(2) Exit
    by (simp add: co_ok_def exit_operation_count_def running_def set_phase_def unat_minus_one flip: p_def)
next
  case (Check i)
  then show ?thesis
    using assms(2) running_set_phase [of i c Admitted]
    by (simp add: co_ok_def enter_operation_check_def running_def set_phase_def)
next
  case (Notify i)
  then show ?thesis
    using assms(2) running_set_phase [of i c Idle]
    by (auto simp: co_ok_def notify_waiters_def running_def set_phase_def)
qed (use assms(2) in \<open>auto simp: co_ok_def co_accesses running_def\<close>)

lemma co_run_ok: "co_run k c c' \<Longrightarrow> co_ok c \<Longrightarrow> co_ok c'"
  by (induction rule: co_run.induct) (auto intro: co_step_ok)

lemma no_operation_iff: "co_ok c \<Longrightarrow> co_active_operations c = 0 \<longleftrightarrow> Running \<notin> set (co_threads c)"
  by (metis co_ok_def running_0_iff unat_eq_0)

section \<open>A report of completion\<close>

text \<open>Nobody is between the check of the flag and the count, and a report of success found no guard.\<close>

definition drained :: "coordinator \<Rightarrow> bool" where
  "drained c \<longleftrightarrow> co_shutdown_requested c \<and> Admitted \<notin> set (co_threads c) \<and>
     (co_waiter c = Reported True \<longrightarrow> Running \<notin> set (co_threads c))"

lemma co_step_drained:
  assumes "co_step c c'" "co_ok c" "drained c"
  shows "drained c'"
  using assms(1)
  by (cases rule: co_step.cases)
     (use assms(2,3) no_operation_iff [OF assms(2)] in
       \<open>auto simp: drained_def co_accesses word_gt_0 dest!: set_update_subset_insert [THEN subsetD] nth_mem split: if_splits\<close>)

lemma co_run_drained: "co_run k c c' \<Longrightarrow> co_ok c \<Longrightarrow> drained c \<Longrightarrow> drained c'"
  by (induction rule: co_run.induct) (auto intro: co_step_drained co_run_ok)

lemma co_step_work:
  assumes "co_step c c'" "co_ok c" "co_shutdown_requested c"
  shows "work_left c' < work_left c \<and> co_shutdown_requested c'"
  using assms(1)
proof (cases rule: co_step.cases)
  case (Enter i)
  then show ?thesis
    using assms(3) sum_list_update [of i "co_threads c" phase_work Running]
    by (simp add: work_left_def enter_operation_count_def set_phase_def phase_work_def)
next
  case (Exit i)
  then show ?thesis
    using assms(3) sum_list_update [of i "co_threads c" phase_work "if co_active_operations c = 1 then Signalling else Idle"]
    by (simp add: work_left_def exit_operation_count_def set_phase_def phase_work_def split: if_splits)
next
  case (Notify i)
  then show ?thesis
    using assms(3) sum_list_update [of i "co_threads c" phase_work Idle]
    by (simp add: work_left_def notify_waiters_def set_phase_def phase_work_def waiter_work_def split: waiter.splits)
qed (use assms(2,3) in \<open>auto simp: co_ok_def co_accesses work_left_def waiter_work_def\<close>)

lemma co_run_work:
  "co_run k c c' \<Longrightarrow> co_ok c \<Longrightarrow> co_shutdown_requested c \<Longrightarrow>
     co_shutdown_requested c' \<and> k + work_left c' \<le> work_left c"
proof (induction rule: co_run.induct)
  case (Go k c c' c'')
  with co_step_work [OF Go.hyps(2)] co_run_ok [OF Go.hyps(1)] show ?case by fastforce
qed simp

lemma work_left_bound: "work_left c \<le> 5 * length (co_threads c) + 3"
proof -
  have "sum_list (map phase_work ps) \<le> 5 * length ps" for ps
    by (induction ps) (auto simp: phase_work_def split: phase.splits)
  then have "sum_list (map phase_work (co_threads c)) \<le> 5 * length (co_threads c)" .
  moreover have "waiter_work (co_waiter c) \<le> 3" by (simp add: waiter_work_def split: waiter.splits)
  ultimately show ?thesis by (simp add: work_left_def)
qed

lemma stuck_reported:
  assumes "\<And>c'. \<not> co_step c c'" "co_ok c" "co_shutdown_requested c"
  shows "\<exists>b. co_waiter c = Reported b"
  using assms co_step.Load [of c] co_step.Register [of c] co_step.Timeout [of c]
  by (cases "co_waiter c") (auto simp: co_ok_def)

end
