(* ===== verification/Shutdown_Properties.thy ===== *)
theory Shutdown_Properties
  imports Shutdown
begin

text \<open>
  Properties of the shutdown coordinator: every requested shutdown ends with a report, the report is right
  when nobody was about to be counted at the request, and the two races that are left.
\<close>

lemma report_stays:
  "co_step c c' \<Longrightarrow> co_waiter c = Reported b \<Longrightarrow> co_waiter c' = Reported b"
  by (auto elim!: co_stepE simp: co_accesses)

lemma report_stays_run: "co_run k c c' \<Longrightarrow> co_waiter c = Reported b \<Longrightarrow> co_waiter c' = Reported b"
  by (induction rule: co_run.induct) (auto intro: report_stays)

text \<open>C29: If no thread is between the check of the flag and the count when a shutdown is under way, then a
  report that all operations are complete is right: no critical operation runs when it is given, and none
  ever runs after it.\<close>

theorem shutdown_report_sound:
  assumes "n < 2 ^ 64" "co_run k (new_coordinator n) c"
    and "co_shutdown_requested c" "Admitted \<notin> set (co_threads c)" "\<forall>b. co_waiter c \<noteq> Reported b"
    and "co_run m c c'" "co_waiter c' = Reported True" "co_run j c' c''"
  shows "Running \<notin> set (co_threads c') \<and> Running \<notin> set (co_threads c'')"
proof -
  have ok: "co_ok c" using co_run_ok [OF assms(2) new_coordinator_ok] assms(1) .
  have "drained c" using assms(3-5) by (simp add: drained_def)
  then have d: "drained c'" using co_run_drained [OF assms(6) ok] by blast
  then have "drained c''" using co_run_drained [OF assms(8) co_run_ok [OF assms(6) ok]] by blast
  with d assms(7) report_stays_run [OF assms(8)] show ?thesis by (auto simp: drained_def)
qed

section \<open>Runs of one thread\<close>

abbreviation co_state :: "u64 \<Rightarrow> bool \<Rightarrow> waiter \<Rightarrow> phase \<Rightarrow> coordinator" where
  "co_state a r w p \<equiv>
     \<lparr> co_active_operations = a, co_shutdown_requested = r, co_waiter = w, co_threads = [p] \<rparr>"

lemma co_go: "co_run k c c' \<Longrightarrow> co_step c' d \<Longrightarrow> d = c'' \<Longrightarrow> k' = Suc k \<Longrightarrow> co_run k' c c''"
  by (auto intro: co_run.Go)

lemma one_checked: "co_run 1 (new_coordinator 1) (co_state 0 False NoRequest Admitted)"
  by (rule co_go [OF Stop co_step.Check [of 0]]) (simp_all add: new_coordinator_def co_accesses)

lemma one_running: "co_run 2 (new_coordinator 1) (co_state 1 False NoRequest Running)"
  by (rule co_go [OF one_checked co_step.Enter [of 0]]) (simp_all add: co_accesses)

lemma one_requested: "co_run 3 (new_coordinator 1) (co_state 1 True Loading Running)"
  by (rule co_go [OF one_running co_step.Request]) (simp_all add: co_accesses)

lemma one_left:
  "co_run 1 (co_state 1 True Loading Running) (co_state 0 True Loading Signalling)"
  "co_run 2 (co_state 1 True Loading Running) (co_state 0 True (Reported True) Signalling)"
proof -
  show left: "co_run 1 (co_state 1 True Loading Running) (co_state 0 True Loading Signalling)"
    by (rule co_go [OF Stop co_step.Exit [of 0]]) (simp_all add: co_accesses)
  show "co_run 2 (co_state 1 True Loading Running) (co_state 0 True (Reported True) Signalling)"
    by (rule co_go [OF left co_step.Load]) (simp_all add: co_accesses)
qed

theorem shutdown_report_sound_witness:
  "Running \<notin> set (co_threads (co_state 0 True (Reported True) Signalling)) \<and>
   Running \<notin> set (co_threads (co_state 0 True (Reported True) Signalling))"
  by (rule shutdown_report_sound [OF _ one_requested _ _ _ one_left(2) _ Stop]) simp_all

text \<open>C30: A requested shutdown ends, however the threads interleave: with n threads at most 5 n + 3 atomic
  accesses follow it, and a state from which none is possible has given its report. The timeout is one of
  the accesses, so nothing is assumed of the operations that run.\<close>

theorem shutdown_always_reports:
  assumes "n < 2 ^ 64" "co_run k (new_coordinator n) c" "co_shutdown_requested c" "co_run m c c'"
  shows "m \<le> 5 * n + 3 \<and> ((\<exists>b. co_waiter c' = Reported b) \<or> (\<exists>c''. co_step c' c''))"
proof -
  have ok: "co_ok c" using co_run_ok [OF assms(2) new_coordinator_ok] assms(1) .
  have "length (co_threads c) = n"
    using assms(2) by (induction k "new_coordinator n" c rule: co_run.induct)
      (auto simp: new_coordinator_def co_accesses elim!: co_stepE)
  with co_run_work [OF assms(4) ok assms(3)] work_left_bound [of c]
  have "m \<le> 5 * n + 3" "co_shutdown_requested c'" by simp_all
  with stuck_reported [of c'] co_run_ok [OF assms(4) ok] show ?thesis by blast
qed

theorem shutdown_always_reports_witness:
  "(2::nat) \<le> 5 * 1 + 3 \<and>
   ((\<exists>b. co_waiter (co_state 0 True (Reported True) Signalling) = Reported b) \<or>
    (\<exists>c''. co_step (co_state 0 True (Reported True) Signalling) c''))"
  by (rule shutdown_always_reports [OF _ one_requested _ one_left(2)]) simp_all

section \<open>Races\<close>

text \<open>
  The flag is checked before the operation is counted: a thread in between is not waited for, and its
  operation runs after completion was reported.
\<close>

lemma operation_runs_after_report:
  "\<exists>k c. co_run k (new_coordinator 1) c \<and> co_waiter c = Reported True \<and> Running \<in> set (co_threads c)"
proof -
  have req: "co_run 2 (new_coordinator 1) (co_state 0 True Loading Admitted)"
    by (rule co_go [OF one_checked co_step.Request]) (simp_all add: co_accesses)
  have "co_run (Suc 2) (new_coordinator 1) (co_state 0 True (Reported True) Admitted)"
    by (rule co_go [OF req co_step.Load]) (simp_all add: co_accesses)
  then have "co_run (Suc (Suc 2)) (new_coordinator 1) (co_state 1 True (Reported True) Running)"
    by (rule co_go [OF _ co_step.Enter [of 0]]) (simp_all add: co_accesses)
  then show ?thesis by fastforce
qed

text \<open>
  A last operation that leaves between the load of the count and the registration notifies nobody: with
  no operation left the caller still sleeps until the timeout and reports failure.
\<close>

lemma wake_up_is_lost:
  "\<exists>k. co_run k (new_coordinator 1) (co_state 0 True Waiting Idle)"
  "co_step (co_state 0 True Waiting Idle) c \<Longrightarrow> c = co_state 0 True (Reported False) Idle"
proof -
  have "co_run (Suc 3) (new_coordinator 1) (co_state 1 True Arming Running)"
    by (rule co_go [OF one_requested co_step.Load]) (simp_all add: co_accesses)
  then have "co_run (Suc (Suc 3)) (new_coordinator 1) (co_state 0 True Arming Signalling)"
    by (rule co_go [OF _ co_step.Exit [of 0]]) (simp_all add: co_accesses)
  then have "co_run (Suc (Suc (Suc 3))) (new_coordinator 1) (co_state 0 True Arming Idle)"
    by (rule co_go [OF _ co_step.Notify [of 0]]) (simp_all add: co_accesses)
  then have "co_run (Suc (Suc (Suc (Suc 3)))) (new_coordinator 1) (co_state 0 True Waiting Idle)"
    by (rule co_go [OF _ co_step.Register]) (simp_all add: co_accesses)
  then show "\<exists>k. co_run k (new_coordinator 1) (co_state 0 True Waiting Idle)" by blast
  show "co_step (co_state 0 True Waiting Idle) c \<Longrightarrow> c = co_state 0 True (Reported False) Idle"
    by (auto elim!: co_stepE simp: co_accesses)
qed

end
