(* ===== verification/Webhooks.thy ===== *)
theory Webhooks
  imports Queues Cron_Jobs
begin

text \<open>
  The delivery of webhooks (webhooks/, background_tasks/webhook_manager_task.rs) and the monitor of
  balances that feeds it (background_tasks/balance_monitor.rs): which endpoints an event goes to, the
  attempts and their backoff, and the history in the database. Fresh identifiers, clocks, and the answers
  of the endpoints and of the database are inputs, and whether a payload can be rendered as JSON is a
  parameter.
\<close>

section \<open>Events\<close>

datatype webhook_event_type =
    EvTransactionQueued | EvTransactionSent | EvTransactionMined | EvTransactionConfirmed
  | EvTransactionFailed | EvTransactionExpired | EvTransactionCancelled | EvTransactionReplaced
  | EvTextSigned | EvTypedDataSigned | EvLowBalance

fun event_type_of_status :: "transaction_status \<Rightarrow> webhook_event_type" where
  "event_type_of_status PENDING = EvTransactionQueued"
| "event_type_of_status INMEMPOOL = EvTransactionSent"
| "event_type_of_status MINED = EvTransactionMined"
| "event_type_of_status CONFIRMED = EvTransactionConfirmed"
| "event_type_of_status FAILED = EvTransactionFailed"
| "event_type_of_status EXPIRED = EvTransactionExpired"
| "event_type_of_status CANCELLED = EvTransactionCancelled"
| "event_type_of_status DROPPED = EvTransactionFailed"
| "event_type_of_status REPLACED = EvTransactionReplaced"

fun event_type_format :: "webhook_event_type \<Rightarrow> string" where
  "event_type_format EvTransactionQueued = ''TRANSACTION_QUEUED''"
| "event_type_format EvTransactionSent = ''TRANSACTION_SENT''"
| "event_type_format EvTransactionMined = ''TRANSACTION_MINED''"
| "event_type_format EvTransactionConfirmed = ''TRANSACTION_CONFIRMED''"
| "event_type_format EvTransactionFailed = ''TRANSACTION_FAILED''"
| "event_type_format EvTransactionExpired = ''TRANSACTION_EXPIRED''"
| "event_type_format EvTransactionCancelled = ''TRANSACTION_CANCELLED''"
| "event_type_format EvTransactionReplaced = ''TRANSACTION_REPLACED''"
| "event_type_format EvTextSigned = ''TEXT_SIGNED''"
| "event_type_format EvTypedDataSigned = ''TYPED_DATA_SIGNED''"
| "event_type_format EvLowBalance = ''LOW_BALANCE''"

definition event_type_from_sql :: "string \<Rightarrow> string + webhook_event_type" where
  "event_type_from_sql s =
     (if s = ''TRANSACTION_QUEUED'' then Inr EvTransactionQueued
      else if s = ''TRANSACTION_SENT'' then Inr EvTransactionSent
      else if s = ''TRANSACTION_MINED'' then Inr EvTransactionMined
      else if s = ''TRANSACTION_CONFIRMED'' then Inr EvTransactionConfirmed
      else if s = ''TRANSACTION_FAILED'' then Inr EvTransactionFailed
      else if s = ''TRANSACTION_EXPIRED'' then Inr EvTransactionExpired
      else if s = ''TRANSACTION_CANCELLED'' then Inr EvTransactionCancelled
      else if s = ''TRANSACTION_REPLACED'' then Inr EvTransactionReplaced
      else if s = ''TEXT_SIGNED'' then Inr EvTextSigned
      else if s = ''TYPED_DATA_SIGNED'' then Inr EvTypedDataSigned
      else if s = ''LOW_BALANCE'' then Inr EvLowBalance
      else Inl (''Unknown WebhookDeliveryEventType: '' @ s))"

datatype delivery_status = DeliveryPending | DeliveryDelivered | DeliveryFailed | DeliveryAbandoned

fun delivery_status_format :: "delivery_status \<Rightarrow> string" where
  "delivery_status_format DeliveryPending = ''PENDING''"
| "delivery_status_format DeliveryDelivered = ''DELIVERED''"
| "delivery_status_format DeliveryFailed = ''FAILED''"
| "delivery_status_format DeliveryAbandoned = ''ABANDONED''"

definition delivery_status_from_sql :: "string \<Rightarrow> string + delivery_status" where
  "delivery_status_from_sql s =
     (if s = ''PENDING'' then Inr DeliveryPending
      else if s = ''DELIVERED'' then Inr DeliveryDelivered
      else if s = ''FAILED'' then Inr DeliveryFailed
      else if s = ''ABANDONED'' then Inr DeliveryAbandoned
      else Inl (''Unknown WebhookDeliveryStatus: '' @ s))"

section \<open>Payloads\<close>

text \<open>What an endpoint is told of a transaction.\<close>

record webhook_transaction_data =
  wt_id :: transaction_id
  wt_relayer_id :: relayer_id
  wt_to :: evm_address
  wt_from :: evm_address
  wt_value :: u256
  wt_data :: transaction_data
  wt_chain_id :: chain_id
  wt_status :: transaction_status
  wt_transaction_hash :: "transaction_hash option"
  wt_queued_at :: instant
  wt_sent_at :: "instant option"
  wt_confirmed_at :: "instant option"
  wt_expires_at :: instant
  wt_external_id :: "string option"
  wt_blobs :: "transaction_blob list option"
  wt_nonce :: transaction_nonce
  wt_mined_at :: "instant option"
  wt_mined_at_block_number :: "u64 option"
  wt_sent_with_max_priority_fee_per_gas :: "u128 option"
  wt_sent_with_max_fee_per_gas :: "u128 option"
  wt_is_noop :: bool

definition webhook_transaction_data_of :: "transaction \<Rightarrow> webhook_transaction_data" where
  "webhook_transaction_data_of t =
     \<lparr> wt_id = tx_id t, wt_relayer_id = tx_relayer_id t, wt_to = tx_to t,
       wt_from = tx_from t, wt_value = tx_value t, wt_data = tx_data t,
       wt_chain_id = tx_chain_id t, wt_status = tx_status t,
       wt_transaction_hash = tx_known_transaction_hash t, wt_queued_at = tx_queued_at t,
       wt_sent_at = tx_sent_at t, wt_confirmed_at = tx_confirmed_at t,
       wt_expires_at = tx_expires_at t, wt_external_id = tx_external_id t, wt_blobs = tx_blobs t,
       wt_nonce = tx_nonce t, wt_mined_at = tx_mined_at t,
       wt_mined_at_block_number = tx_mined_at_block_number t,
       wt_sent_with_max_priority_fee_per_gas = tx_sent_with_max_priority_fee_per_gas t,
       wt_sent_with_max_fee_per_gas = tx_sent_with_max_fee_per_gas t,
       wt_is_noop = tx_is_noop t \<rparr>"

record signing_data =
  sd_relayer_id :: relayer_id
  sd_chain_id :: chain_id
  sd_signature :: "u8 list"
  sd_signed_at :: instant
  sd_message :: "string option"
  sd_typed_data :: "(string \<times> string \<times> string) option"

record balance_alert =
  ba_relayer_id :: string
  ba_address :: evm_address
  ba_chain_id :: chain_id
  ba_current_balance :: u256
  ba_minimum_balance :: u256

text \<open>
  A transaction with the original of a replacement or the receipt, a signing operation, or an alert; each
  with its event type and its time.
\<close>

datatype payload =
    TransactionPayload webhook_event_type webhook_transaction_data instant
      "webhook_transaction_data option" "receipt option"
  | SigningPayload webhook_event_type signing_data instant
  | BalancePayload balance_alert instant

definition text_signed :: "relayer_id \<Rightarrow> chain_id \<Rightarrow> string \<Rightarrow> u8 list \<Rightarrow> instant \<Rightarrow> instant \<Rightarrow> payload" where
  "text_signed rid c m sig now later =
     SigningPayload EvTextSigned
       \<lparr> sd_relayer_id = rid, sd_chain_id = c, sd_signature = sig, sd_signed_at = now,
         sd_message = Some m, sd_typed_data = None \<rparr> later"

definition typed_data_signed ::
  "relayer_id \<Rightarrow> chain_id \<Rightarrow> string \<times> string \<times> string \<Rightarrow> u8 list \<Rightarrow> instant \<Rightarrow> instant \<Rightarrow> payload" where
  "typed_data_signed rid c td sig now later =
     SigningPayload EvTypedDataSigned
       \<lparr> sd_relayer_id = rid, sd_chain_id = c, sd_signature = sig, sd_signed_at = now,
         sd_message = None, sd_typed_data = Some td \<rparr> later"

definition new_payload :: "transaction \<Rightarrow> webhook_event_type \<Rightarrow> instant \<Rightarrow> payload" where
  "new_payload t ev now = TransactionPayload ev (webhook_transaction_data_of t) now None None"

definition new_with_original ::
  "transaction \<Rightarrow> webhook_event_type \<Rightarrow> transaction \<Rightarrow> instant \<Rightarrow> payload" where
  "new_with_original t ev old now =
     TransactionPayload ev (webhook_transaction_data_of t) now (Some (webhook_transaction_data_of old)) None"

definition new_with_receipt :: "transaction \<Rightarrow> webhook_event_type \<Rightarrow> receipt \<Rightarrow> instant \<Rightarrow> payload" where
  "new_with_receipt t ev r now = TransactionPayload ev (webhook_transaction_data_of t) now None (Some r)"

text \<open>The calls of the queue (\<open>on_transaction_queued\<close> and its siblings).\<close>

fun payload_of_event :: "webhook_event \<Rightarrow> instant \<Rightarrow> payload" where
  "payload_of_event (OnQueued t) now = new_payload t EvTransactionQueued now"
| "payload_of_event (OnSent t) now = new_payload t EvTransactionSent now"
| "payload_of_event (OnMined t r) now = new_with_receipt t EvTransactionMined r now"
| "payload_of_event (OnConfirmed t r) now = new_with_receipt t EvTransactionConfirmed r now"
| "payload_of_event (OnFailed t) now = new_payload t EvTransactionFailed now"
| "payload_of_event (OnExpired t) now = new_payload t EvTransactionExpired now"
| "payload_of_event (OnCancelled t) now = new_payload t EvTransactionCancelled now"
| "payload_of_event (OnReplaced t old) now = new_with_original t EvTransactionReplaced old now"

fun payload_event_type :: "payload \<Rightarrow> webhook_event_type" where
  "payload_event_type (TransactionPayload ev t now old rc) = ev"
| "payload_event_type (SigningPayload ev sd now) = ev"
| "payload_event_type (BalancePayload ba now) = EvLowBalance"

fun payload_chain :: "payload \<Rightarrow> chain_id" where
  "payload_chain (TransactionPayload ev t now old rc) = wt_chain_id t"
| "payload_chain (SigningPayload ev sd now) = sd_chain_id sd"
| "payload_chain (BalancePayload ba now) = ba_chain_id ba"

text \<open>What the history records of a payload: an alert leaves all three out.\<close>

fun extract_delivery_identifiers ::
  "payload \<Rightarrow> transaction_id option \<times> relayer_id option \<times> chain_id option" where
  "extract_delivery_identifiers (TransactionPayload ev t now old rc) =
     (Some (wt_id t), Some (wt_relayer_id t), Some (wt_chain_id t))"
| "extract_delivery_identifiers (SigningPayload ev sd now) =
     (None, Some (sd_relayer_id sd), Some (sd_chain_id sd))"
| "extract_delivery_identifiers (BalancePayload ba now) = (None, None, None)"

section \<open>A delivery\<close>

datatype all_or_networks = AllNetworks | ListedNetworks "string list"

definition an_contains :: "all_or_networks \<Rightarrow> string \<Rightarrow> bool" where
  "an_contains a n = (case a of AllNetworks \<Rightarrow> True | ListedNetworks l \<Rightarrow> n \<in> set l)"

definition an_is_empty :: "all_or_networks \<Rightarrow> bool" where
  "an_is_empty a = (case a of AllNetworks \<Rightarrow> False | ListedNetworks l \<Rightarrow> l = [])"

record webhook_config =
  wc_endpoint :: string
  wc_shared_secret :: string
  wc_networks :: all_or_networks
  wc_max_retries :: "u32 option"
  wc_alert_on_low_balances :: "bool option"

type_synonym delivery_id = u128

record delivery =
  wd_id :: delivery_id
  wd_config :: webhook_config
  wd_event_type :: webhook_event_type
  wd_payload :: payload
  wd_attempts :: u32
  wd_max_retries :: u32
  wd_created_at :: instant
  wd_last_attempt_at :: "instant option"
  wd_next_retry_at :: "instant option"
  wd_completed :: bool
  wd_failed :: bool
  wd_error_message :: "string option"

definition new_delivery :: "delivery_id \<Rightarrow> instant \<Rightarrow> webhook_config \<Rightarrow> payload \<Rightarrow> delivery" where
  "new_delivery i now c p =
     \<lparr> wd_id = i, wd_config = c, wd_event_type = payload_event_type p, wd_payload = p, wd_attempts = 0,
       wd_max_retries = (case wc_max_retries c of Some n \<Rightarrow> n | None \<Rightarrow> 3), wd_created_at = now,
       wd_last_attempt_at = None, wd_next_retry_at = None, wd_completed = False, wd_failed = False,
       wd_error_message = None \<rparr>"

definition should_retry :: "delivery \<Rightarrow> bool" where
  "should_retry d = (\<not> wd_completed d \<and> \<not> wd_failed d \<and> wd_attempts d < wd_max_retries d)"

definition is_ready_for_retry :: "instant \<Rightarrow> delivery \<Rightarrow> bool" where
  "is_ready_for_retry now d =
     (should_retry d \<and> (case wd_next_retry_at d of Some t \<Rightarrow> now \<ge> t | None \<Rightarrow> True))"

definition mark_attempt :: "instant \<Rightarrow> u64 option \<Rightarrow> delivery \<Rightarrow> delivery" where
  "mark_attempt now delay d =
     (let d' = d\<lparr> wd_attempts := wd_attempts d + 1, wd_last_attempt_at := Some now \<rparr>
      in case delay of
           None \<Rightarrow> d'
         | Some ms \<Rightarrow> d'\<lparr> wd_next_retry_at := Some (now + int (unat ms) * 1000000) \<rparr>)"

definition mark_completed :: "delivery \<Rightarrow> delivery" where
  "mark_completed d = d\<lparr> wd_completed := True, wd_next_retry_at := None \<rparr>"

definition mark_failed :: "string \<Rightarrow> delivery \<Rightarrow> delivery" where
  "mark_failed e d = d\<lparr> wd_failed := True, wd_error_message := Some e, wd_next_retry_at := None \<rparr>"

text \<open>
  The backoff with the default configuration, the only one the server builds: one second doubled per
  attempt, at most two minutes. The \<open>f32\<close> product of 1000 and a power of two is exact; the exponent is the
  attempt read as an \<open>i32\<close>, and the cast to \<open>u64\<close> truncates and saturates.
\<close>

definition calculate_retry_delay :: "u32 \<Rightarrow> u64" where
  "calculate_retry_delay attempt =
     (let e = sint attempt
      in if e < 0 then (if - e < 10 then 1000 div 2 ^ nat (- e) else 0)
         else if 7 \<le> e then 120000 else 1000 * 2 ^ nat e)"

section \<open>History\<close>

record delivery_row =
  dr_id :: delivery_id
  dr_endpoint :: string
  dr_event_type :: webhook_event_type
  dr_status :: delivery_status
  dr_transaction_id :: "transaction_id option"
  dr_relayer_id :: "relayer_id option"
  dr_chain_id :: "chain_id option"
  dr_attempts :: int
  dr_max_retries :: int
  dr_payload :: payload
  dr_http_status :: "int option"
  dr_response_body :: "string option"
  dr_error_message :: "string option"
  dr_created_at :: instant
  dr_first_attempt_at :: instant
  dr_last_attempt_at :: instant
  dr_delivered_at :: "instant option"
  dr_abandoned_at :: "instant option"
  dr_duration :: "int option"

text \<open>The values of the column's type, and the insert: another event is an error, a known id no change.\<close>

definition event_type_enum :: "string list" where
  "event_type_enum =
     [''TRANSACTION_QUEUED'', ''TRANSACTION_SENT'', ''TRANSACTION_MINED'', ''TRANSACTION_CONFIRMED'',
      ''TRANSACTION_FAILED'', ''TRANSACTION_EXPIRED'', ''TRANSACTION_CANCELLED'',
      ''TRANSACTION_REPLACED'', ''TEXT_SIGNED'', ''TYPED_DATA_SIGNED'']"

definition create_webhook_delivery ::
  "delivery_row \<Rightarrow> delivery_row list \<Rightarrow> string + delivery_row list" where
  "create_webhook_delivery r rows =
     (if event_type_format (dr_event_type r) \<notin> set event_type_enum
      then Inl ''invalid input value for enum webhook.event_type''
      else Inr (if dr_id r \<in> set (map dr_id rows) then rows else rows @ [r]))"

definition update_webhook_delivery ::
  "delivery_id \<Rightarrow> (delivery_row \<Rightarrow> delivery_row) \<Rightarrow> delivery_row list \<Rightarrow> delivery_row list" where
  "update_webhook_delivery i f rows = map (\<lambda>r. if dr_id r = i then f r else r) rows"

definition cleanup_old_webhook_deliveries :: "instant \<Rightarrow> delivery_row list \<Rightarrow> delivery_row list" where
  "cleanup_old_webhook_deliveries now rows =
     filter (\<lambda>r. \<not> dr_created_at r < now - 30 * 86400 * 1000000000) rows"

section \<open>One attempt\<close>

text \<open>What reaches an endpoint: the envelope and the header with the shared secret.\<close>

record webhook_request =
  rq_endpoint :: string
  rq_shared_secret :: string
  rq_delivery_id :: delivery_id
  rq_event_type :: webhook_event_type
  rq_timestamp :: int
  rq_attempt :: u32
  rq_payload :: payload

definition request_of :: "delivery \<Rightarrow> webhook_request" where
  "request_of d =
     \<lparr> rq_endpoint = wc_endpoint (wd_config d), rq_shared_secret = wc_shared_secret (wd_config d),
       rq_delivery_id = wd_id d, rq_event_type = wd_event_type d,
       rq_timestamp = (if wd_created_at d < 0 then 0 else wd_created_at d div 1000000000),
       rq_attempt = wd_attempts d + 1, rq_payload = wd_payload d \<rparr>"

text \<open>
  The history and the requests that were made; and the inputs of an attempt: whether the two
  statements reach the database, the clocks, and the answer (a status with its body, or the error of the
  client).
\<close>

record outbox =
  ob_history :: "delivery_row list"
  ob_requests :: "webhook_request list"

record attempt_env =
  wa_create_ok :: bool
  wa_now_create :: instant
  wa_start :: instant
  wa_end :: instant
  wa_answer :: "string + (nat \<times> string)"
  wa_update_ok :: bool
  wa_now_update :: instant

definition initial_row :: "instant \<Rightarrow> delivery \<Rightarrow> delivery_row" where
  "initial_row now d =
     (case extract_delivery_identifiers (wd_payload d) of
        (t, r, c) \<Rightarrow>
          \<lparr> dr_id = wd_id d, dr_endpoint = wc_endpoint (wd_config d), dr_event_type = wd_event_type d,
            dr_status = DeliveryPending, dr_transaction_id = t, dr_relayer_id = r, dr_chain_id = c,
            dr_attempts = 1, dr_max_retries = sint (wd_max_retries d), dr_payload = wd_payload d,
            dr_http_status = None, dr_response_body = None, dr_error_message = None, dr_created_at = now,
            dr_first_attempt_at = now, dr_last_attempt_at = now, dr_delivered_at = None,
            dr_abandoned_at = None, dr_duration = None \<rparr>)"

definition log_initial_webhook_attempt :: "attempt_env \<Rightarrow> delivery \<Rightarrow> outbox \<Rightarrow> outbox" where
  "log_initial_webhook_attempt env d ob =
     (if wa_create_ok env
      then (case create_webhook_delivery (initial_row (wa_now_create env) d) (ob_history ob) of
              Inl e \<Rightarrow> ob
            | Inr rows \<Rightarrow> ob\<lparr> ob_history := rows \<rparr>)
      else ob)"

definition log_update :: "attempt_env \<Rightarrow> delivery \<Rightarrow> (delivery_row \<Rightarrow> delivery_row) \<Rightarrow> outbox \<Rightarrow> outbox" where
  "log_update env d f ob =
     (if wa_update_ok env
      then ob\<lparr> ob_history := update_webhook_delivery (wd_id d)
                 (\<lambda>r. f (r\<lparr> dr_attempts := sint (wd_attempts d), dr_last_attempt_at := wa_now_update env,
                            dr_duration := Some (if wa_end env < wa_start env then 0
                                                 else (wa_end env - wa_start env) div 1000000) \<rparr>))
                 (ob_history ob) \<rparr>
      else ob)"

definition log_webhook_success :: "attempt_env \<Rightarrow> delivery \<Rightarrow> nat \<Rightarrow> string \<Rightarrow> outbox \<Rightarrow> outbox" where
  "log_webhook_success env d code body =
     log_update env d (\<lambda>r. r\<lparr> dr_status := DeliveryDelivered, dr_http_status := Some (int code),
       dr_response_body := Some body, dr_error_message := None,
       dr_delivered_at := Some (wa_now_update env), dr_abandoned_at := None \<rparr>)"

definition log_webhook_failure ::
  "attempt_env \<Rightarrow> delivery \<Rightarrow> string \<Rightarrow> nat option \<Rightarrow> string option \<Rightarrow> bool \<Rightarrow> outbox \<Rightarrow> outbox" where
  "log_webhook_failure env d e code body permanent =
     log_update env d (\<lambda>r. r\<lparr> dr_status := (if permanent then DeliveryAbandoned else DeliveryFailed),
       dr_http_status := map_option int code, dr_response_body := body, dr_error_message := Some e,
       dr_delivered_at := None,
       dr_abandoned_at := (if permanent then Some (wa_now_update env) else None) \<rparr>)"

definition handle_failed_attempt ::
  "attempt_env \<Rightarrow> string \<Rightarrow> nat option \<Rightarrow> string option \<Rightarrow> delivery \<times> outbox \<Rightarrow> delivery \<times> outbox" where
  "handle_failed_attempt env e code body st =
     (case st of (d, ob) \<Rightarrow>
       (let delay = (if should_retry d then Some (calculate_retry_delay (wd_attempts d)) else None);
            d1 = mark_attempt (wa_start env) delay d
        in if \<not> should_retry d1
           then (mark_failed e d1, log_webhook_failure env (mark_failed e d1) e code body True ob)
           else (d1, log_webhook_failure env d1 e code body False ob)))"

definition is_success :: "nat \<Rightarrow> bool" where
  "is_success code = (200 \<le> code \<and> code < 300)"

definition send_webhook :: "attempt_env \<Rightarrow> delivery \<Rightarrow> outbox \<Rightarrow> delivery \<times> outbox" where
  "send_webhook env d ob =
     (let ob1 = (if wd_attempts d = 0 then log_initial_webhook_attempt env d ob else ob);
          ob2 = ob1\<lparr> ob_requests := ob_requests ob1 @ [request_of d] \<rparr>
      in case wa_answer env of
           Inr (code, body) \<Rightarrow>
             if is_success code
             then (let d' = mark_completed d in (d', log_webhook_success env d' code body ob2))
             else handle_failed_attempt env
                    (''Webhook returned error status: '' @ show_digits code @ '' - '' @ body)
                    (Some code) (Some body) (d, ob2)
         | Inl e \<Rightarrow>
             handle_failed_attempt env (''HTTP request failed: '' @ e) None None (d, ob2))"

text \<open>The deliveries of a round are sent concurrently; they are different, so the order has no effect on them.\<close>

fun send_multiple_webhooks ::
  "(delivery_id \<Rightarrow> attempt_env) \<Rightarrow> delivery list \<Rightarrow> outbox \<Rightarrow> delivery list \<times> outbox" where
  "send_multiple_webhooks env [] ob = ([], ob)"
| "send_multiple_webhooks env (d # ds) ob =
     (case send_webhook (env (wd_id d)) d ob of
        (d', ob') \<Rightarrow>
          (case send_multiple_webhooks env ds ob' of (ds', ob'') \<Rightarrow> (d' # ds', ob'')))"

section \<open>The manager\<close>

text \<open>The hash map of deliveries is a list in the order of its iteration.\<close>

type_synonym pending_deliveries = "(delivery_id \<times> delivery) list"

record webhook_manager =
  wm_configs :: "webhook_config list"
  wm_network_names :: "chain_id \<rightharpoonup> string"
  wm_pending :: pending_deliveries
  wm_outbox :: outbox

definition new_webhook_manager :: "webhook_config list \<Rightarrow> string list \<Rightarrow> outbox \<Rightarrow> webhook_manager" where
  "new_webhook_manager configs networks ob =
     \<lparr> wm_configs = configs,
       wm_network_names = fold (\<lambda>n m. case parse_u64 n of None \<Rightarrow> m | Some c \<Rightarrow> m(c \<mapsto> n)) networks Map.empty,
       wm_pending = [], wm_outbox = ob \<rparr>"

definition update_network_names :: "(chain_id \<times> string) list \<Rightarrow> webhook_manager \<Rightarrow> webhook_manager" where
  "update_network_names ns m =
     m\<lparr> wm_network_names := fold (\<lambda>(c, n) f. f(c \<mapsto> n)) ns (wm_network_names m) \<rparr>"

definition chain_name :: "webhook_manager \<Rightarrow> chain_id \<Rightarrow> string" where
  "chain_name m c = (case wm_network_names m c of Some n \<Rightarrow> n | None \<Rightarrow> show_digits (unat c))"

definition should_send_webhook :: "webhook_config \<Rightarrow> string \<Rightarrow> bool" where
  "should_send_webhook c chain = (an_is_empty (wc_networks c) \<or> an_contains (wc_networks c) chain)"

definition should_alert :: "webhook_config \<Rightarrow> string \<Rightarrow> bool" where
  "should_alert c chain = (unwrap_or_default (wc_alert_on_low_balances c) \<and> should_send_webhook c chain)"

definition store_deliveries :: "delivery list \<Rightarrow> pending_deliveries \<Rightarrow> pending_deliveries" where
  "store_deliveries ds pending = fold (\<lambda>d. AList.update (wd_id d) d) ds pending"

text \<open>
  \<open>queue_webhook\<close>, \<open>queue_webhook_with_payload\<close>, \<open>queue_signing_webhook\<close> and the queueing of an alert differ
  in the payload and the filter only. \<open>renders\<close> says whether a payload has a JSON form, \<open>ids\<close> are the
  fresh identifiers. The round that follows is spawned: a step of its own.
\<close>

definition payload_filter :: "payload \<Rightarrow> webhook_config \<Rightarrow> string \<Rightarrow> bool" where
  "payload_filter p = (case p of BalancePayload ba now \<Rightarrow> should_alert | _ \<Rightarrow> should_send_webhook)"

definition queue_webhook ::
  "(payload \<Rightarrow> bool) \<Rightarrow> (nat \<Rightarrow> delivery_id) \<Rightarrow> instant \<Rightarrow> payload \<Rightarrow> webhook_manager \<Rightarrow> webhook_manager" where
  "queue_webhook renders ids now p m =
     (if wm_configs m = [] \<or> \<not> renders p then m
      else (let cs = filter (\<lambda>c. payload_filter p c (chain_name m (payload_chain p))) (wm_configs m)
            in m\<lparr> wm_pending := store_deliveries
                    (map (\<lambda>(i, c). new_delivery (ids i) now c p) (enumerate 0 cs)) (wm_pending m) \<rparr>))"

text \<open>The entry points: events of a transaction, signatures, alerts.\<close>

definition on_transaction_event ::
  "(payload \<Rightarrow> bool) \<Rightarrow> (nat \<Rightarrow> delivery_id) \<Rightarrow> instant \<Rightarrow> webhook_event \<Rightarrow> instant \<Rightarrow> webhook_manager \<Rightarrow>
   webhook_manager" where
  "on_transaction_event renders ids now e at m = queue_webhook renders ids now (payload_of_event e at) m"

definition queue_webhook_of_type ::
  "(payload \<Rightarrow> bool) \<Rightarrow> (nat \<Rightarrow> delivery_id) \<Rightarrow> instant \<Rightarrow> transaction \<Rightarrow> webhook_event_type \<Rightarrow> instant \<Rightarrow>
   webhook_manager \<Rightarrow> webhook_manager" where
  "queue_webhook_of_type renders ids now t ev at m = queue_webhook renders ids now (new_payload t ev at) m"

definition queue_signing_webhook ::
  "(payload \<Rightarrow> bool) \<Rightarrow> (nat \<Rightarrow> delivery_id) \<Rightarrow> instant \<Rightarrow> webhook_event_type \<Rightarrow> signing_data \<Rightarrow> instant \<Rightarrow>
   webhook_manager \<Rightarrow> webhook_manager" where
  "queue_signing_webhook renders ids now ev sd at m = queue_webhook renders ids now (SigningPayload ev sd at) m"

definition queue_low_balance_webhook ::
  "(payload \<Rightarrow> bool) \<Rightarrow> (nat \<Rightarrow> delivery_id) \<Rightarrow> instant \<Rightarrow> balance_alert \<Rightarrow> instant \<Rightarrow> webhook_manager \<Rightarrow>
   webhook_manager" where
  "queue_low_balance_webhook renders ids now ba at m = queue_webhook renders ids now (BalancePayload ba at) m"

definition ready_deliveries :: "instant \<Rightarrow> webhook_manager \<Rightarrow> delivery list" where
  "ready_deliveries now m = filter (is_ready_for_retry now) (map snd (wm_pending m))"

text \<open>A round sends what it read as ready and then writes the results back.\<close>

definition deliver_and_store ::
  "(delivery_id \<Rightarrow> attempt_env) \<Rightarrow> delivery list \<Rightarrow> webhook_manager \<Rightarrow> webhook_manager" where
  "deliver_and_store env ds m =
     (case send_multiple_webhooks env ds (wm_outbox m) of
        (ds', ob) \<Rightarrow> m\<lparr> wm_pending := store_deliveries ds' (wm_pending m), wm_outbox := ob \<rparr>)"

definition process_ready_deliveries ::
  "instant \<Rightarrow> (delivery_id \<Rightarrow> attempt_env) \<Rightarrow> webhook_manager \<Rightarrow> webhook_manager" where
  "process_ready_deliveries now env m = deliver_and_store env (ready_deliveries now m) m"

text \<open>
  The round of the background task takes the lock of the manager three times without waiting for it: to
  read what is ready, to send it, and to store the results. Where the last attempt fails the requests
  were made and their results are dropped.
\<close>

definition background_round ::
  "instant \<Rightarrow> (delivery_id \<Rightarrow> attempt_env) \<Rightarrow> bool \<Rightarrow> bool \<Rightarrow> bool \<Rightarrow> webhook_manager \<Rightarrow> webhook_manager" where
  "background_round now env read_lock send_lock store_lock m =
     (if \<not> read_lock then m
      else (let ds = ready_deliveries now m
            in if ds = [] \<or> \<not> send_lock then m
               else (case send_multiple_webhooks env ds (wm_outbox m) of
                  (ds', ob) \<Rightarrow>
                    if store_lock then m\<lparr> wm_pending := store_deliveries ds' (wm_pending m), wm_outbox := ob \<rparr>
                    else m\<lparr> wm_outbox := ob \<rparr>)))"

definition cleanup_deliveries :: "webhook_manager \<Rightarrow> webhook_manager" where
  "cleanup_deliveries m =
     m\<lparr> wm_pending := filter (\<lambda>(i, d). \<not> wd_completed d \<and> \<not> wd_failed d) (wm_pending m) \<rparr>"

definition cleanup_history :: "instant \<Rightarrow> webhook_manager \<Rightarrow> webhook_manager" where
  "cleanup_history now m =
     m\<lparr> wm_outbox := (wm_outbox m)\<lparr> ob_history := cleanup_old_webhook_deliveries now (ob_history (wm_outbox m)) \<rparr> \<rparr>"

text \<open>
  The life of a manager whose rounds follow one another: identifiers are fresh, everything else is
  arbitrary.
\<close>

definition used_ids :: "webhook_manager \<Rightarrow> delivery_id set" where
  "used_ids m = fst ` set (wm_pending m) \<union> rq_delivery_id ` set (ob_requests (wm_outbox m))"

inductive wh_step :: "(payload \<Rightarrow> bool) \<Rightarrow> webhook_manager \<Rightarrow> webhook_manager \<Rightarrow> bool" for renders where
  QueueWebhook: "distinct (map ids [0..<length (wm_configs m)]) \<Longrightarrow>
     \<forall>n < length (wm_configs m). ids n \<notin> used_ids m \<Longrightarrow> wh_step renders m (queue_webhook renders ids now p m)"
| Round: "wh_step renders m (process_ready_deliveries now env m)"
| Cleanup: "wh_step renders m (cleanup_deliveries m)"
| CleanupHistory: "wh_step renders m (cleanup_history now m)"
| Names: "wh_step renders m (update_network_names ns m)"

inductive_cases wh_stepE: "wh_step renders m m'"

section \<open>Balances\<close>

definition get_minimum_balance_threshold :: "chain_id \<Rightarrow> u256" where
  "get_minimum_balance_threshold c = (if c = 1 then 5000000000000000 else 1000000000000000)"

text \<open>\<open>show\<close> is the display of a relayer id; without a manager a low balance is only logged.\<close>

fun check_balances ::
  "(relayer_id \<Rightarrow> string) \<Rightarrow> (evm_address \<Rightarrow> rpc_error + u256) \<Rightarrow> chain_id \<Rightarrow> instant \<Rightarrow> relayer list \<Rightarrow>
   payload list" where
  "check_balances show balance c now [] = []"
| "check_balances show balance c now (r # rs) =
     (case balance (rl_address r) of
        Inl e \<Rightarrow> []
      | Inr b \<Rightarrow>
          if b < get_minimum_balance_threshold c
          then [BalancePayload \<lparr> ba_relayer_id = show (rl_id r), ba_address = rl_address r, ba_chain_id = c,
                  ba_current_balance = b, ba_minimum_balance = get_minimum_balance_threshold c \<rparr> now]
          else []) @ check_balances show balance c now rs"

definition check_balances_for_chain ::
  "(relayer_id \<Rightarrow> string) \<Rightarrow> (evm_address \<Rightarrow> rpc_error + u256) \<Rightarrow> db_error + relayer list \<Rightarrow> chain_id \<Rightarrow>
   instant \<Rightarrow> db_error + payload list" where
  "check_balances_for_chain show balance found c now =
     and_then found (\<lambda>rs. Inr (check_balances show balance c now rs))"

end
