(* ===== verification/Webhook_Properties.thy ===== *)
theory Webhook_Properties
  imports Webhooks Examples
begin

text \<open>
  Properties of the webhook deliveries: how often an endpoint is called for one delivery, and where the
  manager falls short of it (no retries configured, rounds that overlap, alerts in the history).
\<close>

section \<open>One attempt\<close>

lemma log_requests [simp]:
  "ob_requests (log_initial_webhook_attempt env d ob) = ob_requests ob"
  "ob_requests (log_update env d f ob) = ob_requests ob"
  "ob_requests (log_webhook_success env d code body ob) = ob_requests ob"
  "ob_requests (log_webhook_failure env d e c b perm ob) = ob_requests ob"
  by (simp_all add: log_initial_webhook_attempt_def log_update_def log_webhook_success_def
      log_webhook_failure_def split: sum.splits)

lemma mark_simps [simp]:
  "wd_id (mark_attempt now delay d) = wd_id d" "wd_id (mark_failed e d) = wd_id d"
  "wd_id (mark_completed d) = wd_id d"
  "wd_max_retries (mark_attempt now delay d) = wd_max_retries d"
  "wd_max_retries (mark_failed e d) = wd_max_retries d" "wd_max_retries (mark_completed d) = wd_max_retries d"
  "wd_attempts (mark_attempt now delay d) = wd_attempts d + 1" "wd_attempts (mark_failed e d) = wd_attempts d"
  "wd_attempts (mark_completed d) = wd_attempts d"
  "wd_completed (mark_attempt now delay d) = wd_completed d" "wd_completed (mark_failed e d) = wd_completed d"
  "wd_completed (mark_completed d)"
  by (simp_all add: mark_attempt_def mark_failed_def mark_completed_def Let_def split: option.splits)

text \<open>An attempt completes the delivery or counts.\<close>

definition attempted :: "delivery \<Rightarrow> delivery \<Rightarrow> bool" where
  "attempted d d' \<longleftrightarrow> wd_id d' = wd_id d \<and> wd_max_retries d' = wd_max_retries d \<and>
     (wd_completed d' \<and> wd_attempts d' = wd_attempts d \<or>
      \<not> wd_completed d' \<and> wd_attempts d' = wd_attempts d + 1)"

lemma send_webhook_attempt:
  assumes "\<not> wd_completed d" "send_webhook env d ob = (d', ob')"
  shows "attempted d d' \<and> ob_requests ob' = ob_requests ob @ [request_of d]"
  using assms
  by (auto simp: send_webhook_def handle_failed_attempt_def attempted_def Let_def
      split: sum.splits prod.splits if_splits)

lemma send_multiple_attempts:
  assumes "\<forall>d \<in> set ds. \<not> wd_completed d" "send_multiple_webhooks env ds ob = (ds', ob')"
  shows "list_all2 attempted ds ds' \<and> ob_requests ob' = ob_requests ob @ map request_of ds"
  using assms
proof (induction ds arbitrary: ob ds' ob')
  case (Cons d ds)
  obtain d1 ob1 where one: "send_webhook (env (wd_id d)) d ob = (d1, ob1)" by force
  obtain ds2 ob2 where rest: "send_multiple_webhooks env ds ob1 = (ds2, ob2)" by force
  from Cons.prems(2) one rest have "ds' = d1 # ds2" "ob' = ob2" by auto
  with Cons.IH [OF _ rest] Cons.prems(1) send_webhook_attempt [OF _ one] show ?case by auto
qed simp

section \<open>The store\<close>

lemma filter_keyed:
  assumes "distinct (map fst al)" "\<forall>(k, d) \<in> set al. key d = k"
  shows "filter (\<lambda>d. key d = i) (filter P (map snd al)) =
     (case map_of al i of None \<Rightarrow> [] | Some d \<Rightarrow> if P d then [d] else [])"
  using assms
proof (induction al)
  case (Cons kd al)
  obtain k d where kd: "kd = (k, d)" by force
  show ?case
  proof (cases "k = i")
    case True
    with Cons.prems kd have "map_of al i = None" by (auto simp: map_of_eq_None_iff)
    with Cons True kd show ?thesis by simp
  next
    case False
    with Cons kd show ?thesis by simp
  qed
qed simp

lemma store_distinct: "distinct (map fst p) \<Longrightarrow> distinct (map fst (store_deliveries ds p))"
  unfolding store_deliveries_def by (induction ds arbitrary: p) (simp_all add: distinct_update)

lemma store_lookup_other: "i \<notin> wd_id ` set ds \<Longrightarrow> map_of (store_deliveries ds p) i = map_of p i"
  unfolding store_deliveries_def by (induction ds arbitrary: p) (simp_all add: update_conv)

lemma store_lookup:
  "distinct (map wd_id ds) \<Longrightarrow> d \<in> set ds \<Longrightarrow> map_of (store_deliveries ds p) (wd_id d) = Some d"
proof (induction ds arbitrary: p)
  case (Cons x xs)
  show ?case
  proof (cases "d = x")
    case True
    with Cons.prems have "wd_id d \<notin> wd_id ` set xs" by auto
    from store_lookup_other [OF this] True show ?thesis by (simp add: store_deliveries_def update_conv)
  next
    case False
    with Cons show ?thesis by (simp add: store_deliveries_def)
  qed
qed simp

section \<open>Counting\<close>

definition requests_of :: "delivery_id \<Rightarrow> webhook_manager \<Rightarrow> nat" where
  "requests_of i m = length (filter (\<lambda>r. rq_delivery_id r = i) (ob_requests (wm_outbox m)))"

abbreviation lookup_delivery :: "webhook_manager \<Rightarrow> delivery_id \<Rightarrow> delivery option" where
  "lookup_delivery m \<equiv> map_of (wm_pending m)"

text \<open>The counter of a pending delivery is the number of calls that were made for it.\<close>

definition delivery_ok :: "webhook_manager \<Rightarrow> delivery_id \<Rightarrow> delivery \<Rightarrow> bool" where
  "delivery_ok m i d \<longleftrightarrow> wd_id d = i \<and>
     requests_of i m = unat (wd_attempts d) + (if wd_completed d then 1 else 0) \<and>
     requests_of i m \<le> unat (wd_max_retries d) \<and> (wd_completed d \<or> wd_failed d \<longrightarrow> 0 < requests_of i m)"

definition wh_ok :: "webhook_manager \<Rightarrow> bool" where
  "wh_ok m \<longleftrightarrow> distinct (map fst (wm_pending m)) \<and> (\<forall>i d. lookup_delivery m i = Some d \<longrightarrow> delivery_ok m i d)"

lemma requests_request_of [simp]: "rq_delivery_id (request_of d) = wd_id d"
  by (simp add: request_of_def)

text \<open>A round, for each identifier.\<close>

lemma round_effect:
  assumes ok: "wh_ok m" and m': "m' = process_ready_deliveries now env m"
  shows "distinct (map fst (wm_pending m'))"
    and "lookup_delivery m i = None \<Longrightarrow> lookup_delivery m' i = None \<and> requests_of i m' = requests_of i m"
    and "lookup_delivery m i = Some d \<Longrightarrow> \<not> is_ready_for_retry now d \<Longrightarrow>
      lookup_delivery m' i = Some d \<and> requests_of i m' = requests_of i m"
    and "lookup_delivery m i = Some d \<Longrightarrow> is_ready_for_retry now d \<Longrightarrow>
      (\<exists>d'. lookup_delivery m' i = Some d' \<and> attempted d d' \<and> requests_of i m' = requests_of i m + 1)"
proof -
  let ?ds = "ready_deliveries now m"
  obtain ds' ob where sent: "send_multiple_webhooks env ?ds (wm_outbox m) = (ds', ob)" by force
  have m'_eq: "m' = m\<lparr> wm_pending := store_deliveries ds' (wm_pending m), wm_outbox := ob \<rparr>"
    using sent by (simp add: m' process_ready_deliveries_def deliver_and_store_def)
  have dist: "distinct (map fst (wm_pending m))" using ok by (simp add: wh_ok_def)
  have key: "\<forall>(k, d) \<in> set (wm_pending m). wd_id d = k"
    using ok dist by (auto simp: wh_ok_def delivery_ok_def)
  have nc: "\<forall>d \<in> set ?ds. \<not> wd_completed d"
    by (auto simp: ready_deliveries_def is_ready_for_retry_def should_retry_def)
  note att = send_multiple_attempts [OF nc sent]
  have ids: "map wd_id ds' = map wd_id ?ds"
    using att by (intro nth_equalityI) (auto simp: list_all2_conv_all_nth attempted_def)
  have keys: "map wd_id (map snd (wm_pending m)) = map fst (wm_pending m)"
    using key by (induction "wm_pending m") auto
  have dist_ids: "distinct (map wd_id ?ds)"
    using dist keys unfolding ready_deliveries_def by (metis distinct_map_filter)
  have count: "requests_of i m' = requests_of i m + length (filter (\<lambda>d. wd_id d = i) ?ds)" for i
    using att by (simp add: m'_eq requests_of_def filter_map o_def)
  note pick = filter_keyed [OF dist key, of _ "is_ready_for_retry now", folded ready_deliveries_def]
  show "distinct (map fst (wm_pending m'))" using dist by (simp add: m'_eq store_distinct)
  have outside: "lookup_delivery m' i = lookup_delivery m i \<and> requests_of i m' = requests_of i m"
    if "filter (\<lambda>d. wd_id d = i) ?ds = []"
  proof -
    have "i \<notin> wd_id ` set ?ds" using that by (auto simp: filter_empty_conv)
    then have "i \<notin> wd_id ` set ds'" using ids by (metis list.set_map)
    with that count show ?thesis by (simp add: m'_eq store_lookup_other)
  qed
  show "lookup_delivery m i = None \<Longrightarrow> lookup_delivery m' i = None \<and> requests_of i m' = requests_of i m"
    using outside pick [of i] by simp
  show "lookup_delivery m i = Some d \<Longrightarrow> \<not> is_ready_for_retry now d \<Longrightarrow>
      lookup_delivery m' i = Some d \<and> requests_of i m' = requests_of i m"
    using outside pick [of i] by simp
  show "\<exists>d'. lookup_delivery m' i = Some d' \<and> attempted d d' \<and> requests_of i m' = requests_of i m + 1"
    if d: "lookup_delivery m i = Some d" "is_ready_for_retry now d"
  proof -
    have f: "filter (\<lambda>d. wd_id d = i) ?ds = [d]" using pick [of i] d by simp
    then have "d \<in> set ?ds" by (metis filter_is_subset list.set_intros(1) subsetD)
    then obtain n where n: "n < length ?ds" "?ds ! n = d" by (auto simp: in_set_conv_nth)
    with att have d': "n < length ds'" "attempted d (ds' ! n)" by (auto simp: list_all2_conv_all_nth)
    have "wd_id d = i" using ok d(1) by (simp add: wh_ok_def delivery_ok_def)
    with d' have "wd_id (ds' ! n) = i" by (simp add: attempted_def)
    with d' store_lookup [of ds' "ds' ! n" "wm_pending m"] ids dist_ids
    have "lookup_delivery m' i = Some (ds' ! n)" by (simp add: m'_eq)
    with d' f count show ?thesis by auto
  qed
qed

section \<open>Steps\<close>

lemma new_requests [simp]: "requests_of i (m\<lparr> wm_pending := p \<rparr>) = requests_of i m"
  by (simp add: requests_of_def)

lemma attempted_ok:
  assumes "attempted d d'" "is_ready_for_retry now d" "delivery_ok m i d" "requests_of i m' = requests_of i m + 1"
  shows "delivery_ok m' i d'"
proof -
  have less: "wd_attempts d < wd_max_retries d" "\<not> wd_completed d"
    using assms(2) by (simp_all add: is_ready_for_retry_def should_retry_def)
  have "unat (wd_max_retries d) < 2 ^ 32" using unsigned_less [of "wd_max_retries d"] by simp
  with less(1) have "unat (wd_attempts d) + 1 < 2 ^ 32" by (simp add: word_less_nat_alt)
  then have "unat (wd_attempts d + 1) = unat (wd_attempts d) + 1"
    by (simp add: unat_add_lem [THEN iffD1])
  moreover have "unat (wd_attempts d) + 1 \<le> unat (wd_max_retries d)"
    using less(1) by (simp add: word_less_nat_alt)
  ultimately show ?thesis using assms less(2) by (auto simp: delivery_ok_def attempted_def)
qed

lemma queue_lookup:
  assumes "distinct (map ids [0..<length (wm_configs m)])" "m' = queue_webhook renders ids now p m"
  shows "distinct (map fst (wm_pending m)) \<longrightarrow> distinct (map fst (wm_pending m'))"
    and "requests_of i m' = requests_of i m"
    and "lookup_delivery m' i = lookup_delivery m i \<or>
      (\<exists>n < length (wm_configs m). \<exists>c. ids n = i \<and> lookup_delivery m' i = Some (new_delivery i now c p))"
proof -
  define cs where "cs = filter (\<lambda>c. payload_filter p c (chain_name m (payload_chain p))) (wm_configs m)"
  define ds where "ds = map (\<lambda>(i, c). new_delivery (ids i) now c p) (enumerate 0 cs)"
  have len: "length cs \<le> length (wm_configs m)" by (simp add: cs_def)
  have m': "m' = m \<or> m' = m\<lparr> wm_pending := store_deliveries ds (wm_pending m) \<rparr>"
    by (simp add: assms(2) queue_webhook_def Let_def ds_def cs_def)
  have id_new: "wd_id (new_delivery k now c p) = k" for k c by (simp add: new_delivery_def)
  have "map wd_id ds = map ids [0..<length cs]"
    by (rule nth_equalityI) (simp_all add: ds_def nth_enumerate_eq id_new)
  moreover have "[0..<length (wm_configs m)] = [0..<length cs] @ [length cs..<length (wm_configs m)]"
    using len upt_add_eq_append [of 0 "length cs" "length (wm_configs m) - length cs"] by simp
  ultimately have dist: "distinct (map wd_id ds)" using assms(1) by simp
  show "distinct (map fst (wm_pending m)) \<longrightarrow> distinct (map fst (wm_pending m'))"
    using m' by (auto simp: store_distinct)
  show "requests_of i m' = requests_of i m" using m' by auto
  show "lookup_delivery m' i = lookup_delivery m i \<or>
      (\<exists>n < length (wm_configs m). \<exists>c. ids n = i \<and> lookup_delivery m' i = Some (new_delivery i now c p))"
  proof (cases "m' \<noteq> m \<and> i \<in> wd_id ` set ds")
    case True
    then obtain d where d: "d \<in> set ds" "wd_id d = i" by auto
    then obtain n where n: "n < length cs" "d = new_delivery (ids n) now (cs ! n) p"
      by (auto simp: ds_def in_set_enumerate_eq)
    have "lookup_delivery m' i = Some d" using True m' store_lookup [OF dist d(1)] d(2) by auto
    with n d(2) len id_new show ?thesis by (intro disjI2 exI [of _ n]) auto
  next
    case False
    with m' show ?thesis by (auto simp: store_lookup_other)
  qed
qed

lemma used_requests: "i \<notin> used_ids m \<Longrightarrow> requests_of i m = 0"
  by (auto simp: used_ids_def requests_of_def filter_empty_conv)

lemma used_lookup: "i \<notin> used_ids m \<Longrightarrow> lookup_delivery m i = None"
  by (auto simp: used_ids_def map_of_eq_None_iff)

lemma cleanup_lookup:
  assumes "distinct (map fst (wm_pending m))"
  shows "lookup_delivery (cleanup_deliveries m) i =
     (case lookup_delivery m i of None \<Rightarrow> None | Some d \<Rightarrow> if wd_completed d \<or> wd_failed d then None else Some d)"
    and "distinct (map fst (wm_pending (cleanup_deliveries m)))"
proof -
  show "distinct (map fst (wm_pending (cleanup_deliveries m)))"
    using assms by (simp add: cleanup_deliveries_def distinct_map_filter)
  have "map_of (filter (\<lambda>(i, d). \<not> wd_completed d \<and> \<not> wd_failed d) al) i =
     (case map_of al i of None \<Rightarrow> None | Some d \<Rightarrow> if wd_completed d \<or> wd_failed d then None else Some d)"
    if "distinct (map fst al)" for al :: pending_deliveries
    using that
  proof (induction al)
    case (Cons kd al)
    obtain k d where kd: "kd = (k, d)" by force
    show ?case
    proof (cases "k = i")
      case True
      with Cons.prems kd have "map_of al i = None" by (auto simp: map_of_eq_None_iff)
      with Cons True kd show ?thesis by simp
    next
      case False
      with Cons kd show ?thesis by simp
    qed
  qed simp
  with assms show "lookup_delivery (cleanup_deliveries m) i =
     (case lookup_delivery m i of None \<Rightarrow> None | Some d \<Rightarrow> if wd_completed d \<or> wd_failed d then None else Some d)"
    by (simp add: cleanup_deliveries_def)
qed

text \<open>What a step does to one identifier.\<close>

definition moved :: "webhook_manager \<Rightarrow> webhook_manager \<Rightarrow> delivery_id \<Rightarrow> delivery \<Rightarrow> bool" where
  "moved m m' i d \<longleftrightarrow>
     lookup_delivery m' i = Some d \<and> requests_of i m' = requests_of i m
     \<or> lookup_delivery m' i = None \<and> (wd_completed d \<or> wd_failed d) \<and> requests_of i m' = requests_of i m
     \<or> (\<exists>d' now. lookup_delivery m' i = Some d' \<and> attempted d d' \<and> is_ready_for_retry now d \<and>
          requests_of i m' = requests_of i m + 1)"

definition entered :: "webhook_manager \<Rightarrow> webhook_manager \<Rightarrow> delivery_id \<Rightarrow> bool" where
  "entered m m' i \<longleftrightarrow> requests_of i m' = requests_of i m \<and>
     (lookup_delivery m' i = None \<or>
      requests_of i m = 0 \<and> (\<exists>now c p. lookup_delivery m' i = Some (new_delivery i now c p)))"

definition effect :: "webhook_manager \<Rightarrow> webhook_manager \<Rightarrow> delivery_id \<Rightarrow> bool" where
  "effect m m' i \<longleftrightarrow> distinct (map fst (wm_pending m')) \<and>
     (case lookup_delivery m i of None \<Rightarrow> entered m m' i | Some d \<Rightarrow> moved m m' i d)"

lemma effect_same:
  "distinct (map fst (wm_pending m')) \<Longrightarrow> lookup_delivery m' i = lookup_delivery m i \<Longrightarrow>
     requests_of i m' = requests_of i m \<Longrightarrow> effect m m' i"
  by (simp add: effect_def entered_def moved_def split: option.splits)

lemma queue_effect:
  assumes ids: "distinct (map ids [0..<length (wm_configs m)])" "\<forall>n < length (wm_configs m). ids n \<notin> used_ids m"
    and m': "m' = queue_webhook renders ids now p m" and dist: "distinct (map fst (wm_pending m))"
  shows "effect m m' i"
proof (cases "lookup_delivery m' i = lookup_delivery m i")
  case True
  then show ?thesis using queue_lookup(1,2) [OF ids(1) m'] dist by (blast intro: effect_same)
next
  case False
  with queue_lookup(3) [OF ids(1) m', of i] obtain n c where
    n: "n < length (wm_configs m)" "ids n = i" "lookup_delivery m' i = Some (new_delivery i now c p)"
    by blast
  then have "i \<notin> used_ids m" using ids(2) by blast
  with n(3) queue_lookup(1,2) [OF ids(1) m'] dist show ?thesis
    by (auto simp: effect_def entered_def used_lookup used_requests)
qed

lemma process_effect:
  assumes "wh_ok m" "m' = process_ready_deliveries now env m"
  shows "effect m m' i"
proof (cases "lookup_delivery m i")
  case None
  with round_effect(1) [OF assms] round_effect(2) [OF assms, of i] show ?thesis by (simp add: effect_def entered_def)
next
  case (Some d)
  show ?thesis
  proof (cases "is_ready_for_retry now d")
    case True
    from round_effect(1) [OF assms] round_effect(4) [OF assms Some True] True show ?thesis
      by (auto simp: effect_def moved_def Some)
  next
    case False
    from round_effect(1) [OF assms] round_effect(3) [OF assms Some False] show ?thesis
      by (simp add: effect_def moved_def Some)
  qed
qed

lemma wh_step_effect:
  assumes "wh_step renders m m'" "wh_ok m"
  shows "effect m m' i"
proof -
  have dist: "distinct (map fst (wm_pending m))" using assms(2) by (simp add: wh_ok_def)
  from assms(1) show ?thesis
  proof cases
    case (QueueWebhook ids now p)
    then show ?thesis using dist by (blast intro: queue_effect)
  next
    case (Round now env)
    with assms(2) show ?thesis by (blast intro: process_effect)
  next
    case Cleanup
    then have "requests_of i m' = requests_of i m" by (simp add: requests_of_def cleanup_deliveries_def)
    with Cleanup cleanup_lookup [OF dist] show ?thesis
      by (auto simp: effect_def entered_def moved_def split: option.splits)
  next
    case CleanupHistory
    then show ?thesis using dist by (intro effect_same) (simp_all add: cleanup_history_def requests_of_def)
  next
    case Names
    then show ?thesis using dist by (intro effect_same) (simp_all add: update_network_names_def requests_of_def)
  qed
qed

lemma delivery_ok_cong:
  assumes "delivery_ok m i d" "requests_of i m' = requests_of i m"
  shows "delivery_ok m' i d"
  using assms(1) unfolding delivery_ok_def assms(2) .

lemma wh_step_ok:
  assumes "wh_step renders m m'" "wh_ok m"
  shows "wh_ok m'"
  unfolding wh_ok_def
proof (intro conjI allI impI)
  note eff = wh_step_effect [OF assms]
  show "distinct (map fst (wm_pending m'))" using eff by (simp add: effect_def)
  fix i d' assume d': "lookup_delivery m' i = Some d'"
  show "delivery_ok m' i d'"
  proof (cases "lookup_delivery m i")
    case None
    with eff [of i] d' show ?thesis by (auto simp: effect_def entered_def delivery_ok_def new_delivery_def)
  next
    case (Some d)
    then have ok: "delivery_ok m i d" using assms(2) by (simp add: wh_ok_def)
    from eff [of i] Some d' have "moved m m' i d" by (simp add: effect_def)
    with d' ok show ?thesis
      unfolding moved_def by (auto intro: attempted_ok delivery_ok_cong)
  qed
qed

lemma wh_steps_ok: "(wh_step renders)\<^sup>*\<^sup>* m m' \<Longrightarrow> wh_ok m \<Longrightarrow> wh_ok m'"
  by (induction rule: rtranclp_induct) (auto intro: wh_step_ok)

lemma new_manager_ok: "ob_requests ob = [] \<Longrightarrow> wh_ok (new_webhook_manager cs ns ob)"
  by (simp add: wh_ok_def new_webhook_manager_def)

section \<open>How often an endpoint is called\<close>

text \<open>A delivery that is still pending, or gone after it was completed or failed.\<close>

definition tracked :: "delivery \<Rightarrow> nat \<Rightarrow> webhook_manager \<Rightarrow> bool" where
  "tracked d n m \<longleftrightarrow>
     (case lookup_delivery m (wd_id d) of
        Some d' \<Rightarrow> wd_max_retries d' = wd_max_retries d \<and> (wd_completed d \<longrightarrow> wd_completed d')
      | None \<Rightarrow> 0 < requests_of (wd_id d) m \<and> requests_of (wd_id d) m \<le> unat (wd_max_retries d)) \<and>
     (wd_completed d \<longrightarrow> requests_of (wd_id d) m = n)"

lemma completed_not_ready: "wd_completed d \<Longrightarrow> \<not> is_ready_for_retry now d"
  by (simp add: is_ready_for_retry_def should_retry_def)

lemma tracked_step:
  assumes "tracked d n m" "effect m m' (wd_id d)" "wh_ok m"
  shows "tracked d n m'"
proof (cases "lookup_delivery m (wd_id d)")
  case None
  with assms(1,2) show ?thesis by (auto simp: tracked_def effect_def entered_def)
next
  case (Some d1)
  then have ok: "delivery_ok m (wd_id d) d1" using assms(3) by (simp add: wh_ok_def)
  from Some assms(1) have t: "wd_max_retries d1 = wd_max_retries d" "wd_completed d \<longrightarrow> wd_completed d1"
    "wd_completed d \<longrightarrow> requests_of (wd_id d) m = n" by (simp_all add: tracked_def)
  from Some assms(2) have "moved m m' (wd_id d) d1" by (simp add: effect_def)
  then consider
      "lookup_delivery m' (wd_id d) = Some d1" "requests_of (wd_id d) m' = requests_of (wd_id d) m"
    | "lookup_delivery m' (wd_id d) = None" "wd_completed d1 \<or> wd_failed d1"
      "requests_of (wd_id d) m' = requests_of (wd_id d) m"
    | d2 now where "lookup_delivery m' (wd_id d) = Some d2" "attempted d1 d2" "is_ready_for_retry now d1"
    unfolding moved_def by (elim disjE conjE exE) auto
  then show ?thesis
  proof cases
    case 1
    with t show ?thesis by (simp add: tracked_def)
  next
    case 2
    from ok 2(2) have "0 < requests_of (wd_id d) m" "requests_of (wd_id d) m \<le> unat (wd_max_retries d1)"
      unfolding delivery_ok_def by blast+
    with 2 t show ?thesis by (simp add: tracked_def)
  next
    case 3
    then have "\<not> wd_completed d1" using completed_not_ready by blast
    with t 3 show ?thesis by (simp add: tracked_def attempted_def)
  qed
qed

lemma tracked_steps:
  "(wh_step renders)\<^sup>*\<^sup>* m m' \<Longrightarrow> wh_ok m \<Longrightarrow> tracked d n m \<Longrightarrow> tracked d n m'"
proof (induction rule: rtranclp_induct)
  case (step m1 m2)
  then have "wh_ok m1" using wh_steps_ok by blast
  with step show ?case using wh_step_effect tracked_step by blast
qed simp

lemma tracked_bound:
  assumes "tracked d n m" "wh_ok m"
  shows "requests_of (wd_id d) m \<le> unat (wd_max_retries d)"
  using assms by (fastforce simp: tracked_def wh_ok_def delivery_ok_def split: option.splits)

text \<open>C31: the manager calls the endpoint of a delivery at most as often as its configuration allows, and never
  again once the endpoint has accepted it, over any sequence of events, rounds, clean-ups and renamings
  in which a round stores its results before the next begins. Both provisos are needed:
  \<open>overlapping_rounds_resend\<close> and \<open>lost_results_unbounded\<close> below show what happens without them.\<close>

theorem webhook_attempts_bounded:
  assumes "(wh_step renders)\<^sup>*\<^sup>* (new_webhook_manager cs ns \<lparr> ob_history = h, ob_requests = [] \<rparr>) m"
    and "lookup_delivery m i = Some d" "(wh_step renders)\<^sup>*\<^sup>* m m'"
  shows "requests_of i m' \<le> unat (wd_max_retries d) \<and>
    (wd_completed d \<longrightarrow> requests_of i m' = requests_of i m)"
proof -
  have ok: "wh_ok m" using wh_steps_ok [OF assms(1)] by (simp add: new_manager_ok)
  then have i: "wd_id d = i" using assms(2) by (simp add: wh_ok_def delivery_ok_def)
  with assms(2) have "tracked d (requests_of i m) m" by (simp add: tracked_def)
  from tracked_steps [OF assms(3) ok this] wh_steps_ok [OF assms(3) ok] tracked_bound i
  show ?thesis by (auto simp: tracked_def)
qed

text \<open>An alert that is queued, refused once and then accepted.\<close>

definition ex_webhook :: "u32 option \<Rightarrow> webhook_config" where
  "ex_webhook retries =
     \<lparr> wc_endpoint = ''https://hook'', wc_shared_secret = ''s'', wc_networks = AllNetworks,
       wc_max_retries = retries, wc_alert_on_low_balances = Some True \<rparr>"

definition ex_alert :: payload where
  "ex_alert = BalancePayload \<lparr> ba_relayer_id = ''r'', ba_address = 7, ba_chain_id = 1,
     ba_current_balance = 0, ba_minimum_balance = 5 \<rparr> 0"

definition ex_attempt :: "string + (nat \<times> string) \<Rightarrow> attempt_env" where
  "ex_attempt answer =
     \<lparr> wa_create_ok = True, wa_now_create = 0, wa_start = 0, wa_end = 5000000, wa_answer = answer,
       wa_update_ok = True, wa_now_update = 0 \<rparr>"

abbreviation ex_new :: "u32 option \<Rightarrow> webhook_manager" where
  "ex_new retries \<equiv> new_webhook_manager [ex_webhook retries] [] \<lparr> ob_history = [], ob_requests = [] \<rparr>"

abbreviation ex_queued :: "u32 option \<Rightarrow> webhook_manager" where
  "ex_queued retries \<equiv> queue_webhook (\<lambda>p. True) (\<lambda>n. 9) 0 ex_alert (ex_new retries)"

definition ex_refused :: webhook_manager where
  "ex_refused = process_ready_deliveries 1 (\<lambda>i. ex_attempt (Inl ''refused'')) (ex_queued None)"

definition ex_accepted :: webhook_manager where
  "ex_accepted = process_ready_deliveries 5000000000 (\<lambda>i. ex_attempt (Inr (200, ''ok''))) ex_refused"

lemma ex_steps:
  "(wh_step (\<lambda>p. True))\<^sup>*\<^sup>* (ex_new None) (ex_queued None)"
  "(wh_step (\<lambda>p. True))\<^sup>*\<^sup>* (ex_queued None) ex_accepted"
proof -
  have "wh_step (\<lambda>p. True) (ex_new None) (ex_queued None)"
    by (rule QueueWebhook) (simp_all add: new_webhook_manager_def used_ids_def)
  then show "(wh_step (\<lambda>p. True))\<^sup>*\<^sup>* (ex_new None) (ex_queued None)" ..
  have "wh_step (\<lambda>p. True) (ex_queued None) ex_refused" unfolding ex_refused_def by (rule Round)
  moreover have "wh_step (\<lambda>p. True) ex_refused ex_accepted" unfolding ex_accepted_def by (rule Round)
  ultimately show "(wh_step (\<lambda>p. True))\<^sup>*\<^sup>* (ex_queued None) ex_accepted"
    by (blast intro: rtranclp.rtrancl_into_rtrancl)
qed

lemma ex_values:
  "lookup_delivery (ex_queued None) 9 = Some (new_delivery 9 0 (ex_webhook None) ex_alert)"
  "requests_of 9 ex_accepted = 2"
  "map dr_status (ob_history (wm_outbox ex_accepted)) = []"
  by code_simp+

theorem webhook_attempts_bounded_witness:
  "requests_of 9 ex_accepted = 2 \<and> requests_of 9 ex_accepted \<le> unat (3::u32)"
  using webhook_attempts_bounded [OF ex_steps(1) ex_values(1) ex_steps(2)] ex_values(2)
  by (simp add: new_delivery_def ex_webhook_def)

section \<open>Where deliveries fall short\<close>

text \<open>
  The third value above is the history of a delivery whose event the column's type does not have: nothing
  is recorded of an alert, whatever happens to it.
\<close>

lemma alert_not_recorded:
  assumes "wd_event_type d = EvLowBalance"
  shows "create_webhook_delivery (initial_row now d) rows =
    Inl ''invalid input value for enum webhook.event_type''"
  using assms
  by (simp add: create_webhook_delivery_def initial_row_def event_type_enum_def split: prod.splits)

text \<open>A configured bound of zero retries is a delivery that is never sent and never removed.\<close>

lemma zero_retries_never_ready:
  "wc_max_retries c = Some 0 \<Longrightarrow> \<not> is_ready_for_retry now (new_delivery i t c p)"
  by (simp add: is_ready_for_retry_def should_retry_def new_delivery_def)

lemma zero_retries_stuck:
  assumes "lookup_delivery m i = Some (new_delivery i t c p)" "wc_max_retries c = Some 0" "wh_ok m"
  shows "lookup_delivery (process_ready_deliveries now env m) i = lookup_delivery m i"
    and "requests_of i (process_ready_deliveries now env m) = requests_of i m"
    and "lookup_delivery (cleanup_deliveries m) i = lookup_delivery m i"
proof -
  note r = round_effect(3) [OF assms(3) refl assms(1) zero_retries_never_ready [OF assms(2)]]
  show "lookup_delivery (process_ready_deliveries now env m) i = lookup_delivery m i"
    "requests_of i (process_ready_deliveries now env m) = requests_of i m"
    using r assms(1) by simp_all
  show "lookup_delivery (cleanup_deliveries m) i = lookup_delivery m i"
    using cleanup_lookup(1) [of m i] assms by (simp add: wh_ok_def new_delivery_def)
qed

text \<open>
  Two rounds that overlap: both take the delivery before either has stored its result, the first is
  accepted and the second refused. The refusal is stored last, and a later round sends the delivery a
  third time.
\<close>

definition ex_overlap :: webhook_manager where
  "ex_overlap =
     (let ds = ready_deliveries 1 (ex_queued None);
          m1 = deliver_and_store (\<lambda>i. ex_attempt (Inr (200, ''ok''))) ds (ex_queued None)
      in deliver_and_store (\<lambda>i. ex_attempt (Inl ''refused'')) ds m1)"

lemma overlapping_rounds_resend:
  "map (wd_completed \<circ> snd) (wm_pending ex_overlap) = [False]"
  "requests_of 9 (process_ready_deliveries 5000000000 (\<lambda>i. ex_attempt (Inr (200, ''ok''))) ex_overlap) = 3"
  by code_simp+

text \<open>
  A background round that cannot store its results leaves every delivery ready: an endpoint that accepts
  each call is called again by every such round, past any bound.
\<close>

lemma background_round_stored: "background_round now env True True True m = process_ready_deliveries now env m"
  by (simp add: background_round_def process_ready_deliveries_def deliver_and_store_def Let_def
      store_deliveries_def)

lemma lost_round_pending: "wm_pending (background_round now env a b False m) = wm_pending m"
  by (simp add: background_round_def Let_def split: prod.splits)

lemma lost_rounds_pending: "wm_pending ((background_round now env a b False ^^ n) m) = wm_pending m"
  by (induction n) (simp_all add: lost_round_pending)

lemma lost_round_requests:
  assumes "lookup_delivery m i = Some d" "is_ready_for_retry now d" "wh_ok m"
  shows "requests_of i ((background_round now env True True False ^^ n) m) = requests_of i m + n"
proof (induction n)
  case (Suc n)
  let ?m = "(background_round now env True True False ^^ n) m"
  have ready: "ready_deliveries now ?m = ready_deliveries now m"
    by (simp add: ready_deliveries_def lost_rounds_pending)
  have dist: "distinct (map fst (wm_pending m))" using assms(3) by (simp add: wh_ok_def)
  have key: "\<forall>(k, d) \<in> set (wm_pending m). wd_id d = k"
    using assms(3) dist by (auto simp: wh_ok_def delivery_ok_def)
  have pick: "filter (\<lambda>d. wd_id d = i) (ready_deliveries now m) = [d]"
    using filter_keyed [OF dist key, of i "is_ready_for_retry now"] assms(1,2)
    by (simp add: ready_deliveries_def)
  then have ne: "ready_deliveries now m \<noteq> []" by auto
  obtain ds' ob where sent: "send_multiple_webhooks env (ready_deliveries now m) (wm_outbox ?m) = (ds', ob)"
    by force
  have "\<forall>d \<in> set (ready_deliveries now m). \<not> wd_completed d"
    by (auto simp: ready_deliveries_def is_ready_for_retry_def should_retry_def)
  from send_multiple_attempts [OF this sent]
  have "ob_requests ob = ob_requests (wm_outbox ?m) @ map request_of (ready_deliveries now m)" ..
  moreover have "background_round now env True True False ?m = ?m\<lparr> wm_outbox := ob \<rparr>"
    using ne sent by (simp add: background_round_def ready)
  ultimately have "requests_of i (background_round now env True True False ?m) = requests_of i ?m + 1"
    using pick by (simp add: requests_of_def filter_map o_def)
  then show ?case using Suc.IH by simp
qed simp

lemma lost_results_unbounded:
  "requests_of 9 ((background_round 1 (\<lambda>i. ex_attempt (Inr (200, ''ok''))) True True False ^^ n)
     (ex_queued None)) = n"
proof -
  have "wh_ok (ex_queued None)" using wh_steps_ok [OF ex_steps(1)] by (simp add: new_manager_ok)
  moreover have "is_ready_for_retry 1 (new_delivery 9 0 (ex_webhook None) ex_alert)"
    "requests_of 9 (ex_queued None) = 0" by code_simp+
  ultimately show ?thesis using lost_round_requests [OF ex_values(1)] by simp
qed

text \<open>The first attempt that is accepted is recorded as the attempt number zero.\<close>

definition ex_text :: payload where
  "ex_text = text_signed 3 1 ''m'' [] 0 0"

lemma accepted_attempt_recorded_as_zero:
  "map (\<lambda>r. (dr_attempts r, dr_status r)) (ob_history (wm_outbox
     (process_ready_deliveries 1 (\<lambda>i. ex_attempt (Inr (200, ''ok'')))
       (queue_webhook (\<lambda>p. True) (\<lambda>n. 9) 0 ex_text (ex_new None))))) = [(0, DeliveryDelivered)]"
  by code_simp

section \<open>Texts\<close>

lemma event_type_round_trip: "event_type_from_sql (event_type_format e) = Inr e"
  by (cases e) (simp_all add: event_type_from_sql_def)

lemma delivery_status_round_trip: "delivery_status_from_sql (delivery_status_format e) = Inr e"
  by (cases e) (simp_all add: delivery_status_from_sql_def)

text \<open>The backoff never shrinks while attempts are few enough to be positive, and never exceeds two minutes.\<close>

lemma retry_delay_bounded: "0 \<le> sint a \<Longrightarrow> calculate_retry_delay a \<le> 120000"
proof (cases "7 \<le> sint a")
  case False
  assume "0 \<le> sint a"
  with False have "sint a \<in> {0, 1, 2, 3, 4, 5, 6}" by auto
  then show ?thesis by (auto simp: calculate_retry_delay_def Let_def)
qed (simp add: calculate_retry_delay_def Let_def)

end
