(* ===== verification/Fee_Estimators.thy ===== *)
theory Fee_Estimators
  imports Send_Tx "HOL-Library.Signed_Division"
begin

text \<open>
  Where the gas prices come from (gas/fee_estimator/): the answers of the five configured services and of
  the node, and the four tiers that are computed from them. The answers, the parser of amounts in gwei
  (alloy's \<open>parse_units\<close>) and the display of errors are inputs. Prices are \<open>u128\<close> and wrap where the code
  does not check.
\<close>

section \<open>Amounts\<close>

datatype units_error = ParseUnitsError string | UnitsOverflow

text \<open>\<open>ParseUnits\<close>: an unsigned value, or a signed one for a text with a minus sign.\<close>

datatype parse_units = ParsedU256 u256 | ParsedI256 int

type_synonym gwei_parser = "string \<Rightarrow> units_error + parse_units"

datatype gas_estimator_error =
    GasReqwestError string | GasCustomError string | GasUnitsError units_error
  | CanNotWorkOutGasEstimation | ClientCreationError string

fun parsed_to_u128 :: "parse_units \<Rightarrow> u128 option" where
  "parsed_to_u128 (ParsedU256 v) = (if unat v < 2 ^ 128 then Some (ucast v) else None)"
| "parsed_to_u128 (ParsedI256 i) = (if 0 \<le> i \<and> i < 2 ^ 128 then Some (word_of_int i) else None)"

definition parse_formatted_gas_to_u128 :: "gwei_parser \<Rightarrow> string \<Rightarrow> units_error + u128" where
  "parse_formatted_gas_to_u128 parse s = and_then (parse s) (\<lambda>p. ok_or UnitsOverflow (parsed_to_u128 p))"

definition checked_mul_u128 :: "u128 \<Rightarrow> u128 \<Rightarrow> u128 option" where
  "checked_mul_u128 a b = (if unat a * unat b < 2 ^ 128 then Some (a * b) else None)"

text \<open>A percentage of an \<open>i64\<close>: the product wraps, the division truncates.\<close>

definition i64_percent :: "int \<Rightarrow> int \<Rightarrow> int" where
  "i64_percent w p = sint (word_of_int (w * p) :: u64) sdiv 100"

text \<open>The fees and waiting times of a tier, and 120 and 80 percent of them for the fastest one.\<close>

definition scaled_fee :: "gwei_parser \<Rightarrow> bool \<Rightarrow> string \<Rightarrow> units_error + u128" where
  "scaled_fee parse super s =
     and_then (parse_formatted_gas_to_u128 parse s) (\<lambda>v.
       ok_or UnitsOverflow (map_option (\<lambda>x. x div 100) (checked_mul_u128 v (if super then 120 else 100))))"

definition scaled_tier ::
  "gwei_parser \<Rightarrow> bool \<Rightarrow> string \<Rightarrow> string \<Rightarrow> int \<Rightarrow> int \<Rightarrow> units_error + gas_price_result" where
  "scaled_tier parse super priority fee min_wait max_wait =
     and_then (scaled_fee parse super priority) (\<lambda>p.
     and_then (scaled_fee parse super fee) (\<lambda>f.
       Inr \<lparr> gp_max_priority_fee = p, gp_max_fee = f,
             gp_min_wait_time_estimate = Some (i64_percent min_wait (if super then 80 else 100)),
             gp_max_wait_time_estimate = Some (i64_percent max_wait (if super then 80 else 100)) \<rparr>))"

text \<open>Four tiers, computed one after another.\<close>

definition four_tiers ::
  "'e + gas_price_result \<Rightarrow> 'e + gas_price_result \<Rightarrow> 'e + gas_price_result \<Rightarrow> 'e + gas_price_result \<Rightarrow>
   'e + gas_estimator_result" where
  "four_tiers slow medium fast super =
     and_then slow (\<lambda>s. and_then medium (\<lambda>m. and_then fast (\<lambda>f. and_then super (\<lambda>p.
       Inr \<lparr> ge_slow = s, ge_medium = m, ge_fast = f, ge_super_fast = p \<rparr>))))"

section \<open>Infura\<close>

record infura_speed =
  is_priority :: string
  is_fee :: string
  is_min_wait :: int
  is_max_wait :: int

record infura_estimate =
  ie_low :: infura_speed
  ie_medium :: infura_speed
  ie_high :: infura_speed

definition infura_gas_price_result :: "gwei_parser \<Rightarrow> infura_speed \<Rightarrow> bool \<Rightarrow> units_error + gas_price_result"
  where
  "infura_gas_price_result parse s super =
     scaled_tier parse super (is_priority s) (is_fee s) (is_min_wait s) (is_max_wait s)"

definition infura_to_base_result :: "gwei_parser \<Rightarrow> infura_estimate \<Rightarrow> units_error + gas_estimator_result" where
  "infura_to_base_result parse e =
     four_tiers (infura_gas_price_result parse (ie_low e) False)
       (infura_gas_price_result parse (ie_medium e) False)
       (infura_gas_price_result parse (ie_high e) False)
       (infura_gas_price_result parse (ie_high e) True)"

definition infura_supported_chains :: "chain_id list" where
  "infura_supported_chains =
     [1, 5, 11155111, 42161, 42170, 43114, 8453, 56, 204, 25, 250, 314, 59144, 59140, 10, 137, 100, 324,
      5000, 11297108109, 534352, 1923, 130]"

definition infura_endpoint :: "chain_id \<Rightarrow> string" where
  "infura_endpoint c =
     ''https://gas.api.infura.io/networks/'' @ show_digits (unat c) @ ''/suggestedGasFees''"

definition infura_get_gas_prices ::
  "gwei_parser \<Rightarrow> string + infura_estimate \<Rightarrow> gas_estimator_error + gas_estimator_result" where
  "infura_get_gas_prices parse answer =
     and_then (map_err GasReqwestError answer) (\<lambda>e. map_err GasUnitsError (infura_to_base_result parse e))"

section \<open>Tenderly\<close>

record tenderly_speed =
  tn_priority :: string
  tn_fee :: string
  tn_wait :: int

record tenderly_estimate =
  te_low :: tenderly_speed
  te_medium :: tenderly_speed
  te_high :: tenderly_speed

definition tenderly_gas_price_result ::
  "gwei_parser \<Rightarrow> tenderly_speed \<Rightarrow> bool \<Rightarrow> units_error + gas_price_result" where
  "tenderly_gas_price_result parse s super =
     scaled_tier parse super (tn_priority s) (tn_fee s) (tn_wait s) (tn_wait s)"

definition tenderly_to_base_result ::
  "gwei_parser \<Rightarrow> tenderly_estimate \<Rightarrow> units_error + gas_estimator_result" where
  "tenderly_to_base_result parse e =
     four_tiers (tenderly_gas_price_result parse (te_low e) False)
       (tenderly_gas_price_result parse (te_medium e) False)
       (tenderly_gas_price_result parse (te_high e) False)
       (tenderly_gas_price_result parse (te_high e) True)"

definition tenderly_supported_chains :: "(chain_id \<times> string) list" where
  "tenderly_supported_chains =
     [(1, ''https://mainnet.gateway.tenderly.co''), (11155111, ''https://sepolia.gateway.tenderly.co''),
      (17000, ''https://holesky.gateway.tenderly.co''),
      (42161, ''https://arbitrum.gateway.tenderly.co''),
      (42170, ''https://arbitrum-nova.gateway.tenderly.co''),
      (421614, ''https://arbitrum-sepolia.gateway.tenderly.co''),
      (43114, ''https://avalanche.gateway.tenderly.co''),
      (43113, ''https://avalanche-fuji.gateway.tenderly.co''),
      (59144, ''https://linea.gateway.tenderly.co''),
      (59141, ''https://linea-sepolia.gateway.tenderly.co''),
      (8453, ''https://base.gateway.tenderly.co''),
      (84532, ''https://base-sepolia.gateway.tenderly.co''),
      (10, ''https://optimism.gateway.tenderly.co''),
      (11155420, ''https://optimism-sepolia.gateway.tenderly.co''),
      (137, ''https://polygon.gateway.tenderly.co''),
      (80002, ''https://polygon-amoy.gateway.tenderly.co''),
      (33139, ''https://apechain.gateway.tenderly.co''), (33111, ''https://curtis.gateway.tenderly.co''),
      (21000000, ''https://corn.gateway.tenderly.co''),
      (21000001, ''https://corn-testnet.gateway.tenderly.co''),
      (81457, ''https://blast.gateway.tenderly.co''), (56288, ''https://boba-bnb.gateway.tenderly.co''),
      (9728, ''https://boba-bnb-testnet.gateway.tenderly.co''),
      (288, ''https://boba-ethereum.gateway.tenderly.co''),
      (28882, ''https://boba-sepolia.gateway.tenderly.co''),
      (80094, ''https://berachain.gateway.tenderly.co''),
      (12739, ''https://concrete.gateway.tenderly.co''),
      (18291, ''https://concrete-testnet.gateway.tenderly.co''),
      (14, ''https://flare.gateway.tenderly.co''), (252, ''https://fraxtal.gateway.tenderly.co''),
      (2522, ''https://fraxtal-holesky.gateway.tenderly.co''),
      (60808, ''https://bob.gateway.tenderly.co''),
      (808813, ''https://bob-testnet.gateway.tenderly.co''),
      (13371, ''https://immutable.gateway.tenderly.co''),
      (13473, ''https://immutable-testnet.gateway.tenderly.co''),
      (57073, ''https://ink.gateway.tenderly.co''),
      (763373, ''https://ink-sepolia.gateway.tenderly.co''),
      (7887, ''https://kinto.gateway.tenderly.co''), (1135, ''https://lisk.gateway.tenderly.co''),
      (232, ''https://lens.gateway.tenderly.co''), (37111, ''https://lens-sepolia.gateway.tenderly.co''),
      (4202, ''https://lisk-sepolia.gateway.tenderly.co''),
      (5000, ''https://mantle.gateway.tenderly.co''),
      (5003, ''https://mantle-sepolia.gateway.tenderly.co''),
      (1088, ''https://metis-andromeda.gateway.tenderly.co''),
      (59902, ''https://metis-sepolia.gateway.tenderly.co''),
      (34443, ''https://mode.gateway.tenderly.co''), (919, ''https://mode-sepolia.gateway.tenderly.co''),
      (2818, ''https://morph.gateway.tenderly.co''),
      (2810, ''https://morph-holesky.gateway.tenderly.co''),
      (8008, ''https://polynomial.gateway.tenderly.co''),
      (80008, ''https://polynomial-sepolia.gateway.tenderly.co''),
      (111188, ''https://tangible-real.gateway.tenderly.co''),
      (18233, ''https://tangible-unreal.gateway.tenderly.co''),
      (1868, ''https://soneium.gateway.tenderly.co''),
      (1946, ''https://soneium-minato.gateway.tenderly.co''),
      (146, ''https://sonic.gateway.tenderly.co''), (57054, ''https://sonic-blaze.gateway.tenderly.co''),
      (1923, ''https://swellchain.gateway.tenderly.co''),
      (1924, ''https://swellchain-sepolia.gateway.tenderly.co''),
      (167009, ''https://taiko-hekla.gateway.tenderly.co''),
      (167000, ''https://taiko-mainnet.gateway.tenderly.co''),
      (130, ''https://unichain.gateway.tenderly.co''),
      (1301, ''https://unichain-sepolia.gateway.tenderly.co''),
      (480, ''https://worldchain-mainnet.gateway.tenderly.co''),
      (4801, ''https://worldchain-sepolia.gateway.tenderly.co''),
      (534352, ''https://scroll-mainnet.gateway.tenderly.co''),
      (534351, ''https://scroll-sepolia.gateway.tenderly.co''),
      (2020, ''https://ronin.gateway.tenderly.co''),
      (2021, ''https://ronin-testnet.gateway.tenderly.co''),
      (50104, ''https://sophon.gateway.tenderly.co''),
      (53105104, ''https://sophon-testnet.gateway.tenderly.co''),
      (1514, ''https://story.gateway.tenderly.co''),
      (1315, ''https://story-aeneid.gateway.tenderly.co''),
      (324, ''https://zksync.gateway.tenderly.co''),
      (300, ''https://zksync-sepolia.gateway.tenderly.co'')]"

text \<open>The entry of a chain: the first one in the list.\<close>

definition tenderly_endpoint :: "string \<Rightarrow> chain_id \<Rightarrow> string + string" where
  "tenderly_endpoint key c =
     (case find (\<lambda>e. fst e = c) tenderly_supported_chains of
        None \<Rightarrow> Inl (''Chain not found: '' @ show_digits (unat c))
      | Some (_, url) \<Rightarrow> Inr (url @ ''/'' @ key))"

text \<open>For a chain that is not in the list an invalid address is requested, to obtain an error.\<close>

definition tenderly_get_gas_prices ::
  "gwei_parser \<Rightarrow> string \<Rightarrow> chain_id \<Rightarrow> string \<Rightarrow> (string \<Rightarrow> string + tenderly_estimate) \<Rightarrow>
   gas_estimator_error + gas_estimator_result" where
  "tenderly_get_gas_prices parse key c invalid_url answer =
     (case tenderly_endpoint key c of
        Inl e \<Rightarrow> Inl (GasReqwestError invalid_url)
      | Inr url \<Rightarrow>
          and_then (map_err GasReqwestError (answer url)) (\<lambda>e.
            map_err GasUnitsError (tenderly_to_base_result parse e)))"

section \<open>A custom service\<close>

record custom_speed =
  cu_priority :: string
  cu_fee :: string
  cu_min_wait :: "int option"
  cu_max_wait :: "int option"

record custom_estimate =
  ce_slow :: custom_speed
  ce_medium :: custom_speed
  ce_fast :: custom_speed
  ce_super_fast :: custom_speed

definition custom_gas_price_result :: "gwei_parser \<Rightarrow> custom_speed \<Rightarrow> units_error + gas_price_result" where
  "custom_gas_price_result parse s =
     and_then (parse_formatted_gas_to_u128 parse (cu_priority s)) (\<lambda>p.
     and_then (parse_formatted_gas_to_u128 parse (cu_fee s)) (\<lambda>f.
       Inr \<lparr> gp_max_priority_fee = p, gp_max_fee = f, gp_min_wait_time_estimate = cu_min_wait s,
             gp_max_wait_time_estimate = cu_max_wait s \<rparr>))"

definition custom_to_base_result :: "gwei_parser \<Rightarrow> custom_estimate \<Rightarrow> units_error + gas_estimator_result" where
  "custom_to_base_result parse e =
     four_tiers (custom_gas_price_result parse (ce_slow e)) (custom_gas_price_result parse (ce_medium e))
       (custom_gas_price_result parse (ce_fast e)) (custom_gas_price_result parse (ce_super_fast e))"

record custom_gas_config =
  cg_endpoint :: string
  cg_supported_chains :: "chain_id list"
  cg_auth_header :: "string option"

definition custom_endpoint :: "custom_gas_config \<Rightarrow> chain_id \<Rightarrow> string" where
  "custom_endpoint g c = cg_endpoint g @ ''/'' @ show_digits (unat c)"

definition custom_get_gas_prices ::
  "gwei_parser \<Rightarrow> string + custom_estimate \<Rightarrow> gas_estimator_error + gas_estimator_result" where
  "custom_get_gas_prices parse answer =
     and_then (map_err GasReqwestError answer) (\<lambda>e. map_err GasUnitsError (custom_to_base_result parse e))"

section \<open>Blocknative\<close>

record blocknative_price =
  bp_confidence :: u8
  bp_price :: u64
  bp_max_priority_fee :: u64
  bp_max_fee :: u64

definition GWEI_TO_WEI :: u128 where
  "GWEI_TO_WEI = 1000000000"

definition get_estimate_by_confidence :: "blocknative_price list \<Rightarrow> u8 \<Rightarrow> blocknative_price option" where
  "get_estimate_by_confidence ps c = find (\<lambda>p. bp_confidence p = c) ps"

definition or_else :: "'a option \<Rightarrow> 'a option \<Rightarrow> 'a option" where
  "or_else a b = (case a of Some x \<Rightarrow> Some x | None \<Rightarrow> b)"

definition first_price :: "blocknative_price list \<Rightarrow> blocknative_price option" where
  "first_price ps = (case ps of [] \<Rightarrow> None | p # _ \<Rightarrow> Some p)"

definition last_price :: "blocknative_price list \<Rightarrow> blocknative_price option" where
  "last_price ps = (case rev ps of [] \<Rightarrow> None | p # _ \<Rightarrow> Some p)"

definition blocknative_tier :: "u64 \<Rightarrow> u64 \<Rightarrow> (u128 \<Rightarrow> u128) \<Rightarrow> gas_price_result" where
  "blocknative_tier priority fee scale =
     \<lparr> gp_max_priority_fee = scale (ucast priority) * GWEI_TO_WEI,
       gp_max_fee = scale (ucast fee) * GWEI_TO_WEI,
       gp_min_wait_time_estimate = None, gp_max_wait_time_estimate = None \<rparr>"

definition blocknative_to_base_result ::
  "blocknative_price list \<Rightarrow> gas_estimator_error + gas_estimator_result" where
  "blocknative_to_base_result ps =
     (let at = get_estimate_by_confidence ps;
          none = GasCustomError ''No gas estimates available''
      in and_then (ok_or none (or_else (at 70) (first_price ps))) (\<lambda>slow.
         and_then (ok_or none (or_else (at 80) (or_else (at 70) (first_price ps)))) (\<lambda>medium.
         and_then (ok_or none (or_else (at 90) (or_else (at 95) (last_price ps)))) (\<lambda>fast.
         and_then (ok_or none (or_else (at 95) (or_else (at 99) (last_price ps)))) (\<lambda>super.
           Inr \<lparr> ge_slow = blocknative_tier (bp_max_priority_fee slow) (bp_max_fee slow) (\<lambda>x. x),
                 ge_medium = blocknative_tier (bp_max_priority_fee medium) (bp_max_fee medium) (\<lambda>x. x),
                 ge_fast = blocknative_tier (bp_max_priority_fee fast) (bp_max_fee fast) (\<lambda>x. x),
                 ge_super_fast = blocknative_tier (bp_max_priority_fee super) (bp_max_fee super)
                   (\<lambda>x. x * 120 div 100) \<rparr>)))))"

text \<open>An HTTP answer: no connection, or a status with a body that parses or does not.\<close>

type_synonym 'a http_answer = "string + (nat \<times> string \<times> (string + 'a))"

definition success_status :: "nat \<Rightarrow> bool" where
  "success_status s = (200 \<le> s \<and> s < 300)"

definition read_answer :: "string \<Rightarrow> 'a http_answer \<Rightarrow> gas_estimator_error + 'a" where
  "read_answer service answer =
     and_then (map_err GasReqwestError answer) (\<lambda>(status, text, body).
       if \<not> success_status status then Inl (GasCustomError (service @ '' API returned status: '' @ text))
       else map_err GasCustomError body)"

definition blocknative_get_gas_prices ::
  "blocknative_price list http_answer \<Rightarrow> gas_estimator_error + gas_estimator_result" where
  "blocknative_get_gas_prices answer = and_then (read_answer ''BlockNative'' answer) blocknative_to_base_result"

definition blocknative_supported_chains :: "chain_id list" where
  "blocknative_supported_chains = [1, 10, 56, 137, 42161, 8453, 43114]"

section \<open>Etherscan\<close>

record etherscan_oracle =
  eo_safe :: string
  eo_propose :: string
  eo_fast :: string
  eo_base_fee :: string

record etherscan_response =
  er_status :: string
  er_message :: string
  er_result :: etherscan_oracle

definition parse_gwei_to_wei ::
  "gwei_parser \<Rightarrow> (units_error \<Rightarrow> string) \<Rightarrow> string \<Rightarrow> gas_estimator_error + u128" where
  "parse_gwei_to_wei parse show s =
     and_then (map_err (\<lambda>e. GasCustomError
        (''Failed to parse gas price '' @ [CHR 0x27] @ s @ [CHR 0x27] @ '': '' @ show e)) (parse s))
       (\<lambda>p. ok_or (GasCustomError ''Gwei value too large'') (parsed_to_u128 p))"

definition MIN_PRIORITY_FEE :: u128 where
  "MIN_PRIORITY_FEE = 1000000000"

definition saturating_sub_u128 :: "u128 \<Rightarrow> u128 \<Rightarrow> u128" where
  "saturating_sub_u128 a b = (if b \<le> a then a - b else 0)"

definition tier :: "u128 \<Rightarrow> u128 \<Rightarrow> int option \<Rightarrow> int option \<Rightarrow> gas_price_result" where
  "tier priority fee min_wait max_wait =
     \<lparr> gp_max_priority_fee = priority, gp_max_fee = fee, gp_min_wait_time_estimate = min_wait,
       gp_max_wait_time_estimate = max_wait \<rparr>"

text \<open>The prices of the service are totals: the tip is what is left above the base fee, at least one gwei.\<close>

definition etherscan_to_base_result ::
  "gwei_parser \<Rightarrow> (units_error \<Rightarrow> string) \<Rightarrow> etherscan_oracle \<Rightarrow> gas_estimator_error + gas_estimator_result"
  where
  "etherscan_to_base_result parse show g =
     and_then (parse_gwei_to_wei parse show (eo_base_fee g)) (\<lambda>base.
     and_then (parse_gwei_to_wei parse show (eo_safe g)) (\<lambda>safe.
     and_then (parse_gwei_to_wei parse show (eo_propose g)) (\<lambda>propose.
     and_then (parse_gwei_to_wei parse show (eo_fast g)) (\<lambda>fast.
       let tip = (\<lambda>total. max (saturating_sub_u128 total base) MIN_PRIORITY_FEE)
       in Inr \<lparr> ge_slow = tier (tip safe) safe (Some 300) (Some 600),
                ge_medium = tier (tip propose) propose (Some 60) (Some 180),
                ge_fast = tier (tip fast) fast (Some 15) (Some 60),
                ge_super_fast = tier (tip fast * 120 div 100) (fast * 120 div 100) (Some 5) (Some 15) \<rparr>))))"

definition etherscan_base_urls :: "(chain_id \<times> string) list" where
  "etherscan_base_urls =
     [(1, ''https://api.etherscan.io''), (11155111, ''https://api-sepolia.etherscan.io''),
      (17000, ''https://api-holesky.etherscan.io''), (137, ''https://api.polygonscan.com''),
      (80002, ''https://api-amoy.polygonscan.com''), (56, ''https://api.bscscan.com''),
      (97, ''https://api-testnet.bscscan.com''), (10, ''https://api-optimistic.etherscan.io''),
      (11155420, ''https://api-sepolia-optimistic.etherscan.io''), (42161, ''https://api.arbiscan.io''),
      (421614, ''https://api-sepolia.arbiscan.io''), (8453, ''https://api.basescan.org''),
      (84532, ''https://api-sepolia.basescan.org''), (43114, ''https://api.snowtrace.io''),
      (43113, ''https://api-testnet.snowtrace.io''), (250, ''https://api.ftmscan.com''),
      (4002, ''https://api-testnet.ftmscan.com''), (25, ''https://api.cronoscan.com''),
      (338, ''https://api-testnet.cronoscan.com''), (1284, ''https://api-moonbeam.moonscan.io''),
      (1287, ''https://api-moonbase.moonscan.io''), (1285, ''https://api-moonriver.moonscan.io''),
      (42220, ''https://api.celoscan.io''), (44787, ''https://api-alfajores.celoscan.io''),
      (100, ''https://api.gnosisscan.io''), (59144, ''https://api.lineascan.build''),
      (59141, ''https://api-sepolia.lineascan.build''), (534352, ''https://api.scrollscan.com''),
      (534351, ''https://api-sepolia.scrollscan.com''), (81457, ''https://api.blastscan.io''),
      (168587773, ''https://api-sepolia.blastscan.io''), (324, ''https://api-era.zksync.network''),
      (300, ''https://api-sepolia.era.zksync.network''), (5000, ''https://api.mantlescan.xyz''),
      (5003, ''https://api-sepolia.mantlescan.xyz''), (252, ''https://api.fraxscan.com''),
      (2522, ''https://api-holesky.fraxscan.com''), (34443, ''https://api.modescan.io''),
      (919, ''https://api-sepolia.modescan.io'')]"

definition get_api_base_url :: "chain_id \<Rightarrow> string option" where
  "get_api_base_url c = map_of etherscan_base_urls c"

definition etherscan_get_gas_prices ::
  "gwei_parser \<Rightarrow> (units_error \<Rightarrow> string) \<Rightarrow> string \<Rightarrow> chain_id \<Rightarrow>
   (string \<Rightarrow> etherscan_response http_answer) \<Rightarrow> gas_estimator_error + gas_estimator_result" where
  "etherscan_get_gas_prices parse show key c answer =
     and_then (ok_or (GasCustomError (''Etherscan API not supported for chain '' @ show_digits (unat c)))
                 (get_api_base_url c)) (\<lambda>url.
     and_then (read_answer ''Etherscan''
                 (answer (url @ ''/api?module=gastracker&action=gasoracle&apikey='' @ key))) (\<lambda>r.
       if er_status r \<noteq> ''1'' then Inl (GasCustomError (''Etherscan API error: '' @ er_message r))
       else etherscan_to_base_result parse show (er_result r)))"

section \<open>The node itself\<close>

text \<open>
  The fee history (the base fee of its latest block, and the rewards per block at the percentile that was
  asked for), and the latest block with its base fee, which is read up to two times.
\<close>

record fee_history =
  fh_latest_base_fee :: "u128 option"
  fh_reward :: "u128 list list option"

record fallback_env =
  fb_history :: "string + fee_history"
  fb_block :: "string + u64 option option"
  fb_suggested :: "string + (u128 \<times> u128)"
  fb_current_block :: "string + u64 option option"

definition ethereum_like :: "chain_id \<Rightarrow> bool" where
  "ethereum_like c = (c = 1 \<or> c = 11155111)"

definition past_blocks :: "chain_id \<Rightarrow> nat" where
  "past_blocks c = (if ethereum_like c then 20 else 60)"

definition reward_percentile :: "chain_id \<Rightarrow> nat" where
  "reward_percentile c = (if ethereum_like c then 60 else 25)"

definition history_base_fee :: "fallback_env \<Rightarrow> fee_history \<Rightarrow> gas_estimator_error + u128" where
  "history_base_fee env h =
     (let from_block =
        and_then (map_err GasCustomError (fb_block env)) (\<lambda>block.
        and_then (ok_or (GasCustomError ''Latest block not found'') block) (\<lambda>fee.
          map_sum id ucast (ok_or (GasCustomError ''EIP-1559 not supported'') fee)))
      in case fh_latest_base_fee h of
           Some b \<Rightarrow> if b \<noteq> 0 then Inr b else from_block
         | None \<Rightarrow> from_block)"

definition default_priority_fee :: "chain_id \<Rightarrow> u128" where
  "default_priority_fee c = (if ethereum_like c then 2000000000 else 10000000)"

text \<open>The first reward of every block that has one.\<close>

fun first_rewards :: "u128 list list \<Rightarrow> u128 list" where
  "first_rewards [] = []"
| "first_rewards ([] # bs) = first_rewards bs"
| "first_rewards ((r # rs) # bs) = r # first_rewards bs"

definition median :: "u128 list \<Rightarrow> u128" where
  "median rs = sort rs ! (length rs div 2)"

definition history_priority_fee :: "chain_id \<Rightarrow> fee_history \<Rightarrow> u128" where
  "history_priority_fee c h =
     (case fh_reward h of
        None \<Rightarrow> default_priority_fee c
      | Some blocks \<Rightarrow>
          (if first_rewards blocks = [] then default_priority_fee c else median (first_rewards blocks)))"

definition estimate_with_fee_history ::
  "chain_id \<Rightarrow> fallback_env \<Rightarrow> gas_estimator_error + (u128 \<times> u128)" where
  "estimate_with_fee_history c env =
     and_then (map_err GasCustomError (fb_history env)) (\<lambda>h.
     and_then (history_base_fee env h) (\<lambda>base.
       let priority = history_priority_fee c h
       in Inr (priority,
               if c = 1 then max (base + priority) (priority * 2) else base + priority * 2)))"

definition suggested_fees :: "chain_id \<Rightarrow> fallback_env \<Rightarrow> gas_estimator_error + (u128 \<times> u128)" where
  "suggested_fees c env =
     and_then (map_err GasCustomError (fb_suggested env)) (\<lambda>(fee, priority).
       Inr (priority, if c = 1 then max fee (priority * 2) else fee))"

definition fallback_tiers :: "u128 \<Rightarrow> u128 \<Rightarrow> u128 \<Rightarrow> gas_estimator_result" where
  "fallback_tiers priority fee base =
     \<lparr> ge_slow = tier (priority * 80 div 100) (max (fee * 90 div 100) (base + priority)) (Some 120) (Some 300),
       ge_medium = tier priority (max fee (base + priority)) (Some 30) (Some 120),
       ge_fast = tier (priority * 130 div 100) (max (fee * 120 div 100) (base + priority)) (Some 15) (Some 60),
       ge_super_fast =
         tier (priority * 180 div 100) (max (fee * 150 div 100) (base + priority)) (Some 5) (Some 30) \<rparr>"

definition fallback_get_gas_prices ::
  "chain_id \<Rightarrow> fallback_env \<Rightarrow> gas_estimator_error + gas_estimator_result" where
  "fallback_get_gas_prices c env =
     and_then (case estimate_with_fee_history c env of Inr r \<Rightarrow> Inr r | Inl e \<Rightarrow> suggested_fees c env)
       (\<lambda>(priority, fee).
     and_then (map_err GasCustomError (fb_current_block env)) (\<lambda>block.
       let base = (case block of Some (Some b) \<Rightarrow> ucast b | _ \<Rightarrow> 0)
       in Inr (fallback_tiers priority fee base)))"

section \<open>The choice of an estimator\<close>

datatype gas_provider = BLOCKNATIVE | ETHERSCAN | INFURA | TENDERLY | CUSTOM

definition to_upper :: "char \<Rightarrow> char" where
  "to_upper c = (let n = of_char c :: nat in if 97 \<le> n \<and> n \<le> 122 then char_of (n - 32) else c)"

definition gas_provider_from_str :: "string \<Rightarrow> string + gas_provider" where
  "gas_provider_from_str s =
     (let u = map to_upper s
      in if u = ''BLOCKNATIVE'' then Inr BLOCKNATIVE
         else if u = ''ETHERSCAN'' then Inr ETHERSCAN
         else if u = ''INFURA'' then Inr INFURA
         else if u = ''TENDERLY'' then Inr TENDERLY
         else if u = ''CUSTOM'' then Inr CUSTOM
         else Inl (''Unsupported gas provider: '' @ s))"

record gas_providers =
  gs_infura :: "(string \<times> string) option"
  gs_tenderly :: "string option"
  gs_blocknative :: "string option"
  gs_etherscan :: "string option"
  gs_custom :: "custom_gas_config option"

datatype estimator =
    BlockNativeEstimator string | EtherscanEstimator string | InfuraEstimator string string
  | TenderlyEstimator string | CustomEstimator custom_gas_config | FallbackEstimator string

fun estimator_of :: "gas_provider \<Rightarrow> gas_providers \<Rightarrow> estimator option" where
  "estimator_of BLOCKNATIVE g = map_option BlockNativeEstimator (gs_blocknative g)"
| "estimator_of ETHERSCAN g = map_option EtherscanEstimator (gs_etherscan g)"
| "estimator_of TENDERLY g = map_option TenderlyEstimator (gs_tenderly g)"
| "estimator_of INFURA g = map_option (\<lambda>(key, secret). InfuraEstimator key secret) (gs_infura g)"
| "estimator_of CUSTOM g = map_option CustomEstimator (gs_custom g)"

text \<open>
  The configured estimator of the network when its settings are there, the node otherwise; the URLs are
  not empty, and \<open>client\<close> is the outcome of connecting to the first one.
\<close>

definition get_gas_estimator ::
  "string list \<Rightarrow> gas_providers option \<Rightarrow> gas_provider option \<Rightarrow> string + unit \<Rightarrow> gas_estimator_error + estimator"
  where
  "get_gas_estimator urls providers network client =
     (case (case (providers, network) of (Some g, Some p) \<Rightarrow> estimator_of p g | _ \<Rightarrow> None) of
        Some e \<Rightarrow> Inr e
      | None \<Rightarrow> and_then (map_err ClientCreationError client) (\<lambda>_. Inr (FallbackEstimator (hd urls))))"

text \<open>Which chains an estimator says it supports; the server does not ask.\<close>

fun is_chain_supported :: "estimator \<Rightarrow> chain_id \<Rightarrow> bool" where
  "is_chain_supported (BlockNativeEstimator k) c = (c \<in> set blocknative_supported_chains)"
| "is_chain_supported (EtherscanEstimator k) c = (get_api_base_url c \<noteq> None)"
| "is_chain_supported (InfuraEstimator k s) c = (c \<in> set infura_supported_chains)"
| "is_chain_supported (TenderlyEstimator k) c = (c \<in> fst ` set tenderly_supported_chains)"
| "is_chain_supported (CustomEstimator g) c = (c \<in> set (cg_supported_chains g))"
| "is_chain_supported (FallbackEstimator u) c = True"

end
