(* ===== verification/Fee_Properties.thy ===== *)
theory Fee_Properties
  imports Fee_Estimators
begin

text \<open>
  Properties of the estimated prices: what the four tiers of the node's estimator have in common, which
  answers break them, and the tables of supported chains.
\<close>

section \<open>Arithmetic\<close>

lemma unat_percent:
  assumes "unat p < 2 ^ 110" "k < 256"
  shows "unat (p * word_of_nat k div 100 :: u128) = unat p * k div 100"
proof -
  have "unat p * k < 2 ^ 110 * 256" using assms by (intro mult_strict_mono) simp_all
  then have small: "unat p * k < 2 ^ 128" by simp
  have k: "unat (word_of_nat k :: u128) = k"
    using assms(2) by (simp add: unsigned_of_nat take_bit_nat_eq_self)
  have "unat (p * word_of_nat k) = unat p * k"
    using small k by (simp add: unat_mult_lem [THEN iffD1])
  then show ?thesis by (simp add: unat_div)
qed

lemmas unat_percents =
  unat_percent [of _ 80, simplified] unat_percent [of _ 90, simplified] unat_percent [of _ 120, simplified]
  unat_percent [of _ 130, simplified] unat_percent [of _ 150, simplified] unat_percent [of _ 180, simplified]

lemma unat_add_small:
  "unat (a::u128) < 2 ^ 120 \<Longrightarrow> unat b < 2 ^ 120 \<Longrightarrow> unat (a + b) = unat a + unat b"
  by (simp add: unat_add_lem [THEN iffD1])

lemma unat_double: "unat (a::u128) < 2 ^ 120 \<Longrightarrow> unat (a * 2) = 2 * unat a"
  using unat_add_small [of a a] by (simp add: mult_2_right)

section \<open>The median\<close>

lemma median_in_rewards: "rs \<noteq> [] \<Longrightarrow> median rs \<in> set rs"
proof -
  assume "rs \<noteq> []"
  then have "median rs \<in> set (sort rs)" unfolding median_def by (intro nth_mem) simp
  then show ?thesis by simp
qed

lemma half_below_median: "rs \<noteq> [] \<Longrightarrow> length rs < 2 * length (filter (\<lambda>r. r \<le> median rs) rs)"
proof -
  assume ne: "rs \<noteq> []"
  let ?s = "sort rs" and ?n = "length rs div 2"
  have n: "?n < length ?s" using ne by simp
  have "\<forall>x \<in> set (take (Suc ?n) ?s). x \<le> ?s ! ?n"
    using n by (auto simp: in_set_conv_nth intro!: sorted_nth_mono)
  then have "filter (\<lambda>r. r \<le> ?s ! ?n) (take (Suc ?n) ?s) = take (Suc ?n) ?s" by (simp add: filter_id_conv)
  then have "filter (\<lambda>r. r \<le> ?s ! ?n) ?s =
      take (Suc ?n) ?s @ filter (\<lambda>r. r \<le> ?s ! ?n) (drop (Suc ?n) ?s)"
    using filter_append [of "\<lambda>r. r \<le> ?s ! ?n" "take (Suc ?n) ?s" "drop (Suc ?n) ?s"] by simp
  then have "length (take (Suc ?n) ?s) \<le> length (filter (\<lambda>r. r \<le> ?s ! ?n) ?s)" by simp
  then have "Suc ?n \<le> length (filter (\<lambda>r. r \<le> ?s ! ?n) ?s)" using n by simp
  moreover have "length (filter (\<lambda>r. r \<le> ?s ! ?n) ?s) = length (filter (\<lambda>r. r \<le> ?s ! ?n) rs)"
    by (simp add: filter_sort)
  ultimately show ?thesis by (simp add: median_def)
qed

section \<open>The tiers of the node's estimator\<close>

text \<open>Each tier can pay its tip, covers the base fee, and the tiers do not fall with the speed.\<close>

definition tiers_usable :: "u128 \<Rightarrow> gas_estimator_result \<Rightarrow> bool" where
  "tiers_usable base g \<longleftrightarrow>
     (\<forall>t \<in> {ge_slow g, ge_medium g, ge_fast g, ge_super_fast g}.
        gp_max_priority_fee t \<le> gp_max_fee t \<and> base \<le> gp_max_fee t) \<and>
     gp_max_priority_fee (ge_slow g) \<le> gp_max_priority_fee (ge_medium g) \<and>
     gp_max_priority_fee (ge_medium g) \<le> gp_max_priority_fee (ge_fast g) \<and>
     gp_max_priority_fee (ge_fast g) \<le> gp_max_priority_fee (ge_super_fast g) \<and>
     gp_max_fee (ge_slow g) \<le> gp_max_fee (ge_medium g) \<and>
     gp_max_fee (ge_medium g) \<le> gp_max_fee (ge_fast g) \<and>
     gp_max_fee (ge_fast g) \<le> gp_max_fee (ge_super_fast g)"

lemma fallback_tiers_usable:
  assumes "unat p < 2 ^ 110" "unat f < 2 ^ 110" "unat b < 2 ^ 110" "2 * unat p \<le> unat f"
  shows "tiers_usable b (fallback_tiers p f b)"
proof -
  have add: "unat (b + p) = unat b + unat p" using assms by (intro unat_add_small) simp_all
  have div_mono: "x * k div 100 \<le> x * l div 100" if "k \<le> l" for x k l :: nat
    using that by (intro div_le_mono mult_le_mono2)
  define p8 p13 p18 f9 f12 f15 where vars:
    "p8 = unat p * 80 div 100" "p13 = unat p * 130 div 100" "p18 = unat p * 180 div 100"
    "f9 = unat f * 90 div 100" "f12 = unat f * 120 div 100" "f15 = unat f * 150 div 100"
  have p: "p8 \<le> unat p" "unat p \<le> p13" "p13 \<le> p18" "p18 \<le> 2 * unat p"
    using div_mono [of 80 100 "unat p"] div_mono [of 100 130 "unat p"] div_mono [of 130 180 "unat p"]
      div_mono [of 180 200 "unat p"] by (simp_all add: vars)
  have f: "f9 \<le> unat f" "unat f \<le> f12" "f12 \<le> f15"
    using div_mono [of 90 100 "unat f"] div_mono [of 100 120 "unat f"] div_mono [of 120 150 "unat f"]
    by (simp_all add: vars)
  have tips: "unat (p * 80 div 100) = p8" "unat (p * 130 div 100) = p13" "unat (p * 180 div 100) = p18"
    using assms(1) by (simp_all add: unat_percents vars)
  have fees: "unat (f * 90 div 100) = f9" "unat (f * 120 div 100) = f12" "unat (f * 150 div 100) = f15"
    using assms(2) by (simp_all add: unat_percents vars)
  have order: "p8 \<le> max f9 (unat b + unat p)" "p13 \<le> max f12 (unat b + unat p)"
    "p18 \<le> max f15 (unat b + unat p)" "max f9 (unat b + unat p) \<le> max (unat f) (unat b + unat p)"
    "max (unat f) (unat b + unat p) \<le> max f12 (unat b + unat p)"
    "max f12 (unat b + unat p) \<le> max f15 (unat b + unat p)"
    using p f assms(4) by linarith+
  have room: "unat b \<le> max x (unat b + unat p)" "unat p \<le> max x (unat b + unat p)" for x by simp_all
  show ?thesis
    using order p room
    by (simp add: tiers_usable_def fallback_tiers_def tier_def word_le_nat_alt unat_max add tips fees)
qed

text \<open>The answers stay below \<open>2^100\<close> wei, which is \<open>10^12\<close> ether per gas.\<close>

definition history_bounded :: "fee_history \<Rightarrow> bool" where
  "history_bounded h \<longleftrightarrow>
     (case fh_latest_base_fee h of None \<Rightarrow> True | Some b \<Rightarrow> unat b < 2 ^ 100) \<and>
     (case fh_reward h of None \<Rightarrow> True | Some bs \<Rightarrow> \<forall>r \<in> set (first_rewards bs). unat r < 2 ^ 100)"

lemma ucast_u64_bound: "unat (ucast (x :: u64) :: u128) < 2 ^ 100"
proof -
  have x: "unat x < 2 ^ 64" using unsigned_less [of x] by simp
  then have "unat (ucast x :: u128) = unat x" by (simp add: unsigned_ucast_eq take_bit_nat_eq_self)
  with x show ?thesis by simp
qed

lemma history_base_fee_bound:
  assumes "history_base_fee env h = Inr b" "history_bounded h"
  shows "unat b < 2 ^ 100"
  using assms ucast_u64_bound
  by (auto simp: history_base_fee_def history_bounded_def Let_def and_then_def map_err_def ok_or_def
      split: option.splits sum.splits if_splits)

lemma history_priority_fee_bound:
  assumes "history_bounded h"
  shows "unat (history_priority_fee c h) < 2 ^ 100"
  using assms median_in_rewards
  by (auto simp: history_priority_fee_def history_bounded_def default_priority_fee_def split: option.splits)

lemma fee_history_estimate:
  assumes "estimate_with_fee_history c env = Inr (p, f)" "fb_history env = Inr h" "history_bounded h"
  shows "unat p < 2 ^ 100" "unat f < 2 ^ 110" "2 * unat p \<le> unat f"
proof -
  from assms(1,2) obtain b where b: "history_base_fee env h = Inr b" "p = history_priority_fee c h"
    "f = (if c = 1 then max (b + p) (p * 2) else b + p * 2)"
    by (auto simp: estimate_with_fee_history_def Let_def and_then_def split: sum.splits)
  have p: "unat p < 2 ^ 100" using history_priority_fee_bound [OF assms(3)] b(2) by simp
  have base: "unat b < 2 ^ 100" by (rule history_base_fee_bound [OF b(1) assms(3)])
  have "unat (b + p) = unat b + unat p" using p base by (intro unat_add_small) simp_all
  moreover have two: "unat (p * 2) = 2 * unat p" using p by (intro unat_double) simp
  moreover have "unat (b + p * 2) = unat b + 2 * unat p"
    using p base two by (subst unat_add_small) simp_all
  ultimately show "unat f < 2 ^ 110" "2 * unat p \<le> unat f" using b(3) p base by (auto simp: unat_max)
  show "unat p < 2 ^ 100" by (rule p)
qed

text \<open>C32: Prices that come from the fee history of the node are usable: in each of the four tiers the tip is
  at most the fee, the fee covers the base fee of the latest block, and neither falls from a slower tier
  to a faster one, for all answers below \<open>2^100\<close> wei, on every chain.\<close>

theorem fee_history_prices_usable:
  assumes "fallback_get_gas_prices c env = Inr g" "estimate_with_fee_history c env = Inr r"
    and "fb_history env = Inr h" "history_bounded h"
  shows "tiers_usable (case fb_current_block env of Inr (Some (Some b)) \<Rightarrow> ucast b | _ \<Rightarrow> 0) g"
proof -
  obtain p f where r: "r = (p, f)" by force
  note est = fee_history_estimate [OF assms(2) [unfolded r] assms(3,4)]
  define base :: u128 where
    "base = (case fb_current_block env of Inr (Some (Some b)) \<Rightarrow> ucast b | _ \<Rightarrow> 0)"
  have base_bound: "unat base < 2 ^ 110"
    using less_trans [OF ucast_u64_bound, of "2 ^ 110"] by (simp add: base_def split: sum.splits option.splits)
  from assms(1,2) r have "g = fallback_tiers p f base"
    by (auto simp: fallback_get_gas_prices_def Let_def and_then_def map_err_def base_def
        split: sum.splits option.splits)
  then show ?thesis using fallback_tiers_usable [of p f base] est base_bound by (simp add: base_def)
qed

text \<open>Three blocks on a chain with a base fee of seven gwei.\<close>

definition ex_fee_env :: fallback_env where
  "ex_fee_env =
     \<lparr> fb_history = Inr \<lparr> fh_latest_base_fee = Some 7000000000,
                          fh_reward = Some [[1000000000], [3000000000], [2000000000]] \<rparr>,
       fb_block = Inr None, fb_suggested = Inl ''unused'', fb_current_block = Inr (Some (Some 8000000000)) \<rparr>"

theorem fee_history_prices_usable_witness:
  "tiers_usable 8000000000
     (fallback_tiers 2000000000 11000000000 8000000000)"
proof -
  have "estimate_with_fee_history 10 ex_fee_env = Inr (2000000000, 11000000000)"
    "fallback_get_gas_prices 10 ex_fee_env = Inr (fallback_tiers 2000000000 11000000000 8000000000)"
    by code_simp+
  moreover have "fb_history ex_fee_env = Inr \<lparr> fh_latest_base_fee = Some 7000000000,
      fh_reward = Some [[1000000000], [3000000000], [2000000000]] \<rparr>"
    "history_bounded \<lparr> fh_latest_base_fee = Some 7000000000,
      fh_reward = Some [[1000000000], [3000000000], [2000000000]] \<rparr>"
    "fb_current_block ex_fee_env = Inr (Some (Some 8000000000))"
    by (simp_all add: ex_fee_env_def history_bounded_def)
  ultimately show ?thesis using fee_history_prices_usable [of 10 ex_fee_env] by fastforce
qed

section \<open>Where prices are not usable\<close>

text \<open>
  The fallback of the fallback trusts the node: a suggestion whose fee is below 1.8 times its tip gives a
  tip above the fee. So does an oracle whose totals are below one gwei, the least tip the code sets.
\<close>

lemma suggested_tip_above_fee:
  "fallback_get_gas_prices 10 (ex_fee_env\<lparr> fb_history := Inl ''e'', fb_suggested := Inr (10, 10),
     fb_current_block := Inr None \<rparr>) = Inr g \<Longrightarrow>
   gp_max_fee (ge_super_fast g) = 15 \<and> gp_max_priority_fee (ge_super_fast g) = 18"
proof -
  have "fallback_get_gas_prices 10 (ex_fee_env\<lparr> fb_history := Inl ''e'', fb_suggested := Inr (10, 10),
     fb_current_block := Inr None \<rparr>) = Inr (fallback_tiers 10 10 0)" by code_simp
  moreover have "gp_max_fee (ge_super_fast (fallback_tiers 10 10 0)) = 15"
    "gp_max_priority_fee (ge_super_fast (fallback_tiers 10 10 0)) = 18" by code_simp+
  moreover assume "fallback_get_gas_prices 10 (ex_fee_env\<lparr> fb_history := Inl ''e'',
     fb_suggested := Inr (10, 10), fb_current_block := Inr None \<rparr>) = Inr g"
  ultimately show ?thesis by simp
qed

lemma etherscan_tip_above_fee:
  assumes "parse_gwei_to_wei parse show (eo_base_fee r) = Inr base"
    "parse_gwei_to_wei parse show (eo_safe r) = Inr safe" "safe < MIN_PRIORITY_FEE"
    "etherscan_to_base_result parse show r = Inr g"
  shows "gp_max_fee (ge_slow g) < gp_max_priority_fee (ge_slow g)"
  using assms
  by (auto simp: etherscan_to_base_result_def tier_def Let_def and_then_def less_max_iff_disj
      split: sum.splits)

section \<open>Services\<close>

text \<open>The unscaled tiers are the amounts of the service, where the product with 100 fits.\<close>

lemma scaled_fee_unscaled:
  assumes "parse_formatted_gas_to_u128 parse s = Inr v" "unat v < 2 ^ 120"
  shows "scaled_fee parse False s = Inr v"
proof -
  have "unat v * 100 < 2 ^ 128" using assms(2) by simp
  moreover from this have "unat (v * 100) = unat v * 100" by (simp add: unat_mult_lem [THEN iffD1])
  then have "v * 100 div 100 = v" by (simp add: word_unat_eq_iff unat_div)
  ultimately show ?thesis using assms(1) by (simp add: scaled_fee_def checked_mul_u128_def)
qed

lemma blocknative_answers:
  "blocknative_to_base_result ps = Inl e \<longleftrightarrow> ps = [] \<and> e = GasCustomError ''No gas estimates available''"
proof (cases ps)
  case Nil
  then show ?thesis
    by (auto simp: blocknative_to_base_result_def get_estimate_by_confidence_def or_else_def
        first_price_def Let_def)
next
  case (Cons p rest)
  then have "first_price ps \<noteq> None" "last_price ps \<noteq> None"
    by (auto simp: first_price_def last_price_def split: list.splits)
  then have some: "or_else a (first_price ps) \<noteq> None" "or_else a (last_price ps) \<noteq> None" for a
    by (auto simp: or_else_def split: option.splits)
  then have nested: "or_else a (or_else b (first_price ps)) \<noteq> None" "or_else a (or_else b (last_price ps)) \<noteq> None" for a b
    by (auto simp: or_else_def split: option.splits)
  let ?at = "get_estimate_by_confidence ps"
  obtain s m f q where
    "or_else (?at 70) (first_price ps) = Some s" "or_else (?at 80) (or_else (?at 70) (first_price ps)) = Some m"
    "or_else (?at 90) (or_else (?at 95) (last_price ps)) = Some f"
    "or_else (?at 95) (or_else (?at 99) (last_price ps)) = Some q"
    using some(1) [of "?at 70"] nested(1) [of "?at 80" "?at 70"] nested(2) [of "?at 90" "?at 95"]
      nested(2) [of "?at 95" "?at 99"] by auto
  then show ?thesis using Cons by (simp add: blocknative_to_base_result_def)
qed

lemma etherscan_chains_distinct: "distinct (map fst etherscan_base_urls)"
  by (simp add: etherscan_base_urls_def)

text \<open>
  An estimator that does not support the chain fails on every request, and the choice of the estimator
  does not look: such a network never gets a price.
\<close>

lemma unsupported_chain_fails:
  "\<not> is_chain_supported (EtherscanEstimator key) c \<Longrightarrow>
     etherscan_get_gas_prices parse show key c answer =
       Inl (GasCustomError (''Etherscan API not supported for chain '' @ show_digits (unat c)))"
  "\<not> is_chain_supported (TenderlyEstimator key) c \<Longrightarrow>
     tenderly_get_gas_prices parse key c e estimate = Inl (GasReqwestError e)"
  by (auto simp: etherscan_get_gas_prices_def tenderly_get_gas_prices_def tenderly_endpoint_def
      find_Some_iff split: option.splits)

lemma estimator_ignores_support:
  "get_gas_estimator urls (Some g) (Some TENDERLY) client = Inr (TenderlyEstimator key) \<longleftrightarrow>
     gs_tenderly g = Some key"
  by (auto simp: get_gas_estimator_def and_then_def map_err_def split: option.splits sum.splits)

lemma gas_provider_round_trip:
  "map gas_provider_from_str [''blocknative'', ''Etherscan'', ''INFURA'', ''tenderly'', ''custom''] =
     map Inr [BLOCKNATIVE, ETHERSCAN, INFURA, TENDERLY, CUSTOM]"
  by code_simp

end
