(* ===== verification/Evm_Provider.thy ===== *)
theory Evm_Provider
  imports Fee_Estimators Setup_Config Relayer_Store
begin

text \<open>
  The provider of a chain (provider/): which wallet manager it gets, how the answers of several nodes are
  combined, the cached gas limit of a block, the block time, and the prices of blobs, whose \<open>f64\<close>
  arithmetic is written out. The answers of the nodes and of the wallet managers are inputs.
\<close>

section \<open>Wallet managers\<close>

datatype wallet_kind = Privy | AwsKms | Turnkey | Pkcs11 | Fireblocks | Mnemonic

text \<open>A manager alone, the private keys alone, or a manager with private keys beside it.\<close>

datatype wallet_choice = Single wallet_kind | PrivateKeysOnly | Composite wallet_kind

fun kind_supports_blobs :: "wallet_kind \<Rightarrow> bool" where
  "kind_supports_blobs Privy = False"
| "kind_supports_blobs _ = True"

fun wallet_supports_blobs :: "wallet_choice \<Rightarrow> bool" where
  "wallet_supports_blobs (Single k) = kind_supports_blobs k"
| "wallet_supports_blobs PrivateKeysOnly = True"
| "wallet_supports_blobs (Composite k) = (kind_supports_blobs k \<or> True)"

fun supports_key_import :: "wallet_choice \<Rightarrow> bool" where
  "supports_key_import (Single k) = (k = AwsKms)"
| "supports_key_import _ = False"

text \<open>What the constructors of the provider say about cloning.\<close>

fun can_clone :: "wallet_choice \<Rightarrow> bool" where
  "can_clone (Single Fireblocks) = False"
| "can_clone (Single k) = True"
| "can_clone PrivateKeysOnly = False"
| "can_clone (Composite k) = True"

datatype load_providers_error =
    NoSigningKey | ProvidersRequired | SigningKeyError string | EvmProviderNewError string
  | LoadGasEstimatorError gas_estimator_error

text \<open>The first method that is configured, in the order of the code; the remaining ones are mnemonics.\<close>

definition has_main_signing_provider :: "signing_provider \<Rightarrow> bool" where
  "has_main_signing_provider p =
     (sp_privy p \<or> sp_aws_kms p \<or> sp_turnkey p \<or> sp_pkcs11 p \<or> sp_fireblocks p \<or> sp_raw p \<or>
      sp_aws_secret_manager p \<or> sp_gcp_secret_manager p)"

definition main_kind :: "signing_provider \<Rightarrow> wallet_kind" where
  "main_kind p =
     (if sp_privy p then Privy else if sp_aws_kms p then AwsKms else if sp_turnkey p then Turnkey
      else if sp_pkcs11 p then Pkcs11 else if sp_fireblocks p then Fireblocks else Mnemonic)"

definition wallet_choice_of :: "signing_provider \<Rightarrow> wallet_choice" where
  "wallet_choice_of p =
     (if sp_private_keys p \<and> \<not> has_main_signing_provider p then PrivateKeysOnly
      else if sp_private_keys p then Composite (main_kind p)
      else Single (main_kind p))"

section \<open>Several nodes\<close>

text \<open>\<open>pending_nonce_across_clients\<close>: the answers in the order of the clients.\<close>

definition no_clients :: rpc_error where
  "no_clients = ''no RPC providers configured''"

fun nonce_loop :: "(rpc_error + u64) list \<Rightarrow> u64 option \<Rightarrow> rpc_error option \<Rightarrow> u64 option \<times> rpc_error option" where
  "nonce_loop [] best err = (best, err)"
| "nonce_loop (Inr n # as) best err =
     nonce_loop as (Some (case best of None \<Rightarrow> n | Some m \<Rightarrow> max m n)) err"
| "nonce_loop (Inl e # as) best err = nonce_loop as best (case err of None \<Rightarrow> Some e | Some d \<Rightarrow> Some d)"

definition pending_nonce_across_clients :: "(rpc_error + u64) list \<Rightarrow> rpc_error + u64" where
  "pending_nonce_across_clients answers =
     (if answers = [] then Inl no_clients
      else (case nonce_loop answers None None of
              (_, Some e) \<Rightarrow> Inl e
            | (best, None) \<Rightarrow> ok_or no_clients best))"

text \<open>\<open>transaction_exists_across_clients\<close>: the first client that knows the transaction ends the loop.\<close>

fun exists_loop :: "(rpc_error + bool) list \<Rightarrow> rpc_error option \<Rightarrow> rpc_error + bool" where
  "exists_loop [] err = (case err of Some e \<Rightarrow> Inl e | None \<Rightarrow> Inr False)"
| "exists_loop (Inr True # as) err = Inr True"
| "exists_loop (Inr False # as) err = exists_loop as err"
| "exists_loop (Inl e # as) err = exists_loop as (case err of None \<Rightarrow> Some e | Some d \<Rightarrow> Some d)"

definition transaction_exists_across_clients :: "(rpc_error + bool) list \<Rightarrow> rpc_error + bool" where
  "transaction_exists_across_clients answers =
     (if answers = [] then Inl no_clients else exists_loop answers None)"

section \<open>The provider\<close>

record block_gas_limit_cache =
  bl_gas_limit :: u128
  bl_fetched_at :: instant

text \<open>The queues use the first fields only (Tx_Queue).\<close>

record chain_provider = evm_provider +
  cp_wallet :: wallet_choice
  cp_name :: string
  cp_provider_urls :: "string list"
  cp_can_clone :: bool
  cp_block_gas_limit_cache :: "block_gas_limit_cache option"

text \<open>
  The time between two blocks behind the latest one: in milliseconds, at least 250; the difference of the
  two timestamps and its product with 1000 are \<open>u64\<close>.
\<close>

definition calculate_block_time_difference ::
  "rpc_error + u64 \<Rightarrow> rpc_error + u64 option \<Rightarrow> rpc_error + u64 option \<Rightarrow> rpc_error + u64" where
  "calculate_block_time_difference latest_number latest earliest =
     and_then latest_number (\<lambda>n.
       if n \<le> 13 then Inr 250
       else
         and_then latest (\<lambda>l. and_then earliest (\<lambda>e.
         and_then (ok_or ''Latest block none'' l) (\<lambda>tl.
         and_then (ok_or ''Earliest block none'' e) (\<lambda>te.
           Inr (max ((tl - te) * 1000) 250))))))"

text \<open>The inputs of one network: the clients, the chain id of the node, and the blocks.\<close>

record provider_env =
  pe_client :: "string \<Rightarrow> string + unit"
  pe_chain_id :: "rpc_error + u64"
  pe_latest_number :: "rpc_error + u64"
  pe_latest :: "rpc_error + u64 option"
  pe_earliest :: "rpc_error + u64 option"
  pe_wallet_manager :: "string + unit"

fun create_clients :: "(string \<Rightarrow> string + unit) \<Rightarrow> string list \<Rightarrow> load_providers_error + unit" where
  "create_clients client [] = Inr ()"
| "create_clients client (u # us) =
     and_then (map_err EvmProviderNewError (client u)) (\<lambda>_. create_clients client us)"

definition new_provider ::
  "provider_env \<Rightarrow> string \<Rightarrow> string list \<Rightarrow> u64 option \<Rightarrow> wallet_choice \<Rightarrow> load_providers_error + chain_provider"
  where
  "new_provider env name urls confirmations w =
     and_then (map_err EvmProviderNewError (pe_client env (hd urls))) (\<lambda>_.
     and_then (map_err EvmProviderNewError (pe_chain_id env)) (\<lambda>c.
     and_then (create_clients (pe_client env) (tl urls)) (\<lambda>_.
     and_then (map_err EvmProviderNewError
                 (calculate_block_time_difference (pe_latest_number env) (pe_latest env) (pe_earliest env)))
       (\<lambda>every.
       Inr \<lparr> ep_chain_id = c, ep_blocks_every = every,
             ep_confirmations = (case confirmations of Some n \<Rightarrow> n | None \<Rightarrow> 12),
             ep_supports_blobs = wallet_supports_blobs w, cp_wallet = w, cp_name = name,
             cp_provider_urls = urls, cp_can_clone = can_clone w, cp_block_gas_limit_cache = None \<rparr>))))"

text \<open>What the loading of the providers reads of a network.\<close>

record provider_config =
  pc_network :: network_setup
  pc_confirmations :: "u64 option"
  pc_gas_provider :: "gas_provider option"

text \<open>
  A manager that is combined with private keys, and a mnemonic, is made before the estimator; the others
  by the constructor of the provider, after it. The private keys alone need no manager.
\<close>

definition manager_first :: "wallet_choice \<Rightarrow> bool" where
  "manager_first w = (case w of Composite k \<Rightarrow> True | Single k \<Rightarrow> k = Mnemonic | PrivateKeysOnly \<Rightarrow> False)"

definition load_provider ::
  "provider_env \<Rightarrow> signing_provider option \<Rightarrow> gas_providers option \<Rightarrow> provider_config \<Rightarrow>
   load_providers_error + (chain_provider \<times> estimator)" where
  "load_provider env global gas c =
     (let n = pc_network c
      in case or_else (ns_signing_provider n) global of
           None \<Rightarrow> Inl NoSigningKey
         | Some sp \<Rightarrow>
             (let w = wallet_choice_of sp
              in if ns_provider_urls n = [] then Inl ProvidersRequired
                 else
                   and_then (if manager_first w then map_err SigningKeyError (pe_wallet_manager env) else Inr ())
                     (\<lambda>_.
                   and_then (map_err LoadGasEstimatorError
                      (get_gas_estimator (ns_provider_urls n) gas (pc_gas_provider c)
                         (pe_client env (hd (ns_provider_urls n))))) (\<lambda>est.
                   and_then (if manager_first w \<or> w = PrivateKeysOnly then Inr ()
                             else map_err EvmProviderNewError (pe_wallet_manager env)) (\<lambda>_.
                   and_then (new_provider env (ns_name n) (ns_provider_urls n) (pc_confirmations c) w) (\<lambda>p.
                     Inr (p, est)))))))"

fun load_providers ::
  "(string \<Rightarrow> provider_env) \<Rightarrow> signing_provider option \<Rightarrow> gas_providers option \<Rightarrow> provider_config list \<Rightarrow>
   load_providers_error + (chain_provider \<times> estimator) list" where
  "load_providers envs global gas [] = Inr []"
| "load_providers envs global gas (c # cs) =
     and_then (load_provider (envs (ns_name (pc_network c))) global gas c) (\<lambda>p.
     and_then (load_providers envs global gas cs) (\<lambda>ps. Inr (p # ps)))"

fun find_provider_for_chain_id :: "chain_provider list \<Rightarrow> chain_id \<Rightarrow> chain_provider option" where
  "find_provider_for_chain_id [] c = None"
| "find_provider_for_chain_id (p # ps) c =
     (if ep_chain_id p = c then Some p else find_provider_for_chain_id ps c)"

fun chain_enabled :: "chain_provider list \<Rightarrow> chain_id \<Rightarrow> bool" where
  "chain_enabled [] c = False"
| "chain_enabled (p # ps) c = (ep_chain_id p = c \<or> chain_enabled ps c)"

text \<open>The nonce of a relayer: its wallet's address, then all clients.\<close>

datatype wallet_or_provider_error = WalletOrProviderInternal string | WalletOrProviderRpc rpc_error

definition provider_get_nonce ::
  "string + evm_address \<Rightarrow> (evm_address \<Rightarrow> (rpc_error + u64) list) \<Rightarrow> wallet_or_provider_error + u64" where
  "provider_get_nonce address answers =
     and_then (map_err (\<lambda>e. WalletOrProviderInternal (''Failed to get address: '' @ e)) address) (\<lambda>a.
       map_err WalletOrProviderRpc (pending_nonce_across_clients (answers a)))"

section \<open>The gas limit of a block\<close>

definition BLOCK_GAS_LIMIT_CACHE_TTL :: int where
  "BLOCK_GAS_LIMIT_CACHE_TTL = 600 * 1000000000"

text \<open>A fresh value is reused; where the node fails an old one is better than none.\<close>

definition get_block_gas_limit ::
  "instant \<Rightarrow> instant \<Rightarrow> rpc_error + u64 option \<Rightarrow> block_gas_limit_cache option \<Rightarrow>
   block_gas_limit_cache option \<times> (rpc_error + u128)" where
  "get_block_gas_limit now later answer cache =
     (case cache of
        Some c \<Rightarrow>
          if now - bl_fetched_at c < BLOCK_GAS_LIMIT_CACHE_TTL then (cache, Inr (bl_gas_limit c))
          else (case answer of
                  Inr (Some g) \<Rightarrow> (Some \<lparr> bl_gas_limit = ucast g, bl_fetched_at = later \<rparr>, Inr (ucast g))
                | _ \<Rightarrow> (cache, Inr (bl_gas_limit c)))
      | None \<Rightarrow>
          (case answer of
             Inr (Some g) \<Rightarrow> (Some \<lparr> bl_gas_limit = ucast g, bl_fetched_at = later \<rparr>, Inr (ucast g))
           | Inr None \<Rightarrow> (None, Inl ''Latest block not found'')
           | Inl e \<Rightarrow> (None, Inl e)))"

section \<open>Estimates and blobs\<close>

text \<open>The request of an estimate: the transaction without its gas limit, from the account of the relayer.\<close>

record estimate_request =
  eq_from :: evm_address
  eq_gas :: "u64 option"
  eq_transaction :: typed_transaction

definition transaction_request_for_gas_estimation :: "typed_transaction \<Rightarrow> evm_address \<Rightarrow> estimate_request" where
  "transaction_request_for_gas_estimation t from =
     \<lparr> eq_from = from, eq_gas = None, eq_transaction = t \<rparr>"

definition provider_estimate_gas ::
  "(estimate_request \<Rightarrow> rpc_error + u64) \<Rightarrow> typed_transaction \<Rightarrow> evm_address \<Rightarrow> rpc_error + u128" where
  "provider_estimate_gas node t from =
     and_then (node (transaction_request_for_gas_estimation t from)) (\<lambda>g. Inr (ucast g))"

definition supports_blob_transactions :: "chain_id \<Rightarrow> bool" where
  "supports_blob_transactions c = (c \<in> {1, 17000, 11155111, 31337})"

text \<open>
  An \<open>f64\<close> keeps 53 bits and rounds to the nearest value, ties to the even one. \<open>f64_scale c k n\<close> is the
  product of \<open>n\<close>, as \<open>f64\<close>, with the constant \<open>c / 2^k\<close>, cast back to \<open>u128\<close>: truncated and saturated.
  The constants are the \<open>f64\<close> values of 1.5, 1.2 and 0.8.
\<close>

fun bit_count :: "nat \<Rightarrow> nat" where
  "bit_count n = (if n = 0 then 0 else Suc (bit_count (n div 2)))"

declare bit_count.simps [simp del]

definition round53 :: "nat \<Rightarrow> nat" where
  "round53 n =
     (let b = bit_count n
      in if b \<le> 53 then n
         else let s = b - 53; q = n div 2 ^ s; r = n mod 2 ^ s; half = 2 ^ (s - 1)
              in (if half < r \<or> half = r \<and> odd q then q + 1 else q) * 2 ^ s)"

definition f64_scale :: "nat \<Rightarrow> nat \<Rightarrow> u128 \<Rightarrow> u128" where
  "f64_scale c k n = of_nat (min (2 ^ 128 - 1) (round53 (round53 (unat n) * c) div 2 ^ k))"

definition times_1_5 :: "u128 \<Rightarrow> u128" where "times_1_5 = f64_scale 3 1"
definition times_1_2 :: "u128 \<Rightarrow> u128" where "times_1_2 = f64_scale 5404319552844595 52"
definition times_0_8 :: "u128 \<Rightarrow> u128" where "times_0_8 = f64_scale 7205759403792794 53"

definition blob_price :: "u128 \<Rightarrow> blob_gas_price_result" where
  "blob_price p = \<lparr> bg_blob_gas_price = p, bg_total_fee_for_blob = p * BLOB_GAS_PER_BLOB \<rparr>"

definition calculate_ethereum_blob_gas_price ::
  "rpc_error + u128 \<Rightarrow> u64 \<Rightarrow> string + blob_gas_estimator_result" where
  "calculate_ethereum_blob_gas_price base now =
     (case base of
        Inl e \<Rightarrow> Inl ''Chain does not support blob transactions''
      | Inr fee \<Rightarrow>
          Inr \<lparr> be_super_fast = blob_price (times_1_5 fee), be_fast = blob_price (times_1_2 fee),
                be_medium = blob_price fee, be_slow = blob_price (times_0_8 fee),
                be_base_fee_per_blob_gas = fee, be_timestamp = now \<rparr>)"

section \<open>The oracles\<close>

text \<open>One reading of every provider; a failed one leaves the cached price.\<close>

fun gas_oracle_round ::
  "(chain_id \<Rightarrow> gas_estimator_error + gas_estimator_result) \<Rightarrow> chain_id list \<Rightarrow> gas_oracle_cache \<Rightarrow>
   gas_oracle_cache" where
  "gas_oracle_round prices [] cache = cache"
| "gas_oracle_round prices (c # cs) cache =
     gas_oracle_round prices cs
       (case prices c of Inr g \<Rightarrow> update_gas_price c g cache | Inl e \<Rightarrow> cache)"

text \<open>Blob prices: only for the chains that have them.\<close>

fun blob_oracle_round ::
  "(chain_id \<Rightarrow> string + blob_gas_estimator_result) \<Rightarrow> chain_id list \<Rightarrow> blob_gas_oracle_cache \<Rightarrow>
   blob_gas_oracle_cache" where
  "blob_oracle_round prices [] cache = cache"
| "blob_oracle_round prices (c # cs) cache =
     blob_oracle_round prices cs
       (if supports_blob_transactions c
        then (case prices c of Inr g \<Rightarrow> update_blob_gas_price c g cache | Inl e \<Rightarrow> cache)
        else cache)"

end
