(* ===== verification/Provider_Properties.thy ===== *)
theory Provider_Properties
  imports Evm_Provider
begin

text \<open>
  Properties of the providers: what several nodes have to agree on, the order of the blob prices under
  \<open>f64\<close> rounding, and the choice of the wallet manager.
\<close>

section \<open>Agreement\<close>

lemma nonce_loop_ok: "snd (nonce_loop as best err) = None \<longleftrightarrow> err = None \<and> (\<forall>a \<in> set as. is_ok a)"
  by (induction as best err rule: nonce_loop.induct) (auto split: option.splits)

lemma nonce_loop_best:
  "(\<forall>a \<in> set as. is_ok a) \<Longrightarrow> as \<noteq> [] \<or> best \<noteq> None \<Longrightarrow>
     \<exists>n. fst (nonce_loop as best err) = Some n \<and> (\<forall>k. Inr k \<in> set as \<or> best = Some k \<longrightarrow> k \<le> n) \<and>
       (Inr n \<in> set as \<or> best = Some n)"
proof (induction as best err rule: nonce_loop.induct)
  case (2 n as best err)
  let ?b = "case best of None \<Rightarrow> n | Some m \<Rightarrow> max m n"
  from 2 obtain k where k: "fst (nonce_loop as (Some ?b) err) = Some k"
    "\<forall>j. Inr j \<in> set as \<or> ?b = j \<longrightarrow> j \<le> k" "Inr k \<in> set as \<or> ?b = k"
    by auto
  show ?case
  proof (intro exI [of _ k] conjI allI impI)
    show "fst (nonce_loop (Inr n # as) best err) = Some k" using k(1) by simp
    have b: "n \<le> ?b" "\<forall>m. best = Some m \<longrightarrow> m \<le> ?b" by (auto split: option.splits)
    show "j \<le> k" if "Inr j \<in> set (Inr n # as) \<or> best = Some j" for j
      using that k(2) b by (auto intro: order_trans)
    show "Inr k \<in> set (Inr n # as) \<or> best = Some k"
      using k(3) by (auto simp: max_def split: option.splits if_splits)
  qed
qed auto

lemma pending_nonce_agreement:
  "pending_nonce_across_clients as = Inr n \<longleftrightarrow>
     (\<forall>a \<in> set as. \<exists>k. a = Inr k \<and> k \<le> n) \<and> Inr n \<in> set as"
proof (cases "as \<noteq> [] \<and> (\<forall>a \<in> set as. is_ok a)")
  case True
  with nonce_loop_best [of as None None] obtain k where
    k: "fst (nonce_loop as None None) = Some k" "\<forall>j. Inr j \<in> set as \<longrightarrow> j \<le> k" "Inr k \<in> set as"
    by auto
  have "nonce_loop as None None = (Some k, None)" using k(1) nonce_loop_ok [of as None None] True by (intro prod_eqI) auto
  then have res: "pending_nonce_across_clients as = Inr k" using True by (simp add: pending_nonce_across_clients_def)
  have all: "\<forall>a \<in> set as. \<exists>j. a = Inr j \<and> j \<le> k"
    by (metis True k(2) is_ok_simps(1) sum.exhaust)
  show ?thesis using res all k by (auto intro: antisym)
next
  case False
  have "\<forall>n. pending_nonce_across_clients as \<noteq> Inr n"
  proof (cases "as = []")
    case False
    with \<open>\<not> (as \<noteq> [] \<and> (\<forall>a \<in> set as. is_ok a))\<close> nonce_loop_ok [of as None None]
    obtain b e where "nonce_loop as None None = (b, Some e)" by (cases "nonce_loop as None None") auto
    with False show ?thesis by (simp add: pending_nonce_across_clients_def)
  qed (simp add: pending_nonce_across_clients_def)
  with False show ?thesis by (force simp: is_ok_def)
qed

lemma exists_loop_true: "exists_loop as err = Inr True \<longleftrightarrow> Inr True \<in> set as"
  by (induction as err rule: exists_loop.induct) (auto split: option.splits)

lemma exists_loop_false: "exists_loop as err = Inr False \<longleftrightarrow> err = None \<and> set as \<subseteq> {Inr False}"
  by (induction as err rule: exists_loop.induct) (auto split: option.splits)

text \<open>A transaction counts as known when one node knows it and as absent only when every configured node
  answers that it does not; the nonce of an account is the largest of the nodes' answers, and only when
  every node answers. In all other cases the result is an error, never a guess.\<close>

lemma clients_agree:
  "(transaction_exists_across_clients as = Inr True \<longleftrightarrow> Inr True \<in> set as) \<and>
   (transaction_exists_across_clients as = Inr False \<longleftrightarrow> set as = {Inr False}) \<and>
   (pending_nonce_across_clients ns = Inr n \<longleftrightarrow>
     Inr n \<in> set ns \<and> set ns \<subseteq> Inr ` {..n})"
proof -
  have "transaction_exists_across_clients as = Inr True \<longleftrightarrow> Inr True \<in> set as"
    by (auto simp: transaction_exists_across_clients_def exists_loop_true)
  moreover have "transaction_exists_across_clients as = Inr False \<longleftrightarrow> set as = {Inr False}"
    by (auto simp: transaction_exists_across_clients_def exists_loop_false subset_singleton_iff)
  moreover have "(\<forall>a \<in> set ns. \<exists>k. a = Inr k \<and> k \<le> n) \<longleftrightarrow> set ns \<subseteq> Inr ` {..n}" by auto
  ultimately show ?thesis by (auto simp: pending_nonce_agreement)
qed

section \<open>Rounding\<close>

lemma bit_count_bounds: "0 < n \<Longrightarrow> 2 ^ (bit_count n - 1) \<le> n \<and> n < 2 ^ bit_count n \<and> 0 < bit_count n"
proof (induction n rule: bit_count.induct)
  case (1 n)
  show ?case
  proof (cases "n = 1")
    case True
    then show ?thesis by (simp add: bit_count.simps [of "Suc 0"] bit_count.simps [of 0])
  next
    case False
    with 1 have "0 < n div 2" by auto
    with 1 have ih: "2 ^ (bit_count (n div 2) - 1) \<le> n div 2" "n div 2 < 2 ^ bit_count (n div 2)"
      "0 < bit_count (n div 2)" by auto
    have count: "bit_count n = Suc (bit_count (n div 2))" using 1(2) by (simp add: bit_count.simps [of n])
    have "2 ^ bit_count (n div 2) = (2::nat) * 2 ^ (bit_count (n div 2) - 1)"
      using ih(3) by (metis Suc_diff_1 power_Suc)
    moreover have "2 * y \<le> n \<and> n < 2 * (2 * y)" if "y \<le> n div 2" "n div 2 < 2 * y" for y :: nat
      using that by linarith
    ultimately show ?thesis using ih unfolding count by (metis Suc_diff_1 diff_Suc_1 power_Suc zero_less_Suc)
  qed
qed

text \<open>A rounded value is off by at most one part in \<open>2^53\<close>.\<close>

lemma round53_error: "round53 n * 2 ^ 53 \<le> n * (2 ^ 53 + 1) \<and> n * (2 ^ 53 - 1) \<le> round53 n * 2 ^ 53"
proof (cases "bit_count n \<le> 53")
  case True
  then show ?thesis by (simp add: round53_def)
next
  case False
  define s where "s = bit_count n - 53"
  define q r where "q = n div 2 ^ s" and "r = n mod 2 ^ s"
  have s: "0 < s" using False by (simp add: s_def)
  have n: "n = q * 2 ^ s + r" unfolding q_def r_def by (rule div_mult_mod_eq [symmetric])
  have half: "2 ^ s = 2 * (2 ^ (s - 1) :: nat)" using s by (metis Suc_diff_1 power_Suc)
  have "0 < n" using False by (cases "n = 0") (simp_all add: bit_count.simps [of 0])
  from bit_count_bounds [OF this] have "2 ^ (bit_count n - 1) \<le> n" by simp
  moreover have "bit_count n - 1 = 53 + (s - 1)" using False s by (simp add: s_def)
  ultimately have big: "2 ^ 53 * 2 ^ (s - 1) \<le> n" by (simp add: power_add)
  have "r < 2 ^ s" by (simp add: r_def)
  have "round53 n = (if 2 ^ (s - 1) < r \<or> 2 ^ (s - 1) = r \<and> odd q then q + 1 else q) * 2 ^ s"
    using False unfolding round53_def Let_def s_def [symmetric] q_def [symmetric] r_def [symmetric] by simp
  then have "round53 n = q * 2 ^ s + 2 ^ s \<and> 2 ^ (s - 1) \<le> r \<or> round53 n = q * 2 ^ s \<and> r \<le> 2 ^ (s - 1)"
    by (auto simp: algebra_simps)
  with n half \<open>r < 2 ^ s\<close> have close: "round53 n \<le> n + 2 ^ (s - 1) \<and> n \<le> round53 n + 2 ^ (s - 1)" by linarith
  have arith: "2 ^ 53 * m \<le> 2 ^ 53 * k + n" if "m \<le> k + x" "2 ^ 53 * x \<le> n" for m k x :: nat
    using that by simp
  have "2 ^ 53 * round53 n \<le> 2 ^ 53 * n + n" "2 ^ 53 * n \<le> 2 ^ 53 * round53 n + n"
    using arith [OF _ big] close by blast+
  then show ?thesis by (simp add: algebra_simps)
qed

lemma scaled_order:
  fixes n :: nat
  defines "a \<equiv> round53 n"
  shows "round53 (a * 7205759403792794) div 2 ^ 53 \<le> n"
    and "n \<le> round53 (a * 5404319552844595) div 2 ^ 52"
    and "round53 (a * 5404319552844595) div 2 ^ 52 \<le> round53 (a * 3) div 2 ^ 1"
proof -
  note err = round53_error [of n, folded a_def] round53_error [of "a * 7205759403792794"]
    round53_error [of "a * 5404319552844595"] round53_error [of "a * 3"]
  have "round53 (a * 7205759403792794) \<le> n * 2 ^ 53" using err by simp
  then show "round53 (a * 7205759403792794) div 2 ^ 53 \<le> n" using div_le_mono [of _ "n * 2 ^ 53" "2 ^ 53"] by fastforce
  have "n * 2 ^ 52 \<le> round53 (a * 5404319552844595)" using err by simp
  then show "n \<le> round53 (a * 5404319552844595) div 2 ^ 52" by (simp add: less_eq_div_iff_mult_less_eq)
  have "round53 (a * 5404319552844595) \<le> round53 (a * 3) * 2 ^ 51" using err by simp
  then have "round53 (a * 5404319552844595) div 2 ^ 52 \<le> round53 (a * 3) * 2 ^ 51 div 2 ^ 52" by (rule div_le_mono)
  also have "\<dots> = round53 (a * 3) div 2 ^ 1" by simp
  finally show "round53 (a * 5404319552844595) div 2 ^ 52 \<le> round53 (a * 3) div 2 ^ 1" .
qed

lemma unat_f64_scale: "unat (f64_scale c k n) = min (2 ^ 128 - 1) (round53 (round53 (unat n) * c) div 2 ^ k)"
proof -
  have "min (2 ^ 128 - 1) x < (2::nat) ^ 128" for x by simp
  then show ?thesis by (simp add: f64_scale_def unsigned_of_nat take_bit_nat_eq_self)
qed

text \<open>The blob prices of the four tiers are ordered: slow at most medium, medium (the base fee itself) at
  most fast, fast at most super fast, for every base fee in \<open>u128\<close> and despite the detour through \<open>f64\<close>.\<close>

theorem blob_tiers_ordered:
  assumes "calculate_ethereum_blob_gas_price (Inr fee) now = Inr g"
  shows "bg_blob_gas_price (be_slow g) \<le> bg_blob_gas_price (be_medium g) \<and>
    bg_blob_gas_price (be_medium g) = fee \<and>
    bg_blob_gas_price (be_medium g) \<le> bg_blob_gas_price (be_fast g) \<and>
    bg_blob_gas_price (be_fast g) \<le> bg_blob_gas_price (be_super_fast g)"
proof -
  note order = scaled_order [of "unat fee"]
  have "unat fee < 2 ^ 128" using unsigned_less [of fee] by simp
  then have top: "unat fee \<le> 2 ^ 128 - 1" by simp
  have "times_0_8 fee \<le> fee" "fee \<le> times_1_2 fee" "times_1_2 fee \<le> times_1_5 fee"
    using order top
    by (simp_all add: times_0_8_def times_1_2_def times_1_5_def word_le_nat_alt unat_f64_scale min_le_iff_disj)
  with assms show ?thesis by (auto simp: calculate_ethereum_blob_gas_price_def blob_price_def)
qed

theorem blob_tiers_ordered_witness:
  "bg_blob_gas_price (blob_price (times_0_8 7)) = 5 \<and>
   bg_blob_gas_price (blob_price (times_0_8 7)) \<le> (7::u128)"
proof -
  have "calculate_ethereum_blob_gas_price (Inr 7) 0 =
      Inr \<lparr> be_super_fast = blob_price (times_1_5 7), be_fast = blob_price (times_1_2 7), be_medium = blob_price 7,
            be_slow = blob_price (times_0_8 7), be_base_fee_per_blob_gas = 7, be_timestamp = 0 \<rparr>"
    by (simp add: calculate_ethereum_blob_gas_price_def)
  from blob_tiers_ordered [OF this] have "bg_blob_gas_price (blob_price (times_0_8 7)) \<le> (7::u128)"
    by (simp add: blob_price_def)
  moreover have "bg_blob_gas_price (blob_price (times_0_8 7)) = 5"
    by (simp add: blob_price_def times_0_8_def f64_scale_def round53_def Let_def bit_count.simps)
  ultimately show ?thesis by blast
qed

section \<open>The gas limit of a block\<close>

text \<open>Once a value is cached there is always an answer, and within the time to live the node is not asked.\<close>

lemma cached_limit_answers: "snd (get_block_gas_limit now later answer (Some c)) \<noteq> Inl e"
  by (auto simp: get_block_gas_limit_def split: sum.splits option.splits)

lemma cached_limit_fresh:
  "now - bl_fetched_at c < BLOCK_GAS_LIMIT_CACHE_TTL \<Longrightarrow>
     get_block_gas_limit now later answer (Some c) = (Some c, Inr (bl_gas_limit c))"
  by (simp add: get_block_gas_limit_def)

lemma cached_limit_is_returned:
  "get_block_gas_limit now later answer cache = (cache', Inr g) \<Longrightarrow> \<exists>c. cache' = Some c \<and> bl_gas_limit c = g"
  by (auto simp: get_block_gas_limit_def split: option.splits sum.splits if_splits)

section \<open>Loading\<close>

lemma block_time_at_least: "calculate_block_time_difference n l e = Inr t \<Longrightarrow> 250 \<le> t"
  by (auto simp: calculate_block_time_difference_def and_then_def ok_or_def split: sum.splits if_splits option.splits)

lemma find_provider_chain:
  "find_provider_for_chain_id ps c = Some p \<Longrightarrow> p \<in> set ps \<and> ep_chain_id p = c"
  by (induction ps) (auto split: if_splits)

lemma chain_enabled_iff: "chain_enabled ps c \<longleftrightarrow> find_provider_for_chain_id ps c \<noteq> None"
  by (induction ps) auto

lemma load_provider_name:
  "load_provider env global gas c = Inr (p, est) \<Longrightarrow> cp_name p = ns_name (pc_network c)"
  by (auto simp: load_provider_def new_provider_def Let_def and_then_def map_err_def
      split: option.splits sum.splits if_splits)

lemma load_providers_names:
  "load_providers envs global gas cs = Inr ps \<Longrightarrow> map (cp_name \<circ> fst) ps = map (ns_name \<circ> pc_network) cs"
proof (induction cs arbitrary: ps)
  case (Cons c cs)
  from Cons.prems obtain p rest where
    p: "load_provider (envs (ns_name (pc_network c))) global gas c = Inr p"
    "load_providers envs global gas cs = Inr rest" "ps = p # rest"
    by (auto simp: and_then_def split: sum.splits)
  then show ?case using Cons.IH load_provider_name [of _ global gas c "fst p" "snd p"] by simp
qed simp

text \<open>
  A signing section that passes the validation names one method, so the private keys never stand beside
  another manager: the composite manager is code that no validated configuration reaches.
\<close>

lemma validated_wallet_is_single:
  assumes "validate_signing_provider p = Inr ()"
  shows "wallet_choice_of p \<noteq> Composite k"
  using assms
  by (cases p) (auto simp: validate_signing_provider_def signing_methods_def wallet_choice_of_def
      has_main_signing_provider_def Let_def split: if_splits)

text \<open>Fireblocks alone cannot clone; with private keys beside it the same manager is said to.\<close>

lemma composite_always_clones: "can_clone (Composite Fireblocks) \<and> \<not> can_clone (Single Fireblocks)"
  by simp

text \<open>An oracle that fails keeps the price it had.\<close>

lemma gas_oracle_failure:
  "c \<notin> set cs \<or> (\<exists>e. prices c = Inl e) \<Longrightarrow> gas_oracle_round prices cs cache c = cache c"
  by (induction cs arbitrary: cache) (auto simp: update_gas_price_def split: sum.splits)

lemma gas_oracle_success:
  "c \<in> set cs \<Longrightarrow> prices c = Inr g \<Longrightarrow> gas_oracle_round prices cs cache c = Some g"
proof (induction cs arbitrary: cache)
  case (Cons d cs)
  show ?case
  proof (cases "c \<in> set cs")
    case False
    with Cons.prems have "d = c" "c \<notin> set cs" by auto
    with Cons.prems gas_oracle_failure [of c cs prices] show ?thesis by (simp add: update_gas_price_def)
  qed (use Cons in auto)
qed simp

end
