(* ===== verification/Relayer_Api.thy ===== *)
theory Relayer_Api
  imports Request_Api Evm_Provider Startup
begin

text \<open>
  The endpoints for relayers (relayer/api/), the cache in front of the table of relayers (shared/cache.rs,
  relayer/cache.rs, relayer/get_relayer.rs) and the start of a queue for a new relayer
  (relayer/queue_utils.rs). A handler is one function; where two of its accesses can be separated by
  another request, they are functions of their own.
\<close>

section \<open>A cache with expiry\<close>

type_synonym ('k, 'a) ttl_cache = "'k \<rightharpoonup> 'a \<times> instant"

definition DEFAULT_CACHE_TTL :: int where
  "DEFAULT_CACHE_TTL = 600 * 1000000000"

definition cache_insert_with_expiry ::
  "'k \<Rightarrow> 'a \<Rightarrow> int \<Rightarrow> instant \<Rightarrow> ('k, 'a) ttl_cache \<Rightarrow> ('k, 'a) ttl_cache" where
  "cache_insert_with_expiry k v ttl now c = c(k \<mapsto> (v, now + ttl))"

definition cache_insert :: "'k \<Rightarrow> 'a \<Rightarrow> instant \<Rightarrow> ('k, 'a) ttl_cache \<Rightarrow> ('k, 'a) ttl_cache" where
  "cache_insert k v now c = cache_insert_with_expiry k v DEFAULT_CACHE_TTL now c"

definition cache_get :: "'k \<Rightarrow> instant \<Rightarrow> ('k, 'a) ttl_cache \<Rightarrow> 'a option" where
  "cache_get k now c = (case c k of Some (v, expires) \<Rightarrow> if expires > now then Some v else None | None \<Rightarrow> None)"

definition cache_delete :: "'k \<Rightarrow> ('k, 'a) ttl_cache \<Rightarrow> ('k, 'a) ttl_cache" where
  "cache_delete k c = c(k := None)"

text \<open>The thread that discards what has expired.\<close>

definition cache_retain :: "instant \<Rightarrow> ('k, 'a) ttl_cache \<Rightarrow> ('k, 'a) ttl_cache" where
  "cache_retain now c = (\<lambda>k. case c k of Some (v, expires) \<Rightarrow> if expires > now then Some (v, expires) else None
                                       | None \<Rightarrow> None)"

section \<open>State\<close>

record server =
  sv_app :: app
  sv_relayers :: relayer_table
  sv_relayer_cache :: "(relayer_id, relayer option) ttl_cache"
  sv_providers :: "chain_provider list"
  sv_networks :: "network_config list"
  sv_safes :: "safe_proxy_config list"

abbreviation sv_config :: "server \<Rightarrow> app_config" where
  "sv_config s \<equiv> as_config (sv_app s)"

definition set_sys :: "sys \<Rightarrow> server \<Rightarrow> server" where
  "set_sys y s = s\<lparr> sv_app := (sv_app s)\<lparr> as_sys := y \<rparr> \<rparr>"

definition invalidate_relayer_cache :: "relayer_id \<Rightarrow> server \<Rightarrow> server" where
  "invalidate_relayer_cache i s = s\<lparr> sv_relayer_cache := cache_delete i (sv_relayer_cache s) \<rparr>"

definition set_relayer_cache :: "instant \<Rightarrow> relayer_id \<Rightarrow> relayer option \<Rightarrow> server \<Rightarrow> server" where
  "set_relayer_cache now i r s = s\<lparr> sv_relayer_cache := cache_insert i r now (sv_relayer_cache s) \<rparr>"

definition get_relayer_cache :: "instant \<Rightarrow> relayer_id \<Rightarrow> server \<Rightarrow> relayer option" where
  "get_relayer_cache now i s = Option.bind (cache_get i now (sv_relayer_cache s)) (\<lambda>r. r)"

text \<open>The display of errors, and the inputs of a lookup and of an update.\<close>

record relayer_params =
  ra_api :: api_params
  ra_show_create :: "create_relayer_error \<Rightarrow> string"
  ra_show_provider :: "wallet_or_provider_error \<Rightarrow> string"
  ra_show_id :: "relayer_id \<Rightarrow> string"
  ra_show_address :: "evm_address \<Rightarrow> string"

record relayer_call =
  rc_now_get :: instant
  rc_now_set :: instant
  rc_fault :: "db_error option"
  rc_update :: db_answer

section \<open>Lookup\<close>

definition lookup_relayer :: "relayer_call \<Rightarrow> relayer_id \<Rightarrow> server \<Rightarrow> server \<times> (db_error + relayer option)" where
  "lookup_relayer env i s =
     (case get_relayer_cache (rc_now_get env) i s of
        Some r \<Rightarrow> (s, Inr (Some r))
      | None \<Rightarrow>
          (case rc_fault env of
             Some e \<Rightarrow> (s, Inl e)
           | None \<Rightarrow>
               (let r = get_relayer i (sv_relayers s)
                in (set_relayer_cache (rc_now_set env) i r s, Inr r))))"

definition relayer_exists :: "relayer_call \<Rightarrow> relayer_id \<Rightarrow> server \<Rightarrow> server \<times> (db_error + bool)" where
  "relayer_exists env i s =
     (case lookup_relayer env i s of (s', r) \<Rightarrow> (s', and_then r (\<lambda>x. Inr (x \<noteq> None))))"

definition relayer_provider_context ::
  "relayer_call \<Rightarrow> relayer_id \<Rightarrow> server \<Rightarrow> server \<times> (db_error + (relayer \<times> chain_provider) option)" where
  "relayer_provider_context env i s =
     (case lookup_relayer env i s of
        (s', r) \<Rightarrow>
          (s', and_then r (\<lambda>x. Inr (Option.bind x (\<lambda>r.
             map_option (\<lambda>p. (r, p)) (find_provider_for_chain_id (sv_providers s) (rl_chain_id r)))))))"

section \<open>Settings\<close>

definition run_update :: "db_answer \<Rightarrow> (relayer_table \<Rightarrow> relayer_table) \<Rightarrow> server \<Rightarrow> server \<times> (db_error + unit)"
  where
  "run_update ans f s =
     (let s' = s\<lparr> sv_relayers := f (sv_relayers s) \<rparr>
      in case ans of
           DbOk \<Rightarrow> (s', Inr ())
         | DbErr e \<Rightarrow> (s, Inl (DbUnavailable e))
         | DbLostAck e \<Rightarrow> (s', Inl (DbUnavailable e)))"

definition change_queue :: "(transactions_queue \<Rightarrow> transactions_queue) \<Rightarrow> relayer_id \<Rightarrow> server \<Rightarrow> server" where
  "change_queue g i s =
     (let y = as_sys (sv_app s)
      in case s_queues y i of None \<Rightarrow> s | Some q \<Rightarrow> set_sys (put_queue i (g q) y) s)"

text \<open>The four endpoints that change a setting: the table, the cache and the running queue.\<close>

definition change_setting ::
  "relayer_params \<Rightarrow> header_map \<Rightarrow> relayer_call \<Rightarrow> (relayer_table \<Rightarrow> relayer_table) \<Rightarrow>
   (transactions_queue \<Rightarrow> transactions_queue) \<Rightarrow> relayer_id \<Rightarrow> server \<Rightarrow> server \<times> (http_error + unit)" where
  "change_setting ra h env f g i s =
     (case validate_basic_auth_valid h of
        Inl e \<Rightarrow> (s, Inl e)
      | Inr _ \<Rightarrow>
          (case relayer_exists env i s of
             (s1, Inl e) \<Rightarrow> (s1, Inl (of_db_error (ra_api ra) e))
           | (s1, Inr False) \<Rightarrow> (s1, Inl (not_found ''Relayer does not exist''))
           | (s1, Inr True) \<Rightarrow>
               (case run_update (rc_update env) f s1 of
                  (s2, Inl e) \<Rightarrow> (s2, Inl (of_db_error (ra_api ra) e))
                | (s2, Inr _) \<Rightarrow> (change_queue g i (invalidate_relayer_cache i s2), Inr ()))))"

definition api_pause_relayer ::
  "relayer_params \<Rightarrow> header_map \<Rightarrow> relayer_call \<Rightarrow> relayer_id \<Rightarrow> server \<Rightarrow> server \<times> (http_error + unit)" where
  "api_pause_relayer ra h env i =
     change_setting ra h env (set_relayer_paused True i) (set_is_paused True) i"

definition api_unpause_relayer ::
  "relayer_params \<Rightarrow> header_map \<Rightarrow> relayer_call \<Rightarrow> relayer_id \<Rightarrow> server \<Rightarrow> server \<times> (http_error + unit)" where
  "api_unpause_relayer ra h env i =
     change_setting ra h env (set_relayer_paused False i) (set_is_paused False) i"

definition api_update_max_gas_price ::
  "relayer_params \<Rightarrow> header_map \<Rightarrow> relayer_call \<Rightarrow> u128 \<Rightarrow> relayer_id \<Rightarrow> server \<Rightarrow>
   server \<times> (http_error + unit)" where
  "api_update_max_gas_price ra h env cap i =
     (let m = (if cap > 0 then Some cap else None)
      in change_setting ra h env (update_relayer_max_gas_price m i) (set_max_gas_price m) i)"

definition api_update_eip1559_status ::
  "relayer_params \<Rightarrow> header_map \<Rightarrow> relayer_call \<Rightarrow> bool \<Rightarrow> relayer_id \<Rightarrow> server \<Rightarrow>
   server \<times> (http_error + unit)" where
  "api_update_eip1559_status ra h env enabled i =
     change_setting ra h env (update_relayer_eip_1559_status enabled i)
       (set_is_legacy_transactions (\<not> enabled)) i"

text \<open>Deletion does not look whether the relayer exists.\<close>

definition api_delete_relayer ::
  "relayer_params \<Rightarrow> header_map \<Rightarrow> db_answer \<Rightarrow> relayer_id \<Rightarrow> server \<Rightarrow> server \<times> (http_error + unit)" where
  "api_delete_relayer ra h ans i s =
     (case validate_basic_auth_valid h of
        Inl e \<Rightarrow> (s, Inl e)
      | Inr _ \<Rightarrow>
          (case run_update ans (delete_relayer i) s of
             (s1, Inl e) \<Rightarrow> (s1, Inl (of_db_error (ra_api ra) e))
           | (s1, Inr _) \<Rightarrow>
               (let s2 = invalidate_relayer_cache i s1
                in (set_sys (delete_queue i (as_sys (sv_app s2))) s2, Inr ()))))"

section \<open>Creation\<close>

text \<open>
  The nonce is read twice, before and inside \<open>add_new_relayer\<close>; the second reading counts. The wallet's
  address and the answers of the nodes are inputs of each reading.
\<close>

definition network_setup_of :: "network_config list \<Rightarrow> chain_id \<Rightarrow> gas_bump_block_config \<times> u64" where
  "network_setup_of ns c =
     (case find (\<lambda>n. nc_chain_id n = c) ns of
        Some n \<Rightarrow> (nc_gas_bump_blocks_every n, nc_max_gas_price_multiplier n)
      | None \<Rightarrow> (default_gas_bump_block_config, 2))"

definition start_relayer_queue ::
  "wallet_or_provider_error + u64 \<Rightarrow> wallet_or_provider_error + u64 \<Rightarrow> relayer \<Rightarrow> chain_provider \<Rightarrow> chain_id \<Rightarrow>
   server \<Rightarrow> server \<times> (wallet_or_provider_error + unit)" where
  "start_relayer_queue first second r p c s =
     (case and_then first (\<lambda>_. second) of
        Inl e \<Rightarrow> (s, Inl e)
      | Inr n \<Rightarrow>
          (case network_setup_of (sv_networks s) c of
             (bump, multiplier) \<Rightarrow>
               (let y = fst (add_new_relayer (Inr n) (sv_safes s)
                          \<lparr> rs_relayer = r, rs_evm_provider = evm_provider.truncate p, rs_pending = [],
                            rs_inmempool = [], rs_mined = [], rs_gas_bump_config = bump,
                            rs_max_gas_price_multiplier = multiplier \<rparr> (as_sys (sv_app s)))
                in (invalidate_relayer_cache (rl_id r) (set_sys y s), Inr ()))))"

definition of_create_error :: "relayer_params \<Rightarrow> create_relayer_error \<Rightarrow> http_error" where
  "of_create_error ra e =
     (case e of
        CloneSourceNotFound i \<Rightarrow> not_found ''Could not find relayer''
      | CannotClonePrivateKeyRelayer n \<Rightarrow> bad_request (ra_show_create ra e)
      | CannotCloneProviderRelayer n \<Rightarrow> bad_request (ra_show_create ra e)
      | _ \<Rightarrow> internal_server_error (Some (ra_show_create ra e)))"

definition of_provider_error :: "relayer_params \<Rightarrow> wallet_or_provider_error \<Rightarrow> http_error" where
  "of_provider_error ra e = internal_server_error (Some (ra_show_provider ra e))"

text \<open>The answer to the statement that commits the new row.\<close>

definition committed ::
  "db_answer \<Rightarrow> relayer_table \<Rightarrow> relayer_table \<times> (create_relayer_error + relayer) \<Rightarrow>
   relayer_table \<times> (create_relayer_error + relayer)" where
  "committed ans t result =
     (case result of
        (t', Inl e) \<Rightarrow> (t', Inl e)
      | (t', Inr r) \<Rightarrow>
          (case ans of
             DbOk \<Rightarrow> (t', Inr r)
           | DbErr e \<Rightarrow> (t, Inl (CouldNotSaveRelayerDb (DbUnavailable e)))
           | DbLostAck e \<Rightarrow> (t', Inl (CouldNotSaveRelayerDb (DbUnavailable e)))))"

record start_call =
  sc_create :: create_env
  sc_answer :: db_answer
  sc_first_nonce :: "wallet_or_provider_error + u64"
  sc_second_nonce :: "wallet_or_provider_error + u64"

text \<open>The new relayer is in the table; its queue may still fail to start.\<close>

definition start_created ::
  "relayer_params \<Rightarrow> start_call \<Rightarrow> relayer \<Rightarrow> chain_provider \<Rightarrow> chain_id \<Rightarrow> server \<Rightarrow>
   server \<times> (http_error + relayer_id \<times> evm_address)" where
  "start_created ra env r p c s =
     (case start_relayer_queue (sc_first_nonce env) (sc_second_nonce env) r p c
             (invalidate_relayer_cache (rl_id r) s) of
        (s', Inl e) \<Rightarrow> (s', Inl (of_provider_error ra e))
      | (s', Inr _) \<Rightarrow> (s', Inr (rl_id r, rl_address r)))"

definition no_provider :: http_error where
  "no_provider = not_found ''Could not find provider for the chain id''"

definition api_create_relayer ::
  "relayer_params \<Rightarrow> header_map \<Rightarrow> start_call \<Rightarrow> string \<Rightarrow> chain_id \<Rightarrow> server \<Rightarrow>
   server \<times> (http_error + relayer_id \<times> evm_address)" where
  "api_create_relayer ra h env name c s =
     (case and_then (validate_basic_auth_valid h) (\<lambda>_.
           if c \<in> set (ac_private_key_only (sv_config s))
           then Inl (bad_request (''Cannot create new relayers for networks configured with only private_keys. ''
                       @ ''Private keys are imported automatically on startup.''))
           else ok_or no_provider (find_provider_for_chain_id (sv_providers s) c)) of
        Inl e \<Rightarrow> (s, Inl e)
      | Inr p \<Rightarrow>
          (case committed (sc_answer env) (sv_relayers s)
                  (create_new_relayer (sc_create env) name c (sv_relayers s)) of
             (t, Inl e) \<Rightarrow> (s\<lparr> sv_relayers := t \<rparr>, Inl (of_create_error ra e))
           | (t, Inr r) \<Rightarrow> start_created ra env r p c (s\<lparr> sv_relayers := t \<rparr>)))"

definition api_clone_relayer ::
  "relayer_params \<Rightarrow> header_map \<Rightarrow> start_call \<Rightarrow> string \<Rightarrow> chain_id \<Rightarrow> relayer_id \<Rightarrow> server \<Rightarrow>
   server \<times> (http_error + relayer_id \<times> evm_address)" where
  "api_clone_relayer ra h env name c source s =
     (case and_then (validate_basic_auth_valid h) (\<lambda>_.
           ok_or no_provider (find_provider_for_chain_id (sv_providers s) c)) of
        Inl e \<Rightarrow> (s, Inl e)
      | Inr p \<Rightarrow>
          (case committed (sc_answer env) (sv_relayers s)
                  (clone_relayer ((sc_create env)\<lparr> cr_can_clone := cp_can_clone p \<rparr>) name c source
                     (sv_relayers s)) of
             (t, Inl e) \<Rightarrow> (s\<lparr> sv_relayers := t \<rparr>, Inl (of_create_error ra e))
           | (t, Inr r) \<Rightarrow> start_created ra env r p c (s\<lparr> sv_relayers := t \<rparr>)))"

section \<open>Import\<close>

text \<open>The checks come before the mutex of creation, the insertion after it.\<close>

definition import_checks ::
  "relayer_params \<Rightarrow> header_map \<Rightarrow> db_error option \<Rightarrow> evm_address \<Rightarrow> chain_id \<Rightarrow> server \<Rightarrow>
   http_error + chain_provider" where
  "import_checks ra h fault a c s =
     and_then (validate_basic_auth_valid h) (\<lambda>_.
     and_then (if c \<in> set (ac_private_key_only (sv_config s))
               then Inl (bad_request ''Cannot import keys for networks configured with only private_keys.'')
               else Inr ()) (\<lambda>_.
     and_then (ok_or no_provider (find_provider_for_chain_id (sv_providers s) c)) (\<lambda>p.
     and_then (if supports_key_import (cp_wallet p) then Inr ()
               else Inl (bad_request (''The signing provider for this network does not support importing ''
                      @ ''existing keys. Key import is supported for: AWS KMS.''))) (\<lambda>_.
     and_then (map_err (\<lambda>e. internal_server_error
                  (Some (''Failed to check for existing relayer: '' @ ai_show_db (ra_api ra) e)))
                (case fault of Some e \<Rightarrow> Inl e | None \<Rightarrow> get_relayer_by_address a c (sv_relayers s)))
       (\<lambda>existing.
         case existing of
           Some r \<Rightarrow> Inl (conflict (''A relayer with address '' @ ra_show_address ra a @
                        '' already exists for chain '' @ show_digits (unat c) @ '' (id: '' @
                        ra_show_id ra (rl_id r) @ '')''))
         | None \<Rightarrow> Inr p)))))"

record import_call =
  im_start :: start_call
  im_index_fault :: "db_error option"
  im_read_fault :: "db_error option"
  im_key :: "u32 \<Rightarrow> string + string"
  im_save :: db_answer

definition imported_relayer :: "start_call \<Rightarrow> string \<Rightarrow> chain_id \<Rightarrow> int \<Rightarrow> evm_address \<Rightarrow> relayer" where
  "imported_relayer env name c i a = default_relayer (sc_create env) name c i False a"

definition import_failure :: "relayer_params \<Rightarrow> string \<Rightarrow> db_error \<Rightarrow> http_error" where
  "import_failure ra what e = internal_server_error (Some (what @ ai_show_db (ra_api ra) e))"

definition import_locked ::
  "relayer_params \<Rightarrow> import_call \<Rightarrow> string \<Rightarrow> evm_address \<Rightarrow> chain_id \<Rightarrow> chain_provider \<Rightarrow> server \<Rightarrow>
   server \<times> (http_error + relayer_id \<times> evm_address \<times> int \<times> string)" where
  "import_locked ra env name a c p s =
     (let i = get_next_wallet_index c (sv_relayers s);
          r = imported_relayer (im_start env) name c i a
      in case im_index_fault env of
           Some e \<Rightarrow> (s, Inl (import_failure ra ''Failed to get next wallet index: '' e))
         | None \<Rightarrow>
         (case im_key env (word_of_int i) of
           Inl e \<Rightarrow> (s, Inl (bad_request (''Failed to import key: '' @ e)))
         | Inr alias \<Rightarrow>
             (case save_relayer r (sv_relayers s) of
                Inl e \<Rightarrow> (s, Inl (import_failure ra ''Failed to insert relayer record: '' e))
              | Inr t \<Rightarrow>
                  (case run_update (im_save env) (\<lambda>_. t) s of
                     (s1, Inl e) \<Rightarrow> (s1, Inl (import_failure ra ''Failed to insert relayer record: '' e))
                   | (s1, Inr _) \<Rightarrow>
                       (case im_read_fault env of
                          Some e \<Rightarrow> (s1, Inl (import_failure ra ''Failed to get relayer: '' e))
                        | None \<Rightarrow>
                       (case get_relayer (rl_id r) (sv_relayers s1) of
                          None \<Rightarrow> (s1, Inl (internal_server_error (Some ''Relayer not found after insert'')))
                        | Some r' \<Rightarrow>
                            (case start_created ra (im_start env) r' p c s1 of
                               (s2, Inl e) \<Rightarrow> (s2, Inl e)
                             | (s2, Inr _) \<Rightarrow> (s2, Inr (rl_id r', a, i, alias)))))))))"

definition api_import_relayer ::
  "relayer_params \<Rightarrow> header_map \<Rightarrow> db_error option \<Rightarrow> import_call \<Rightarrow> string \<Rightarrow> evm_address \<Rightarrow> chain_id \<Rightarrow> server \<Rightarrow>
   server \<times> (http_error + relayer_id \<times> evm_address \<times> int \<times> string)" where
  "api_import_relayer ra h fault env name a c s =
     (case import_checks ra h fault a c s of
        Inl e \<Rightarrow> (s, Inl e)
      | Inr p \<Rightarrow> import_locked ra env name a c p s)"

section \<open>Queries\<close>

text \<open>
  The order of the rows of a query without \<open>ORDER BY\<close> is an input: \<open>rows\<close> is the table in the order of
  this query.
\<close>

definition relayer_page :: "paging_context \<Rightarrow> relayer list \<Rightarrow> relayer paging_result" where
  "relayer_page pc rows =
     (let items = take (unat (pc_limit pc)) (drop (unat (pc_offset pc)) rows)
      in \<lparr> pr_items = items, pr_next = paging_next pc (length items), pr_previous = paging_previous pc \<rparr>)"

definition api_get_relayers ::
  "relayer_params \<Rightarrow> header_map \<Rightarrow> db_error option \<Rightarrow> (relayer_table \<Rightarrow> relayer_table) \<Rightarrow> chain_id option \<Rightarrow>
   u32 \<Rightarrow> u32 \<Rightarrow> server \<Rightarrow> http_error + relayer paging_result" where
  "api_get_relayers ra h fault order chain limit offset s =
     (let pc = \<lparr> pc_limit = limit, pc_offset = offset \<rparr>;
          answer = (\<lambda>rows. case fault of Some e \<Rightarrow> Inl (of_db_error (ra_api ra) e) | None \<Rightarrow> Inr (relayer_page pc rows))
      in and_then (validate_basic_auth_valid h) (\<lambda>_.
         case chain of
           Some c \<Rightarrow>
             if \<not> chain_enabled (sv_providers s) c then Inl (bad_request ''Chain is not enabled'')
             else answer (get_all_relayers_for_chain c (order (sv_relayers s)))
         | None \<Rightarrow> answer (live (order (sv_relayers s)))))"

definition api_get_relayer ::
  "relayer_params \<Rightarrow> header_map \<Rightarrow> relayer_call \<Rightarrow> relayer_id \<Rightarrow> server \<Rightarrow>
   server \<times> (http_error + relayer \<times> string list)" where
  "api_get_relayer ra h env i s =
     (case validate_allowed_passed_basic_auth (sv_config s) h of
        Inl e \<Rightarrow> (s, Inl e)
      | Inr _ \<Rightarrow>
          (case lookup_relayer env i s of
             (s1, Inl e) \<Rightarrow> (s1, Inl (of_db_error (ra_api ra) e))
           | (s1, Inr None) \<Rightarrow> (s1, Inl (not_found ''Relayer could not be found''))
           | (s1, Inr (Some r)) \<Rightarrow>
               (s1, and_then (validate_auth_basic_or_api_key (sv_config s) h (rl_address r) (rl_chain_id r)) (\<lambda>_.
                  Inr (r, case find_provider_for_chain_id (sv_providers s) (rl_chain_id r) of
                            Some p \<Rightarrow> cp_provider_urls p | None \<Rightarrow> [])))))"

definition api_get_allowlist_addresses ::
  "relayer_params \<Rightarrow> header_map \<Rightarrow> relayer_call \<Rightarrow> relayer_id \<Rightarrow> server \<Rightarrow>
   server \<times> (http_error + evm_address list)" where
  "api_get_allowlist_addresses ra h env i s =
     (case validate_allowed_passed_basic_auth (sv_config s) h of
        Inl e \<Rightarrow> (s, Inl e)
      | Inr _ \<Rightarrow>
          (case lookup_relayer env i s of
             (s1, Inl e) \<Rightarrow> (s1, Inl (of_db_error (ra_api ra) e))
           | (s1, Inr None) \<Rightarrow> (s1, Inl (not_found ''Relayer does not exist''))
           | (s1, Inr (Some r)) \<Rightarrow>
               (s1, and_then (validate_auth_basic_or_api_key (sv_config s) h (rl_address r) (rl_chain_id r)) (\<lambda>_.
                  Inr (restricted_addresses (sv_config s) (rl_address r) (rl_chain_id r))))))"

section \<open>Startup\<close>

text \<open>
  All relayers are loaded in pages of 1000. Each query returns the rows in an order of its own; \<open>fuel\<close>
  bounds the pages.
\<close>

fun load_relayers :: "nat \<Rightarrow> (nat \<Rightarrow> relayer list) \<Rightarrow> nat \<Rightarrow> paging_context \<Rightarrow> relayer list option" where
  "load_relayers 0 rows k pc = None"
| "load_relayers (Suc fuel) rows k pc =
     (let page = relayer_page pc (rows k)
      in case pr_next page of
           None \<Rightarrow> Some (pr_items page)
         | Some pc' \<Rightarrow> map_option (\<lambda>rs. pr_items page @ rs) (load_relayers fuel rows (Suc k) pc'))"

text \<open>The private keys of every network that has a provider and keys.\<close>

record key_network =
  kn_name :: string
  kn_chain_id :: chain_id
  kn_signing_keys :: "nat option option"

fun import_private_keys_as_relayers ::
  "(string \<Rightarrow> nat \<Rightarrow> bool) \<Rightarrow> (string \<Rightarrow> nat \<Rightarrow> create_env) \<Rightarrow> chain_provider list \<Rightarrow> nat option option \<Rightarrow>
   key_network list \<Rightarrow> relayer_table \<Rightarrow> relayer_table" where
  "import_private_keys_as_relayers faults envs ps global [] t = t"
| "import_private_keys_as_relayers faults envs ps global (n # ns) t =
     import_private_keys_as_relayers faults envs ps global ns
       (case find_provider_for_chain_id ps (kn_chain_id n) of
          None \<Rightarrow> t
        | Some p \<Rightarrow>
            (case or_else (kn_signing_keys n) global of
               Some (Some keys) \<Rightarrow>
                 import_keys (faults (kn_name n)) (envs (kn_name n)) (kn_name n) (kn_chain_id n) [0..<keys] t
             | _ \<Rightarrow> t))"

end
