(* ===== verification/Relayer_Api_Properties.thy ===== *)
theory Relayer_Api_Properties
  imports Relayer_Api Examples
begin

text \<open>
  Properties of the endpoints for relayers: the cache agrees with the table as long as handlers run one
  after another, and what happens when they do not; what creation and import leave behind.
\<close>

section \<open>The table\<close>

lemma live_set: "live (update_relayers P (set_relayer f) t) = map (\<lambda>r. if P r then f r else r) (live t)"
  by (induction t) (simp_all add: live_def update_relayers_def set_relayer_def)

lemma find_map_same:
  "(\<And>x. P (g x) = P x) \<Longrightarrow> find P (map g xs) = map_option g (find P xs)"
  by (induction xs) simp_all

lemma get_relayer_set:
  assumes "\<And>r. rl_id (f r) = rl_id r"
  shows "get_relayer j (update_relayers P (set_relayer f) t) =
    map_option (\<lambda>r. if P r then f r else r) (get_relayer j t)"
  unfolding get_relayer_def live_set using assms by (subst find_map_same) (simp_all)

lemma get_relayer_id: "get_relayer j t = Some r \<Longrightarrow> rl_id r = j \<and> r \<in> set (live t)"
  by (auto simp: get_relayer_def find_Some_iff)

lemma get_relayer_set_other:
  assumes "\<And>r. rl_id (f r) = rl_id r" "j \<noteq> i"
  shows "get_relayer j (update_relayers (\<lambda>r. rl_id r = i) (set_relayer f) t) = get_relayer j t"
  using assms get_relayer_id [of j t] by (cases "get_relayer j t") (auto simp: get_relayer_set)

lemma get_relayer_delete_other: "j \<noteq> i \<Longrightarrow> get_relayer j (delete_relayer i t) = get_relayer j t"
  by (induction t) (auto simp: get_relayer_def delete_relayer_def update_relayers_def live_def)

lemma get_relayer_deleted: "get_relayer i (delete_relayer i t) = None"
  by (induction t) (auto simp: get_relayer_def delete_relayer_def update_relayers_def live_def)

lemma find_append_Some: "find P xs = Some x \<Longrightarrow> find P (xs @ ys) = Some x"
  by (induction xs) auto

lemma inserted_relayer:
  "insert_relayer r t = Inr t' \<Longrightarrow> t' = t @ [\<lparr> rw_relayer = r, rw_deleted = False \<rparr>]"
  by (auto simp: insert_relayer_def check_relayers_def split: if_splits)

lemma live_insert: "live (t @ [\<lparr> rw_relayer = r, rw_deleted = False \<rparr>]) = live t @ [r]"
  by (simp add: live_def)

text \<open>The rows of private keys have negative indexes.\<close>

definition keys_negative :: "relayer_table \<Rightarrow> bool" where
  "keys_negative t \<longleftrightarrow> (\<forall>r \<in> set (live t). rl_is_private_key r \<longrightarrow> rl_wallet_index r < 0)"

text \<open>A new table that answers what the old one did, for every live relayer of the old one.\<close>

definition extends_table :: "relayer_table \<Rightarrow> relayer_table \<Rightarrow> bool" where
  "extends_table t t' \<longleftrightarrow> (keys_negative t \<longrightarrow> keys_negative t') \<and>
     (\<forall>j r. get_relayer j t = Some r \<longrightarrow> get_relayer j t' = Some r)"

lemma extends_refl [simp]: "extends_table t t"
  by (simp add: extends_table_def)

lemma insert_extends:
  assumes "insert_relayer r t = Inr t'" "rl_is_private_key r \<longrightarrow> rl_wallet_index r < 0"
  shows "extends_table t t'"
  using assms by (auto simp: extends_table_def keys_negative_def inserted_relayer [OF assms(1)] live_insert
      get_relayer_def find_append_Some)

lemma next_index_free:
  assumes "keys_negative t" "r \<in> set (live t)" "rl_chain_id r = c"
  shows "rl_wallet_index r \<noteq> next_normal_wallet_index c t"
proof
  assume eq: "rl_wallet_index r = next_normal_wallet_index c t"
  let ?is = "map rl_wallet_index (filter (\<lambda>r. rl_chain_id r = c \<and> \<not> rl_is_private_key r \<and>
                                            rl_wallet_index r \<ge> 0) (live t))"
  have mem: "i \<in> set is \<Longrightarrow> i \<le> max_index is" for i :: int and "is"
    unfolding max_index_def by (induction "is") (auto simp: le_max_iff_disj)
  have low: "- 1 \<le> max_index is" for "is" unfolding max_index_def by (induction "is") auto
  have nonneg: "0 \<le> next_normal_wallet_index c t"
    unfolding next_normal_wallet_index_def using low [of ?is] by linarith
  with eq assms have "\<not> rl_is_private_key r" by (auto simp: keys_negative_def)
  with eq nonneg assms have "r \<in> set (filter (\<lambda>r. rl_chain_id r = c \<and> \<not> rl_is_private_key r \<and>
      rl_wallet_index r \<ge> 0) (live t))" by auto
  then have "rl_wallet_index r \<in> set ?is" unfolding set_map by (rule imageI)
  from mem [OF this] eq show False by (simp add: next_normal_wallet_index_def)
qed

lemma create_extends:
  assumes "create_new_relayer env name c t = (t', res)" "keys_negative t"
  shows "extends_table t t'"
proof (cases "t' = t")
  case False
  let ?i = "next_normal_wallet_index c t" and ?P = "\<lambda>r. rl_chain_id r = c \<and> rl_wallet_index r = next_normal_wallet_index c t"
  from assms(1) False obtain t1 a where
    t1: "insert_relayer (default_relayer env name c ?i False 0) t = Inr t1"
    "t' = update_relayers ?P (set_relayer (\<lambda>r. r\<lparr> rl_address := a \<rparr>)) t1"
    by (auto simp: create_new_relayer_def inserted_def Let_def split: sum.splits)
  have ext: "extends_table t t1" by (rule insert_extends [OF t1(1)]) (simp add: default_relayer_def)
  have keys: "keys_negative t'"
    using ext assms(2) unfolding t1(2) by (auto simp: extends_table_def keys_negative_def live_set)
  have "get_relayer j t' = Some r" if "get_relayer j t = Some r" for j r
  proof -
    from that ext have "get_relayer j t1 = Some r" by (simp add: extends_table_def)
    moreover have "\<not> ?P r" using next_index_free [OF assms(2)] get_relayer_id [OF that] by blast
    ultimately show ?thesis unfolding t1(2) by (subst get_relayer_set) auto
  qed
  with keys show ?thesis by (simp add: extends_table_def)
qed simp

lemma clone_extends:
  assumes "clone_relayer env name c source t = (t', res)"
  shows "extends_table t t'"
proof (cases "t' = t")
  case False
  with assms obtain src where src: "clone_checks env c src = Inr ()"
    "insert_relayer (cloned_relayer env name c src) t = Inr t'"
    by (auto simp: clone_relayer_def inserted_def and_then_def ok_or_def split: sum.splits option.splits)
  have "\<not> rl_is_private_key src" using src(1) by (auto simp: clone_checks_def split: if_splits)
  then show ?thesis by (intro insert_extends [OF src(2)]) (simp add: cloned_relayer_def)
qed simp

lemma save_extends:
  "save_relayer (imported_relayer env name c i a) t = Inr t' \<Longrightarrow> extends_table t t'"
  unfolding save_relayer_def
  by (erule insert_extends) (simp add: imported_relayer_def default_relayer_def)

section \<open>The cache\<close>

definition server_ok :: "server \<Rightarrow> bool" where
  "server_ok s \<longleftrightarrow> keys_negative (sv_relayers s) \<and>
     (\<forall>i r t. sv_relayer_cache s i = Some (Some r, t) \<longrightarrow> get_relayer i (sv_relayers s) = Some r)"

lemma server_ok_table:
  "server_ok s \<Longrightarrow> extends_table (sv_relayers s) t \<Longrightarrow> server_ok (s\<lparr> sv_relayers := t \<rparr>)"
  by (auto simp: server_ok_def extends_table_def)

lemma server_ok_invalidate: "server_ok s \<Longrightarrow> server_ok (invalidate_relayer_cache i s)"
  by (auto simp: server_ok_def invalidate_relayer_cache_def cache_delete_def split: if_splits)

lemma server_ok_app [simp]: "server_ok (s\<lparr> sv_app := a \<rparr>) = server_ok s"
  by (simp add: server_ok_def)

lemma server_ok_sys [simp]: "server_ok (set_sys y s) = server_ok s"
  by (simp add: set_sys_def)

lemma change_queue_ok [simp]: "server_ok (change_queue g i s) = server_ok s"
  by (simp add: change_queue_def Let_def split: option.splits)

lemma server_ok_retain: "server_ok s \<Longrightarrow> server_ok (s\<lparr> sv_relayer_cache := cache_retain now (sv_relayer_cache s) \<rparr>)"
  by (auto simp: server_ok_def cache_retain_def split: option.splits if_splits)

lemma lookup_relayer_ok:
  assumes "lookup_relayer env i s = (s', r)" "server_ok s"
  shows "server_ok s'" "sv_relayers s' = sv_relayers s" "r = Inr x \<Longrightarrow> x = get_relayer i (sv_relayers s)"
  using assms
  by (auto simp: lookup_relayer_def get_relayer_cache_def cache_get_def set_relayer_cache_def cache_insert_def
      cache_insert_with_expiry_def server_ok_def Let_def bind_eq_Some_conv
      split: option.splits if_splits prod.splits)

section \<open>Handlers\<close>

text \<open>The database answered: an acknowledgement that is lost leaves the caller without knowledge.\<close>

definition answer_known :: "db_answer \<Rightarrow> bool" where
  "answer_known ans = (case ans of DbLostAck e \<Rightarrow> False | _ \<Rightarrow> True)"

text \<open>An update that leaves every other relayer alone.\<close>

definition updates_only :: "relayer_id \<Rightarrow> (relayer_table \<Rightarrow> relayer_table) \<Rightarrow> bool" where
  "updates_only i f \<longleftrightarrow> (\<forall>t. (keys_negative t \<longrightarrow> keys_negative (f t)) \<and>
     (\<forall>j. j \<noteq> i \<longrightarrow> get_relayer j (f t) = get_relayer j t))"

lemma settings_update_only:
  "updates_only i (set_relayer_paused b i)" "updates_only i (update_relayer_max_gas_price m i)"
  "updates_only i (update_relayer_eip_1559_status b i)" "updates_only i (delete_relayer i)"
proof -
  have keys: "keys_negative (update_relayers P (set_relayer f) t)"
    if "keys_negative t" "\<And>r. rl_is_private_key (f r) = rl_is_private_key r \<and> rl_wallet_index (f r) = rl_wallet_index r"
    for P f t using that by (auto simp: keys_negative_def live_set)
  show "updates_only i (set_relayer_paused b i)" "updates_only i (update_relayer_max_gas_price m i)"
    "updates_only i (update_relayer_eip_1559_status b i)"
    unfolding updates_only_def set_relayer_paused_def update_relayer_max_gas_price_def update_relayer_eip_1559_status_def
    by (simp_all add: keys get_relayer_set_other)
  have "set (live (delete_relayer i t)) \<subseteq> set (live t)" for t
    by (induction t) (auto simp: live_def delete_relayer_def update_relayers_def)
  then show "updates_only i (delete_relayer i)"
    by (auto simp: updates_only_def keys_negative_def get_relayer_delete_other)
qed

lemma update_then_invalidate:
  assumes "updates_only i f" "run_update ans f s = (s', Inr u)" "server_ok s"
  shows "server_ok (invalidate_relayer_cache i s')"
  using assms
  by (auto simp: run_update_def Let_def server_ok_def invalidate_relayer_cache_def cache_delete_def
      updates_only_def split: db_answer.splits if_splits)

lemma failed_update:
  "run_update ans f s = (s', Inl e) \<Longrightarrow> answer_known ans \<Longrightarrow> s' = s"
  by (auto simp: run_update_def answer_known_def Let_def split: db_answer.splits)

lemma relayer_exists_ok:
  assumes "relayer_exists env i s = (s', r)" "server_ok s"
  shows "server_ok s'" "sv_relayers s' = sv_relayers s"
  using assms lookup_relayer_ok [of env i s] by (auto simp: relayer_exists_def split: prod.splits)

lemma change_setting_ok:
  assumes "change_setting ra h env f g i s = (s', r)" "server_ok s" "updates_only i f"
    "answer_known (rc_update env)"
  shows "server_ok s'"
proof (cases "validate_basic_auth_valid h")
  case Inr
  obtain s1 ex where ex: "relayer_exists env i s = (s1, ex)" by force
  obtain s2 up where up: "run_update (rc_update env) f s1 = (s2, up)" by force
  have ok1: "server_ok s1" by (rule relayer_exists_ok(1) [OF ex assms(2)])
  show ?thesis
  proof (cases "ex = Inr True \<and> is_ok up")
    case True
    then obtain u where u: "up = Inr u" by (cases up) auto
    have "server_ok (invalidate_relayer_cache i s2)"
      by (rule update_then_invalidate [OF assms(3) up [unfolded u] ok1])
    with assms(1) Inr ex up u True show ?thesis by (auto simp: change_setting_def)
  next
    case False
    then have "s' = s1 \<or> (s' = s2 \<and> (\<exists>e. up = Inl e))"
      using assms(1) Inr ex up by (auto simp: change_setting_def split: sum.splits bool.splits)
    with failed_update up assms(4) ok1 show ?thesis by blast
  qed
qed (use assms(1,2) in \<open>auto simp: change_setting_def\<close>)

lemma start_relayer_queue_ok:
  assumes "start_relayer_queue n1 n2 r p c s = (s', res)" "server_ok s"
  shows "server_ok s'"
  using assms by (auto simp: start_relayer_queue_def Let_def server_ok_invalidate split: sum.splits prod.splits)

lemma start_created_ok:
  assumes "start_created ra env r p c s = (s', res)" "server_ok s"
  shows "server_ok s'"
proof -
  obtain s1 q where q: "start_relayer_queue (sc_first_nonce env) (sc_second_nonce env) r p c
      (invalidate_relayer_cache (rl_id r) s) = (s1, q)" by force
  have "server_ok s1" by (rule start_relayer_queue_ok [OF q server_ok_invalidate [OF assms(2)]])
  with assms(1) q show ?thesis by (auto simp: start_created_def split: sum.splits)
qed

lemma committed_table: "committed ans t p = (t', r) \<Longrightarrow> t' = t \<or> t' = fst p"
  by (auto simp: committed_def split: prod.splits sum.splits db_answer.splits)

lemma api_create_relayer_ok:
  assumes "api_create_relayer ra h env name c s = (s', res)" "server_ok s"
  shows "server_ok s'"
proof -
  obtain t r where t: "committed (sc_answer env) (sv_relayers s)
      (create_new_relayer (sc_create env) name c (sv_relayers s)) = (t, r)" by force
  have keys: "keys_negative (sv_relayers s)" using assms(2) by (simp add: server_ok_def)
  have "extends_table (sv_relayers s) t"
    using committed_table [OF t] create_extends [OF surjective_pairing keys] by auto
  then have ok: "server_ok (s\<lparr> sv_relayers := t \<rparr>)" by (rule server_ok_table [OF assms(2)])
  show ?thesis
    using assms t ok start_created_ok [OF _ ok]
    by (auto simp: api_create_relayer_def split: sum.splits)
qed

lemma api_clone_relayer_ok:
  assumes "api_clone_relayer ra h env name c source s = (s', res)" "server_ok s"
  shows "server_ok s'"
proof (cases "s' = s")
  case False
  then obtain p t r where t: "committed (sc_answer env) (sv_relayers s)
      (clone_relayer ((sc_create env)\<lparr> cr_can_clone := cp_can_clone p \<rparr>) name c source (sv_relayers s)) = (t, r)"
    "s' = s\<lparr> sv_relayers := t \<rparr> \<or> (\<exists>x. start_created ra env x p c (s\<lparr> sv_relayers := t \<rparr>) = (s', res))"
    using assms(1) by (auto simp: api_clone_relayer_def split: sum.splits prod.splits)
  have "extends_table (sv_relayers s) t"
    using committed_table [OF t(1)] clone_extends [OF surjective_pairing] by auto
  then have ok: "server_ok (s\<lparr> sv_relayers := t \<rparr>)" by (rule server_ok_table [OF assms(2)])
  with t(2) start_created_ok [OF _ ok] show ?thesis by blast
qed (use assms(2) in simp)

lemma import_locked_ok:
  assumes "import_locked ra env name a c p s = (s', res)" "server_ok s"
  shows "server_ok s'"
proof (cases "s' = s")
  case False
  let ?r = "imported_relayer (im_start env) name c (get_next_wallet_index c (sv_relayers s)) a"
  from False assms(1) obtain t where t: "save_relayer ?r (sv_relayers s) = Inr t"
    and cont: "s' = s\<lparr> sv_relayers := t \<rparr> \<or>
      (\<exists>x y. start_created ra (im_start env) x p c (s\<lparr> sv_relayers := t \<rparr>) = (s', y))"
    by (auto simp: import_locked_def run_update_def Let_def split: sum.splits db_answer.splits option.splits prod.splits)
  have ok: "server_ok (s\<lparr> sv_relayers := t \<rparr>)" by (rule server_ok_table [OF assms(2) save_extends [OF t]])
  with cont start_created_ok [OF _ ok] show ?thesis by blast
qed (use assms(2) in simp)

lemma api_import_relayer_ok:
  assumes "api_import_relayer ra h fault env name a c s = (s', res)" "server_ok s"
  shows "server_ok s'"
  using assms import_locked_ok by (auto simp: api_import_relayer_def split: sum.splits)

lemma api_delete_relayer_ok:
  assumes "api_delete_relayer ra h ans i s = (s', res)" "server_ok s" "answer_known ans"
  shows "server_ok s'"
proof (cases "validate_basic_auth_valid h")
  case Inr
  obtain s1 up where up: "run_update ans (delete_relayer i) s = (s1, up)" by force
  show ?thesis
  proof (cases up)
    case (Inl e)
    with up assms(3) failed_update have "s1 = s" by blast
    with assms(1,2) Inr up Inl \<open>validate_basic_auth_valid h = Inr _\<close> show ?thesis by (auto simp: api_delete_relayer_def)
  next
    case (Inr u)
    have "server_ok (invalidate_relayer_cache i s1)"
      by (rule update_then_invalidate [OF settings_update_only(4) up [unfolded Inr] assms(2)])
    with assms(1) Inr up \<open>validate_basic_auth_valid h = Inr _\<close> show ?thesis by (auto simp: api_delete_relayer_def Let_def)
  qed
qed (use assms(1,2) in \<open>auto simp: api_delete_relayer_def\<close>)

section \<open>One request after another\<close>

lemma api_get_relayer_ok:
  assumes "api_get_relayer ra h env i s = (s', res)" "server_ok s"
  shows "server_ok s'"
proof -
  obtain s1 r where "lookup_relayer env i s = (s1, r)" by force
  with lookup_relayer_ok(1) [OF this assms(2)] assms show ?thesis
    by (auto simp: api_get_relayer_def split: sum.splits option.splits)
qed

lemma api_get_allowlist_ok:
  assumes "api_get_allowlist_addresses ra h env i s = (s', res)" "server_ok s"
  shows "server_ok s'"
proof -
  obtain s1 r where "lookup_relayer env i s = (s1, r)" by force
  with lookup_relayer_ok(1) [OF this assms(2)] assms show ?thesis
    by (auto simp: api_get_allowlist_addresses_def split: sum.splits option.splits)
qed

text \<open>
  The requests a server handles, each to its end. \<open>Other\<close> is anything that leaves the table of relayers and
  its cache alone: the handlers of transactions, the loops, the tasks.
\<close>

inductive server_step :: "server \<Rightarrow> server \<Rightarrow> bool" where
  Pause: "answer_known (rc_update env) \<Longrightarrow> server_step s (fst (api_pause_relayer ra h env i s))"
| Unpause: "answer_known (rc_update env) \<Longrightarrow> server_step s (fst (api_unpause_relayer ra h env i s))"
| MaxGas: "answer_known (rc_update env) \<Longrightarrow> server_step s (fst (api_update_max_gas_price ra h env cap i s))"
| Eip1559Setting: "answer_known (rc_update env) \<Longrightarrow> server_step s (fst (api_update_eip1559_status ra h env b i s))"
| Delete: "answer_known ans \<Longrightarrow> server_step s (fst (api_delete_relayer ra h ans i s))"
| Create: "server_step s (fst (api_create_relayer ra h cenv name c s))"
| Clone: "server_step s (fst (api_clone_relayer ra h cenv name c i s))"
| Import: "server_step s (fst (api_import_relayer ra h fault ienv name a c s))"
| Lookup: "server_step s (fst (lookup_relayer env i s))"
| Get: "server_step s (fst (api_get_relayer ra h env i s))"
| Allowlist: "server_step s (fst (api_get_allowlist_addresses ra h env i s))"
| Discard: "server_step s (s\<lparr> sv_relayer_cache := cache_retain now (sv_relayer_cache s) \<rparr>)"
| Other: "server_step s (s\<lparr> sv_app := app \<rparr>)"

inductive_cases server_stepE: "server_step s s'"

lemma server_step_ok:
  assumes "server_step s s'" "server_ok s"
  shows "server_ok s'"
proof -
  note settings = change_setting_ok [OF _ assms(2) settings_update_only(1)]
    change_setting_ok [OF _ assms(2) settings_update_only(2)] change_setting_ok [OF _ assms(2) settings_update_only(3)]
  from assms(1) show ?thesis
  proof cases
    case (Pause env ra h i)
    then show ?thesis using settings(1) surjective_pairing by (metis api_pause_relayer_def)
  next
    case (Unpause env ra h i)
    then show ?thesis using settings(1) surjective_pairing by (metis api_unpause_relayer_def)
  next
    case (MaxGas env ra h cap i)
    then show ?thesis using settings(2) surjective_pairing by (metis api_update_max_gas_price_def)
  next
    case (Eip1559Setting env ra h b i)
    then show ?thesis using settings(3) surjective_pairing by (metis api_update_eip1559_status_def)
  next
    case (Delete ans ra h i)
    then show ?thesis using api_delete_relayer_ok [OF surjective_pairing assms(2)] by blast
  next
    case (Create ra h cenv name c)
    then show ?thesis using api_create_relayer_ok [OF surjective_pairing assms(2)] by blast
  next
    case (Clone ra h cenv name c i)
    then show ?thesis using api_clone_relayer_ok [OF surjective_pairing assms(2)] by blast
  next
    case (Import ra h fault ienv name a c)
    then show ?thesis using api_import_relayer_ok [OF surjective_pairing assms(2)] by blast
  next
    case (Lookup env i)
    then show ?thesis using lookup_relayer_ok(1) [OF surjective_pairing assms(2)] by blast
  next
    case (Get ra h env i)
    then show ?thesis using api_get_relayer_ok [OF surjective_pairing assms(2)] by blast
  next
    case (Allowlist ra h env i)
    then show ?thesis using api_get_allowlist_ok [OF surjective_pairing assms(2)] by blast
  next
    case (Discard now)
    then show ?thesis using server_ok_retain [OF assms(2)] by blast
  next
    case (Other app)
    then show ?thesis using assms(2) by simp
  qed
qed

lemma server_steps_ok: "server_step\<^sup>*\<^sup>* s s' \<Longrightarrow> server_ok s \<Longrightarrow> server_ok s'"
  by (induction rule: rtranclp_induct) (auto intro: server_step_ok)

text \<open>C33: A lookup of a relayer through the cache answers exactly what the table holds, after any sequence of
  requests (creation, cloning, import, deletion, changes of settings, lookups, expiry and all requests that
  do not touch relayers) that are handled one after another and whose updates the database acknowledges.\<close>

theorem cached_lookup_is_current:
  assumes "server_step\<^sup>*\<^sup>* s0 s" "sv_relayer_cache s0 = Map.empty" "keys_negative (sv_relayers s0)"
    and "lookup_relayer env i s = (s', Inr r)"
  shows "r = get_relayer i (sv_relayers s) \<and> sv_relayers s' = sv_relayers s"
proof -
  have "server_ok s0" using assms(2,3) by (simp add: server_ok_def)
  with assms(1) have ok: "server_ok s" by (rule server_steps_ok)
  show ?thesis using lookup_relayer_ok(2,3) [OF assms(4) ok] by blast
qed

text \<open>A relayer is looked up, paused and looked up again.\<close>

definition ex_admin :: header_map where
  "ex_admin = [''x-rrelayer-basic-auth-valid'' \<mapsto> ''true'']"

definition ex_call :: relayer_call where
  "ex_call = \<lparr> rc_now_get = 1, rc_now_set = 1, rc_fault = None, rc_update = DbOk \<rparr>"

definition ex_relayer_server :: server where
  "ex_relayer_server =
     \<lparr> sv_app = \<lparr> as_config = \<lparr> ac_internal_only = [], ac_random = Map.empty, ac_permissions = [],
                   ac_api_keys = [], ac_blobs_enabled = [], ac_private_key_only = [] \<rparr>,
                  as_limiter = None, as_sys = ex_start, as_signed_texts = [], as_signed_typed_data = [] \<rparr>,
       sv_relayers = [\<lparr> rw_relayer = ex_relayer, rw_deleted = False \<rparr>], sv_relayer_cache = Map.empty,
       sv_providers = [], sv_networks = [], sv_safes = [] \<rparr>"

lemma ex_admin_valid: "validate_basic_auth_valid ex_admin = Inr ()"
  by code_simp

lemma ex_relayer_found: "get_relayer 7 (sv_relayers ex_relayer_server) = Some ex_relayer"
  by (simp add: ex_relayer_server_def get_relayer_def live_def ex_relayer_def)

text \<open>What a successful pause does.\<close>

lemma pause_effect:
  assumes "api_pause_relayer ra h env i s = (s', Inr u)"
  shows "sv_relayers s' = set_relayer_paused True i (sv_relayers s)" "sv_relayer_cache s' i = None"
    "s_queues (as_sys (sv_app s)) i = Some q \<Longrightarrow>
       s_queues (as_sys (sv_app s')) i = Some (set_is_paused True q)"
proof -
  from assms obtain s1 s2 where s: "relayer_exists env i s = (s1, Inr True)"
    "run_update (rc_update env) (set_relayer_paused True i) s1 = (s2, Inr u)"
    "s' = change_queue (set_is_paused True) i (invalidate_relayer_cache i s2)"
    by (auto simp: api_pause_relayer_def change_setting_def split: sum.splits bool.splits prod.splits)
  have s1: "sv_relayers s1 = sv_relayers s" "sv_app s1 = sv_app s"
    using s(1) by (auto simp: relayer_exists_def lookup_relayer_def set_relayer_cache_def Let_def
        split: prod.splits option.splits)
  have s2: "s2 = s1\<lparr> sv_relayers := set_relayer_paused True i (sv_relayers s1) \<rparr>"
    using s(2) by (auto simp: run_update_def Let_def split: db_answer.splits)
  show "sv_relayers s' = set_relayer_paused True i (sv_relayers s)" "sv_relayer_cache s' i = None"
    using s(3) s1 s2
    by (auto simp: change_queue_def set_sys_def invalidate_relayer_cache_def cache_delete_def Let_def
        split: option.splits)
  show "s_queues (as_sys (sv_app s)) i = Some q \<Longrightarrow>
       s_queues (as_sys (sv_app s')) i = Some (set_is_paused True q)"
    using s(3) s1 s2
    by (simp add: change_queue_def set_sys_def invalidate_relayer_cache_def put_queue_def Let_def)
qed

definition ex_paused_server :: "relayer_params \<Rightarrow> server" where
  "ex_paused_server ra =
     fst (api_pause_relayer ra ex_admin ex_call 7 (fst (lookup_relayer ex_call 7 ex_relayer_server)))"

lemma ex_paused_relayers:
  "sv_relayers (ex_paused_server ra) = [\<lparr> rw_relayer = ex_relayer\<lparr> rl_paused := True \<rparr>, rw_deleted = False \<rparr>]"
proof -
  define s1 where "s1 = set_relayer_cache 1 7 (Some ex_relayer) ex_relayer_server"
  have s1: "lookup_relayer ex_call 7 ex_relayer_server = (s1, Inr (Some ex_relayer))"
    unfolding s1_def lookup_relayer_def ex_relayer_found
    by (simp add: ex_call_def get_relayer_cache_def cache_get_def ex_relayer_server_def Let_def)
  have s1': "sv_relayers s1 = sv_relayers ex_relayer_server" "get_relayer_cache 1 7 s1 = Some ex_relayer"
    by (simp_all add: s1_def set_relayer_cache_def get_relayer_cache_def cache_get_def cache_insert_def
        cache_insert_with_expiry_def DEFAULT_CACHE_TTL_def)
  have "\<exists>s'. api_pause_relayer ra ex_admin ex_call 7 s1 = (s', Inr ())"
    using s1'(2) ex_admin_valid
    by (simp add: api_pause_relayer_def change_setting_def relayer_exists_def lookup_relayer_def ex_call_def
        run_update_def)
  then obtain s' where s': "api_pause_relayer ra ex_admin ex_call 7 s1 = (s', Inr ())" by blast
  have "sv_relayers s' = set_relayer_paused True 7 (sv_relayers ex_relayer_server)"
    using pause_effect(1) [OF s'] s1'(1) by simp
  with s' s1 show ?thesis
    by (simp add: ex_paused_server_def ex_relayer_server_def set_relayer_paused_def update_relayers_def
        set_relayer_def ex_relayer_def)
qed

theorem cached_lookup_is_current_witness:
  "\<forall>ra. snd (lookup_relayer ex_call 7 (ex_paused_server ra)) = Inr (Some (ex_relayer\<lparr> rl_paused := True \<rparr>))"
proof
  fix ra
  have "\<exists>s' r. lookup_relayer ex_call 7 (ex_paused_server ra) = (s', Inr r)"
    by (simp add: lookup_relayer_def ex_call_def Let_def split: option.splits)
  then obtain s' r where res: "lookup_relayer ex_call 7 (ex_paused_server ra) = (s', Inr r)" by blast
  have "server_step ex_relayer_server (fst (lookup_relayer ex_call 7 ex_relayer_server))" by (rule Lookup)
  moreover have "server_step (fst (lookup_relayer ex_call 7 ex_relayer_server)) (ex_paused_server ra)"
    unfolding ex_paused_server_def by (rule Pause) (simp add: ex_call_def answer_known_def)
  ultimately have steps: "server_step\<^sup>*\<^sup>* ex_relayer_server (ex_paused_server ra)" by auto
  have "r = get_relayer 7 (sv_relayers (ex_paused_server ra))"
    using cached_lookup_is_current [OF steps _ _ res]
    by (simp add: ex_relayer_server_def keys_negative_def live_def ex_relayer_def)
  then have "r = Some (ex_relayer\<lparr> rl_paused := True \<rparr>)"
    by (simp add: ex_paused_relayers get_relayer_def live_def ex_relayer_def)
  with res show "snd (lookup_relayer ex_call 7 (ex_paused_server ra)) = Inr (Some (ex_relayer\<lparr> rl_paused := True \<rparr>))"
    by simp
qed

section \<open>Requests that overlap, answers that are lost\<close>

text \<open>
  A lookup reads the table, another request pauses the relayer, and the lookup then stores what it read:
  the cache keeps the relayer that is not paused.
\<close>

lemma overlapping_lookup_is_stale:
  assumes "get_relayer i (sv_relayers s) = Some r" "\<not> rl_paused r"
    and "api_pause_relayer ra h env i s = (s1, Inr u)" "later < now + DEFAULT_CACHE_TTL"
  shows "get_relayer_cache later i (set_relayer_cache now i (get_relayer i (sv_relayers s)) s1) = Some r"
    and "get_relayer i (sv_relayers s1) = Some (r\<lparr> rl_paused := True \<rparr>)"
proof -
  show "get_relayer_cache later i (set_relayer_cache now i (get_relayer i (sv_relayers s)) s1) = Some r"
    using assms(1,4) by (simp add: get_relayer_cache_def cache_get_def set_relayer_cache_def cache_insert_def
        cache_insert_with_expiry_def)
  have "rl_id r = i" using get_relayer_id [OF assms(1)] by blast
  then show "get_relayer i (sv_relayers s1) = Some (r\<lparr> rl_paused := True \<rparr>)"
    unfolding pause_effect(1) [OF assms(3)] set_relayer_paused_def
    using assms(1) by (subst get_relayer_set) simp_all
qed

text \<open>
  Where the acknowledgement of the update is lost the handler ends: the relayer is paused in the table, but
  neither in the cache nor in the running queue.
\<close>

lemma lost_acknowledgement_leaves_queue:
  assumes "get_relayer_cache (rc_now_get env) i s = Some r" "rc_update env = DbLostAck e"
    "validate_basic_auth_valid h = Inr u"
  shows "fst (api_pause_relayer ra h env i s) = s\<lparr> sv_relayers := set_relayer_paused True i (sv_relayers s) \<rparr>"
  using assms
  by (simp add: api_pause_relayer_def change_setting_def relayer_exists_def lookup_relayer_def run_update_def)

section \<open>What creation and import leave behind\<close>

text \<open>The row is committed before the nonce is read: a node that does not answer leaves a relayer without a queue.\<close>

lemma created_without_queue:
  assumes "validate_basic_auth_valid h = Inr u" "c \<notin> set (ac_private_key_only (sv_config s))"
    "find_provider_for_chain_id (sv_providers s) c = Some p"
    "create_new_relayer (sc_create env) name c (sv_relayers s) = (t, Inr r)" "sc_answer env = DbOk"
    "sc_first_nonce env = Inl e"
  shows "api_create_relayer ra h env name c s =
    (invalidate_relayer_cache (rl_id r) (s\<lparr> sv_relayers := t \<rparr>), Inl (of_provider_error ra e))"
  using assms by (simp add: api_create_relayer_def committed_def start_created_def start_relayer_queue_def)

text \<open>
  Behind the mutex the import does not look at the address again. Two imports of one key whose checks both
  ran before either insertion give the chain two live relayers with one account.
\<close>

lemma import_adds_without_check:
  assumes "import_locked ra env name a c p s = (s', Inr x)"
  shows "\<exists>r. live (sv_relayers s') = live (sv_relayers s) @ [r] \<and> rl_address r = a \<and> rl_chain_id r = c"
proof -
  let ?r = "imported_relayer (im_start env) name c (get_next_wallet_index c (sv_relayers s)) a"
  from assms obtain t y where t: "save_relayer ?r (sv_relayers s) = Inr t"
    "start_created ra (im_start env) y p c (s\<lparr> sv_relayers := t \<rparr>) = (s', Inr (rl_id y, rl_address y)) \<or>
     (\<exists>z. start_created ra (im_start env) y p c (s\<lparr> sv_relayers := t \<rparr>) = (s', Inr z))"
    by (auto simp: import_locked_def run_update_def Let_def split: sum.splits db_answer.splits option.splits prod.splits)
  have "sv_relayers s' = t"
    using t(2) by (auto simp: start_created_def start_relayer_queue_def invalidate_relayer_cache_def set_sys_def Let_def
        split: sum.splits prod.splits)
  with t(1) show ?thesis
    by (auto simp: save_relayer_def live_insert imported_relayer_def default_relayer_def dest!: inserted_relayer)
qed

lemma concurrent_imports_share_account:
  assumes "import_checks ra h f1 a c s = Inr p" "import_checks ra h f2 a c s = Inr p"
    and "import_locked ra e1 n1 a c p s = (s1, Inr x1)" "import_locked ra e2 n2 a c p s1 = (s2, Inr x2)"
  shows "2 \<le> length (filter (\<lambda>r. rl_address r = a \<and> rl_chain_id r = c) (live (sv_relayers s2)))"
  using import_adds_without_check [OF assms(3)] import_adds_without_check [OF assms(4)] by auto

section \<open>Loading in pages\<close>

text \<open>With one order for all queries every relayer is loaded once; without one, relayers can be missed.\<close>

lemma ordered_pages_load_all:
  assumes "0 < pc_limit pc" "length rows + unat (pc_limit pc) < 2 ^ 32"
    "length rows - unat (pc_offset pc) < fuel"
  shows "load_relayers fuel (\<lambda>_. rows) k pc = Some (drop (unat (pc_offset pc)) rows)"
  using assms
proof (induction fuel arbitrary: k pc)
  case (Suc fuel)
  let ?n = "unat (pc_limit pc)" and ?o = "unat (pc_offset pc)"
  have n: "0 < ?n" using Suc.prems(1) by (simp add: word_gt_0_no unat_gt_0)
  show ?case
  proof (cases "length rows \<le> ?o")
    case True
    then show ?thesis by (simp add: relayer_page_def paging_next_def)
  next
    case False
    let ?pc = "\<lparr> pc_limit = pc_limit pc, pc_offset = pc_offset pc + pc_limit pc \<rparr>"
    have off: "unat (pc_offset pc + pc_limit pc) = ?o + ?n"
      using False Suc.prems(2) by (simp add: unat_add_lem [THEN iffD1])
    have "load_relayers fuel (\<lambda>_. rows) (Suc k) ?pc = Some (drop (?o + ?n) rows)"
      using Suc.IH [of ?pc "Suc k"] Suc.prems False off n by simp
    moreover have "take ?n (drop ?o rows) @ drop (?o + ?n) rows = drop ?o rows"
      using append_take_drop_id [of ?n "drop ?o rows"] by (simp add: add.commute)
    ultimately show ?thesis using False n by (simp add: relayer_page_def paging_next_def)
  qed
qed simp

lemma unordered_pages_miss:
  "load_relayers 3 ((\<lambda>_. [])(0 := [a, b], 1 := [b, a])) 0 \<lparr> pc_limit = 1, pc_offset = 0 \<rparr> = Some [a, a]"
  by (simp add: relayer_page_def paging_next_def eval_nat_numeral)

end
