(* ===== verification/Wallets.thy ===== *)
theory Wallets
  imports Relayer_Store Cron_Jobs
begin

text \<open>
  Wallet managers (wallet/): the trait, and the managers that hold their keys on this machine: the
  mnemonic, the private keys of the configuration, and a token behind PKCS#11. Derivation, parsing and
  signatures (alloy, k256), keccak and the token are parameters or inputs, one field for each call.
\<close>

section \<open>Hexadecimal text\<close>

definition hex_char :: "u8 \<Rightarrow> char" where
  "hex_char d = (let n = unat d in char_of (if n < 10 then 48 + n else 87 + n))"

definition hex_byte :: "u8 \<Rightarrow> string" where
  "hex_byte b = [hex_char (drop_bit 4 b), hex_char (and b 15)]"

definition hex_encode :: "u8 list \<Rightarrow> string" where
  "hex_encode bs = concat (map hex_byte bs)"

definition show_account :: "evm_address \<Rightarrow> string" where
  "show_account a = ''0x'' @ hex_encode (be_bytes 20 a)"

section \<open>The trait\<close>

datatype wallet_error =
    LocalSignerError string | GenericSignerError string | NetworkError string | JsonError string
  | HexError string | RlpError string | ParseSignatureError string | WalletNotFound u32
  | ApiError string | AuthenticationError string | ConfigurationError string
  | UnsupportedTransactionType string | Eip712Error string | NoWalletSigningKey | StringEncodingError string | InvalidIndex u32 u32
  | PrivateKeyError string | UnsupportedOperation string

fun chain_main :: "wallet_manager_chain_id \<Rightarrow> chain_id" where
  "chain_main (MainChain c) = c"
| "chain_main (ClonedChain from to) = to"

fun cloned_from_chain_id_or_default :: "wallet_manager_chain_id \<Rightarrow> chain_id" where
  "cloned_from_chain_id_or_default (MainChain c) = c"
| "cloned_from_chain_id_or_default (ClonedChain from to) = from"

text \<open>What a signature is asked for; typed data as its JSON text.\<close>

datatype sign_payload = PayTransaction typed_transaction | PayText string | PayTypedData string

text \<open>Text is signed under the prefix of EIP-191.\<close>

definition eip191_message :: "string \<Rightarrow> string" where
  "eip191_message text = CHR 0x19 # ''Ethereum Signed Message:'' @ [CHR 0x0A] @ show_digits (length text) @ text"

text \<open>
  The digest of a payload: the hash of the unsigned transaction, of the prefixed text, or of the typed
  data, whose hashing can fail.
\<close>

record digests =
  dg_transaction :: "typed_transaction \<Rightarrow> u256"
  dg_keccak :: "u8 list \<Rightarrow> u256"
  dg_typed_data :: "string \<Rightarrow> string + u256"

definition text_bytes :: "string \<Rightarrow> u8 list" where
  "text_bytes s = map (\<lambda>c. of_nat (of_char c)) s"

fun payload_digest :: "digests \<Rightarrow> sign_payload \<Rightarrow> wallet_error + u256" where
  "payload_digest dg (PayTransaction t) = Inr (dg_transaction dg t)"
| "payload_digest dg (PayText s) = Inr (dg_keccak dg (text_bytes (eip191_message s)))"
| "payload_digest dg (PayTypedData d) = map_err (\<lambda>e. Eip712Error (''EIP712 error: '' @ e)) (dg_typed_data dg d)"

text \<open>An import of a key is refused unless the manager overrides the method.\<close>

definition import_unsupported :: "wallet_error + string" where
  "import_unsupported =
     Inl (UnsupportedOperation ''This wallet manager does not support importing existing keys'')"

section \<open>Mnemonic and private keys\<close>

text \<open>A signer of alloy: a secret and the chain it signs for.\<close>

record local_signer =
  ls_secret :: u256
  ls_chain_id :: chain_id

record signer_ops =
  so_address :: "u256 \<Rightarrow> evm_address"
  so_sign :: "local_signer \<Rightarrow> sign_payload \<Rightarrow> wallet_error + ecdsa_signature"

type_synonym mnemonic_wallets = "u32 \<times> chain_id \<rightharpoonup> local_signer"

definition mnemonic_get_wallet ::
  "(u32 \<Rightarrow> string + u256) \<Rightarrow> u32 \<Rightarrow> chain_id \<Rightarrow> mnemonic_wallets \<Rightarrow>
   mnemonic_wallets \<times> (wallet_error + local_signer)" where
  "mnemonic_get_wallet derive i c ws =
     (case ws (i, c) of
        Some w \<Rightarrow> (ws, Inr w)
      | None \<Rightarrow>
          (case derive i of
             Inl e \<Rightarrow> (ws, Inl (LocalSignerError e))
           | Inr secret \<Rightarrow>
               (let w = \<lparr> ls_secret = secret, ls_chain_id = c \<rparr> in (ws((i, c) \<mapsto> w), Inr w))))"

definition mnemonic_address ::
  "signer_ops \<Rightarrow> (u32 \<Rightarrow> string + u256) \<Rightarrow> u32 \<Rightarrow> wallet_manager_chain_id \<Rightarrow> mnemonic_wallets \<Rightarrow>
   mnemonic_wallets \<times> (wallet_error + evm_address)" where
  "mnemonic_address so derive i c ws =
     (case mnemonic_get_wallet derive i (chain_main c) ws of
        (ws', w) \<Rightarrow> (ws', and_then w (\<lambda>w. Inr (so_address so (ls_secret w)))))"

definition mnemonic_sign ::
  "signer_ops \<Rightarrow> (u32 \<Rightarrow> string + u256) \<Rightarrow> u32 \<Rightarrow> sign_payload \<Rightarrow> wallet_manager_chain_id \<Rightarrow> mnemonic_wallets \<Rightarrow>
   mnemonic_wallets \<times> (wallet_error + ecdsa_signature)" where
  "mnemonic_sign so derive i p c ws =
     (case mnemonic_get_wallet derive i (chain_main c) ws of
        (ws', w) \<Rightarrow> (ws', and_then w (\<lambda>w. so_sign so w p)))"

text \<open>
  The private keys are kept by index alone: the signer of an index belongs to the chain that asked first.
  A provider has a manager of its own and one chain.
\<close>

type_synonym private_key_wallets = "u32 \<rightharpoonup> local_signer"

definition private_key_get_wallet ::
  "(string \<Rightarrow> string + u256) \<Rightarrow> string list \<Rightarrow> u32 \<Rightarrow> chain_id \<Rightarrow> private_key_wallets \<Rightarrow>
   private_key_wallets \<times> (wallet_error + local_signer)" where
  "private_key_get_wallet parse keys i c ws =
     (case ws i of
        Some w \<Rightarrow> (ws, Inr w)
      | None \<Rightarrow>
          (case convert_to_internal_index (length keys) i of
             None \<Rightarrow> (ws, Inl (InvalidIndex i (of_nat (length keys))))
           | Some k \<Rightarrow>
               (case parse (keys ! k) of
                  Inl e \<Rightarrow> (ws, Inl (PrivateKeyError (''Invalid private key: '' @ e)))
                | Inr secret \<Rightarrow>
                    (let w = \<lparr> ls_secret = secret, ls_chain_id = c \<rparr> in (ws(i \<mapsto> w), Inr w)))))"

definition private_key_address ::
  "signer_ops \<Rightarrow> (string \<Rightarrow> string + u256) \<Rightarrow> string list \<Rightarrow> u32 \<Rightarrow> wallet_manager_chain_id \<Rightarrow>
   private_key_wallets \<Rightarrow> private_key_wallets \<times> (wallet_error + evm_address)" where
  "private_key_address so parse keys i c ws =
     (case private_key_get_wallet parse keys i (chain_main c) ws of
        (ws', w) \<Rightarrow> (ws', and_then w (\<lambda>w. Inr (so_address so (ls_secret w)))))"

definition private_key_sign ::
  "signer_ops \<Rightarrow> (string \<Rightarrow> string + u256) \<Rightarrow> string list \<Rightarrow> u32 \<Rightarrow> sign_payload \<Rightarrow> wallet_manager_chain_id \<Rightarrow>
   private_key_wallets \<Rightarrow> private_key_wallets \<times> (wallet_error + ecdsa_signature)" where
  "private_key_sign so parse keys i p c ws =
     (case private_key_get_wallet parse keys i (chain_main c) ws of
        (ws', w) \<Rightarrow> (ws', and_then w (\<lambda>w. so_sign so w p)))"

text \<open>Both routes of a composite manager.\<close>

definition composite_route :: "bool \<Rightarrow> u32 \<Rightarrow> wallet_error + manager" where
  "composite_route has_private_keys i =
     ok_or (UnsupportedOperation (''Private key wallet index '' @ show_digits (unat i) @
              '' requested but no private key manager configured'')) (get_manager_for_index has_private_keys i)"

section \<open>PKCS\#11\<close>

record pkcs11_config =
  pk_library_path :: string
  pk_slot_id :: "u64 option"
  pk_pin :: "string option"
  pk_identity :: string
  pk_test_mode :: "bool option"

text \<open>Opening the library: the slot of the configuration, or the first one.\<close>

definition pkcs11_new ::
  "(string \<Rightarrow> bool) \<Rightarrow> string + unit \<Rightarrow> string + unit \<Rightarrow> string + u64 list \<Rightarrow> pkcs11_config \<Rightarrow> wallet_error + u64"
  where
  "pkcs11_new exists_path load init slots c =
     (if \<not> exists_path (pk_library_path c)
      then Inl (ConfigurationError (''PKCS#11 library not found at: '' @ pk_library_path c))
      else
        and_then (map_err (\<lambda>e. GenericSignerError (''Failed to load PKCS#11 library: '' @ e)) load) (\<lambda>_.
        and_then (case init of
                    Inr _ \<Rightarrow> Inr ()
                  | Inl e \<Rightarrow>
                      if str_contains (to_lowercase e) ''already'' \<or> str_contains (to_lowercase e) ''initialized''
                      then Inr () else Inl (GenericSignerError (''Failed to initialize PKCS#11: '' @ e))) (\<lambda>_.
        and_then (map_err (\<lambda>e. GenericSignerError (''Failed to get slots: '' @ e)) slots) (\<lambda>ss.
          case pk_slot_id c of
            Some target \<Rightarrow>
              ok_or (ConfigurationError (''Slot '' @ show_digits (unat target) @ '' not found''))
                (find (\<lambda>s. s = target) ss)
          | None \<Rightarrow> (case ss of [] \<Rightarrow> Inl (ConfigurationError ''No PKCS#11 slots available'') | s # _ \<Rightarrow> Inr s)))))"

text \<open>A session, with the PIN when there is one; a token that is logged in already is no error.\<close>

definition get_session :: "pkcs11_config \<Rightarrow> string + unit \<Rightarrow> string + unit \<Rightarrow> wallet_error + unit" where
  "get_session c open_session login =
     and_then (map_err (\<lambda>e. GenericSignerError (''Failed to open session: '' @ e)) open_session) (\<lambda>_.
       case pk_pin c of
         None \<Rightarrow> Inr ()
       | Some pin \<Rightarrow>
           (case login of
              Inr _ \<Rightarrow> Inr ()
            | Inl e \<Rightarrow>
                if str_contains (to_lowercase e) ''already'' \<or> str_contains (to_lowercase e) ''logged'' then Inr ()
                else Inl (AuthenticationError (''Failed to authenticate with PKCS#11 token: '' @ e))))"

definition wallet_label :: "string \<Rightarrow> chain_id \<Rightarrow> u32 \<Rightarrow> string" where
  "wallet_label identity c i =
     ''rrelayer-'' @ identity @ ''-wallet-'' @ show_digits (unat c) @ ''-'' @ show_digits (unat i)"

text \<open>The id of a key pair: a \<open>u64\<close> of the chain, shifted, and the index.\<close>

definition key_pair_id :: "chain_id \<Rightarrow> u32 \<Rightarrow> u64" where
  "key_pair_id c i = or (push_bit 32 c) (ucast i)"

text \<open>One visit to the token; a point attribute is \<open>None\<close> when it is of another kind.\<close>

record hsm_env =
  he_open :: "string + unit"
  he_login :: "string + unit"
  he_find_private :: "string \<Rightarrow> string + nat list"
  he_generate :: "string \<Rightarrow> u8 list \<Rightarrow> string + nat"
  he_find_public :: "string \<Rightarrow> string + nat list"
  he_ec_point :: "nat \<Rightarrow> string + u8 list option list"

definition create_key_pair :: "hsm_env \<Rightarrow> string \<Rightarrow> chain_id \<Rightarrow> u32 \<Rightarrow> wallet_error + nat" where
  "create_key_pair env identity c i =
     map_err (\<lambda>e. GenericSignerError (''HSM does not support secp256k1 curve required for Ethereum: '' @ e @
        ''. Please use an HSM with secp256k1 support (SoftHSM 2.6+, YubiKey PIV, AWS CloudHSM, etc.)''))
       (he_generate env (wallet_label identity c i) (be_bytes 8 (key_pair_id c i)))"

definition public_key_to_address :: "(u8 list \<Rightarrow> u256) \<Rightarrow> u8 list \<Rightarrow> wallet_error + evm_address" where
  "public_key_to_address keccak pk =
     (if length pk \<noteq> 64
      then Inl (GenericSignerError (''Invalid public key length: expected 64 bytes, got '' @ show_digits (length pk)))
      else Inr (ucast (keccak pk)))"

definition raw_point :: "u8 list \<Rightarrow> wallet_error + u8 list" where
  "raw_point bs =
     (if 65 \<le> length bs \<and> hd bs = 4 then Inr (take 64 (drop 1 bs))
      else Inl (GenericSignerError (''Unsupported EC point format: len='' @ show_digits (length bs) @
                  '', first_byte=0x'' @ hex_byte (case bs of [] \<Rightarrow> 0 | b # _ \<Rightarrow> b))))"

definition derive_address_from_key ::
  "(u8 list \<Rightarrow> u256) \<Rightarrow> hsm_env \<Rightarrow> string \<Rightarrow> chain_id \<Rightarrow> u32 \<Rightarrow> wallet_error + evm_address" where
  "derive_address_from_key keccak env identity c i =
     and_then (map_err (\<lambda>e. GenericSignerError (''Find public key failed: '' @ e))
                 (he_find_public env (wallet_label identity c i))) (\<lambda>objects.
     and_then (case objects of [] \<Rightarrow> Inl (GenericSignerError ''Public key not found'') | h # _ \<Rightarrow> Inr h) (\<lambda>h.
     and_then (map_err (\<lambda>e. GenericSignerError (''Failed to get EC point: '' @ e)) (he_ec_point env h)) (\<lambda>attrs.
     and_then (case attrs of [] \<Rightarrow> Inl (GenericSignerError ''EC point attribute not found'')
                           | a # _ \<Rightarrow> ok_or (GenericSignerError ''Invalid EC point attribute'') a) (\<lambda>bytes.
     and_then (raw_point bytes) (public_key_to_address keccak)))))"

type_synonym pkcs11_wallets = "u32 \<times> chain_id \<rightharpoonup> nat \<times> evm_address"

text \<open>A wallet is remembered, found by its label, or created.\<close>

definition get_or_create_wallet ::
  "(u8 list \<Rightarrow> u256) \<Rightarrow> pkcs11_config \<Rightarrow> hsm_env \<Rightarrow> u32 \<Rightarrow> chain_id \<Rightarrow> pkcs11_wallets \<Rightarrow>
   pkcs11_wallets \<times> (wallet_error + nat \<times> evm_address)" where
  "get_or_create_wallet keccak cfg env i c ws =
     (case ws (i, c) of
        Some w \<Rightarrow> (ws, Inr w)
      | None \<Rightarrow>
          (case and_then (get_session cfg (he_open env) (he_login env)) (\<lambda>_.
                and_then (map_err (\<lambda>e. GenericSignerError (''Failed to search for wallet keys: '' @ e))
                            (he_find_private env (wallet_label (pk_identity cfg) c i))) (\<lambda>objects.
                and_then (case objects of h # _ \<Rightarrow> Inr h | [] \<Rightarrow> create_key_pair env (pk_identity cfg) c i) (\<lambda>h.
                and_then (derive_address_from_key keccak env (pk_identity cfg) c i) (\<lambda>a. Inr (h, a))))) of
             Inl e \<Rightarrow> (ws, Inl e)
           | Inr w \<Rightarrow> (ws((i, c) \<mapsto> w), Inr w)))"

definition pkcs11_address ::
  "(u8 list \<Rightarrow> u256) \<Rightarrow> pkcs11_config \<Rightarrow> hsm_env \<Rightarrow> u32 \<Rightarrow> wallet_manager_chain_id \<Rightarrow> pkcs11_wallets \<Rightarrow>
   pkcs11_wallets \<times> (wallet_error + evm_address)" where
  "pkcs11_address keccak cfg env i c ws =
     (case get_or_create_wallet keccak cfg env i (cloned_from_chain_id_or_default c) ws of
        (ws', r) \<Rightarrow> (ws', and_then r (\<lambda>w. Inr (snd w))))"

text \<open>The first recovery id whose signature recovers the account.\<close>

definition recovery_parities :: "bool list" where
  "recovery_parities = [False, True, False, True]"

definition recoverable_signature ::
  "(ecdsa_signature \<Rightarrow> u256 \<Rightarrow> string + evm_address) \<Rightarrow> u256 \<Rightarrow> u256 \<Rightarrow> u256 \<Rightarrow> evm_address \<Rightarrow>
   ecdsa_signature option" where
  "recoverable_signature recover r s h a =
     find (\<lambda>sg. recover sg h = Inr a) (map (\<lambda>p. \<lparr> sg_r = r, sg_s = s, sg_v = p \<rparr>) recovery_parities)"

definition test_signature :: ecdsa_signature where
  "test_signature =
     \<lparr> sg_r = 0x1234567890abcdef1234567890abcdef1234567890abcdef1234567890abcdef,
       sg_s = 0xfedcba0987654321fedcba0987654321fedcba0987654321fedcba0987654321, sg_v = False \<rparr>"

definition from_be_slice :: "u8 list \<Rightarrow> u256" where
  "from_be_slice bs = word_rcat bs"

text \<open>
  The session of the signature is opened first; the wallet may need a second one, and the key and its
  address are looked up again.
\<close>

record hsm_sign_env =
  hs_open :: "string + unit"
  hs_login :: "string + unit"
  hs_wallet :: hsm_env
  hs_again :: hsm_env
  hs_sign :: "nat \<Rightarrow> u256 \<Rightarrow> string + u8 list"

definition address_mismatch :: "u32 \<Rightarrow> chain_id \<Rightarrow> evm_address \<Rightarrow> evm_address \<Rightarrow> wallet_error" where
  "address_mismatch i c expected actual =
     GenericSignerError (''Address mismatch for wallet '' @ show_digits (unat i) @ ''-'' @ show_digits (unat c) @
       '': expected '' @ show_account expected @ '', got '' @ show_account actual)"

definition pkcs11_sign_hash ::
  "(u8 list \<Rightarrow> u256) \<Rightarrow> (ecdsa_signature \<Rightarrow> u256 \<Rightarrow> string + evm_address) \<Rightarrow> pkcs11_config \<Rightarrow> hsm_sign_env \<Rightarrow> u32 \<Rightarrow>
   u256 \<Rightarrow> chain_id \<Rightarrow> pkcs11_wallets \<Rightarrow> pkcs11_wallets \<times> (wallet_error + ecdsa_signature)" where
  "pkcs11_sign_hash keccak recover cfg env i h c ws =
     (case get_session cfg (hs_open env) (hs_login env) of
        Inl e \<Rightarrow> (ws, Inl e)
      | Inr _ \<Rightarrow>
          (case get_or_create_wallet keccak cfg (hs_wallet env) i c ws of
             (ws', Inl e) \<Rightarrow> (ws', Inl e)
           | (ws', Inr (_, expected)) \<Rightarrow>
               (ws',
                and_then (map_err (\<lambda>e. GenericSignerError (''Failed to find private key: '' @ e))
                            (he_find_private (hs_again env) (wallet_label (pk_identity cfg) c i))) (\<lambda>objects.
                and_then (case objects of
                            [] \<Rightarrow> Inl (GenericSignerError (''Private key not found for wallet '' @ show_digits (unat i)))
                          | k # _ \<Rightarrow> Inr k) (\<lambda>key.
                and_then (derive_address_from_key keccak (hs_again env) (pk_identity cfg) c i) (\<lambda>actual.
                  if actual \<noteq> expected then Inl (address_mismatch i c expected actual)
                  else
                    and_then (map_err (\<lambda>e. GenericSignerError (''HSM signing failed: '' @ e)) (hs_sign env key h))
                      (\<lambda>bytes.
                      if length bytes \<noteq> 64 then Inl (GenericSignerError ''Invalid signature length from HSM'')
                      else
                        (case recoverable_signature recover (from_be_slice (take 32 bytes)) (from_be_slice (drop 32 bytes))
                                h expected of
                           Some sg \<Rightarrow> Inr sg
                         | None \<Rightarrow>
                             if pk_test_mode cfg = Some True then Inr test_signature
                             else Inl (GenericSignerError
                               (''Failed to generate Ethereum-compatible signature. This HSM may use '' @
                                ''deterministic signing (RFC 6979) which is incompatible with Ethereum recovery. '' @
                                ''Use an HSM with random nonce generation or one specifically designed for Ethereum.''))))))))))"

definition pkcs11_sign ::
  "digests \<Rightarrow> (ecdsa_signature \<Rightarrow> u256 \<Rightarrow> string + evm_address) \<Rightarrow> pkcs11_config \<Rightarrow> hsm_sign_env \<Rightarrow> u32 \<Rightarrow> sign_payload \<Rightarrow>
   wallet_manager_chain_id \<Rightarrow> pkcs11_wallets \<Rightarrow> pkcs11_wallets \<times> (wallet_error + ecdsa_signature)" where
  "pkcs11_sign dg recover cfg env i p c ws =
     (case payload_digest dg p of
        Inl e \<Rightarrow> (ws, Inl e)
      | Inr h \<Rightarrow> pkcs11_sign_hash (dg_keccak dg) recover cfg env i h (cloned_from_chain_id_or_default c) ws)"

end
