(* ===== verification/Wallet_Services.thy ===== *)
theory Wallet_Services
  imports Wallets Rate_Limiter
begin

text \<open>
  The wallet managers whose keys are held by a service: AWS KMS, Turnkey, Fireblocks and Privy. Every
  answer of a service is an input, one field for each call; the changes a service has acknowledged are
  part of the result. The stamp and token of a request (ECDSA, RSA, base64) are parameters.
\<close>

section \<open>JSON\<close>

text \<open>A value of \<open>serde_json\<close>; numbers are integers where the code reads them.\<close>

datatype json =
    JNull | JBool bool | JNum int | JStr string | JArr "json list" | JObj "(string \<times> json) list"

fun json_get :: "string \<Rightarrow> json \<Rightarrow> json option" where
  "json_get k (JObj fs) = map_of fs k"
| "json_get k _ = None"

fun as_str :: "json \<Rightarrow> string option" where
  "as_str (JStr s) = Some s"
| "as_str _ = None"

fun as_array :: "json \<Rightarrow> json list option" where
  "as_array (JArr l) = Some l"
| "as_array _ = None"

fun as_u64 :: "json \<Rightarrow> u64 option" where
  "as_u64 (JNum n) = (if 0 \<le> n \<and> n < 2 ^ 64 then Some (word_of_int n) else None)"
| "as_u64 _ = None"

definition get_str :: "string \<Rightarrow> json \<Rightarrow> string option" where
  "get_str k j = Option.bind (json_get k j) as_str"

text \<open>\<open>trim_start_matches("0x")\<close> removes the prefix as often as it is there.\<close>

fun trim_0x :: "string \<Rightarrow> string" where
  "trim_0x (a # b # s) = (if a = CHR ''0'' \<and> b = CHR ''x'' then trim_0x s else a # b # s)"
| "trim_0x s = s"

section \<open>AWS KMS\<close>

record kms_config =
  km_region :: string
  km_endpoint_url :: "string option"
  km_multi_region :: "bool option"
  km_danger_override_alias :: "string option"

definition kms_alias_prefix :: "kms_config \<Rightarrow> string" where
  "kms_alias_prefix c = (case km_danger_override_alias c of Some a \<Rightarrow> a | None \<Rightarrow> ''rrelayer'')"

definition build_alias :: "kms_config \<Rightarrow> u32 \<Rightarrow> chain_id \<Rightarrow> string" where
  "build_alias cfg i c =
     ''alias/'' @ kms_alias_prefix cfg @ ''-wallet-'' @ show_digits (unat i) @ ''-'' @ show_digits (unat c)"

record key_metadata =
  kd_key_id :: string
  kd_key_spec :: "string option"
  kd_key_usage :: "string option"

text \<open>An answer to \<open>DescribeKey\<close>: found, with or without metadata, not found, or another failure.\<close>

datatype describe_answer = Described "key_metadata option" | DescribeNotFound | DescribeFailed string

datatype kms_request = KmsCreateKey string | KmsCreateAlias string string

record kms_env =
  ke_identity :: "string + unit"
  ke_describe :: "string \<Rightarrow> describe_answer"
  ke_describe_key :: "string \<Rightarrow> describe_answer"
  ke_caller :: "string + string option \<times> string option"
  ke_create_key :: "string + string option"
  ke_create_alias :: "string + unit"
  ke_signer :: "string \<Rightarrow> chain_id \<Rightarrow> string + evm_address"
  ke_debug :: "string option \<Rightarrow> string"

definition validate_aws_config :: "kms_env \<Rightarrow> wallet_error + unit" where
  "validate_aws_config env =
     map_err (\<lambda>e. AuthenticationError
        (''AWS KMS authentication failed. Please ensure AWS credentials are properly configured. '' @
         ''Error: '' @ e @ ''. '' @
         ''Required: AWS_ACCESS_KEY_ID, AWS_SECRET_ACCESS_KEY, or an IAM role with KMS permissions.''))
       (ke_identity env)"

definition existing_alias_key_id :: "string \<Rightarrow> describe_answer \<Rightarrow> wallet_error + string option" where
  "existing_alias_key_id alias answer =
     (case answer of
        Described (Some m) \<Rightarrow> Inr (Some (kd_key_id m))
      | Described None \<Rightarrow> Inl (ApiError (''No key metadata returned for alias: '' @ alias))
      | DescribeNotFound \<Rightarrow> Inr None
      | DescribeFailed e \<Rightarrow> Inl (ApiError (''Failed to describe KMS key alias '' @ alias @ '': '' @ e)))"

definition find_key_by_alias :: "kms_config \<Rightarrow> kms_env \<Rightarrow> u32 \<Rightarrow> chain_id \<Rightarrow> wallet_error + string option" where
  "find_key_by_alias cfg env i c =
     (let alias = build_alias cfg i c in existing_alias_key_id alias (ke_describe env alias))"

text \<open>\<open>str::find\<close>, \<open>strip_prefix\<close> and \<open>trim_start_matches\<close>.\<close>

fun split_at_pattern :: "string \<Rightarrow> string \<Rightarrow> (string \<times> string) option" where
  "split_at_pattern p [] = (if p = [] then Some ([], []) else None)"
| "split_at_pattern p (c # s) =
     (if take (length p) (c # s) = p then Some ([], c # s)
      else map_option (\<lambda>(a, b). (c # a, b)) (split_at_pattern p s))"

definition strip_prefix :: "string \<Rightarrow> string \<Rightarrow> string option" where
  "strip_prefix p s = (if take (length p) s = p then Some (drop (length p) s) else None)"

function trim_start_matches :: "string \<Rightarrow> string \<Rightarrow> string" where
  "trim_start_matches p s =
     (if p \<noteq> [] \<and> take (length p) s = p then trim_start_matches p (drop (length p) s) else s)"
  by auto

termination
proof (relation "measure (length \<circ> snd)")
  show "wf (measure (length \<circ> snd))" by simp
next
  fix p s :: string
  assume p: "p \<noteq> [] \<and> take (length p) s = p"
  then have "s \<noteq> []" by auto
  with p show "((p, drop (length p) s), (p, s)) \<in> measure (length \<circ> snd)" by simp
qed

declare trim_start_matches.simps [simp del]

definition normalize_principal_arn :: "string \<Rightarrow> string" where
  "normalize_principal_arn arn =
     (case strip_prefix ''arn:aws:sts::'' arn of
        None \<Rightarrow> arn
      | Some rest \<Rightarrow>
          (case split_at_pattern '':assumed-role/'' rest of
             None \<Rightarrow> arn
           | Some (account, after) \<Rightarrow>
               ''arn:aws:iam::'' @ account @ '':role/'' @
               takeWhile (\<lambda>c. c \<noteq> CHR ''/'') (trim_start_matches '':assumed-role/'' after)))"

definition root_actions :: "string list" where
  "root_actions =
     [''kms:DescribeKey'', ''kms:ListAliases'', ''kms:ListKeyPolicies'', ''kms:GetKeyPolicy'', ''kms:CreateAlias'',
      ''kms:DeleteAlias'', ''kms:ScheduleKeyDeletion'', ''kms:CancelKeyDeletion'', ''kms:EnableKey'',
      ''kms:DisableKey'', ''kms:EnableKeyRotation'', ''kms:DisableKeyRotation'', ''kms:RevokeGrant'',
      ''kms:RetireGrant'', ''kms:GetPublicKey'']"

definition statement_of :: "string \<Rightarrow> string \<Rightarrow> json \<Rightarrow> json" where
  "statement_of sid who actions =
     JObj [(''Sid'', JStr sid), (''Effect'', JStr ''Allow''), (''Principal'', JObj [(''AWS'', JStr who)]),
           (''Action'', actions), (''Resource'', JStr ''*'')]"

definition build_key_policy :: "string \<Rightarrow> string \<Rightarrow> json" where
  "build_key_policy account admin =
     JObj [(''Version'', JStr ''2012-10-17''), (''Id'', JStr ''key-default-1''),
           (''Statement'', JArr
              [statement_of ''AllowRootAccountAccess'' (''arn:aws:iam::'' @ account @ '':root'')
                 (JArr (map JStr root_actions)),
               statement_of ''AllowRelayerFullControl'' admin (JStr ''kms:*'')])]"

text \<open>
  One key with its alias. A failure to create the alias is only logged: the key is returned without a name.
\<close>

definition create_key ::
  "kms_env \<Rightarrow> string \<Rightarrow> string \<Rightarrow> kms_request list \<times> (wallet_error + string)" where
  "create_key env description alias =
     (case and_then (map_err (\<lambda>e. ApiError (''STS GetCallerIdentity failed: '' @ e)) (ke_caller env))
             (\<lambda>(account, arn).
             and_then (ok_or (ApiError ''No account id from STS'') account) (\<lambda>_.
             and_then (ok_or (ApiError ''No ARN from STS'') arn) (\<lambda>_.
               map_err (\<lambda>e. ApiError (''Creating key '' @ [CHR 0x27] @ description @ [CHR 0x27] @ '': '' @ e))
                 (ke_create_key env)))) of
        Inl e \<Rightarrow> ([], Inl e)
      | Inr None \<Rightarrow> ([KmsCreateKey description], Inl (ApiError ''No key_id in CreateKey response''))
      | Inr (Some k) \<Rightarrow> (KmsCreateKey description # (if is_ok (ke_create_alias env) then [KmsCreateAlias alias k] else []),
                        Inr k))"

definition create_key_for_wallet_index ::
  "kms_config \<Rightarrow> kms_env \<Rightarrow> u32 \<Rightarrow> chain_id \<Rightarrow> kms_request list \<times> (wallet_error + string)" where
  "create_key_for_wallet_index cfg env i c =
     create_key env (''ECC_SECG_P256K1 signing key - wallet_'' @ show_digits (unat i) @ ''_chain_'' @
                     show_digits (unat c)) (build_alias cfg i c)"

datatype key_id_found = CreatedKey string | ExistingKey string

fun key_id_item :: "key_id_found \<Rightarrow> string" where
  "key_id_item (CreatedKey k) = k"
| "key_id_item (ExistingKey k) = k"

definition get_or_create_key_id ::
  "kms_config \<Rightarrow> kms_env \<Rightarrow> u32 \<Rightarrow> chain_id \<Rightarrow> kms_request list \<times> (wallet_error + key_id_found)" where
  "get_or_create_key_id cfg env i c =
     (case and_then (validate_aws_config env) (\<lambda>_. find_key_by_alias cfg env i c) of
        Inl e \<Rightarrow> ([], Inl e)
      | Inr (Some k) \<Rightarrow> ([], Inr (ExistingKey k))
      | Inr None \<Rightarrow>
          (case create_key_for_wallet_index cfg env i c of
             (rs, r) \<Rightarrow> (rs, and_then r (\<lambda>k. Inr (CreatedKey k)))))"

text \<open>A signer: its key, its chain, and the address the service reports for the key.\<close>

record kms_signer =
  kg_key_id :: string
  kg_chain_id :: chain_id
  kg_address :: evm_address

type_synonym kms_signers = "u32 \<times> chain_id \<times> chain_id \<rightharpoonup> kms_signer"

definition initialize_aws_kms_signer :: "kms_env \<Rightarrow> string \<Rightarrow> chain_id \<Rightarrow> wallet_error + kms_signer" where
  "initialize_aws_kms_signer env k c =
     and_then (map_err (\<lambda>e. ApiError (''Failed to initialize AWS KMS signer: '' @ e)) (ke_signer env k c)) (\<lambda>a.
       Inr \<lparr> kg_key_id = k, kg_chain_id = c, kg_address = a \<rparr>)"

definition signer_key ::
  "kms_config \<Rightarrow> kms_env \<Rightarrow> u32 \<Rightarrow> wallet_manager_chain_id \<Rightarrow>
   kms_request list \<times> (wallet_error + key_id_found)" where
  "signer_key cfg env i c =
     (let lookup = cloned_from_chain_id_or_default c
      in case c of
           ClonedChain from to \<Rightarrow>
             ([], and_then (validate_aws_config env) (\<lambda>_.
                  and_then (find_key_by_alias cfg env i lookup) (\<lambda>k.
                    ok_or (ApiError (''Cloned wallet (index: '' @ show_digits (unat i) @ '', lookup_chain: '' @
                             show_digits (unat lookup) @ '') requires an existing KMS key alias. '' @
                             ''Check that the original KMS key alias exists.''))
                      (map_option ExistingKey k))))
         | MainChain _ \<Rightarrow> get_or_create_key_id cfg env i lookup)"

definition get_or_initialize_signer ::
  "kms_config \<Rightarrow> kms_env \<Rightarrow> u32 \<Rightarrow> wallet_manager_chain_id \<Rightarrow> kms_signers \<Rightarrow>
   kms_signers \<times> kms_request list \<times> (wallet_error + kms_signer)" where
  "get_or_initialize_signer cfg env i c ss =
     (let key = (i, cloned_from_chain_id_or_default c, chain_main c)
      in case ss key of
           Some s \<Rightarrow> (ss, [], Inr s)
         | None \<Rightarrow>
             (case signer_key cfg env i c of
                (rs, Inl e) \<Rightarrow> (ss, rs, Inl e)
              | (rs, Inr k) \<Rightarrow>
                  (case initialize_aws_kms_signer env (key_id_item k) (chain_main c) of
                     Inl e \<Rightarrow> (ss, rs, Inl e)
                   | Inr s \<Rightarrow> (ss(key \<mapsto> s), rs, Inr s))))"

definition kms_address ::
  "kms_config \<Rightarrow> kms_env \<Rightarrow> u32 \<Rightarrow> wallet_manager_chain_id \<Rightarrow> kms_signers \<Rightarrow>
   kms_signers \<times> kms_request list \<times> (wallet_error + evm_address)" where
  "kms_address cfg env i c ss =
     (case get_or_initialize_signer cfg env i c ss of
        (ss', rs, r) \<Rightarrow> (ss', rs, and_then r (\<lambda>s. Inr (kg_address s))))"

definition kms_sign ::
  "digests \<Rightarrow> (kms_signer \<Rightarrow> sign_payload \<Rightarrow> wallet_error + ecdsa_signature) \<Rightarrow> kms_config \<Rightarrow>
   kms_env \<Rightarrow> u32 \<Rightarrow> sign_payload \<Rightarrow> wallet_manager_chain_id \<Rightarrow> kms_signers \<Rightarrow>
   kms_signers \<times> kms_request list \<times> (wallet_error + ecdsa_signature)" where
  "kms_sign dg sign cfg env i p c ss =
     (case get_or_initialize_signer cfg env i c ss of
        (ss', rs, r) \<Rightarrow>
          (ss', rs, and_then r (\<lambda>s.
             and_then (case p of PayTypedData d \<Rightarrow> map_sum id (\<lambda>_. ()) (payload_digest dg p) | _ \<Rightarrow> Inr ()) (\<lambda>_.
               sign s p))))"

text \<open>The import of an existing key: its address first, then the key, then the alias.\<close>

definition check_key :: "kms_env \<Rightarrow> string \<Rightarrow> wallet_error + key_metadata" where
  "check_key env key =
     and_then (case ke_describe_key env key of
                 Described m \<Rightarrow> ok_or (ApiError (''No metadata returned for KMS key '' @ key)) m
               | DescribeNotFound \<Rightarrow> Inl (ApiError (''Failed to describe KMS key '' @ key @ '': not found''))
               | DescribeFailed e \<Rightarrow> Inl (ApiError (''Failed to describe KMS key '' @ key @ '': '' @ e))) (\<lambda>m.
       if kd_key_spec m \<noteq> Some ''ECC_SECG_P256K1''
       then Inl (ApiError (''KMS key '' @ key @ '' has spec '' @ ke_debug env (kd_key_spec m) @
              '', but ECC_SECG_P256K1 is required for Ethereum signing''))
       else if kd_key_usage m \<noteq> Some ''SIGN_VERIFY''
       then Inl (ApiError (''KMS key '' @ key @ '' has usage '' @ ke_debug env (kd_key_usage m) @
              '', but SIGN_VERIFY is required''))
       else Inr m)"

definition assign_alias_to_existing_key ::
  "kms_config \<Rightarrow> kms_env \<Rightarrow> string \<Rightarrow> u32 \<Rightarrow> chain_id \<Rightarrow> kms_request list \<times> (wallet_error + string)" where
  "assign_alias_to_existing_key cfg env key i c =
     (let alias = build_alias cfg i c
      in case and_then (validate_aws_config env) (\<lambda>_.
              and_then (check_key env key) (\<lambda>m.
              and_then (existing_alias_key_id alias (ke_describe env alias)) (\<lambda>existing. Inr (m, existing)))) of
           Inl e \<Rightarrow> ([], Inl e)
         | Inr (m, Some k) \<Rightarrow>
             ([], if k = kd_key_id m then Inr alias
                  else Inl (ApiError (''Alias '' @ alias @ '' already exists but points to a different key '' @ k)))
         | Inr (m, None) \<Rightarrow>
             (case ke_create_alias env of
                Inl e \<Rightarrow> ([], Inl (ApiError (''Failed to create alias '' @ alias @ '' for key '' @ kd_key_id m @
                                          '': '' @ e)))
              | Inr _ \<Rightarrow> ([KmsCreateAlias alias (kd_key_id m)], Inr alias)))"

definition import_existing_key ::
  "kms_config \<Rightarrow> kms_env \<Rightarrow> string \<Rightarrow> u32 \<Rightarrow> chain_id \<Rightarrow> evm_address \<Rightarrow>
   kms_request list \<times> (wallet_error + string)" where
  "import_existing_key cfg env key i c expected =
     (case initialize_aws_kms_signer env key c of
        Inl e \<Rightarrow> ([], Inl e)
      | Inr s \<Rightarrow>
          if kg_address s \<noteq> expected
          then ([], Inl (ApiError (''Address mismatch: provided address '' @ show_account expected @
                  '' does not match the key'' @ [CHR 0x27] @ ''s actual address '' @ show_account (kg_address s))))
          else assign_alias_to_existing_key cfg env key i c)"

text \<open>What the service lists: the keys for signatures with their descriptions, and the aliases with a target.\<close>

record listed_key =
  lk_usage :: "string option"
  lk_description :: "string option"

fun list_keys_from :: "(string \<Rightarrow> string + listed_key option) \<Rightarrow> string option list \<Rightarrow> (string \<times> string) list" where
  "list_keys_from describe [] = []"
| "list_keys_from describe (None # ks) = list_keys_from describe ks"
| "list_keys_from describe (Some k # ks) =
     (case describe k of
        Inr (Some m) \<Rightarrow>
          if lk_usage m = Some ''SIGN_VERIFY''
          then [(k, case lk_description m of Some d \<Rightarrow> d | None \<Rightarrow> ''No description'')] else []
      | _ \<Rightarrow> []) @ list_keys_from describe ks"

definition list_keys ::
  "(string \<Rightarrow> string + listed_key option) \<Rightarrow> string + string option list \<Rightarrow> wallet_error + (string \<times> string) list" where
  "list_keys describe answer =
     and_then (map_err (\<lambda>e. ApiError (''Failed to list KMS keys: '' @ e)) answer) (\<lambda>ks. Inr (list_keys_from describe ks))"

definition list_aliases ::
  "string + (string option \<times> string option) list \<Rightarrow> wallet_error + (string \<times> string) list" where
  "list_aliases answer =
     and_then (map_err (\<lambda>e. ApiError (''Failed to list KMS aliases: '' @ e)) answer) (\<lambda>l.
       Inr (concat (map (\<lambda>(n, k). case (n, k) of (Some n, Some k) \<Rightarrow> [(n, k)] | _ \<Rightarrow> []) l)))"

section \<open>Answers over HTTP\<close>

record 'a http_response =
  hr_success :: bool
  hr_status :: string
  hr_text :: "string + string"
  hr_json :: "string + 'a"

type_synonym 'a http_reply = "string + 'a http_response"

definition read_reply :: "(string \<Rightarrow> wallet_error) \<Rightarrow> 'a http_reply \<Rightarrow> wallet_error + 'a" where
  "read_reply failed reply =
     and_then (map_err NetworkError reply) (\<lambda>r.
       if \<not> hr_success r then and_then (map_err NetworkError (hr_text r)) (\<lambda>t. Inl (failed t))
       else map_err NetworkError (hr_json r))"

text \<open>The display of an error of the hex decoder is a parameter.\<close>

definition hex_decode :: "(string \<Rightarrow> string) \<Rightarrow> string \<Rightarrow> string + u8 list" where
  "hex_decode show s = ok_or (show s) (hex_bytes s)"

section \<open>Turnkey\<close>

record turnkey_config =
  tk_api_public_key :: string
  tk_api_private_key :: string
  tk_organization_id :: string
  tk_wallet_id :: string

record turnkey_account =
  ta_address :: string
  ta_wallet_id :: string
  ta_account_id :: string
  ta_path :: string
  ta_curve :: string
  ta_path_format :: string
  ta_address_format :: string
  ta_public_key :: string

text \<open>An envelope that was decoded, with its signature.\<close>

datatype envelope =
    EnvEip1559 ecdsa_signature | EnvLegacy ecdsa_signature | EnvEip2930 ecdsa_signature
  | EnvEip4844 ecdsa_signature | EnvOther

record turnkey_ops =
  to_json_text :: "json \<Rightarrow> string"
  to_secret :: "u8 list \<Rightarrow> string + u256"
  to_sign_der :: "u256 \<Rightarrow> string \<Rightarrow> u8 list"
  to_base64 :: "string \<Rightarrow> string"
  to_hex_error :: "string \<Rightarrow> string"
  to_parse_address :: "string \<Rightarrow> string + evm_address"
  to_rlp :: "typed_transaction \<Rightarrow> u8 list"
  to_decode :: "u8 list \<Rightarrow> string + envelope"
  to_int_error :: "string \<Rightarrow> string"

definition create_stamp :: "turnkey_ops \<Rightarrow> turnkey_config \<Rightarrow> string \<Rightarrow> wallet_error + string" where
  "create_stamp ops cfg body =
     and_then (map_err (\<lambda>e. ApiError (''Failed to decode private key: '' @ e))
                 (hex_decode (to_hex_error ops) (tk_api_private_key cfg))) (\<lambda>bytes.
     and_then (map_err (\<lambda>e. ApiError (''Failed to create secret key: '' @ e)) (to_secret ops bytes)) (\<lambda>secret.
       Inr (to_base64 ops (to_json_text ops
         (JObj [(''publicKey'', JStr (tk_api_public_key cfg)),
                (''signature'', JStr (hex_encode (to_sign_der ops secret body))),
                (''scheme'', JStr ''SIGNATURE_SCHEME_TK_API_P256'')])))))"

text \<open>\<open>u64::from_str_radix\<close> with radix 16: an optional plus sign, digits, and a value in range.\<close>

definition without_plus :: "string \<Rightarrow> string" where
  "without_plus s = (case s of c # r \<Rightarrow> if c = CHR ''+'' then r else s | [] \<Rightarrow> [])"

definition digit_values :: "nat \<Rightarrow> string \<Rightarrow> nat list option" where
  "digit_values radix s =
     (let ds = map hex_digit s
      in if s \<noteq> [] \<and> list_all (\<lambda>d. d \<noteq> None \<and> unat (the d) < radix) ds then Some (map (unat \<circ> the) ds) else None)"

definition parse_radix :: "nat \<Rightarrow> string \<Rightarrow> nat option" where
  "parse_radix radix s =
     map_option (foldl (\<lambda>n d. radix * n + d) 0) (digit_values radix (without_plus s))"

definition parse_hex_u64 :: "string \<Rightarrow> u64 option" where
  "parse_hex_u64 s = Option.bind (parse_radix 16 s) (\<lambda>n. if n < 2 ^ 64 then Some (of_nat n) else None)"

definition extract_wallet_index_from_path :: "string \<Rightarrow> u32 option" where
  "extract_wallet_index_from_path path = parse_u32 (rev (takeWhile (\<lambda>c. c \<noteq> CHR ''/'') (rev path)))"

type_synonym turnkey_accounts = "u32 \<rightharpoonup> turnkey_account"

fun insert_accounts :: "turnkey_account list \<Rightarrow> turnkey_accounts \<Rightarrow> turnkey_accounts" where
  "insert_accounts [] as = as"
| "insert_accounts (a # l) as =
     insert_accounts l (case extract_wallet_index_from_path (ta_path a) of None \<Rightarrow> as | Some i \<Rightarrow> as(i \<mapsto> a))"

text \<open>A service that answers with an error leaves the accounts as they are.\<close>

definition load_accounts ::
  "turnkey_ops \<Rightarrow> turnkey_config \<Rightarrow> turnkey_account list http_reply \<Rightarrow> turnkey_accounts \<Rightarrow>
   turnkey_accounts \<times> (wallet_error + unit)" where
  "load_accounts ops cfg reply as =
     (let body = to_json_text ops (JObj [(''organizationId'', JStr (tk_organization_id cfg)),
                                         (''walletId'', JStr (tk_wallet_id cfg))])
      in case and_then (create_stamp ops cfg body) (\<lambda>_.
              and_then (map_err NetworkError reply) (\<lambda>r.
                if \<not> hr_success r then and_then (map_err NetworkError (hr_text r)) (\<lambda>_. Inr [])
                else map_err NetworkError (hr_json r))) of
           Inl e \<Rightarrow> (as, Inl e)
         | Inr l \<Rightarrow> (insert_accounts l as, Inr ()))"

text \<open>An activity: its status and the part of its result that the code asks for.\<close>

record 'a activity =
  av_status :: string
  av_result :: "'a option"

definition activity_result :: "string \<Rightarrow> string \<Rightarrow> 'a activity \<Rightarrow> wallet_error + 'a" where
  "activity_result failed missing v =
     (if av_status v \<noteq> ''ACTIVITY_STATUS_COMPLETED'' then Inl (ApiError (failed @ av_status v))
      else ok_or (ApiError missing) (av_result v))"

definition create_accounts_request :: "turnkey_config \<Rightarrow> string \<Rightarrow> u32 \<Rightarrow> json" where
  "create_accounts_request cfg timestamp i =
     JObj [(''type'', JStr ''ACTIVITY_TYPE_CREATE_WALLET_ACCOUNTS''), (''timestampMs'', JStr timestamp),
           (''organizationId'', JStr (tk_organization_id cfg)),
           (''parameters'', JObj [(''walletId'', JStr (tk_wallet_id cfg)),
              (''accounts'', JArr [JObj [(''curve'', JStr ''CURVE_SECP256K1''), (''pathFormat'', JStr ''PATH_FORMAT_BIP32''),
                 (''path'', JStr (''m/44'' @ [CHR 0x27] @ ''/60'' @ [CHR 0x27] @ ''/0'' @ [CHR 0x27] @ ''/0/'' @
                                  show_digits (unat i))),
                 (''addressFormat'', JStr ''ADDRESS_FORMAT_ETHEREUM'')]])])]"

definition new_account :: "turnkey_config \<Rightarrow> u32 \<Rightarrow> string \<Rightarrow> turnkey_account" where
  "new_account cfg i address =
     \<lparr> ta_address = address, ta_wallet_id = tk_wallet_id cfg,
       ta_account_id = tk_wallet_id cfg @ ''_'' @ show_digits (unat i),
       ta_path = ''m/44'' @ [CHR 0x27] @ ''/60'' @ [CHR 0x27] @ ''/'' @ show_digits (unat i) @ [CHR 0x27] @ ''/0/0'',
       ta_curve = ''CURVE_SECP256K1'', ta_path_format = ''PATH_FORMAT_BIP32'',
       ta_address_format = ''ADDRESS_FORMAT_ETHEREUM'', ta_public_key = [] \<rparr>"

record turnkey_create_env =
  tv_list :: "turnkey_account list http_reply"
  tv_timestamp :: string
  tv_create :: "string list activity http_reply"

text \<open>The mutex of the accounts: a task that asks for it while it is held waits.\<close>

datatype 'a task = Finished 'a | Waits

definition locking :: "bool \<Rightarrow> 'a task \<Rightarrow> 'a task" where
  "locking held k = (if held then Waits else k)"

definition parse_account_address :: "turnkey_ops \<Rightarrow> string \<Rightarrow> wallet_error + evm_address" where
  "parse_account_address ops a = map_err (\<lambda>e. ApiError (''Invalid address format: '' @ e)) (to_parse_address ops a)"

definition turnkey_create_wallet ::
  "turnkey_ops \<Rightarrow> turnkey_config \<Rightarrow> turnkey_create_env \<Rightarrow> bool \<Rightarrow> u32 \<Rightarrow> turnkey_accounts \<Rightarrow>
   (turnkey_accounts \<times> (wallet_error + evm_address)) task" where
  "turnkey_create_wallet ops cfg env held i as0 =
     locking held
       (Finished (case load_accounts ops cfg (tv_list env) as0 of
          (as, Inl e) \<Rightarrow> (as, Inl e)
        | (as, Inr _) \<Rightarrow>
            (case as i of
               Some a \<Rightarrow> (as, parse_account_address ops (ta_address a))
             | None \<Rightarrow>
                 (case and_then (create_stamp ops cfg (to_json_text ops (create_accounts_request cfg (tv_timestamp env) i)))
                         (\<lambda>_.
                       and_then (read_reply (\<lambda>t. ApiError (''Failed to create wallet account: '' @ t)) (tv_create env)) (\<lambda>v.
                       and_then (activity_result ''Wallet creation failed with status: ''
                                   ''No create result in response'' v) (\<lambda>addresses.
                       and_then (case addresses of [] \<Rightarrow> Inl (ApiError ''No account created'') | a # _ \<Rightarrow> Inr a) (\<lambda>a.
                       and_then (parse_account_address ops a) (\<lambda>address. Inr (a, address)))))) of
                    Inl e \<Rightarrow> (as, Inl e)
                  | Inr (a, address) \<Rightarrow> (as(i \<mapsto> new_account cfg i a), Inr address)))))"

text \<open>The payload of a transaction: its type byte and the encoding of its fields.\<close>

definition unsigned_transaction_hex :: "turnkey_ops \<Rightarrow> typed_transaction \<Rightarrow> string" where
  "unsigned_transaction_hex ops t =
     (case t of Eip1559 _ _ _ \<Rightarrow> ''0x02'' | Legacy _ _ \<Rightarrow> ''0x'' | Eip4844 _ _ _ _ _ \<Rightarrow> ''0x03'') @
     hex_encode (to_rlp ops t)"

definition sign_transaction_request :: "turnkey_config \<Rightarrow> string \<Rightarrow> string \<Rightarrow> string \<Rightarrow> json" where
  "sign_transaction_request cfg timestamp address raw =
     JObj [(''type'', JStr ''ACTIVITY_TYPE_SIGN_TRANSACTION_V2''), (''organizationId'', JStr (tk_organization_id cfg)),
           (''timestampMs'', JStr timestamp),
           (''parameters'', JObj [(''signWith'', JStr address), (''unsignedTransaction'', JStr raw),
              (''type'', JStr ''TRANSACTION_TYPE_ETHEREUM'')])]"

fun envelope_signature :: "envelope \<Rightarrow> wallet_error + ecdsa_signature" where
  "envelope_signature (EnvEip1559 s) = Inr s"
| "envelope_signature (EnvLegacy s) = Inr s"
| "envelope_signature (EnvEip2930 s) = Inr s"
| "envelope_signature (EnvEip4844 s) = Inr s"
| "envelope_signature EnvOther = Inl (UnsupportedTransactionType ''Unknown transaction envelope type'')"

definition turnkey_account_for :: "u32 \<Rightarrow> turnkey_accounts \<Rightarrow> wallet_error + turnkey_account" where
  "turnkey_account_for i as = ok_or (WalletNotFound i) (as i)"

definition turnkey_sign_transaction ::
  "turnkey_ops \<Rightarrow> turnkey_config \<Rightarrow> string \<Rightarrow> string activity http_reply \<Rightarrow> bool \<Rightarrow> u32 \<Rightarrow> typed_transaction \<Rightarrow>
   turnkey_accounts \<Rightarrow> (wallet_error + ecdsa_signature) task" where
  "turnkey_sign_transaction ops cfg timestamp reply held i t as =
     locking held (Finished
       (and_then (turnkey_account_for i as) (\<lambda>a.
        and_then (create_stamp ops cfg (to_json_text ops
                    (sign_transaction_request cfg timestamp (ta_address a) (unsigned_transaction_hex ops t)))) (\<lambda>_.
        and_then (read_reply (\<lambda>t. ApiError (''Turnkey API error: '' @ t)) reply) (\<lambda>v.
        and_then (activity_result ''Transaction signing failed with status: '' ''No sign result in response'' v) (\<lambda>signed.
        and_then (map_err (\<lambda>e. ApiError (''Failed to decode signed transaction: '' @ e))
                    (hex_decode (to_hex_error ops) (trim_0x signed))) (\<lambda>bytes.
        and_then (map_err (\<lambda>e. ApiError (''Failed to decode transaction envelope: '' @ e)) (to_decode ops bytes))
          envelope_signature)))))))"

text \<open>A signature of a raw payload: three numbers in hexadecimal.\<close>

record raw_signature =
  rs_r :: string
  rs_s :: string
  rs_v :: string

definition be_32 :: "string \<Rightarrow> u8 list \<Rightarrow> wallet_error + u256" where
  "be_32 name bs =
     (if length bs = 32 then Inr (from_be_slice bs) else Inl (ApiError (name @ '' value is not 32 bytes'')))"

definition raw_payload_signature :: "turnkey_ops \<Rightarrow> raw_signature \<Rightarrow> wallet_error + ecdsa_signature" where
  "raw_payload_signature ops rs =
     and_then (map_err (\<lambda>e. ApiError (''Failed to decode r value: '' @ e))
                 (hex_decode (to_hex_error ops) (trim_0x (rs_r rs)))) (\<lambda>r_bytes.
     and_then (map_err (\<lambda>e. ApiError (''Failed to decode s value: '' @ e))
                 (hex_decode (to_hex_error ops) (trim_0x (rs_s rs)))) (\<lambda>s_bytes.
     and_then (ok_or (ApiError (''Failed to decode v value: '' @ to_int_error ops (rs_v rs)))
                 (parse_hex_u64 (trim_0x (rs_v rs)))) (\<lambda>v.
     and_then (be_32 ''r'' r_bytes) (\<lambda>r.
     and_then (be_32 ''s'' s_bytes) (\<lambda>s. Inr \<lparr> sg_r = r, sg_s = s, sg_v = (v \<noteq> 0) \<rparr>)))))"

definition sign_raw_request :: "turnkey_config \<Rightarrow> string \<Rightarrow> string \<Rightarrow> string \<Rightarrow> string \<Rightarrow> string \<Rightarrow> json" where
  "sign_raw_request cfg timestamp address what encoding hash =
     JObj [(''type'', JStr ''ACTIVITY_TYPE_SIGN_RAW_PAYLOAD_V2''), (''organizationId'', JStr (tk_organization_id cfg)),
           (''timestampMs'', JStr timestamp),
           (''parameters'', JObj [(''signWith'', JStr address), (''payload'', JStr what),
              (''encoding'', JStr encoding), (''hashFunction'', JStr hash)])]"

definition raw_payload_reply ::
  "turnkey_ops \<Rightarrow> turnkey_config \<Rightarrow> string \<Rightarrow> json \<Rightarrow> raw_signature activity http_reply \<Rightarrow>
   wallet_error + ecdsa_signature" where
  "raw_payload_reply ops cfg what request reply =
     and_then (create_stamp ops cfg (to_json_text ops request)) (\<lambda>_.
     and_then (read_reply (\<lambda>t. ApiError (''Turnkey API error: '' @ t)) reply) (\<lambda>v.
     and_then (activity_result (what @ '' signing failed with status: '') ''No sign result in response'' v)
       (raw_payload_signature ops)))"

definition turnkey_sign_text ::
  "turnkey_ops \<Rightarrow> digests \<Rightarrow> turnkey_config \<Rightarrow> string \<Rightarrow> raw_signature activity http_reply \<Rightarrow> bool \<Rightarrow> u32 \<Rightarrow> string \<Rightarrow>
   turnkey_accounts \<Rightarrow> (wallet_error + ecdsa_signature) task" where
  "turnkey_sign_text ops dg cfg timestamp reply held i text as =
     locking held (Finished
       (and_then (turnkey_account_for i as) (\<lambda>a.
          raw_payload_reply ops cfg ''Text''
            (sign_raw_request cfg timestamp (ta_address a)
               (''0x'' @ hex_encode (be_bytes 32 (dg_keccak dg (text_bytes (eip191_message text)))))
               ''PAYLOAD_ENCODING_HEXADECIMAL'' ''HASH_FUNCTION_NO_OP'') reply)))"

text \<open>
  Typed data: the guard of the first lock is bound to a name that a second one shadows, so it is dropped
  only at the end of the function. The second lock is asked for while the first is held.
\<close>

definition turnkey_sign_typed_data ::
  "turnkey_ops \<Rightarrow> turnkey_config \<Rightarrow> string \<Rightarrow> string + string \<Rightarrow> raw_signature activity http_reply \<Rightarrow> bool \<Rightarrow> u32 \<Rightarrow>
   turnkey_accounts \<Rightarrow> (wallet_error + ecdsa_signature) task" where
  "turnkey_sign_typed_data ops cfg timestamp data reply held i as =
     locking held
       (case turnkey_account_for i as of
          Inl e \<Rightarrow> Finished (Inl e)
        | Inr _ \<Rightarrow>
            (case map_err (\<lambda>e. ApiError (''Failed to serialize typed data: '' @ e)) data of
               Inl e \<Rightarrow> Finished (Inl e)
             | Inr text \<Rightarrow>
                 locking True (Finished
                   (and_then (turnkey_account_for i as) (\<lambda>a.
                      raw_payload_reply ops cfg ''Typed data''
                        (sign_raw_request cfg timestamp (ta_address a) text ''PAYLOAD_ENCODING_EIP712''
                           ''HASH_FUNCTION_NOT_APPLICABLE'') reply)))))"

section \<open>Fireblocks\<close>

record fireblocks_config =
  fb_api_key :: string
  fb_private_key_path :: string
  fb_identity :: string
  fb_hidden_on_ui :: "bool option"
  fb_sandbox :: "bool option"

definition get_base_url :: "fireblocks_config \<Rightarrow> string" where
  "get_base_url c =
     (if fb_sandbox c = Some True then ''https://sandbox-api.fireblocks.io'' else ''https://api.fireblocks.io'')"

record fireblocks_claims =
  fk_uri :: string
  fk_nonce :: u64
  fk_iat :: nat
  fk_exp :: nat
  fk_sub :: string
  fk_body_hash :: string

record fireblocks_ops =
  fo_json_text :: "json \<Rightarrow> string"
  fo_sha256 :: "u8 list \<Rightarrow> u8 list"
  fo_encoding_key :: "string \<Rightarrow> string + unit"
  fo_jwt :: "fireblocks_claims \<Rightarrow> string + string"
  fo_parse_address :: "string \<Rightarrow> string + evm_address"
  fo_hex_error :: "string \<Rightarrow> string"

text \<open>The clock, the key file and the answer of one request.\<close>

record fireblocks_call =
  fc_seconds :: "string + nat"
  fc_micros :: "string + nat"
  fc_key_file :: "string + string"
  fc_reply :: "string \<Rightarrow> string \<Rightarrow> json option \<Rightarrow> json http_reply"

definition chain_asset_mapping :: "(chain_id \<times> string) list" where
  "chain_asset_mapping =
     [(1, ''ETH''), (11155111, ''ETH_TEST5''), (17000, ''ETH_TEST5''), (137, ''MATIC_POLYGON''),
      (80001, ''MATIC_POLYGON''), (80002, ''MATIC_POLYGON''), (42161, ''ETH-AETH''), (421614, ''ETH_TEST5''),
      (10, ''ETH-OPT''), (11155420, ''ETH_TEST5''), (8453, ''BASECHAIN_ETH''), (84532, ''ETH_TEST5''),
      (56, ''BNB_BSC''), (97, ''BNB_BSC''), (43114, ''AVAX''), (43113, ''AVAX''), (250, ''FYM''), (100, ''xDAI''),
      (42220, ''CELO''), (59144, ''LINEA''), (1284, ''GLMR_GLMR''), (1285, ''MOVR_MOVR''), (1313161554, ''AURORA_DEV''),
      (592, ''ASTR_ASTR''), (88888, ''CHZ_CHZ2''), (9001, ''EVMOS''), (2222, ''KAVA''), (248, ''OAS''), (30, ''RBTC''),
      (106, ''VLX_VLX''), (50, ''XDC''), (51, ''XDC''), (19, ''SGB''), (7700, ''CANTO''), (128, ''HT_CHAIN''),
      (148, ''SMR_SMR''), (10000, ''SMARTBCH'')]"

text \<open>The list of supported chains in the message is in the order of a hash map: a parameter.\<close>

definition get_asset_id_for_chain :: "string \<Rightarrow> chain_id \<Rightarrow> wallet_error + string" where
  "get_asset_id_for_chain supported c =
     ok_or (ConfigurationError (''Fireblocks does not support chain ID '' @ show_digits (unat c) @
              ''. Supported chains: '' @ supported)) (map_of chain_asset_mapping c)"

definition generate_jwt_token ::
  "fireblocks_ops \<Rightarrow> fireblocks_config \<Rightarrow> fireblocks_call \<Rightarrow> string \<Rightarrow> json option \<Rightarrow> wallet_error + string" where
  "generate_jwt_token ops cfg call uri body =
     and_then (map_err (\<lambda>e. GenericSignerError (''System time error: '' @ e)) (fc_seconds call)) (\<lambda>now.
     and_then (map_err (\<lambda>e. GenericSignerError (''System time error: '' @ e)) (fc_micros call)) (\<lambda>micros.
     let bytes = (case body of Some b \<Rightarrow> text_bytes (fo_json_text ops b) | None \<Rightarrow> []);
         claims = \<lparr> fk_uri = uri, fk_nonce = of_nat micros, fk_iat = now, fk_exp = now + 29,
                    fk_sub = fb_api_key cfg, fk_body_hash = hex_encode (fo_sha256 ops bytes) \<rparr>
     in and_then (map_err (\<lambda>e. ConfigurationError (''Failed to read private key file '' @ fb_private_key_path cfg @
                     '': '' @ e)) (fc_key_file call)) (\<lambda>pem.
        and_then (map_err (\<lambda>e. ConfigurationError (''Invalid private key format: '' @ e)) (fo_encoding_key ops pem)) (\<lambda>_.
          map_err (\<lambda>e. GenericSignerError (''JWT generation failed: '' @ e)) (fo_jwt ops claims)))))"

definition make_api_request ::
  "fireblocks_ops \<Rightarrow> fireblocks_config \<Rightarrow> string \<Rightarrow> string \<Rightarrow> json option \<Rightarrow> fireblocks_call \<Rightarrow> wallet_error + json" where
  "make_api_request ops cfg verb endpoint body call =
     (if verb \<notin> {''GET'', ''POST'', ''PUT'', ''DELETE''} then Inl (GenericSignerError ''Unsupported HTTP method'')
      else
        and_then (generate_jwt_token ops cfg call endpoint body) (\<lambda>_.
        and_then (map_err NetworkError (fc_reply call verb (get_base_url cfg @ endpoint) body)) (\<lambda>r.
          if \<not> hr_success r
          then Inl (ApiError (''Fireblocks API error ('' @ hr_status r @ ''): '' @
                      (case hr_text r of Inr t \<Rightarrow> t | Inl _ \<Rightarrow> ''Unknown error'')))
          else map_err (\<lambda>e. GenericSignerError (''Failed to parse JSON response: '' @ e)) (hr_json r))))"

record fireblocks_env =
  fe_accounts :: fireblocks_call
  fe_create_vault :: fireblocks_call
  fe_asset :: fireblocks_call
  fe_addresses :: fireblocks_call
  fe_create_asset :: fireblocks_call
  fe_transaction :: fireblocks_call
  fe_poll :: "nat \<Rightarrow> fireblocks_call"
  fe_supported :: string

definition asset_endpoint :: "string \<Rightarrow> string \<Rightarrow> string" where
  "asset_endpoint vault asset = ''/v1/vault/accounts/'' @ vault @ ''/'' @ asset"

text \<open>The first address of a page of addresses.\<close>

definition first_address :: "json \<Rightarrow> string option" where
  "first_address j =
     Option.bind (Option.bind (json_get ''addresses'' j) as_array)
       (\<lambda>l. case l of [] \<Rightarrow> None | a # _ \<Rightarrow> get_str ''address'' a)"

definition existing_asset_address ::
  "fireblocks_ops \<Rightarrow> fireblocks_config \<Rightarrow> fireblocks_env \<Rightarrow> string \<Rightarrow> string \<Rightarrow> json \<Rightarrow> wallet_error + string" where
  "existing_asset_address ops cfg env vault asset j =
     (case get_str ''address'' j of
        Some a \<Rightarrow> Inr a
      | None \<Rightarrow>
          (case make_api_request ops cfg ''GET'' (asset_endpoint vault asset @ ''/addresses_paginated'') None
                  (fe_addresses env) of
             Inl _ \<Rightarrow> Inl (GenericSignerError (asset @ '' asset exists but failed to get addresses''))
           | Inr l \<Rightarrow> ok_or (GenericSignerError (asset @ '' asset exists but has no addresses'')) (first_address l)))"

definition asset_not_found :: "wallet_error \<Rightarrow> bool" where
  "asset_not_found e = (case e of ApiError m \<Rightarrow> str_contains m ''404'' \<or> str_contains m ''not found'' | _ \<Rightarrow> False)"

definition get_or_create_chain_asset ::
  "fireblocks_ops \<Rightarrow> fireblocks_config \<Rightarrow> fireblocks_env \<Rightarrow> string \<Rightarrow> chain_id \<Rightarrow> wallet_error + string" where
  "get_or_create_chain_asset ops cfg env vault c =
     and_then (get_asset_id_for_chain (fe_supported env) c) (\<lambda>asset.
       case make_api_request ops cfg ''GET'' (asset_endpoint vault asset) None (fe_asset env) of
         Inr j \<Rightarrow> existing_asset_address ops cfg env vault asset j
       | Inl e \<Rightarrow>
           if asset_not_found e
           then and_then (make_api_request ops cfg ''POST'' (asset_endpoint vault asset) None (fe_create_asset env)) (\<lambda>j.
                  ok_or (GenericSignerError (''Failed to get '' @ asset @ '' asset address'')) (get_str ''address'' j))
           else Inl e)"

type_synonym fireblocks_wallets = "u32 \<times> chain_id \<rightharpoonup> string \<times> evm_address"

text \<open>Only the first page of the vaults is looked at.\<close>

definition find_vault :: "string \<Rightarrow> json list \<Rightarrow> json option" where
  "find_vault name vaults = find (\<lambda>v. get_str ''name'' v = Some name) vaults"

definition vault_id_of ::
  "fireblocks_ops \<Rightarrow> fireblocks_config \<Rightarrow> fireblocks_env \<Rightarrow> string \<Rightarrow> wallet_error + string" where
  "vault_id_of ops cfg env name =
     and_then (make_api_request ops cfg ''GET'' ''/v1/vault/accounts_paged'' None (fe_accounts env)) (\<lambda>j.
     and_then (ok_or (GenericSignerError
                 (''Invalid vault accounts response - missing '' @ [CHR 0x27] @ ''accounts'' @ [CHR 0x27] @ '' field''))
                 (Option.bind (json_get ''accounts'' j) as_array)) (\<lambda>vaults.
       case find_vault name vaults of
         Some v \<Rightarrow> ok_or (GenericSignerError ''Vault account missing ID'') (get_str ''id'' v)
       | None \<Rightarrow>
           and_then (make_api_request ops cfg ''POST'' ''/v1/vault/accounts''
                       (Some (JObj [(''name'', JStr name),
                          (''hiddenOnUI'', JBool (case fb_hidden_on_ui cfg of Some b \<Rightarrow> b | None \<Rightarrow> True))]))
                       (fe_create_vault env)) (\<lambda>v.
             ok_or (GenericSignerError ''Failed to get vault account ID'') (get_str ''id'' v))))"

definition get_or_create_vault_account ::
  "fireblocks_ops \<Rightarrow> fireblocks_config \<Rightarrow> fireblocks_env \<Rightarrow> u32 \<Rightarrow> chain_id \<Rightarrow> fireblocks_wallets \<Rightarrow>
   fireblocks_wallets \<times> (wallet_error + string \<times> evm_address)" where
  "get_or_create_vault_account ops cfg env i c ws =
     (case ws (i, c) of
        Some w \<Rightarrow> (ws, Inr w)
      | None \<Rightarrow>
          (case and_then (vault_id_of ops cfg env (wallet_label (fb_identity cfg) c i)) (\<lambda>vault.
                and_then (get_or_create_chain_asset ops cfg env vault c) (\<lambda>text.
                and_then (map_err (\<lambda>e. GenericSignerError (''Invalid address format: '' @ e)) (fo_parse_address ops text))
                  (\<lambda>a. Inr (vault, a)))) of
             Inl e \<Rightarrow> (ws, Inl e)
           | Inr w \<Rightarrow> (ws((i, c) \<mapsto> w), Inr w)))"

definition extract_signature_from_response :: "fireblocks_ops \<Rightarrow> json \<Rightarrow> wallet_error + ecdsa_signature" where
  "extract_signature_from_response ops j =
     and_then (ok_or (GenericSignerError ''No signed messages in response'')
                 (Option.bind (json_get ''signedMessages'' j) as_array)) (\<lambda>l.
     and_then (case l of [] \<Rightarrow> Inl (GenericSignerError ''No signature data found'') | m # _ \<Rightarrow> Inr m) (\<lambda>m.
     and_then (ok_or (GenericSignerError ''No signature in response'') (json_get ''signature'' m)) (\<lambda>sig.
     and_then (ok_or (GenericSignerError ''Invalid signature format'')
                 (case get_str ''fullSig'' sig of Some s \<Rightarrow> Some s | None \<Rightarrow> as_str sig)) (\<lambda>text.
     and_then (map_err (\<lambda>e. GenericSignerError (''Invalid signature hex: '' @ e))
                 (hex_decode (fo_hex_error ops) (trim_0x text))) (\<lambda>bytes.
       if length bytes \<noteq> 64
       then Inl (GenericSignerError (''Invalid signature length: expected 64 bytes, got '' @ show_digits (length bytes)))
       else
         let v = (case Option.bind (json_get ''v'' sig) as_u64 of Some v \<Rightarrow> v | None \<Rightarrow> 0)
         in Inr \<lparr> sg_r = from_be_slice (take 32 bytes), sg_s = from_be_slice (drop 32 bytes),
                  sg_v = (v mod 2 \<noteq> 0) \<rparr>)))))"

definition MAX_SIGNATURE_POLLS :: nat where
  "MAX_SIGNATURE_POLLS = 60"

text \<open>Poll \<open>k\<close> of a signature, with \<open>n\<close> polls left.\<close>

fun wait_for_signature ::
  "fireblocks_ops \<Rightarrow> fireblocks_config \<Rightarrow> (nat \<Rightarrow> fireblocks_call) \<Rightarrow> string \<Rightarrow> nat \<Rightarrow> nat \<Rightarrow>
   wallet_error + ecdsa_signature" where
  "wait_for_signature ops cfg polls tx k 0 =
     Inl (GenericSignerError (''Transaction '' @ tx @ '' timed out after '' @ show_digits MAX_SIGNATURE_POLLS @
       '' attempts''))"
| "wait_for_signature ops cfg polls tx k (Suc n) =
     and_then (make_api_request ops cfg ''GET'' (''/v1/transactions/'' @ tx) None (polls k)) (\<lambda>j.
     and_then (ok_or (GenericSignerError ''Transaction missing status'') (get_str ''status'' j)) (\<lambda>status.
       if status = ''COMPLETED'' then extract_signature_from_response ops j
       else if status \<in> {''FAILED'', ''REJECTED'', ''CANCELLED''}
       then Inl (GenericSignerError (''Transaction '' @ tx @ '' failed with status: '' @ status))
       else wait_for_signature ops cfg polls tx (Suc k) n))"

definition wait_for_signature_completion ::
  "fireblocks_ops \<Rightarrow> fireblocks_config \<Rightarrow> (nat \<Rightarrow> fireblocks_call) \<Rightarrow> string \<Rightarrow> wallet_error + ecdsa_signature" where
  "wait_for_signature_completion ops cfg polls tx = wait_for_signature ops cfg polls tx 0 MAX_SIGNATURE_POLLS"

definition raw_sign_request :: "string \<Rightarrow> string \<Rightarrow> u256 \<Rightarrow> u32 \<Rightarrow> chain_id \<Rightarrow> json" where
  "raw_sign_request vault asset h i c =
     JObj [(''operation'', JStr ''RAW''),
           (''source'', JObj [(''type'', JStr ''VAULT_ACCOUNT''), (''id'', JStr vault)]), (''assetId'', JStr asset),
           (''note'', JStr (''RRelayer signature for wallet '' @ show_digits (unat i) @ '' on chain '' @
                            show_digits (unat c))),
           (''extraParameters'', JObj [(''rawMessageData'', JObj [(''messages'', JArr
              [JObj [(''content'', JStr (hex_encode (be_bytes 32 h))), (''bip44addressIndex'', JNum 0),
                     (''bip44change'', JNum 0)]])])])]"

definition fireblocks_sign_hash ::
  "fireblocks_ops \<Rightarrow> fireblocks_config \<Rightarrow> fireblocks_env \<Rightarrow> u32 \<Rightarrow> u256 \<Rightarrow> chain_id \<Rightarrow> fireblocks_wallets \<Rightarrow>
   fireblocks_wallets \<times> (wallet_error + ecdsa_signature)" where
  "fireblocks_sign_hash ops cfg env i h c ws =
     (case get_or_create_vault_account ops cfg env i c ws of
        (ws', Inl e) \<Rightarrow> (ws', Inl e)
      | (ws', Inr (vault, _)) \<Rightarrow>
          (ws', and_then (get_asset_id_for_chain (fe_supported env) c) (\<lambda>asset.
                and_then (make_api_request ops cfg ''POST'' ''/v1/transactions'' (Some (raw_sign_request vault asset h i c))
                            (fe_transaction env)) (\<lambda>j.
                and_then (ok_or (GenericSignerError ''Failed to get transaction ID'') (get_str ''id'' j))
                  (wait_for_signature_completion ops cfg (fe_poll env))))))"

definition fireblocks_address ::
  "fireblocks_ops \<Rightarrow> fireblocks_config \<Rightarrow> fireblocks_env \<Rightarrow> u32 \<Rightarrow> wallet_manager_chain_id \<Rightarrow> fireblocks_wallets \<Rightarrow>
   fireblocks_wallets \<times> (wallet_error + evm_address)" where
  "fireblocks_address ops cfg env i c ws =
     (case get_or_create_vault_account ops cfg env i (chain_main c) ws of
        (ws', r) \<Rightarrow> (ws', and_then r (\<lambda>w. Inr (snd w))))"

definition fireblocks_sign ::
  "fireblocks_ops \<Rightarrow> digests \<Rightarrow> fireblocks_config \<Rightarrow> fireblocks_env \<Rightarrow> u32 \<Rightarrow> sign_payload \<Rightarrow> wallet_manager_chain_id \<Rightarrow>
   fireblocks_wallets \<Rightarrow> fireblocks_wallets \<times> (wallet_error + ecdsa_signature)" where
  "fireblocks_sign ops dg cfg env i p c ws =
     (case payload_digest dg p of
        Inl e \<Rightarrow> (ws, Inl e)
      | Inr h \<Rightarrow> fireblocks_sign_hash ops cfg env i h (chain_main c) ws)"

section \<open>Privy\<close>

record privy_wallet =
  pv_id :: string
  pv_address :: evm_address
  pv_chain_type :: string
  pv_created_at :: u64

text \<open>A page of the listing: its wallets, where they parse, and the cursor of the next page.\<close>

record privy_page =
  pp_data :: "string + privy_wallet list"
  pp_next_cursor :: "string option"

text \<open>Page \<open>k\<close> of a listing; the loop ends with a page that names no next one.\<close>

partial_function (option) privy_pages ::
  "(nat \<Rightarrow> string option \<Rightarrow> string + privy_page) \<Rightarrow> nat \<Rightarrow> string option \<Rightarrow> privy_wallet list \<Rightarrow>
   (wallet_error + privy_wallet list) option" where
  "privy_pages pages k cursor all =
     (case pages k cursor of
        Inl e \<Rightarrow> Some (Inl (NetworkError e))
      | Inr p \<Rightarrow>
          (case pp_data p of
             Inl e \<Rightarrow> Some (Inl (JsonError e))
           | Inr ws \<Rightarrow>
               (case pp_next_cursor p of
                  None \<Rightarrow> Some (Inr (all @ ws))
                | Some c \<Rightarrow> privy_pages pages (Suc k) (Some c) (all @ ws))))"

type_synonym privy_wallets = "u32 \<rightharpoonup> privy_wallet"

fun insert_enumerated :: "nat \<Rightarrow> privy_wallet list \<Rightarrow> privy_wallets \<Rightarrow> privy_wallets" where
  "insert_enumerated k [] m = m"
| "insert_enumerated k (w # ws) m = insert_enumerated (Suc k) ws (m(of_nat k \<mapsto> w))"

definition load_wallets ::
  "(nat \<Rightarrow> string option \<Rightarrow> string + privy_page) \<Rightarrow> privy_wallets \<Rightarrow> (privy_wallets \<times> (wallet_error + unit)) option"
  where
  "load_wallets pages m =
     map_option (\<lambda>r. case r of Inl e \<Rightarrow> (m, Inl e) | Inr ws \<Rightarrow> (insert_enumerated 0 ws m, Inr ()))
       (privy_pages pages 0 None [])"

definition privy_create_wallet ::
  "(nat \<Rightarrow> string option \<Rightarrow> string + privy_page) \<Rightarrow> privy_wallet http_reply \<Rightarrow> u32 \<Rightarrow> privy_wallets \<Rightarrow>
   (privy_wallets \<times> (wallet_error + evm_address)) option" where
  "privy_create_wallet pages reply i m0 =
     map_option (\<lambda>loaded. case loaded of
          (m, Inl e) \<Rightarrow> (m, Inl e)
        | (m, Inr _) \<Rightarrow>
            (case m i of
               Some w \<Rightarrow> (m, Inr (pv_address w))
             | None \<Rightarrow>
                 (case read_reply (\<lambda>t. ApiError (''Failed to create wallet: '' @ t)) reply of
                    Inl e \<Rightarrow> (m, Inl e)
                  | Inr w \<Rightarrow> (m(i \<mapsto> w), Inr (pv_address w))))) (load_wallets pages m0)"

definition privy_wallet_for :: "u32 \<Rightarrow> privy_wallets \<Rightarrow> wallet_error + privy_wallet" where
  "privy_wallet_for i m = ok_or (WalletNotFound i) (m i)"

definition privy_get_address :: "u32 \<Rightarrow> privy_wallets \<Rightarrow> wallet_error + evm_address" where
  "privy_get_address i m = and_then (privy_wallet_for i m) (\<lambda>w. Inr (pv_address w))"

fun show_hex :: "nat \<Rightarrow> string" where
  "show_hex n = (if n < 16 then [hex_char (of_nat n)] else show_hex (n div 16) @ [hex_char (of_nat (n mod 16))])"

declare show_hex.simps [simp del]

definition hex_number :: "nat \<Rightarrow> json" where
  "hex_number n = JStr (''0x'' @ show_hex n)"

text \<open>A number of more than 64 bits cannot be a JSON number: building the request panics.\<close>

datatype privy_request = PrivyJson json | PrivyUnsupported string | PrivyPanics

definition privy_fields :: "nat \<Rightarrow> typed_fields \<Rightarrow> (string \<times> json) list" where
  "privy_fields type f =
     [(''type'', JNum (int type)), (''to'', JStr (show_account (tf_to f))), (''value'', hex_number (unat (tf_value f))),
      (''data'', JStr (''0x'' @ hex_encode (tf_input f))), (''gas_limit'', JNum (uint (tf_gas_limit f)))]"

fun privy_transaction :: "typed_transaction \<Rightarrow> privy_request" where
  "privy_transaction (Legacy f price) =
     PrivyJson (JObj (privy_fields 0 f @
       [(''gas_price'', hex_number (unat price)), (''nonce'', JNum (uint (tf_nonce f)))]))"
| "privy_transaction (Eip1559 f priority fee) =
     (if 2 ^ 64 \<le> unat fee then PrivyPanics
      else PrivyJson (JObj (privy_fields 2 f @
        [(''max_fee_per_gas'', JNum (uint fee)), (''max_priority_fee_per_gas'', hex_number (unat priority)),
         (''nonce'', JNum (uint (tf_nonce f))), (''chain_id'', JNum (uint (tf_chain_id f)))])))"
| "privy_transaction (Eip4844 f _ _ _ _) =
     PrivyUnsupported ''EIP-4844 blob transactions are not supported by Privy wallet API''"

record privy_ops =
  po_json_text :: "json \<Rightarrow> string"
  po_hex_error :: "string \<Rightarrow> string"
  po_decode :: "u8 list \<Rightarrow> string + envelope"
  po_signature :: "string \<Rightarrow> string + ecdsa_signature"

text \<open>An answer of the signing endpoint: an error in it is reported, a text is read from its data.\<close>

definition privy_data :: "privy_ops \<Rightarrow> string \<Rightarrow> string \<Rightarrow> json http_reply \<Rightarrow> wallet_error + string" where
  "privy_data ops key missing reply =
     and_then (read_reply (\<lambda>t. ApiError (''Privy API error: '' @ t)) reply) (\<lambda>j.
       case json_get ''error'' j of
         Some e \<Rightarrow> Inl (ApiError (''Privy signing error: '' @ po_json_text ops e))
       | None \<Rightarrow> ok_or (ApiError missing) (Option.bind (json_get ''data'' j) (get_str key)))"

fun privy_envelope_signature :: "envelope \<Rightarrow> wallet_error + ecdsa_signature" where
  "privy_envelope_signature (EnvEip1559 s) = Inr s"
| "privy_envelope_signature (EnvLegacy s) = Inr s"
| "privy_envelope_signature (EnvEip2930 s) = Inr s"
| "privy_envelope_signature _ = Inl (UnsupportedTransactionType ''Unknown transaction envelope type'')"

text \<open>No answer is a panic.\<close>

definition privy_rpc_url :: "privy_wallet \<Rightarrow> string" where
  "privy_rpc_url w = ''https://api.privy.io/v1/wallets/'' @ pv_id w @ ''/rpc''"

definition privy_call :: "string \<Rightarrow> (string \<times> json) list \<Rightarrow> json" where
  "privy_call name params = JObj [(''method'', JStr name), (''params'', JObj params)]"

definition privy_sign_transaction ::
  "privy_ops \<Rightarrow> (string \<Rightarrow> json \<Rightarrow> json http_reply) \<Rightarrow> u32 \<Rightarrow> typed_transaction \<Rightarrow> privy_wallets \<Rightarrow>
   (wallet_error + ecdsa_signature) option" where
  "privy_sign_transaction ops reply i t m =
     (case privy_wallet_for i m of
        Inl e \<Rightarrow> Some (Inl e)
      | Inr w \<Rightarrow>
          (case privy_transaction t of
             PrivyPanics \<Rightarrow> None
           | PrivyUnsupported e \<Rightarrow> Some (Inl (UnsupportedTransactionType e))
           | PrivyJson j \<Rightarrow>
               Some (and_then (privy_data ops ''signed_transaction'' ''No signed transaction in response data''
                       (reply (privy_rpc_url w) (privy_call ''eth_signTransaction'' [(''transaction'', j)]))) (\<lambda>text.
                     and_then (map_err HexError (hex_decode (po_hex_error ops) (trim_0x text))) (\<lambda>bytes.
                     and_then (map_err RlpError (po_decode ops bytes)) privy_envelope_signature)))))"

definition privy_sign_message ::
  "privy_ops \<Rightarrow> (string \<Rightarrow> json \<Rightarrow> json http_reply) \<Rightarrow> json \<Rightarrow> u32 \<Rightarrow> privy_wallets \<Rightarrow> wallet_error + ecdsa_signature"
  where
  "privy_sign_message ops reply request i m =
     and_then (privy_wallet_for i m) (\<lambda>w.
     and_then (privy_data ops ''signature'' ''No signature in response data'' (reply (privy_rpc_url w) request)) (\<lambda>text.
       map_err ParseSignatureError (po_signature ops text)))"

definition privy_sign_text ::
  "privy_ops \<Rightarrow> (string \<Rightarrow> json \<Rightarrow> json http_reply) \<Rightarrow> u32 \<Rightarrow> string \<Rightarrow> privy_wallets \<Rightarrow> wallet_error + ecdsa_signature"
  where
  "privy_sign_text ops reply i text =
     privy_sign_message ops reply
       (privy_call ''personal_sign'' [(''message'', JStr text), (''encoding'', JStr ''utf-8'')]) i"

text \<open>The parts of typed data as JSON values.\<close>

record typed_data_json =
  tj_types :: json
  tj_message :: json
  tj_primary_type :: string
  tj_domain :: json

definition privy_sign_typed_data ::
  "privy_ops \<Rightarrow> (string \<Rightarrow> json \<Rightarrow> json http_reply) \<Rightarrow> u32 \<Rightarrow> typed_data_json \<Rightarrow> privy_wallets \<Rightarrow>
   wallet_error + ecdsa_signature" where
  "privy_sign_typed_data ops reply i d =
     privy_sign_message ops reply
       (privy_call ''eth_signTypedData_v4'' [(''typed_data'', JObj [(''types'', tj_types d), (''message'', tj_message d),
          (''primary_type'', JStr (tj_primary_type d)), (''domain'', tj_domain d)])]) i"

end
