(* ===== verification/Text_Laws.thy ===== *)
theory Text_Laws
  imports Wallet_Services
begin

text \<open>
  What is written is read back: hexadecimal text, decimal numbers and big-endian bytes. Shared by the
  properties of the wallet managers and of the columns of the tables.
\<close>

section \<open>Text\<close>

lemma hex_digit_char: "unat (d :: u8) < 16 \<Longrightarrow> hex_digit (hex_char d) = Some d"
  by (simp add: hex_digit_def hex_char_def Let_def)

lemma hex_byte_digits:
  fixes b :: u8
  shows "16 * drop_bit 4 b + and b 15 = b" "unat (drop_bit 4 b) < 16" "unat (and b 15) < 16"
proof -
  have and15: "and b 15 = take_bit 4 b" by (simp add: take_bit_eq_mask mask_eq_exp_minus_1)
  have "push_bit 4 (drop_bit 4 b) + take_bit 4 b = b" by (rule bits_ident)
  then show "16 * drop_bit 4 b + and b 15 = b" by (simp add: and15 push_bit_eq_mult mult.commute)
  have "unat b < 256" using unsigned_less [of b] by simp
  then have "unat b div 16 < 16" by linarith
  then show "unat (drop_bit 4 b) < 16" by (simp add: drop_bit_eq_div unat_div)
  show "unat (and b 15) < 16" by (simp add: and15 take_bit_eq_mod unat_mod)
qed

lemma hex_bytes_encode: "hex_bytes (hex_encode bs) = Some bs"
proof (induction bs)
  case (Cons b bs)
  have "hex_encode (b # bs) = hex_char (drop_bit 4 b) # hex_char (and b 15) # hex_encode bs"
    by (simp add: hex_encode_def hex_byte_def)
  then show ?case using Cons.IH hex_byte_digits [of b] by (simp add: hex_digit_char)
qed (simp add: hex_encode_def)

lemma digits_value_append:
  "digits_value n (xs @ ys) = Option.bind (digits_value n xs) (\<lambda>m. digits_value m ys)"
  by (induction xs arbitrary: n) (auto split: option.splits)

lemma digit_val_char: "n < 10 \<Longrightarrow> digit_val (char_of (48 + n)) = Some n"
  by (simp add: digit_val_def Let_def)

lemma digits_value_show: "digits_value 0 (show_digits n) = Some n"
proof (induction n rule: show_digits.induct)
  case (1 n)
  then show ?case
    by (subst show_digits.simps) (simp add: digits_value_append digit_val_char)
qed

lemma show_digits_inject: "show_digits m = show_digits n \<longleftrightarrow> m = n"
  using digits_value_show by (metis option.inject)

lemma digits_value_chars: "digits_value n s = Some m \<Longrightarrow> c \<in> set s \<Longrightarrow> digit_val c \<noteq> None"
  by (induction s arbitrary: n) (auto split: option.splits)

lemma show_digits_chars: "c \<in> set (show_digits n) \<Longrightarrow> digit_val c \<noteq> None"
  using digits_value_chars [OF digits_value_show] by blast

lemma digit_val_separators:
  "digit_val CHR ''-'' = None" "digit_val CHR ''/'' = None" "digit_val CHR ''+'' = None"
  by (simp_all add: digit_val_def)

lemma show_digits_no [simp]:
  "CHR ''-'' \<notin> set (show_digits n)" "CHR ''/'' \<notin> set (show_digits n)" "CHR ''+'' \<notin> set (show_digits n)"
  using show_digits_chars digit_val_separators by blast+

lemma show_digits_not_Nil: "show_digits n \<noteq> []"
  by (subst show_digits.simps) simp

lemma parse_u32_show: "parse_u32 (show_digits (unat i)) = Some i"
proof -
  have "unat i < 2 ^ 32" using unsigned_less [of i] by simp
  moreover have "(case show_digits (unat i) of c # cs \<Rightarrow> if c = CHR ''+'' then cs else show_digits (unat i) | [] \<Rightarrow> []) =
      show_digits (unat i)"
    using show_digits_no(3) [of "unat i"] by (cases "show_digits (unat i)") auto
  ultimately show ?thesis
    by (simp add: parse_u32_def Let_def show_digits_not_Nil digits_value_show)
qed

section \<open>Bytes\<close>

lemma sum_bytes:
  fixes w :: "'a::len word"
  shows "horner_sum uint 256 (map (\<lambda>i. ucast (drop_bit (8 * i) w) :: u8) [0..<n]) = uint w mod 256 ^ n"
proof (induction n)
  case (Suc n)
  have "uint (drop_bit (8 * n) w) = drop_bit (8 * n) (uint w)" by (simp only: unsigned_drop_bit_eq) (simp add: take_bit_int_eq_self)
  then have drop: "uint (drop_bit (8 * n) w) = uint w div 256 ^ n"
    by (simp only: drop_bit_eq_div [where ?'a = int] power_mult) simp
  have "uint (ucast (drop_bit (8 * n) w) :: u8) = uint (drop_bit (8 * n) w) mod 256"
    by (simp only: unsigned_ucast_eq take_bit_eq_mod) simp
  with drop have byte: "uint (ucast (drop_bit (8 * n) w) :: u8) = uint w div 256 ^ n mod 256" by simp
  have "uint w mod 256 ^ Suc n = 256 ^ n * (uint w div 256 ^ n mod 256) + uint w mod 256 ^ n"
    using mod_mult2_eq' [of "uint w" "256 ^ n" 256] by (simp add: mult.commute)
  then show ?case using Suc byte by (simp add: horner_sum_append)
qed simp

lemma rev_be_bytes: "rev (be_bytes n w) = map (\<lambda>i. ucast (drop_bit (8 * i) w)) [0..<n]"
  by (rule nth_equalityI) (auto simp: be_bytes_def rev_nth)

lemma word_rcat_be_bytes:
  fixes w :: "'a::len word"
  assumes "LENGTH('a) = 8 * n"
  shows "word_rcat (be_bytes n w) = w"
proof -
  have "uint w < 2 ^ LENGTH('a)" by (rule uint_bounded)
  then have "uint w < 256 ^ n" using assms by (simp add: power_mult)
  then have "uint w mod 256 ^ n = uint w" by (simp add: mod_pos_pos_trivial)
  then show ?thesis using sum_bytes [of w n] by (simp add: word_rcat_def rev_be_bytes)
qed

lemma from_be_slice_be_bytes: "from_be_slice (be_bytes 32 w) = w"
  by (simp add: from_be_slice_def word_rcat_be_bytes)

lemma hex_char_not_x: "unat (d :: u8) < 16 \<Longrightarrow> hex_char d \<noteq> CHR ''x''"
  using hex_digit_char [of d] by (auto simp: hex_digit_def Let_def)

lemma trim_0x_hex: "trim_0x (hex_encode bs) = hex_encode bs"
  using hex_char_not_x hex_byte_digits(2,3)
  by (cases bs) (auto simp: hex_encode_def hex_byte_def)

lemma hex_decode_encode [simp]: "hex_decode show (trim_0x (hex_encode bs)) = Inr bs"
  by (simp add: hex_decode_def trim_0x_hex hex_bytes_encode)

end
