(* ===== verification/Wallet_Properties.thy ===== *)
theory Wallet_Properties
  imports Text_Laws
begin

text \<open>
  The wallet managers: names of wallets, what is remembered of an account, the signatures of a token, the
  import of a key, and where a manager loses or mixes up a key or waits for itself.
\<close>

section \<open>Names of wallets\<close>

lemma last_separator:
  assumes "x @ c # a = y @ c # b" "c \<notin> set a" "c \<notin> set b"
  shows "x = y \<and> a = b"
proof -
  have "takeWhile (\<lambda>d. d \<noteq> c) (rev (x @ c # a)) = rev a" "takeWhile (\<lambda>d. d \<noteq> c) (rev (y @ c # b)) = rev b"
    using assms(2,3) takeWhile_append2 [of "rev a" "\<lambda>d. d \<noteq> c" "c # rev x"]
      takeWhile_append2 [of "rev b" "\<lambda>d. d \<noteq> c" "c # rev y"] by auto
  with assms(1) show ?thesis by simp
qed

lemma two_numbers_inject:
  assumes "x @ ''-'' @ show_digits a @ ''-'' @ show_digits b = y @ ''-'' @ show_digits c @ ''-'' @ show_digits d"
  shows "x = y \<and> a = c \<and> b = d"
proof -
  have "(x @ ''-'' @ show_digits a) @ CHR ''-'' # show_digits b =
        (y @ ''-'' @ show_digits c) @ CHR ''-'' # show_digits d" using assms by simp
  from last_separator [OF this] have "x @ CHR ''-'' # show_digits a = y @ CHR ''-'' # show_digits c"
    "show_digits b = show_digits d" by simp_all
  moreover from last_separator [OF this(1)] have "x = y" "show_digits a = show_digits c" by simp_all
  ultimately show ?thesis by (simp add: show_digits_inject)
qed

text \<open>No two wallets share a name: the label of a key in a token and of a vault determines the instance, the
  chain and the index, and an alias of AWS KMS determines the prefix, the index and the chain, whatever
  the names of the instances are.\<close>

theorem wallet_names_unique:
  "(wallet_label n c i = wallet_label n' c' i' \<longleftrightarrow> n = n' \<and> c = c' \<and> i = i') \<and>
   (build_alias cfg i c = build_alias cfg' i' c' \<longleftrightarrow>
      kms_alias_prefix cfg = kms_alias_prefix cfg' \<and> i = i' \<and> c = c')"
proof -
  have "n = n' \<and> c = c' \<and> i = i'" if "wallet_label n c i = wallet_label n' c' i'"
  proof -
    have "(''rrelayer-'' @ n @ ''-wallet'') @ ''-'' @ show_digits (unat c) @ ''-'' @ show_digits (unat i) =
          (''rrelayer-'' @ n' @ ''-wallet'') @ ''-'' @ show_digits (unat c') @ ''-'' @ show_digits (unat i')"
      using that by (simp add: wallet_label_def)
    from two_numbers_inject [OF this] show ?thesis by (simp add: word_unat_eq_iff)
  qed
  moreover have "kms_alias_prefix cfg = kms_alias_prefix cfg' \<and> i = i' \<and> c = c'"
    if "build_alias cfg i c = build_alias cfg' i' c'"
  proof -
    have "(''alias/'' @ kms_alias_prefix cfg @ ''-wallet'') @ ''-'' @ show_digits (unat i) @ ''-'' @ show_digits (unat c) =
          (''alias/'' @ kms_alias_prefix cfg' @ ''-wallet'') @ ''-'' @ show_digits (unat i') @ ''-'' @ show_digits (unat c')"
      using that by (simp add: build_alias_def)
    from two_numbers_inject [OF this] show ?thesis by (simp add: word_unat_eq_iff)
  qed
  moreover have "build_alias cfg i c = build_alias cfg' i' c'"
    if "kms_alias_prefix cfg = kms_alias_prefix cfg' \<and> i = i' \<and> c = c'"
    using that by (simp add: build_alias_def)
  ultimately show ?thesis by blast
qed

text \<open>The id of a key pair holds the chain only in its upper 32 bits.\<close>

lemma key_pair_id_collides: "key_pair_id (c + 4294967296) i = key_pair_id c i"
proof -
  have "push_bit 32 (4294967296 :: u64) = 0" by simp
  then have "push_bit 32 (c + 4294967296) = push_bit 32 c" by (simp only: push_bit_add add_0_right)
  then show ?thesis by (simp only: key_pair_id_def)
qed

section \<open>Remembered wallets\<close>

text \<open>A manager that answers from its memory, and fills it where it knew nothing.\<close>

locale remembering =
  fixes key :: "'i \<Rightarrow> 'k" and get :: "'e \<Rightarrow> 'i \<Rightarrow> ('k \<rightharpoonup> 'a) \<Rightarrow> ('k \<rightharpoonup> 'a) \<times> ('x + 'a)"
  assumes hit: "m (key i) = Some a \<Longrightarrow> get e i m = (m, Inr a)"
    and miss: "m (key i) = None \<Longrightarrow> get e i m = (m', r) \<Longrightarrow>
      (case r of Inl _ \<Rightarrow> m' = m | Inr a \<Rightarrow> m' = m(key i \<mapsto> a))"

primrec ask :: "('i \<Rightarrow> 'k) \<Rightarrow> ('e \<Rightarrow> 'i \<Rightarrow> 'm \<Rightarrow> 'm \<times> 'r) \<Rightarrow> ('e \<times> 'i) list \<Rightarrow> 'm \<Rightarrow> ('k \<times> 'r) list" where
  "ask key get [] m = []"
| "ask key get (c # cs) m =
     (case get (fst c) (snd c) m of (m', r) \<Rightarrow> (key (snd c), r) # ask key get cs m')"

text \<open>All successful answers for one wallet are the same.\<close>

definition one_account :: "('k \<times> ('x + 'a)) list \<Rightarrow> bool" where
  "one_account rs \<longleftrightarrow> (\<forall>(k, r) \<in> set rs. \<forall>(j, q) \<in> set rs. k = j \<and> is_ok r \<and> is_ok q \<longrightarrow> r = q)"

context remembering
begin

lemma remembered: "get e i m = (m', r) \<Longrightarrow> m k = Some a \<Longrightarrow> m' k = Some a"
  using hit [of m i] miss [of m i e m' r] by (cases "m (key i)") (auto split: sum.splits)

lemma answered: "get e i m = (m', Inr a) \<Longrightarrow> m' (key i) = Some a"
  using hit [of m i] miss [of m i e m' "Inr a"] by (cases "m (key i)") auto

lemma answers_known: "m k = Some a \<Longrightarrow> (k, Inr b) \<in> set (ask key get cs m) \<Longrightarrow> b = a"
proof (induction cs arbitrary: m)
  case (Cons c cs)
  obtain m' r where g: "get (fst c) (snd c) m = (m', r)" by force
  from Cons.prems g have "key (snd c) = k \<and> r = Inr b \<or> (k, Inr b) \<in> set (ask key get cs m')" by auto
  then show ?case
  proof
    assume "key (snd c) = k \<and> r = Inr b"
    with g Cons.prems(1) hit [of m "snd c" a "fst c"] show ?thesis by simp
  next
    assume "(k, Inr b) \<in> set (ask key get cs m')"
    with Cons.IH remembered [OF g Cons.prems(1)] show ?thesis by blast
  qed
qed simp

lemma answers_agree:
  "(k, Inr a) \<in> set (ask key get cs m) \<Longrightarrow> (k, Inr b) \<in> set (ask key get cs m) \<Longrightarrow> a = b"
proof (induction cs arbitrary: m)
  case (Cons c cs)
  obtain m' r where g: "get (fst c) (snd c) m = (m', r)" by force
  note now = answered [of "fst c" "snd c" m m'] and later = answers_known [of m' k]
  from Cons.prems g have in_list:
    "key (snd c) = k \<and> r = Inr a \<or> (k, Inr a) \<in> set (ask key get cs m')"
    "key (snd c) = k \<and> r = Inr b \<or> (k, Inr b) \<in> set (ask key get cs m')" by auto
  show ?case
  proof (cases "(k, Inr a) \<in> set (ask key get cs m') \<and> (k, Inr b) \<in> set (ask key get cs m')")
    case True
    then show ?thesis using Cons.IH by blast
  next
    case False
    with in_list g now later show ?thesis by (metis sum.inject(2))
  qed
qed simp

lemma one_account_ask: "one_account (ask key get cs m)"
  unfolding one_account_def
proof (intro ballI, clarify)
  fix k r q
  assume "(k, r) \<in> set (ask key get cs m)" "(k, q) \<in> set (ask key get cs m)" "is_ok r" "is_ok q"
  then show "r = q" using answers_agree [of k _ cs m] by (cases r; cases q) auto
qed

end

definition forget_requests :: "'m \<times> 'q \<times> 'r \<Rightarrow> 'm \<times> 'r" where
  "forget_requests x = (case x of (m, q, r) \<Rightarrow> (m, r))"

definition signer_key_of :: "u32 \<times> wallet_manager_chain_id \<Rightarrow> u32 \<times> chain_id \<times> chain_id" where
  "signer_key_of w = (fst w, cloned_from_chain_id_or_default (snd w), chain_main (snd w))"

definition kms_get :: "kms_config \<times> kms_env \<Rightarrow> u32 \<times> wallet_manager_chain_id \<Rightarrow> kms_signers \<Rightarrow>
    kms_signers \<times> (wallet_error + kms_signer)" where
  "kms_get e w m = forget_requests (get_or_initialize_signer (fst e) (snd e) (fst w) (snd w) m)"

interpretation mnemonics: remembering "\<lambda>w. w" "\<lambda>derive w. mnemonic_get_wallet derive (fst w) (snd w)"
  by unfold_locales (auto simp: mnemonic_get_wallet_def Let_def split: sum.splits)

interpretation private_keys: remembering "\<lambda>i. i" "\<lambda>e i. private_key_get_wallet (fst e) (fst (snd e)) i (snd (snd e))"
  by unfold_locales (auto simp: private_key_get_wallet_def Let_def split: sum.splits option.splits)

interpretation tokens: remembering "\<lambda>w. w"
    "\<lambda>e w. get_or_create_wallet (fst e) (fst (snd e)) (snd (snd e)) (fst w) (snd w)"
  by unfold_locales (auto simp: get_or_create_wallet_def split: sum.splits)

interpretation vaults: remembering "\<lambda>w. w"
    "\<lambda>e w. get_or_create_vault_account (fst e) (fst (snd e)) (snd (snd e)) (fst w) (snd w)"
  by unfold_locales (auto simp: get_or_create_vault_account_def split: sum.splits)

interpretation kms: remembering signer_key_of kms_get
  by unfold_locales
    (auto simp: kms_get_def forget_requests_def signer_key_of_def get_or_initialize_signer_def Let_def
      split: sum.splits prod.splits)

text \<open>While the server runs, a wallet of a token, a vault or AWS KMS never changes its account: all successful
  answers for one wallet, over any sequence of requests for any wallets and whatever the token or the
  service answers to each of them, give the same key and address.\<close>

theorem wallet_account_never_changes:
  "one_account (ask (\<lambda>w. w)
     (\<lambda>e w. get_or_create_wallet (fst e) (fst (snd e)) (snd (snd e)) (fst w) (snd w)) token_calls tokens) \<and>
   one_account (ask (\<lambda>w. w)
     (\<lambda>e w. get_or_create_vault_account (fst e) (fst (snd e)) (snd (snd e)) (fst w) (snd w)) vault_calls vaults) \<and>
   one_account (ask signer_key_of kms_get kms_calls signers)"
  using tokens.one_account_ask vaults.one_account_ask kms.one_account_ask by blast

section \<open>Signatures as text\<close>

lemma parity_text: "parse_hex_u64 (trim_0x (if v then ''1'' else ''0'')) = Some (if v then 1 else 0)"
proof -
  have "parse_hex_u64 (trim_0x ''1'') = Some 1" "parse_hex_u64 (trim_0x ''0'') = Some 0"
    by (simp_all add: parse_hex_u64_def parse_radix_def digit_values_def without_plus_def hex_digit_def)
  then show ?thesis by simp
qed

text \<open>A signature survives its way through text: from the hexadecimal numbers of a Turnkey answer and from the
  joined number and recovery id of a Fireblocks answer the code reads back exactly the r, s and parity that
  were written, for every signature.\<close>

lemma signature_text_round_trip:
  "raw_payload_signature tops \<lparr> rs_r = hex_encode (be_bytes 32 r), rs_s = hex_encode (be_bytes 32 s),
       rs_v = (if v then ''1'' else ''0'') \<rparr> = Inr \<lparr> sg_r = r, sg_s = s, sg_v = v \<rparr> \<and>
   extract_signature_from_response fops (JObj [(''signedMessages'', JArr [JObj [(''signature'',
       JObj [(''fullSig'', JStr (hex_encode (be_bytes 32 r @ be_bytes 32 s))),
             (''v'', JNum (if v then 1 else 0))])]])]) = Inr \<lparr> sg_r = r, sg_s = s, sg_v = v \<rparr>"
proof
  show "raw_payload_signature tops \<lparr> rs_r = hex_encode (be_bytes 32 r), rs_s = hex_encode (be_bytes 32 s),
       rs_v = (if v then ''1'' else ''0'') \<rparr> = Inr \<lparr> sg_r = r, sg_s = s, sg_v = v \<rparr>"
    by (simp only: raw_payload_signature_def raw_signature.select_convs hex_decode_encode parity_text map_err_simps
        and_then_simps ok_or_simps be_32_def length_be_bytes from_be_slice_be_bytes) simp
  show "extract_signature_from_response fops (JObj [(''signedMessages'', JArr [JObj [(''signature'',
       JObj [(''fullSig'', JStr (hex_encode (be_bytes 32 r @ be_bytes 32 s))),
             (''v'', JNum (if v then 1 else 0))])]])]) = Inr \<lparr> sg_r = r, sg_s = s, sg_v = v \<rparr>"
    by (simp add: extract_signature_from_response_def get_str_def from_be_slice_be_bytes)
qed

text \<open>A recovery id in the older convention, 27 or 28, is always read as an odd parity.\<close>

lemma ethereum_v_misread:
  "raw_payload_signature ops \<lparr> rs_r = hex_encode (be_bytes 32 r), rs_s = hex_encode (be_bytes 32 s),
     rs_v = ''1b'' \<rparr> = Inr \<lparr> sg_r = r, sg_s = s, sg_v = True \<rparr>"
proof -
  have "parse_hex_u64 (trim_0x ''1b'') = Some 27"
    by (simp add: parse_hex_u64_def parse_radix_def digit_values_def without_plus_def hex_digit_def)
  then show ?thesis by (simp add: raw_payload_signature_def be_32_def from_be_slice_be_bytes)
qed

section \<open>Tokens\<close>

lemma recoverable_recovers: "recoverable_signature recover r s h a = Some sg \<Longrightarrow> recover sg h = Inr a"
  by (auto simp: recoverable_signature_def dest!: find_SomeD)

text \<open>C34: Outside the test mode every signature that a token gives for a wallet recovers to the account the server
  remembers for this wallet, and this account is still the one of the public key in the token.\<close>

theorem token_signature_recovers:
  assumes "pkcs11_sign_hash keccak recover cfg env i h c ws = (ws', Inr sg)" "pk_test_mode cfg \<noteq> Some True"
  shows "\<exists>k a. ws' (i, c) = Some (k, a) \<and> recover sg h = Inr a \<and>
     derive_address_from_key keccak (hs_again env) (pk_identity cfg) c i = Inr a"
proof -
  from assms(1) obtain k a where w: "get_or_create_wallet keccak cfg (hs_wallet env) i c ws = (ws', Inr (k, a))"
    by (auto simp: pkcs11_sign_hash_def split: sum.splits prod.splits)
  have "ws' (i, c) = Some (k, a)"
    using tokens.answered [of "(keccak, cfg, hs_wallet env)" "(i, c)"] w by simp
  moreover have "derive_address_from_key keccak (hs_again env) (pk_identity cfg) c i = Inr a \<and> recover sg h = Inr a"
    using assms w
    by (auto simp: pkcs11_sign_hash_def and_then_def dest: recoverable_recovers
        split: sum.splits list.splits if_splits option.splits)
  ultimately show ?thesis by blast
qed

text \<open>A token with one key, whose digest and recovery are constants.\<close>

definition ex_hsm :: hsm_env where
  "ex_hsm =
     \<lparr> he_open = Inr (), he_login = Inr (), he_find_private = (\<lambda>l. Inr [7]), he_generate = (\<lambda>l d. Inl ''full''),
       he_find_public = (\<lambda>l. Inr [8]), he_ec_point = (\<lambda>h. Inr [Some (4 # replicate 64 1)]) \<rparr>"

definition ex_hsm_sign :: hsm_sign_env where
  "ex_hsm_sign =
     \<lparr> hs_open = Inr (), hs_login = Inr (), hs_wallet = ex_hsm, hs_again = ex_hsm,
       hs_sign = (\<lambda>k h. Inr (replicate 64 0)) \<rparr>"

definition ex_pkcs11 :: pkcs11_config where
  "ex_pkcs11 = \<lparr> pk_library_path = ''lib'', pk_slot_id = None, pk_pin = None, pk_identity = ''a'', pk_test_mode = None \<rparr>"

definition ex_recover :: "ecdsa_signature \<Rightarrow> u256 \<Rightarrow> string + evm_address" where
  "ex_recover sg h = (if sg_v sg then Inr 5 else Inl ''no point'')"

lemma ex_token_simps:
  "he_open ex_hsm = Inr ()" "he_login ex_hsm = Inr ()" "he_find_private ex_hsm l = Inr [7]"
  "he_find_public ex_hsm l = Inr [8]" "he_ec_point ex_hsm h = Inr [Some (4 # replicate 64 1)]"
  "hs_open ex_hsm_sign = Inr ()" "hs_wallet ex_hsm_sign = ex_hsm" "hs_again ex_hsm_sign = ex_hsm"
  "hs_sign ex_hsm_sign k d = Inr (replicate 64 0)" "pk_pin ex_pkcs11 = None" "pk_test_mode ex_pkcs11 = None"
  by (simp_all add: ex_hsm_def ex_hsm_sign_def ex_pkcs11_def)

lemma ex_derive: "derive_address_from_key (\<lambda>_. 5) ex_hsm n c i = Inr 5"
  by (simp add: derive_address_from_key_def ex_token_simps raw_point_def public_key_to_address_def)

lemma ex_token_wallet:
  "get_or_create_wallet (\<lambda>_. 5) ex_pkcs11 ex_hsm i c Map.empty = ([(i, c) \<mapsto> (7, 5)], Inr (7, 5))"
  by (simp add: get_or_create_wallet_def get_session_def ex_token_simps ex_derive)

theorem token_signature_recovers_witness:
  "\<exists>ws' sg. pkcs11_sign_hash (\<lambda>_. 5) ex_recover ex_pkcs11 ex_hsm_sign 0 9 1 Map.empty = (ws', Inr sg) \<and>
     ex_recover sg 9 = Inr 5"
proof -
  have "recoverable_signature ex_recover r s 9 5 = Some \<lparr> sg_r = r, sg_s = s, sg_v = True \<rparr>" for r s
    by (simp add: recoverable_signature_def recovery_parities_def ex_recover_def)
  then obtain sg where run:
    "pkcs11_sign_hash (\<lambda>_. 5) ex_recover ex_pkcs11 ex_hsm_sign 0 9 1 Map.empty = ([(0, 1) \<mapsto> (7, 5)], Inr sg)"
    by (simp add: pkcs11_sign_hash_def get_session_def ex_token_simps ex_token_wallet ex_derive)
  have "pk_test_mode ex_pkcs11 \<noteq> Some True" by (simp add: ex_token_simps)
  from token_signature_recovers [OF run this] have "ex_recover sg 9 = Inr 5" by auto
  with run show ?thesis by blast
qed

text \<open>
  Tokens return a point as an OCTET STRING in DER: a tag that is the same byte as the mark of an uncompressed
  point, and the length. It is taken for the mark, and the last two bytes of the point are lost.
\<close>

lemma der_point_misread:
  assumes "length xy = 64"
  shows "raw_point (4 # 65 # 4 # xy) = Inr (65 # 4 # take 62 xy)" "raw_point (4 # xy) = Inr xy"
  using assms by (simp_all add: raw_point_def eval_nat_numeral)

section \<open>AWS KMS\<close>

text \<open>The import of a key never moves an existing name and never accepts a key that cannot sign for the account:
  it succeeds only if the service reports the expected address, an SECP256K1 key and its use for signatures,
  and then the alias of the wallet is either new and made for this key or was on this key already; an import
  that fails has changed nothing.\<close>

lemma kms_import_keeps_aliases:
  "case import_existing_key cfg env key i c a of (changes, result) \<Rightarrow>
     (case result of
        Inl _ \<Rightarrow> changes = []
      | Inr alias \<Rightarrow> alias = build_alias cfg i c \<and> ke_signer env key c = Inr a \<and>
          (\<exists>m. ke_describe_key env key = Described (Some m) \<and> kd_key_spec m = Some ''ECC_SECG_P256K1'' \<and>
             kd_key_usage m = Some ''SIGN_VERIFY'' \<and>
             (if ke_describe env alias = DescribeNotFound
              then changes = [KmsCreateAlias alias (kd_key_id m)]
              else changes = [] \<and> (\<exists>n. ke_describe env alias = Described (Some n) \<and> kd_key_id n = kd_key_id m))))"
proof -
  have key: "ke_describe_key env key = Described (Some m) \<and> kd_key_spec m = Some ''ECC_SECG_P256K1'' \<and>
      kd_key_usage m = Some ''SIGN_VERIFY''" if "check_key env key = Inr m" for m
    using that
    by (cases "ke_describe_key env key")
      (auto simp: check_key_def and_then_Inr ok_or_def split: option.splits if_splits)
  have named: "(k = None \<longrightarrow> d = DescribeNotFound) \<and> (\<forall>x. k = Some x \<longrightarrow> (\<exists>n. d = Described (Some n) \<and> kd_key_id n = x))"
    if "existing_alias_key_id al d = Inr k" for al d k
    using that by (cases d) (auto simp: existing_alias_key_id_def split: option.splits)
  show ?thesis
    using key named [of "build_alias cfg i c" "ke_describe env (build_alias cfg i c)"]
    by (auto simp: import_existing_key_def initialize_aws_kms_signer_def assign_alias_to_existing_key_def Let_def
        and_then_def map_err_def split: sum.splits option.splits prod.splits if_splits)
qed

text \<open>
  A key whose alias could not be made is used all the same. After a restart nothing leads to it: the wallet
  gets another key, and its address is no longer the one of the stored relayer.
\<close>

lemma unnamed_key_is_used:
  assumes "ke_identity env = Inr ()" "ke_describe env (build_alias cfg i c) = DescribeNotFound"
    and "ke_caller env = Inr (Some account, Some arn)" "ke_create_key env = Inr (Some k)"
    and "ke_create_alias env = Inl e" "ke_signer env k c = Inr a"
  shows "\<exists>d m. kms_address cfg env i (MainChain c) Map.empty = (m, [KmsCreateKey d], Inr a)"
  using assms
  by (simp add: kms_address_def get_or_initialize_signer_def signer_key_def get_or_create_key_id_def
      validate_aws_config_def find_key_by_alias_def existing_alias_key_id_def create_key_for_wallet_index_def
      create_key_def initialize_aws_kms_signer_def Let_def)

text \<open>A cloned relayer never makes a key: it is found under the name of its source, or the call fails.\<close>

lemma clone_makes_no_key: "kms_address cfg env i (ClonedChain from to) m = (m', rs, r) \<Longrightarrow> rs = []"
  by (auto simp: kms_address_def get_or_initialize_signer_def signer_key_def Let_def
      split: option.splits sum.splits prod.splits)

lemma imported_alias_is_found:
  assumes "ke_identity env = Inr ()" "ke_describe env (build_alias cfg i c) = Described (Some m)"
    "ke_signer env (kd_key_id m) c = Inr a"
  shows "snd (snd (kms_address cfg env i (MainChain c) Map.empty)) = Inr a"
  using assms
  by (simp add: kms_address_def get_or_initialize_signer_def signer_key_def get_or_create_key_id_def
      validate_aws_config_def find_key_by_alias_def existing_alias_key_id_def initialize_aws_kms_signer_def Let_def)

section \<open>Turnkey\<close>

text \<open>The index of an account is the last part of its path; the requested path gives it back.\<close>

lemma path_index: "extract_wallet_index_from_path (p @ CHR ''/'' # show_digits (unat i)) = Some i"
proof -
  have "c \<noteq> CHR ''/''" if "c \<in> set (rev (show_digits (unat i)))" for c
    using that show_digits_no(2) [of "unat i"] by (metis set_rev)
  from takeWhile_append2 [of "rev (show_digits (unat i))" "\<lambda>c. c \<noteq> CHR ''/''", OF this]
  have "takeWhile (\<lambda>c. c \<noteq> CHR ''/'') (rev (show_digits (unat i)) @ CHR ''/'' # rev p) = rev (show_digits (unat i))"
    by simp
  then show ?thesis by (simp add: extract_wallet_index_from_path_def parse_u32_show)
qed

text \<open>The path that the server remembers for a new account is another one: its last part is always 0.\<close>

lemma remembered_path_index: "extract_wallet_index_from_path (ta_path (new_account cfg i a)) = Some 0"
proof -
  have "show_digits 0 = ''0''" by code_simp
  then have "ta_path (new_account cfg i a) = (''m/44'' @ [CHR 0x27] @ ''/60'' @ [CHR 0x27] @ ''/'' @ show_digits (unat i) @
      [CHR 0x27] @ ''/0'') @ CHR ''/'' # show_digits (unat (0 :: u32))"
    by (simp add: new_account_def)
  then show ?thesis by (simp only: path_index)
qed

text \<open>Of two listed accounts whose paths end alike the later one counts, for every index.\<close>

lemma later_account_counts:
  assumes "extract_wallet_index_from_path (ta_path a) = Some i" "extract_wallet_index_from_path (ta_path b) = Some i"
  shows "insert_accounts [a, b] m i = Some b"
  using assms by simp

text \<open>
  Typed data: the task waits for the mutex that it holds. Every other operation waits as long as the
  mutex is held, that is until the request is given up.
\<close>

lemma typed_data_waits_for_itself:
  assumes "as i = Some a"
  shows "turnkey_sign_typed_data ops cfg t (Inr d) reply held i as = Waits"
  using assms by (simp add: turnkey_sign_typed_data_def turnkey_account_for_def locking_def)

lemma held_mutex_stops_all:
  "turnkey_create_wallet ops cfg env True i as = Waits" "turnkey_sign_text ops dg cfg t reply True i s as = Waits"
  "turnkey_sign_transaction ops cfg t reply' True i tx as = Waits"
  by (simp_all add: turnkey_create_wallet_def turnkey_sign_text_def turnkey_sign_transaction_def locking_def)

section \<open>Fireblocks\<close>

lemma asset_chains_distinct: "distinct (map fst chain_asset_mapping)"
  by (simp add: chain_asset_mapping_def)

lemma wait_completed:
  assumes "wait_for_signature ops cfg polls tx k n = Inr sg"
  shows "\<exists>j j'. k \<le> j \<and> j < k + n \<and>
    make_api_request ops cfg ''GET'' (''/v1/transactions/'' @ tx) None (polls j) = Inr j' \<and>
    get_str ''status'' j' = Some ''COMPLETED'' \<and> extract_signature_from_response ops j' = Inr sg"
  using assms
proof (induction n arbitrary: k)
  case (Suc n)
  let ?r = "make_api_request ops cfg ''GET'' (''/v1/transactions/'' @ tx) None (polls k)"
  from Suc.prems obtain v st where v: "?r = Inr v" "get_str ''status'' v = Some st"
    by (auto simp: and_then_Inr ok_or_def split: option.splits)
  show ?case
  proof (cases "st = ''COMPLETED''")
    case True
    with Suc.prems v show ?thesis by (intro exI [of _ k] exI [of _ v]) simp
  next
    case False
    with Suc.prems v have "wait_for_signature ops cfg polls tx (Suc k) n = Inr sg" by (simp split: if_splits)
    from Suc.IH [OF this] show ?thesis by (metis Suc_le_lessD add_Suc add_Suc_right less_imp_le)
  qed
qed simp

text \<open>
  A signature comes from one of at most 60 answers, the first that says COMPLETED; with no such answer the
  signature fails, while the service may still sign.
\<close>

lemma signature_from_completed_answer:
  assumes "wait_for_signature_completion ops cfg polls tx = Inr sg"
  shows "\<exists>j < 60. \<exists>v. make_api_request ops cfg ''GET'' (''/v1/transactions/'' @ tx) None (polls j) = Inr v \<and>
    get_str ''status'' v = Some ''COMPLETED'' \<and> extract_signature_from_response ops v = Inr sg"
  using wait_completed [OF assms [unfolded wait_for_signature_completion_def]]
  by (auto simp: MAX_SIGNATURE_POLLS_def)

text \<open>
  Only the first page of the vaults is searched: a vault on a later page is made again, and the new one has
  another account.
\<close>

lemma vault_on_later_page_is_remade:
  assumes "make_api_request ops cfg ''GET'' ''/v1/vault/accounts_paged'' None (fe_accounts env) = Inr page"
    and "Option.bind (json_get ''accounts'' page) as_array = Some vaults" "find_vault name vaults = None"
    and "vault_id_of ops cfg env name = Inr k"
  shows "\<exists>body v. make_api_request ops cfg ''POST'' ''/v1/vault/accounts'' (Some body) (fe_create_vault env) = Inr v \<and>
    get_str ''id'' v = Some k"
  using assms by (auto simp: vault_id_of_def and_then_Inr ok_or_def split: option.splits)

section \<open>Privy\<close>

lemma privy_listing_ends:
  assumes "\<And>k c p. n \<le> k \<Longrightarrow> pages k c = Inr p \<Longrightarrow> pp_next_cursor p = None"
  shows "\<exists>r. privy_pages pages k c all = Some r"
proof (induction "n - k" arbitrary: k c all)
  case 0
  with assms [of k c] show ?case by (subst privy_pages.simps) (auto split: sum.splits option.splits)
next
  case (Suc d)
  from Suc(2) have "d = n - Suc k" by simp
  note Suc(1) [OF this]
  then show ?case by (subst privy_pages.simps) (auto split: sum.splits option.splits)
qed

text \<open>A service whose pages always name a next one keeps the request going for ever.\<close>

lemma privy_endless_listing:
  assumes "\<And>k c. \<exists>p ws c'. pages k c = Inr p \<and> pp_data p = Inr ws \<and> pp_next_cursor p = Some c'"
  shows "privy_pages pages k c all = None"
proof -
  have "pg \<noteq> pages" if run: "privy_pages pg k c all = Some r" for pg k c all r
  proof (rule privy_pages.raw_induct [where P = "\<lambda>pg k c all r. pg \<noteq> pages", OF _ run], goal_cases)
    case (1 rec pg k c all r)
    obtain p ws c' where "pages k c = Inr p" "pp_data p = Inr ws" "pp_next_cursor p = Some c'" using assms by blast
    then show ?case using 1(2) 1(1) [of pages "Suc k" "Some c'" "all @ ws" r] by auto
  qed
  then show ?thesis by (cases "privy_pages pages k c all") blast+
qed

text \<open>A wallet is known by its position in the listing alone: a wallet that is listed first takes index 0.\<close>

lemma insert_enumerated_other: "k + length ws \<le> 2 ^ 32 \<Longrightarrow> unat i < k \<Longrightarrow> insert_enumerated k ws m i = m i"
proof (induction ws arbitrary: k m)
  case (Cons w ws)
  then have "of_nat k \<noteq> i" by (auto simp: unat_of_nat)
  with Cons show ?case by simp
qed simp

lemma listing_position:
  assumes "k + length ws \<le> 2 ^ 32" "j < length ws"
  shows "insert_enumerated k ws m (of_nat (k + j)) = Some (ws ! j)"
  using assms
proof (induction ws arbitrary: k j m)
  case (Cons w ws)
  show ?case
  proof (cases j)
    case 0
    have "unat (of_nat k :: u32) = k" using Cons.prems by (simp add: unat_of_nat)
    with Cons.prems 0 show ?thesis by (simp add: insert_enumerated_other)
  next
    case (Suc l)
    with Cons.IH [of "Suc k" l] Cons.prems show ?thesis by simp
  qed
qed simp

lemma newest_first_moves_wallets:
  assumes "pages 0 None = Inr \<lparr> pp_data = Inr (new # old # rest), pp_next_cursor = None \<rparr>"
    "Suc (Suc (length rest)) \<le> 2 ^ 32"
  shows "\<exists>m'. load_wallets pages [0 \<mapsto> old] = Some (m', Inr ()) \<and> m' 0 = Some new \<and> m' 1 = Some old"
proof -
  have "privy_pages pages 0 None [] = Some (Inr (new # old # rest))"
    using assms(1) by (subst privy_pages.simps) simp
  moreover have "insert_enumerated 0 (new # old # rest) m 0 = Some new"
    "insert_enumerated 0 (new # old # rest) m 1 = Some old" for m
    using listing_position [of 0 "new # old # rest" 0 m] listing_position [of 0 "new # old # rest" 1 m] assms(2)
    by simp_all
  ultimately show ?thesis by (simp add: load_wallets_def)
qed

end
