(* ===== verification/Signing_Config.thy ===== *)
theory Signing_Config
  imports Wallet_Services
begin

text \<open>
  The settings of the signing methods and the validation of a whole configuration (yaml.rs, \<open>read\<close>). The
  file system and the test for a letter or digit are parameters.
\<close>

record aws_secret_config =
  aw_id :: string
  aw_key :: string

record gcp_secret_config =
  gw_id :: string
  gw_key :: string
  gw_version :: "string option"

record signing_provider_config =
  sx_raw :: "string option"
  sx_aws_secret_manager :: "aws_secret_config option"
  sx_gcp_secret_manager :: "gcp_secret_config option"
  sx_privy :: "(string \<times> string) option"
  sx_aws_kms :: "kms_config option"
  sx_turnkey :: "turnkey_config option"
  sx_pkcs11 :: "pkcs11_config option"
  sx_fireblocks :: "fireblocks_config option"
  sx_private_keys :: "string list option"

definition no_signing_provider :: signing_provider_config where
  "no_signing_provider =
     \<lparr> sx_raw = None, sx_aws_secret_manager = None, sx_gcp_secret_manager = None, sx_privy = None,
       sx_aws_kms = None, sx_turnkey = None, sx_pkcs11 = None, sx_fireblocks = None, sx_private_keys = None \<rparr>"

definition from_raw :: "string \<Rightarrow> signing_provider_config" where
  "from_raw m = no_signing_provider\<lparr> sx_raw := Some m \<rparr>"

definition from_aws_kms :: "kms_config \<Rightarrow> signing_provider_config" where
  "from_aws_kms c = no_signing_provider\<lparr> sx_aws_kms := Some c \<rparr>"

definition from_turnkey :: "turnkey_config \<Rightarrow> signing_provider_config" where
  "from_turnkey c = no_signing_provider\<lparr> sx_turnkey := Some c \<rparr>"

definition from_pkcs11 :: "pkcs11_config \<Rightarrow> signing_provider_config" where
  "from_pkcs11 c = no_signing_provider\<lparr> sx_pkcs11 := Some c \<rparr>"

definition from_fireblocks :: "fireblocks_config \<Rightarrow> signing_provider_config" where
  "from_fireblocks c = no_signing_provider\<lparr> sx_fireblocks := Some c \<rparr>"

definition configured_methods :: "signing_provider_config \<Rightarrow> signing_provider" where
  "configured_methods p =
     \<lparr> sp_raw = (sx_raw p \<noteq> None), sp_aws_secret_manager = (sx_aws_secret_manager p \<noteq> None),
       sp_gcp_secret_manager = (sx_gcp_secret_manager p \<noteq> None), sp_privy = (sx_privy p \<noteq> None),
       sp_aws_kms = (sx_aws_kms p \<noteq> None), sp_turnkey = (sx_turnkey p \<noteq> None), sp_pkcs11 = (sx_pkcs11 p \<noteq> None),
       sp_fireblocks = (sx_fireblocks p \<noteq> None), sp_private_keys = (sx_private_keys p \<noteq> None) \<rparr>"

record file_system =
  fs_exists :: "string \<Rightarrow> bool"
  fs_read :: "string \<Rightarrow> string + string"
  fs_alphanumeric :: "char \<Rightarrow> bool"

definition validate_kms :: "kms_config \<Rightarrow> string + unit" where
  "validate_kms c = (if km_region c = [] then Inl ''AWS KMS region cannot be empty'' else Inr ())"

definition validate_turnkey :: "turnkey_config \<Rightarrow> string + unit" where
  "validate_turnkey c =
     (if tk_api_public_key c = [] then Inl ''Turnkey API public key cannot be empty''
      else if tk_api_private_key c = [] then Inl ''Turnkey API private key cannot be empty''
      else if tk_organization_id c = [] then Inl ''Turnkey organization ID cannot be empty''
      else if tk_wallet_id c = [] then Inl ''Turnkey wallet ID cannot be empty''
      else Inr ())"

text \<open>The identity of an instance is part of the names of its wallets.\<close>

definition validate_identity :: "file_system \<Rightarrow> string \<Rightarrow> string \<Rightarrow> string + unit" where
  "validate_identity fs who identity =
     (if identity = [] then Inl (who @ '' identity cannot be empty'')
      else if \<not> list_all (\<lambda>c. fs_alphanumeric fs c \<or> c = CHR ''-'' \<or> c = CHR ''_'') identity
      then Inl (who @ '' identity must contain only alphanumeric characters, hyphens, and underscores'')
      else if 32 < length identity then Inl (who @ '' identity must be 32 characters or less'')
      else Inr ())"

definition validate_fireblocks :: "file_system \<Rightarrow> fireblocks_config \<Rightarrow> string + unit" where
  "validate_fireblocks fs c =
     (let path = fb_private_key_path c
      in if fb_api_key c = [] then Inl ''Fireblocks API key cannot be empty''
         else if path = [] then Inl ''Fireblocks private key path cannot be empty''
         else
           and_then (validate_identity fs ''Fireblocks'' (fb_identity c)) (\<lambda>_.
             if \<not> fs_exists fs path then Inl (''Fireblocks private key file not found: '' @ path)
             else
               (case fs_read fs path of
                  Inl e \<Rightarrow> Inl (''Cannot read Fireblocks private key file '' @ path @ '': '' @ e)
                | Inr content \<Rightarrow>
                    if \<not> str_contains content ''BEGIN'' \<or> \<not> str_contains content ''END''
                    then Inl ''Fireblocks private key file must contain a valid PEM key'' else Inr ())))"

definition validate_pkcs11 :: "file_system \<Rightarrow> pkcs11_config \<Rightarrow> string + unit" where
  "validate_pkcs11 fs c =
     (if pk_library_path c = [] then Inl ''PKCS#11 library path cannot be empty''
      else
        and_then (validate_identity fs ''PKCS#11'' (pk_identity c)) (\<lambda>_.
          if \<not> fs_exists fs (pk_library_path c) then Inl (''PKCS#11 library not found: '' @ pk_library_path c)
          else Inr ()))"

text \<open>The provider that all networks share: one method, and its settings.\<close>

definition validate_global_provider :: "file_system \<Rightarrow> signing_provider_config \<Rightarrow> string + unit" where
  "validate_global_provider fs p =
     and_then (validate_signing_provider (configured_methods p)) (\<lambda>_.
     and_then (opt_ok validate_kms (sx_aws_kms p)) (\<lambda>_.
     and_then (opt_ok validate_turnkey (sx_turnkey p)) (\<lambda>_.
     and_then (opt_ok (validate_fireblocks fs) (sx_fireblocks p)) (\<lambda>_.
       opt_ok (validate_pkcs11 fs) (sx_pkcs11 p)))))"

text \<open>
  A configuration: its networks, whose providers are known by their methods alone, as nothing else of them
  is validated; the shared provider and the cron jobs.
\<close>

record setup_config =
  su_networks :: "network_setup list"
  su_unix_socket :: "string option"
  su_signing_provider :: "signing_provider_config option"
  su_cron_jobs :: "cron_job list option"

definition read_setup_config ::
  "validation_params \<Rightarrow> cron_params \<Rightarrow> file_system \<Rightarrow> setup_config \<Rightarrow> read_yaml_error + setup_config" where
  "read_setup_config vp cp fs c =
     and_then (validate_networks vp (su_unix_socket c) (su_networks c)) (\<lambda>_.
     and_then (opt_ok (\<lambda>p. map_err SigningProviderYamlError (validate_global_provider fs p)) (su_signing_provider c))
       (\<lambda>_.
     and_then (opt_ok (validate_cron_jobs cp (su_networks c) []) (su_cron_jobs c)) (\<lambda>_. Inr c)))"

text \<open>
  The text of the file: every \<open>${name}\<close> is replaced by the variable of the environment, and a variable that
  is not there is a panic. What was put in is not looked at again.
\<close>

function substitute_env_variables :: "(string \<Rightarrow> string option) \<Rightarrow> string \<Rightarrow> string option" where
  "substitute_env_variables env s =
     (case s of
        [] \<Rightarrow> Some []
      | c # cs \<Rightarrow>
          (let name = takeWhile (\<lambda>x. x \<noteq> CHR ''}'') (tl cs);
               rest = dropWhile (\<lambda>x. x \<noteq> CHR ''}'') (tl cs)
           in if c = CHR ''$'' \<and> cs \<noteq> [] \<and> hd cs = CHR ''{'' \<and> name \<noteq> [] \<and> rest \<noteq> []
              then (case env name of
                      None \<Rightarrow> None
                    | Some v \<Rightarrow> map_option (\<lambda>t. v @ t) (substitute_env_variables env (tl rest)))
              else map_option (\<lambda>t. c # t) (substitute_env_variables env cs)))"
  by auto

termination
proof (relation "measure (length \<circ> snd)", goal_cases)
  case (2 env s c cs)
  have "length (dropWhile (\<lambda>x. x \<noteq> CHR ''}'') (tl cs)) \<le> length (tl cs)" by (rule length_dropWhile_le)
  with 2 show ?case by simp
qed auto

declare substitute_env_variables.simps [simp del]

datatype read_file_error =
    CanNotFindYaml | CanNotReadYaml | SetupConfigInvalidYaml string | ReadInvalid read_yaml_error

text \<open>The file, the substitution unless the raw text is wanted, the parser and the validation; no answer is a panic.\<close>

definition read_yaml ::
  "validation_params \<Rightarrow> cron_params \<Rightarrow> file_system \<Rightarrow> (string \<Rightarrow> string + setup_config) \<Rightarrow> string \<Rightarrow> bool \<Rightarrow>
   (read_file_error + setup_config) option" where
  "read_yaml vp cp fs parse path raw_yaml =
     (if \<not> fs_exists fs path then Some (Inl CanNotFindYaml)
      else case fs_read fs path of
             Inl e \<Rightarrow> Some (Inl CanNotReadYaml)
           | Inr contents \<Rightarrow>
               map_option (\<lambda>text. and_then (map_err SetupConfigInvalidYaml (parse text)) (\<lambda>c.
                    map_err ReadInvalid (read_setup_config vp cp fs c)))
                 (if raw_yaml then Some contents else substitute_env_variables (vp_env vp) contents))"

section \<open>The mnemonic\<close>

text \<open>
  The mnemonic is in the file, or a field of a JSON object that a secret manager keeps. The answer of the
  manager, the account of the GCP key file and the display of the fields of an object are inputs.
\<close>

record secret_env =
  sv_aws_answer :: "string + string option"
  sv_gcp_project :: "wallet_error + string option"
  sv_gcp_client :: "wallet_error + unit"
  sv_gcp_answer :: "string \<Rightarrow> string + u8 list option"
  sv_utf8 :: "u8 list \<Rightarrow> string + string"
  sv_parse :: "string \<Rightarrow> string + json"
  sv_keys :: "json \<Rightarrow> string"

definition get_aws_secret :: "secret_env \<Rightarrow> aws_secret_config \<Rightarrow> wallet_error + string" where
  "get_aws_secret env c =
     (let name = [CHR 0x27] @ aw_id c @ [CHR 0x27]
      in and_then (map_err (\<lambda>e. ApiError (''AWS Secrets Manager error: '' @ e @ '' (Secret: '' @ name @ '')''))
                     (sv_aws_answer env)) (\<lambda>answer.
         and_then (ok_or (ApiError (''Secret '' @ name @ '' does not contain a string value'')) answer) (\<lambda>text.
         and_then (map_err (\<lambda>e. ApiError (''Failed to parse secret '' @ name @ '' as JSON: '' @ e)) (sv_parse env text)) (\<lambda>j.
           ok_or (ConfigurationError (''Key '' @ [CHR 0x27] @ aw_key c @ [CHR 0x27] @ '' not found in secret '' @ name @
                    '' or is not a string. Available keys: '' @ sv_keys env j)) (get_str (aw_key c) j)))))"

definition gcp_secret_path :: "string \<Rightarrow> gcp_secret_config \<Rightarrow> string" where
  "gcp_secret_path project c =
     ''projects/'' @ project @ ''/secrets/'' @ gw_id c @ ''/versions/'' @
     (case gw_version c of Some v \<Rightarrow> v | None \<Rightarrow> ''latest'')"

definition get_gcp_secret :: "secret_env \<Rightarrow> gcp_secret_config \<Rightarrow> wallet_error + string" where
  "get_gcp_secret env c =
     and_then (sv_gcp_project env) (\<lambda>p.
     and_then (ok_or (ConfigurationError ''No project_id found in service account key'') p) (\<lambda>project.
     and_then (sv_gcp_client env) (\<lambda>_.
     and_then (map_err (\<lambda>e. ApiError (''Failed to access secret: '' @ e)) (sv_gcp_answer env (gcp_secret_path project c)))
       (\<lambda>answer.
     and_then (ok_or (ApiError ''No secret data found'') answer) (\<lambda>bytes.
     and_then (map_err StringEncodingError (sv_utf8 env bytes)) (\<lambda>text.
     and_then (map_err JsonError (sv_parse env text)) (\<lambda>j.
       ok_or (ConfigurationError (''Key '' @ [CHR 0x27] @ gw_key c @ [CHR 0x27] @
                '' not found in secret or is not a string'')) (get_str (gw_key c) j))))))))"

definition get_mnemonic_from_signing_key :: "secret_env \<Rightarrow> signing_provider_config \<Rightarrow> wallet_error + string" where
  "get_mnemonic_from_signing_key env p =
     (case sx_raw p of
        Some m \<Rightarrow> Inr m
      | None \<Rightarrow>
          (case sx_aws_secret_manager p of
             Some c \<Rightarrow> get_aws_secret env c
           | None \<Rightarrow>
               (case sx_gcp_secret_manager p of Some c \<Rightarrow> get_gcp_secret env c | None \<Rightarrow> Inl NoWalletSigningKey)))"

text \<open>A Fireblocks manager validates its settings itself.\<close>

definition fireblocks_new :: "file_system \<Rightarrow> fireblocks_config \<Rightarrow> wallet_error + fireblocks_wallets" where
  "fireblocks_new fs c = and_then (map_err ConfigurationError (validate_fireblocks fs c)) (\<lambda>_. Inr Map.empty)"

section \<open>Lemmas\<close>

lemma substitute_nothing: "CHR ''$'' \<notin> set s \<Longrightarrow> substitute_env_variables env s = Some s"
proof (induction s)
  case (Cons c cs)
  then show ?case by (subst substitute_env_variables.simps) (auto simp: Let_def)
qed (simp add: substitute_env_variables.simps)

lemma substitute_variable:
  assumes "name \<noteq> []" "CHR ''}'' \<notin> set name"
  shows "substitute_env_variables env (''${'' @ name @ ''}'' @ s) =
    (case env name of None \<Rightarrow> None | Some v \<Rightarrow> map_option (\<lambda>t. v @ t) (substitute_env_variables env s))"
proof -
  have "takeWhile (\<lambda>x. x \<noteq> CHR ''}'') (name @ CHR ''}'' # s) = name"
    "dropWhile (\<lambda>x. x \<noteq> CHR ''}'') (name @ CHR ''}'' # s) = CHR ''}'' # s"
    using assms(2) by (auto simp: takeWhile_append dropWhile_append)
  with assms(1) show ?thesis by (subst substitute_env_variables.simps) (simp add: Let_def split: option.splits)
qed

text \<open>The constructors give providers with exactly one method, those of the settings they were given.\<close>

lemma constructed_providers_single:
  "validate_signing_provider (configured_methods (from_raw m)) = Inr ()"
  "validate_signing_provider (configured_methods (from_aws_kms k)) = Inr ()"
  "validate_signing_provider (configured_methods (from_turnkey t)) = Inr ()"
  "validate_signing_provider (configured_methods (from_pkcs11 h)) = Inr ()"
  "validate_signing_provider (configured_methods (from_fireblocks f)) = Inr ()"
  by (simp_all add: from_raw_def from_aws_kms_def from_turnkey_def from_pkcs11_def from_fireblocks_def
      no_signing_provider_def configured_methods_def validate_signing_provider_def signing_methods_def)

lemma validate_identity_ok:
  "validate_identity fs who n = Inr () \<longleftrightarrow>
     n \<noteq> [] \<and> length n \<le> 32 \<and> (\<forall>c \<in> set n. fs_alphanumeric fs c \<or> c = CHR ''-'' \<or> c = CHR ''_'')"
  by (auto simp: validate_identity_def list_all_iff)

text \<open>
  What a configuration that was read guarantees: networks with URLs and one signing method each, a shared
  provider with one method and usable settings.
\<close>

lemma read_setup_config_ok:
  assumes "read_setup_config vp cp fs c = Inr c'"
  shows "c' = c" "su_networks c \<noteq> []" "n \<in> set (su_networks c) \<Longrightarrow> ns_provider_urls n \<noteq> []"
    "n \<in> set (su_networks c) \<Longrightarrow> ns_signing_provider n = Some p \<Longrightarrow> validate_signing_provider p = Inr ()"
    "su_signing_provider c = Some q \<Longrightarrow> validate_global_provider fs q = Inr ()"
  using assms
  by (auto simp: read_setup_config_def and_then_Inr validate_networks_def all_ok_iff opt_ok_iff validate_network_def
      split: if_splits)

text \<open>
  The settings of a network's own provider are not looked at: a network whose token has no identity is
  accepted, the same settings for all networks are refused.
\<close>

lemma network_settings_unvalidated:
  assumes "validate_signing_provider (configured_methods (from_pkcs11 h)) = Inr ()" "pk_identity h = []"
    "pk_library_path h \<noteq> []"
  shows "opt_ok (\<lambda>k. map_err SigningProviderYamlError (validate_signing_provider k))
      (Some (configured_methods (from_pkcs11 h))) = Inr ()"
    "validate_global_provider fs (from_pkcs11 h) = Inl ''PKCS#11 identity cannot be empty''"
proof -
  show "opt_ok (\<lambda>k. map_err SigningProviderYamlError (validate_signing_provider k))
      (Some (configured_methods (from_pkcs11 h))) = Inr ()" using assms(1) by (simp add: opt_ok_def)
  have "sx_pkcs11 (from_pkcs11 h) = Some h" "sx_aws_kms (from_pkcs11 h) = None" "sx_turnkey (from_pkcs11 h) = None"
    "sx_fireblocks (from_pkcs11 h) = None" by (simp_all add: from_pkcs11_def no_signing_provider_def)
  then show "validate_global_provider fs (from_pkcs11 h) = Inl ''PKCS#11 identity cannot be empty''"
    using assms by (simp add: validate_global_provider_def opt_ok_def validate_pkcs11_def validate_identity_def)
qed

end
