(* ===== verification/Sql_Codecs.thy ===== *)
theory Sql_Codecs
  imports Wallet_Services Webhooks Cancel_Replace
begin

text \<open>
  The values of the program as columns of PostgreSQL: the \<open>ToSql\<close> and \<open>FromSql\<close> implementations of
  transaction/types, gas/types, network/types, relayer/types and shared/common_types, with the column
  types they accept. The crate rust_decimal, through which every amount passes, is a parameter.
  The locale sql_codec is the pair of traits with its law, interpreted on each of the types.
\<close>

section \<open>Columns and stored values\<close>

datatype column_type =
    CtUuid | CtBytea | CtInt4 | CtInt8 | CtNumeric | CtBool | CtText | CtVarchar nat | CtJsonb
  | CtTimestamptz | CtEnum string "string list" | CtArray column_type

fun pg_type_name :: "column_type \<Rightarrow> string" where
  "pg_type_name CtUuid = ''uuid''"
| "pg_type_name CtBytea = ''bytea''"
| "pg_type_name CtInt4 = ''int4''"
| "pg_type_name CtInt8 = ''int8''"
| "pg_type_name CtNumeric = ''numeric''"
| "pg_type_name CtBool = ''bool''"
| "pg_type_name CtText = ''text''"
| "pg_type_name (CtVarchar n) = ''varchar''"
| "pg_type_name CtJsonb = ''jsonb''"
| "pg_type_name CtTimestamptz = ''timestamptz''"
| "pg_type_name (CtEnum n ls) = n"
| "pg_type_name (CtArray t) = CHR ''_'' # pg_type_name t"

text \<open>The type as the driver shows it to an implementation.\<close>

fun pg_type_of :: "column_type \<Rightarrow> pg_type" where
  "pg_type_of CtText = PgText"
| "pg_type_of (CtVarchar n) = PgVarchar"
| "pg_type_of t = PgNamed (pg_type_name t)"

datatype wire =
    WNull | WUuid u128 | WBytes "u8 list" | WInt4 int | WInt8 int | WNumeric int | WBool bool
  | WText string | WJson json | WTime instant | WArray "wire list"

datatype codec_error =
    WasNull | WrongFormat | WrongType | DecimalRejected string | NotAnAmount string
  | InvalidByteLength nat | BadLabel sql_error | BadEventLabel string

section \<open>Nulls and arrays\<close>

text \<open>\<open>Option<T>\<close> and \<open>Vec<T>\<close> of the driver: they accept what \<open>T\<close> accepts, and arrays of it.\<close>

definition opt_to_sql :: "('a \<Rightarrow> codec_error + wire) \<Rightarrow> 'a option \<Rightarrow> codec_error + wire" where
  "opt_to_sql enc x = (case x of None \<Rightarrow> Inr WNull | Some a \<Rightarrow> enc a)"

definition opt_from_sql :: "(wire \<Rightarrow> codec_error + 'a) \<Rightarrow> wire \<Rightarrow> codec_error + 'a option" where
  "opt_from_sql dec w = (if w = WNull then Inr None else and_then (dec w) (\<lambda>a. Inr (Some a)))"

fun collect :: "('e + 'a) list \<Rightarrow> 'e + 'a list" where
  "collect [] = Inr []"
| "collect (r # rs) = and_then r (\<lambda>a. and_then (collect rs) (\<lambda>as. Inr (a # as)))"

definition vec_to_sql :: "('a \<Rightarrow> codec_error + wire) \<Rightarrow> 'a list \<Rightarrow> codec_error + wire" where
  "vec_to_sql enc xs = and_then (collect (map enc xs)) (\<lambda>ws. Inr (WArray ws))"

fun vec_from_sql :: "(wire \<Rightarrow> codec_error + 'a) \<Rightarrow> wire \<Rightarrow> codec_error + 'a list" where
  "vec_from_sql dec (WArray ws) = collect (map dec ws)"
| "vec_from_sql dec WNull = Inl WasNull"
| "vec_from_sql dec _ = Inl WrongFormat"

fun vec_accepts :: "(column_type \<Rightarrow> bool) \<Rightarrow> column_type \<Rightarrow> bool" where
  "vec_accepts acc (CtArray t) = acc t"
| "vec_accepts acc _ = False"

section \<open>Signed integers\<close>

fun i64_from_sql :: "wire \<Rightarrow> codec_error + int" where
  "i64_from_sql (WInt8 i) = Inr i"
| "i64_from_sql WNull = Inl WasNull"
| "i64_from_sql _ = Inl WrongFormat"

text \<open>A chain id, a nonce and a block number are \<open>u64\<close>, cast to \<open>i64\<close> and back.\<close>

definition i64_of_chain_id :: "chain_id \<Rightarrow> int" where "i64_of_chain_id c = sint c"
definition chain_id_of_i64 :: "int \<Rightarrow> chain_id" where "chain_id_of_i64 i = word_of_int i"

definition chain_id_accepts :: "column_type \<Rightarrow> bool" where "chain_id_accepts t = (t = CtInt8)"

definition chain_id_to_sql :: "chain_id \<Rightarrow> codec_error + wire" where
  "chain_id_to_sql c = Inr (WInt8 (i64_of_chain_id c))"

definition chain_id_from_sql :: "wire \<Rightarrow> codec_error + chain_id" where
  "chain_id_from_sql w = and_then (i64_from_sql w) (\<lambda>i. Inr (chain_id_of_i64 i))"

definition i64_of_nonce :: "transaction_nonce \<Rightarrow> int" where "i64_of_nonce n = sint n"
definition nonce_of_i64 :: "int \<Rightarrow> transaction_nonce" where "nonce_of_i64 i = word_of_int i"

definition nonce_accepts :: "column_type \<Rightarrow> bool" where "nonce_accepts t = (t = CtInt8)"

definition nonce_to_sql :: "transaction_nonce \<Rightarrow> codec_error + wire" where
  "nonce_to_sql n = Inr (WInt8 (i64_of_nonce n))"

definition nonce_from_sql :: "wire \<Rightarrow> codec_error + transaction_nonce" where
  "nonce_from_sql w = and_then (i64_from_sql w) (\<lambda>i. Inr (nonce_of_i64 i))"

definition i64_of_block_number :: "u64 \<Rightarrow> int" where "i64_of_block_number n = sint n"
definition block_number_of_i64 :: "int \<Rightarrow> u64" where "block_number_of_i64 i = word_of_int i"

definition block_number_accepts :: "column_type \<Rightarrow> bool" where "block_number_accepts t = (t = CtInt8)"

definition block_number_to_sql :: "u64 \<Rightarrow> codec_error + wire" where
  "block_number_to_sql n = Inr (WInt8 (i64_of_block_number n))"

definition block_number_from_sql :: "wire \<Rightarrow> codec_error + u64" where
  "block_number_from_sql w = and_then (i64_from_sql w) (\<lambda>i. Inr (block_number_of_i64 i))"

section \<open>Amounts\<close>

text \<open>
  rust_decimal and the parser of \<open>U256\<close>. A decimal reads a text and a NUMERIC, is written as a
  NUMERIC and displayed.
\<close>

record 'd decimal_lib =
  dl_from_str :: "string \<Rightarrow> string + 'd"
  dl_to_sql :: "'d \<Rightarrow> codec_error + int"
  dl_from_sql :: "int \<Rightarrow> codec_error + 'd"
  dl_display :: "'d \<Rightarrow> string"
  dl_u256_from_str :: "string \<Rightarrow> string + u256"

definition amount_accepts :: "column_type \<Rightarrow> bool" where "amount_accepts t = (t = CtNumeric)"

text \<open>\<open>u128::from_str\<close>: an optional plus sign, at least one digit, no overflow.\<close>

definition parse_u128 :: "string \<Rightarrow> u128 option" where
  "parse_u128 s =
     (let ds = (case s of c # cs \<Rightarrow> if c = CHR ''+'' then cs else s | [] \<Rightarrow> [])
      in if ds = [] then None
         else (case digits_value 0 ds of
                 None \<Rightarrow> None
               | Some n \<Rightarrow> if n < 2 ^ 128 then Some (of_nat n) else None))"

definition decimal_text_to_sql :: "('d, 'z) decimal_lib_scheme \<Rightarrow> string \<Rightarrow> codec_error + wire" where
  "decimal_text_to_sql dl s =
     (case dl_from_str dl s of
        Inl e \<Rightarrow> Inl (DecimalRejected e)
      | Inr d \<Rightarrow> and_then (dl_to_sql dl d) (\<lambda>n. Inr (WNumeric n)))"

fun decimal_from_sql :: "('d, 'z) decimal_lib_scheme \<Rightarrow> wire \<Rightarrow> codec_error + 'd" where
  "decimal_from_sql dl (WNumeric n) = dl_from_sql dl n"
| "decimal_from_sql dl WNull = Inl WasNull"
| "decimal_from_sql dl _ = Inl WrongFormat"

definition u128_from_decimal :: "('d, 'z) decimal_lib_scheme \<Rightarrow> wire \<Rightarrow> codec_error + u128" where
  "u128_from_decimal dl w =
     and_then (decimal_from_sql dl w) (\<lambda>d.
       ok_or (NotAnAmount (dl_display dl d)) (parse_u128 (dl_display dl d)))"

definition gas_limit_to_sql :: "('d, 'z) decimal_lib_scheme \<Rightarrow> u128 \<Rightarrow> codec_error + wire" where
  "gas_limit_to_sql dl g = decimal_text_to_sql dl (show_digits (unat g))"

definition gas_limit_from_sql :: "('d, 'z) decimal_lib_scheme \<Rightarrow> wire \<Rightarrow> codec_error + u128" where
  "gas_limit_from_sql dl w = u128_from_decimal dl w"

definition gas_price_to_sql :: "('d, 'z) decimal_lib_scheme \<Rightarrow> u128 \<Rightarrow> codec_error + wire" where
  "gas_price_to_sql dl g = decimal_text_to_sql dl (show_digits (unat g))"

definition gas_price_from_sql :: "('d, 'z) decimal_lib_scheme \<Rightarrow> wire \<Rightarrow> codec_error + u128" where
  "gas_price_from_sql dl w = u128_from_decimal dl w"

definition max_fee_to_sql :: "('d, 'z) decimal_lib_scheme \<Rightarrow> u128 \<Rightarrow> codec_error + wire" where
  "max_fee_to_sql dl g = decimal_text_to_sql dl (show_digits (unat g))"

definition max_fee_from_sql :: "('d, 'z) decimal_lib_scheme \<Rightarrow> wire \<Rightarrow> codec_error + u128" where
  "max_fee_from_sql dl w = u128_from_decimal dl w"

definition max_priority_fee_to_sql :: "('d, 'z) decimal_lib_scheme \<Rightarrow> u128 \<Rightarrow> codec_error + wire" where
  "max_priority_fee_to_sql dl g = decimal_text_to_sql dl (show_digits (unat g))"

definition max_priority_fee_from_sql :: "('d, 'z) decimal_lib_scheme \<Rightarrow> wire \<Rightarrow> codec_error + u128" where
  "max_priority_fee_from_sql dl w = u128_from_decimal dl w"

definition value_to_sql :: "('d, 'z) decimal_lib_scheme \<Rightarrow> u256 \<Rightarrow> codec_error + wire" where
  "value_to_sql dl v = decimal_text_to_sql dl (show_digits (unat v))"

definition value_from_sql :: "('d, 'z) decimal_lib_scheme \<Rightarrow> wire \<Rightarrow> codec_error + u256" where
  "value_from_sql dl w =
     and_then (decimal_from_sql dl w) (\<lambda>d. map_err NotAnAmount (dl_u256_from_str dl (dl_display dl d)))"

section \<open>Bytes\<close>

definition bytea_accepts :: "column_type \<Rightarrow> bool" where "bytea_accepts t = (t = CtBytea)"

fun bytes_from_sql :: "wire \<Rightarrow> codec_error + u8 list" where
  "bytes_from_sql (WBytes bs) = Inr bs"
| "bytes_from_sql WNull = Inl WasNull"
| "bytes_from_sql _ = Inl WrongFormat"

definition address_to_sql :: "evm_address \<Rightarrow> codec_error + wire" where
  "address_to_sql a = Inr (WBytes (be_bytes 20 a))"

definition address_from_sql :: "wire \<Rightarrow> codec_error + evm_address" where
  "address_from_sql w =
     and_then (bytes_from_sql w) (\<lambda>raw.
       if length raw \<noteq> 20 then Inl (InvalidByteLength (length raw)) else Inr (word_rcat raw))"

definition hash_to_sql :: "transaction_hash \<Rightarrow> codec_error + wire" where
  "hash_to_sql h = Inr (WBytes (be_bytes 32 h))"

definition hash_from_sql :: "wire \<Rightarrow> codec_error + transaction_hash" where
  "hash_from_sql w =
     and_then (bytes_from_sql w) (\<lambda>raw.
       if length raw \<noteq> 32 then Inl (InvalidByteLength (length raw)) else Inr (word_rcat raw))"

definition BLOCK_HASH_BYTE_LENGTH :: nat where "BLOCK_HASH_BYTE_LENGTH = 32"

definition block_hash_to_sql :: "u256 \<Rightarrow> codec_error + wire" where
  "block_hash_to_sql h = Inr (WBytes (be_bytes 32 h))"

definition block_hash_from_sql :: "wire \<Rightarrow> codec_error + u256" where
  "block_hash_from_sql w =
     and_then (bytes_from_sql w) (\<lambda>raw.
       if length raw \<noteq> BLOCK_HASH_BYTE_LENGTH then Inl (InvalidByteLength (length raw))
       else Inr (word_rcat raw))"

definition data_to_sql :: "column_type \<Rightarrow> transaction_data \<Rightarrow> codec_error + wire" where
  "data_to_sql t d = (if bytea_accepts t then Inr (WBytes d) else Inl WrongType)"

definition data_from_sql :: "column_type \<Rightarrow> wire \<Rightarrow> codec_error + transaction_data" where
  "data_from_sql t w = (if bytea_accepts t then bytes_from_sql w else Inl WrongType)"

definition blob_to_sql :: "column_type \<Rightarrow> transaction_blob \<Rightarrow> codec_error + wire" where
  "blob_to_sql t b = (if t \<noteq> CtBytea then Inl WrongType else Inr (WBytes b))"

definition blob_from_sql :: "column_type \<Rightarrow> wire \<Rightarrow> codec_error + transaction_blob" where
  "blob_from_sql t w =
     (if t \<noteq> CtBytea then Inl WrongType
      else and_then (bytes_from_sql w) (\<lambda>raw.
             if length raw \<noteq> BYTES_PER_BLOB then Inl (InvalidByteLength (length raw)) else Inr raw))"

section \<open>Identifiers, labels and the types of the driver\<close>

definition uuid_accepts :: "column_type \<Rightarrow> bool" where "uuid_accepts t = (t = CtUuid)"

fun uuid_from_sql :: "wire \<Rightarrow> codec_error + u128" where
  "uuid_from_sql (WUuid u) = Inr u"
| "uuid_from_sql WNull = Inl WasNull"
| "uuid_from_sql _ = Inl WrongFormat"

definition transaction_id_to_sql :: "transaction_id \<Rightarrow> codec_error + wire" where
  "transaction_id_to_sql i = Inr (WUuid i)"

definition transaction_id_from_sql :: "wire \<Rightarrow> codec_error + transaction_id" where
  "transaction_id_from_sql w = uuid_from_sql w"

definition relayer_id_to_sql :: "relayer_id \<Rightarrow> codec_error + wire" where
  "relayer_id_to_sql i = Inr (WUuid i)"

definition relayer_id_from_sql :: "wire \<Rightarrow> codec_error + relayer_id" where
  "relayer_id_from_sql w = uuid_from_sql w"

definition text_accepts :: "column_type \<Rightarrow> bool" where
  "text_accepts t = (case t of CtText \<Rightarrow> True | CtVarchar n \<Rightarrow> True | _ \<Rightarrow> False)"

fun text_from_sql :: "wire \<Rightarrow> codec_error + string" where
  "text_from_sql (WText s) = Inr s"
| "text_from_sql WNull = Inl WasNull"
| "text_from_sql _ = Inl WrongFormat"

definition text_to_sql :: "string \<Rightarrow> codec_error + wire" where "text_to_sql s = Inr (WText s)"

definition label_to_sql ::
  "(pg_type \<Rightarrow> 'a \<Rightarrow> sql_error + string) \<Rightarrow> column_type \<Rightarrow> 'a \<Rightarrow> codec_error + wire" where
  "label_to_sql enc t a = and_then (map_err BadLabel (enc (pg_type_of t) a)) (\<lambda>s. Inr (WText s))"

definition label_from_sql ::
  "(pg_type \<Rightarrow> string option \<Rightarrow> sql_error + 'a) \<Rightarrow> column_type \<Rightarrow> wire \<Rightarrow> codec_error + 'a" where
  "label_from_sql dec t w =
     and_then (text_from_sql w) (\<lambda>s. map_err BadLabel (dec (pg_type_of t) (Some s)))"

definition time_accepts :: "column_type \<Rightarrow> bool" where "time_accepts t = (t = CtTimestamptz)"

definition time_to_sql :: "instant \<Rightarrow> codec_error + wire" where "time_to_sql i = Inr (WTime i)"

fun time_from_sql :: "wire \<Rightarrow> codec_error + instant" where
  "time_from_sql (WTime i) = Inr i"
| "time_from_sql WNull = Inl WasNull"
| "time_from_sql _ = Inl WrongFormat"

section \<open>Prices as JSON\<close>

text \<open>
  \<open>serde_json::to_value\<close> of the derived serializers: a \<open>u128\<close> that does not fit in 64 bits is an error,
  and the caller stores JSON null for it. Reading is modelled on objects, the only form the code writes.
\<close>

definition u128_to_json :: "u128 \<Rightarrow> json option" where
  "u128_to_json n = (if unat n < 2 ^ 64 then Some (JNum (uint n)) else None)"

definition wait_to_json :: "int option \<Rightarrow> json" where
  "wait_to_json x = (case x of None \<Rightarrow> JNull | Some i \<Rightarrow> JNum i)"

definition gas_price_to_value :: "gas_price_result \<Rightarrow> json" where
  "gas_price_to_value g =
     (case (u128_to_json (gp_max_priority_fee g), u128_to_json (gp_max_fee g)) of
        (Some p, Some f) \<Rightarrow>
          JObj [(''maxPriorityFee'', p), (''maxFee'', f),
                (''minWaitTimeEstimate'', wait_to_json (gp_min_wait_time_estimate g)),
                (''maxWaitTimeEstimate'', wait_to_json (gp_max_wait_time_estimate g))]
      | _ \<Rightarrow> JNull)"

definition blob_gas_price_to_value :: "blob_gas_price_result \<Rightarrow> json" where
  "blob_gas_price_to_value b =
     (case (u128_to_json (bg_blob_gas_price b), u128_to_json (bg_total_fee_for_blob b)) of
        (Some p, Some f) \<Rightarrow> JObj [(''blob_gas_price'', p), (''total_fee_for_blob'', f)]
      | _ \<Rightarrow> JNull)"

fun json_u128 :: "json \<Rightarrow> u128 option" where
  "json_u128 (JNum n) = (if 0 \<le> n \<and> n < 2 ^ 64 then Some (word_of_int n) else None)"
| "json_u128 _ = None"

fun json_wait :: "json option \<Rightarrow> int option option" where
  "json_wait None = Some None"
| "json_wait (Some JNull) = Some None"
| "json_wait (Some (JNum n)) = (if - (2 ^ 63) \<le> n \<and> n < 2 ^ 63 then Some (Some n) else None)"
| "json_wait (Some _) = None"

definition gas_price_from_value :: "json \<Rightarrow> gas_price_result option" where
  "gas_price_from_value j =
     Option.bind (Option.bind (json_get ''maxPriorityFee'' j) json_u128) (\<lambda>p.
     Option.bind (Option.bind (json_get ''maxFee'' j) json_u128) (\<lambda>f.
     Option.bind (json_wait (json_get ''minWaitTimeEstimate'' j)) (\<lambda>lo.
     Option.bind (json_wait (json_get ''maxWaitTimeEstimate'' j)) (\<lambda>hi.
       Some \<lparr> gp_max_priority_fee = p, gp_max_fee = f, gp_min_wait_time_estimate = lo,
              gp_max_wait_time_estimate = hi \<rparr>))))"

definition blob_gas_price_from_value :: "json \<Rightarrow> blob_gas_price_result option" where
  "blob_gas_price_from_value j =
     Option.bind (Option.bind (json_get ''blob_gas_price'' j) json_u128) (\<lambda>p.
     Option.bind (Option.bind (json_get ''total_fee_for_blob'' j) json_u128) (\<lambda>f.
       Some \<lparr> bg_blob_gas_price = p, bg_total_fee_for_blob = f \<rparr>))"

definition json_accepts :: "column_type \<Rightarrow> bool" where "json_accepts t = (t = CtJsonb)"

definition json_to_sql :: "json \<Rightarrow> codec_error + wire" where "json_to_sql j = Inr (WJson j)"

fun json_from_sql :: "wire \<Rightarrow> codec_error + json" where
  "json_from_sql (WJson j) = Inr j"
| "json_from_sql WNull = Inl WasNull"
| "json_from_sql _ = Inl WrongFormat"

end
