(* ===== verification/Sql_Statements.thy ===== *)
theory Sql_Statements
  imports Sql_Codecs
begin

text \<open>
  The statements of transaction/db/write.rs as they are sent: the columns and placeholders of each text,
  the values bound to them in order, and the schema (schema/v1_0_0.rs with v1_0_5.rs) they are checked
  against. The server deduces the type of a placeholder from the columns it is assigned to or compared
  with, and the driver asks each value whether it accepts that type.
\<close>

section \<open>The schema\<close>

datatype column =
    C_id | C_relayer_id | C_to | C_from | C_nonce | C_data | C_value | C_chain_id | C_gas_price
  | C_sent_max_priority_fee_per_gas | C_sent_max_fee_per_gas | C_sent_with_gas | C_sent_with_blob_gas
  | C_gas_limit | C_block_hash | C_block_number | C_hash | C_speed | C_status | C_blobs | C_expires_at
  | C_expired_at | C_queued_at | C_mined_at | C_failed_at | C_failed_reason | C_sent_at | C_confirmed_at
  | C_external_id | C_cancelled_by_transaction_id | C_request_digest

definition all_columns :: "column list" where
  "all_columns =
     [C_id, C_relayer_id, C_to, C_from, C_nonce, C_data, C_value, C_chain_id, C_gas_price,
      C_sent_max_priority_fee_per_gas, C_sent_max_fee_per_gas, C_sent_with_gas, C_sent_with_blob_gas,
      C_gas_limit, C_block_hash, C_block_number, C_hash, C_speed, C_status, C_blobs, C_expires_at,
      C_expired_at, C_queued_at, C_mined_at, C_failed_at, C_failed_reason, C_sent_at, C_confirmed_at,
      C_external_id, C_cancelled_by_transaction_id, C_request_digest]"

definition speed_enum :: column_type where
  "speed_enum = CtEnum ''speed'' [''SUPER'', ''FAST'', ''MEDIUM'', ''SLOW'']"

definition status_enum :: column_type where
  "status_enum = CtEnum ''tx_status''
     [''PENDING'', ''INMEMPOOL'', ''MINED'', ''CONFIRMED'', ''FAILED'', ''EXPIRED'', ''CANCELLED'',
      ''DROPPED'', ''REPLACED'']"

fun column_type_of :: "column \<Rightarrow> column_type" where
  "column_type_of C_id = CtUuid"
| "column_type_of C_relayer_id = CtUuid"
| "column_type_of C_to = CtBytea"
| "column_type_of C_from = CtBytea"
| "column_type_of C_nonce = CtInt8"
| "column_type_of C_data = CtBytea"
| "column_type_of C_value = CtNumeric"
| "column_type_of C_chain_id = CtInt8"
| "column_type_of C_gas_price = CtNumeric"
| "column_type_of C_sent_max_priority_fee_per_gas = CtNumeric"
| "column_type_of C_sent_max_fee_per_gas = CtNumeric"
| "column_type_of C_sent_with_gas = CtJsonb"
| "column_type_of C_sent_with_blob_gas = CtJsonb"
| "column_type_of C_gas_limit = CtNumeric"
| "column_type_of C_block_hash = CtBytea"
| "column_type_of C_block_number = CtInt8"
| "column_type_of C_hash = CtBytea"
| "column_type_of C_speed = speed_enum"
| "column_type_of C_status = status_enum"
| "column_type_of C_blobs = CtArray CtBytea"
| "column_type_of C_expires_at = CtTimestamptz"
| "column_type_of C_expired_at = CtTimestamptz"
| "column_type_of C_queued_at = CtTimestamptz"
| "column_type_of C_mined_at = CtTimestamptz"
| "column_type_of C_failed_at = CtTimestamptz"
| "column_type_of C_failed_reason = CtText"
| "column_type_of C_sent_at = CtTimestamptz"
| "column_type_of C_confirmed_at = CtTimestamptz"
| "column_type_of C_external_id = CtVarchar 255"
| "column_type_of C_cancelled_by_transaction_id = CtUuid"
| "column_type_of C_request_digest = CtBytea"

datatype tx_table = LiveTable | AuditLog

text \<open>The value is nullable in the audit log only.\<close>

definition not_null :: "tx_table \<Rightarrow> column \<Rightarrow> bool" where
  "not_null tb c =
     (c \<in> {C_id, C_relayer_id, C_to, C_from, C_nonce, C_chain_id, C_speed, C_status, C_expires_at,
           C_queued_at} \<or> (c = C_value \<and> tb = LiveTable))"

type_synonym wire_row = "column \<Rightarrow> wire"

fun value_ok :: "column_type \<Rightarrow> wire \<Rightarrow> bool" where
  "value_ok (CtVarchar n) (WText s) = (length s \<le> n)"
| "value_ok (CtEnum e ls) (WText s) = (s \<in> set ls)"
| "value_ok t w = True"

definition row_ok :: "tx_table \<Rightarrow> wire_row \<Rightarrow> bool" where
  "row_ok tb w =
     list_all (\<lambda>c. value_ok (column_type_of c) (w c) \<and> (not_null tb c \<longrightarrow> w c \<noteq> WNull)) all_columns"

section \<open>Statements\<close>

text \<open>
  What a text assigns to a column: a placeholder, the column of the row it reads, the time of the
  transaction, NULL, or the \<open>CASE\<close> over a placeholder cast to text.
\<close>

datatype sql_expr =
    EParam nat | ECol column | ENow | ENull | ECaseNull nat sql_expr sql_expr

fun expr_uses :: "column_type \<Rightarrow> sql_expr \<Rightarrow> (nat \<times> column_type) list" where
  "expr_uses t (EParam n) = [(n, t)]"
| "expr_uses t (ECaseNull n a b) = (n, CtText) # expr_uses t a @ expr_uses t b"
| "expr_uses t _ = []"

type_synonym assignments = "(column \<times> sql_expr) list"

definition assign_uses :: "assignments \<Rightarrow> (nat \<times> column_type) list" where
  "assign_uses as = concat (map (\<lambda>(c, e). expr_uses (column_type_of c) e) as)"

datatype stmt_error =
    UndeterminedParameter nat | InconsistentParameter nat | ParameterCount nat nat
  | ToSqlFailed nat codec_error | RejectedByServer

text \<open>The type of every placeholder; each use must agree with the first.\<close>

definition deduce :: "(nat \<times> column_type) list \<Rightarrow> nat \<Rightarrow> stmt_error + column_type list" where
  "deduce us n =
     (case find (\<lambda>(i, t). map_of us i \<noteq> Some t) us of
        Some (i, t) \<Rightarrow> Inl (InconsistentParameter i)
      | None \<Rightarrow> collect (map (\<lambda>i. ok_or (UndeterminedParameter i) (map_of us i)) [1..<Suc n]))"

datatype sql_param =
  SqlParam (p_accepts: "column_type \<Rightarrow> bool") (p_to_sql: "column_type \<Rightarrow> codec_error + wire")

definition to_sql_checked :: "sql_param \<Rightarrow> column_type \<Rightarrow> codec_error + wire" where
  "to_sql_checked p t = (if p_accepts p t then p_to_sql p t else Inl WrongType)"

fun bind_from :: "nat \<Rightarrow> column_type list \<Rightarrow> sql_param list \<Rightarrow> stmt_error + wire list" where
  "bind_from i (t # ts) (p # ps) =
     and_then (map_err (ToSqlFailed i) (to_sql_checked p t)) (\<lambda>w.
     and_then (bind_from (Suc i) ts ps) (\<lambda>ws. Inr (w # ws)))"
| "bind_from i ts ps = Inr []"

definition bind_params :: "(nat \<times> column_type) list \<Rightarrow> nat \<Rightarrow> sql_param list \<Rightarrow> stmt_error + wire list" where
  "bind_params us n ps =
     and_then (deduce us n) (\<lambda>ts.
       if length ts \<noteq> length ps then Inl (ParameterCount (length ts) (length ps)) else bind_from 0 ts ps)"

fun eval_expr :: "wire list \<Rightarrow> instant \<Rightarrow> wire_row \<Rightarrow> sql_expr \<Rightarrow> wire" where
  "eval_expr ws now old (EParam n) = ws ! (n - 1)"
| "eval_expr ws now old (ECol c) = old c"
| "eval_expr ws now old ENow = WTime now"
| "eval_expr ws now old ENull = WNull"
| "eval_expr ws now old (ECaseNull n a b) =
     (if ws ! (n - 1) = WNull then eval_expr ws now old a else eval_expr ws now old b)"

definition set_columns :: "assignments \<Rightarrow> wire list \<Rightarrow> instant \<Rightarrow> wire_row \<Rightarrow> wire_row" where
  "set_columns as ws now old c = (case map_of as c of None \<Rightarrow> old c | Some e \<Rightarrow> eval_expr ws now old e)"

definition new_columns :: "assignments \<Rightarrow> wire list \<Rightarrow> instant \<Rightarrow> wire_row \<Rightarrow> wire_row" where
  "new_columns as ws now old c = (case map_of as c of None \<Rightarrow> WNull | Some e \<Rightarrow> eval_expr ws now old e)"

definition checked_rows :: "tx_table \<Rightarrow> wire_row list \<Rightarrow> stmt_error + wire_row list" where
  "checked_rows tb rs = (if list_all (row_ok tb) rs then Inr rs else Inl RejectedByServer)"

text \<open>\<open>UPDATE relayer.transaction SET ... WHERE id = $1\<close>.\<close>

definition run_update_sql ::
  "assignments \<Rightarrow> nat \<Rightarrow> sql_param list \<Rightarrow> instant \<Rightarrow> wire_row list \<Rightarrow> stmt_error + wire_row list" where
  "run_update_sql as n ps now rows =
     and_then (bind_params ((1, CtUuid) # assign_uses as) n ps) (\<lambda>ws.
       checked_rows LiveTable
         (map (\<lambda>w. if w C_id = ws ! 0 then set_columns as ws now w else w) rows))"

text \<open>\<open>INSERT INTO relayer.transaction_audit_log (...) SELECT ... FROM relayer.transaction WHERE id = $1\<close>.\<close>

definition run_audit_sql ::
  "assignments \<Rightarrow> nat \<Rightarrow> sql_param list \<Rightarrow> instant \<Rightarrow> wire_row list \<Rightarrow> stmt_error + wire_row list" where
  "run_audit_sql as n ps now rows =
     and_then (bind_params ((1, CtUuid) # assign_uses as) n ps) (\<lambda>ws.
       checked_rows AuditLog
         (map (new_columns as ws now) (filter (\<lambda>w. w C_id = ws ! 0) rows)))"

text \<open>\<open>INSERT INTO ... VALUES ...\<close>.\<close>

definition run_insert_sql ::
  "tx_table \<Rightarrow> assignments \<Rightarrow> nat \<Rightarrow> sql_param list \<Rightarrow> instant \<Rightarrow> stmt_error + wire_row list" where
  "run_insert_sql tb as n ps now =
     and_then (bind_params (assign_uses as) n ps) (\<lambda>ws.
       checked_rows tb [new_columns as ws now (\<lambda>c. WNull)])"

record wire_db =
  wd_live :: "wire_row list"
  wd_log :: "wire_row list"

definition update_then_audit ::
  "assignments \<Rightarrow> assignments \<Rightarrow> nat \<Rightarrow> sql_param list \<Rightarrow> nat \<Rightarrow> sql_param list \<Rightarrow> instant \<Rightarrow> wire_db \<Rightarrow>
   stmt_error + wire_db" where
  "update_then_audit upd aud n ps m qs now d =
     and_then (run_update_sql upd n ps now (wd_live d)) (\<lambda>rows.
     and_then (run_audit_sql aud m qs now rows) (\<lambda>new.
       Inr \<lparr> wd_live = rows, wd_log = wd_log d @ new \<rparr>))"

definition insert_both ::
  "assignments \<Rightarrow> nat \<Rightarrow> sql_param list \<Rightarrow> instant \<Rightarrow> wire_db \<Rightarrow> stmt_error + wire_db" where
  "insert_both as n ps now d =
     and_then (run_insert_sql LiveTable as n ps now) (\<lambda>new.
     and_then (run_insert_sql AuditLog as n ps now) (\<lambda>log.
       Inr \<lparr> wd_live = wd_live d @ new, wd_log = wd_log d @ log \<rparr>))"

section \<open>Parameters\<close>

abbreviation p_tx_id :: "transaction_id \<Rightarrow> sql_param" where
  "p_tx_id i \<equiv> SqlParam uuid_accepts (\<lambda>t. transaction_id_to_sql i)"

abbreviation p_relayer_id :: "relayer_id \<Rightarrow> sql_param" where
  "p_relayer_id i \<equiv> SqlParam uuid_accepts (\<lambda>t. relayer_id_to_sql i)"

abbreviation p_address :: "evm_address \<Rightarrow> sql_param" where
  "p_address a \<equiv> SqlParam bytea_accepts (\<lambda>t. address_to_sql a)"

abbreviation p_nonce :: "transaction_nonce \<Rightarrow> sql_param" where
  "p_nonce n \<equiv> SqlParam nonce_accepts (\<lambda>t. nonce_to_sql n)"

text \<open>\<open>nonce.into_inner() as i64\<close>, bound as an integer of the driver.\<close>

abbreviation p_nonce_i64 :: "transaction_nonce \<Rightarrow> sql_param" where
  "p_nonce_i64 n \<equiv> SqlParam (\<lambda>t. t = CtInt8) (\<lambda>t. Inr (WInt8 (sint n)))"

abbreviation p_chain_id :: "chain_id \<Rightarrow> sql_param" where
  "p_chain_id c \<equiv> SqlParam chain_id_accepts (\<lambda>t. chain_id_to_sql c)"

abbreviation p_data :: "transaction_data \<Rightarrow> sql_param" where
  "p_data d \<equiv> SqlParam bytea_accepts (\<lambda>t. data_to_sql t d)"

abbreviation p_value :: "('d, 'z) decimal_lib_scheme \<Rightarrow> u256 \<Rightarrow> sql_param" where
  "p_value dl v \<equiv> SqlParam amount_accepts (\<lambda>t. value_to_sql dl v)"

abbreviation p_blobs :: "transaction_blob list option \<Rightarrow> sql_param" where
  "p_blobs bs \<equiv> SqlParam (vec_accepts bytea_accepts) (\<lambda>t. opt_to_sql (vec_to_sql (blob_to_sql CtBytea)) bs)"

abbreviation p_gas_limit :: "('d, 'z) decimal_lib_scheme \<Rightarrow> u128 option \<Rightarrow> sql_param" where
  "p_gas_limit dl g \<equiv> SqlParam amount_accepts (\<lambda>t. opt_to_sql (gas_limit_to_sql dl) g)"

abbreviation p_gas_price :: "('d, 'z) decimal_lib_scheme \<Rightarrow> u128 option \<Rightarrow> sql_param" where
  "p_gas_price dl g \<equiv> SqlParam amount_accepts (\<lambda>t. opt_to_sql (gas_price_to_sql dl) g)"

abbreviation p_max_fee :: "('d, 'z) decimal_lib_scheme \<Rightarrow> u128 option \<Rightarrow> sql_param" where
  "p_max_fee dl g \<equiv> SqlParam amount_accepts (\<lambda>t. opt_to_sql (max_fee_to_sql dl) g)"

abbreviation p_max_priority_fee :: "('d, 'z) decimal_lib_scheme \<Rightarrow> u128 option \<Rightarrow> sql_param" where
  "p_max_priority_fee dl g \<equiv> SqlParam amount_accepts (\<lambda>t. opt_to_sql (max_priority_fee_to_sql dl) g)"

abbreviation p_speed :: "transaction_speed \<Rightarrow> sql_param" where
  "p_speed s \<equiv> SqlParam (\<lambda>t. speed_accepts (pg_type_of t)) (\<lambda>t. label_to_sql speed_to_sql t s)"

abbreviation p_status :: "transaction_status \<Rightarrow> sql_param" where
  "p_status s \<equiv> SqlParam (\<lambda>t. status_accepts (pg_type_of t)) (\<lambda>t. label_to_sql status_to_sql t s)"

abbreviation p_time :: "instant option \<Rightarrow> sql_param" where
  "p_time i \<equiv> SqlParam time_accepts (\<lambda>t. opt_to_sql time_to_sql i)"

abbreviation p_hash :: "transaction_hash option \<Rightarrow> sql_param" where
  "p_hash h \<equiv> SqlParam bytea_accepts (\<lambda>t. opt_to_sql hash_to_sql h)"

abbreviation p_block_hash :: "u256 option \<Rightarrow> sql_param" where
  "p_block_hash h \<equiv> SqlParam bytea_accepts (\<lambda>t. opt_to_sql block_hash_to_sql h)"

abbreviation p_block_number :: "u64 option \<Rightarrow> sql_param" where
  "p_block_number n \<equiv> SqlParam block_number_accepts (\<lambda>t. opt_to_sql block_number_to_sql n)"

abbreviation p_text :: "string option \<Rightarrow> sql_param" where
  "p_text s \<equiv> SqlParam text_accepts (\<lambda>t. opt_to_sql text_to_sql s)"

abbreviation p_opt_tx_id :: "transaction_id option \<Rightarrow> sql_param" where
  "p_opt_tx_id i \<equiv> SqlParam uuid_accepts (\<lambda>t. opt_to_sql transaction_id_to_sql i)"

abbreviation p_bytes :: "u8 list \<Rightarrow> sql_param" where
  "p_bytes b \<equiv> SqlParam bytea_accepts (\<lambda>t. Inr (WBytes b))"

abbreviation p_json :: "json option \<Rightarrow> sql_param" where
  "p_json j \<equiv> SqlParam json_accepts (\<lambda>t. opt_to_sql json_to_sql j)"

section \<open>The writes of a transaction\<close>

text \<open>\<open>option_if\<close> of shared/utils.rs and the gas parameters that three writes share.\<close>

definition option_if :: "bool \<Rightarrow> 'a \<Rightarrow> 'a option" where
  "option_if c v = (if c then Some v else None)"

definition gas_params ::
  "('d, 'z) decimal_lib_scheme \<Rightarrow> gas_price_result \<Rightarrow> blob_gas_price_result option \<Rightarrow> bool \<Rightarrow> sql_param list"
  where
  "gas_params dl g b legacy =
     [p_max_priority_fee dl (option_if (\<not> legacy) (gp_max_priority_fee g)),
      p_max_fee dl (option_if (\<not> legacy) (gp_max_fee g)),
      p_gas_price dl (option_if legacy (legacy_gas_price g)),
      p_json (Some (gas_price_to_value g)), p_json (map_option blob_gas_price_to_value b)]"

definition numbered :: "column list \<Rightarrow> assignments" where
  "numbered cs = zip cs (map EParam [1..<Suc (length cs)])"

text \<open>\<open>save_transaction\<close>: the same insert into both tables.\<close>

definition save_sql :: assignments where
  "save_sql = numbered
     [C_id, C_relayer_id, C_to, C_from, C_nonce, C_chain_id, C_data, C_value, C_blobs, C_gas_limit, C_speed,
      C_status, C_expires_at, C_queued_at, C_hash, C_external_id, C_cancelled_by_transaction_id,
      C_request_digest]"

definition save_params ::
  "('d, 'z) decimal_lib_scheme \<Rightarrow> (u8 list \<Rightarrow> u8 list) \<Rightarrow> relayer_id \<Rightarrow> transaction \<Rightarrow> sql_param list" where
  "save_params dl sha rid t =
     [p_tx_id (tx_id t), p_relayer_id rid, p_address (tx_to t), p_address (tx_from t),
      p_nonce (tx_nonce t), p_chain_id (tx_chain_id t), p_data (tx_data t), p_value dl (tx_value t),
      p_blobs (tx_blobs t), p_gas_limit dl (tx_gas_limit t), p_speed (tx_speed t), p_status (tx_status t),
      p_time (Some (tx_expires_at t)), p_time (Some (tx_queued_at t)), p_hash (tx_known_transaction_hash t),
      p_text (tx_external_id t), p_opt_tx_id (tx_cancelled_by_transaction_id t),
      p_bytes (transaction_digest sha t)]"

definition sql_save_transaction ::
  "('d, 'z) decimal_lib_scheme \<Rightarrow> (u8 list \<Rightarrow> u8 list) \<Rightarrow> relayer_id \<Rightarrow> transaction \<Rightarrow> instant \<Rightarrow> wire_db \<Rightarrow>
   stmt_error + wire_db" where
  "sql_save_transaction dl sha rid t now = insert_both save_sql 18 (save_params dl sha rid t) now"

text \<open>\<open>transaction_failed_on_send\<close>: \<open>failed_at\<close> is the time of the statement.\<close>

definition failed_on_send_sql :: assignments where
  "failed_on_send_sql =
     zip [C_id, C_relayer_id, C_to, C_from, C_nonce, C_chain_id, C_data, C_value, C_blobs, C_speed, C_status,
          C_expires_at, C_queued_at, C_failed_at, C_failed_reason, C_external_id, C_request_digest]
       (map EParam [1..<14] @ [ENow, EParam 14, EParam 15, EParam 16])"

definition failed_on_send_params ::
  "('d, 'z) decimal_lib_scheme \<Rightarrow> (u8 list \<Rightarrow> u8 list) \<Rightarrow> relayer_id \<Rightarrow> transaction \<Rightarrow> string \<Rightarrow> sql_param list"
  where
  "failed_on_send_params dl sha rid t reason =
     [p_tx_id (tx_id t), p_relayer_id rid, p_address (tx_to t), p_address (tx_from t),
      p_nonce (tx_nonce t), p_chain_id (tx_chain_id t), p_data (tx_data t), p_value dl (tx_value t),
      p_blobs (tx_blobs t), p_speed (tx_speed t), p_status (tx_status t), p_time (Some (tx_expires_at t)),
      p_time (Some (tx_queued_at t)), p_text (Some (take 2000 reason)), p_text (tx_external_id t),
      p_bytes (transaction_digest sha t)]"

definition sql_transaction_failed_on_send ::
  "('d, 'z) decimal_lib_scheme \<Rightarrow> (u8 list \<Rightarrow> u8 list) \<Rightarrow> relayer_id \<Rightarrow> transaction \<Rightarrow> string \<Rightarrow> instant \<Rightarrow>
   wire_db \<Rightarrow> stmt_error + wire_db" where
  "sql_transaction_failed_on_send dl sha rid t reason now =
     insert_both failed_on_send_sql 16 (failed_on_send_params dl sha rid t reason) now"

text \<open>
  \<open>transaction_broadcast_attempt\<close>: an insert that overwrites the listed columns of a row with the same
  id, then a copy of the row into the audit log.
\<close>

definition attempt_columns :: "column list" where
  "attempt_columns =
     [C_id, C_relayer_id, C_to, C_from, C_nonce, C_chain_id, C_data, C_value, C_blobs, C_gas_limit, C_speed,
      C_status, C_expires_at, C_queued_at, C_hash, C_external_id, C_cancelled_by_transaction_id,
      C_sent_max_priority_fee_per_gas, C_sent_max_fee_per_gas, C_gas_price, C_sent_with_gas,
      C_sent_with_blob_gas, C_sent_at]"

definition attempt_sql :: assignments where
  "attempt_sql = zip attempt_columns (map EParam [1..<23] @ [ENow])"

definition attempt_params ::
  "('d, 'z) decimal_lib_scheme \<Rightarrow> relayer_id \<Rightarrow> transaction \<Rightarrow> transaction_hash \<Rightarrow> gas_price_result \<Rightarrow>
   blob_gas_price_result option \<Rightarrow> bool \<Rightarrow> sql_param list" where
  "attempt_params dl rid t h g b legacy =
     [p_tx_id (tx_id t), p_relayer_id rid, p_address (tx_to t), p_address (tx_from t),
      p_nonce (tx_nonce t), p_chain_id (tx_chain_id t), p_data (tx_data t), p_value dl (tx_value t),
      p_blobs (tx_blobs t), p_gas_limit dl (tx_gas_limit t), p_speed (tx_speed t), p_status (tx_status t),
      p_time (Some (tx_expires_at t)), p_time (Some (tx_queued_at t)), p_hash (Some h),
      p_text (tx_external_id t), p_opt_tx_id (tx_cancelled_by_transaction_id t)]
     @ gas_params dl g b legacy"

definition on_conflict :: "column list \<Rightarrow> wire_row \<Rightarrow> wire_row \<Rightarrow> wire_row" where
  "on_conflict cs new old c = (if c \<in> set cs then new c else old c)"

definition attempt_audit_columns :: "column list" where
  "attempt_audit_columns =
     [C_id, C_relayer_id, C_to, C_from, C_nonce, C_chain_id, C_data, C_value, C_blobs, C_gas_limit, C_speed,
      C_status, C_expires_at, C_queued_at, C_sent_at, C_mined_at, C_confirmed_at, C_failed_at,
      C_failed_reason, C_hash, C_sent_max_priority_fee_per_gas, C_sent_max_fee_per_gas, C_gas_price,
      C_sent_with_gas, C_sent_with_blob_gas, C_block_hash, C_block_number, C_expired_at, C_external_id,
      C_cancelled_by_transaction_id]"

definition copied :: "column list \<Rightarrow> assignments" where
  "copied cs = zip cs (map ECol cs)"

definition upserted :: "wire_row \<Rightarrow> wire_row list \<Rightarrow> wire_row list" where
  "upserted new rows =
     (if list_ex (\<lambda>w. w C_id = new C_id) rows
      then map (\<lambda>w. if w C_id = new C_id then on_conflict (remove1 C_id attempt_columns) new w else w) rows
      else rows @ [new])"

definition sql_transaction_broadcast_attempt ::
  "('d, 'z) decimal_lib_scheme \<Rightarrow> relayer_id \<Rightarrow> transaction \<Rightarrow> transaction_hash \<Rightarrow> gas_price_result \<Rightarrow>
   blob_gas_price_result option \<Rightarrow> bool \<Rightarrow> instant \<Rightarrow> wire_db \<Rightarrow> stmt_error + wire_db" where
  "sql_transaction_broadcast_attempt dl rid t h g b legacy now d =
     and_then (run_insert_sql LiveTable attempt_sql 22 (attempt_params dl rid t h g b legacy) now) (\<lambda>news.
     and_then (checked_rows LiveTable (upserted (hd news) (wd_live d))) (\<lambda>rows.
     and_then (run_audit_sql (copied attempt_audit_columns) 1 [p_tx_id (tx_id t)] now rows) (\<lambda>log.
       Inr \<lparr> wd_live = rows, wd_log = wd_log d @ log \<rparr>)))"

text \<open>The columns most audit inserts begin with.\<close>

definition audit_head :: "column list" where
  "audit_head =
     [C_id, C_relayer_id, C_to, C_from, C_nonce, C_chain_id, C_data, C_value, C_blobs, C_gas_limit, C_speed,
      C_status, C_expires_at, C_queued_at, C_sent_at, C_mined_at, C_confirmed_at, C_failed_at,
      C_failed_reason, C_hash, C_sent_max_priority_fee_per_gas, C_sent_max_fee_per_gas, C_gas_price]"

text \<open>\<open>transaction_sent\<close>.\<close>

definition sent_sql :: assignments where
  "sent_sql =
     [(C_status, EParam 2), (C_hash, EParam 3), (C_sent_max_priority_fee_per_gas, EParam 4),
      (C_sent_max_fee_per_gas, EParam 5), (C_gas_price, EParam 6), (C_sent_with_gas, EParam 7),
      (C_sent_with_blob_gas, EParam 8), (C_sent_at, ENow)]"

definition sent_audit_sql :: assignments where
  "sent_audit_sql =
     zip (audit_head @ [C_sent_with_gas, C_sent_with_blob_gas, C_external_id])
       (map ECol [C_id, C_relayer_id, C_to, C_from, C_nonce, C_chain_id, C_data, C_value, C_blobs,
                  C_gas_limit, C_speed] @
        [EParam 2, ECol C_expires_at, ECol C_queued_at, ENow, ECol C_mined_at, ECol C_confirmed_at,
         ECol C_failed_at, ECol C_failed_reason, EParam 3, EParam 4, EParam 5, EParam 6, EParam 7, EParam 8,
         ECol C_external_id])"

definition sent_params ::
  "('d, 'z) decimal_lib_scheme \<Rightarrow> transaction_id \<Rightarrow> transaction_hash \<Rightarrow> gas_price_result \<Rightarrow>
   blob_gas_price_result option \<Rightarrow> bool \<Rightarrow> sql_param list" where
  "sent_params dl i h g b legacy =
     [p_tx_id i, p_status INMEMPOOL, p_hash (Some h)] @ gas_params dl g b legacy"

definition sql_transaction_sent ::
  "('d, 'z) decimal_lib_scheme \<Rightarrow> transaction_id \<Rightarrow> transaction_hash \<Rightarrow> gas_price_result \<Rightarrow>
   blob_gas_price_result option \<Rightarrow> bool \<Rightarrow> instant \<Rightarrow> wire_db \<Rightarrow> stmt_error + wire_db" where
  "sql_transaction_sent dl i h g b legacy now =
     update_then_audit sent_sql sent_audit_sql 8 (sent_params dl i h g b legacy)
       8 (sent_params dl i h g b legacy) now"

text \<open>\<open>update_transaction_noop\<close>.\<close>

definition noop_sql :: assignments where
  "noop_sql =
     [(C_to, EParam 2), (C_value, EParam 3), (C_data, EParam 4), (C_blobs, ENull), (C_gas_limit, EParam 5),
      (C_speed, EParam 6)]"

definition noop_audit_sql :: assignments where
  "noop_audit_sql =
     zip (audit_head @ [C_external_id])
       ([ECol C_id, ECol C_relayer_id, EParam 2, ECol C_from, ECol C_nonce, ECol C_chain_id, EParam 4,
         EParam 3, ENull, EParam 5, EParam 6] @
        map ECol [C_status, C_expires_at, C_queued_at, C_sent_at, C_mined_at, C_confirmed_at, C_failed_at,
                  C_failed_reason, C_hash, C_sent_max_priority_fee_per_gas, C_sent_max_fee_per_gas,
                  C_gas_price, C_external_id])"

definition noop_params ::
  "('d, 'z) decimal_lib_scheme \<Rightarrow> transaction_id \<Rightarrow> evm_address \<Rightarrow> transaction_speed \<Rightarrow> u128 \<Rightarrow> sql_param list"
  where
  "noop_params dl i to sp limit =
     [p_tx_id i, p_address to, p_value dl 0, p_data [], p_gas_limit dl (Some limit), p_speed sp]"

definition sql_update_transaction_noop ::
  "('d, 'z) decimal_lib_scheme \<Rightarrow> transaction_id \<Rightarrow> evm_address \<Rightarrow> transaction_speed \<Rightarrow> u128 \<Rightarrow> instant \<Rightarrow>
   wire_db \<Rightarrow> stmt_error + wire_db" where
  "sql_update_transaction_noop dl i to sp limit now =
     update_then_audit noop_sql noop_audit_sql 6 (noop_params dl i to sp limit)
       6 (noop_params dl i to sp limit) now"

text \<open>\<open>update_transaction_failed\<close>.\<close>

definition failed_sql :: assignments where
  "failed_sql = [(C_status, EParam 2), (C_failed_at, ENow), (C_failed_reason, EParam 3)]"

definition failed_audit_sql :: assignments where
  "failed_audit_sql =
     zip (audit_head @ [C_external_id])
       (map ECol [C_id, C_relayer_id, C_to, C_from, C_nonce, C_chain_id, C_data, C_value, C_blobs,
                  C_gas_limit, C_speed] @
        [EParam 2] @ map ECol [C_expires_at, C_queued_at, C_sent_at, C_mined_at, C_confirmed_at] @
        [ENow, EParam 3] @
        map ECol [C_hash, C_sent_max_priority_fee_per_gas, C_sent_max_fee_per_gas, C_gas_price,
                  C_external_id])"

definition failed_params :: "transaction_id \<Rightarrow> string \<Rightarrow> sql_param list" where
  "failed_params i reason = [p_tx_id i, p_status FAILED, p_text (Some (take 2000 reason))]"

definition sql_update_transaction_failed ::
  "transaction_id \<Rightarrow> string \<Rightarrow> instant \<Rightarrow> wire_db \<Rightarrow> stmt_error + wire_db" where
  "sql_update_transaction_failed i reason now =
     update_then_audit failed_sql failed_audit_sql 3 (failed_params i reason) 3 (failed_params i reason) now"

text \<open>\<open>transaction_mined\<close>: the two statements bind different hashes.\<close>

definition mined_sql :: assignments where
  "mined_sql =
     [(C_status, EParam 2), (C_to, EParam 3), (C_from, EParam 4), (C_value, EParam 5), (C_data, EParam 6),
      (C_nonce, EParam 7), (C_chain_id, EParam 8), (C_gas_limit, EParam 9), (C_block_hash, EParam 10),
      (C_block_number, EParam 11), (C_speed, EParam 12), (C_hash, EParam 13),
      (C_sent_max_fee_per_gas, EParam 14), (C_sent_max_priority_fee_per_gas, EParam 15),
      (C_external_id, EParam 16), (C_mined_at, ENow)]"

definition mined_audit_sql :: assignments where
  "mined_audit_sql =
     zip (audit_head @ [C_block_hash, C_block_number, C_external_id])
       [EParam 1, ECol C_relayer_id, EParam 3, EParam 4, EParam 7, EParam 8, EParam 6, EParam 5, ECol C_blobs,
        EParam 9, EParam 12, EParam 2, ECol C_expires_at, ECol C_queued_at, ECol C_sent_at, ENow,
        ECol C_confirmed_at, ECol C_failed_at, ECol C_failed_reason, EParam 13, EParam 15, EParam 14,
        ECol C_gas_price, EParam 10, EParam 11, EParam 16]"

definition mined_params ::
  "('d, 'z) decimal_lib_scheme \<Rightarrow> transaction \<Rightarrow> receipt \<Rightarrow> transaction_hash option \<Rightarrow> sql_param list" where
  "mined_params dl t rc h =
     [p_tx_id (tx_id t), p_status MINED, p_address (tx_to t), p_address (tx_from t), p_value dl (tx_value t),
      p_data (tx_data t), p_nonce (tx_nonce t), p_chain_id (tx_chain_id t),
      p_gas_limit dl (Some (ucast (rc_gas_used rc))), p_block_hash (rc_block_hash rc),
      p_block_number (rc_block_number rc), p_speed (tx_speed t), p_hash h,
      p_max_fee dl (tx_sent_with_max_fee_per_gas t),
      p_max_priority_fee dl (tx_sent_with_max_priority_fee_per_gas t), p_text (tx_external_id t)]"

definition sql_transaction_mined ::
  "('d, 'z) decimal_lib_scheme \<Rightarrow> transaction \<Rightarrow> receipt \<Rightarrow> instant \<Rightarrow> wire_db \<Rightarrow> stmt_error + wire_db" where
  "sql_transaction_mined dl t rc now =
     update_then_audit mined_sql mined_audit_sql 16 (mined_params dl t rc (Some (rc_transaction_hash rc)))
       16 (mined_params dl t rc (tx_known_transaction_hash t)) now"

text \<open>\<open>transaction_confirmed\<close>, \<open>transaction_update_nonce\<close>, \<open>transaction_expired\<close>.\<close>

definition block_tail :: "column list" where
  "block_tail = [C_block_hash, C_block_number, C_external_id]"

definition replace_expr :: "column \<Rightarrow> sql_expr \<Rightarrow> assignments \<Rightarrow> assignments" where
  "replace_expr c e = map (\<lambda>(c', e'). if c' = c then (c', e) else (c', e'))"

definition confirmed_sql :: assignments where
  "confirmed_sql = [(C_status, EParam 2), (C_confirmed_at, ENow)]"

definition confirmed_audit_sql :: assignments where
  "confirmed_audit_sql =
     replace_expr C_status (EParam 2) (replace_expr C_confirmed_at ENow (copied (audit_head @ block_tail)))"

definition sql_transaction_confirmed :: "transaction_id \<Rightarrow> instant \<Rightarrow> wire_db \<Rightarrow> stmt_error + wire_db" where
  "sql_transaction_confirmed i now =
     update_then_audit confirmed_sql confirmed_audit_sql 2 [p_tx_id i, p_status CONFIRMED]
       2 [p_tx_id i, p_status CONFIRMED] now"

definition nonce_sql :: assignments where "nonce_sql = [(C_nonce, EParam 2)]"

definition nonce_audit_sql :: assignments where
  "nonce_audit_sql = replace_expr C_nonce (EParam 2) (copied (audit_head @ block_tail))"

definition sql_transaction_update_nonce ::
  "transaction_id \<Rightarrow> transaction_nonce \<Rightarrow> instant \<Rightarrow> wire_db \<Rightarrow> stmt_error + wire_db" where
  "sql_transaction_update_nonce i n now =
     update_then_audit nonce_sql nonce_audit_sql 2 [p_tx_id i, p_nonce_i64 n] 2 [p_tx_id i, p_nonce_i64 n] now"

definition expired_sql :: assignments where
  "expired_sql = [(C_status, EParam 2), (C_expired_at, ENow)]"

definition expired_audit_sql :: assignments where
  "expired_audit_sql =
     replace_expr C_status (EParam 2) (replace_expr C_expired_at ENow
       (copied (audit_head @ [C_block_hash, C_block_number, C_expired_at, C_external_id])))"

definition sql_transaction_expired :: "transaction_id \<Rightarrow> instant \<Rightarrow> wire_db \<Rightarrow> stmt_error + wire_db" where
  "sql_transaction_expired i now =
     update_then_audit expired_sql expired_audit_sql 2 [p_tx_id i, p_status EXPIRED]
       2 [p_tx_id i, p_status EXPIRED] now"

text \<open>\<open>transaction_update\<close>: every column but the price of a legacy send and the block.\<close>

definition update_sql :: assignments where
  "update_sql =
     zip [C_relayer_id, C_to, C_from, C_nonce, C_chain_id, C_data, C_value, C_speed, C_status, C_expires_at,
          C_queued_at, C_sent_at, C_mined_at, C_confirmed_at, C_gas_limit, C_hash, C_sent_max_fee_per_gas,
          C_sent_max_priority_fee_per_gas, C_sent_with_gas, C_sent_with_blob_gas, C_external_id,
          C_cancelled_by_transaction_id, C_blobs, C_failed_reason]
       (map EParam [2..<26]) @ [(C_failed_at, ECaseNull 25 (ECol C_failed_at) ENow)]"

definition update_audit_sql :: assignments where
  "update_audit_sql =
     copied (audit_head @ [C_sent_with_gas, C_sent_with_blob_gas, C_block_hash, C_block_number,
                           C_expired_at, C_external_id])"

definition update_params :: "('d, 'z) decimal_lib_scheme \<Rightarrow> transaction \<Rightarrow> sql_param list" where
  "update_params dl t =
     [p_tx_id (tx_id t), p_relayer_id (tx_relayer_id t), p_address (tx_to t), p_address (tx_from t),
      p_nonce (tx_nonce t), p_chain_id (tx_chain_id t), p_data (tx_data t), p_value dl (tx_value t),
      p_speed (tx_speed t), p_status (tx_status t), p_time (Some (tx_expires_at t)),
      p_time (Some (tx_queued_at t)), p_time (tx_sent_at t), p_time (tx_mined_at t),
      p_time (tx_confirmed_at t), p_gas_limit dl (tx_gas_limit t), p_hash (tx_known_transaction_hash t),
      p_max_fee dl (tx_sent_with_max_fee_per_gas t),
      p_max_priority_fee dl (tx_sent_with_max_priority_fee_per_gas t),
      p_json (map_option gas_price_to_value (tx_sent_with_gas t)),
      p_json (map_option blob_gas_price_to_value (tx_sent_with_blob_gas t)), p_text (tx_external_id t),
      p_opt_tx_id (tx_cancelled_by_transaction_id t), p_blobs (tx_blobs t),
      p_text (map_option (take 2000) (tx_failed_reason t))]"

definition sql_transaction_update ::
  "('d, 'z) decimal_lib_scheme \<Rightarrow> transaction \<Rightarrow> instant \<Rightarrow> wire_db \<Rightarrow> stmt_error + wire_db" where
  "sql_transaction_update dl t now =
     update_then_audit update_sql update_audit_sql 25 (update_params dl t) 1 [p_tx_id (tx_id t)] now"

section \<open>Reading a row\<close>

text \<open>
  \<open>build_transaction_from_transaction_view\<close>: each field by the name of its column, at the type of the field.
  \<open>row.get\<close> panics where this is an error; the prices that do not parse are dropped.
\<close>

definition json_column :: "(json \<Rightarrow> 'a option) \<Rightarrow> wire \<Rightarrow> codec_error + 'a option" where
  "json_column from w = and_then (opt_from_sql json_from_sql w) (\<lambda>j. Inr (Option.bind j from))"

definition transaction_view :: "('d, 'z) decimal_lib_scheme \<Rightarrow> wire_row \<Rightarrow> codec_error + transaction" where
  "transaction_view dl w =
     and_then (address_from_sql (w C_to)) (\<lambda>to.
     and_then (address_from_sql (w C_from)) (\<lambda>from.
     and_then (transaction_id_from_sql (w C_id)) (\<lambda>id.
     and_then (relayer_id_from_sql (w C_relayer_id)) (\<lambda>rid.
     and_then (value_from_sql dl (w C_value)) (\<lambda>v.
     and_then (chain_id_from_sql (w C_chain_id)) (\<lambda>chain.
     and_then (data_from_sql CtBytea (w C_data)) (\<lambda>d.
     and_then (nonce_from_sql (w C_nonce)) (\<lambda>n.
     and_then (opt_from_sql (gas_limit_from_sql dl) (w C_gas_limit)) (\<lambda>gas.
     and_then (label_from_sql status_from_sql status_enum (w C_status)) (\<lambda>st.
     and_then (opt_from_sql (vec_from_sql (blob_from_sql CtBytea)) (w C_blobs)) (\<lambda>bs.
     and_then (opt_from_sql hash_from_sql (w C_hash)) (\<lambda>h.
     and_then (time_from_sql (w C_queued_at)) (\<lambda>queued.
     and_then (time_from_sql (w C_expires_at)) (\<lambda>expires.
     and_then (opt_from_sql time_from_sql (w C_sent_at)) (\<lambda>sent.
     and_then (opt_from_sql time_from_sql (w C_confirmed_at)) (\<lambda>confirmed.
     and_then (json_column gas_price_from_value (w C_sent_with_gas)) (\<lambda>g.
     and_then (json_column blob_gas_price_from_value (w C_sent_with_blob_gas)) (\<lambda>b.
     and_then (opt_from_sql time_from_sql (w C_mined_at)) (\<lambda>mined.
     and_then (opt_from_sql block_number_from_sql (w C_block_number)) (\<lambda>block.
     and_then (label_from_sql speed_from_sql speed_enum (w C_speed)) (\<lambda>sp.
     and_then (opt_from_sql (max_priority_fee_from_sql dl) (w C_sent_max_priority_fee_per_gas)) (\<lambda>prio.
     and_then (opt_from_sql (max_fee_from_sql dl) (w C_sent_max_fee_per_gas)) (\<lambda>fee.
     and_then (opt_from_sql text_from_sql (w C_external_id)) (\<lambda>ext.
     and_then (opt_from_sql transaction_id_from_sql (w C_cancelled_by_transaction_id)) (\<lambda>canc.
     and_then (opt_from_sql text_from_sql (w C_failed_reason)) (\<lambda>reason.
       Inr \<lparr> tx_id = id, tx_relayer_id = rid, tx_to = to, tx_from = from, tx_value = v, tx_data = d,
             tx_nonce = n, tx_chain_id = chain, tx_gas_limit = gas, tx_status = st, tx_blobs = bs,
             tx_known_transaction_hash = h, tx_queued_at = queued, tx_expires_at = expires,
             tx_sent_at = sent, tx_confirmed_at = confirmed, tx_sent_with_gas = g,
             tx_sent_with_blob_gas = b, tx_mined_at = mined, tx_mined_at_block_number = block,
             tx_speed = sp, tx_sent_with_max_priority_fee_per_gas = prio,
             tx_sent_with_max_fee_per_gas = fee, tx_is_noop = (to = from), tx_external_id = ext,
             tx_cancelled_by_transaction_id = canc, tx_failed_reason = reason \<rparr>))))))))))))))))))))))))))"

end
