(* ===== verification/Sql_Laws.thy ===== *)
theory Sql_Laws
  imports Sql_Statements Text_Laws
begin

text \<open>
  Laws of the columns: what a codec writes it reads back (the locale sql_codec, interpreted on every type
  of the program), what a row of the tables is as columns, and how a bound statement acts on columns
  (the locale write_pair, interpreted on the statements that update a row and copy it to the audit log).
\<close>

section \<open>Codecs\<close>

locale sql_codec =
  fixes enc :: "'a \<Rightarrow> codec_error + wire"
    and dec :: "wire \<Rightarrow> codec_error + 'a"
    and fits :: "'a \<Rightarrow> bool"
  assumes stored: "fits a \<Longrightarrow> \<exists>w. enc a = Inr w"
    and restored: "fits a \<Longrightarrow> enc a = Inr w \<Longrightarrow> dec w = Inr a"
    and not_null: "enc a = Inr w \<Longrightarrow> w \<noteq> WNull"
begin

lemma enc_inj: "fits a \<Longrightarrow> fits b \<Longrightarrow> enc a = enc b \<Longrightarrow> a = b"
  using stored restored by (metis sum.inject(2))

lemma opt_stored: "(\<And>a. x = Some a \<Longrightarrow> fits a) \<Longrightarrow> \<exists>w. opt_to_sql enc x = Inr w"
  using stored by (cases x) (auto simp: opt_to_sql_def)

lemma opt_restored:
  assumes "\<And>a. x = Some a \<Longrightarrow> fits a" "opt_to_sql enc x = Inr w"
  shows "opt_from_sql dec w = Inr x"
  using assms not_null restored by (cases x) (auto simp: opt_to_sql_def opt_from_sql_def)

lemma collect_restored: "list_all fits xs \<Longrightarrow> collect (map enc xs) = Inr ws \<Longrightarrow> collect (map dec ws) = Inr xs"
  by (induction xs arbitrary: ws) (auto simp: and_then_Inr restored)

lemma collect_stored: "list_all fits xs \<Longrightarrow> \<exists>ws. collect (map enc xs) = Inr ws"
proof (induction xs)
  case (Cons x xs)
  then obtain w ws where "enc x = Inr w" "collect (map enc xs) = Inr ws" using stored by force
  then show ?case by simp
qed simp

lemma vec_stored: "list_all fits xs \<Longrightarrow> \<exists>w. vec_to_sql enc xs = Inr w"
  using collect_stored [of xs] by (auto simp: vec_to_sql_def)

lemma vec_restored: "list_all fits xs \<Longrightarrow> vec_to_sql enc xs = Inr w \<Longrightarrow> vec_from_sql dec w = Inr xs"
  by (auto simp: vec_to_sql_def and_then_Inr collect_restored)

lemma vec_not_null: "vec_to_sql enc xs = Inr w \<Longrightarrow> w \<noteq> WNull"
  by (auto simp: vec_to_sql_def and_then_Inr)

end

text \<open>
  What is documented of rust_decimal and of the parser of \<open>U256\<close>: a decimal holds an integer of at most 96
  bits, and a decimal number without a sign is parsed as itself.
\<close>

definition decimal_exact :: "('d, 'z) decimal_lib_scheme \<Rightarrow> bool" where
  "decimal_exact dl =
     (\<forall>n. (n < 2 ^ 96 \<longrightarrow>
         (\<exists>d. dl_from_str dl (show_digits n) = Inr d \<and> dl_to_sql dl d = Inr (int n)) \<and>
         (\<exists>d. dl_from_sql dl (int n) = Inr d \<and> dl_display dl d = show_digits n) \<and>
         dl_u256_from_str dl (show_digits n) = Inr (of_nat n)))"

definition decimal_bounded :: "('d, 'z) decimal_lib_scheme \<Rightarrow> bool" where
  "decimal_bounded dl = (\<forall>n \<ge> 2 ^ 96. \<exists>e. dl_from_str dl (show_digits n) = Inl e)"

definition amount_fits :: "('d, 'z) decimal_lib_scheme \<Rightarrow> 'a::len word \<Rightarrow> bool" where
  "amount_fits dl g = (decimal_exact dl \<and> unat g < 2 ^ 96)"

lemma parse_u128_show: "parse_u128 (show_digits (unat g)) = Some g"
proof -
  have "unat g < 2 ^ 128" using unsigned_less [of g] by simp
  moreover have "(case show_digits (unat g) of c # cs \<Rightarrow> if c = CHR ''+'' then cs else show_digits (unat g) | [] \<Rightarrow> []) =
      show_digits (unat g)"
    using show_digits_no(3) [of "unat g"] by (cases "show_digits (unat g)") auto
  ultimately show ?thesis
    by (simp add: parse_u128_def Let_def show_digits_not_Nil digits_value_show)
qed

lemma decimal_text_stored:
  "decimal_exact dl \<Longrightarrow> n < 2 ^ 96 \<Longrightarrow> decimal_text_to_sql dl (show_digits n) = Inr (WNumeric (int n))"
  by (auto simp: decimal_exact_def decimal_text_to_sql_def)

lemma decimal_text_wire: "decimal_text_to_sql dl s = Inr w \<Longrightarrow> \<exists>n. w = WNumeric n"
  by (auto simp: decimal_text_to_sql_def and_then_Inr split: sum.splits)

lemma decimal_restored:
  "decimal_exact dl \<Longrightarrow> n < 2 ^ 96 \<Longrightarrow> \<exists>d. dl_from_sql dl (int n) = Inr d \<and> dl_display dl d = show_digits n"
  by (simp add: decimal_exact_def)

lemma u128_restored:
  assumes "amount_fits dl (g :: u128)" "decimal_text_to_sql dl (show_digits (unat g)) = Inr w"
  shows "u128_from_decimal dl w = Inr g"
proof -
  have fits: "decimal_exact dl" "unat g < 2 ^ 96" using assms(1) by (simp_all add: amount_fits_def)
  then have "w = WNumeric (int (unat g))" using assms(2) decimal_text_stored by fastforce
  moreover obtain d where "dl_from_sql dl (int (unat g)) = Inr d" "dl_display dl d = show_digits (unat g)"
    using decimal_restored [OF fits] by blast
  ultimately show ?thesis by (simp add: u128_from_decimal_def parse_u128_show)
qed

lemmas amount_defs =
  gas_limit_to_sql_def gas_limit_from_sql_def gas_price_to_sql_def gas_price_from_sql_def max_fee_to_sql_def
  max_fee_from_sql_def max_priority_fee_to_sql_def max_priority_fee_from_sql_def

lemma amount_codec:
  "amount_fits dl (g :: u128) \<Longrightarrow> \<exists>w. decimal_text_to_sql dl (show_digits (unat g)) = Inr w"
  by (auto simp: amount_fits_def decimal_text_stored)

interpretation gas_limits: sql_codec "gas_limit_to_sql dl" "gas_limit_from_sql dl" "amount_fits dl" for dl
  by unfold_locales (auto simp: amount_defs amount_codec u128_restored dest: decimal_text_wire)

interpretation gas_prices: sql_codec "gas_price_to_sql dl" "gas_price_from_sql dl" "amount_fits dl" for dl
  by unfold_locales (auto simp: amount_defs amount_codec u128_restored dest: decimal_text_wire)

interpretation max_fees: sql_codec "max_fee_to_sql dl" "max_fee_from_sql dl" "amount_fits dl" for dl
  by unfold_locales (auto simp: amount_defs amount_codec u128_restored dest: decimal_text_wire)

interpretation priority_fees:
  sql_codec "max_priority_fee_to_sql dl" "max_priority_fee_from_sql dl" "amount_fits dl" for dl
  by unfold_locales (auto simp: amount_defs amount_codec u128_restored dest: decimal_text_wire)

lemma value_restored:
  assumes "amount_fits dl (v :: u256)" "value_to_sql dl v = Inr w"
  shows "value_from_sql dl w = Inr v"
proof -
  have fits: "decimal_exact dl" "unat v < 2 ^ 96" using assms(1) by (simp_all add: amount_fits_def)
  then have "w = WNumeric (int (unat v))" using assms(2) decimal_text_stored by (fastforce simp: value_to_sql_def)
  moreover obtain d where "dl_from_sql dl (int (unat v)) = Inr d" "dl_display dl d = show_digits (unat v)"
    using decimal_restored [OF fits] by blast
  moreover have "dl_u256_from_str dl (show_digits (unat v)) = Inr v"
    using fits by (simp add: decimal_exact_def)
  ultimately show ?thesis by (simp add: value_from_sql_def)
qed

interpretation weis: sql_codec "value_to_sql dl" "value_from_sql dl" "amount_fits dl" for dl
proof unfold_locales
  show "\<exists>w. value_to_sql dl v = Inr w" if "amount_fits dl v" for v
    using that by (auto simp: value_to_sql_def amount_fits_def decimal_text_stored)
  show "value_from_sql dl w = Inr v" if "amount_fits dl v" "value_to_sql dl v = Inr w" for v w
    using that by (rule value_restored)
  show "w \<noteq> WNull" if "value_to_sql dl v = Inr w" for v w
    using that by (auto simp: value_to_sql_def dest: decimal_text_wire)
qed

interpretation chain_ids: sql_codec chain_id_to_sql chain_id_from_sql "\<lambda>c. True"
  by unfold_locales (auto simp: chain_id_to_sql_def chain_id_from_sql_def i64_of_chain_id_def chain_id_of_i64_def)

interpretation nonces: sql_codec nonce_to_sql nonce_from_sql "\<lambda>n. True"
  by unfold_locales (auto simp: nonce_to_sql_def nonce_from_sql_def i64_of_nonce_def nonce_of_i64_def)

interpretation block_numbers: sql_codec block_number_to_sql block_number_from_sql "\<lambda>n. True"
  by unfold_locales
    (auto simp: block_number_to_sql_def block_number_from_sql_def i64_of_block_number_def block_number_of_i64_def)

interpretation addresses: sql_codec address_to_sql address_from_sql "\<lambda>a. True"
  by unfold_locales (auto simp: address_to_sql_def address_from_sql_def word_rcat_be_bytes)

interpretation hashes: sql_codec hash_to_sql hash_from_sql "\<lambda>h. True"
  by unfold_locales (auto simp: hash_to_sql_def hash_from_sql_def word_rcat_be_bytes)

interpretation block_hashes: sql_codec block_hash_to_sql block_hash_from_sql "\<lambda>h. True"
  by unfold_locales
    (auto simp: block_hash_to_sql_def block_hash_from_sql_def BLOCK_HASH_BYTE_LENGTH_def word_rcat_be_bytes)

interpretation data: sql_codec "data_to_sql CtBytea" "data_from_sql CtBytea" "\<lambda>d. True"
  by unfold_locales (auto simp: data_to_sql_def data_from_sql_def bytea_accepts_def)

interpretation blobs: sql_codec "blob_to_sql CtBytea" "blob_from_sql CtBytea" "\<lambda>b. length b = BYTES_PER_BLOB"
  by unfold_locales (auto simp: blob_to_sql_def blob_from_sql_def)

interpretation transaction_ids: sql_codec transaction_id_to_sql transaction_id_from_sql "\<lambda>i. True"
  by unfold_locales (auto simp: transaction_id_to_sql_def transaction_id_from_sql_def)

interpretation relayer_ids: sql_codec relayer_id_to_sql relayer_id_from_sql "\<lambda>i. True"
  by unfold_locales (auto simp: relayer_id_to_sql_def relayer_id_from_sql_def)

interpretation texts: sql_codec text_to_sql text_from_sql "\<lambda>s. True"
  by unfold_locales (auto simp: text_to_sql_def)

interpretation times: sql_codec time_to_sql time_from_sql "\<lambda>i. True"
  by unfold_locales (auto simp: time_to_sql_def)

interpretation documents: sql_codec json_to_sql json_from_sql "\<lambda>j. True"
  by unfold_locales (auto simp: json_to_sql_def)

interpretation statuses:
  sql_codec "label_to_sql status_to_sql status_enum" "label_from_sql status_from_sql status_enum" "\<lambda>s. True"
  by unfold_locales
    (auto simp: label_to_sql_def label_from_sql_def status_to_sql_def status_from_sql_def status_accepts_def
      status_enum_def)

interpretation speeds:
  sql_codec "label_to_sql speed_to_sql speed_enum" "label_from_sql speed_from_sql speed_enum" "\<lambda>s. True"
  by unfold_locales
    (auto simp: label_to_sql_def label_from_sql_def speed_to_sql_def speed_from_sql_def speed_accepts_def
      speed_enum_def)

section \<open>Rows as columns\<close>

text \<open>The column of a row of Tx_Db.\<close>

fun row_column :: "('d, 'z) decimal_lib_scheme \<Rightarrow> row \<Rightarrow> column \<Rightarrow> codec_error + wire" where
  "row_column dl r C_id = transaction_id_to_sql (r_id r)"
| "row_column dl r C_relayer_id = relayer_id_to_sql (r_relayer_id r)"
| "row_column dl r C_to = address_to_sql (r_to r)"
| "row_column dl r C_from = address_to_sql (r_from r)"
| "row_column dl r C_nonce = nonce_to_sql (r_nonce r)"
| "row_column dl r C_data = data_to_sql CtBytea (r_data r)"
| "row_column dl r C_value = value_to_sql dl (r_value r)"
| "row_column dl r C_chain_id = chain_id_to_sql (r_chain_id r)"
| "row_column dl r C_gas_price = opt_to_sql (gas_price_to_sql dl) (r_gas_price r)"
| "row_column dl r C_sent_max_priority_fee_per_gas =
     opt_to_sql (max_priority_fee_to_sql dl) (r_sent_max_priority_fee_per_gas r)"
| "row_column dl r C_sent_max_fee_per_gas = opt_to_sql (max_fee_to_sql dl) (r_sent_max_fee_per_gas r)"
| "row_column dl r C_sent_with_gas = opt_to_sql json_to_sql (map_option gas_price_to_value (r_sent_with_gas r))"
| "row_column dl r C_sent_with_blob_gas =
     opt_to_sql json_to_sql (map_option blob_gas_price_to_value (r_sent_with_blob_gas r))"
| "row_column dl r C_gas_limit = opt_to_sql (gas_limit_to_sql dl) (r_gas_limit r)"
| "row_column dl r C_block_hash = opt_to_sql block_hash_to_sql (r_block_hash r)"
| "row_column dl r C_block_number = opt_to_sql block_number_to_sql (r_block_number r)"
| "row_column dl r C_hash = opt_to_sql hash_to_sql (r_hash r)"
| "row_column dl r C_speed = label_to_sql speed_to_sql speed_enum (r_speed r)"
| "row_column dl r C_status = label_to_sql status_to_sql status_enum (r_status r)"
| "row_column dl r C_blobs = opt_to_sql (vec_to_sql (blob_to_sql CtBytea)) (r_blobs r)"
| "row_column dl r C_expires_at = time_to_sql (r_expires_at r)"
| "row_column dl r C_expired_at = opt_to_sql time_to_sql (r_expired_at r)"
| "row_column dl r C_queued_at = time_to_sql (r_queued_at r)"
| "row_column dl r C_mined_at = opt_to_sql time_to_sql (r_mined_at r)"
| "row_column dl r C_failed_at = opt_to_sql time_to_sql (r_failed_at r)"
| "row_column dl r C_failed_reason = opt_to_sql text_to_sql (r_failed_reason r)"
| "row_column dl r C_sent_at = opt_to_sql time_to_sql (r_sent_at r)"
| "row_column dl r C_confirmed_at = opt_to_sql time_to_sql (r_confirmed_at r)"
| "row_column dl r C_external_id = opt_to_sql text_to_sql (r_external_id r)"
| "row_column dl r C_cancelled_by_transaction_id = opt_to_sql transaction_id_to_sql (r_cancelled_by r)"
| "row_column dl r C_request_digest = opt_to_sql (\<lambda>b. Inr (WBytes b)) (r_request_digest r)"

definition represents :: "('d, 'z) decimal_lib_scheme \<Rightarrow> wire_row \<Rightarrow> row \<Rightarrow> bool" where
  "represents dl w r = (\<forall>c. row_column dl r c = Inr (w c))"

lemma representsD: "represents dl w r \<Longrightarrow> row_column dl r c = Inr (w c)"
  by (simp add: represents_def)

lemma represents_id: "represents dl w r \<Longrightarrow> w C_id = WUuid (r_id r)"
  using representsD [of dl w r C_id] by (simp add: transaction_id_to_sql_def)

text \<open>A row is represented when it is one of the columns the statement set, or unchanged.\<close>

lemma represents_set:
  assumes "represents dl w r"
    and "\<And>c e. map_of as c = Some e \<Longrightarrow> row_column dl r' c = Inr (eval_expr ws now w e)"
    and "\<And>c. map_of as c = None \<Longrightarrow> row_column dl r' c = row_column dl r c"
  shows "represents dl (set_columns as ws now w) r'"
  using assms representsD [OF assms(1)]
  by (auto simp: represents_def set_columns_def split: option.splits)

lemma represents_new:
  assumes "\<And>c e. map_of as c = Some e \<Longrightarrow> row_column dl r' c = Inr (eval_expr ws now w e)"
    and "\<And>c. map_of as c = None \<Longrightarrow> row_column dl r' c = Inr WNull"
  shows "represents dl (new_columns as ws now w) r'"
  using assms by (auto simp: represents_def new_columns_def split: option.splits)

section \<open>Bound parameters\<close>

lemma map_err_eq_Inr: "map_err f r = Inr x \<longleftrightarrow> r = Inr x"
  by simp

lemma bind_from_Cons:
  "bind_from i (t # ts) (p # ps) = Inr ws \<longleftrightarrow>
     (\<exists>w ws'. ws = w # ws' \<and> to_sql_checked p t = Inr w \<and> bind_from (Suc i) ts ps = Inr ws')"
  by (auto simp: and_then_Inr)

lemma bind_from_Nil [simp]: "bind_from i [] [] = Inr ws \<longleftrightarrow> ws = []"
  by auto

lemma to_sql_checked_Inr [simp]:
  "to_sql_checked (SqlParam acc f) t = Inr w \<longleftrightarrow> acc t \<and> f t = Inr w"
  by (simp add: to_sql_checked_def)

lemma bind_params_Inr:
  "bind_params us n ps = Inr ws \<longleftrightarrow>
     (\<exists>ts. deduce us n = Inr ts \<and> length ts = length ps \<and> bind_from 0 ts ps = Inr ws)"
  by (auto simp: bind_params_def and_then_Inr split: if_splits)

lemma checked_rows_Inr: "checked_rows tb rs = Inr rs' \<longleftrightarrow> rs' = rs \<and> list_all (row_ok tb) rs"
  by (auto simp: checked_rows_def)

section \<open>Tables\<close>

definition represents_db :: "('d, 'z) decimal_lib_scheme \<Rightarrow> wire_db \<Rightarrow> db \<Rightarrow> bool" where
  "represents_db dl wd d =
     (list_all2 (represents dl) (wd_live wd) (db_rows d) \<and> list_all2 (represents dl) (wd_log wd) (db_audit d))"

lemma commit_tables: "commit rs snaps a d = Inr (d', b) \<Longrightarrow> d' = \<lparr> db_rows = rs, db_audit = db_audit d @ snaps \<rparr>"
  by (auto simp: commit_def check_rows_def and_then_Inr split: if_splits)

lemma list_all2_filter_id:
  assumes "list_all2 (represents dl) ws rs"
  shows "list_all2 (represents dl) (filter (\<lambda>w. w C_id = WUuid i) ws) (filter (\<lambda>r. r_id r = i) rs)"
  using assms by (induction rule: list_all2_induct) (auto simp: represents_id)

lemma list_all2_update_id:
  assumes "list_all2 (represents dl) ws rs" "\<And>w r. represents dl w r \<Longrightarrow> represents dl (g w) (f r)"
  shows "list_all2 (represents dl) (map (\<lambda>w. if w C_id = WUuid i then g w else w) ws)
           (update_where (\<lambda>r. r_id r = i) f rs)"
  using assms(1) by (induction rule: list_all2_induct) (auto simp: update_where_def represents_id assms(2))

text \<open>
  An update of one row with the copy of the updated row, against its effect \<open>f\<close> on the row and the
  snapshot: each statement alone keeps the representation of a row.
\<close>

locale write_pair =
  fixes dl :: "('d, 'z) decimal_lib_scheme"
    and upd aud :: assignments and n m :: nat and ps qs :: "sql_param list" and now :: instant
    and i :: transaction_id and f snap :: "row \<Rightarrow> row"
  assumes first_updated: "bind_params ((1, CtUuid) # assign_uses upd) n ps = Inr ws \<Longrightarrow> ws ! 0 = WUuid i"
    and row_updated: "bind_params ((1, CtUuid) # assign_uses upd) n ps = Inr ws \<Longrightarrow> represents dl w r \<Longrightarrow>
      represents dl (set_columns upd ws now w) (f r)"
    and first_audited: "bind_params ((1, CtUuid) # assign_uses aud) m qs = Inr ws \<Longrightarrow> ws ! 0 = WUuid i"
    and row_audited: "bind_params ((1, CtUuid) # assign_uses aud) m qs = Inr ws \<Longrightarrow> represents dl w (f r) \<Longrightarrow>
      r_id r = i \<Longrightarrow> represents dl (new_columns aud ws now w) (snap (f r))"
    and id_kept: "r_id (f r) = r_id r"
begin

lemma rows_at_index: "r \<in> set (rows_with_id i (update_where (\<lambda>r. r_id r = i) f rs)) \<Longrightarrow> \<exists>r0. r = f r0 \<and> r_id r0 = i"
  using id_kept by (auto simp: rows_with_id_def update_where_def split: if_splits)

lemma audited_rows:
  assumes "bind_params ((1, CtUuid) # assign_uses aud) m qs = Inr ws"
    and "list_all2 (represents dl) vs rs" "\<And>r. r \<in> set rs \<Longrightarrow> \<exists>r0. r = f r0 \<and> r_id r0 = i"
  shows "list_all2 (represents dl) (map (new_columns aud ws now) vs) (map snap rs)"
  using assms(2,3) row_audited [OF assms(1)] by (induction rule: list_all2_induct) auto

lemma refines:
  assumes rep: "represents_db dl wd d"
    and sql: "update_then_audit upd aud n ps m qs now wd = Inr wd'"
    and tab: "update_and_audit i f snap d = Inr (d', u)"
  shows "represents_db dl wd' d'"
proof -
  let ?rs = "update_where (\<lambda>r. r_id r = i) f (db_rows d)"
  obtain ws vs where ws: "bind_params ((1, CtUuid) # assign_uses upd) n ps = Inr ws"
    and vs: "bind_params ((1, CtUuid) # assign_uses aud) m qs = Inr vs"
    and live: "wd_live wd' = map (\<lambda>w. if w C_id = WUuid i then set_columns upd ws now w else w) (wd_live wd)"
    and log: "wd_log wd' = wd_log wd @ map (new_columns aud vs now) (filter (\<lambda>w. w C_id = WUuid i) (wd_live wd'))"
    using sql first_updated first_audited
    by (auto simp: update_then_audit_def run_update_sql_def run_audit_sql_def and_then_Inr checked_rows_Inr)
  have d': "d' = \<lparr> db_rows = ?rs, db_audit = db_audit d @ map snap (rows_with_id i ?rs) \<rparr>"
    using tab commit_tables by (fastforce simp: update_and_audit_def Let_def)
  have rows: "list_all2 (represents dl) (wd_live wd') ?rs"
    unfolding live using rep row_updated [OF ws] by (intro list_all2_update_id) (auto simp: represents_db_def)
  have "list_all2 (represents dl) (map (new_columns aud vs now) (filter (\<lambda>w. w C_id = WUuid i) (wd_live wd')))
      (map snap (rows_with_id i ?rs))"
    using rows rows_at_index unfolding rows_with_id_def
    by (intro audited_rows [OF vs] list_all2_filter_id) (auto simp: rows_with_id_def)
  then show ?thesis
    using rep rows d' log by (simp add: represents_db_def list_all2_appendI)
qed

end

section \<open>Reading back\<close>

definition i64_fits :: "int option \<Rightarrow> bool" where
  "i64_fits x = (case x of None \<Rightarrow> True | Some i \<Rightarrow> - (2 ^ 63) \<le> i \<and> i < 2 ^ 63)"

definition gas_json_fits :: "gas_price_result \<Rightarrow> bool" where
  "gas_json_fits g =
     (unat (gp_max_priority_fee g) < 2 ^ 64 \<and> unat (gp_max_fee g) < 2 ^ 64 \<and>
      i64_fits (gp_min_wait_time_estimate g) \<and> i64_fits (gp_max_wait_time_estimate g))"

definition blob_gas_json_fits :: "blob_gas_price_result \<Rightarrow> bool" where
  "blob_gas_json_fits b = (unat (bg_blob_gas_price b) < 2 ^ 64 \<and> unat (bg_total_fee_for_blob b) < 2 ^ 64)"

lemma u128_json:
  assumes "unat (n :: u128) < 2 ^ 64"
  shows "u128_to_json n = Some (JNum (uint n))" "json_u128 (JNum (uint n)) = Some n"
proof -
  have "int (unat n) < int (2 ^ 64)" using assms by (simp only: of_nat_less_iff)
  then have "uint n < 2 ^ 64" by simp
  then show "u128_to_json n = Some (JNum (uint n))" "json_u128 (JNum (uint n)) = Some n"
    using assms by (simp_all add: u128_to_json_def)
qed

lemma json_wait_read: "i64_fits x \<Longrightarrow> json_wait (Some (wait_to_json x)) = Some x"
  by (cases x) (auto simp: i64_fits_def wait_to_json_def)

lemma gas_price_value_read: "gas_json_fits g \<Longrightarrow> gas_price_from_value (gas_price_to_value g) = Some g"
  by (simp add: gas_json_fits_def gas_price_to_value_def gas_price_from_value_def u128_json json_wait_read
      del: json_u128.simps json_wait.simps)

lemma blob_gas_price_value_read:
  "blob_gas_json_fits b \<Longrightarrow> blob_gas_price_from_value (blob_gas_price_to_value b) = Some b"
  by (simp add: blob_gas_json_fits_def blob_gas_price_to_value_def blob_gas_price_from_value_def u128_json
      del: json_u128.simps)

lemma json_column_read:
  assumes "opt_to_sql json_to_sql (map_option into x) = Inr w" "\<And>a. x = Some a \<Longrightarrow> from (into a) = Some a"
  shows "json_column from w = Inr x"
proof -
  have "opt_from_sql json_from_sql w = Inr (map_option into x)"
    using documents.opt_restored [OF _ assms(1)] by simp
  then show ?thesis using assms(2) by (cases x) (simp_all add: json_column_def)
qed

definition row_fits :: "('d, 'z) decimal_lib_scheme \<Rightarrow> row \<Rightarrow> bool" where
  "row_fits dl r =
     (amount_fits dl (r_value r) \<and> pred_option (amount_fits dl) (r_gas_limit r) \<and>
      pred_option (amount_fits dl) (r_sent_max_priority_fee_per_gas r) \<and>
      pred_option (amount_fits dl) (r_sent_max_fee_per_gas r) \<and>
      pred_option (list_all (\<lambda>b. length b = BYTES_PER_BLOB)) (r_blobs r) \<and>
      pred_option gas_json_fits (r_sent_with_gas r) \<and> pred_option blob_gas_json_fits (r_sent_with_blob_gas r))"

lemma blobs_read:
  assumes "pred_option (list_all (\<lambda>b. length b = BYTES_PER_BLOB)) x"
    and "opt_to_sql (vec_to_sql (blob_to_sql CtBytea)) x = Inr w"
  shows "opt_from_sql (vec_from_sql (blob_from_sql CtBytea)) w = Inr x"
  using assms blobs.vec_restored blobs.vec_not_null
  by (cases x) (auto simp: opt_to_sql_def opt_from_sql_def)

lemma view_of_row:
  assumes "represents dl w r" "row_fits dl r"
  shows "transaction_view dl w = Inr (build_transaction_from_transaction_view r)"
proof -
  note col = representsD [OF assms(1)]
  have fits: "pred_option P x \<Longrightarrow> x = Some a \<Longrightarrow> P a" for P and x :: "'b option" and a by simp
  note f = assms(2) [unfolded row_fits_def]
  have amounts:
    "value_from_sql dl (w C_value) = Inr (r_value r)"
    "opt_from_sql (gas_limit_from_sql dl) (w C_gas_limit) = Inr (r_gas_limit r)"
    "opt_from_sql (max_priority_fee_from_sql dl) (w C_sent_max_priority_fee_per_gas) =
       Inr (r_sent_max_priority_fee_per_gas r)"
    "opt_from_sql (max_fee_from_sql dl) (w C_sent_max_fee_per_gas) = Inr (r_sent_max_fee_per_gas r)"
    subgoal using f col [of C_value] by (intro weis.restored) simp_all
    subgoal using f col [of C_gas_limit] by (intro gas_limits.opt_restored) auto
    subgoal using f col [of C_sent_max_priority_fee_per_gas] by (intro priority_fees.opt_restored) auto
    subgoal using f col [of C_sent_max_fee_per_gas] by (intro max_fees.opt_restored) auto
    done
  have docs:
    "json_column gas_price_from_value (w C_sent_with_gas) = Inr (r_sent_with_gas r)"
    "json_column blob_gas_price_from_value (w C_sent_with_blob_gas) = Inr (r_sent_with_blob_gas r)"
    using f col [of C_sent_with_gas] col [of C_sent_with_blob_gas]
    by (auto intro!: json_column_read gas_price_value_read blob_gas_price_value_read simp: option.pred_set)
  have blobs: "opt_from_sql (vec_from_sql (blob_from_sql CtBytea)) (w C_blobs) = Inr (r_blobs r)"
    using f blobs_read col [of C_blobs] by simp
  have plain:
    "address_from_sql (w C_to) = Inr (r_to r)" "address_from_sql (w C_from) = Inr (r_from r)"
    "transaction_id_from_sql (w C_id) = Inr (r_id r)"
    "relayer_id_from_sql (w C_relayer_id) = Inr (r_relayer_id r)"
    "chain_id_from_sql (w C_chain_id) = Inr (r_chain_id r)" "data_from_sql CtBytea (w C_data) = Inr (r_data r)"
    "nonce_from_sql (w C_nonce) = Inr (r_nonce r)"
    "label_from_sql status_from_sql status_enum (w C_status) = Inr (r_status r)"
    "label_from_sql speed_from_sql speed_enum (w C_speed) = Inr (r_speed r)"
    "time_from_sql (w C_queued_at) = Inr (r_queued_at r)" "time_from_sql (w C_expires_at) = Inr (r_expires_at r)"
    using addresses.restored col [of C_to] col [of C_from] transaction_ids.restored col [of C_id]
      relayer_ids.restored col [of C_relayer_id] chain_ids.restored col [of C_chain_id]
      data.restored col [of C_data] nonces.restored col [of C_nonce] statuses.restored col [of C_status]
      speeds.restored col [of C_speed] times.restored col [of C_queued_at] col [of C_expires_at]
    by simp_all
  have optional:
    "opt_from_sql hash_from_sql (w C_hash) = Inr (r_hash r)"
    "opt_from_sql time_from_sql (w C_sent_at) = Inr (r_sent_at r)"
    "opt_from_sql time_from_sql (w C_confirmed_at) = Inr (r_confirmed_at r)"
    "opt_from_sql time_from_sql (w C_mined_at) = Inr (r_mined_at r)"
    "opt_from_sql block_number_from_sql (w C_block_number) = Inr (r_block_number r)"
    "opt_from_sql text_from_sql (w C_external_id) = Inr (r_external_id r)"
    "opt_from_sql transaction_id_from_sql (w C_cancelled_by_transaction_id) = Inr (r_cancelled_by r)"
    "opt_from_sql text_from_sql (w C_failed_reason) = Inr (r_failed_reason r)"
    using hashes.opt_restored col [of C_hash] times.opt_restored col [of C_sent_at] col [of C_confirmed_at]
      col [of C_mined_at] block_numbers.opt_restored col [of C_block_number] texts.opt_restored
      col [of C_external_id] transaction_ids.opt_restored col [of C_cancelled_by_transaction_id]
      col [of C_failed_reason]
    by simp_all
  show ?thesis
    by (simp only: transaction_view_def amounts docs blobs plain optional and_then_simps
        build_transaction_from_transaction_view_def)
qed

end
