(* ===== verification/Sql_Properties.thy ===== *)
theory Sql_Properties
  imports Sql_Laws Examples
begin

text \<open>
  The statements of transaction/db/write.rs, as sent, against the tables of Tx_Db.
\<close>

section \<open>Types of the placeholders\<close>

lemmas sql_texts =
  save_sql_def failed_on_send_sql_def attempt_sql_def attempt_columns_def attempt_audit_columns_def copied_def
  audit_head_def sent_sql_def sent_audit_sql_def noop_sql_def noop_audit_sql_def failed_sql_def
  failed_audit_sql_def mined_sql_def mined_audit_sql_def block_tail_def replace_expr_def confirmed_sql_def
  confirmed_audit_sql_def nonce_sql_def nonce_audit_sql_def expired_sql_def expired_audit_sql_def
  update_sql_def update_audit_sql_def numbered_def

lemma save_types:
  "deduce (assign_uses save_sql) 18 =
     Inr [CtUuid, CtUuid, CtBytea, CtBytea, CtInt8, CtInt8, CtBytea, CtNumeric, CtArray CtBytea, CtNumeric,
          speed_enum, status_enum, CtTimestamptz, CtTimestamptz, CtBytea, CtVarchar 255, CtUuid, CtBytea]"
  by (simp add: deduce_def assign_uses_def sql_texts upt_rec)


lemma failed_on_send_types:
  "deduce (assign_uses failed_on_send_sql) 16 =
     Inr [CtUuid, CtUuid, CtBytea, CtBytea, CtInt8, CtInt8, CtBytea, CtNumeric, CtArray CtBytea, speed_enum,
          status_enum, CtTimestamptz, CtTimestamptz, CtText, CtVarchar 255, CtBytea]"
  by (simp add: deduce_def assign_uses_def sql_texts upt_rec)

lemma attempt_types:
  "deduce (assign_uses attempt_sql) 22 =
     Inr [CtUuid, CtUuid, CtBytea, CtBytea, CtInt8, CtInt8, CtBytea, CtNumeric, CtArray CtBytea, CtNumeric,
          speed_enum, status_enum, CtTimestamptz, CtTimestamptz, CtBytea, CtVarchar 255, CtUuid, CtNumeric,
          CtNumeric, CtNumeric, CtJsonb, CtJsonb]"
  by (simp add: deduce_def assign_uses_def sql_texts upt_rec)

lemma attempt_audit_types: "deduce ((1, CtUuid) # assign_uses (copied attempt_audit_columns)) 1 = Inr [CtUuid]"
  by (simp add: deduce_def assign_uses_def sql_texts upt_rec)

lemma sent_types:
  "deduce ((1, CtUuid) # assign_uses sent_sql) 8 =
     Inr [CtUuid, status_enum, CtBytea, CtNumeric, CtNumeric, CtNumeric, CtJsonb, CtJsonb]"
  "deduce ((1, CtUuid) # assign_uses sent_audit_sql) 8 =
     Inr [CtUuid, status_enum, CtBytea, CtNumeric, CtNumeric, CtNumeric, CtJsonb, CtJsonb]"
  by (simp_all add: deduce_def assign_uses_def sql_texts upt_rec)

lemma noop_types:
  "deduce ((1, CtUuid) # assign_uses noop_sql) 6 =
     Inr [CtUuid, CtBytea, CtNumeric, CtBytea, CtNumeric, speed_enum]"
  "deduce ((1, CtUuid) # assign_uses noop_audit_sql) 6 =
     Inr [CtUuid, CtBytea, CtNumeric, CtBytea, CtNumeric, speed_enum]"
  by (simp_all add: deduce_def assign_uses_def sql_texts upt_rec)

lemma failed_types:
  "deduce ((1, CtUuid) # assign_uses failed_sql) 3 = Inr [CtUuid, status_enum, CtText]"
  "deduce ((1, CtUuid) # assign_uses failed_audit_sql) 3 = Inr [CtUuid, status_enum, CtText]"
  by (simp_all add: deduce_def assign_uses_def sql_texts upt_rec)

lemma mined_types:
  "deduce ((1, CtUuid) # assign_uses mined_sql) 16 =
     Inr [CtUuid, status_enum, CtBytea, CtBytea, CtNumeric, CtBytea, CtInt8, CtInt8, CtNumeric, CtBytea, CtInt8,
          speed_enum, CtBytea, CtNumeric, CtNumeric, CtVarchar 255]"
  "deduce ((1, CtUuid) # assign_uses mined_audit_sql) 16 =
     Inr [CtUuid, status_enum, CtBytea, CtBytea, CtNumeric, CtBytea, CtInt8, CtInt8, CtNumeric, CtBytea, CtInt8,
          speed_enum, CtBytea, CtNumeric, CtNumeric, CtVarchar 255]"
  by (simp_all add: deduce_def assign_uses_def sql_texts upt_rec)

lemma confirmed_types:
  "deduce ((1, CtUuid) # assign_uses confirmed_sql) 2 = Inr [CtUuid, status_enum]"
  "deduce ((1, CtUuid) # assign_uses confirmed_audit_sql) 2 = Inr [CtUuid, status_enum]"
  by (simp_all add: deduce_def assign_uses_def sql_texts upt_rec)

lemma nonce_types:
  "deduce ((1, CtUuid) # assign_uses nonce_sql) 2 = Inr [CtUuid, CtInt8]"
  "deduce ((1, CtUuid) # assign_uses nonce_audit_sql) 2 = Inr [CtUuid, CtInt8]"
  by (simp_all add: deduce_def assign_uses_def sql_texts upt_rec)

lemma expired_types:
  "deduce ((1, CtUuid) # assign_uses expired_sql) 2 = Inr [CtUuid, status_enum]"
  "deduce ((1, CtUuid) # assign_uses expired_audit_sql) 2 = Inr [CtUuid, status_enum]"
  by (simp_all add: deduce_def assign_uses_def sql_texts upt_rec)

lemma update_types:
  "deduce ((1, CtUuid) # assign_uses update_sql) 25 =
     Inr [CtUuid, CtUuid, CtBytea, CtBytea, CtInt8, CtInt8, CtBytea, CtNumeric, speed_enum, status_enum,
          CtTimestamptz, CtTimestamptz, CtTimestamptz, CtTimestamptz, CtTimestamptz, CtNumeric, CtBytea,
          CtNumeric, CtNumeric, CtJsonb, CtJsonb, CtVarchar 255, CtUuid, CtArray CtBytea, CtText]"
  "deduce ((1, CtUuid) # assign_uses update_audit_sql) 1 = Inr [CtUuid]"
  by (simp_all add: deduce_def assign_uses_def sql_texts upt_rec)

lemmas placeholder_types =
  save_types failed_on_send_types attempt_types attempt_audit_types sent_types noop_types failed_types mined_types
  confirmed_types nonce_types expired_types update_types

section \<open>The writes\<close>

datatype tx_write =
    SaveTx relayer_id transaction
  | AttemptTx relayer_id transaction transaction_hash gas_price_result "blob_gas_price_result option" bool
  | SentTx transaction_id transaction_hash gas_price_result "blob_gas_price_result option" bool
  | FailedOnSendTx relayer_id transaction string
  | NoopTx transaction_id evm_address transaction_speed u128
  | FailedTx transaction_id string
  | MinedTx transaction receipt
  | ConfirmedTx transaction_id
  | NonceTx transaction_id transaction_nonce
  | ExpiredTx transaction_id
  | UpdateTx transaction

text \<open>The write on the tables, and the same write as sent.\<close>

fun table_write :: "(u8 list \<Rightarrow> u8 list) \<Rightarrow> instant \<Rightarrow> tx_write \<Rightarrow> unit stmt" where
  "table_write sha now (SaveTx rid t) = save_transaction sha rid t"
| "table_write sha now (AttemptTx rid t h g b l) = transaction_broadcast_attempt rid t h g b l now"
| "table_write sha now (SentTx i h g b l) = transaction_sent i h g b l now"
| "table_write sha now (FailedOnSendTx rid t e) = transaction_failed_on_send sha rid t e now"
| "table_write sha now (NoopTx i to sp l) = update_transaction_noop i to sp l"
| "table_write sha now (FailedTx i e) = update_transaction_failed i e now"
| "table_write sha now (MinedTx t rc) = transaction_mined t rc now"
| "table_write sha now (ConfirmedTx i) = transaction_confirmed i now"
| "table_write sha now (NonceTx i n) = transaction_update_nonce i n"
| "table_write sha now (ExpiredTx i) = transaction_expired i now"
| "table_write sha now (UpdateTx t) = transaction_update t now"

fun sql_write ::
  "('d, 'z) decimal_lib_scheme \<Rightarrow> (u8 list \<Rightarrow> u8 list) \<Rightarrow> instant \<Rightarrow> tx_write \<Rightarrow> wire_db \<Rightarrow>
   stmt_error + wire_db" where
  "sql_write dl sha now (SaveTx rid t) = sql_save_transaction dl sha rid t now"
| "sql_write dl sha now (AttemptTx rid t h g b l) = sql_transaction_broadcast_attempt dl rid t h g b l now"
| "sql_write dl sha now (SentTx i h g b l) = sql_transaction_sent dl i h g b l now"
| "sql_write dl sha now (FailedOnSendTx rid t e) = sql_transaction_failed_on_send dl sha rid t e now"
| "sql_write dl sha now (NoopTx i to sp l) = sql_update_transaction_noop dl i to sp l now"
| "sql_write dl sha now (FailedTx i e) = sql_update_transaction_failed i e now"
| "sql_write dl sha now (MinedTx t rc) = sql_transaction_mined dl t rc now"
| "sql_write dl sha now (ConfirmedTx i) = sql_transaction_confirmed i now"
| "sql_write dl sha now (NonceTx i n) = sql_transaction_update_nonce i n now"
| "sql_write dl sha now (ExpiredTx i) = sql_transaction_expired i now"
| "sql_write dl sha now (UpdateTx t) = sql_transaction_update dl t now"

text \<open>The bound statements of a write: what they use the placeholders for, and the values.\<close>

fun bindings ::
  "('d, 'z) decimal_lib_scheme \<Rightarrow> (u8 list \<Rightarrow> u8 list) \<Rightarrow> tx_write \<Rightarrow>
   ((nat \<times> column_type) list \<times> nat \<times> sql_param list) list" where
  "bindings dl sha (SaveTx rid t) = [(assign_uses save_sql, 18, save_params dl sha rid t)]"
| "bindings dl sha (AttemptTx rid t h g b l) =
     [(assign_uses attempt_sql, 22, attempt_params dl rid t h g b l),
      ((1, CtUuid) # assign_uses (copied attempt_audit_columns), 1, [p_tx_id (tx_id t)])]"
| "bindings dl sha (SentTx i h g b l) =
     [((1, CtUuid) # assign_uses sent_sql, 8, sent_params dl i h g b l),
      ((1, CtUuid) # assign_uses sent_audit_sql, 8, sent_params dl i h g b l)]"
| "bindings dl sha (FailedOnSendTx rid t e) =
     [(assign_uses failed_on_send_sql, 16, failed_on_send_params dl sha rid t e)]"
| "bindings dl sha (NoopTx i to sp l) =
     [((1, CtUuid) # assign_uses noop_sql, 6, noop_params dl i to sp l),
      ((1, CtUuid) # assign_uses noop_audit_sql, 6, noop_params dl i to sp l)]"
| "bindings dl sha (FailedTx i e) =
     [((1, CtUuid) # assign_uses failed_sql, 3, failed_params i e),
      ((1, CtUuid) # assign_uses failed_audit_sql, 3, failed_params i e)]"
| "bindings dl sha (MinedTx t rc) =
     [((1, CtUuid) # assign_uses mined_sql, 16, mined_params dl t rc (Some (rc_transaction_hash rc))),
      ((1, CtUuid) # assign_uses mined_audit_sql, 16, mined_params dl t rc (tx_known_transaction_hash t))]"
| "bindings dl sha (ConfirmedTx i) =
     [((1, CtUuid) # assign_uses confirmed_sql, 2, [p_tx_id i, p_status CONFIRMED]),
      ((1, CtUuid) # assign_uses confirmed_audit_sql, 2, [p_tx_id i, p_status CONFIRMED])]"
| "bindings dl sha (NonceTx i n) =
     [((1, CtUuid) # assign_uses nonce_sql, 2, [p_tx_id i, p_nonce_i64 n]),
      ((1, CtUuid) # assign_uses nonce_audit_sql, 2, [p_tx_id i, p_nonce_i64 n])]"
| "bindings dl sha (ExpiredTx i) =
     [((1, CtUuid) # assign_uses expired_sql, 2, [p_tx_id i, p_status EXPIRED]),
      ((1, CtUuid) # assign_uses expired_audit_sql, 2, [p_tx_id i, p_status EXPIRED])]"
| "bindings dl sha (UpdateTx t) =
     [((1, CtUuid) # assign_uses update_sql, 25, update_params dl t),
      ((1, CtUuid) # assign_uses update_audit_sql, 1, [p_tx_id (tx_id t)])]"

definition well_typed :: "(nat \<times> column_type) list \<times> nat \<times> sql_param list \<Rightarrow> bool" where
  "well_typed b =
     (case b of (us, n, ps) \<Rightarrow>
        (case deduce us n of Inl e \<Rightarrow> False | Inr ts \<Rightarrow> list_all2 p_accepts ps ts))"

lemmas accepts_defs =
  uuid_accepts_def bytea_accepts_def nonce_accepts_def chain_id_accepts_def amount_accepts_def speed_accepts_def
  status_accepts_def time_accepts_def block_number_accepts_def text_accepts_def json_accepts_def speed_enum_def
  status_enum_def

lemmas params_defs =
  save_params_def failed_on_send_params_def attempt_params_def gas_params_def sent_params_def noop_params_def
  failed_params_def mined_params_def update_params_def



section \<open>Refinement\<close>

lemma all_columns_iff: "(\<forall>c. P c) \<longleftrightarrow> list_all P all_columns"
proof
  assume p: "list_all P all_columns"
  have "c \<in> set all_columns" for c by (cases c) (simp_all add: all_columns_def)
  then show "\<forall>c. P c" using p by (simp add: list_all_iff)
qed (simp add: list_all_iff)

lemma represents_iff: "represents dl w r \<longleftrightarrow> list_all (\<lambda>c. row_column dl r c = Inr (w c)) all_columns"
  by (simp add: represents_def all_columns_iff)

lemma opt_to_sql_simps: "opt_to_sql enc None = Inr WNull" "opt_to_sql enc (Some a) = enc a"
  by (simp_all add: opt_to_sql_def)

lemma option_if_simps:
  "option_if l v = (if l then Some v else None)" "(if \<not> l then a else b) = (if l then b else a)"
  by (simp_all add: option_if_def)

lemmas sent_values = opt_to_sql_simps option_if_simps time_to_sql_def transaction_id_to_sql_def

lemmas bound = sent_values bind_params_Inr placeholder_types params_defs bind_from_Cons

lemmas row_simps = represents_iff all_columns_def set_columns_def new_columns_def sql_texts

lemma failed_reason_wire: "opt_to_sql text_to_sql x = Inr w \<Longrightarrow> (w = WNull) = (x = None)"
  by (cases x) (auto simp: opt_to_sql_def text_to_sql_def)

interpretation sent: write_pair dl sent_sql sent_audit_sql 8 8 "sent_params dl i h g b l" "sent_params dl i h g b l"
  now i "\<lambda>r. sent_gas_columns g b l (r\<lparr> r_status := INMEMPOOL, r_hash := Some h, r_sent_at := Some now \<rparr>)"
  audit_sent for dl i h g b l now
  by (unfold_locales; clarsimp simp: bound simp del: One_nat_def bind_from.simps;
      clarsimp simp: row_simps sent_values sent_gas_columns_def audit_sent_def simp del: One_nat_def)

interpretation noop: write_pair dl noop_sql noop_audit_sql 6 6 "noop_params dl i to sp g" "noop_params dl i to sp g"
  now i "\<lambda>r. r\<lparr> r_to := to, r_value := 0, r_data := [], r_blobs := None, r_gas_limit := Some g, r_speed := sp \<rparr>"
  audit_status for dl i to sp g now
  by (unfold_locales; clarsimp simp: bound simp del: One_nat_def bind_from.simps;
      clarsimp simp: row_simps sent_values audit_status_def simp del: One_nat_def)

interpretation failed: write_pair dl failed_sql failed_audit_sql 3 3 "failed_params i e" "failed_params i e"
  now i "\<lambda>r. r\<lparr> r_status := FAILED, r_failed_at := Some now, r_failed_reason := Some (take 2000 e) \<rparr>"
  audit_status for dl i e now
  by (unfold_locales; clarsimp simp: bound simp del: One_nat_def bind_from.simps;
      clarsimp simp: row_simps sent_values audit_status_def simp del: One_nat_def)

interpretation mined: write_pair dl mined_sql mined_audit_sql 16 16
  "mined_params dl t rc (Some (rc_transaction_hash rc))" "mined_params dl t rc (tx_known_transaction_hash t)" now "tx_id t"
  "\<lambda>r. r\<lparr> r_status := MINED, r_to := tx_to t, r_from := tx_from t, r_value := tx_value t,
     r_data := tx_data t, r_nonce := tx_nonce t, r_chain_id := tx_chain_id t,
     r_gas_limit := Some (ucast (rc_gas_used rc)), r_block_hash := rc_block_hash rc,
     r_block_number := rc_block_number rc, r_speed := tx_speed t, r_hash := Some (rc_transaction_hash rc),
     r_sent_max_fee_per_gas := tx_sent_with_max_fee_per_gas t,
     r_sent_max_priority_fee_per_gas := tx_sent_with_max_priority_fee_per_gas t,
     r_external_id := tx_external_id t, r_mined_at := Some now \<rparr>"
  "\<lambda>r. (audit_block r)\<lparr> r_hash := tx_known_transaction_hash t \<rparr>" for dl t rc now
  by (unfold_locales; clarsimp simp: bound simp del: One_nat_def bind_from.simps;
      clarsimp simp: row_simps sent_values audit_block_def simp del: One_nat_def)

interpretation confirmed: write_pair dl confirmed_sql confirmed_audit_sql 2 2
  "[p_tx_id i, p_status CONFIRMED]" "[p_tx_id i, p_status CONFIRMED]" now i
  "\<lambda>r. r\<lparr> r_status := CONFIRMED, r_confirmed_at := Some now \<rparr>" audit_block for dl i now
  by (unfold_locales; clarsimp simp: bound simp del: One_nat_def bind_from.simps;
      clarsimp simp: row_simps sent_values audit_block_def simp del: One_nat_def)

interpretation renumbered: write_pair dl nonce_sql nonce_audit_sql 2 2
  "[p_tx_id i, p_nonce_i64 k]" "[p_tx_id i, p_nonce_i64 k]" now i "\<lambda>r. r\<lparr> r_nonce := k \<rparr>" audit_block for dl i k now
  by (unfold_locales; clarsimp simp: bound simp del: One_nat_def bind_from.simps;
      clarsimp simp: row_simps sent_values audit_block_def nonce_to_sql_def i64_of_nonce_def simp del: One_nat_def)

interpretation expired: write_pair dl expired_sql expired_audit_sql 2 2
  "[p_tx_id i, p_status EXPIRED]" "[p_tx_id i, p_status EXPIRED]" now i
  "\<lambda>r. r\<lparr> r_status := EXPIRED, r_expired_at := Some now \<rparr>" audit_expired for dl i now
  by (unfold_locales; clarsimp simp: bound simp del: One_nat_def bind_from.simps;
      clarsimp simp: row_simps sent_values audit_expired_def simp del: One_nat_def)

interpretation updated: write_pair dl update_sql update_audit_sql 25 1 "update_params dl t" "[p_tx_id (tx_id t)]"
  now "tx_id t" "updated_row t now" audit_update for dl t now
  by (unfold_locales; (clarsimp simp: bound simp del: One_nat_def bind_from.simps)?;
      clarsimp simp: row_simps sent_values updated_row_def audit_update_def failed_reason_wire
        simp del: One_nat_def)

text \<open>The inserts.\<close>

lemma saved_columns:
  "bind_params (assign_uses save_sql) 18 (save_params dl sha rid t) = Inr ws \<Longrightarrow>
   represents dl (new_columns save_sql ws now w) (saved_row sha rid t)"
  by (clarsimp simp: bound simp del: One_nat_def bind_from.simps;
      clarsimp simp: row_simps sent_values saved_row_def base_row_def upt_rec)

lemma failed_on_send_columns:
  "bind_params (assign_uses failed_on_send_sql) 16 (failed_on_send_params dl sha rid t e) = Inr ws \<Longrightarrow>
   represents dl (new_columns failed_on_send_sql ws now w)
     ((base_row rid t)\<lparr> r_failed_at := Some now, r_failed_reason := Some (take 2000 e),
        r_request_digest := Some (transaction_digest sha t) \<rparr>)"
  by (clarsimp simp: bound simp del: One_nat_def bind_from.simps;
      clarsimp simp: row_simps sent_values base_row_def upt_rec)

lemma attempt_columns_new:
  "bind_params (assign_uses attempt_sql) 22 (attempt_params dl rid t h g b l) = Inr ws \<Longrightarrow>
   represents dl (new_columns attempt_sql ws now w) (attempt_row rid t h g b l now)"
  by (clarsimp simp: bound simp del: One_nat_def bind_from.simps;
      clarsimp simp: row_simps sent_values attempt_row_def base_row_def sent_gas_columns_def upt_rec)

lemma attempt_columns_merged:
  assumes "represents dl new (attempt_row rid t h g b l now)" "represents dl w r" "r_id r = tx_id t"
  shows "represents dl (on_conflict (remove1 C_id attempt_columns) new w) (merge_attempt (attempt_row rid t h g b l now) r)"
  using assms
  by (clarsimp simp: row_simps on_conflict_def merge_attempt_def attempt_row_def base_row_def sent_gas_columns_def)

lemma attempt_columns_copied:
  "represents dl w r \<Longrightarrow> represents dl (new_columns (copied attempt_audit_columns) ws now w) (audit_attempt r)"
  by (clarsimp simp: row_simps sent_values audit_attempt_def)

lemma copied_rows:
  "list_all2 (represents dl) vs rs \<Longrightarrow>
   list_all2 (represents dl) (map (new_columns (copied attempt_audit_columns) ws now) vs) (map audit_attempt rs)"
  by (induction rule: list_all2_induct) (auto simp: attempt_columns_copied)

lemma insert_both_refines:
  assumes rep: "represents_db dl wd d"
    and sql: "insert_both as n ps now wd = Inr wd'"
    and tab: "commit (db_rows d @ [r]) [r] u d = Inr (d', v)"
    and row: "\<And>ws w. bind_params (assign_uses as) n ps = Inr ws \<Longrightarrow> represents dl (new_columns as ws now w) r"
  shows "represents_db dl wd' d'"
proof -
  obtain ws where ws: "bind_params (assign_uses as) n ps = Inr ws"
    and wd': "wd' = \<lparr> wd_live = wd_live wd @ [new_columns as ws now (\<lambda>c. WNull)],
                      wd_log = wd_log wd @ [new_columns as ws now (\<lambda>c. WNull)] \<rparr>"
    using sql by (auto simp: insert_both_def run_insert_sql_def and_then_Inr checked_rows_Inr)
  show ?thesis
    using rep row [OF ws] commit_tables [OF tab] by (simp add: wd' represents_db_def list_all2_appendI)
qed

lemma attempt_refines:
  assumes rep: "represents_db dl wd d"
    and sql: "sql_transaction_broadcast_attempt dl rid t h g b l now wd = Inr wd'"
    and tab: "transaction_broadcast_attempt rid t h g b l now d = Inr (d', u)"
  shows "represents_db dl wd' d'"
proof -
  let ?new = "attempt_row rid t h g b l now"
  let ?rs = "if rows_with_id (tx_id t) (db_rows d) = [] then db_rows d @ [?new]
     else update_where (\<lambda>r. r_id r = tx_id t) (merge_attempt ?new) (db_rows d)"
  obtain ws vs where ws: "bind_params (assign_uses attempt_sql) 22 (attempt_params dl rid t h g b l) = Inr ws"
    and vs: "bind_params ((1, CtUuid) # assign_uses (copied attempt_audit_columns)) 1 [p_tx_id (tx_id t)] = Inr vs"
    and wd': "wd' = \<lparr> wd_live = upserted (new_columns attempt_sql ws now (\<lambda>c. WNull)) (wd_live wd),
        wd_log = wd_log wd @ map (new_columns (copied attempt_audit_columns) vs now)
          (filter (\<lambda>w. w C_id = vs ! 0) (upserted (new_columns attempt_sql ws now (\<lambda>c. WNull)) (wd_live wd))) \<rparr>"
    using sql by (auto simp: sql_transaction_broadcast_attempt_def run_insert_sql_def run_audit_sql_def and_then_Inr
        checked_rows_Inr simp del: One_nat_def)
  define new where "new = new_columns attempt_sql ws now (\<lambda>c. WNull)"
  define live where "live = upserted new (wd_live wd)"
  have new: "represents dl new ?new" unfolding new_def using ws by (rule attempt_columns_new)
  have id: "new C_id = WUuid (tx_id t)"
    using represents_id [OF new] by (simp add: attempt_row_def base_row_def sent_gas_columns_def)
  have rows: "list_all2 (represents dl) (wd_live wd) (db_rows d)" using rep by (simp add: represents_db_def)
  have hit: "list_ex (\<lambda>w. w C_id = new C_id) (wd_live wd) \<longleftrightarrow> rows_with_id (tx_id t) (db_rows d) \<noteq> []"
    using rows by (induction rule: list_all2_induct) (auto simp: id rows_with_id_def represents_id)
  have merged: "list_all2 (represents dl) live ?rs"
  proof (cases "rows_with_id (tx_id t) (db_rows d) = []")
    case True
    then show ?thesis using rows new hit by (simp add: live_def upserted_def list_all2_appendI)
  next
    case False
    have "list_all2 (represents dl)
        (map (\<lambda>w. if w C_id = WUuid (tx_id t) then on_conflict (remove1 C_id attempt_columns) new w else w) (wd_live wd))
        (update_where (\<lambda>r. r_id r = tx_id t) (merge_attempt ?new) (db_rows d))"
      using rows by (induction rule: list_all2_induct)
        (auto simp: update_where_def represents_id attempt_columns_merged [OF new])
    then show ?thesis using False hit by (simp add: live_def upserted_def id)
  qed
  have d': "d' = \<lparr> db_rows = ?rs, db_audit = db_audit d @ map audit_attempt (rows_with_id (tx_id t) ?rs) \<rparr>"
    using tab commit_tables by (fastforce simp: transaction_broadcast_attempt_def Let_def)
  have "list_all2 (represents dl) (map (new_columns (copied attempt_audit_columns) ws now)
      (filter (\<lambda>w. w C_id = WUuid (tx_id t)) live)) (map audit_attempt (rows_with_id (tx_id t) ?rs))" for ws
    using copied_rows [OF list_all2_filter_id [OF merged]] by (simp only: rows_with_id_def)
  moreover have "vs ! 0 = WUuid (tx_id t)"
    using vs by (clarsimp simp: bound simp del: One_nat_def bind_from.simps)
  ultimately show ?thesis
    using rep merged by (simp add: wd' d' new_def [symmetric] live_def [symmetric] represents_db_def list_all2_appendI)
qed


section \<open>A transaction through the columns\<close>

lemma row_ok_represents:
  assumes "represents dl w r" "pred_option (\<lambda>e. length e \<le> 255) (r_external_id r)"
  shows "row_ok tb w"
proof -
  have speeds: "label_to_sql speed_to_sql speed_enum s = Inr v \<Longrightarrow> value_ok speed_enum v \<and> v \<noteq> WNull" for s v
    by (cases s) (auto simp: label_to_sql_def speed_to_sql_def and_then_Inr speed_enum_def split: if_splits)
  have statuses: "label_to_sql status_to_sql status_enum s = Inr v \<Longrightarrow> value_ok status_enum v \<and> v \<noteq> WNull" for s v
    by (cases s) (auto simp: label_to_sql_def status_to_sql_def and_then_Inr status_enum_def split: if_splits)
  have varchar: "WText x = v \<Longrightarrow> length x \<le> n \<Longrightarrow> value_ok (CtVarchar n) v" for x v n by auto
  have "value_ok (column_type_of c) (w c) \<and> (not_null tb c \<longrightarrow> w c \<noteq> WNull)" for c
    using representsD [OF assms(1), of c] assms(2) speeds statuses
    by (cases c) (auto simp: not_null_def opt_to_sql_def text_to_sql_def transaction_id_to_sql_def relayer_id_to_sql_def
        address_to_sql_def nonce_to_sql_def chain_id_to_sql_def time_to_sql_def
        dest: weis.not_null intro: varchar split: option.splits)
  then show ?thesis by (simp add: row_ok_def list_all_iff)
qed

lemma save_binds:
  assumes "amount_fits dl (tx_value t)" "pred_option (amount_fits dl) (tx_gas_limit t)"
    and "pred_option (list_all (\<lambda>b. length b = BYTES_PER_BLOB)) (tx_blobs t)"
  shows "\<exists>ws. bind_params (assign_uses save_sql) 18 (save_params dl sha rid t) = Inr ws"
proof -
  obtain v where v: "value_to_sql dl (tx_value t) = Inr v" using weis.stored assms(1) by blast
  obtain g where g: "opt_to_sql (gas_limit_to_sql dl) (tx_gas_limit t) = Inr g"
    using gas_limits.opt_stored [of "tx_gas_limit t" dl] assms(2) by (auto simp: option.pred_set)
  obtain b where b: "opt_to_sql (vec_to_sql (blob_to_sql CtBytea)) (tx_blobs t) = Inr b"
    using blobs.vec_stored assms(3) by (cases "tx_blobs t") (auto simp: opt_to_sql_def)
  obtain h where h: "opt_to_sql hash_to_sql (tx_known_transaction_hash t) = Inr h"
    using hashes.opt_stored by blast
  obtain e where e: "opt_to_sql text_to_sql (tx_external_id t) = Inr e" using texts.opt_stored by blast
  obtain c where c: "opt_to_sql transaction_id_to_sql (tx_cancelled_by_transaction_id t) = Inr c"
    using transaction_ids.opt_stored by blast
  obtain s1 where s1: "label_to_sql speed_to_sql speed_enum (tx_speed t) = Inr s1" using speeds.stored by blast
  obtain s2 where s2: "label_to_sql status_to_sql status_enum (tx_status t) = Inr s2" using statuses.stored by blast
  show ?thesis
    using v g b h e c s1 s2
    by (simp add: bind_params_Inr save_types save_params_def bind_from_Cons accepts_defs address_to_sql_def
        nonce_to_sql_def chain_id_to_sql_def data_to_sql_def relayer_id_to_sql_def opt_to_sql_simps sent_values
        del: bind_from.simps)
qed

definition savable :: "('d, 'z) decimal_lib_scheme \<Rightarrow> transaction \<Rightarrow> bool" where
  "savable dl t =
     (decimal_exact dl \<and> unat (tx_value t) < 2 ^ 96 \<and> pred_option (\<lambda>g. unat g < 2 ^ 96) (tx_gas_limit t) \<and>
      pred_option (list_all (\<lambda>b. length b = BYTES_PER_BLOB)) (tx_blobs t) \<and>
      pred_option (\<lambda>e. length e \<le> 255) (tx_external_id t))"

lemma save_succeeds:
  assumes "savable dl t"
  shows "\<exists>w. sql_save_transaction dl sha rid t now wd =
      Inr \<lparr> wd_live = wd_live wd @ [w], wd_log = wd_log wd @ [w] \<rparr> \<and>
    represents dl w (saved_row sha rid t) \<and> row_fits dl (saved_row sha rid t)"
proof -
  have amounts: "amount_fits dl (tx_value t)" "pred_option (amount_fits dl) (tx_gas_limit t)"
    and blobs: "pred_option (list_all (\<lambda>b. length b = BYTES_PER_BLOB)) (tx_blobs t)"
    using assms by (auto simp: savable_def amount_fits_def option.pred_set)
  obtain ws where ws: "bind_params (assign_uses save_sql) 18 (save_params dl sha rid t) = Inr ws"
    using save_binds [OF amounts blobs] by blast
  define w where "w = new_columns save_sql ws now (\<lambda>c. WNull)"
  have w: "represents dl w (saved_row sha rid t)" unfolding w_def using ws by (rule saved_columns)
  have "row_ok tb w" for tb
    using row_ok_represents [OF w] assms by (simp add: savable_def saved_row_def base_row_def)
  then have "sql_save_transaction dl sha rid t now wd =
      Inr \<lparr> wd_live = wd_live wd @ [w], wd_log = wd_log wd @ [w] \<rparr>"
    by (simp add: sql_save_transaction_def insert_both_def run_insert_sql_def ws checked_rows_def w_def)
  moreover have "row_fits dl (saved_row sha rid t)"
    using amounts blobs by (simp add: row_fits_def saved_row_def base_row_def)
  ultimately show ?thesis using w by blast
qed


text \<open>A decimal that holds 96 bits, for concrete inputs.\<close>

definition ex_decimal :: "nat decimal_lib" where
  "ex_decimal =
     \<lparr> dl_from_str = (\<lambda>s. case digits_value 0 s of
          None \<Rightarrow> Inl ''invalid'' | Some n \<Rightarrow> if n < 2 ^ 96 then Inr n else Inl ''overflow''),
       dl_to_sql = (\<lambda>n. Inr (int n)),
       dl_from_sql = (\<lambda>i. if 0 \<le> i \<and> i < 2 ^ 96 then Inr (nat i) else Inl WrongFormat),
       dl_display = show_digits,
       dl_u256_from_str = (\<lambda>s. case digits_value 0 s of None \<Rightarrow> Inl ''invalid'' | Some n \<Rightarrow> Inr (of_nat n)) \<rparr>"

lemma ex_decimal_laws: "decimal_exact ex_decimal" "decimal_bounded ex_decimal"
proof -
  have "int n < 2 ^ 96" if "n < 2 ^ 96" for n :: nat
  proof -
    have "int n < int (2 ^ 96)" using that by (simp only: of_nat_less_iff)
    then show ?thesis by simp
  qed
  then show "decimal_exact ex_decimal" by (simp add: decimal_exact_def ex_decimal_def digits_value_show)
  show "decimal_bounded ex_decimal" by (simp add: decimal_bounded_def ex_decimal_def digits_value_show)
qed

text \<open>An amount above 96 bits cannot be saved, although its column has room for 80 digits.\<close>

lemma large_value_rejected:
  assumes "decimal_bounded dl" "2 ^ 96 \<le> unat (tx_value t)"
  shows "\<exists>e. sql_save_transaction dl sha rid t now wd = Inl (ToSqlFailed 7 (DecimalRejected e))"
proof -
  obtain e where "value_to_sql dl (tx_value t) = Inl (DecimalRejected e)"
    using assms by (auto simp: decimal_bounded_def value_to_sql_def decimal_text_to_sql_def)
  then show ?thesis
    by (simp add: sql_save_transaction_def insert_both_def run_insert_sql_def bind_params_def save_types
        save_params_def to_sql_checked_def accepts_defs address_to_sql_def nonce_to_sql_def chain_id_to_sql_def
        data_to_sql_def relayer_id_to_sql_def transaction_id_to_sql_def)
qed

text \<open>A price above 64 bits is stored as JSON null and read back as no price at all.\<close>

lemma large_price_forgotten:
  assumes "2 ^ 64 \<le> unat (gp_max_fee g)"
  shows "gas_price_to_value g = JNull" "json_column gas_price_from_value (WJson (gas_price_to_value g)) = Inr None"
proof -
  show "gas_price_to_value g = JNull"
    using assms by (simp add: gas_price_to_value_def u128_to_json_def split: option.splits)
  then show "json_column gas_price_from_value (WJson (gas_price_to_value g)) = Inr None"
    by (simp add: json_column_def opt_from_sql_def gas_price_from_value_def)
qed

text \<open>The order of the column is not the order of the nonces: those above 63 bits come first.\<close>

lemma large_nonces_first:
  "nonce_to_sql n = Inr (WInt8 i) \<Longrightarrow> i < 0 \<longleftrightarrow> 2 ^ 63 \<le> unat n"
proof -
  assume "nonce_to_sql n = Inr (WInt8 i)"
  then have "i = sint n" by (simp add: nonce_to_sql_def i64_of_nonce_def)
  moreover have "sint n < 0 \<longleftrightarrow> 2 ^ 63 \<le> uint n"
  proof -
    have "sint n < 0 \<longleftrightarrow> bit (uint n) 63" by (simp add: sint_uint signed_take_bit_negative_iff)
    also have "\<dots> \<longleftrightarrow> odd (uint n div 2 ^ 63)" by (simp add: bit_iff_odd)
    finally have bit: "sint n < 0 \<longleftrightarrow> odd (uint n div 2 ^ 63)" .
    have half: "odd (k div m) \<longleftrightarrow> m \<le> k" if "0 \<le> k" "k < m + m" for k m :: int
    proof (cases "m \<le> k")
      case True
      then have "k div m = 1" using that by (intro int_div_pos_eq [of k m 1 "k - m"]) auto
      then show ?thesis using True by simp
    qed (use that in \<open>simp add: div_pos_pos_trivial\<close>)
    have "odd (uint n div 2 ^ 63) \<longleftrightarrow> 2 ^ 63 \<le> uint n"
      using half [of "uint n" "2 ^ 63"] uint_bounded [of n] by simp
    then show ?thesis using bit by simp
  qed
  moreover have "int (2 ^ 63) \<le> int (unat n) \<longleftrightarrow> 2 ^ 63 \<le> unat n" by (simp only: of_nat_le_iff)
  then have "2 ^ 63 \<le> uint n \<longleftrightarrow> 2 ^ 63 \<le> unat n" by simp
  ultimately show ?thesis by simp
qed

section \<open>Concrete inputs\<close>

lemma ex_transaction_savable: "savable ex_decimal ex_transaction"
  using ex_decimal_laws by (simp add: savable_def ex_transaction_def queued_transaction_def ex_tts_def)


lemma empty_represented: "represents_db dl \<lparr> wd_live = [], wd_log = [] \<rparr> empty_db"
  by (simp add: represents_db_def empty_db_def)

lemma ex_table_write:
  "table_write (\<lambda>b. b) 5 (SaveTx 1 ex_transaction) empty_db =
     Inr (\<lparr> db_rows = [saved_row (\<lambda>b. b) 1 ex_transaction], db_audit = [saved_row (\<lambda>b. b) 1 ex_transaction] \<rparr>, ())"
  by (simp add: save_transaction_def commit_def check_rows_def empty_db_def external_keys_def cancelled_by_ok_def
      saved_row_def base_row_def ex_transaction_def queued_transaction_def ex_tts_def)


end
