(* ===== verification/Read_Api.thy ===== *)
theory Read_Api
  imports Relayer_Api Setup_Config
begin

text \<open>
  The endpoints that only read (transaction/api/get_*.rs, signing/api/get_*.rs, network/api/): which
  credentials each asks for, in which order, and what it answers. The faults of the queries, the
  receipt a node reports and the pages of signatures are inputs; a read still fills the caches of
  transactions and relayers.
\<close>

section \<open>Answers\<close>

record status_result =
  st_hash :: "transaction_hash option"
  st_status :: transaction_status
  st_receipt :: "receipt option"

record network_info =
  nw_name :: string
  nw_chain_id :: chain_id
  nw_provider_urls :: "string list"

definition network_of_setup :: "network_setup \<Rightarrow> network_info" where
  "network_of_setup n =
     \<lparr> nw_name = ns_name n, nw_chain_id = ns_chain_id n, nw_provider_urls = ns_provider_urls n \<rparr>"

text \<open>The inputs of one request.\<close>

record read_env =
  re_lookup :: relayer_call
  re_fault :: "string option"
  re_receipt :: "transaction_hash \<Rightarrow> string + receipt option"
  re_texts :: "db_error + signed_text paging_result"
  re_typed :: "db_error + signed_text paging_result"

text \<open>An ambiguous external id is a conflict; every other fault of the database is internal.\<close>

definition ambiguous_external_id :: "string \<Rightarrow> http_error" where
  "ambiguous_external_id shown = conflict shown"

section \<open>Transactions\<close>

text \<open>A transaction is shown only to those who may use its relayer.\<close>

definition show_to :: "app_config \<Rightarrow> header_map \<Rightarrow> transaction option \<Rightarrow> http_error + transaction option" where
  "show_to ac h r =
     (case r of
        None \<Rightarrow> Inr None
      | Some t \<Rightarrow> and_then (validate_auth_basic_or_api_key ac h (tx_from t) (tx_chain_id t)) (\<lambda>_. Inr (Some t)))"

definition cached_transaction ::
  "string option \<Rightarrow> transaction_id \<Rightarrow> server \<Rightarrow> server \<times> (db_error + transaction option)" where
  "cached_transaction fault i s =
     (case get_transaction_cached fault i (as_sys (sv_app s)) of (y, r) \<Rightarrow> (set_sys y s, r))"

definition api_get_transaction_by_id ::
  "api_params \<Rightarrow> header_map \<Rightarrow> read_env \<Rightarrow> transaction_id \<Rightarrow> server \<Rightarrow>
   server \<times> (http_error + transaction option)" where
  "api_get_transaction_by_id ai h env i s =
     (case validate_allowed_passed_basic_auth (sv_config s) h of
        Inl e \<Rightarrow> (s, Inl e)
      | Inr _ \<Rightarrow>
          (case cached_transaction (re_fault env) i s of
             (s1, r) \<Rightarrow> (s1, and_then (map_err (of_db_error ai) r) (show_to (sv_config s) h))))"

definition api_get_transaction_by_tx_hash ::
  "api_params \<Rightarrow> header_map \<Rightarrow> read_env \<Rightarrow> transaction_hash \<Rightarrow> server \<Rightarrow> http_error + transaction option" where
  "api_get_transaction_by_tx_hash ai h env x s =
     and_then (validate_allowed_passed_basic_auth (sv_config s) h) (\<lambda>_.
     and_then (map_err (of_db_error ai)
        (and_then (run_query (re_fault env) (get_transaction_by_hash x) (s_db (as_sys (sv_app s)))) (\<lambda>r. r)))
       (show_to (sv_config s) h))"

definition api_get_transaction_by_external_id ::
  "api_params \<Rightarrow> string \<Rightarrow> header_map \<Rightarrow> read_env \<Rightarrow> string \<Rightarrow> server \<Rightarrow> http_error + transaction option" where
  "api_get_transaction_by_external_id ai shown h env x s =
     and_then (validate_allowed_passed_basic_auth (sv_config s) h) (\<lambda>_.
     and_then (map_err (of_db_error ai)
        (run_query (re_fault env) (get_transaction_by_external_id x) (s_db (as_sys (sv_app s))))) (\<lambda>r.
     and_then (map_err (\<lambda>_. ambiguous_external_id shown) r) (show_to (sv_config s) h)))"

text \<open>
  The lookup of a relayer and the check of the caller against it. \<open>missing\<close> is the message of the
  endpoint.
\<close>

definition for_relayer ::
  "api_params \<Rightarrow> header_map \<Rightarrow> read_env \<Rightarrow> string \<Rightarrow> relayer_id \<Rightarrow> server \<Rightarrow> server \<times> (http_error + relayer)" where
  "for_relayer ai h env missing i s =
     (case lookup_relayer (re_lookup env) i s of
        (s1, r) \<Rightarrow>
          (s1, and_then (map_err (of_db_error ai) r) (\<lambda>r.
               and_then (ok_or (not_found missing) r) (\<lambda>r.
               and_then (validate_auth_basic_or_api_key (sv_config s) h (rl_address r) (rl_chain_id r)) (\<lambda>_.
                 Inr r)))))"

definition api_get_transaction_by_external_id_for_relayer ::
  "api_params \<Rightarrow> header_map \<Rightarrow> read_env \<Rightarrow> relayer_id \<Rightarrow> string \<Rightarrow> server \<Rightarrow>
   server \<times> (http_error + transaction)" where
  "api_get_transaction_by_external_id_for_relayer ai h env i x s =
     (case validate_allowed_passed_basic_auth (sv_config s) h of
        Inl e \<Rightarrow> (s, Inl e)
      | Inr _ \<Rightarrow>
          (case for_relayer ai h env ''Relayer does not exist'' i s of
             (s1, r) \<Rightarrow>
               (s1, and_then r (\<lambda>_.
                    and_then (map_err (of_db_error ai)
                       (run_query (re_fault env) (get_transaction_by_external_id_for_relayer i x)
                          (s_db (as_sys (sv_app s1)))))
                      (ok_or (not_found ''Transaction does not exist''))))))"

text \<open>Before it is mined, and once it expired, a transaction has no receipt to ask for.\<close>

definition has_no_receipt :: "transaction_status \<Rightarrow> bool" where
  "has_no_receipt st = (st = PENDING \<or> st = INMEMPOOL \<or> st = EXPIRED)"

definition status_of_stored ::
  "api_params \<Rightarrow> read_env \<Rightarrow> transaction \<Rightarrow> server \<Rightarrow> server \<times> (http_error + status_result)" where
  "status_of_stored ai env t s =
     (let answer = (\<lambda>x r. \<lparr> st_hash = x, st_status = tx_status t, st_receipt = r \<rparr>)
      in if has_no_receipt (tx_status t)
         then (s, Inr (answer (tx_known_transaction_hash t) None))
         else
           (case lookup_relayer (re_lookup env) (tx_relayer_id t) s of
              (s1, r) \<Rightarrow>
                (s1, and_then (map_err (of_db_error ai) r) (\<lambda>r.
                     and_then (ok_or (not_found ''Relayer not found'') r) (\<lambda>r.
                       case tx_known_transaction_hash t of
                         None \<Rightarrow> Inr (answer None None)
                       | Some x \<Rightarrow>
                           and_then (ok_or (internal_server_error (Some ''Evm provider can not be found''))
                              (find_provider_for_chain_id (sv_providers s) (rl_chain_id r))) (\<lambda>_.
                           and_then (map_err (\<lambda>e. internal_server_error (Some e)) (re_receipt env x)) (\<lambda>receipt.
                             Inr (answer (Some x) receipt))))))))"

definition api_get_transaction_status ::
  "api_params \<Rightarrow> header_map \<Rightarrow> read_env \<Rightarrow> transaction_id \<Rightarrow> server \<Rightarrow>
   server \<times> (http_error + status_result)" where
  "api_get_transaction_status ai h env i s =
     (case validate_allowed_passed_basic_auth (sv_config s) h of
        Inl e \<Rightarrow> (s, Inl e)
      | Inr _ \<Rightarrow>
          (case cached_transaction (re_fault env) i s of
             (s1, r) \<Rightarrow>
               (case and_then (map_err (of_db_error ai) r) (\<lambda>r.
                     and_then (ok_or (not_found ''Transaction id not found'') r) (\<lambda>t.
                     and_then (validate_auth_basic_or_api_key (sv_config s) h (tx_from t) (tx_chain_id t)) (\<lambda>_.
                       Inr t))) of
                  Inl e \<Rightarrow> (s1, Inl e)
                | Inr t \<Rightarrow> status_of_stored ai env t s1)))"

definition api_get_relayer_transactions ::
  "api_params \<Rightarrow> header_map \<Rightarrow> read_env \<Rightarrow> relayer_id \<Rightarrow> u32 \<Rightarrow> u32 \<Rightarrow> server \<Rightarrow>
   server \<times> (http_error + transaction paging_result)" where
  "api_get_relayer_transactions ai h env i limit offset s =
     (case validate_allowed_passed_basic_auth (sv_config s) h of
        Inl e \<Rightarrow> (s, Inl e)
      | Inr _ \<Rightarrow>
          (case for_relayer ai h env ''Relayer could not be found'' i s of
             (s1, r) \<Rightarrow>
               (s1, and_then r (\<lambda>_. map_err (of_db_error ai)
                      (run_query (re_fault env)
                         (get_transactions_for_relayer i \<lparr> pc_limit = limit, pc_offset = offset \<rparr>)
                         (s_db (as_sys (sv_app s1))))))))"

text \<open>The counts come from the running queues; these two endpoints look the relayer up first.\<close>

definition api_get_transactions_pending_count ::
  "api_params \<Rightarrow> header_map \<Rightarrow> read_env \<Rightarrow> relayer_id \<Rightarrow> server \<Rightarrow> server \<times> (http_error + nat)" where
  "api_get_transactions_pending_count ai h env i s =
     (case for_relayer ai h env ''Relayer could not be found'' i s of
        (s1, r) \<Rightarrow> (s1, and_then r (\<lambda>_. Inr (pending_transactions_count (as_sys (sv_app s1)) i))))"

definition api_get_transactions_inmempool_count ::
  "api_params \<Rightarrow> header_map \<Rightarrow> read_env \<Rightarrow> relayer_id \<Rightarrow> server \<Rightarrow> server \<times> (http_error + nat)" where
  "api_get_transactions_inmempool_count ai h env i s =
     (case for_relayer ai h env ''Relayer could not be found'' i s of
        (s1, r) \<Rightarrow> (s1, and_then r (\<lambda>_. Inr (inmempool_transactions_count (as_sys (sv_app s1)) i))))"

section \<open>Signatures\<close>

definition api_get_signed_text_history ::
  "api_params \<Rightarrow> header_map \<Rightarrow> read_env \<Rightarrow> relayer_id \<Rightarrow> server \<Rightarrow>
   server \<times> (http_error + signed_text paging_result)" where
  "api_get_signed_text_history ai h env i s =
     (case validate_allowed_passed_basic_auth (sv_config s) h of
        Inl e \<Rightarrow> (s, Inl e)
      | Inr _ \<Rightarrow>
          (case for_relayer ai h env ''Relayer could not be found'' i s of
             (s1, r) \<Rightarrow> (s1, and_then r (\<lambda>_. map_err (of_db_error ai) (re_texts env)))))"

definition api_get_signed_typed_data_history ::
  "api_params \<Rightarrow> header_map \<Rightarrow> read_env \<Rightarrow> relayer_id \<Rightarrow> server \<Rightarrow>
   server \<times> (http_error + signed_text paging_result)" where
  "api_get_signed_typed_data_history ai h env i s =
     (case validate_allowed_passed_basic_auth (sv_config s) h of
        Inl e \<Rightarrow> (s, Inl e)
      | Inr _ \<Rightarrow>
          (case for_relayer ai h env ''Relayer could not be found'' i s of
             (s1, r) \<Rightarrow> (s1, and_then r (\<lambda>_. map_err (of_db_error ai) (re_typed env)))))"

section \<open>Networks\<close>

text \<open>Networks and gas prices are shown to the administrator only.\<close>

definition api_network :: "network_setup list \<Rightarrow> header_map \<Rightarrow> chain_id \<Rightarrow> http_error + network_info" where
  "api_network configs h c =
     and_then (validate_basic_auth_valid h) (\<lambda>_.
       case find (\<lambda>n. ns_chain_id n = c) configs of
         Some n \<Rightarrow> Inr (network_of_setup n)
       | None \<Rightarrow> Inl (not_found ''Could not find network are you sure its enabled in the rrelayer.yaml?''))"

definition api_networks :: "network_setup list \<Rightarrow> header_map \<Rightarrow> http_error + network_info list" where
  "api_networks configs h = and_then (validate_basic_auth_valid h) (\<lambda>_. Inr (map network_of_setup configs))"

definition api_get_gas_price ::
  "gas_oracle_cache \<Rightarrow> header_map \<Rightarrow> chain_id \<Rightarrow> http_error + gas_estimator_result" where
  "api_get_gas_price oracle h c =
     and_then (validate_basic_auth_valid h) (\<lambda>_. ok_or (not_found ''gas estimates not found'') (oracle c))"

section \<open>One reader\<close>

text \<open>The endpoints that show a transaction or what belongs to a relayer, as one function.\<close>

datatype read_op =
    ReadTransaction transaction_id
  | ReadByHash transaction_hash
  | ReadByExternalId string
  | ReadByExternalIdForRelayer relayer_id string
  | ReadStatus transaction_id
  | ReadTransactions relayer_id u32 u32
  | ReadPendingCount relayer_id
  | ReadInmempoolCount relayer_id
  | ReadTextHistory relayer_id
  | ReadTypedDataHistory relayer_id

datatype reader_answer =
    AnTransaction "transaction option"
  | AnStatus status_result
  | AnTransactions "transaction paging_result"
  | AnCount nat
  | AnSigned "signed_text paging_result"

definition wrap :: "('a \<Rightarrow> reader_answer) \<Rightarrow> server \<times> (http_error + 'a) \<Rightarrow> server \<times> (http_error + reader_answer)" where
  "wrap f r = (case r of (s, x) \<Rightarrow> (s, and_then x (\<lambda>a. Inr (f a))))"

definition serve_read ::
  "api_params \<Rightarrow> string \<Rightarrow> header_map \<Rightarrow> read_env \<Rightarrow> read_op \<Rightarrow> server \<Rightarrow> server \<times> (http_error + reader_answer)"
  where
  "serve_read ai shown h env op s =
     (case op of
        ReadTransaction i \<Rightarrow> wrap AnTransaction (api_get_transaction_by_id ai h env i s)
      | ReadByHash x \<Rightarrow> wrap AnTransaction (s, api_get_transaction_by_tx_hash ai h env x s)
      | ReadByExternalId e \<Rightarrow> wrap AnTransaction (s, api_get_transaction_by_external_id ai shown h env e s)
      | ReadByExternalIdForRelayer i e \<Rightarrow>
          wrap (AnTransaction \<circ> Some) (api_get_transaction_by_external_id_for_relayer ai h env i e s)
      | ReadStatus i \<Rightarrow> wrap AnStatus (api_get_transaction_status ai h env i s)
      | ReadTransactions i limit offset \<Rightarrow>
          wrap AnTransactions (api_get_relayer_transactions ai h env i limit offset s)
      | ReadPendingCount i \<Rightarrow> wrap AnCount (api_get_transactions_pending_count ai h env i s)
      | ReadInmempoolCount i \<Rightarrow> wrap AnCount (api_get_transactions_inmempool_count ai h env i s)
      | ReadTextHistory i \<Rightarrow> wrap AnSigned (api_get_signed_text_history ai h env i s)
      | ReadTypedDataHistory i \<Rightarrow> wrap AnSigned (api_get_signed_typed_data_history ai h env i s))"

text \<open>
  Whom an answer is about: the sender and chain of the transaction it shows or whose status it gives,
  else the relayer that was asked for. An answer that no transaction was found is about nobody.
\<close>

definition sender_of :: "transaction option \<Rightarrow> (evm_address \<times> chain_id) option" where
  "sender_of r = map_option (\<lambda>t. (tx_from t, tx_chain_id t)) r"

definition looked_up :: "read_env \<Rightarrow> relayer_id \<Rightarrow> server \<Rightarrow> (evm_address \<times> chain_id) option" where
  "looked_up env i s =
     (case snd (lookup_relayer (re_lookup env) i s) of
        Inr (Some r) \<Rightarrow> Some (rl_address r, rl_chain_id r) | _ \<Rightarrow> None)"

definition read_subject ::
  "read_env \<Rightarrow> read_op \<Rightarrow> reader_answer \<Rightarrow> server \<Rightarrow> (evm_address \<times> chain_id) option" where
  "read_subject env op a s =
     (case op of
        ReadStatus i \<Rightarrow>
          (case snd (cached_transaction (re_fault env) i s) of Inr r \<Rightarrow> sender_of r | Inl _ \<Rightarrow> None)
      | ReadByExternalIdForRelayer i e \<Rightarrow> looked_up env i s
      | ReadTransactions i limit offset \<Rightarrow> looked_up env i s
      | ReadPendingCount i \<Rightarrow> looked_up env i s
      | ReadInmempoolCount i \<Rightarrow> looked_up env i s
      | ReadTextHistory i \<Rightarrow> looked_up env i s
      | ReadTypedDataHistory i \<Rightarrow> looked_up env i s
      | _ \<Rightarrow> (case a of AnTransaction r \<Rightarrow> sender_of r | _ \<Rightarrow> None))"

end
