(* ===== verification/Sdk_Http.thy ===== *)
theory Sdk_Http
  imports Read_Api
begin

text \<open>
  The HTTP client of the SDK (sdk/src/api/http.rs, sdk/src/api/types.rs) and the answers of the server
  as it sees them: the URL and the headers of a request, the order in which the status of an answer is
  looked at, and the error each status becomes. Sending, base64 and the decoding of JSON are parameters.
\<close>

section \<open>Configuration and errors\<close>

datatype auth_config = BasicAuth string string | ApiKeyAuth string

record api_base_config =
  ab_server_url :: string
  ab_auth :: auth_config

text \<open>An error of reqwest is a failure to send, the error made of a status, or a body that does not decode.\<close>

datatype reqwest_error = SendFailed string | StatusError nat | DecodeFailed string

datatype api_sdk_error =
    HttpError reqwest_error
  | SdkConfigError string
  | SerializationError string
  | AuthError string
  | RateLimitError

section \<open>Requests\<close>

definition trim_end_slashes :: "string \<Rightarrow> string" where
  "trim_end_slashes s = rev (dropWhile (\<lambda>c. c = CHR ''/'') (rev s))"

definition trim_start_slashes :: "string \<Rightarrow> string" where
  "trim_start_slashes s = dropWhile (\<lambda>c. c = CHR ''/'') s"

definition build_url :: "api_base_config \<Rightarrow> string \<Rightarrow> string" where
  "build_url cfg endpoint = trim_end_slashes (ab_server_url cfg) @ ''/'' @ trim_start_slashes endpoint"

text \<open>
  A header value that is not visible ASCII makes the client panic, which is \<open>None\<close>. \<open>b64\<close> encodes
  base64.
\<close>

definition auth_header :: "(string \<Rightarrow> string) \<Rightarrow> auth_config \<Rightarrow> string \<times> string" where
  "auth_header b64 auth =
     (case auth of
        BasicAuth u p \<Rightarrow> (''Authorization'', ''Basic '' @ b64 (u @ '':'' @ p))
      | ApiKeyAuth k \<Rightarrow> (''x-rrelayer-api-key'', k))"

definition insert_all :: "(string \<times> string) list \<Rightarrow> header_map \<Rightarrow> header_map" where
  "insert_all extra h = fold (\<lambda>(k, v). header_insert k v) extra h"

definition build_headers ::
  "(string \<Rightarrow> string) \<Rightarrow> api_base_config \<Rightarrow> (string \<times> string) list \<Rightarrow> header_map option" where
  "build_headers b64 cfg extra =
     (case auth_header b64 (ab_auth cfg) of
        (k, v) \<Rightarrow>
          (case to_str v of
             None \<Rightarrow> None
           | Some v' \<Rightarrow>
               Some (insert_all extra (header_insert k v'
                      (header_insert ''Content-Type'' ''application/json'' Map.empty)))))"

section \<open>Answers\<close>

record 'b http_response =
  hs_status :: nat
  hs_body :: 'b

definition handle_response_status :: "'b http_response \<Rightarrow> api_sdk_error + unit" where
  "handle_response_status r =
     (if hs_status r = 401 then Inl (AuthError ''Unauthorized'')
      else if hs_status r = 403 then Inl (AuthError ''Forbidden'')
      else if hs_status r = 429 then Inl RateLimitError
      else Inr ())"

definition error_for_status :: "'b http_response \<Rightarrow> api_sdk_error + 'b http_response" where
  "error_for_status r =
     (if 400 \<le> hs_status r \<and> hs_status r < 600 then Inl (HttpError (StatusError (hs_status r))) else Inr r)"

type_synonym 'b sent = "string + 'b http_response"

definition checked :: "'b sent \<Rightarrow> api_sdk_error + 'b http_response" where
  "checked sent =
     and_then (map_err (\<lambda>e. HttpError (SendFailed e)) sent) (\<lambda>r.
     and_then (handle_response_status r) (\<lambda>_. error_for_status r))"

definition decoded :: "('b \<Rightarrow> string + 'a) \<Rightarrow> 'b http_response \<Rightarrow> api_sdk_error + 'a" where
  "decoded decode r = map_err (\<lambda>e. HttpError (DecodeFailed e)) (decode (hs_body r))"

text \<open>\<open>get\<close>, \<open>post\<close>, \<open>put\<close>, \<open>delete\<close> and their variants differ in the request; all read the answer the same way.\<close>

definition get_answer :: "('b \<Rightarrow> string + 'a) \<Rightarrow> 'b sent \<Rightarrow> api_sdk_error + 'a" where
  "get_answer decode sent = and_then (checked sent) (decoded decode)"

definition post_answer :: "('b \<Rightarrow> string + 'a) \<Rightarrow> 'b sent \<Rightarrow> api_sdk_error + 'a" where
  "post_answer decode sent = and_then (checked sent) (decoded decode)"

definition put_answer :: "('b \<Rightarrow> string + 'a) \<Rightarrow> 'b sent \<Rightarrow> api_sdk_error + 'a" where
  "put_answer decode sent = and_then (checked sent) (decoded decode)"

text \<open>The status variants do not read the body.\<close>

definition status_answer :: "'b sent \<Rightarrow> api_sdk_error + unit" where
  "status_answer sent = and_then (checked sent) (\<lambda>_. Inr ())"

text \<open>A 404 is no value; \<open>decode\<close> reads \<open>null\<close> as no value too.\<close>

definition get_or_none_answer :: "('b \<Rightarrow> string + 'a option) \<Rightarrow> 'b sent \<Rightarrow> api_sdk_error + 'a option" where
  "get_or_none_answer decode sent =
     and_then (map_err (\<lambda>e. HttpError (SendFailed e)) sent) (\<lambda>r.
       if hs_status r = 404 then Inr None else and_then (checked sent) (decoded decode))"

section \<open>What the server answers\<close>

fun status_code :: "http_status \<Rightarrow> nat" where
  "status_code BAD_REQUEST = 400"
| "status_code UNAUTHORIZED = 401"
| "status_code FORBIDDEN = 403"
| "status_code NOT_FOUND = 404"
| "status_code CONFLICT = 409"
| "status_code TOO_MANY_REQUESTS = 429"
| "status_code INTERNAL_SERVER_ERROR = 500"

text \<open>\<open>text\<close> and \<open>json\<close> render the body of an error and of an answer.\<close>

definition response_of :: "(string \<Rightarrow> 'b) \<Rightarrow> ('a \<Rightarrow> 'b) \<Rightarrow> http_error + 'a \<Rightarrow> 'b http_response" where
  "response_of text json r =
     (case r of
        Inl (st, m) \<Rightarrow> \<lparr> hs_status = status_code st, hs_body = text m \<rparr>
      | Inr a \<Rightarrow> \<lparr> hs_status = 200, hs_body = json a \<rparr>)"

text \<open>The error a status of the server becomes in the SDK.\<close>

definition seen_error :: "http_status \<Rightarrow> api_sdk_error" where
  "seen_error st =
     (case st of
        UNAUTHORIZED \<Rightarrow> AuthError ''Unauthorized''
      | FORBIDDEN \<Rightarrow> AuthError ''Forbidden''
      | TOO_MANY_REQUESTS \<Rightarrow> RateLimitError
      | _ \<Rightarrow> HttpError (StatusError (status_code st)))"

lemma checked_Inr_iff:
  "(checked (Inr r) = Inr r') = (r' = r \<and> (hs_status r < 400 \<or> 600 \<le> hs_status r))"
  by (auto simp: checked_def handle_response_status_def error_for_status_def)

lemma checked_response [simp]:
  "checked (Inr (response_of text json (Inl (st, m)))) = Inl (seen_error st)"
  "checked (Inr (response_of text json (Inr a))) = Inr (response_of text json (Inr a))"
  by (cases st; simp add: checked_def response_of_def handle_response_status_def error_for_status_def
        seen_error_def)+

lemma response_ok_status: "hs_status (response_of text json (Inr a)) = 200"
  by (simp add: response_of_def)

lemma body_of_answer [simp]: "hs_body (response_of text json (Inr a)) = json a"
  by (simp add: response_of_def)

lemma get_answer_of_server:
  assumes "\<And>a. decode (json a) = Inr a"
  shows "get_answer decode (Inr (response_of text json r)) =
           (case r of Inl (st, m) \<Rightarrow> Inl (seen_error st) | Inr a \<Rightarrow> Inr a)"
  using assms by (cases r) (auto simp: get_answer_def decoded_def)

text \<open>A transport error is reported as such, never as a missing value.\<close>

lemma get_or_none_of_server:
  assumes "\<And>a. decode (json a) = Inr (Some a)"
  shows "get_or_none_answer decode (Inr (response_of text json r)) =
           (case r of Inl (st, m) \<Rightarrow> if st = NOT_FOUND then Inr None else Inl (seen_error st) | Inr a \<Rightarrow> Inr (Some a))"
proof (cases r)
  case (Inl e)
  obtain st m where "e = (st, m)" by (cases e)
  moreover have "(hs_status (response_of text json (Inl (st, m)) :: 'b http_response) = 404) = (st = NOT_FOUND)"
    by (cases st) (simp_all add: response_of_def)
  ultimately show ?thesis
    using Inl by (simp add: get_or_none_answer_def)
next
  case (Inr a)
  then show ?thesis
    using assms by (simp add: get_or_none_answer_def decoded_def response_ok_status)
qed

end
