(* ===== verification/Sdk_Calls.thy ===== *)
theory Sdk_Calls
  imports Sdk_Http Text_Laws
begin

text \<open>
  The calls of the SDK (sdk/src/api/) as the requests they send, the routes of the server
  (core/src/*/api/mod.rs, startup.rs) with what their handlers take from a path, and the clients built
  on the calls (sdk/src/clients.rs). The texts of identifiers and hashes are parameters.
\<close>

section \<open>Texts in paths\<close>

record text_forms =
  tf_show_uuid :: "u128 \<Rightarrow> string"
  tf_parse_uuid :: "string \<Rightarrow> u128 option"
  tf_show_hash :: "transaction_hash \<Rightarrow> string"
  tf_parse_hash :: "string \<Rightarrow> transaction_hash option"

definition show_chain :: "chain_id \<Rightarrow> string" where
  "show_chain c = show_digits (unat c)"

definition show_bool :: "bool \<Rightarrow> string" where
  "show_bool b = (if b then ''true'' else ''false'')"

definition parse_bool :: "string \<Rightarrow> bool option" where
  "parse_bool s = (if s = ''true'' then Some True else if s = ''false'' then Some False else None)"

text \<open>\<open>str::parse\<close> for unsigned integers below \<open>bound\<close>.\<close>

definition parse_unsigned :: "nat \<Rightarrow> string \<Rightarrow> nat option" where
  "parse_unsigned bound s =
     (let ds = (case s of c # cs \<Rightarrow> if c = CHR ''+'' then cs else s | [] \<Rightarrow> [])
      in if ds = [] then None
         else (case digits_value 0 ds of None \<Rightarrow> None | Some n \<Rightarrow> if n < bound then Some n else None))"

definition parse_chain :: "string \<Rightarrow> chain_id option" where
  "parse_chain s = map_option of_nat (parse_unsigned (2 ^ 64) s)"

definition parse_gas_price :: "string \<Rightarrow> u128 option" where
  "parse_gas_price s = map_option of_nat (parse_unsigned (2 ^ 128) s)"

section \<open>Calls\<close>

datatype http_method = GET | POST | PUT | DELETE

text \<open>The bodies, as the values that are written as JSON.\<close>

datatype sdk_body =
    NoBody
  | UnitBody
  | TransactionBody relay_request
  | CreateBody string
  | CloneBody string chain_id
  | ImportBody string string evm_address
  | TextBody string
  | TypedDataBody typed_data

text \<open>\<open>sq_headers\<close> is none when the rate limit key is no header value: the call panics.\<close>

record sdk_request =
  sq_method :: http_method
  sq_endpoint :: string
  sq_query :: "(string \<times> string) list"
  sq_body :: sdk_body
  sq_headers :: "(string \<times> string) list option"

definition plain_request :: "http_method \<Rightarrow> string \<Rightarrow> sdk_body \<Rightarrow> sdk_request" where
  "plain_request m e b = \<lparr> sq_method = m, sq_endpoint = e, sq_query = [], sq_body = b, sq_headers = Some [] \<rparr>"

definition rate_limit_headers :: "string option \<Rightarrow> (string \<times> string) list option" where
  "rate_limit_headers key =
     (case key of
        None \<Rightarrow> Some []
      | Some k \<Rightarrow> map_option (\<lambda>v. [(RATE_LIMIT_HEADER_NAME, v)]) (to_str k))"

definition limited_request :: "http_method \<Rightarrow> string \<Rightarrow> sdk_body \<Rightarrow> string option \<Rightarrow> sdk_request" where
  "limited_request m e b key = (plain_request m e b)\<lparr> sq_headers := rate_limit_headers key \<rparr>"

definition show_u32 :: "u32 \<Rightarrow> string" where
  "show_u32 n = show_digits (unat n)"

definition paging_query :: "paging_context \<Rightarrow> (string \<times> string) list" where
  "paging_query pc = [(''limit'', show_u32 (pc_limit pc)), (''offset'', show_u32 (pc_offset pc))]"

definition query_request :: "string \<Rightarrow> (string \<times> string) list \<Rightarrow> sdk_request" where
  "query_request e q = (plain_request GET e NoBody)\<lparr> sq_query := q \<rparr>"

datatype transaction_call =
    TxGet transaction_id
  | TxGetByHash transaction_hash
  | TxGetByExternalId string
  | TxGetByExternalIdForRelayer relayer_id string
  | TxGetAll relayer_id paging_context
  | TxSend relayer_id relay_request "string option"
  | TxSendRandom chain_id relay_request "string option"
  | TxCancel transaction_id "string option"
  | TxReplace transaction_id relay_request "string option"
  | TxGetStatus transaction_id
  | TxInmempoolCount relayer_id
  | TxPendingCount relayer_id

fun transaction_request :: "text_forms \<Rightarrow> transaction_call \<Rightarrow> sdk_request" where
  "transaction_request tf (TxGet i) = plain_request GET (''transactions/'' @ tf_show_uuid tf i) NoBody"
| "transaction_request tf (TxGetByHash x) =
     plain_request GET (''transactions/hash/'' @ tf_show_hash tf x) NoBody"
| "transaction_request tf (TxGetByExternalId e) = plain_request GET (''transactions/external/'' @ e) NoBody"
| "transaction_request tf (TxGetByExternalIdForRelayer r e) =
     plain_request GET (''transactions/relayers/'' @ tf_show_uuid tf r @ ''/external/'' @ e) NoBody"
| "transaction_request tf (TxGetAll r pc) =
     query_request (''transactions/relayers/'' @ tf_show_uuid tf r) (paging_query pc)"
| "transaction_request tf (TxSend r rq key) =
     limited_request POST (''transactions/relayers/'' @ tf_show_uuid tf r @ ''/send'') (TransactionBody rq) key"
| "transaction_request tf (TxSendRandom c rq key) =
     limited_request POST (''transactions/relayers/'' @ show_chain c @ ''/send-random'') (TransactionBody rq) key"
| "transaction_request tf (TxCancel i key) =
     limited_request PUT (''transactions/cancel/'' @ tf_show_uuid tf i) UnitBody key"
| "transaction_request tf (TxReplace i rq key) =
     limited_request PUT (''transactions/replace/'' @ tf_show_uuid tf i) (TransactionBody rq) key"
| "transaction_request tf (TxGetStatus i) =
     plain_request GET (''transactions/status/'' @ tf_show_uuid tf i) NoBody"
| "transaction_request tf (TxInmempoolCount r) =
     plain_request GET (''transactions/relayers/'' @ tf_show_uuid tf r @ ''/inmempool/count'') NoBody"
| "transaction_request tf (TxPendingCount r) =
     plain_request GET (''transactions/relayers/'' @ tf_show_uuid tf r @ ''/pending/count'') NoBody"

text \<open>The cap of a gas price is any value with a text; the callers give numbers.\<close>

datatype relayer_api_call =
    RlGetAll "chain_id option" paging_context
  | RlGet relayer_id
  | RlCreate chain_id string
  | RlClone relayer_id chain_id string
  | RlDelete relayer_id
  | RlPause relayer_id
  | RlUnpause relayer_id
  | RlUpdateEip1559 relayer_id bool
  | RlUpdateMaxGasPrice relayer_id string
  | RlRemoveMaxGasPrice relayer_id
  | RlPendingCount relayer_id
  | RlInmempoolCount relayer_id
  | RlImport chain_id string string evm_address

definition chain_query :: "chain_id option \<Rightarrow> (string \<times> string) list" where
  "chain_query c = (case c of None \<Rightarrow> [] | Some c \<Rightarrow> [(''chainId'', show_chain c)])"

fun relayer_request :: "text_forms \<Rightarrow> relayer_api_call \<Rightarrow> sdk_request" where
  "relayer_request tf (RlGetAll c pc) = query_request ''relayers'' (chain_query c @ paging_query pc)"
| "relayer_request tf (RlGet i) = plain_request GET (''relayers/'' @ tf_show_uuid tf i) NoBody"
| "relayer_request tf (RlCreate c name) =
     plain_request POST (''relayers/'' @ show_chain c @ ''/new'') (CreateBody name)"
| "relayer_request tf (RlClone i c name) =
     plain_request POST (''relayers/'' @ tf_show_uuid tf i @ ''/clone'') (CloneBody name c)"
| "relayer_request tf (RlDelete i) = plain_request DELETE (''relayers/'' @ tf_show_uuid tf i) NoBody"
| "relayer_request tf (RlPause i) = plain_request PUT (''relayers/'' @ tf_show_uuid tf i @ ''/pause'') UnitBody"
| "relayer_request tf (RlUnpause i) =
     plain_request PUT (''relayers/'' @ tf_show_uuid tf i @ ''/unpause'') UnitBody"
| "relayer_request tf (RlUpdateEip1559 i b) =
     plain_request PUT (''relayers/'' @ tf_show_uuid tf i @ ''/gas/eip1559/'' @ show_bool b) UnitBody"
| "relayer_request tf (RlUpdateMaxGasPrice i cap) =
     plain_request PUT (''relayers/'' @ tf_show_uuid tf i @ ''/gas/max/'' @ cap) UnitBody"
| "relayer_request tf (RlRemoveMaxGasPrice i) =
     plain_request PUT (''relayers/'' @ tf_show_uuid tf i @ ''/gas/max/0'') UnitBody"
| "relayer_request tf (RlPendingCount i) =
     plain_request GET (''transactions/relayers/'' @ tf_show_uuid tf i @ ''/pending/count'') NoBody"
| "relayer_request tf (RlInmempoolCount i) =
     plain_request GET (''transactions/relayers/'' @ tf_show_uuid tf i @ ''/inmempool/count'') NoBody"
| "relayer_request tf (RlImport c name key a) =
     plain_request POST (''relayers/'' @ show_chain c @ ''/import'') (ImportBody name key a)"

definition allowlist_request :: "text_forms \<Rightarrow> relayer_id \<Rightarrow> paging_context \<Rightarrow> sdk_request" where
  "allowlist_request tf i pc = query_request (''relayers/'' @ tf_show_uuid tf i @ ''/allowlists'') (paging_query pc)"

text \<open>The histories put the page into the endpoint.\<close>

datatype sign_call =
    SgText relayer_id string "string option"
  | SgTypedData relayer_id typed_data "string option"
  | SgTextHistory relayer_id paging_context
  | SgTypedDataHistory relayer_id paging_context

definition page_suffix :: "paging_context \<Rightarrow> string" where
  "page_suffix pc = ''?limit='' @ show_u32 (pc_limit pc) @ ''&offset='' @ show_u32 (pc_offset pc)"

fun signing_request :: "text_forms \<Rightarrow> sign_call \<Rightarrow> sdk_request" where
  "signing_request tf (SgText r m key) =
     limited_request POST (''signing/relayers/'' @ tf_show_uuid tf r @ ''/message'') (TextBody m) key"
| "signing_request tf (SgTypedData r td key) =
     limited_request POST (''signing/relayers/'' @ tf_show_uuid tf r @ ''/typed-data'') (TypedDataBody td) key"
| "signing_request tf (SgTextHistory r pc) =
     plain_request GET (''signing/relayers/'' @ tf_show_uuid tf r @ ''/text-history'' @ page_suffix pc) NoBody"
| "signing_request tf (SgTypedDataHistory r pc) =
     plain_request GET (''signing/relayers/'' @ tf_show_uuid tf r @ ''/typed-data-history'' @ page_suffix pc) NoBody"

datatype network_call = NwGet chain_id | NwGetAll | NwGasPrices chain_id

fun network_request :: "network_call \<Rightarrow> sdk_request" where
  "network_request (NwGet c) = plain_request GET (''networks/'' @ show_chain c) NoBody"
| "network_request NwGetAll = plain_request GET ''networks'' NoBody"
| "network_request (NwGasPrices c) = plain_request GET (''networks/gas/price/'' @ show_chain c) NoBody"

definition auth_status_request :: sdk_request where
  "auth_status_request = plain_request GET ''auth/status'' NoBody"

definition health_request :: sdk_request where
  "health_request = plain_request GET ''health'' NoBody"

datatype sdk_call =
    TransactionCall transaction_call
  | RelayerCall relayer_api_call
  | AllowlistCall relayer_id paging_context
  | SignCall sign_call
  | NetworkCall network_call
  | AuthStatusCall
  | HealthCall

fun sdk_request_of :: "text_forms \<Rightarrow> sdk_call \<Rightarrow> sdk_request" where
  "sdk_request_of tf (TransactionCall c) = transaction_request tf c"
| "sdk_request_of tf (RelayerCall c) = relayer_request tf c"
| "sdk_request_of tf (AllowlistCall i pc) = allowlist_request tf i pc"
| "sdk_request_of tf (SignCall c) = signing_request tf c"
| "sdk_request_of tf (NetworkCall c) = network_request c"
| "sdk_request_of tf AuthStatusCall = auth_status_request"
| "sdk_request_of tf HealthCall = health_request"

end
