(* ===== verification/Sdk_Routes.thy ===== *)
theory Sdk_Routes
  imports Sdk_Calls
begin

text \<open>
  The routes of the server (the \<open>create_*_routes\<close> functions of core and \<open>start_api\<close> of startup.rs), what
  each handler takes from the path of a request, and the operation a call of the SDK is meant for. The
  router itself (axum) and the URL of a request (reqwest) are parameters.
\<close>

section \<open>Routes\<close>

datatype handler =
    H_status
  | H_networks | H_network | H_get_gas_price
  | H_create_relayer | H_import_relayer | H_get_relayers | H_get_relayer | H_delete_relayer
  | H_pause_relayer | H_unpause_relayer | H_update_relay_max_gas_price | H_clone_relayer
  | H_get_allowlist_addresses | H_update_relay_eip1559_status
  | H_get_transaction_by_tx_hash | H_get_transaction_by_external_id | H_get_transaction_by_id
  | H_get_transaction_status | H_send_transaction | H_get_transaction_by_external_id_for_relayer
  | H_send_transaction_random | H_replace_transaction | H_cancel_transaction
  | H_get_relayer_transactions | H_get_transactions_pending_count | H_get_transactions_inmempool_count
  | H_get_server_info
  | H_sign_text | H_sign_typed_data | H_get_signed_text_history | H_get_signed_typed_data_history
  | H_health_check

type_synonym route = "string \<times> http_method \<times> handler"

definition create_basic_auth_routes :: "route list" where
  "create_basic_auth_routes = [(''/status'', GET, H_status)]"

definition create_network_routes :: "route list" where
  "create_network_routes =
     [(''/'', GET, H_networks), (''/:chain_id'', GET, H_network),
      (''/gas/price/:chain_id'', GET, H_get_gas_price)]"

definition create_relayer_routes :: "route list" where
  "create_relayer_routes =
     [(''/:chain_id/new'', POST, H_create_relayer),
      (''/:chain_id/import'', POST, H_import_relayer),
      (''/'', GET, H_get_relayers),
      (''/:relayer_id'', GET, H_get_relayer),
      (''/:relayer_id'', DELETE, H_delete_relayer),
      (''/:relayer_id/pause'', PUT, H_pause_relayer),
      (''/:relayer_id/unpause'', PUT, H_unpause_relayer),
      (''/:relayer_id/gas/max/:cap'', PUT, H_update_relay_max_gas_price),
      (''/:relayer_id/clone'', POST, H_clone_relayer),
      (''/:relayer_id/allowlists'', GET, H_get_allowlist_addresses),
      (''/:relayer_id/gas/eip1559/:enabled'', PUT, H_update_relay_eip1559_status)]"

definition create_transactions_routes :: "route list" where
  "create_transactions_routes =
     [(''/hash/:tx_hash'', GET, H_get_transaction_by_tx_hash),
      (''/external/:external_id'', GET, H_get_transaction_by_external_id),
      (''/:id'', GET, H_get_transaction_by_id),
      (''/status/:id'', GET, H_get_transaction_status),
      (''/relayers/:relayer_id/send'', POST, H_send_transaction),
      (''/relayers/:relayer_id/external/:external_id'', GET, H_get_transaction_by_external_id_for_relayer),
      (''/relayers/:chain_id/send-random'', POST, H_send_transaction_random),
      (''/replace/:transaction_id'', PUT, H_replace_transaction),
      (''/cancel/:transaction_id'', PUT, H_cancel_transaction),
      (''/relayers/:relayer_id'', GET, H_get_relayer_transactions),
      (''/relayers/:relayer_id/pending/count'', GET, H_get_transactions_pending_count),
      (''/relayers/:relayer_id/inmempool/count'', GET, H_get_transactions_inmempool_count)]"

definition create_server_routes :: "route list" where
  "create_server_routes = [(''/info'', GET, H_get_server_info)]"

definition create_signing_routes :: "route list" where
  "create_signing_routes =
     [(''/relayers/:relayer_id/message'', POST, H_sign_text),
      (''/relayers/:relayer_id/typed-data'', POST, H_sign_typed_data),
      (''/relayers/:relayer_id/text-history'', GET, H_get_signed_text_history),
      (''/relayers/:relayer_id/typed-data-history'', GET, H_get_signed_typed_data_history),
      (''/:relayer_id/message'', POST, H_sign_text),
      (''/:relayer_id/typed-data'', POST, H_sign_typed_data),
      (''/:relayer_id/text-history'', GET, H_get_signed_text_history),
      (''/:relayer_id/typed-data-history'', GET, H_get_signed_typed_data_history)]"

text \<open>The nested routers with their prefixes; the empty prefix holds the routes of the application itself.\<close>

definition api_routes :: "(string \<times> route list) list" where
  "api_routes =
     [('''', [(''/health'', GET, H_health_check)]),
      (''/auth'', create_basic_auth_routes),
      (''/networks'', create_network_routes),
      (''/relayers'', create_relayer_routes),
      (''/transactions'', create_transactions_routes),
      (''/server'', create_server_routes),
      (''/signing'', create_signing_routes)]"

section \<open>Operations\<close>

text \<open>A handler with what it takes from the path.\<close>

datatype server_op =
    OpAuthStatus | OpNetworks | OpNetwork chain_id | OpGasPrice chain_id
  | OpCreateRelayer chain_id | OpImportRelayer chain_id | OpGetRelayers | OpGetRelayer relayer_id
  | OpDeleteRelayer relayer_id | OpPauseRelayer relayer_id | OpUnpauseRelayer relayer_id
  | OpUpdateMaxGasPrice relayer_id u128 | OpCloneRelayer relayer_id | OpGetAllowlist relayer_id
  | OpUpdateEip1559 relayer_id bool
  | OpTransactionByHash transaction_hash | OpTransactionByExternalId string
  | OpTransactionById transaction_id | OpTransactionStatus transaction_id | OpSend relayer_id
  | OpTransactionByExternalIdForRelayer relayer_id string | OpSendRandom chain_id
  | OpReplace transaction_id | OpCancel transaction_id | OpRelayerTransactions relayer_id
  | OpPendingCount relayer_id | OpInmempoolCount relayer_id
  | OpServerInfo
  | OpSignText relayer_id | OpSignTypedData relayer_id | OpTextHistory relayer_id
  | OpTypedDataHistory relayer_id
  | OpHealth

definition one :: "('a \<Rightarrow> 'b option) \<Rightarrow> ('b \<Rightarrow> 'c) \<Rightarrow> 'a list \<Rightarrow> 'c option" where
  "one parse op xs = (case xs of [x] \<Rightarrow> map_option op (parse x) | _ \<Rightarrow> None)"

definition two ::
  "('a \<Rightarrow> 'b option) \<Rightarrow> ('a \<Rightarrow> 'c option) \<Rightarrow> ('b \<Rightarrow> 'c \<Rightarrow> 'd) \<Rightarrow> 'a list \<Rightarrow> 'd option" where
  "two parse1 parse2 op xs =
     (case xs of
        [x, y] \<Rightarrow> Option.bind (parse1 x) (\<lambda>a. map_option (op a) (parse2 y))
      | _ \<Rightarrow> None)"

text \<open>The extractor of each handler's path; a text that does not parse is refused before the handler runs.\<close>

fun extract_path :: "text_forms \<Rightarrow> handler \<Rightarrow> string list \<Rightarrow> server_op option" where
  "extract_path tf H_status xs = Some OpAuthStatus"
| "extract_path tf H_networks xs = Some OpNetworks"
| "extract_path tf H_network xs = one parse_chain OpNetwork xs"
| "extract_path tf H_get_gas_price xs = one parse_chain OpGasPrice xs"
| "extract_path tf H_create_relayer xs = one parse_chain OpCreateRelayer xs"
| "extract_path tf H_import_relayer xs = one parse_chain OpImportRelayer xs"
| "extract_path tf H_get_relayers xs = Some OpGetRelayers"
| "extract_path tf H_get_relayer xs = one (tf_parse_uuid tf) OpGetRelayer xs"
| "extract_path tf H_delete_relayer xs = one (tf_parse_uuid tf) OpDeleteRelayer xs"
| "extract_path tf H_pause_relayer xs = one (tf_parse_uuid tf) OpPauseRelayer xs"
| "extract_path tf H_unpause_relayer xs = one (tf_parse_uuid tf) OpUnpauseRelayer xs"
| "extract_path tf H_update_relay_max_gas_price xs =
     two (tf_parse_uuid tf) parse_gas_price OpUpdateMaxGasPrice xs"
| "extract_path tf H_clone_relayer xs = one (tf_parse_uuid tf) OpCloneRelayer xs"
| "extract_path tf H_get_allowlist_addresses xs = one (tf_parse_uuid tf) OpGetAllowlist xs"
| "extract_path tf H_update_relay_eip1559_status xs = two (tf_parse_uuid tf) parse_bool OpUpdateEip1559 xs"
| "extract_path tf H_get_transaction_by_tx_hash xs = one (tf_parse_hash tf) OpTransactionByHash xs"
| "extract_path tf H_get_transaction_by_external_id xs = one Some OpTransactionByExternalId xs"
| "extract_path tf H_get_transaction_by_id xs = one (tf_parse_uuid tf) OpTransactionById xs"
| "extract_path tf H_get_transaction_status xs = one (tf_parse_uuid tf) OpTransactionStatus xs"
| "extract_path tf H_send_transaction xs = one (tf_parse_uuid tf) OpSend xs"
| "extract_path tf H_get_transaction_by_external_id_for_relayer xs =
     two (tf_parse_uuid tf) Some OpTransactionByExternalIdForRelayer xs"
| "extract_path tf H_send_transaction_random xs = one parse_chain OpSendRandom xs"
| "extract_path tf H_replace_transaction xs = one (tf_parse_uuid tf) OpReplace xs"
| "extract_path tf H_cancel_transaction xs = one (tf_parse_uuid tf) OpCancel xs"
| "extract_path tf H_get_relayer_transactions xs = one (tf_parse_uuid tf) OpRelayerTransactions xs"
| "extract_path tf H_get_transactions_pending_count xs = one (tf_parse_uuid tf) OpPendingCount xs"
| "extract_path tf H_get_transactions_inmempool_count xs = one (tf_parse_uuid tf) OpInmempoolCount xs"
| "extract_path tf H_get_server_info xs = Some OpServerInfo"
| "extract_path tf H_sign_text xs = one (tf_parse_uuid tf) OpSignText xs"
| "extract_path tf H_sign_typed_data xs = one (tf_parse_uuid tf) OpSignTypedData xs"
| "extract_path tf H_get_signed_text_history xs = one (tf_parse_uuid tf) OpTextHistory xs"
| "extract_path tf H_get_signed_typed_data_history xs = one (tf_parse_uuid tf) OpTypedDataHistory xs"
| "extract_path tf H_health_check xs = Some OpHealth"

section \<open>Dispatch\<close>

text \<open>
  \<open>url_path\<close> is the path of a URL as reqwest sends it, \<open>router\<close> the choice of the router: the handler
  with the texts of the parameters of its route, in order.
\<close>

record web =
  wb_url_path :: "string \<Rightarrow> string"
  wb_router :: "(string \<times> route list) list \<Rightarrow> http_method \<Rightarrow> string \<Rightarrow> (handler \<times> string list) option"

definition dispatch :: "web \<Rightarrow> text_forms \<Rightarrow> http_method \<Rightarrow> string \<Rightarrow> server_op option" where
  "dispatch w tf m url =
     Option.bind (wb_router w api_routes m (wb_url_path w url)) (\<lambda>(h, xs). extract_path tf h xs)"

definition reached_op :: "web \<Rightarrow> text_forms \<Rightarrow> api_base_config \<Rightarrow> sdk_call \<Rightarrow> server_op option" where
  "reached_op w tf cfg c =
     (let q = sdk_request_of tf c in dispatch w tf (sq_method q) (build_url cfg (sq_endpoint q)))"

section \<open>The documented behaviour of the libraries\<close>

text \<open>Characters that neither end a segment nor are escaped.\<close>

definition plain_char :: "char \<Rightarrow> bool" where
  "plain_char c =
     (let n = (of_char c :: nat)
      in (48 \<le> n \<and> n \<le> 57) \<or> (65 \<le> n \<and> n \<le> 90) \<or> (97 \<le> n \<and> n \<le> 122) \<or> n = 45 \<or> n = 95)"

definition plain_text :: "string \<Rightarrow> bool" where
  "plain_text s = (s \<noteq> [] \<and> list_all plain_char s)"

fun join_segments :: "string list \<Rightarrow> string" where
  "join_segments [] = []"
| "join_segments (x # xs) = CHR ''/'' # x @ join_segments xs"

text \<open>The pieces between slashes, without empty ones.\<close>

fun segments_acc :: "string \<Rightarrow> string \<Rightarrow> string list" where
  "segments_acc acc [] = (if acc = [] then [] else [rev acc])"
| "segments_acc acc (c # cs) =
     (if c = CHR ''/'' then (if acc = [] then segments_acc [] cs else rev acc # segments_acc [] cs)
      else segments_acc (c # acc) cs)"

definition segments :: "string \<Rightarrow> string list" where
  "segments s = segments_acc [] s"

text \<open>A piece of a pattern that begins with a colon takes any piece of a path.\<close>

fun match_segments :: "string list \<Rightarrow> string list \<Rightarrow> string list option" where
  "match_segments [] [] = Some []"
| "match_segments (p # ps) (x # xs) =
     (if take 1 p = '':'' then map_option (Cons x) (match_segments ps xs)
      else if p = x then match_segments ps xs else None)"
| "match_segments _ _ = None"

text \<open>All routes in pieces, with their prefixes, and those a path fits with the values of their parameters.\<close>

definition pieces :: "(string \<times> route list) list \<Rightarrow> (string list \<times> http_method \<times> handler) list" where
  "pieces table =
     concat (map (\<lambda>(prefix, routes).
       map (\<lambda>(pattern, m, h). (segments prefix @ segments pattern, m, h)) routes) table)"

definition fitting ::
  "(string \<times> route list) list \<Rightarrow> string list \<Rightarrow> (string list \<times> http_method \<times> handler \<times> string list) list" where
  "fitting table xs =
     concat (map (\<lambda>(p, m, h). case match_segments p xs of None \<Rightarrow> [] | Some vs \<Rightarrow> [(p, m, h, vs)])
       (pieces table))"

text \<open>
  What is assumed of the router: a path of plain pieces that fits the patterns of one route only (which
  may serve several methods) goes to the handler of its method, and a path that fits no route goes
  nowhere.
\<close>

definition one_pattern :: "(string list \<times> 'm \<times> 'h \<times> string list) list \<Rightarrow> bool" where
  "one_pattern fs = (case fs of [] \<Rightarrow> True | (p, _) # _ \<Rightarrow> list_all (\<lambda>(q, _). q = p) fs)"

definition router_by_segments ::
  "((string \<times> route list) list \<Rightarrow> http_method \<Rightarrow> string \<Rightarrow> (handler \<times> string list) option) \<Rightarrow> bool" where
  "router_by_segments router \<longleftrightarrow>
     (\<forall>table m xs. (\<forall>x \<in> set xs. plain_text x) \<longrightarrow> one_pattern (fitting table xs) \<longrightarrow>
        router table m (join_segments xs) =
          map_option (\<lambda>(p, m', h, vs). (h, vs)) (find (\<lambda>(p, m', h, vs). m' = m) (fitting table xs)))"

text \<open>
  What is assumed of URLs: below a server's address the path is the text up to a question mark, when
  nothing in it has to be escaped.
\<close>

definition path_of_url :: "(string \<Rightarrow> string) \<Rightarrow> string \<Rightarrow> bool" where
  "path_of_url url_path base \<longleftrightarrow>
     (\<forall>xs q. (\<forall>x \<in> set xs. plain_text x) \<longrightarrow> (q = [] \<or> hd q = CHR ''?'') \<longrightarrow>
        url_path (base @ join_segments xs @ q) = join_segments xs)"

text \<open>Identifiers and hashes are shown without escapes and read back.\<close>

definition forms_ok :: "text_forms \<Rightarrow> bool" where
  "forms_ok tf \<longleftrightarrow>
     (\<forall>i. plain_text (tf_show_uuid tf i) \<and> tf_parse_uuid tf (tf_show_uuid tf i) = Some i) \<and>
     (\<forall>x. plain_text (tf_show_hash tf x) \<and> tf_parse_hash tf (tf_show_hash tf x) = Some x)"

text \<open>The assumptions together, for a client of a server's address.\<close>

definition web_ok :: "web \<Rightarrow> text_forms \<Rightarrow> api_base_config \<Rightarrow> bool" where
  "web_ok w tf cfg \<longleftrightarrow> forms_ok tf \<and> router_by_segments (wb_router w) \<and>
     path_of_url (wb_url_path w) (trim_end_slashes (ab_server_url cfg))"

section \<open>What a call means\<close>

text \<open>External ids are sent as they are, and a cap as any text: only plain ones are meant here.\<close>

fun plain_call :: "sdk_call \<Rightarrow> bool" where
  "plain_call (TransactionCall (TxGetByExternalId e)) = plain_text e"
| "plain_call (TransactionCall (TxGetByExternalIdForRelayer r e)) = plain_text e"
| "plain_call (RelayerCall (RlUpdateMaxGasPrice i cap)) = (plain_text cap \<and> parse_gas_price cap \<noteq> None)"
| "plain_call _ = True"

fun transaction_op :: "transaction_call \<Rightarrow> server_op" where
  "transaction_op (TxGet i) = OpTransactionById i"
| "transaction_op (TxGetByHash x) = OpTransactionByHash x"
| "transaction_op (TxGetByExternalId e) = OpTransactionByExternalId e"
| "transaction_op (TxGetByExternalIdForRelayer r e) = OpTransactionByExternalIdForRelayer r e"
| "transaction_op (TxGetAll r pc) = OpRelayerTransactions r"
| "transaction_op (TxSend r rq key) = OpSend r"
| "transaction_op (TxSendRandom c rq key) = OpSendRandom c"
| "transaction_op (TxCancel i key) = OpCancel i"
| "transaction_op (TxReplace i rq key) = OpReplace i"
| "transaction_op (TxGetStatus i) = OpTransactionStatus i"
| "transaction_op (TxInmempoolCount r) = OpInmempoolCount r"
| "transaction_op (TxPendingCount r) = OpPendingCount r"

fun relayer_op :: "relayer_api_call \<Rightarrow> server_op" where
  "relayer_op (RlGetAll c pc) = OpGetRelayers"
| "relayer_op (RlGet i) = OpGetRelayer i"
| "relayer_op (RlCreate c name) = OpCreateRelayer c"
| "relayer_op (RlClone i c name) = OpCloneRelayer i"
| "relayer_op (RlDelete i) = OpDeleteRelayer i"
| "relayer_op (RlPause i) = OpPauseRelayer i"
| "relayer_op (RlUnpause i) = OpUnpauseRelayer i"
| "relayer_op (RlUpdateEip1559 i b) = OpUpdateEip1559 i b"
| "relayer_op (RlUpdateMaxGasPrice i cap) = OpUpdateMaxGasPrice i (the (parse_gas_price cap))"
| "relayer_op (RlRemoveMaxGasPrice i) = OpUpdateMaxGasPrice i 0"
| "relayer_op (RlPendingCount i) = OpPendingCount i"
| "relayer_op (RlInmempoolCount i) = OpInmempoolCount i"
| "relayer_op (RlImport c name key a) = OpImportRelayer c"

fun sign_op :: "sign_call \<Rightarrow> server_op" where
  "sign_op (SgText r m key) = OpSignText r"
| "sign_op (SgTypedData r td key) = OpSignTypedData r"
| "sign_op (SgTextHistory r pc) = OpTextHistory r"
| "sign_op (SgTypedDataHistory r pc) = OpTypedDataHistory r"

fun network_op :: "network_call \<Rightarrow> server_op" where
  "network_op (NwGet c) = OpNetwork c"
| "network_op NwGetAll = OpNetworks"
| "network_op (NwGasPrices c) = OpGasPrice c"

fun intended_op :: "sdk_call \<Rightarrow> server_op" where
  "intended_op (TransactionCall c) = transaction_op c"
| "intended_op (RelayerCall c) = relayer_op c"
| "intended_op (AllowlistCall i pc) = OpGetAllowlist i"
| "intended_op (SignCall c) = sign_op c"
| "intended_op (NetworkCall c) = network_op c"
| "intended_op AuthStatusCall = OpAuthStatus"
| "intended_op HealthCall = OpHealth"

end
