(* ===== verification/Sdk_Clients.thy ===== *)
theory Sdk_Clients
  imports Sdk_Calls
begin

text \<open>
  The clients of the SDK (sdk/src/clients.rs): the administrator's client, the client of one relayer
  with an API key, and the administrator's client of one relayer; each method as the call it makes. The
  loop that waits for a receipt (\<open>wait_for_transaction_receipt_by_id\<close> of sdk/src/api/transaction/mod.rs)
  may run forever, so it returns an option.
\<close>

section \<open>The administrator's client\<close>

record create_client_config =
  ccc_server_url :: string
  ccc_username :: string
  ccc_password :: string

record client =
  cl_config :: create_client_config
  cl_api_base :: api_base_config

definition client_new :: "create_client_config \<Rightarrow> client" where
  "client_new cfg =
     \<lparr> cl_config = cfg,
       cl_api_base = \<lparr> ab_server_url = ccc_server_url cfg,
                       ab_auth = BasicAuth (ccc_username cfg) (ccc_password cfg) \<rparr> \<rparr>"

definition create_client :: "create_client_config \<Rightarrow> client" where
  "create_client cfg = client_new cfg"

datatype client_op =
    ClRelayerCreate chain_id string
  | ClRelayerClone relayer_id chain_id string
  | ClRelayerDelete relayer_id
  | ClRelayerGet relayer_id
  | ClRelayerGetAll paging_context "chain_id option"
  | ClRelayerImport chain_id string string evm_address
  | ClNetworkGet chain_id
  | ClNetworkGetAll
  | ClNetworkGasPrices chain_id
  | ClTransactionGet transaction_id
  | ClTransactionStatus transaction_id
  | ClTransactionSendRandom chain_id relay_request "string option"
  | ClAllowlistGet relayer_id paging_context

fun client_call :: "client_op \<Rightarrow> sdk_call" where
  "client_call (ClRelayerCreate c name) = RelayerCall (RlCreate c name)"
| "client_call (ClRelayerClone i c name) = RelayerCall (RlClone i c name)"
| "client_call (ClRelayerDelete i) = RelayerCall (RlDelete i)"
| "client_call (ClRelayerGet i) = RelayerCall (RlGet i)"
| "client_call (ClRelayerGetAll pc only) = RelayerCall (RlGetAll only pc)"
| "client_call (ClRelayerImport c name key a) = RelayerCall (RlImport c name key a)"
| "client_call (ClNetworkGet c) = NetworkCall (NwGet c)"
| "client_call ClNetworkGetAll = NetworkCall NwGetAll"
| "client_call (ClNetworkGasPrices c) = NetworkCall (NwGasPrices c)"
| "client_call (ClTransactionGet i) = TransactionCall (TxGet i)"
| "client_call (ClTransactionStatus i) = TransactionCall (TxGetStatus i)"
| "client_call (ClTransactionSendRandom c rq key) = TransactionCall (TxSendRandom c rq key)"
| "client_call (ClAllowlistGet i pc) = AllowlistCall i pc"

definition client_health :: sdk_call where "client_health = HealthCall"

definition client_authenticated :: sdk_call where "client_authenticated = AuthStatusCall"

section \<open>The client of one relayer\<close>

datatype relayer_client_auth = RcApiKey string | RcBasicAuth string string

record relayer_client_config =
  rcc_server_url :: string
  rcc_relayer_id :: relayer_id
  rcc_auth :: relayer_client_auth
  rcc_fallback_speed :: "transaction_speed option"

record relayer_client =
  rcl_id :: relayer_id
  rcl_fallback_speed :: "transaction_speed option"
  rcl_api_base :: api_base_config

definition relayer_client_new :: "relayer_client_config \<Rightarrow> relayer_client" where
  "relayer_client_new cfg =
     \<lparr> rcl_id = rcc_relayer_id cfg, rcl_fallback_speed = rcc_fallback_speed cfg,
       rcl_api_base = \<lparr> ab_server_url = rcc_server_url cfg,
                        ab_auth = (case rcc_auth cfg of
                                     RcApiKey k \<Rightarrow> ApiKeyAuth k
                                   | RcBasicAuth u p \<Rightarrow> BasicAuth u p) \<rparr> \<rparr>"

record create_relayer_client_config =
  crc_server_url :: string
  crc_relayer_id :: relayer_id
  crc_api_key :: string
  crc_fallback_speed :: "transaction_speed option"

definition create_relayer_client :: "create_relayer_client_config \<Rightarrow> relayer_client" where
  "create_relayer_client cfg =
     relayer_client_new
       \<lparr> rcc_server_url = crc_server_url cfg, rcc_relayer_id = crc_relayer_id cfg,
         rcc_auth = RcApiKey (crc_api_key cfg), rcc_fallback_speed = crc_fallback_speed cfg \<rparr>"

datatype transaction_count_type = CountPending | CountInmempool

text \<open>The transaction methods, the same for both clients of a relayer.\<close>

datatype client_transaction_op =
    RcTxGet transaction_id
  | RcTxGetByHash transaction_hash
  | RcTxGetByExternalId string
  | RcTxGetStatus transaction_id
  | RcTxGetAll paging_context
  | RcTxReplace transaction_id relay_request "string option"
  | RcTxCancel transaction_id "string option"
  | RcTxSend relay_request "string option"
  | RcTxCount transaction_count_type

fun relayer_client_transaction :: "relayer_id \<Rightarrow> client_transaction_op \<Rightarrow> transaction_call" where
  "relayer_client_transaction r (RcTxGet i) = TxGet i"
| "relayer_client_transaction r (RcTxGetByHash x) = TxGetByHash x"
| "relayer_client_transaction r (RcTxGetByExternalId e) = TxGetByExternalIdForRelayer r e"
| "relayer_client_transaction r (RcTxGetStatus i) = TxGetStatus i"
| "relayer_client_transaction r (RcTxGetAll pc) = TxGetAll r pc"
| "relayer_client_transaction r (RcTxReplace i rq key) = TxReplace i rq key"
| "relayer_client_transaction r (RcTxCancel i key) = TxCancel i key"
| "relayer_client_transaction r (RcTxSend rq key) = TxSend r rq key"
| "relayer_client_transaction r (RcTxCount CountPending) = TxPendingCount r"
| "relayer_client_transaction r (RcTxCount CountInmempool) = TxInmempoolCount r"

datatype client_sign_op =
    RcText string "string option"
  | RcTextHistory paging_context
  | RcTypedData typed_data "string option"
  | RcTypedDataHistory paging_context

fun relayer_client_sign :: "relayer_id \<Rightarrow> client_sign_op \<Rightarrow> sign_call" where
  "relayer_client_sign r (RcText m key) = SgText r m key"
| "relayer_client_sign r (RcTextHistory pc) = SgTextHistory r pc"
| "relayer_client_sign r (RcTypedData td key) = SgTypedData r td key"
| "relayer_client_sign r (RcTypedDataHistory pc) = SgTypedDataHistory r pc"

definition relayer_client_allowlist :: "relayer_id \<Rightarrow> paging_context \<Rightarrow> sdk_call" where
  "relayer_client_allowlist r pc = AllowlistCall r pc"

definition relayer_client_get_info :: "relayer_id \<Rightarrow> sdk_call" where
  "relayer_client_get_info r = RelayerCall (RlGet r)"

text \<open>The answer of a relayer comes with the URLs of its providers.\<close>

definition get_info_answer ::
  "api_sdk_error + (relayer \<times> string list) option \<Rightarrow> api_sdk_error + relayer" where
  "get_info_answer ans =
     and_then ans (\<lambda>r. case r of
        Some (r, urls) \<Rightarrow> Inr r
      | None \<Rightarrow> Inl (SdkConfigError ''Relayer not found''))"

definition address_answer ::
  "api_sdk_error + (relayer \<times> string list) option \<Rightarrow> api_sdk_error + evm_address" where
  "address_answer ans = and_then (get_info_answer ans) (\<lambda>r. Inr (rl_address r))"

section \<open>The administrator's client of one relayer\<close>

record admin_relayer_client_config =
  acc_server_url :: string
  acc_provider_url :: string
  acc_relayer_id :: relayer_id
  acc_username :: string
  acc_password :: string
  acc_fallback_speed :: "transaction_speed option"

record admin_relayer_client =
  arc_relayer_client :: relayer_client
  arc_api_base :: api_base_config

definition admin_relayer_client_new :: "admin_relayer_client_config \<Rightarrow> admin_relayer_client" where
  "admin_relayer_client_new cfg =
     \<lparr> arc_relayer_client = relayer_client_new
         \<lparr> rcc_server_url = acc_server_url cfg, rcc_relayer_id = acc_relayer_id cfg,
           rcc_auth = RcBasicAuth (acc_username cfg) (acc_password cfg),
           rcc_fallback_speed = acc_fallback_speed cfg \<rparr>,
       arc_api_base = \<lparr> ab_server_url = acc_server_url cfg,
                        ab_auth = BasicAuth (acc_username cfg) (acc_password cfg) \<rparr> \<rparr>"

datatype admin_op =
    ArPause | ArUnpause
  | ArUpdateEip1559 bool
  | ArUpdateMaxGasPrice string
  | ArRemoveMaxGasPrice
  | ArClone chain_id string

fun admin_relayer_client_call :: "relayer_id \<Rightarrow> admin_op \<Rightarrow> relayer_api_call" where
  "admin_relayer_client_call r ArPause = RlPause r"
| "admin_relayer_client_call r ArUnpause = RlUnpause r"
| "admin_relayer_client_call r (ArUpdateEip1559 b) = RlUpdateEip1559 r b"
| "admin_relayer_client_call r (ArUpdateMaxGasPrice cap) = RlUpdateMaxGasPrice r cap"
| "admin_relayer_client_call r ArRemoveMaxGasPrice = RlRemoveMaxGasPrice r"
| "admin_relayer_client_call r (ArClone c name) = RlClone r c name"

definition admin_client_transaction :: "admin_relayer_client \<Rightarrow> client_transaction_op \<Rightarrow> transaction_call" where
  "admin_client_transaction a op = relayer_client_transaction (rcl_id (arc_relayer_client a)) op"

definition quoted :: "string \<Rightarrow> string" where
  "quoted s = CHR 0x27 # s @ [CHR 0x27]"

text \<open>
  \<open>get_relayer_client\<close> asks for the relayer and then for its network; the two answers are inputs and
  \<open>show\<close> renders the relayer's id.
\<close>

definition get_relayer_client ::
  "(relayer_id \<Rightarrow> string) \<Rightarrow> client \<Rightarrow> relayer_id \<Rightarrow> transaction_speed option \<Rightarrow>
   api_sdk_error + (relayer \<times> string list) option \<Rightarrow> (chain_id \<Rightarrow> api_sdk_error + network_info option) \<Rightarrow>
   api_sdk_error + admin_relayer_client" where
  "get_relayer_client show c i speed relayer_answer network_answer =
     and_then relayer_answer (\<lambda>r.
     and_then (ok_or (SdkConfigError (''Relayer '' @ quoted (show i) @ '' not found'')) r) (\<lambda>(r, urls).
     and_then (network_answer (rl_chain_id r)) (\<lambda>n.
     and_then (ok_or (SdkConfigError (''Network '' @ quoted (show_chain (rl_chain_id r)) @ '' not found'')) n) (\<lambda>n.
       case nw_provider_urls n of
         [] \<Rightarrow> Inl (SdkConfigError (''No provider URLs found for network '' @
                       quoted (show_chain (rl_chain_id r))))
       | url # _ \<Rightarrow>
           Inr (admin_relayer_client_new
             \<lparr> acc_server_url = ccc_server_url (cl_config c), acc_provider_url = url, acc_relayer_id = i,
               acc_username = ccc_username (cl_config c), acc_password = ccc_password (cl_config c),
               acc_fallback_speed = speed \<rparr>)))))"

section \<open>Waiting for a receipt\<close>

text \<open>What one status ends the wait with, if anything.\<close>

definition wait_decision :: "api_sdk_error + status_result option \<Rightarrow> (api_sdk_error + status_result) option" where
  "wait_decision ans =
     (case ans of
        Inl e \<Rightarrow> Some (Inl e)
      | Inr None \<Rightarrow> Some (Inl (SdkConfigError ''Transaction not found''))
      | Inr (Some r) \<Rightarrow>
          (case st_status r of
             PENDING \<Rightarrow> None
           | INMEMPOOL \<Rightarrow> None
           | MINED \<Rightarrow> Some (Inr r)
           | CONFIRMED \<Rightarrow> Some (Inr r)
           | FAILED \<Rightarrow> Some (Inr r)
           | EXPIRED \<Rightarrow> Some (Inl (SdkConfigError ''Transaction expired''))
           | CANCELLED \<Rightarrow> Some (Inl (SdkConfigError ''Transaction was cancelled''))
           | REPLACED \<Rightarrow> Some (Inl (SdkConfigError ''Transaction was replaced''))
           | DROPPED \<Rightarrow> Some (Inl (SdkConfigError ''Transaction was dropped from mempool''))))"

text \<open>\<open>answers k\<close> is what the k-th request of the status gives; no answer at all is \<open>None\<close>.\<close>

partial_function (option) wait_for_transaction_receipt_by_id ::
  "(nat \<Rightarrow> api_sdk_error + status_result option) \<Rightarrow> nat \<Rightarrow> (api_sdk_error + status_result) option" where
  "wait_for_transaction_receipt_by_id answers k =
     (case wait_decision (answers k) of
        Some r \<Rightarrow> Some r
      | None \<Rightarrow> wait_for_transaction_receipt_by_id answers (Suc k))"

lemma wait_ends:
  "\<forall>j < n. wait_decision (answers (k + j)) = None \<Longrightarrow> wait_decision (answers (k + n)) = Some r \<Longrightarrow>
   wait_for_transaction_receipt_by_id answers k = Some r"
proof (induction n arbitrary: k)
  case 0
  then show ?case by (simp add: wait_for_transaction_receipt_by_id.simps)
next
  case (Suc n)
  have "wait_for_transaction_receipt_by_id answers (Suc k) = Some r"
    using Suc.prems by (intro Suc.IH) auto
  moreover have "wait_decision (answers k) = None"
    using Suc.prems(1)[rule_format, of 0] by simp
  ultimately show ?case
    by (subst wait_for_transaction_receipt_by_id.simps) simp
qed

lemma wait_ended:
  assumes "wait_for_transaction_receipt_by_id answers k = Some r"
  shows "\<exists>n. wait_decision (answers (k + n)) = Some r \<and> (\<forall>j < n. wait_decision (answers (k + j)) = None)"
proof (rule wait_for_transaction_receipt_by_id.raw_induct [OF _ assms,
    of "\<lambda>answers k r. \<exists>n. wait_decision (answers (k + n)) = Some r \<and>
                             (\<forall>j < n. wait_decision (answers (k + j)) = None)"], goal_cases)
  case (1 wait answers k r)
  show ?case
  proof (cases "wait_decision (answers k)")
    case None
    then have "wait answers (Suc k) = Some r" using 1(2) by simp
    from 1(1)[OF this] obtain n where n: "wait_decision (answers (Suc k + n)) = Some r"
      "\<forall>j < n. wait_decision (answers (Suc k + j)) = None"
      by blast
    have "wait_decision (answers (k + j)) = None" if "j < Suc n" for j
      using that None n(2) by (cases j) auto
    then show ?thesis
      using n(1) by (intro exI[of _ "Suc n"]) auto
  next
    case (Some d)
    then show ?thesis using 1(2) by (intro exI[of _ 0]) auto
  qed
qed

end
