(* ===== verification/Sdk_Laws.thy ===== *)
theory Sdk_Laws
  imports Sdk_Routes Sdk_Clients
begin

text \<open>
  Lemmas on the requests of the SDK: texts that need no escapes, paths and their pieces, and the route
  of every call.
\<close>

section \<open>Plain texts\<close>

lemma plain_no_slash: "plain_text x \<Longrightarrow> c \<in> set x \<Longrightarrow> c \<noteq> CHR ''/''"
  by (auto simp: plain_text_def plain_char_def list_all_iff Let_def)

lemma plain_digits [simp]: "plain_text (show_digits n)"
proof -
  have "plain_char c" if "digit_val c \<noteq> None" for c
    using that by (auto simp: digit_val_def plain_char_def Let_def split: if_splits)
  then show ?thesis
    using show_digits_not_Nil[of n] show_digits_chars[of _ n] by (auto simp: plain_text_def list_all_iff)
qed

lemma plain_show [simp]: "plain_text (show_chain c)" "plain_text (show_bool b)"
  by (simp add: show_chain_def) (simp add: show_bool_def plain_text_def plain_char_def)

lemma parse_unsigned_show: "n < bound \<Longrightarrow> parse_unsigned bound (show_digits n) = Some n"
proof -
  assume n: "n < bound"
  obtain c cs where d: "show_digits n = c # cs"
    using show_digits_not_Nil[of n] by (cases "show_digits n") auto
  moreover have "c \<noteq> CHR ''+''"
    using show_digits_chars[of c n] d by (auto simp: digit_val_def)
  ultimately show ?thesis
    using n digits_value_show[of n] by (simp add: parse_unsigned_def)
qed

lemma parse_chain_show [simp]: "parse_chain (show_chain c) = Some c"
proof -
  have "unat c < 2 ^ 64" using unsigned_less [of c] by simp
  then show ?thesis by (simp add: parse_chain_def show_chain_def parse_unsigned_show)
qed

lemma parse_bool_show [simp]: "parse_bool (show_bool b) = Some b"
  by (simp add: parse_bool_def show_bool_def)

lemma segments_acc_plain:
  "\<forall>c \<in> set x. c \<noteq> CHR ''/'' \<Longrightarrow> segments_acc acc (x @ r) = segments_acc (rev x @ acc) r"
  by (induction x arbitrary: acc) auto

lemma segments_join: "\<forall>x \<in> set xs. plain_text x \<Longrightarrow> segments (join_segments xs) = xs"
proof -
  have "segments_acc acc (join_segments xs) = (if acc = [] then xs else rev acc # xs)"
    if "\<forall>x \<in> set xs. plain_text x" for acc
    using that
  proof (induction xs arbitrary: acc)
    case (Cons x xs)
    then have x: "\<forall>c \<in> set x. c \<noteq> CHR ''/''" "x \<noteq> []"
      using plain_no_slash by (auto simp: plain_text_def)
    then show ?case
      using Cons segments_acc_plain[OF x(1), of "[]" "join_segments xs"] by auto
  qed simp
  then show "\<forall>x \<in> set xs. plain_text x \<Longrightarrow> segments (join_segments xs) = xs"
    by (simp add: segments_def)
qed

section \<open>Routing\<close>

lemma api_pieces:
  "pieces api_routes =
     [([''health''], GET, H_health_check),
      ([''auth'', ''status''], GET, H_status),
      ([''networks''], GET, H_networks),
      ([''networks'', '':chain_id''], GET, H_network),
      ([''networks'', ''gas'', ''price'', '':chain_id''], GET, H_get_gas_price),
      ([''relayers'', '':chain_id'', ''new''], POST, H_create_relayer),
      ([''relayers'', '':chain_id'', ''import''], POST, H_import_relayer),
      ([''relayers''], GET, H_get_relayers),
      ([''relayers'', '':relayer_id''], GET, H_get_relayer),
      ([''relayers'', '':relayer_id''], DELETE, H_delete_relayer),
      ([''relayers'', '':relayer_id'', ''pause''], PUT, H_pause_relayer),
      ([''relayers'', '':relayer_id'', ''unpause''], PUT, H_unpause_relayer),
      ([''relayers'', '':relayer_id'', ''gas'', ''max'', '':cap''], PUT, H_update_relay_max_gas_price),
      ([''relayers'', '':relayer_id'', ''clone''], POST, H_clone_relayer),
      ([''relayers'', '':relayer_id'', ''allowlists''], GET, H_get_allowlist_addresses),
      ([''relayers'', '':relayer_id'', ''gas'', ''eip1559'', '':enabled''], PUT, H_update_relay_eip1559_status),
      ([''transactions'', ''hash'', '':tx_hash''], GET, H_get_transaction_by_tx_hash),
      ([''transactions'', ''external'', '':external_id''], GET, H_get_transaction_by_external_id),
      ([''transactions'', '':id''], GET, H_get_transaction_by_id),
      ([''transactions'', ''status'', '':id''], GET, H_get_transaction_status),
      ([''transactions'', ''relayers'', '':relayer_id'', ''send''], POST, H_send_transaction),
      ([''transactions'', ''relayers'', '':relayer_id'', ''external'', '':external_id''], GET, H_get_transaction_by_external_id_for_relayer),
      ([''transactions'', ''relayers'', '':chain_id'', ''send-random''], POST, H_send_transaction_random),
      ([''transactions'', ''replace'', '':transaction_id''], PUT, H_replace_transaction),
      ([''transactions'', ''cancel'', '':transaction_id''], PUT, H_cancel_transaction),
      ([''transactions'', ''relayers'', '':relayer_id''], GET, H_get_relayer_transactions),
      ([''transactions'', ''relayers'', '':relayer_id'', ''pending'', ''count''], GET, H_get_transactions_pending_count),
      ([''transactions'', ''relayers'', '':relayer_id'', ''inmempool'', ''count''], GET, H_get_transactions_inmempool_count),
      ([''server'', ''info''], GET, H_get_server_info),
      ([''signing'', ''relayers'', '':relayer_id'', ''message''], POST, H_sign_text),
      ([''signing'', ''relayers'', '':relayer_id'', ''typed-data''], POST, H_sign_typed_data),
      ([''signing'', ''relayers'', '':relayer_id'', ''text-history''], GET, H_get_signed_text_history),
      ([''signing'', ''relayers'', '':relayer_id'', ''typed-data-history''], GET, H_get_signed_typed_data_history),
      ([''signing'', '':relayer_id'', ''message''], POST, H_sign_text),
      ([''signing'', '':relayer_id'', ''typed-data''], POST, H_sign_typed_data),
      ([''signing'', '':relayer_id'', ''text-history''], GET, H_get_signed_text_history),
      ([''signing'', '':relayer_id'', ''typed-data-history''], GET, H_get_signed_typed_data_history)]"
  by (simp add: pieces_def api_routes_def create_basic_auth_routes_def create_network_routes_def
      create_relayer_routes_def create_transactions_routes_def create_server_routes_def
      create_signing_routes_def segments_def)

text \<open>The routes below one first piece.\<close>

definition below :: "string \<Rightarrow> (string list \<times> http_method \<times> handler) list" where
  "below x = map (\<lambda>(p, m, h). (tl p, m, h)) (filter (\<lambda>(p, _). hd p = x) (pieces api_routes))"

lemma below_roots:
  "below ''health'' =
     [([], GET, H_health_check)]"
  "below ''auth'' =
     [([''status''], GET, H_status)]"
  "below ''networks'' =
     [([], GET, H_networks),
      (['':chain_id''], GET, H_network),
      ([''gas'', ''price'', '':chain_id''], GET, H_get_gas_price)]"
  "below ''relayers'' =
     [(['':chain_id'', ''new''], POST, H_create_relayer),
      (['':chain_id'', ''import''], POST, H_import_relayer),
      ([], GET, H_get_relayers),
      (['':relayer_id''], GET, H_get_relayer),
      (['':relayer_id''], DELETE, H_delete_relayer),
      (['':relayer_id'', ''pause''], PUT, H_pause_relayer),
      (['':relayer_id'', ''unpause''], PUT, H_unpause_relayer),
      (['':relayer_id'', ''gas'', ''max'', '':cap''], PUT, H_update_relay_max_gas_price),
      (['':relayer_id'', ''clone''], POST, H_clone_relayer),
      (['':relayer_id'', ''allowlists''], GET, H_get_allowlist_addresses),
      (['':relayer_id'', ''gas'', ''eip1559'', '':enabled''], PUT, H_update_relay_eip1559_status)]"
  "below ''transactions'' =
     [([''hash'', '':tx_hash''], GET, H_get_transaction_by_tx_hash),
      ([''external'', '':external_id''], GET, H_get_transaction_by_external_id),
      (['':id''], GET, H_get_transaction_by_id),
      ([''status'', '':id''], GET, H_get_transaction_status),
      ([''relayers'', '':relayer_id'', ''send''], POST, H_send_transaction),
      ([''relayers'', '':relayer_id'', ''external'', '':external_id''], GET, H_get_transaction_by_external_id_for_relayer),
      ([''relayers'', '':chain_id'', ''send-random''], POST, H_send_transaction_random),
      ([''replace'', '':transaction_id''], PUT, H_replace_transaction),
      ([''cancel'', '':transaction_id''], PUT, H_cancel_transaction),
      ([''relayers'', '':relayer_id''], GET, H_get_relayer_transactions),
      ([''relayers'', '':relayer_id'', ''pending'', ''count''], GET, H_get_transactions_pending_count),
      ([''relayers'', '':relayer_id'', ''inmempool'', ''count''], GET, H_get_transactions_inmempool_count)]"
  "below ''signing'' =
     [([''relayers'', '':relayer_id'', ''message''], POST, H_sign_text),
      ([''relayers'', '':relayer_id'', ''typed-data''], POST, H_sign_typed_data),
      ([''relayers'', '':relayer_id'', ''text-history''], GET, H_get_signed_text_history),
      ([''relayers'', '':relayer_id'', ''typed-data-history''], GET, H_get_signed_typed_data_history),
      (['':relayer_id'', ''message''], POST, H_sign_text),
      (['':relayer_id'', ''typed-data''], POST, H_sign_typed_data),
      (['':relayer_id'', ''text-history''], GET, H_get_signed_text_history),
      (['':relayer_id'', ''typed-data-history''], GET, H_get_signed_typed_data_history)]"
  by (simp_all add: below_def api_pieces)

lemma fitting_below:
  "list_all (\<lambda>(p, _). p \<noteq> [] \<and> take 1 (hd p) \<noteq> '':'') ps \<Longrightarrow>
     concat (map (\<lambda>(p, m, h). case match_segments p (x # xs) of None \<Rightarrow> [] | Some vs \<Rightarrow> [(p, m, h, vs)]) ps) =
     concat (map (\<lambda>(p, m, h). case match_segments p xs of None \<Rightarrow> [] | Some vs \<Rightarrow> [(x # p, m, h, vs)])
       (map (\<lambda>(p, m, h). (tl p, m, h)) (filter (\<lambda>(p, _). hd p = x) ps)))"
proof (induction ps)
  case (Cons e ps)
  obtain p m h where e: "e = (p, m, h)" by (cases e)
  with Cons.prems obtain y ys where p: "p = y # ys" "take 1 y \<noteq> '':''" by (cases p) auto
  show ?case using Cons p by (simp add: e split: option.splits)
qed simp

lemma fitting_root:
  "fitting api_routes (x # xs) =
     concat (map (\<lambda>(p, m, h). case match_segments p xs of None \<Rightarrow> [] | Some vs \<Rightarrow> [(x # p, m, h, vs)])
       (below x))"
  unfolding fitting_def below_def by (rule fitting_below) (simp add: api_pieces)

lemma trim_start_join:
  "plain_text x \<Longrightarrow> trim_start_slashes (x @ r) = x @ r"
  using plain_no_slash[of x] by (cases x) (auto simp: trim_start_slashes_def plain_text_def)

lemma build_url_join:
  assumes "plain_text x"
  shows "build_url cfg (x @ join_segments xs @ q) =
    trim_end_slashes (ab_server_url cfg) @ join_segments (x # xs) @ q"
  using trim_start_join[OF assms, of "join_segments xs @ q"] by (simp add: build_url_def)

lemma dispatch_plain:
  assumes "web_ok w tf cfg" "\<forall>y \<in> set (x # xs). plain_text y" "q = [] \<or> hd q = CHR ''?''"
    and "one_pattern (fitting api_routes (x # xs))"
  shows "dispatch w tf m (build_url cfg (x @ join_segments xs @ q)) =
    Option.bind (map_option (\<lambda>(p, m', h, vs). (h, vs))
       (find (\<lambda>(p, m', h, vs). m' = m) (fitting api_routes (x # xs)))) (\<lambda>(h, vs). extract_path tf h vs)"
proof -
  have x: "plain_text x" using assms(2) by simp
  have "wb_url_path w (trim_end_slashes (ab_server_url cfg) @ join_segments (x # xs) @ q) = join_segments (x # xs)"
    using assms(1-3) unfolding web_ok_def path_of_url_def by blast
  moreover have "wb_router w api_routes m (join_segments (x # xs)) =
      map_option (\<lambda>(p, m', h, vs). (h, vs)) (find (\<lambda>(p, m', h, vs). m' = m) (fitting api_routes (x # xs)))"
    using assms(1,2,4) unfolding web_ok_def router_by_segments_def by blast
  ultimately show ?thesis
    by (simp only: dispatch_def build_url_join[OF x])
qed

lemma literal_plain [simp]:
  "plain_text ''transactions''" "plain_text ''relayers''" "plain_text ''signing''" "plain_text ''networks''"
  "plain_text ''auth''" "plain_text ''status''" "plain_text ''health''" "plain_text ''hash''"
  "plain_text ''external''" "plain_text ''send''" "plain_text ''send-random''" "plain_text ''cancel''"
  "plain_text ''replace''" "plain_text ''inmempool''" "plain_text ''pending''" "plain_text ''count''"
  "plain_text ''new''" "plain_text ''clone''" "plain_text ''pause''" "plain_text ''unpause''" "plain_text ''gas''"
  "plain_text ''eip1559''" "plain_text ''max''" "plain_text ''0''" "plain_text ''import''"
  "plain_text ''allowlists''" "plain_text ''message''" "plain_text ''typed-data''"
  "plain_text ''text-history''" "plain_text ''typed-data-history''" "plain_text ''price''"
  by (simp_all add: plain_text_def plain_char_def)

lemma parse_gas_price_zero [simp]: "parse_gas_price ''0'' = Some 0"
  by (simp add: parse_gas_price_def parse_unsigned_def digit_val_def)

lemmas fitting_simps = fitting_root below_roots one_pattern_def

lemmas reached_defs = reached_op_def plain_request_def limited_request_def query_request_def
  allowlist_request_def auth_status_request_def health_request_def page_suffix_def
  fitting_simps one_def two_def

lemma forms_plain:
  assumes "web_ok w tf cfg"
  shows "plain_text (tf_show_uuid tf i)" "tf_parse_uuid tf (tf_show_uuid tf i) = Some i"
    "plain_text (tf_show_hash tf x)" "tf_parse_hash tf (tf_show_hash tf x) = Some x"
  using assms by (auto simp: web_ok_def forms_ok_def)

lemma transaction_reached:
  assumes "web_ok w tf cfg" "plain_call (TransactionCall c)"
  shows "reached_op w tf cfg (TransactionCall c) = Some (transaction_op c)"
proof -
  note tf = forms_plain [OF assms(1)]
  note d = dispatch_plain [OF assms(1), of "''transactions''"]
  show ?thesis
  proof (cases c)
    case (TxGet i)
    then show ?thesis
      using assms(2) d [of "[tf_show_uuid tf i]" "[]" GET] by (simp add: reached_defs tf)
  next
    case (TxGetByHash x)
    then show ?thesis
      using assms(2) d [of "[''hash'', tf_show_hash tf x]" "[]" GET] by (simp add: reached_defs tf)
  next
    case (TxGetByExternalId e)
    then show ?thesis
      using assms(2) d [of "[''external'', e]" "[]" GET] by (simp add: reached_defs tf)
  next
    case (TxGetByExternalIdForRelayer r e)
    then show ?thesis
      using assms(2) d [of "[''relayers'', tf_show_uuid tf r, ''external'', e]" "[]" GET] by (simp add: reached_defs tf)
  next
    case (TxGetAll r pc)
    then show ?thesis
      using assms(2) d [of "[''relayers'', tf_show_uuid tf r]" "[]" GET] by (simp add: reached_defs tf)
  next
    case (TxSend r rq key)
    then show ?thesis
      using assms(2) d [of "[''relayers'', tf_show_uuid tf r, ''send'']" "[]" POST] by (simp add: reached_defs tf)
  next
    case (TxSendRandom c rq key)
    then show ?thesis
      using assms(2) d [of "[''relayers'', show_chain c, ''send-random'']" "[]" POST] by (simp add: reached_defs tf)
  next
    case (TxCancel i key)
    then show ?thesis
      using assms(2) d [of "[''cancel'', tf_show_uuid tf i]" "[]" PUT] by (simp add: reached_defs tf)
  next
    case (TxReplace i rq key)
    then show ?thesis
      using assms(2) d [of "[''replace'', tf_show_uuid tf i]" "[]" PUT] by (simp add: reached_defs tf)
  next
    case (TxGetStatus i)
    then show ?thesis
      using assms(2) d [of "[''status'', tf_show_uuid tf i]" "[]" GET] by (simp add: reached_defs tf)
  next
    case (TxInmempoolCount r)
    then show ?thesis
      using assms(2) d [of "[''relayers'', tf_show_uuid tf r, ''inmempool'', ''count'']" "[]" GET] by (simp add: reached_defs tf)
  next
    case (TxPendingCount r)
    then show ?thesis
      using assms(2) d [of "[''relayers'', tf_show_uuid tf r, ''pending'', ''count'']" "[]" GET] by (simp add: reached_defs tf)
  qed
qed

lemma relayer_reached:
  assumes "web_ok w tf cfg" "plain_call (RelayerCall c)"
  shows "reached_op w tf cfg (RelayerCall c) = Some (relayer_op c)"
proof -
  note tf = forms_plain [OF assms(1)]
  note d = dispatch_plain [OF assms(1), of "''relayers''"]
  show ?thesis
  proof (cases c)
    case (RlGetAll c pc)
    then show ?thesis
      using assms(2) d [of "[]" "[]" GET] by (simp add: reached_defs tf)
  next
    case (RlGet i)
    then show ?thesis
      using assms(2) d [of "[tf_show_uuid tf i]" "[]" GET] by (simp add: reached_defs tf)
  next
    case (RlCreate c name)
    then show ?thesis
      using assms(2) d [of "[show_chain c, ''new'']" "[]" POST] by (simp add: reached_defs tf)
  next
    case (RlClone i c name)
    then show ?thesis
      using assms(2) d [of "[tf_show_uuid tf i, ''clone'']" "[]" POST] by (simp add: reached_defs tf)
  next
    case (RlDelete i)
    then show ?thesis
      using assms(2) d [of "[tf_show_uuid tf i]" "[]" DELETE] by (simp add: reached_defs tf)
  next
    case (RlPause i)
    then show ?thesis
      using assms(2) d [of "[tf_show_uuid tf i, ''pause'']" "[]" PUT] by (simp add: reached_defs tf)
  next
    case (RlUnpause i)
    then show ?thesis
      using assms(2) d [of "[tf_show_uuid tf i, ''unpause'']" "[]" PUT] by (simp add: reached_defs tf)
  next
    case (RlUpdateEip1559 i b)
    then show ?thesis
      using assms(2) d [of "[tf_show_uuid tf i, ''gas'', ''eip1559'', show_bool b]" "[]" PUT] by (simp add: reached_defs tf)
  next
    case (RlUpdateMaxGasPrice i cap)
    then show ?thesis
      using assms(2) d [of "[tf_show_uuid tf i, ''gas'', ''max'', cap]" "[]" PUT] by (simp add: reached_defs tf)
  next
    case (RlRemoveMaxGasPrice i)
    then show ?thesis
      using assms(2) d [of "[tf_show_uuid tf i, ''gas'', ''max'', ''0'']" "[]" PUT] by (simp add: reached_defs tf)
  next
    case (RlImport c name key a)
    then show ?thesis
      using assms(2) d [of "[show_chain c, ''import'']" "[]" POST] by (simp add: reached_defs tf)
  next
    case (RlPendingCount i)
    then show ?thesis
      using dispatch_plain [OF assms(1), of "''transactions''" "[''relayers'', tf_show_uuid tf i, ''pending'', ''count'']" "[]" GET]
      by (simp add: reached_defs tf)
  next
    case (RlInmempoolCount i)
    then show ?thesis
      using dispatch_plain [OF assms(1), of "''transactions''" "[''relayers'', tf_show_uuid tf i, ''inmempool'', ''count'']" "[]" GET]
      by (simp add: reached_defs tf)
  qed
qed

lemma sign_reached:
  assumes "web_ok w tf cfg" "plain_call (SignCall c)"
  shows "reached_op w tf cfg (SignCall c) = Some (sign_op c)"
proof -
  note tf = forms_plain [OF assms(1)]
  note d = dispatch_plain [OF assms(1), of "''signing''"]
  show ?thesis
  proof (cases c)
    case (SgText r m key)
    then show ?thesis
      using assms(2) d [of "[''relayers'', tf_show_uuid tf r, ''message'']" "[]" POST] by (simp add: reached_defs tf)
  next
    case (SgTypedData r td key)
    then show ?thesis
      using assms(2) d [of "[''relayers'', tf_show_uuid tf r, ''typed-data'']" "[]" POST] by (simp add: reached_defs tf)
  next
    case (SgTextHistory r pc)
    then show ?thesis
      using assms(2) d [of "[''relayers'', tf_show_uuid tf r, ''text-history'']" "page_suffix pc" GET]
      by (simp add: reached_defs tf)
  next
    case (SgTypedDataHistory r pc)
    then show ?thesis
      using assms(2) d [of "[''relayers'', tf_show_uuid tf r, ''typed-data-history'']" "page_suffix pc" GET]
      by (simp add: reached_defs tf)
  qed
qed

lemma network_reached:
  assumes "web_ok w tf cfg" "plain_call (NetworkCall c)"
  shows "reached_op w tf cfg (NetworkCall c) = Some (network_op c)"
proof -
  note tf = forms_plain [OF assms(1)]
  note d = dispatch_plain [OF assms(1), of "''networks''"]
  show ?thesis
  proof (cases c)
    case (NwGet c)
    then show ?thesis
      using assms(2) d [of "[show_chain c]" "[]" GET] by (simp add: reached_defs tf)
  next
    case (NwGetAll)
    then show ?thesis
      using assms(2) d [of "[]" "[]" GET] by (simp add: reached_defs tf)
  next
    case (NwGasPrices c)
    then show ?thesis
      using assms(2) d [of "[''gas'', ''price'', show_chain c]" "[]" GET] by (simp add: reached_defs tf)
  qed
qed

end
