(* ===== verification/Sdk_Properties.thy ===== *)
theory Sdk_Properties
  imports Sdk_Laws Request_Properties
begin

text \<open>
  Properties of the SDK with the server: every call arrives at the operation it is meant for, the
  credentials of a client are accepted, what a read shows is shown only to those who may use the
  relayer, and waiting for a receipt ends exactly when the stored transaction leaves the queues.
\<close>

section \<open>Calls\<close>

text \<open>C38: The SDK and the server agree on every call. With a router and a URL library that behave as
  documented and identifiers that are shown without escapes, the request of every call (its method and
  its URL, built from the server's address with or without trailing slashes) is routed to the handler
  the call is meant for, and the path of that request parses back to exactly the identifiers, chains,
  hashes, caps and switches the caller gave. External ids and caps must be plain texts, since they are
  put into the path as they are.\<close>

theorem sdk_calls_reach_their_handlers:
  assumes "web_ok w tf cfg" and "plain_call c"
  shows "reached_op w tf cfg c = Some (intended_op c)"
proof (cases c)
  case (TransactionCall x)
  then show ?thesis using transaction_reached[OF assms(1)] assms(2) by simp
next
  case (RelayerCall x)
  then show ?thesis using relayer_reached[OF assms(1)] assms(2) by simp
next
  case (AllowlistCall i pc)
  then show ?thesis
    using dispatch_plain [OF assms(1), of "''relayers''" "[tf_show_uuid tf i, ''allowlists'']" "[]" GET]
    by (simp add: reached_defs forms_plain[OF assms(1)])
next
  case (SignCall x)
  then show ?thesis using sign_reached[OF assms(1)] by simp
next
  case (NetworkCall x)
  then show ?thesis using network_reached[OF assms(1)] by simp
next
  case AuthStatusCall
  then show ?thesis
    using dispatch_plain [OF assms(1), of "''auth''" "[''status'']" "[]" GET]
    by (simp add: reached_defs)
next
  case HealthCall
  then show ?thesis
    using dispatch_plain [OF assms(1), of "''health''" "[]" "[]" GET] by (simp add: reached_defs)
qed

text \<open>A router, a URL library and texts of identifiers that behave so.\<close>

definition ex_router ::
  "(string \<times> route list) list \<Rightarrow> http_method \<Rightarrow> string \<Rightarrow> (handler \<times> string list) option" where
  "ex_router table m path =
     map_option (\<lambda>(p, m', h, vs). (h, vs)) (find (\<lambda>(p, m', h, vs). m' = m) (fitting table (segments path)))"

definition ex_base :: string where
  "ex_base = ''http://relay''"

definition ex_web :: web where
  "ex_web = \<lparr> wb_url_path = (\<lambda>u. takeWhile (\<lambda>c. c \<noteq> CHR ''?'') (drop (length ex_base) u)), wb_router = ex_router \<rparr>"

definition ex_forms :: text_forms where
  "ex_forms = \<lparr> tf_show_uuid = (\<lambda>i. show_digits (unat i)),
     tf_parse_uuid = (\<lambda>s. map_option of_nat (parse_unsigned (2 ^ 128) s)),
     tf_show_hash = (\<lambda>x. show_digits (unat x)),
     tf_parse_hash = (\<lambda>s. map_option of_nat (parse_unsigned (2 ^ 256) s)) \<rparr>"

definition ex_base_config :: api_base_config where
  "ex_base_config = \<lparr> ab_server_url = ex_base @ ''/'', ab_auth = BasicAuth ''u'' ''p'' \<rparr>"

lemma parse_unsigned_word:
  "map_option of_nat (parse_unsigned (2 ^ LENGTH('a)) (show_digits (unat (i :: 'a::len word)))) = Some i"
  using unsigned_less [of i] by (simp add: parse_unsigned_show)

lemma plain_join_no_query:
  "\<forall>x \<in> set xs. plain_text x \<Longrightarrow> c \<in> set (join_segments xs) \<Longrightarrow> c \<noteq> CHR ''?''"
proof (induction xs)
  case (Cons x xs)
  then show ?case by (auto simp: plain_text_def plain_char_def list_all_iff Let_def)
qed simp

lemma ex_web_ok: "web_ok ex_web ex_forms ex_base_config"
proof -
  have "forms_ok ex_forms"
    using parse_unsigned_word [where 'a = 128] parse_unsigned_word [where 'a = 256]
    by (simp add: forms_ok_def ex_forms_def)
  moreover have "router_by_segments (wb_router ex_web)"
    by (simp add: router_by_segments_def ex_web_def ex_router_def segments_join)
  moreover have "path_of_url (wb_url_path ex_web) ex_base"
  proof -
    have "takeWhile (\<lambda>c. c \<noteq> CHR ''?'') (join_segments xs @ q) = join_segments xs"
      if "\<forall>x \<in> set xs. plain_text x" "q = [] \<or> hd q = CHR ''?''" for xs q
      using that plain_join_no_query[OF that(1)] by (cases q) (auto simp: takeWhile_append)
    then show ?thesis by (simp add: path_of_url_def ex_web_def)
  qed
  moreover have "trim_end_slashes (ab_server_url ex_base_config) = ex_base"
    by (simp add: trim_end_slashes_def ex_base_config_def ex_base_def)
  ultimately show ?thesis by (simp add: web_ok_def)
qed

theorem sdk_calls_reach_their_handlers_witness:
  "reached_op ex_web ex_forms ex_base_config (RelayerCall (RlUpdateMaxGasPrice 7 ''40'')) =
     Some (OpUpdateMaxGasPrice 7 40)"
proof -
  have "parse_gas_price ''40'' = Some 40"
    by (simp add: parse_gas_price_def parse_unsigned_def digit_val_def)
  then show ?thesis
    using sdk_calls_reach_their_handlers [OF ex_web_ok, of "RelayerCall (RlUpdateMaxGasPrice 7 ''40'')"]
    by (simp add: plain_text_def plain_char_def)
qed

section \<open>External ids in paths\<close>

text \<open>An external id with a slash fits no route: the SDK reads the answer 404 as no transaction.\<close>

lemma slashed_external_id_reads_none:
  assumes "web_ok w tf cfg" "plain_text a" "plain_text b" "hs_status r = 404"
  shows "reached_op w tf cfg (TransactionCall (TxGetByExternalId (a @ ''/'' @ b))) = None"
    and "get_or_none_answer decode (Inr r) = Inr None"
proof -
  show "reached_op w tf cfg (TransactionCall (TxGetByExternalId (a @ ''/'' @ b))) = None"
    using dispatch_plain [OF assms(1), of "''transactions''" "[''external'', a, b]" "[]" GET] assms(2,3)
    by (simp add: reached_defs)
  show "get_or_none_answer decode (Inr r) = Inr None"
    using assms(4) by (simp add: get_or_none_answer_def)
qed

text \<open>A chain the server does not know is an error of the SDK, not a missing value.\<close>

lemma unknown_network_is_an_error:
  assumes "find (\<lambda>n. ns_chain_id n = c) configs = None" "is_basic_auth_valid h"
  shows "get_answer decode (Inr (response_of text json (api_network configs h c))) =
           Inl (HttpError (StatusError 404))"
proof -
  have "api_network configs h c =
      Inl (NOT_FOUND, ''Could not find network are you sure its enabled in the rrelayer.yaml?'')"
    using assms by (simp add: api_network_def validate_basic_auth_valid_def not_found_def)
  then show ?thesis by (simp add: get_answer_def seen_error_def)
qed

section \<open>Credentials\<close>

text \<open>The credentials of a client are those of the server exactly when the server accepts its requests.\<close>

lemma split_colon_name: "CHR '':'' \<notin> set u \<Longrightarrow> split_colon (u @ CHR '':'' # p) = Some (u, p)"
  by (induction u) auto

lemma insert_all_other:
  "\<forall>(k, v) \<in> set extra. to_lowercase k \<noteq> to_lowercase name \<Longrightarrow> header_get (insert_all extra h) name = header_get h name"
  by (induction extra arbitrary: h) (auto simp: insert_all_def header_get_def header_insert_def)

lemma sdk_credentials_accepted:
  assumes "build_headers b64 cfg extra = Some h" "ab_auth cfg = BasicAuth u p" "CHR '':'' \<notin> set u"
    and "se_b64 se (b64 (u @ '':'' @ p)) = Some (u @ '':'' @ p)"
    and "\<forall>(k, v) \<in> set extra. to_lowercase k \<noteq> to_lowercase ''Authorization''"
  shows "is_ok (validate_basic_auth se h) = (se_username se = Some u \<and> se_password se = Some p)"
proof -
  let ?v = "''Basic '' @ b64 (u @ '':'' @ p)"
  have v: "to_str ?v = Some ?v"
    using assms(1,2) by (auto simp: build_headers_def auth_header_def to_str_def split: option.splits if_splits)
  have "header_get h ''Authorization'' = Some ?v"
    using assms(1,2,5) insert_all_other[OF assms(5)] v
    by (auto simp: build_headers_def auth_header_def header_get_def header_insert_def)
  then have "credentials_from_headers se h = Inr (u, p)"
    using v assms(3,4) by (simp add: credentials_from_headers_def split_colon_name)
  then show ?thesis
    by (auto simp: validate_basic_auth_def validate_credentials_def and_then_Inr is_ok_def ok_or_def
        split: option.splits sum.splits if_splits)
qed

lemma split_colon_first: "split_colon (u @ '':'' @ p) = Some (a, b) \<Longrightarrow> CHR '':'' \<notin> set a"
  by (induction u arbitrary: a) (auto split: if_splits option.splits)

text \<open>A user name with a colon is never accepted: the server splits at the first colon.\<close>

lemma colon_in_name_refused:
  assumes "header_text h ''Authorization'' = Some (''Basic '' @ b64 (u @ '':'' @ p))" "CHR '':'' \<in> set u"
    and "se_b64 se (b64 (u @ '':'' @ p)) = Some (u @ '':'' @ p)" "se_username se = Some u"
  shows "\<not> is_ok (validate_basic_auth se h)"
proof -
  have "fst c \<noteq> u" if "split_colon (u @ '':'' @ p) = Some c" for c
    using split_colon_first [of u p "fst c" "snd c"] that assms(2) by auto
  then show ?thesis
    using assms(1,3,4)
    by (auto simp: validate_basic_auth_def credentials_from_headers_def header_text_def validate_credentials_def
        is_ok_def and_then_def ok_or_def bind_eq_Some_conv split: sum.splits option.splits if_splits)
qed

section \<open>Reads\<close>

lemma wrap_Inr: "wrap f x = (s', Inr a) \<longleftrightarrow> (\<exists>b. x = (s', Inr b) \<and> a = f b)"
  by (cases x) (auto simp: wrap_def and_then_Inr)

lemma show_to_Inr:
  "show_to ac (inject_basic_auth_status se h) r = Inr a \<longleftrightarrow>
     a = r \<and> (\<forall>t. r = Some t \<longrightarrow> authenticated se ac h (tx_from t) (tx_chain_id t))"
  by (cases r) (auto simp: show_to_def and_then_Inr validate_auth_iff)

lemma ok_or_Inr: "ok_or e x = Inr y \<longleftrightarrow> x = Some y"
  by (cases x) simp_all

lemma for_relayer_Inr:
  assumes "for_relayer ai (inject_basic_auth_status se h) env m i s = (s', Inr r)"
  shows "looked_up env i s = Some (rl_address r, rl_chain_id r) \<and>
     authenticated se (sv_config s) h (rl_address r) (rl_chain_id r)"
proof (cases "lookup_relayer (re_lookup env) i s")
  case (Pair s1 x)
  from assms have "x = Inr (Some r)"
      "validate_auth_basic_or_api_key (sv_config s) (inject_basic_auth_status se h)
         (rl_address r) (rl_chain_id r) = Inr ()"
    by (simp_all add: for_relayer_def Pair and_then_Inr ok_or_Inr)
  then show ?thesis using Pair by (simp add: looked_up_def validate_auth_iff)
qed

text \<open>The transactions of an answer, and the relayer a read is confined to.\<close>

definition shown_transactions :: "reader_answer \<Rightarrow> transaction list" where
  "shown_transactions a =
     (case a of AnTransaction (Some t) \<Rightarrow> [t] | AnTransactions p \<Rightarrow> pr_items p | _ \<Rightarrow> [])"

definition read_relayer :: "read_op \<Rightarrow> relayer_id option" where
  "read_relayer op =
     (case op of
        ReadByExternalIdForRelayer i e \<Rightarrow> Some i
      | ReadTransactions i limit offset \<Rightarrow> Some i
      | _ \<Rightarrow> None)"

lemma own_transactions:
  "t \<in> set (pr_items (get_transactions_for_relayer i pc d)) \<Longrightarrow> tx_relayer_id t = i"
  "get_transaction_by_external_id_for_relayer i e d = Some t \<Longrightarrow> tx_relayer_id t = i"
  by (auto simp: get_transactions_for_relayer_def page_of_def Let_def build_transaction_from_transaction_view_def
      get_transaction_by_external_id_for_relayer_def find_by_external_id_def find_Some_iff
      dest!: in_set_takeD in_set_dropD)

text \<open>C39: Confidentiality of reads. Whatever endpoint that shows a transaction, a status, a count or a
  history is asked, and whatever headers the client sends (the marker of the middleware included), an
  answer other than "no such transaction" is given only to a client that is authenticated for the
  account it is about: the sender and chain of the transaction, or the address and chain of the
  relayer that was asked for. Reads that name a relayer show transactions of this relayer only.\<close>

theorem reads_need_credentials:
  assumes "serve_read ai shown (inject_basic_auth_status se h) env op s = (s', Inr a)"
  shows "(case read_subject env op a s of
            None \<Rightarrow> a = AnTransaction None
          | Some (x, c) \<Rightarrow> authenticated se (sv_config s) h x c)
    \<and> (\<forall>i. read_relayer op = Some i \<longrightarrow> (\<forall>t \<in> set (shown_transactions a). tx_relayer_id t = i))"
proof -
  note defs = serve_read_def read_subject_def wrap_Inr sender_of_def shown_transactions_def read_relayer_def
  have at: "validate_auth_basic_or_api_key (sv_config s) (inject_basic_auth_status se h) x c = Inr u \<Longrightarrow>
      authenticated se (sv_config s) h x c" for x c u
    by (simp add: validate_auth_iff)
  show ?thesis
  proof (cases op)
    case (ReadTransaction i)
    with assms show ?thesis
      by (auto simp: defs api_get_transaction_by_id_def and_then_Inr show_to_Inr
          split: sum.splits prod.splits option.splits)
  next
    case (ReadByHash x)
    with assms show ?thesis
      by (auto simp: defs api_get_transaction_by_tx_hash_def and_then_Inr show_to_Inr split: option.splits)
  next
    case (ReadByExternalId e)
    with assms show ?thesis
      by (auto simp: defs api_get_transaction_by_external_id_def and_then_Inr show_to_Inr split: option.splits)
  next
    case (ReadByExternalIdForRelayer i e)
    with assms show ?thesis
      by (auto simp: defs api_get_transaction_by_external_id_for_relayer_def and_then_Inr run_query_def ok_or_Inr
          split: sum.splits prod.splits option.splits dest!: for_relayer_Inr dest: own_transactions)
  next
    case (ReadStatus i)
    with assms show ?thesis
      by (auto simp: defs api_get_transaction_status_def and_then_Inr ok_or_Inr
          split: sum.splits prod.splits option.splits dest!: at)
  next
    case (ReadTransactions i limit offset)
    with assms show ?thesis
      by (auto simp: defs api_get_relayer_transactions_def and_then_Inr run_query_def
          split: sum.splits prod.splits option.splits dest!: for_relayer_Inr dest: own_transactions)
  next
    case (ReadPendingCount i)
    with assms show ?thesis
      by (auto simp: defs api_get_transactions_pending_count_def and_then_Inr
          split: prod.splits dest!: for_relayer_Inr)
  next
    case (ReadInmempoolCount i)
    with assms show ?thesis
      by (auto simp: defs api_get_transactions_inmempool_count_def and_then_Inr
          split: prod.splits dest!: for_relayer_Inr)
  next
    case (ReadTextHistory i)
    with assms show ?thesis
      by (auto simp: defs api_get_signed_text_history_def and_then_Inr
          split: sum.splits prod.splits dest!: for_relayer_Inr)
  next
    case (ReadTypedDataHistory i)
    with assms show ?thesis
      by (auto simp: defs api_get_signed_typed_data_history_def and_then_Inr
          split: sum.splits prod.splits dest!: for_relayer_Inr)
  qed
qed

text \<open>The counts tell even strangers whether a relayer exists: the relayer is looked up first.\<close>

lemma counts_tell_strangers:
  assumes "\<not> authenticated se (sv_config s) h (rl_address r) (rl_chain_id r)"
  shows "lookup_relayer (re_lookup env) i s = (s1, Inr None) \<Longrightarrow>
      snd (api_get_transactions_pending_count ai (inject_basic_auth_status se h) env i s) =
        Inl (not_found ''Relayer could not be found'')"
    and "lookup_relayer (re_lookup env) i s = (s1, Inr (Some r)) \<Longrightarrow>
      snd (api_get_transactions_pending_count ai (inject_basic_auth_status se h) env i s) = Inl (unauthorized None)"
proof -
  have "validate_auth_basic_or_api_key (sv_config s) (inject_basic_auth_status se h)
      (rl_address r) (rl_chain_id r) = Inl (unauthorized None)"
    using assms by (auto simp: validate_auth_basic_or_api_key_def is_api_key_valid_for_relayer_def authenticated_def
        key_of_relayer_find split: option.splits)
  then show "lookup_relayer (re_lookup env) i s = (s1, Inr (Some r)) \<Longrightarrow>
      snd (api_get_transactions_pending_count ai (inject_basic_auth_status se h) env i s) = Inl (unauthorized None)"
    by (simp add: api_get_transactions_pending_count_def for_relayer_def)
qed (simp add: api_get_transactions_pending_count_def for_relayer_def)

section \<open>Waiting for a receipt\<close>

text \<open>What the status endpoint answers to the k-th request, and what the SDK makes of it.\<close>

definition served_status ::
  "api_params \<Rightarrow> header_map \<Rightarrow> (nat \<Rightarrow> read_env) \<Rightarrow> transaction_id \<Rightarrow> (nat \<Rightarrow> server) \<Rightarrow> nat \<Rightarrow>
   http_error + status_result" where
  "served_status ai h env i s k = snd (api_get_transaction_status ai h (env k) i (s k))"

definition polled_status ::
  "(string \<Rightarrow> 'b) \<Rightarrow> (status_result \<Rightarrow> 'b) \<Rightarrow> ('b \<Rightarrow> string + status_result option) \<Rightarrow>
   (nat \<Rightarrow> http_error + status_result) \<Rightarrow> nat \<Rightarrow> api_sdk_error + status_result option" where
  "polled_status text json decode served k =
     get_or_none_answer decode (Inr (response_of text json (served k)))"

definition still_queued :: "http_error + status_result \<Rightarrow> bool" where
  "still_queued x = (\<exists>r. x = Inr r \<and> st_status r \<in> {PENDING, INMEMPOOL})"

lemma decision_of_served:
  assumes "\<And>a. decode (json a) = Inr (Some a)"
  shows "(wait_decision (polled_status text json decode served k) = None) = still_queued (served k)"
    and "(wait_decision (polled_status text json decode served k) = Some (Inr r)) =
       (served k = Inr r \<and> st_status r \<in> {MINED, CONFIRMED, FAILED})"
  unfolding polled_status_def get_or_none_of_server [where decode = decode and json = json, OF assms]
  by (auto simp: wait_decision_def still_queued_def split: sum.splits prod.splits if_splits
      transaction_status.splits)

lemma status_of_stored_Inr:
  assumes "snd (status_of_stored ai env t s) = Inr r"
  shows "st_status r = tx_status t" "st_hash r = tx_known_transaction_hash t"
  using assms
  by (cases "has_no_receipt (tx_status t)"; cases "lookup_relayer (re_lookup env) (tx_relayer_id t) s";
      cases "tx_known_transaction_hash t"; auto simp: status_of_stored_def Let_def and_then_Inr)+

lemma status_is_stored:
  assumes "snd (api_get_transaction_status ai h env i s) = Inr r"
  shows "\<exists>t. snd (cached_transaction (re_fault env) i s) = Inr (Some t) \<and> st_status r = tx_status t \<and>
    st_hash r = tx_known_transaction_hash t"
proof -
  obtain s1 x where c: "cached_transaction (re_fault env) i s = (s1, x)" by fastforce
  with assms obtain t where "x = Inr (Some t)" "snd (status_of_stored ai env t s1) = Inr r"
    by (auto simp: api_get_transaction_status_def and_then_Inr ok_or_Inr split: sum.splits option.splits)
  then show ?thesis using status_of_stored_Inr c by fastforce
qed

text \<open>C40: Waiting for a receipt is right and does not give up. Polling a server in whatever states it is
  in, the wait of the SDK returns a result exactly when some poll is answered with MINED, CONFIRMED or
  FAILED and every poll before it with PENDING or INMEMPOOL, and it is this answer; it runs for ever
  exactly when every poll finds the transaction pending or in the mempool; and every answer it sees is
  the status and hash of the transaction that the server holds at this moment.\<close>

theorem waiting_ends_with_stored_outcome:
  assumes "\<And>a. decode (json a) = Inr (Some a)"
  shows "(wait_for_transaction_receipt_by_id
         (polled_status text json decode (served_status ai h env i s)) 0 = Some (Inr r)) =
      (\<exists>n. served_status ai h env i s n = Inr r \<and> st_status r \<in> {MINED, CONFIRMED, FAILED} \<and>
         (\<forall>j < n. still_queued (served_status ai h env i s j)))
    \<and> (wait_for_transaction_receipt_by_id
         (polled_status text json decode (served_status ai h env i s)) 0 = None) =
      (\<forall>j. still_queued (served_status ai h env i s j))
    \<and> (\<forall>k a. served_status ai h env i s k = Inr a \<longrightarrow>
        (\<exists>t. snd (cached_transaction (re_fault (env k)) i (s k)) = Inr (Some t) \<and>
             st_status a = tx_status t \<and> st_hash a = tx_known_transaction_hash t))"
proof (intro conjI allI impI)
  let ?served = "served_status ai h env i s"
  let ?wait = "wait_for_transaction_receipt_by_id (polled_status text json decode ?served) 0"
  note d = decision_of_served [where decode = decode and json = json, OF assms(1)]
  show "(?wait = Some (Inr r)) =
      (\<exists>n. ?served n = Inr r \<and> st_status r \<in> {MINED, CONFIRMED, FAILED} \<and> (\<forall>j < n. still_queued (?served j)))"
  proof
    assume "?wait = Some (Inr r)"
    from wait_ended [OF this] show "\<exists>n. ?served n = Inr r \<and> st_status r \<in> {MINED, CONFIRMED, FAILED} \<and>
        (\<forall>j < n. still_queued (?served j))"
      by (simp only: d add_0 conj_assoc)
  next
    assume "\<exists>n. ?served n = Inr r \<and> st_status r \<in> {MINED, CONFIRMED, FAILED} \<and>
        (\<forall>j < n. still_queued (?served j))"
    then obtain n where "wait_decision (polled_status text json decode ?served n) = Some (Inr r)"
      "\<forall>j < n. wait_decision (polled_status text json decode ?served j) = None"
      by (auto simp only: d)
    then show "?wait = Some (Inr r)" using wait_ends [of n _ 0] by simp
  qed
  have "?wait \<noteq> None" if answered: "\<not> still_queued (?served j)" for j
  proof -
    obtain n where n: "\<not> still_queued (?served n)" "\<forall>j < n. still_queued (?served j)"
      using answered exists_least_iff [of "\<lambda>j. \<not> still_queued (?served j)"] by auto
    then obtain x where "wait_decision (polled_status text json decode ?served n) = Some x"
      using d(1) by (cases "wait_decision (polled_status text json decode ?served n)") auto
    then show ?thesis
      using wait_ends [of n _ 0] n(2) d(1) by simp
  qed
  moreover have "?wait = None" if queued: "\<forall>j. still_queued (?served j)"
  proof (rule ccontr)
    assume "?wait \<noteq> None"
    then obtain x where "?wait = Some x" by blast
    then obtain n where "wait_decision (polled_status text json decode ?served n) = Some x"
      using wait_ended by fastforce
    moreover have "wait_decision (polled_status text json decode ?served n) = None"
      using queued by (simp add: d(1))
    ultimately show False by simp
  qed
  ultimately show "(?wait = None) = (\<forall>j. still_queued (?served j))" by blast
  fix k a
  assume "?served k = Inr a"
  then show "\<exists>t. snd (cached_transaction (re_fault (env k)) i (s k)) = Inr (Some t) \<and>
      st_status a = tx_status t \<and> st_hash a = tx_known_transaction_hash t"
    unfolding served_status_def by (rule status_is_stored)
qed

text \<open>A server with the relayer of the examples and an API key for it.\<close>

definition ex_lookup :: relayer_call where
  "ex_lookup = \<lparr> rc_now_get = 1, rc_now_set = 1, rc_fault = None, rc_update = DbOk \<rparr>"

definition ex_read :: read_env where
  "ex_read = \<lparr> re_lookup = ex_lookup, re_fault = None, re_receipt = (\<lambda>x. Inr None),
     re_texts = Inl (DbUnavailable []), re_typed = Inl (DbUnavailable []) \<rparr>"

definition ex_read_server :: "transaction_status \<Rightarrow> server" where
  "ex_read_server st =
     \<lparr> sv_app = ex_app (ex_start\<lparr> s_cache := [1 \<mapsto>
           Some (ex_transaction\<lparr> tx_relayer_id := 7, tx_from := 42, tx_chain_id := 1, tx_status := st,
             tx_known_transaction_hash := None \<rparr>)] \<rparr>),
       sv_relayers = [\<lparr> rw_relayer = ex_relayer, rw_deleted = False \<rparr>], sv_relayer_cache = Map.empty,
       sv_providers = [], sv_networks = [], sv_safes = [] \<rparr>"

abbreviation ex_caller :: header_map where
  "ex_caller \<equiv> inject_basic_auth_status ex_server ex_key_headers"

lemma ex_caller_valid:
  "validate_auth_basic_or_api_key ex_config ex_caller 42 1 = Inr ()"
  "validate_allowed_passed_basic_auth ex_config ex_caller = Inr ()"
  by code_simp+

lemma ex_found: "lookup_relayer ex_lookup 7 (ex_read_server st) =
    (set_relayer_cache 1 7 (Some ex_relayer) (ex_read_server st), Inr (Some ex_relayer))"
  by (simp add: lookup_relayer_def ex_lookup_def ex_read_server_def get_relayer_cache_def cache_get_def
      get_relayer_def live_def ex_relayer_def Let_def)

theorem reads_need_credentials_witness: "authenticated ex_server ex_config ex_key_headers 42 1"
proof -
  have "for_relayer ex_api ex_caller ex_read ''Relayer could not be found'' 7 (ex_read_server PENDING) =
      (set_relayer_cache 1 7 (Some ex_relayer) (ex_read_server PENDING), Inr ex_relayer)"
    using ex_found [of PENDING] ex_caller_valid
    by (simp add: for_relayer_def ex_read_def ex_read_server_def ex_app_def ex_relayer_def)
  then have "serve_read ex_api [] ex_caller ex_read (ReadPendingCount 7) (ex_read_server PENDING) =
      (set_relayer_cache 1 7 (Some ex_relayer) (ex_read_server PENDING),
       Inr (AnCount (pending_transactions_count
         (as_sys (sv_app (set_relayer_cache 1 7 (Some ex_relayer) (ex_read_server PENDING)))) 7)))"
    by (simp add: serve_read_def wrap_def api_get_transactions_pending_count_def)
  from reads_need_credentials [OF this] show ?thesis
    using ex_found [of PENDING]
    by (simp add: read_subject_def looked_up_def ex_read_def ex_relayer_def ex_read_server_def ex_app_def)
qed

lemma ex_served:
  "served_status ex_api ex_caller (\<lambda>k. ex_read) 1 (\<lambda>k. ex_read_server (if k = 0 then PENDING else CONFIRMED)) k =
     Inr \<lparr> st_hash = None, st_status = (if k = 0 then PENDING else CONFIRMED), st_receipt = None \<rparr>"
proof -
  have "snd (api_get_transaction_status ex_api ex_caller ex_read 1 (ex_read_server st)) =
      Inr \<lparr> st_hash = None, st_status = st, st_receipt = None \<rparr>" for st
  proof -
    have c: "cached_transaction None 1 (ex_read_server st) = (ex_read_server st,
        Inr (Some (ex_transaction\<lparr> tx_relayer_id := 7, tx_from := 42, tx_chain_id := 1, tx_status := st,
             tx_known_transaction_hash := None \<rparr>)))"
      by (simp add: cached_transaction_def get_transaction_cached_def ex_read_server_def ex_app_def set_sys_def)
    have f: "sv_config (ex_read_server st) = ex_config" by (simp add: ex_read_server_def ex_app_def)
    show ?thesis
      using ex_found [of st] ex_caller_valid
      by (simp add: api_get_transaction_status_def c f ex_read_def status_of_stored_def Let_def)
  qed
  then show ?thesis by (simp add: served_status_def)
qed

theorem waiting_ends_with_stored_outcome_witness:
  "wait_for_transaction_receipt_by_id
     (polled_status (\<lambda>m. None) Some Inr
        (served_status ex_api ex_caller (\<lambda>k. ex_read) 1 (\<lambda>k. ex_read_server (if k = 0 then PENDING else CONFIRMED)))) 0 =
   Some (Inr \<lparr> st_hash = None, st_status = CONFIRMED, st_receipt = None \<rparr>)"
  using waiting_ends_with_stored_outcome [of Inr Some "\<lambda>m. None" ex_api ex_caller "\<lambda>k. ex_read" 1
      "\<lambda>k. ex_read_server (if k = 0 then PENDING else CONFIRMED)"
      "\<lparr> st_hash = None, st_status = CONFIRMED, st_receipt = None \<rparr>"]
  by (auto simp: ex_served still_queued_def intro!: exI [of _ 1])

end
