(* ===== verification/Sdk_Alloy.thy ===== *)
theory Sdk_Alloy
  imports Sdk_Clients
begin

text \<open>
  The signer and the provider that the SDK puts in the place of alloy's own (sdk/src/alloy_integration.rs):
  the calls their methods make, and the conversion of a transaction request. The debug text of a recipient
  and the parser of addresses (alloy) are parameters.
\<close>

section \<open>The signer\<close>

datatype relayer_client_type = RelayerType relayer_client | AdminType admin_relayer_client

record relayer_signer =
  rsg_client :: relayer_client_type
  rsg_address :: evm_address
  rsg_chain_id :: "chain_id option"

datatype relayer_signer_error = ApiError api_sdk_error | InvalidSignature | AddressConversion

definition from_relayer_client :: "relayer_client \<Rightarrow> evm_address \<Rightarrow> chain_id option \<Rightarrow> relayer_signer" where
  "from_relayer_client c a chain = \<lparr> rsg_client = RelayerType c, rsg_address = a, rsg_chain_id = chain \<rparr>"

definition from_admin_client :: "admin_relayer_client \<Rightarrow> evm_address \<Rightarrow> chain_id option \<Rightarrow> relayer_signer" where
  "from_admin_client c a chain = \<lparr> rsg_client = AdminType c, rsg_address = a, rsg_chain_id = chain \<rparr>"

text \<open>The address is the one in the server's answer about the relayer.\<close>

definition from_relayer_client_auto_address ::
  "relayer_client \<Rightarrow> chain_id option \<Rightarrow> api_sdk_error + (relayer \<times> string list) option \<Rightarrow>
   relayer_signer_error + relayer_signer" where
  "from_relayer_client_auto_address c chain ans =
     and_then (map_err ApiError (address_answer ans)) (\<lambda>a. Inr (from_relayer_client c a chain))"

definition from_admin_client_auto_address ::
  "admin_relayer_client \<Rightarrow> chain_id option \<Rightarrow> api_sdk_error + (relayer \<times> string list) option \<Rightarrow>
   relayer_signer_error + relayer_signer" where
  "from_admin_client_auto_address c chain ans =
     and_then (map_err ApiError (address_answer ans)) (\<lambda>a. Inr (from_admin_client c a chain))"

definition signer_relayer_id :: "relayer_signer \<Rightarrow> relayer_id" where
  "signer_relayer_id s =
     (case rsg_client s of RelayerType c \<Rightarrow> rcl_id c | AdminType a \<Rightarrow> rcl_id (arc_relayer_client a))"

definition set_chain_id :: "chain_id option \<Rightarrow> relayer_signer \<Rightarrow> relayer_signer" where
  "set_chain_id c s = s\<lparr> rsg_chain_id := c \<rparr>"

definition signer_sign_hash :: "relayer_signer \<Rightarrow> u256 \<Rightarrow> sdk_call" where
  "signer_sign_hash s h =
     SignCall (relayer_client_sign (signer_relayer_id s) (RcText (''0x'' @ hex_encode (be_bytes 32 h)) None))"

definition signer_sign_dynamic_typed_data :: "relayer_signer \<Rightarrow> typed_data \<Rightarrow> sdk_call" where
  "signer_sign_dynamic_typed_data s td =
     SignCall (relayer_client_sign (signer_relayer_id s) (RcTypedData td None))"

section \<open>The provider\<close>

datatype tx_kind = TxCreate | TxCall evm_address

record transaction_request_fields =
  atr_to :: "tx_kind option"
  atr_value :: "u256 option"
  atr_input :: "u8 list option"

record alloy_params =
  ap_debug_kind :: "tx_kind \<Rightarrow> string"
  ap_parse_address :: "string \<Rightarrow> evm_address option"

definition strip_prefix_0x :: "string \<Rightarrow> string" where
  "strip_prefix_0x s = (if take 2 s = ''0x'' then drop 2 s else s)"

definition convert_transaction_request ::
  "alloy_params \<Rightarrow> transaction_request_fields \<Rightarrow> relayer_signer_error + relay_request" where
  "convert_transaction_request al tr =
     (case atr_to tr of
        None \<Rightarrow> Inl InvalidSignature
      | Some k \<Rightarrow>
          and_then (ok_or AddressConversion (ap_parse_address al (strip_prefix_0x (ap_debug_kind al k)))) (\<lambda>a.
            Inr \<lparr> rq_to = a,
                  rq_value = (case atr_value tr of Some v \<Rightarrow> v | None \<Rightarrow> 0),
                  rq_data = (case atr_input tr of Some bs \<Rightarrow> bs | None \<Rightarrow> []),
                  rq_speed = None, rq_external_id = None, rq_blobs = None \<rparr>))"

text \<open>\<open>send_transaction\<close> converts and calls; the id in the answer is its result.\<close>

definition provider_send_transaction ::
  "alloy_params \<Rightarrow> relayer_signer \<Rightarrow> transaction_request_fields \<Rightarrow> relayer_signer_error + sdk_call" where
  "provider_send_transaction al s tr =
     and_then (convert_transaction_request al tr) (\<lambda>rq.
       Inr (TransactionCall (relayer_client_transaction (signer_relayer_id s) (RcTxSend rq None))))"

definition send_transaction_via_relayer ::
  "alloy_params \<Rightarrow> relayer_signer \<Rightarrow> evm_address \<Rightarrow> u64 \<Rightarrow> relayer_signer_error + sdk_call" where
  "send_transaction_via_relayer al s to value =
     provider_send_transaction al s
       \<lparr> atr_to = Some (TxCall to), atr_value = Some (ucast value), atr_input = None \<rparr>"

section \<open>What does not work\<close>

text \<open>
  A recipient is shown by its constructor, as the derived \<open>Debug\<close> of alloy does, and addresses are read
  from hexadecimal digits only: then no transaction is ever sent.
\<close>

definition debug_by_constructor :: "alloy_params \<Rightarrow> bool" where
  "debug_by_constructor al \<longleftrightarrow>
     (\<forall>a. \<exists>s. ap_debug_kind al (TxCall a) = ''Call('' @ s) \<and> ap_debug_kind al TxCreate = ''Create'' \<and>
     (\<forall>s a. ap_parse_address al s = Some a \<longrightarrow> (\<forall>c \<in> set (strip_prefix_0x s). hex_digit c \<noteq> None))"

lemma provider_never_sends:
  assumes "debug_by_constructor al"
  shows "provider_send_transaction al s tr =
    Inl (if atr_to tr = None then InvalidSignature else AddressConversion)"
proof (cases "atr_to tr")
  case (Some k)
  have "ap_parse_address al (strip_prefix_0x (ap_debug_kind al k)) = None"
  proof (rule ccontr)
    assume "ap_parse_address al (strip_prefix_0x (ap_debug_kind al k)) \<noteq> None"
    then obtain a where a: "ap_parse_address al (strip_prefix_0x (ap_debug_kind al k)) = Some a" by blast
    obtain r where r: "ap_debug_kind al k = ''C'' @ r \<and> (\<exists>c \<in> set r. hex_digit c = None)"
    proof (cases k)
      case TxCreate
      then have "ap_debug_kind al k = ''C'' @ ''reate''" using assms by (simp add: debug_by_constructor_def)
      moreover have "hex_digit CHR ''r'' = None" by (simp add: hex_digit_def Let_def)
      ultimately show ?thesis using that [of "''reate''"] by simp
    next
      case (TxCall x)
      moreover obtain t where "ap_debug_kind al (TxCall x) = ''Call('' @ t"
        using assms unfolding debug_by_constructor_def by blast
      ultimately have "ap_debug_kind al k = ''C'' @ ''all('' @ t" by simp
      moreover have "hex_digit CHR ''l'' = None" by (simp add: hex_digit_def Let_def)
      ultimately show ?thesis using that [of "''all('' @ t"] by simp
    qed
    then have "strip_prefix_0x (strip_prefix_0x (ap_debug_kind al k)) = ''C'' @ r" by (simp add: strip_prefix_0x_def)
    with a r assms show False unfolding debug_by_constructor_def by (metis Un_iff set_append)
  qed
  with Some show ?thesis by (simp add: provider_send_transaction_def convert_transaction_request_def)
qed (simp add: provider_send_transaction_def convert_transaction_request_def)

text \<open>
  A hash is signed as the text of its digits, by the endpoint for messages, which signs the digest of a
  message: the bytes that are signed are never those of the hash.
\<close>

lemma sign_hash_signs_a_message:
  "signer_sign_hash s h = SignCall (SgText (signer_relayer_id s) m None) \<Longrightarrow> length m = 66"
  by (auto simp: signer_sign_hash_def hex_encode_def hex_byte_def length_concat comp_def sum_list_triv be_bytes_def)

end
