(* ===== verification/Unix_Socket.thy ===== *)
theory Unix_Socket
  imports Prelude
begin

text \<open>
  The Unix socket of the server (unix_socket.rs) and the end of start_api (startup.rs): taking the path
  step by step, with other processes changing the path between the steps, the guard that removes it, and
  the loop that serves connections until a shutdown. The answers of the operating system are the
  arguments of a step.
\<close>

section \<open>The path\<close>

datatype io_error_kind = IoAlreadyExists | IoAddrInUse | IoConnectionRefused | IoNotFound | IoOther string

text \<open>What \<open>lstat\<close> shows of the path, and whether a process accepts connections on it.\<close>

record path_entry =
  pe_is_socket :: bool
  pe_device :: u64
  pe_inode :: u64
  pe_mode :: u32
  pe_accepting :: bool

record unix_socket_guard =
  ug_device :: u64
  ug_inode :: u64

definition owns :: "unix_socket_guard \<Rightarrow> path_entry \<Rightarrow> bool" where
  "owns g e \<longleftrightarrow> pe_is_socket e \<and> pe_device e = ug_device g \<and> pe_inode e = ug_inode g"

definition drop_guard :: "unix_socket_guard \<Rightarrow> path_entry option \<Rightarrow> path_entry option" where
  "drop_guard g f =
     (case f of None \<Rightarrow> None | Some e \<Rightarrow> if owns g e then None else Some e)"

text \<open>How the attempt to connect ends: it takes too long, it succeeds, or it fails.\<close>

datatype probe_result = ProbeTimeout | ProbeConnected | ProbeFailed io_error_kind

datatype bind_pc =
    BsLook | BsProbe | BsRemove | BsListen | BsPermissions | BsIdentify
  | BsReturned "io_error_kind + unix_socket_guard"

definition probe_existing_socket :: "probe_result \<Rightarrow> bind_pc" where
  "probe_existing_socket r =
     (case r of
        ProbeFailed k \<Rightarrow>
          if k = IoConnectionRefused \<or> k = IoNotFound then BsRemove else BsReturned (Inl k)
      | _ \<Rightarrow> BsReturned (Inl IoAddrInUse))"

text \<open>
  The answers of one step: an error of the system call, the result of the attempt, and the socket that a
  new listener puts at the path.
\<close>

record os_answer =
  oa_error :: "io_error_kind option"
  oa_probe :: probe_result
  oa_socket :: path_entry

fun bind_step :: "os_answer \<Rightarrow> path_entry option \<times> bind_pc \<Rightarrow> path_entry option \<times> bind_pc" where
  "bind_step oa (f, BsLook) =
     (f, case oa_error oa of
           Some _ \<Rightarrow> BsListen
         | None \<Rightarrow> (case f of
             None \<Rightarrow> BsListen
           | Some e \<Rightarrow> if pe_is_socket e then BsProbe else BsReturned (Inl IoAlreadyExists)))"
| "bind_step oa (f, BsProbe) = (f, probe_existing_socket (oa_probe oa))"
| "bind_step oa (f, BsRemove) =
     (case (oa_error oa, f) of
        (Some k, _) \<Rightarrow> (f, BsReturned (Inl k))
      | (None, None) \<Rightarrow> (f, BsReturned (Inl IoNotFound))
      | (None, Some _) \<Rightarrow> (None, BsListen))"
| "bind_step oa (f, BsListen) =
     (case (oa_error oa, f) of
        (Some k, _) \<Rightarrow> (f, BsReturned (Inl k))
      | (None, Some _) \<Rightarrow> (f, BsReturned (Inl IoAddrInUse))
      | (None, None) \<Rightarrow> (Some (oa_socket oa), BsPermissions))"
| "bind_step oa (f, BsPermissions) =
     (case (oa_error oa, f) of
        (Some k, _) \<Rightarrow> (f, BsReturned (Inl k))
      | (None, None) \<Rightarrow> (f, BsReturned (Inl IoNotFound))
      | (None, Some e) \<Rightarrow> (Some (e\<lparr> pe_mode := 0x180 \<rparr>), BsIdentify))"
| "bind_step oa (f, BsIdentify) =
     (case (oa_error oa, f) of
        (Some k, _) \<Rightarrow> (f, BsReturned (Inl k))
      | (None, None) \<Rightarrow> (f, BsReturned (Inl IoNotFound))
      | (None, Some e) \<Rightarrow>
          (f, BsReturned (Inr \<lparr> ug_device = pe_device e, ug_inode = pe_inode e \<rparr>)))"
| "bind_step oa (f, BsReturned r) = (f, BsReturned r)"

fun bind_run :: "os_answer list \<Rightarrow> path_entry option \<times> bind_pc \<Rightarrow> path_entry option \<times> bind_pc" where
  "bind_run [] s = s"
| "bind_run (oa # oas) s = bind_run oas (bind_step oa s)"

text \<open>
  The answers an honest system gives: a new listener makes a socket, and the attempt to connect to a
  socket on which a process accepts is neither refused nor missing its path.
\<close>

definition honest :: "path_entry option \<Rightarrow> os_answer \<Rightarrow> bool" where
  "honest f oa \<longleftrightarrow> pe_is_socket (oa_socket oa) \<and>
     (\<forall>e. f = Some e \<and> pe_accepting e \<longrightarrow>
        oa_probe oa \<noteq> ProbeFailed IoConnectionRefused \<and> oa_probe oa \<noteq> ProbeFailed IoNotFound)"

text \<open>With other processes at work: what is at the path changes at any moment.\<close>

inductive path_step :: "path_entry option \<times> bind_pc \<Rightarrow> path_entry option \<times> bind_pc \<Rightarrow> bool" where
  Bind: "honest f oa \<Longrightarrow> path_step (f, pc) (bind_step oa (f, pc))"
| Others: "path_step (f, pc) (f', pc)"

inductive_cases path_stepE: "path_step s s'"

section \<open>Taking the path\<close>

lemma bind_run_returned [simp]: "bind_run oas (f, BsReturned r) = (f, BsReturned r)"
  by (induction oas) auto

lemma bind_run_append: "bind_run (xs @ ys) s = bind_run ys (bind_run xs s)"
  by (induction xs arbitrary: s) auto

text \<open>Six steps are enough, whatever the system answers.\<close>

definition bind_rank :: "bind_pc \<Rightarrow> nat" where
  "bind_rank pc = (case pc of BsLook \<Rightarrow> 6 | BsProbe \<Rightarrow> 5 | BsRemove \<Rightarrow> 4 | BsListen \<Rightarrow> 3
     | BsPermissions \<Rightarrow> 2 | BsIdentify \<Rightarrow> 1 | BsReturned r \<Rightarrow> 0)"

lemma bind_step_rank:
  "bind_rank pc \<noteq> 0 \<Longrightarrow> bind_rank (snd (bind_step oa (f, pc))) < bind_rank pc"
  by (cases pc) (auto simp: bind_rank_def probe_existing_socket_def split: option.split probe_result.split)

lemma bind_run_rank: "bind_rank (snd s) \<le> length oas \<Longrightarrow> bind_rank (snd (bind_run oas s)) = 0"
proof (induction oas arbitrary: s)
  case (Cons oa oas)
  obtain f pc where s: "s = (f, pc)" by (cases s)
  show ?case
  proof (cases "bind_rank pc = 0")
    case True
    then obtain r where "pc = BsReturned r" by (cases pc) (auto simp: bind_rank_def)
    with s show ?thesis by (simp add: bind_rank_def)
  next
    case False
    with Cons.prems s bind_step_rank [OF False, of oa f] show ?thesis by (auto intro!: Cons.IH)
  qed
qed simp

lemma bind_returns: "6 \<le> length oas \<Longrightarrow> \<exists>r. snd (bind_run oas (f, BsLook)) = BsReturned r"
proof -
  assume "6 \<le> length oas"
  then have "bind_rank (snd (bind_run oas (f, BsLook))) = 0"
    by (intro bind_run_rank) (simp add: bind_rank_def)
  then show ?thesis by (cases "snd (bind_run oas (f, BsLook))") (auto simp: bind_rank_def)
qed

text \<open>
  Undisturbed: what is not a socket, and what a process accepts on, stays where it is and the error is
  returned; a guard is only returned for a socket that its owner alone may open.
\<close>

definition bind_ok :: "path_entry option \<Rightarrow> path_entry option \<times> bind_pc \<Rightarrow> bool" where
  "bind_ok f0 s \<longleftrightarrow> (case s of (f, pc) \<Rightarrow>
     (case pc of
        BsLook \<Rightarrow> f = f0
      | BsProbe \<Rightarrow> f = f0 \<and> (\<exists>e. f0 = Some e \<and> pe_is_socket e)
      | BsRemove \<Rightarrow> f = f0 \<and> (\<exists>e. f0 = Some e \<and> pe_is_socket e \<and> \<not> pe_accepting e)
      | BsListen \<Rightarrow> f = f0 \<or> f = None \<and> (\<forall>e. f0 = Some e \<longrightarrow> pe_is_socket e \<and> \<not> pe_accepting e)
      | BsPermissions \<Rightarrow> (\<forall>e. f0 = Some e \<longrightarrow> pe_is_socket e \<and> \<not> pe_accepting e) \<and>
          (\<exists>e. f = Some e \<and> pe_is_socket e)
      | BsIdentify \<Rightarrow> (\<forall>e. f0 = Some e \<longrightarrow> pe_is_socket e \<and> \<not> pe_accepting e) \<and>
          (\<exists>e. f = Some e \<and> pe_is_socket e \<and> pe_mode e = 0x180)
      | BsReturned (Inl k) \<Rightarrow> f = f0 \<or> (\<forall>e. f0 = Some e \<longrightarrow> pe_is_socket e \<and> \<not> pe_accepting e)
      | BsReturned (Inr g) \<Rightarrow> (\<forall>e. f0 = Some e \<longrightarrow> pe_is_socket e \<and> \<not> pe_accepting e) \<and>
          (\<exists>e. f = Some e \<and> owns g e \<and> pe_mode e = 0x180)))"

lemma bind_step_ok: "bind_ok f0 (f, pc) \<Longrightarrow> honest f oa \<Longrightarrow> bind_ok f0 (bind_step oa (f, pc))"
  by (cases pc)
    (auto simp: bind_ok_def honest_def owns_def probe_existing_socket_def
      split: option.splits probe_result.splits sum.splits)

fun honest_run :: "os_answer list \<Rightarrow> path_entry option \<times> bind_pc \<Rightarrow> bool" where
  "honest_run [] s \<longleftrightarrow> True"
| "honest_run (oa # oas) s \<longleftrightarrow> honest (fst s) oa \<and> honest_run oas (bind_step oa s)"

lemma bind_run_ok: "bind_ok f0 s \<Longrightarrow> honest_run oas s \<Longrightarrow> bind_ok f0 (bind_run oas s)"
proof (induction oas arbitrary: s)
  case (Cons oa oas)
  then show ?case using bind_step_ok [of f0 "fst s" "snd s" oa] by simp
qed simp

lemma bind_leaves_others:
  assumes "honest_run oas (Some e, BsLook)" "\<not> pe_is_socket e \<or> pe_accepting e"
    "bind_run oas (Some e, BsLook) = (f, BsReturned r)"
  shows "f = Some e \<and> (\<exists>k. r = Inl k)"
  using bind_run_ok [of "Some e" "(Some e, BsLook)" oas] assms
  by (cases r) (auto simp: bind_ok_def)

lemma bind_guard_owns:
  assumes "honest_run oas (f0, BsLook)" "bind_run oas (f0, BsLook) = (f, BsReturned (Inr g))"
  shows "\<exists>e. f = Some e \<and> owns g e \<and> pe_mode e = 0x180" and "drop_guard g f = None"
  using bind_run_ok [of f0 "(f0, BsLook)" oas] assms
  by (auto simp: bind_ok_def drop_guard_def)

text \<open>The guard removes nothing but its own socket.\<close>

lemma drop_guard_keeps: "\<not> owns g e \<Longrightarrow> drop_guard g (Some e) = Some e"
  by (simp add: drop_guard_def)

text \<open>
  Disturbed: between the attempt and the removal another server may take the path, and its socket is
  removed; and the guard may then be that of the other's file.
\<close>

lemma bind_may_remove_live_socket:
  fixes stale other new :: path_entry
  assumes "pe_is_socket stale" "\<not> pe_accepting stale" "pe_accepting other" "pe_is_socket new"
  shows "path_step\<^sup>*\<^sup>* (Some stale, BsLook) (Some other, BsRemove)"
    and "path_step\<^sup>*\<^sup>* (Some other, BsRemove) (None, BsListen)"
proof -
  define oa where "oa = \<lparr> oa_error = None, oa_probe = ProbeFailed IoConnectionRefused, oa_socket = new \<rparr>"
  have oa: "honest (Some stale) oa" "bind_step oa (Some stale, BsLook) = (Some stale, BsProbe)"
    "bind_step oa (Some stale, BsProbe) = (Some stale, BsRemove)"
    using assms by (simp_all add: oa_def honest_def probe_existing_socket_def)
  have "path_step (Some stale, BsLook) (Some stale, BsProbe)" "path_step (Some stale, BsProbe) (Some stale, BsRemove)"
    using path_step.Bind [OF oa(1)] oa by metis+
  moreover have "path_step (Some stale, BsRemove) (Some other, BsRemove)" by (rule path_step.Others)
  ultimately show "path_step\<^sup>*\<^sup>* (Some stale, BsLook) (Some other, BsRemove)"
    by (metis (no_types) converse_rtranclp_into_rtranclp r_into_rtranclp)
  define ob where "ob = oa\<lparr> oa_probe := ProbeTimeout \<rparr>"
  have "honest (Some other) ob" "bind_step ob (Some other, BsRemove) = (None, BsListen)"
    using assms by (simp_all add: oa_def ob_def honest_def)
  then have "path_step (Some other, BsRemove) (None, BsListen)" using path_step.Bind by metis
  then show "path_step\<^sup>*\<^sup>* (Some other, BsRemove) (None, BsListen)" by simp
qed

text \<open>A path that empties itself after the look is an error, though it could be taken.\<close>

lemma emptied_path_refused:
  "oa_error oa = None \<Longrightarrow> oa_probe ob = ProbeFailed IoNotFound \<Longrightarrow>
   bind_run [ob, oa] (None, BsProbe) = (None, BsReturned (Inl IoNotFound))"
  by (simp add: probe_existing_socket_def)

section \<open>Serving\<close>

datatype conn_phase = ConnServing | ConnClosing

datatype serve_phase = SvAccepting | SvDraining | SvAborting | SvReturned "io_error_kind + unit"

record serve_state =
  sv_phase :: serve_phase
  sv_connections :: "(nat \<times> conn_phase) list"

text \<open>
  What happens: a connection comes or the listener fails, the broadcast of a shutdown, a task ends, the
  set of tasks is found empty, the deadline of the drain.
\<close>

datatype serve_event =
  SeAccept nat | SeAcceptFails io_error_kind | SeShutdown | SeTaskEnds nat | SeEmpty | SeDeadline

definition start_serving :: serve_state where
  "start_serving = \<lparr> sv_phase = SvAccepting, sv_connections = [] \<rparr>"

definition task_ends :: "nat \<Rightarrow> serve_state \<Rightarrow> serve_state option" where
  "task_ends i s =
     (if i \<in> fst ` set (sv_connections s)
      then Some (s\<lparr> sv_connections := filter (\<lambda>c. fst c \<noteq> i) (sv_connections s) \<rparr>) else None)"

text \<open>A returned loop has dropped its set of tasks, which aborts them.\<close>

definition serve_return :: "io_error_kind + unit \<Rightarrow> serve_state" where
  "serve_return r = \<lparr> sv_phase = SvReturned r, sv_connections = [] \<rparr>"

definition serve_step :: "serve_event \<Rightarrow> serve_state \<Rightarrow> serve_state option" where
  "serve_step ev s =
     (case sv_phase s of
        SvAccepting \<Rightarrow>
          (case ev of
             SeAccept i \<Rightarrow>
               if i \<in> fst ` set (sv_connections s) then None
               else Some (s\<lparr> sv_connections := (i, ConnServing) # sv_connections s \<rparr>)
           | SeAcceptFails k \<Rightarrow> Some (serve_return (Inl k))
           | SeShutdown \<Rightarrow>
               Some \<lparr> sv_phase = SvDraining, sv_connections = map (\<lambda>c. (fst c, ConnClosing)) (sv_connections s) \<rparr>
           | SeTaskEnds i \<Rightarrow> task_ends i s
           | _ \<Rightarrow> None)
      | SvDraining \<Rightarrow>
          (case ev of
             SeTaskEnds i \<Rightarrow> task_ends i s
           | SeEmpty \<Rightarrow> if sv_connections s = [] then Some (serve_return (Inr ())) else None
           | SeDeadline \<Rightarrow> Some (s\<lparr> sv_phase := SvAborting \<rparr>)
           | _ \<Rightarrow> None)
      | SvAborting \<Rightarrow>
          (case ev of
             SeTaskEnds i \<Rightarrow> task_ends i s
           | SeEmpty \<Rightarrow> if sv_connections s = [] then Some (serve_return (Inr ())) else None
           | _ \<Rightarrow> None)
      | SvReturned r \<Rightarrow> None)"

fun serve_run :: "serve_event list \<Rightarrow> serve_state \<Rightarrow> serve_state option" where
  "serve_run [] s = Some s"
| "serve_run (ev # evs) s = Option.bind (serve_step ev s) (serve_run evs)"

definition serve_ok :: "serve_state \<Rightarrow> bool" where
  "serve_ok s \<longleftrightarrow> distinct (map fst (sv_connections s)) \<and>
     (case sv_phase s of
        SvAccepting \<Rightarrow> ConnClosing \<notin> snd ` set (sv_connections s)
      | SvReturned r \<Rightarrow> sv_connections s = []
      | _ \<Rightarrow> ConnServing \<notin> snd ` set (sv_connections s))"

lemma serve_step_ok: "serve_ok s \<Longrightarrow> serve_step ev s = Some s' \<Longrightarrow> serve_ok s'"
  by (auto simp: serve_ok_def serve_step_def serve_return_def task_ends_def distinct_map_filter comp_def
      split: serve_phase.splits serve_event.splits if_splits)

lemma serve_run_ok: "serve_ok s \<Longrightarrow> serve_run evs s = Some s' \<Longrightarrow> serve_ok s'"
  by (induction evs arbitrary: s) (auto simp: Option.bind_eq_Some_conv intro: serve_step_ok)

lemma start_serving_ok: "serve_ok start_serving"
  by (simp add: serve_ok_def start_serving_def)

text \<open>
  After the broadcast no connection is taken, each that is left has been told, and every run ends: a
  step for each connection, the deadline and the last look.
\<close>

definition serve_left :: "serve_state \<Rightarrow> nat" where
  "serve_left s =
     (case sv_phase s of SvAccepting \<Rightarrow> 0 | SvReturned r \<Rightarrow> 0
      | SvDraining \<Rightarrow> length (sv_connections s) + 2 | SvAborting \<Rightarrow> length (sv_connections s) + 1)"

lemma task_ends_shorter:
  "task_ends i s = Some s' \<Longrightarrow> length (sv_connections s') < length (sv_connections s) \<and> sv_phase s' = sv_phase s"
  by (auto simp: task_ends_def length_filter_less split: if_splits)

lemma serve_step_left:
  "serve_step ev s = Some s' \<Longrightarrow> sv_phase s \<noteq> SvAccepting \<Longrightarrow>
   serve_left s' < serve_left s \<and> sv_phase s' \<noteq> SvAccepting"
  by (auto simp: serve_step_def serve_left_def serve_return_def dest: task_ends_shorter
      split: serve_phase.splits serve_event.splits if_splits)

lemma serve_shutdown_bounded:
  "serve_run evs s = Some s' \<Longrightarrow> sv_phase s \<noteq> SvAccepting \<Longrightarrow> length evs + serve_left s' \<le> serve_left s"
proof (induction evs arbitrary: s)
  case (Cons ev evs)
  then obtain m where m: "serve_step ev s = Some m" "serve_run evs m = Some s'"
    by (auto simp: Option.bind_eq_Some_conv)
  with serve_step_left [OF m(1) Cons.prems(2)] Cons.IH [of m] show ?case by force
qed simp

lemma serve_shutdown_progress:
  assumes "sv_phase s = SvDraining \<or> sv_phase s = SvAborting"
  shows "\<exists>ev s'. serve_step ev s = Some s'"
proof (cases "sv_connections s")
  case Nil
  with assms show ?thesis by (intro exI [of _ SeEmpty]) (auto simp: serve_step_def)
next
  case (Cons c cs)
  with assms show ?thesis by (intro exI [of _ "SeTaskEnds (fst c)"]) (auto simp: serve_step_def task_ends_def)
qed

section \<open>The end of the server\<close>

text \<open>
  start_api waits for the server or for a signal; on a signal it drops the server, and only then asks
  for the shutdown whose broadcast the server would have seen.
\<close>

datatype api_phase = ApServing | ApShuttingDown | ApDone "io_error_kind + unit"

record api_state =
  ap_phase :: api_phase
  ap_server :: "serve_state option"
  ap_broadcast :: bool

definition start_api_tail :: api_state where
  "start_api_tail = \<lparr> ap_phase = ApServing, ap_server = Some start_serving, ap_broadcast = False \<rparr>"

inductive api_step :: "api_state \<Rightarrow> api_state \<Rightarrow> bool" where
  Serve: "ap_server s = Some sv \<Longrightarrow> (ev = SeShutdown \<longrightarrow> ap_broadcast s) \<Longrightarrow> serve_step ev sv = Some sv' \<Longrightarrow>
     api_step s (s\<lparr> ap_server := Some sv' \<rparr>)"
| ServerReturns: "ap_phase s = ApServing \<Longrightarrow> ap_server s = Some sv \<Longrightarrow> sv_phase sv = SvReturned r \<Longrightarrow>
     api_step s (s\<lparr> ap_phase := ApDone r, ap_server := None \<rparr>)"
| Signal: "ap_phase s = ApServing \<Longrightarrow> api_step s (s\<lparr> ap_phase := ApShuttingDown, ap_server := None \<rparr>)"
| Request: "ap_phase s = ApShuttingDown \<Longrightarrow> api_step s (s\<lparr> ap_broadcast := True \<rparr>)"
| Finish: "ap_phase s = ApShuttingDown \<Longrightarrow> ap_broadcast s \<Longrightarrow> api_step s (s\<lparr> ap_phase := ApDone (Inr ()) \<rparr>)"

inductive_cases api_stepE: "api_step s s'"

definition api_ok :: "api_state \<Rightarrow> bool" where
  "api_ok s \<longleftrightarrow> (ap_broadcast s \<longrightarrow> ap_server s = None) \<and> (ap_server s \<noteq> None \<longrightarrow> ap_phase s = ApServing) \<and>
     (\<forall>sv. ap_server s = Some sv \<longrightarrow> sv_phase sv \<noteq> SvDraining \<and> sv_phase sv \<noteq> SvAborting)"

lemma serve_step_drains:
  "serve_step ev sv = Some sv' \<Longrightarrow> ev \<noteq> SeShutdown \<Longrightarrow> sv_phase sv \<noteq> SvDraining \<Longrightarrow> sv_phase sv \<noteq> SvAborting \<Longrightarrow>
   sv_phase sv' \<noteq> SvDraining \<and> sv_phase sv' \<noteq> SvAborting"
  by (auto simp: serve_step_def serve_return_def task_ends_def
      split: serve_phase.splits serve_event.splits if_splits)

lemma api_step_ok: "api_step s s' \<Longrightarrow> api_ok s \<Longrightarrow> api_ok s'"
proof (induction rule: api_step.induct)
  case (Serve s sv ev sv')
  then show ?case using serve_step_drains [of ev sv sv'] by (auto simp: api_ok_def)
qed (auto simp: api_ok_def)

text \<open>The drain is never reached: on a signal the connections that are being served are cut.\<close>

lemma drain_never_reached:
  assumes "api_step\<^sup>*\<^sup>* start_api_tail s" "ap_server s = Some sv"
  shows "sv_phase sv \<noteq> SvDraining \<and> sv_phase sv \<noteq> SvAborting"
proof -
  have start: "api_ok start_api_tail" by (simp add: api_ok_def start_api_tail_def start_serving_def)
  from assms(1) have "api_ok s" by (induction rule: rtranclp_induct) (use start api_step_ok in blast)+
  with assms(2) show ?thesis by (simp add: api_ok_def)
qed

end
