(* ===== verification/Yaml_Values.thy ===== *)
theory Yaml_Values
  imports Text_Laws Webhooks Setup_Config
begin

text \<open>
  The values of the configuration file that are written and read by hand (yaml.rs): lists of addresses
  and of networks with the star, and amounts of tokens (with format_token_amount of shared/utils.rs). A
  YAML value is a \<open>json\<close>; the texts of addresses and the parser of amounts (alloy) are parameters.
\<close>

section \<open>Reading\<close>

datatype yaml_error = InvalidType string | InvalidValue string | MissingField string

text \<open>
  What serde and alloy make of a scalar and of a text: a string, an address in a document, an address in
  a text, and an amount with its number of decimals.
\<close>

record yaml_params =
  ym_read_string :: "json \<Rightarrow> string option"
  ym_read_address :: "json \<Rightarrow> evm_address option"
  ym_show_address :: "evm_address \<Rightarrow> string"
  ym_parse_address :: "string \<Rightarrow> evm_address option"
  ym_parse_units :: "string \<Rightarrow> nat \<Rightarrow> u256 option"

definition read_string :: "yaml_params \<Rightarrow> json \<Rightarrow> yaml_error + string" where
  "read_string ym j = ok_or (InvalidType ''a string'') (ym_read_string ym j)"

definition read_address :: "yaml_params \<Rightarrow> json \<Rightarrow> yaml_error + evm_address" where
  "read_address ym j = ok_or (InvalidType ''an address'') (ym_read_address ym j)"

definition write_address :: "yaml_params \<Rightarrow> evm_address \<Rightarrow> json" where
  "write_address ym a = JStr (ym_show_address ym a)"

text \<open>The elements one after another; the first that does not read is the error.\<close>

fun read_each :: "(json \<Rightarrow> yaml_error + 'a) \<Rightarrow> json list \<Rightarrow> yaml_error + 'a list" where
  "read_each f [] = Inr []"
| "read_each f (j # js) = and_then (f j) (\<lambda>x. and_then (read_each f js) (\<lambda>xs. Inr (x # xs)))"

lemma read_each_write:
  "(\<And>x. f (w x) = Inr x) \<Longrightarrow> read_each f (map w xs) = Inr xs"
  by (induction xs) auto

section \<open>Addresses\<close>

definition write_all_or_addresses :: "yaml_params \<Rightarrow> all_or_addresses \<Rightarrow> json" where
  "write_all_or_addresses ym a =
     (case a of AllAddresses \<Rightarrow> JStr ''*'' | ListedAddresses l \<Rightarrow> JArr (map (write_address ym) l))"

definition read_all_or_addresses :: "yaml_params \<Rightarrow> json \<Rightarrow> yaml_error + all_or_addresses" where
  "read_all_or_addresses ym j =
     (case j of
        JStr s \<Rightarrow> if s = ''*'' then Inr AllAddresses else Inl (InvalidValue s)
      | JArr js \<Rightarrow> and_then (read_each (read_address ym) js) (\<lambda>l. Inr (ListedAddresses l))
      | _ \<Rightarrow> Inl (InvalidType ''either * for all addresses or a list of addresses''))"

definition write_all_or_one_or_many :: "yaml_params \<Rightarrow> all_or_one_or_many \<Rightarrow> json" where
  "write_all_or_one_or_many ym a =
     (case a of
        AoAll \<Rightarrow> JStr ''*''
      | AoOne x \<Rightarrow> write_address ym x
      | AoMany l \<Rightarrow> JArr (map (write_address ym) l))"

definition one_or_many :: "evm_address list \<Rightarrow> all_or_one_or_many" where
  "one_or_many l = (case l of [] \<Rightarrow> AoMany [] | [x] \<Rightarrow> AoOne x | _ \<Rightarrow> AoMany l)"

definition read_all_or_one_or_many :: "yaml_params \<Rightarrow> json \<Rightarrow> yaml_error + all_or_one_or_many" where
  "read_all_or_one_or_many ym j =
     (case j of
        JStr s \<Rightarrow>
          if s = ''*'' then Inr AoAll
          else (case ym_parse_address ym s of
                  None \<Rightarrow> Inl (InvalidValue ''invalid address format'') | Some x \<Rightarrow> Inr (AoOne x))
      | JArr js \<Rightarrow> and_then (read_each (read_address ym) js) (\<lambda>l. Inr (one_or_many l))
      | _ \<Rightarrow> Inl (InvalidType ''a string *, a single address, or an array of addresses''))"

section \<open>Networks\<close>

definition write_all_or_networks :: "all_or_networks \<Rightarrow> json" where
  "write_all_or_networks a =
     (case a of AllNetworks \<Rightarrow> JStr ''*'' | ListedNetworks l \<Rightarrow> JArr (map JStr l))"

definition read_all_or_networks :: "yaml_params \<Rightarrow> json \<Rightarrow> yaml_error + all_or_networks" where
  "read_all_or_networks ym j =
     (case j of
        JStr s \<Rightarrow> Inr (if s = ''*'' then AllNetworks else ListedNetworks [s])
      | JArr js \<Rightarrow> and_then (read_each (read_string ym) js) (\<lambda>l. Inr (ListedNetworks l))
      | _ \<Rightarrow> Inl (InvalidType ''either * for all networks or a list of network names''))"

section \<open>Amounts\<close>

text \<open>
  \<open>10u64.pow(decimals)\<close> wraps in a release build, and the division by its zero (from 64 decimals on)
  panics, which is \<open>None\<close>.
\<close>

definition unit_divisor :: "nat \<Rightarrow> nat" where
  "unit_divisor d = 10 ^ d mod 2 ^ 64"

definition pad_zeros :: "nat \<Rightarrow> string \<Rightarrow> string" where
  "pad_zeros width s = replicate (width - length s) CHR ''0'' @ s"

definition trim_end_zeros :: "string \<Rightarrow> string" where
  "trim_end_zeros s = rev (dropWhile (\<lambda>c. c = CHR ''0'') (rev s))"

definition format_token_amount :: "u256 \<Rightarrow> nat \<Rightarrow> string option" where
  "format_token_amount amount d =
     (let u = unit_divisor d; whole = unat amount div u; remainder = unat amount mod u
      in if u = 0 then None
         else if remainder = 0 then Some (show_digits whole)
         else Some (show_digits whole @ ''.'' @ trim_end_zeros (pad_zeros d (show_digits remainder))))"

definition format_wei_to_eth :: "u256 \<Rightarrow> string option" where
  "format_wei_to_eth wei = format_token_amount wei 18"

definition default_decimals :: nat where "default_decimals = 18"

text \<open>The fields of a token section; the decimals are a \<open>u8\<close>.\<close>

record token_amounts =
  tka_min_balance :: u256
  tka_top_up_amount :: u256
  tka_decimals :: nat

definition write_native_token :: "token_amounts \<Rightarrow> json option" where
  "write_native_token c =
     Option.bind (format_token_amount (tka_min_balance c) (tka_decimals c)) (\<lambda>m.
     Option.bind (format_token_amount (tka_top_up_amount c) (tka_decimals c)) (\<lambda>t.
       Some (JObj [(''min_balance'', JStr m), (''top_up_amount'', JStr t), (''decimals'', JNum (int (tka_decimals c)))])))"

definition read_field :: "string \<Rightarrow> json \<Rightarrow> yaml_error + json" where
  "read_field k j = ok_or (MissingField k) (json_get k j)"

definition read_decimals :: "json \<Rightarrow> yaml_error + nat" where
  "read_decimals j =
     (case json_get ''decimals'' j of
        None \<Rightarrow> Inr default_decimals
      | Some (JNum n) \<Rightarrow> if 0 \<le> n \<and> n < 256 then Inr (nat n) else Inl (InvalidValue ''decimals'')
      | Some _ \<Rightarrow> Inl (InvalidType ''u8''))"

text \<open>An amount that does not parse is zero.\<close>

definition parsed_amount :: "yaml_params \<Rightarrow> string \<Rightarrow> nat \<Rightarrow> u256" where
  "parsed_amount ym s d = (case ym_parse_units ym s d of Some x \<Rightarrow> x | None \<Rightarrow> 0)"

text \<open>Which error is reported when several fields are wrong is serde's choice, not that of the order here.\<close>

definition read_native_token :: "yaml_params \<Rightarrow> json \<Rightarrow> yaml_error + token_amounts" where
  "read_native_token ym j =
     and_then (and_then (read_field ''min_balance'' j) (read_string ym)) (\<lambda>m.
     and_then (and_then (read_field ''top_up_amount'' j) (read_string ym)) (\<lambda>t.
     and_then (read_decimals j) (\<lambda>d.
       Inr \<lparr> tka_min_balance = parsed_amount ym m d, tka_top_up_amount = parsed_amount ym t d,
             tka_decimals = d \<rparr>)))"

definition write_erc20_token :: "yaml_params \<Rightarrow> evm_address \<times> token_amounts \<Rightarrow> json option" where
  "write_erc20_token ym ac =
     (case ac of (a, c) \<Rightarrow>
       Option.bind (write_native_token c) (\<lambda>j.
         case j of JObj fs \<Rightarrow> Some (JObj ((''address'', write_address ym a) # fs)) | _ \<Rightarrow> None))"

definition read_erc20_token :: "yaml_params \<Rightarrow> json \<Rightarrow> yaml_error + evm_address \<times> token_amounts" where
  "read_erc20_token ym j =
     and_then (and_then (read_field ''address'' j) (read_address ym)) (\<lambda>a.
     and_then (read_native_token ym j) (\<lambda>c. Inr (a, c)))"

section \<open>Laws\<close>

text \<open>Addresses are shown without a star and read back; strings are read back.\<close>

definition address_texts :: "yaml_params \<Rightarrow> bool" where
  "address_texts ym \<longleftrightarrow>
     (\<forall>a. ym_parse_address ym (ym_show_address ym a) = Some a \<and>
          ym_read_address ym (JStr (ym_show_address ym a)) = Some a \<and> ym_show_address ym a \<noteq> ''*'')"

definition string_scalars :: "yaml_params \<Rightarrow> bool" where
  "string_scalars ym \<longleftrightarrow> (\<forall>s. ym_read_string ym (JStr s) = Some s)"

lemma read_write_address: "address_texts ym \<Longrightarrow> read_address ym (write_address ym a) = Inr a"
  by (simp add: read_address_def write_address_def address_texts_def)

lemma read_string_JStr: "string_scalars ym \<Longrightarrow> read_string ym (JStr s) = Inr s"
  by (simp add: read_string_def string_scalars_def)

lemma addresses_round_trip:
  assumes "address_texts ym"
  shows "read_all_or_addresses ym (write_all_or_addresses ym a) = Inr a"
    and "read_all_or_one_or_many ym (write_all_or_one_or_many ym b) = Inr (case b of AoMany l \<Rightarrow> one_or_many l | _ \<Rightarrow> b)"
proof -
  have each: "read_each (read_address ym) (map (write_address ym) l) = Inr l" for l
    by (rule read_each_write) (rule read_write_address [OF assms])
  show "read_all_or_addresses ym (write_all_or_addresses ym a) = Inr a"
    by (cases a) (simp_all add: read_all_or_addresses_def write_all_or_addresses_def each)
  show "read_all_or_one_or_many ym (write_all_or_one_or_many ym b) = Inr (case b of AoMany l \<Rightarrow> one_or_many l | _ \<Rightarrow> b)"
    using assms
    by (cases b) (simp_all add: read_all_or_one_or_many_def write_all_or_one_or_many_def each write_address_def
        address_texts_def)
qed

text \<open>A list of one address is read as this address; nothing that is asked of the value changes.\<close>

lemma one_or_many_same:
  "aom_contains (one_or_many l) = aom_contains (AoMany l)" "aom_len (one_or_many l) = aom_len (AoMany l)"
  "aom_is_empty (one_or_many l) = aom_is_empty (AoMany l)" "aom_iter (one_or_many l) = aom_iter (AoMany l)"
  by (auto simp: one_or_many_def aom_contains_def aom_len_def aom_is_empty_def aom_iter_def fun_eq_iff
      split: list.splits)

lemma networks_round_trip:
  "string_scalars ym \<Longrightarrow> read_all_or_networks ym (write_all_or_networks a) = Inr a"
  by (cases a) (simp_all add: read_all_or_networks_def write_all_or_networks_def read_each_write read_string_JStr)

section \<open>Amounts are read back\<close>

lemma digit_zero: "digit_val CHR ''0'' = Some 0"
  by (simp add: digit_val_def)

lemma digits_value_zeros: "digits_value n (replicate k CHR ''0'') = Some (n * 10 ^ k)"
  by (induction k arbitrary: n) (simp_all add: digit_zero)

lemma length_show_digits: "n < 10 ^ d \<Longrightarrow> 0 < d \<Longrightarrow> length (show_digits n) \<le> d"
proof (induction n arbitrary: d rule: show_digits.induct)
  case (1 n)
  show ?case
  proof (cases "n < 10")
    case True
    with 1 show ?thesis by (subst show_digits.simps) simp
  next
    case False
    with 1 obtain e where e: "d = Suc e" "0 < e" by (cases d; cases "d - 1") auto
    with 1 have "n div 10 < 10 ^ e" by (simp add: less_mult_imp_div_less mult.commute)
    with 1 False e show ?thesis by (subst show_digits.simps) simp
  qed
qed

lemma takeWhile_zeros: "takeWhile (\<lambda>c. c = z) xs = replicate (length (takeWhile (\<lambda>c. c = z) xs)) z"
  by (induction xs) auto

lemma trim_end_zeros_split: "\<exists>k. s = trim_end_zeros s @ replicate k CHR ''0''"
proof -
  obtain k where k: "takeWhile (\<lambda>c. c = CHR ''0'') (rev s) = replicate k CHR ''0''"
    using takeWhile_zeros [of "CHR ''0''" "rev s"] by metis
  have "rev s = replicate k CHR ''0'' @ dropWhile (\<lambda>c. c = CHR ''0'') (rev s)"
    unfolding k [symmetric] by simp
  then have "rev (rev s) = rev (replicate k CHR ''0'' @ dropWhile (\<lambda>c. c = CHR ''0'') (rev s))"
    by (rule arg_cong)
  then have "s = trim_end_zeros s @ replicate k CHR ''0''"
    by (simp add: trim_end_zeros_def)
  then show ?thesis by blast
qed

text \<open>The digits of a fraction: as many as the decimals at most, worth the remainder.\<close>

lemma fraction_digits:
  assumes "0 < r" "r < 10 ^ d"
  obtains v where "digits_value 0 (trim_end_zeros (pad_zeros d (show_digits r))) = Some v"
    "length (trim_end_zeros (pad_zeros d (show_digits r))) \<le> d"
    "v * 10 ^ (d - length (trim_end_zeros (pad_zeros d (show_digits r)))) = r"
    "trim_end_zeros (pad_zeros d (show_digits r)) \<noteq> []"
proof -
  let ?p = "pad_zeros d (show_digits r)"
  have "0 < d" using assms by (cases d) auto
  then have l: "length ?p = d" using length_show_digits [OF assms(2)] by (simp add: pad_zeros_def)
  have val: "digits_value 0 ?p = Some r"
    by (simp add: pad_zeros_def digits_value_append digits_value_zeros digits_value_show)
  obtain k where k: "?p = trim_end_zeros ?p @ replicate k CHR ''0''" using trim_end_zeros_split by blast
  have lk: "length (trim_end_zeros ?p) + k = d" using arg_cong [OF k, of length] l by simp
  have "Option.bind (digits_value 0 (trim_end_zeros ?p)) (\<lambda>v. Some (v * 10 ^ k)) = Some r"
    using val arg_cong [OF k, of "digits_value 0"] by (simp add: digits_value_append digits_value_zeros)
  then obtain v where v: "digits_value 0 (trim_end_zeros ?p) = Some v" "v * 10 ^ k = r"
    by (auto simp: Option.bind_eq_Some_conv)
  have "trim_end_zeros ?p \<noteq> []" using v assms(1) by auto
  moreover have "d - length (trim_end_zeros ?p) = k" using lk by simp
  ultimately show thesis using that [OF v(1)] v(2) lk by simp
qed

text \<open>What is documented of \<open>parse_units\<close>: a whole number, or one with at most as many digits after the point.\<close>

definition parses_units :: "yaml_params \<Rightarrow> bool" where
  "parses_units ym \<longleftrightarrow>
     (\<forall>w d. d \<le> 77 \<and> w * 10 ^ d < 2 ^ 256 \<longrightarrow> ym_parse_units ym (show_digits w) d = Some (of_nat (w * 10 ^ d))) \<and>
     (\<forall>w d fs v. d \<le> 77 \<and> fs \<noteq> [] \<and> length fs \<le> d \<and> digits_value 0 fs = Some v \<and>
        w * 10 ^ d + v * 10 ^ (d - length fs) < 2 ^ 256 \<longrightarrow>
        ym_parse_units ym (show_digits w @ ''.'' @ fs) d = Some (of_nat (w * 10 ^ d + v * 10 ^ (d - length fs))))"

lemma parses_whole:
  "parses_units ym \<Longrightarrow> d \<le> 77 \<Longrightarrow> w * 10 ^ d < 2 ^ 256 \<Longrightarrow>
   ym_parse_units ym (show_digits w) d = Some (of_nat (w * 10 ^ d))"
  unfolding parses_units_def by blast

lemma parses_fraction:
  "parses_units ym \<Longrightarrow> d \<le> 77 \<Longrightarrow> fs \<noteq> [] \<Longrightarrow> length fs \<le> d \<Longrightarrow> digits_value 0 fs = Some v \<Longrightarrow>
   w * 10 ^ d + v * 10 ^ (d - length fs) < 2 ^ 256 \<Longrightarrow>
   ym_parse_units ym (show_digits w @ ''.'' @ fs) d = Some (of_nat (w * 10 ^ d + v * 10 ^ (d - length fs)))"
  unfolding parses_units_def by blast

lemma unit_divisor_small: "d \<le> 19 \<Longrightarrow> unit_divisor d = 10 ^ d"
proof -
  assume "d \<le> 19"
  then have "(10::nat) ^ d \<le> 10 ^ 19" by (intro power_increasing) simp_all
  then show ?thesis by (simp add: unit_divisor_def)
qed

lemma token_amount_round_trip:
  assumes "parses_units ym" "d \<le> 19"
  shows "\<exists>s. format_token_amount x d = Some s \<and> ym_parse_units ym s d = Some x"
proof -
  let ?w = "unat x div 10 ^ d" and ?r = "unat x mod 10 ^ d"
  have x: "?w * 10 ^ d + ?r = unat x" by (rule div_mult_mod_eq)
  have lt: "unat x < 2 ^ 256" using unsigned_less [of x] by simp
  show ?thesis
  proof (cases "?r = 0")
    case True
    then have "?w * 10 ^ d = unat x" using x by simp
    with assms lt have "ym_parse_units ym (show_digits ?w) d = Some (of_nat (?w * 10 ^ d))"
      by (intro parses_whole) simp_all
    also have "of_nat (?w * 10 ^ d) = x" unfolding \<open>?w * 10 ^ d = unat x\<close> by simp
    finally show ?thesis using True assms by (simp add: format_token_amount_def unit_divisor_small Let_def)
  next
    case False
    then obtain v where v: "digits_value 0 (trim_end_zeros (pad_zeros d (show_digits ?r))) = Some v"
      "length (trim_end_zeros (pad_zeros d (show_digits ?r))) \<le> d"
      "v * 10 ^ (d - length (trim_end_zeros (pad_zeros d (show_digits ?r)))) = ?r"
      "trim_end_zeros (pad_zeros d (show_digits ?r)) \<noteq> []"
      using fraction_digits [of ?r d] by auto
    have "ym_parse_units ym (show_digits ?w @ ''.'' @ trim_end_zeros (pad_zeros d (show_digits ?r))) d =
        Some (of_nat (?w * 10 ^ d + v * 10 ^ (d - length (trim_end_zeros (pad_zeros d (show_digits ?r))))))"
      by (rule parses_fraction [OF assms(1) _ v(4) v(2) v(1)]) (use assms(2) in simp, use lt v(3) x in presburger)
    also have "of_nat (?w * 10 ^ d + v * 10 ^ (d - length (trim_end_zeros (pad_zeros d (show_digits ?r))))) = x"
      unfolding v(3) x by simp
    finally show ?thesis using False assms by (simp add: format_token_amount_def unit_divisor_small Let_def)
  qed
qed

lemma native_token_round_trip:
  assumes "parses_units ym" "string_scalars ym" "tka_decimals c \<le> 19"
  shows "\<exists>j. write_native_token c = Some j \<and> read_native_token ym j = Inr c"
proof -
  obtain m t where "format_token_amount (tka_min_balance c) (tka_decimals c) = Some m"
    "ym_parse_units ym m (tka_decimals c) = Some (tka_min_balance c)"
    "format_token_amount (tka_top_up_amount c) (tka_decimals c) = Some t"
    "ym_parse_units ym t (tka_decimals c) = Some (tka_top_up_amount c)"
    using token_amount_round_trip [OF assms(1,3)] by meson
  with assms(2,3) show ?thesis
    by (auto simp: write_native_token_def read_native_token_def read_field_def read_string_JStr
        read_decimals_def parsed_amount_def)
qed

text \<open>
  With more decimals the power wraps: an amount of twenty decimals is shown as another, and from
  sixty-four decimals on none is shown at all.
\<close>

lemma digit_chars:
  "char_of (48::nat) = CHR ''0''" "char_of (49::nat) = CHR ''1''" "char_of (50::nat) = CHR ''2''"
  "char_of (51::nat) = CHR ''3''" "char_of (52::nat) = CHR ''4''" "char_of (53::nat) = CHR ''5''"
  "char_of (54::nat) = CHR ''6''" "char_of (55::nat) = CHR ''7''" "char_of (56::nat) = CHR ''8''"
  "char_of (57::nat) = CHR ''9''"
  by code_simp+

lemma twenty_decimals_shown_wrong: "format_token_amount (of_nat (10 ^ 20)) 20 = Some ''12.0680464442257309696''"
  by (simp add: format_token_amount_def unit_divisor_def Let_def show_digits.simps pad_zeros_def trim_end_zeros_def
      digit_chars)

lemma sixty_four_decimals_panic: "format_token_amount x 64 = None"
  by (simp add: format_token_amount_def unit_divisor_def Let_def)

text \<open>An amount that is not understood is no error: the balance is never topped up to anything.\<close>

lemma unparsed_amount_is_zero: "ym_parse_units ym s d = None \<Longrightarrow> parsed_amount ym s d = 0"
  by (simp add: parsed_amount_def)

end
