(* ===== verification/Spec2Isabelle.thy ===== *)
theory Spec2Isabelle
  imports Handler_Properties Admission_Properties Limiter_Properties Startup_Properties System_Properties Edit_Properties Loop_Properties
    Request_Properties Setup_Properties Relayer_Properties Top_Up_Properties Cron_Properties Shutdown_Properties
    Webhook_Properties Fee_Properties Provider_Properties Relayer_Api_Properties
    Wallet_Properties Signing_Config Sql_Properties
    Sdk_Properties Sdk_Alloy Unix_Socket Yaml_Values
begin

text \<open>
  Verification of rrelayer: its core (the Rust crate src/crates/core) and its SDK (src/crates/sdk).

  The program. A relayer is an account on one chain. The server admits transactions for it over HTTP,
  stores them in PostgreSQL, gives each the next nonce of the account, and three loops per relayer take
  it through its life: pending (priced, estimated, signed, recorded, broadcast), in the mempool (polled
  for a receipt, bumped when it waits too long, possibly in competition with a cancellation or a
  replacement for the same nonce), mined (until it is confirmed). At startup the queues are rebuilt from
  the tables. Around this core stand access control, rate limits, the repository of relayers, two
  background tasks that submit transactions of their own, the delivery of webhooks, and the shutdown
  coordinator.

  Correspondence. Paths are relative to src/crates/core/src, those of the SDK to src/crates/sdk/src.

  Data and arithmetic
    Prelude              machine integers as words, results as sums, list operations, hint collections
    Tx_Types             transaction/types/*, gas/fee_estimator/base.rs, relayer/types/relayer.rs
    Nonce_Manager        transaction/nonce_manager.rs: a u64 counter
    Gas_Pricing          gas/gas_oracle.rs, gas/blob_gas_oracle.rs, prices and bumps of
                         transaction/queue_system/transactions_queue.rs (u128, wrapping or saturating as
                         the code does)
    Safe_Proxy           safe_proxy.rs: configuration, wrapping, signature bytes
    Send_Errors          classification of node errors (transactions_queue.rs, send_transaction_error.rs)

  Tables
    Tx_Db, Tx_Db_Ops     transaction/db/*: the live table and the audit log; a statement is a function on
                         both that checks the constraints, run_stmt adds the answer of the connection (the
                         statement applied, failed, or applied with its acknowledgement lost)
    Tx_Db_Laws           constraints, growth of the audit log, what queries return of what was written
    Sql_Codecs           ToSql and FromSql of the types of transaction/types, gas/types, network/types, relayer/types and
                         shared/common_types; the columns and values of PostgreSQL
    Sql_Statements       transaction/db/write.rs and builders.rs as sent: texts, placeholders, parameters, schema
    Relayer_Store        relayer/db/*, relayer/types/wallet_index.rs, the composite wallet manager

  The queue of a relayer
    Tx_Queue, Mining     transaction/queue_system/transactions_queue.rs and types/competitive_transaction.rs
    Broadcast            persist_and_broadcast; the locale attempt_store is the trait BroadcastAttemptStore
                         with its laws, interpreted on the tables
    Send_Tx              send_transaction in its stages
    Queue_Laws           the locale keyed_queue (ordered admission), interpreted on the pending queue

  The handlers (transaction/queue_system/transactions_queues.rs, start.rs, attempts.rs)
    Queues               the container and add_transaction
    Cancel_Replace       cancel_transaction, replace_transaction
    Process_Pending      process_single_pending, with close-out, landed attempts and nonce reassignment
    Process_Inmempool    process_single_inmempool, process_single_mined
    Startup              repair, reload, pairing, first nonce, new relayers, what the loops do with a result
    System               the step relation over all handlers, settings and restarts; reachable states
    Conflict_Laws        the locale nonce_store (a nonce is persisted before memory moves), interpreted on
                         the row of a transaction

  Around the core
    Rate_Limiter         rate_limiting/*: every lock section is one function with its own clock reading
    Access_Control       app_state.rs, policy/*, middleware/policy.rs, authentication/*
    Setup_Config         yaml.rs and startup.rs: validation, and the state the server keeps of the file
    Request_Api          transaction/api/{send,send_random,cancel,replace}_transaction.rs, signing/api/*
    Top_Up               background_tasks/automatic_top_up_task.rs
    Cron_Jobs            background_tasks/cron_job_task.rs and the cron jobs of yaml.rs
    Webhooks             webhooks/*, background_tasks/webhook_manager_task.rs, balance_monitor.rs
    Fee_Estimators       gas/fee_estimator/*: what each service answers, the four tiers, the choice of a service
    Evm_Provider         provider/*: the wallet manager of a chain, the agreement of several nodes, the gas limit of
                         a block, the prices of blobs; the rounds of the oracles (gas/gas_oracle.rs)
    Relayer_Api          relayer/api/*, relayer/{cache,get_relayer,queue_utils}.rs, shared/cache.rs: the handlers
                         for relayers, the cache in front of the table, the start of a queue
    Wallets              wallet/{mod,mnemonic,private_key,composite,pkcs11}*.rs: the trait of wallet managers, the
                         managers that keep keys in the process or in a token, the route between two managers
    Wallet_Services      wallet/{aws_kms,turnkey,fireblocks,privy}*.rs: the managers that call a signing service,
                         their requests, the answers they accept, their caches and (Turnkey) their mutex
    Signing_Config       yaml.rs: validation of the signing section, substitution of environment variables, the
                         reading of the file; startup of a mnemonic from the secret stores
    Shutdown             shutdown.rs: a step for every atomic access, threads interleaved
    Unix_Socket          unix_socket.rs: taking the path while others change it, the guard, serving and draining
                         connections; the end of start_api (startup.rs)
    Yaml_Values          yaml.rs: lists of addresses and networks with the star, token sections; the display of
                         amounts (shared/utils.rs)
    Read_Api             transaction/api/get_*.rs, signing/api/get_*.rs, network/api: the endpoints that only read

  The SDK
    Sdk_Http             api/http.rs, api/types.rs: URLs, headers, what a status of the server becomes
    Sdk_Calls            api/*: every call with the request it sends
    Sdk_Routes           the routes of the server (*/api/mod.rs, startup.rs) and what handlers take from a path
    Sdk_Clients          clients.rs and the wait for a receipt, a partial function: None is a wait without end
    Sdk_Alloy            alloy_integration.rs: the calls of the signer and of the provider for alloy

  State and inputs. The record sys (Queues) holds the queues, the cache, the tables, the network history
  and the webhook calls; app (Request_Api) adds the configuration, the limiter and the tables of
  signatures. What comes from outside is an argument: the answer of each database call, RPC call and
  signature, the reading of each clock, fresh identifiers, random choices. The records named *_env list
  them, one field for each call site, so every failure and every interleaving of answers is a value of
  the environment. External code (hashes, base64, JWT, ABI and address parsers, display of errors) is a
  field of a parameter record and has no law unless a theorem names one.

  What the lemmas show.
    Send_Laws, Send_Properties, Handler_Laws, Pending_Laws, Edit_Laws, Boot_Laws: identity and nonce of a
      transaction on every branch of a send; what reaches the network is recorded first; every handler
      keeps the system well formed (sys_ok).
    System_Properties: the same in every reachable state; the nonce manager refines an abstract counter;
      the pending queue is a stable sort; a receipt resolves the front of the mempool queue.
    Handler_Properties, Loop_Properties, Edit_Properties, Admission_Properties: when a nonce may move, what
      a close-out keeps, admission and its idempotence, competition for one nonce, confirmation.
    Startup_Laws, Startup_Properties: startup returns, reloads everything, hands out a free nonce, and fails
      only transactions none of whose attempts can execute.
    Limiter_Properties: requests one after another stay within the limits; a reverted reservation leaves no
      trace; concurrent ones can exceed the limit.
    Request_Properties, Setup_Properties: who can submit, as an equivalence with a specification in terms of
      the configuration; the validation of the file gives the hypothesis of that equivalence.
    Relayer_Properties, Top_Up_Properties, Cron_Properties, Shutdown_Properties: wallets of new relayers, what
      the tasks submit and how often, how a shutdown ends and when its report is right.
    Webhook_Properties: how often an endpoint is called for one delivery, and when that bound fails.
    Fee_Properties, Provider_Properties: when the prices of a tier are usable; when several nodes agree.
    Wallet_Properties: an index keeps its account in every manager (locale remembering, interpreted on five
      managers); signatures that a token or service returns become signatures of the right parity; where
      wallets are made twice, where an answer is read wrongly, and which requests wait for ever.
    Sql_Laws, Sql_Properties: what a column stores is read back (locale sql_codec, interpreted on every type);
      each write as sent is well typed and refines its function on the tables (locale write_pair, interpreted
      on the statements that update a row); a saved transaction is read back as it was.
    Sdk_Laws, Sdk_Properties: every call is routed to the handler it is meant for with its arguments; the
      credentials of a client are accepted; reads are shown to authenticated callers only; when the wait for
      a receipt ends, and with what. The router (axum) and the URLs (reqwest) are parameters whose documented
      behaviour is the hypothesis web_ok.
    Relayer_Api_Properties: the cache agrees with the table as long as requests do not overlap; what requests
      that overlap or fail half way leave behind.
    Unix_Socket: an undisturbed bind leaves alone what is not a socket or is in use, in six steps at most; the
      drain of connections ends within a bounded number of events, and is not reached through start_api.
    Yaml_Values: what is written is read back; amounts of up to nineteen decimals are read back as they were,
      under the documented behaviour of parse_units (parses_units).
    Sdk_Alloy: the provider never sends, and a hash is signed as a message.
  A proof that a component falls short of its intent is an ordinary lemma beside the properties (for
  example bump_race_ignores_live_hash, operation_runs_after_report, clone_can_share_account).

  Recursion. Loops over lists are structural. The page loop of startup is a partial function whose
  termination is proved for every table. The pages of relayers, whose rows may come in another order for
  every query, are bounded by fuel: one more than the number of relayers is enough where the order is the
  same (ordered_pages_load_all). A step of System is a
  handler that runs to its end with the queue locked; a crash inside a handler is a run whose later
  statements and broadcasts fail, followed by a restart.

  Not modelled. The RPC clients' retries, the signing of transactions of types 2930 and 7702 (the queue never
  builds one), HTTP itself and the CLI; parsing of YAML and JSON beyond the hand-written readers; the timers of the loops and tasks; the weak memory orderings of shutdown.rs.
\<close>

end
